(* ===== verification/Prelude.thy ===== *)
theory Prelude
  imports Complex_Main "HOL-Library.Char_ord" "HOL-Library.List_Lexorder" "HOL-Library.Sublist" "HOL-Library.Code_Target_Nat"
begin

text \<open>
  Shared vocabulary of the development: the named theorem collections, decimal
  printing as JavaScript template literals do it, the stable comparator sort behind
  \<^verbatim>\<open>Array.prototype.sort\<close>, first-failure validation, the result type of the
  fallible operations, and the relational-table operations (primary-key lookup, insert,
  update, delete) on which the store of \<^verbatim>\<open>sqlite-store.ts\<close> is modelled. The
  lemmas are the ones the component theories share.

  Strings are \<^typ>\<open>string\<close>; one \<^typ>\<open>char\<close> stands for one UTF-16 code unit (below
  256), so \<open>length\<close> is JavaScript's \<open>length\<close> and the lexicographic order of
  \<^verbatim>\<open>List_Lexorder\<close> is the code-unit order of the default \<^verbatim>\<open>sort()\<close> and of
  SQLite's BINARY collation.
\<close>

named_theorems table_simps \<open>look-up after a table operation\<close>
named_theorems op_defs \<open>definitions of the store operations\<close>
named_theorems row_frame \<open>what a store operation leaves alone\<close>

section \<open>Results\<close>

text \<open>
  A fallible operation returns a value, returns a typed error, or throws.
\<close>

datatype ('c, 'a) outcome = Ok 'a | Err 'c string | Threw string

fun is_ok :: "('c, 'a) outcome \<Rightarrow> bool" where
  "is_ok (Ok _) = True"
| "is_ok _ = False"

text \<open>
  A validator runs its guards in order and reports the first that fires; \<open>guard\<close>
  lists the guards with the errors they report.
\<close>

fun first_error :: "(bool \<times> 'e) list \<Rightarrow> 'e option" where
  "first_error [] = None"
| "first_error ((bad, e) # gs) = (if bad then Some e else first_error gs)"

fun first_some :: "('a \<Rightarrow> 'e option) \<Rightarrow> 'a list \<Rightarrow> 'e option" where
  "first_some f [] = None"
| "first_some f (x # xs) = (case f x of Some e \<Rightarrow> Some e | None \<Rightarrow> first_some f xs)"

fun or_else :: "'e option \<Rightarrow> 'e option \<Rightarrow> 'e option" where
  "or_else (Some e) _ = Some e"
| "or_else None r = r"

lemma first_error_None: "first_error gs = None \<longleftrightarrow> (\<forall>g \<in> set gs. \<not> fst g)"
  by (induction gs) (auto split: if_splits)

lemma first_some_None [simp]: "first_some f xs = None \<longleftrightarrow> (\<forall>x \<in> set xs. f x = None)"
  by (induction xs) (auto split: option.splits)

lemma or_else_None [simp]: "or_else a b = None \<longleftrightarrow> a = None \<and> b = None"
  by (cases a) auto

lemma if_Some_None: "(if b then Some x else None) = None \<longleftrightarrow> \<not> b" "(if b then None else Some x) = None \<longleftrightarrow> b"
  by simp_all

lemma first_error_mem: "first_error gs = Some e \<Longrightarrow> (True, e) \<in> set gs"
  by (induction gs) (auto split: if_splits)

lemma first_error_Cons [simp]:
  "first_error ((b, e) # gs) = None \<longleftrightarrow> \<not> b \<and> first_error gs = None"
  "first_error ((True, e) # gs) = Some e"
  "first_error ((False, e) # gs) = first_error gs"
  by simp_all

declare first_error.simps(2) [simp del]

lemma find_SomeD: "find P xs = Some x \<Longrightarrow> x \<in> set xs \<and> P x"
  by (auto simp: find_Some_iff)

section \<open>Decimal printing\<close>

fun nat_str :: "nat \<Rightarrow> string" where
  "nat_str n = (if n < 10 then [char_of (48 + n)] else nat_str (n div 10) @ [char_of (48 + n mod 10)])"

declare nat_str.simps [simp del]

definition int_str :: "int \<Rightarrow> string" where
  "int_str i = (if i < 0 then CHR ''-'' # nat_str (nat (- i)) else nat_str (nat i))"

definition digit_chars :: "char set" where
  "digit_chars = {c. 48 \<le> (of_char c :: nat) \<and> (of_char c :: nat) < 58}"

lemma digit_char: "(n::nat) < 10 \<Longrightarrow> (char_of (48 + n) :: char) \<in> digit_chars"
  by (simp add: digit_chars_def)

lemma nat_str_digits: "set (nat_str n) \<subseteq> digit_chars"
proof (induction n rule: nat_str.induct)
  case (1 n)
  then show ?case by (subst nat_str.simps) (auto simp: digit_char)
qed

lemma nat_str_nonempty [simp]: "nat_str n \<noteq> []"
  by (subst nat_str.simps) simp

lemma char_of_digit_inj: "a < 10 \<Longrightarrow> b < 10 \<Longrightarrow> (char_of (48 + a) :: char) = char_of (48 + b) \<Longrightarrow> a = (b::nat)"
  by (drule arg_cong [where f = "of_char :: char \<Rightarrow> nat"]) simp

lemma nat_str_singleton: "length (nat_str n) = 1 \<longleftrightarrow> n < 10"
  by (subst nat_str.simps) simp

lemma nat_str_inj: "nat_str m = nat_str n \<Longrightarrow> m = n"
proof (induction m arbitrary: n rule: nat_str.induct)
  case (1 m)
  show ?case
  proof (cases "m < 10")
    case True
    then have "n < 10" using "1.prems" nat_str_singleton by metis
    with True "1.prems" show ?thesis
      by (auto simp: nat_str.simps [of m] nat_str.simps [of n] intro: char_of_digit_inj)
  next
    case False
    then have "\<not> n < 10" using "1.prems" nat_str_singleton by metis
    with False "1.prems" have eq: "nat_str (m div 10) = nat_str (n div 10)"
      and last: "(char_of (48 + m mod 10) :: char) = char_of (48 + n mod 10)"
      by (auto simp: nat_str.simps [of m] nat_str.simps [of n])
    from "1.IH" [OF False eq] have "m div 10 = n div 10" .
    moreover from last have "m mod 10 = n mod 10" by (rule char_of_digit_inj [rotated 2]) auto
    ultimately show ?thesis by (metis div_mult_mod_eq)
  qed
qed

lemma nat_str_eq_iff [simp]: "nat_str m = nat_str n \<longleftrightarrow> m = n"
  using nat_str_inj by blast

text \<open>A separator that occurs in neither prefix splits a string in one way only.\<close>

lemma append_sep_inject:
  "c \<notin> set xs \<Longrightarrow> c \<notin> set xs' \<Longrightarrow> xs @ c # ys = xs' @ c # ys' \<longleftrightarrow> xs = xs' \<and> ys = ys'"
proof (induction xs arbitrary: xs')
  case Nil
  then show ?case by (cases xs') auto
next
  case (Cons x xs)
  then show ?case by (cases xs') auto
qed

section \<open>Sorting with a comparator\<close>

text \<open>
  \<^verbatim>\<open>xs.sort(cmp)\<close> is stable; for a consistent comparator (a total preorder) every
  stable sort computes the same list, so insertion sort models it.
\<close>

fun insert_by :: "('a \<Rightarrow> 'a \<Rightarrow> int) \<Rightarrow> 'a \<Rightarrow> 'a list \<Rightarrow> 'a list" where
  "insert_by cmp x [] = [x]"
| "insert_by cmp x (y # ys) = (if cmp x y \<le> 0 then x # y # ys else y # insert_by cmp x ys)"

definition sort_by :: "('a \<Rightarrow> 'a \<Rightarrow> int) \<Rightarrow> 'a list \<Rightarrow> 'a list" where
  "sort_by cmp xs = foldr (insert_by cmp) xs []"

lemma set_insert_by [simp]: "set (insert_by cmp x xs) = insert x (set xs)"
  by (induction xs) auto

lemma set_sort_by [simp]: "set (sort_by cmp xs) = set xs"
  by (induction xs) (auto simp: sort_by_def)

lemma length_insert_by [simp]: "length (insert_by cmp x xs) = Suc (length xs)"
  by (induction xs) auto

lemma length_sort_by [simp]: "length (sort_by cmp xs) = length xs"
  by (induction xs) (auto simp: sort_by_def)

lemma distinct_insert_by: "distinct (map f (insert_by cmp x xs)) \<longleftrightarrow> distinct (f x # map f xs)"
  by (induction xs) auto

lemma distinct_map_sort_by [simp]: "distinct (map f (sort_by cmp xs)) \<longleftrightarrow> distinct (map f xs)"
proof (induction xs)
  case Nil
  then show ?case by (simp add: sort_by_def)
next
  case (Cons x xs)
  have "sort_by cmp (x # xs) = insert_by cmp x (sort_by cmp xs)" by (simp add: sort_by_def)
  then show ?case using Cons by (simp add: distinct_insert_by)
qed

definition consistent_cmp :: "('a \<Rightarrow> 'a \<Rightarrow> int) \<Rightarrow> bool" where
  "consistent_cmp cmp \<longleftrightarrow> (\<forall>x y. cmp x y \<le> 0 \<or> cmp y x \<le> 0)
     \<and> (\<forall>x y z. cmp x y \<le> 0 \<longrightarrow> cmp y z \<le> 0 \<longrightarrow> cmp x z \<le> 0)"

lemma sorted_insert_by:
  assumes "consistent_cmp cmp" "sorted_wrt (\<lambda>x y. cmp x y \<le> 0) xs"
  shows "sorted_wrt (\<lambda>x y. cmp x y \<le> 0) (insert_by cmp x xs)"
  using assms(2)
proof (induction xs)
  case Nil
  then show ?case by simp
next
  case (Cons y ys)
  have tot: "cmp y x \<le> 0" if "\<not> cmp x y \<le> 0"
    using assms(1) that unfolding consistent_cmp_def by blast
  have tr: "cmp x z \<le> 0" if "cmp x y \<le> 0" "cmp y z \<le> 0" for z
    using assms(1) that unfolding consistent_cmp_def by blast
  show ?case using Cons tot tr by (auto simp del: not_le)
qed

lemma sorted_sort_by: "consistent_cmp cmp \<Longrightarrow> sorted_wrt (\<lambda>x y. cmp x y \<le> 0) (sort_by cmp xs)"
  by (induction xs) (auto simp: sort_by_def sorted_insert_by)

section \<open>Tables\<close>

text \<open>
  A table is the list of its rows in rowid order. \<open>t_get\<close> is
  \<^verbatim>\<open>SELECT \<dots> WHERE key = ?\<close> with \<^verbatim>\<open>get\<close>, \<open>t_update\<close> an
  \<^verbatim>\<open>UPDATE \<dots> WHERE key = ?\<close> and \<open>t_delete\<close> a \<^verbatim>\<open>DELETE \<dots> WHERE key = ?\<close>;
  an insert appends a row, after the caller has tested the primary key.
\<close>

definition t_get :: "('r \<Rightarrow> 'k) \<Rightarrow> 'k \<Rightarrow> 'r list \<Rightarrow> 'r option" where
  "t_get key k rows = find (\<lambda>r. key r = k) rows"

definition t_update :: "('r \<Rightarrow> 'k) \<Rightarrow> 'k \<Rightarrow> ('r \<Rightarrow> 'r) \<Rightarrow> 'r list \<Rightarrow> 'r list" where
  "t_update key k f rows = map (\<lambda>r. if key r = k then f r else r) rows"

definition t_delete :: "('r \<Rightarrow> 'k) \<Rightarrow> 'k \<Rightarrow> 'r list \<Rightarrow> 'r list" where
  "t_delete key k rows = filter (\<lambda>r. key r \<noteq> k) rows"

definition t_unique :: "('r \<Rightarrow> 'k) \<Rightarrow> 'r list \<Rightarrow> bool" where
  "t_unique key rows \<longleftrightarrow> distinct (map key rows)"

lemma t_get_Nil [simp]: "t_get key k [] = None"
  by (simp add: t_get_def)

lemma t_get_Cons: "t_get key k (r # rows) = (if key r = k then Some r else t_get key k rows)"
  by (simp add: t_get_def)

lemma t_get_None [simp]: "t_get key k rows = None \<longleftrightarrow> k \<notin> key ` set rows"
  by (auto simp: t_get_def find_None_iff)

lemma t_getD: "t_get key k rows = Some r \<Longrightarrow> r \<in> set rows \<and> key r = k"
  by (auto simp: t_get_def find_Some_iff)

lemma t_get_image: "t_get key k rows = Some r \<Longrightarrow> k \<in> key ` set rows"
  by (drule t_getD) auto

lemma t_get_key: "t_get key k rows = Some r \<Longrightarrow> key r = k"
  by (auto dest: t_getD)

lemma t_get_append [table_simps]:
  "t_get key k (rows @ rows') = (case t_get key k rows of None \<Rightarrow> t_get key k rows' | Some r \<Rightarrow> Some r)"
  by (induction rows) (auto simp: t_get_Cons)

lemma t_get_prefix: "prefix rows rows' \<Longrightarrow> t_get key k rows = Some r \<Longrightarrow> t_get key k rows' = Some r"
  by (auto simp: prefix_def t_get_append)

lemma t_get_update [table_simps]:
  assumes "\<And>r. key r = k \<Longrightarrow> key (f r) = k"
  shows "t_get key k' (t_update key k f rows) =
    (if k' = k then map_option f (t_get key k rows) else t_get key k' rows)"
  using assms by (induction rows) (auto simp: t_update_def t_get_Cons)

lemma t_get_update_other:
  "k' \<noteq> k \<Longrightarrow> (\<And>r. key r = k \<Longrightarrow> key (f r) = k) \<Longrightarrow> t_get key k' (t_update key k f rows) = t_get key k' rows"
  by (subst t_get_update) auto

lemma t_get_delete [table_simps]:
  "t_get key k' (t_delete key k rows) = (if k' = k then None else t_get key k' rows)"
  by (induction rows) (auto simp: t_delete_def t_get_Cons)

lemma t_unique_get: "t_unique key rows \<Longrightarrow> r \<in> set rows \<Longrightarrow> t_get key (key r) rows = Some r"
  by (induction rows) (auto simp: t_unique_def t_get_Cons)

lemma t_unique_get_iff: "t_unique key rows \<Longrightarrow> t_get key k rows = Some r \<longleftrightarrow> r \<in> set rows \<and> key r = k"
  using t_unique_get [of key rows r] t_getD [of key k rows r] by auto

lemma t_unique_Nil [simp]: "t_unique key []"
  by (simp add: t_unique_def)

lemma t_unique_single [simp]: "t_unique key [r]"
  by (simp add: t_unique_def)

lemma t_unique_snoc: "t_unique key rows \<Longrightarrow> t_get key (key r) rows = None \<Longrightarrow> t_unique key (rows @ [r])"
  by (auto simp: t_unique_def)

lemma map_key_update:
  assumes "\<And>r. key r = k \<Longrightarrow> key (f r) = k"
  shows "map key (t_update key k f rows) = map key rows"
  using assms by (induction rows) (auto simp: t_update_def)

lemma t_unique_update:
  "(\<And>r. key r = k \<Longrightarrow> key (f r) = k) \<Longrightarrow> t_unique key (t_update key k f rows) \<longleftrightarrow> t_unique key rows"
  by (simp add: t_unique_def map_key_update)

lemma t_unique_delete: "t_unique key rows \<Longrightarrow> t_unique key (t_delete key k rows)"
  by (induction rows) (auto simp: t_unique_def t_delete_def)

lemma set_t_update: "set (t_update key k f rows) = (\<lambda>r. if key r = k then f r else r) ` set rows"
  by (simp add: t_update_def)

lemma length_t_update [simp]: "length (t_update key k f rows) = length rows"
  by (simp add: t_update_def)

lemma bex_t_update: "(\<exists>r \<in> set (t_update key k f rows). P r) \<longleftrightarrow> (\<exists>r \<in> set rows. P (if key r = k then f r else r))"
  by (auto simp: t_update_def)

lemma ball_t_update: "(\<forall>r \<in> set (t_update key k f rows). P r) \<longleftrightarrow> (\<forall>r \<in> set rows. P (if key r = k then f r else r))"
  by (auto simp: t_update_def)

lemma map_t_update [simp]: "(\<And>r. g (f r) = g r) \<Longrightarrow> map g (t_update key k f rows) = map g rows"
  by (induction rows) (auto simp: t_update_def)

lemma image_t_update [simp]: "(\<And>r. g (f r) = g r) \<Longrightarrow> g ` set (t_update key k f rows) = g ` set rows"
  by (metis map_t_update set_map)

lemma t_unique_t_update [simp]: "(\<And>r. g (f r) = g r) \<Longrightarrow> t_unique g (t_update key k f rows) \<longleftrightarrow> t_unique g rows"
  by (simp add: t_unique_def)

lemma t_unique_append:
  "t_unique g (rows @ rows') \<longleftrightarrow> t_unique g rows \<and> t_unique g rows' \<and> (\<forall>r \<in> set rows'. g r \<notin> g ` set rows)"
  unfolding t_unique_def map_append distinct_append set_map disjoint_iff by blast

lemma set_t_delete [simp]: "set (t_delete key k rows) = {r \<in> set rows. key r \<noteq> k}"
  by (auto simp: t_delete_def)

section \<open>Runs of a transition system\<close>

text \<open>
  What a component promises of its steps, and what then holds along every run: an
  invariant of the states, and a guarantee that relates any two states of a run.
\<close>

locale invariant_system =
  fixes step :: "'s \<Rightarrow> 's \<Rightarrow> bool" and start :: 's and inv :: "'s \<Rightarrow> bool"
  assumes inv_start: "inv start"
    and inv_step: "inv s \<Longrightarrow> step s t \<Longrightarrow> inv t"
begin

lemma inv_run: "inv s \<Longrightarrow> step\<^sup>*\<^sup>* s t \<Longrightarrow> inv t"
  by (rotate_tac, induction rule: rtranclp_induct) (auto intro: inv_step)

lemma inv_reachable: "step\<^sup>*\<^sup>* start t \<Longrightarrow> inv t"
  by (rule inv_run [OF inv_start])

end

locale guarantee_system =
  fixes step :: "'s \<Rightarrow> 's \<Rightarrow> bool" and inv :: "'s \<Rightarrow> bool" and guar :: "'s \<Rightarrow> 's \<Rightarrow> bool"
  assumes guar_refl: "inv s \<Longrightarrow> guar s s"
    and guar_trans: "guar s t \<Longrightarrow> guar t u \<Longrightarrow> guar s u"
    and inv_kept: "inv s \<Longrightarrow> step s t \<Longrightarrow> inv t"
    and guar_step: "inv s \<Longrightarrow> step s t \<Longrightarrow> guar s t"
begin

lemma guar_run: "step\<^sup>*\<^sup>* s t \<Longrightarrow> inv s \<Longrightarrow> guar s t \<and> inv t"
  by (induction rule: rtranclp_induct) (auto intro: guar_refl guar_trans inv_kept guar_step)

end

end
