(* ===== verification/Js_Values.thy ===== *)
theory Js_Values
  imports Prelude
begin

text \<open>
  The JavaScript values that cross the validated boundaries of the program, and the
  parts of the language's standard library the source applies to them: own keys and
  property reads, number tests, \<^verbatim>\<open>JSON.stringify\<close> and string splitting.

  An object is its prototype (as far as \<open>isPlainObject\<close> looks at it) and its own
  enumerable fields in property order. Numbers are finite rationals or one of the
  three non-finite IEEE values; comparisons with NaN are false. A Date is its time
  value in milliseconds, None for an invalid date. \<open>Opaque\<close> stands for symbols, functions and bigints. Accessors and proxies are outside
  the model: reading a field is a look-up.
\<close>

datatype proto = ObjectPrototype | NullPrototype | OtherPrototype

datatype js_num = Fin rat | NaN | PosInf | NegInf

type_synonym js_date = "int option"

datatype js =
    Undefined
  | Null
  | Bool bool
  | Num js_num
  | Str string
  | Arr "js list"
  | Obj proto "(string \<times> js) list"
  | DateObj js_date
  | Opaque

abbreviation JInt :: "int \<Rightarrow> js" where
  "JInt n \<equiv> Num (Fin (of_int n))"

abbreviation plain :: "(string \<times> js) list \<Rightarrow> js" where
  "plain \<equiv> Obj ObjectPrototype"

section \<open>Objects\<close>

fun isPlainObject :: "js \<Rightarrow> bool" where
  "isPlainObject (Obj p _) = (p \<noteq> OtherPrototype)"
| "isPlainObject _ = False"

text \<open>The looser test of the other domains: every object that is not an array counts.\<close>

fun is_object :: "js \<Rightarrow> bool" where
  "is_object (Obj _ _) = True"
| "is_object (DateObj _) = True"
| "is_object _ = False"

fun js_truthy :: "js \<Rightarrow> bool" where
  "js_truthy Undefined = False"
| "js_truthy Null = False"
| "js_truthy (Bool b) = b"
| "js_truthy (Num n) = (n \<noteq> Fin 0 \<and> n \<noteq> NaN)"
| "js_truthy (Str s) = (s \<noteq> [])"
| "js_truthy _ = True"

fun Object_keys :: "js \<Rightarrow> string list" where
  "Object_keys (Obj _ fs) = map fst fs"
| "Object_keys _ = []"

definition hasOwnField :: "js \<Rightarrow> string \<Rightarrow> bool" where
  "hasOwnField v k = (k \<in> set (Object_keys v))"

fun fld :: "js \<Rightarrow> string \<Rightarrow> js" where
  "fld (Obj _ fs) k = (case map_of fs k of Some x \<Rightarrow> x | None \<Rightarrow> Undefined)"
| "fld _ k = Undefined"

definition ownOrMissing :: "js \<Rightarrow> string \<Rightarrow> bool" where
  "ownOrMissing v k = (hasOwnField v k \<or> fld v k = Undefined)"

definition hasExactKeys :: "js \<Rightarrow> string list \<Rightarrow> bool" where
  "hasExactKeys v allowed =
     (isPlainObject v
      \<and> length (Object_keys v) = length allowed
      \<and> list_all (\<lambda>k. k \<in> set allowed) (Object_keys v)
      \<and> list_all (hasOwnField v) allowed)"

text \<open>The first own key outside the allowed set, which the scans of the validators report.\<close>

definition unknown_key :: "js \<Rightarrow> string list \<Rightarrow> string option" where
  "unknown_key v allowed = find (\<lambda>k. k \<notin> set allowed) (Object_keys v)"

section \<open>Reads by type\<close>

fun isNonEmptyString :: "js \<Rightarrow> nat \<Rightarrow> bool" where
  "isNonEmptyString (Str s) mx = (0 < length s \<and> length s \<le> mx)"
| "isNonEmptyString _ mx = False"

fun isOptionalString :: "js \<Rightarrow> nat \<Rightarrow> bool" where
  "isOptionalString Undefined mx = True"
| "isOptionalString (Str s) mx = (length s \<le> mx)"
| "isOptionalString _ mx = False"

fun is_array :: "js \<Rightarrow> bool" where
  "is_array (Arr _) = True"
| "is_array _ = False"

fun items :: "js \<Rightarrow> js list" where
  "items (Arr xs) = xs"
| "items _ = []"

fun js_str :: "js \<Rightarrow> string" where
  "js_str (Str s) = s"
| "js_str _ = []"

fun js_opt_str :: "js \<Rightarrow> string option" where
  "js_opt_str (Str s) = Some s"
| "js_opt_str _ = None"

section \<open>Numbers\<close>

fun is_integer :: "js_num \<Rightarrow> bool" where
  "is_integer (Fin r) = (of_int \<lfloor>r\<rfloor> = r)"
| "is_integer _ = False"

fun num_lt :: "js_num \<Rightarrow> js_num \<Rightarrow> bool" where
  "num_lt (Fin a) (Fin b) = (a < b)"
| "num_lt (Fin _) PosInf = True"
| "num_lt NegInf (Fin _) = True"
| "num_lt NegInf PosInf = True"
| "num_lt _ _ = False"

fun isPositiveInteger :: "js \<Rightarrow> bool" where
  "isPositiveInteger (Num n) = (is_integer n \<and> \<not> num_lt n (Fin 1))"
| "isPositiveInteger _ = False"

fun js_int :: "js \<Rightarrow> int" where
  "js_int (Num (Fin r)) = \<lfloor>r\<rfloor>"
| "js_int _ = 0"

fun js_number :: "js \<Rightarrow> js_num" where
  "js_number (Num n) = n"
| "js_number _ = NaN"

lemma isPositiveInteger_JInt [simp]: "isPositiveInteger (JInt n) \<longleftrightarrow> 1 \<le> n"
proof -
  have "\<not> (of_int n < (1::rat)) \<longleftrightarrow> 1 \<le> n" by (simp add: not_less)
  then show ?thesis by simp
qed

lemma isPositiveIntegerD: "isPositiveInteger v \<Longrightarrow> \<exists>n. v = JInt n \<and> 1 \<le> n"
proof (cases v)
  case (Num n)
  assume "isPositiveInteger v"
  with Num obtain r where r: "n = Fin r" "of_int \<lfloor>r\<rfloor> = r" "1 \<le> r"
    by (cases n) auto
  then have "v = JInt \<lfloor>r\<rfloor>" "1 \<le> \<lfloor>r\<rfloor>" using Num by (auto simp: le_floor_iff)
  then show ?thesis by blast
qed auto

lemma isNonEmptyStringD: "isNonEmptyString v mx \<Longrightarrow> \<exists>s. v = Str s \<and> s \<noteq> [] \<and> length s \<le> mx"
  by (cases v) auto

lemma isNonEmptyString_js_str: "isNonEmptyString v mx \<Longrightarrow> js_str v \<noteq> [] \<and> length (js_str v) \<le> mx"
  by (cases v) auto

lemma num_lt_NaN [simp]: "\<not> num_lt NaN x" "\<not> num_lt x NaN"
  by (cases x; simp)+

section \<open>Strings\<close>

fun split_on :: "(char \<Rightarrow> bool) \<Rightarrow> string \<Rightarrow> string list" where
  "split_on P [] = [[]]"
| "split_on P (c # cs) =
     (if P c then [] # split_on P cs
      else (case split_on P cs of [] \<Rightarrow> [[c]] | w # ws \<Rightarrow> (c # w) # ws))"

fun join_with :: "string \<Rightarrow> string list \<Rightarrow> string" where
  "join_with sep [] = []"
| "join_with sep [x] = x"
| "join_with sep (x # y # xs) = x @ sep @ join_with sep (y # xs)"

definition is_ws :: "char \<Rightarrow> bool" where
  "is_ws c = (let n = of_char c :: nat in n \<in> {9, 10, 11, 12, 13, 32, 160})"

definition trim :: "string \<Rightarrow> string" where
  "trim s = rev (dropWhile is_ws (rev (dropWhile is_ws s)))"

lemma split_on_nonempty [simp]: "split_on P s \<noteq> []"
  by (induction s) (auto split: list.splits)

section \<open>JSON text\<close>

text \<open>
  The values the store serialises are built from strings, integers, arrays and objects;
  a field whose value is undefined is left out of the object, as
  \<^verbatim>\<open>JSON.stringify\<close> leaves it out of the text.
\<close>

datatype json = JStr string | JNum int | JArr "json list" | JObj "(string \<times> json) list"

definition hex_digit :: "nat \<Rightarrow> char" where
  "hex_digit n = (if n < 10 then char_of (48 + n) else char_of (87 + n))"

definition json_escape :: "char \<Rightarrow> string" where
  "json_escape c =
     (let n = of_char c :: nat in
      if n = 34 then [CHR 0x5C, CHR 0x22]
      else if n = 92 then [CHR 0x5C, CHR 0x5C]
      else if n = 8 then [CHR 0x5C, CHR ''b'']
      else if n = 9 then [CHR 0x5C, CHR ''t'']
      else if n = 10 then [CHR 0x5C, CHR ''n'']
      else if n = 12 then [CHR 0x5C, CHR ''f'']
      else if n = 13 then [CHR 0x5C, CHR ''r'']
      else if n < 32 then [CHR 0x5C, CHR ''u'', CHR ''0'', CHR ''0'', hex_digit (n div 16), hex_digit (n mod 16)]
      else [c])"

definition json_quote :: "string \<Rightarrow> string" where
  "json_quote s = CHR 0x22 # concat (map json_escape s) @ [CHR 0x22]"

fun JSON_stringify :: "json \<Rightarrow> string" where
  "JSON_stringify (JStr s) = json_quote s"
| "JSON_stringify (JNum n) = int_str n"
| "JSON_stringify (JArr xs) = ''['' @ join_with '','' (map JSON_stringify xs) @ '']''"
| "JSON_stringify (JObj fs) =
     ''{'' @ join_with '','' (map (\<lambda>f. json_quote (fst f) @ '':'' @ JSON_stringify (snd f)) fs) @ ''}''"

end
