(* ===== verification/Approved_Models.thy ===== *)
theory Approved_Models
  imports Js_Values
begin

text \<open>
  The approved-model registry (\<^verbatim>\<open>model-routing-and-evaluation/approved-models.ts\<close>): the
  five model identifiers, their capability ranks, the membership test and the parser,
  and the provider and model parts of an identifier.
\<close>

definition APPROVED_MODELS :: "string list" where
  "APPROVED_MODELS =
     [''openai-codex/gpt-5.6-luna'',
      ''moonshot/kimi-k2.7-code'',
      ''openai-codex/gpt-5.6-terra'',
      ''moonshot/kimi-k3'',
      ''openai-codex/gpt-5.6-sol'']"

definition CANONICAL_CAPABILITY_ORDER :: "string list" where
  "CANONICAL_CAPABILITY_ORDER = APPROVED_MODELS"

definition CAPABILITY_RANK :: "(string \<times> int) list" where
  "CAPABILITY_RANK =
     [(''openai-codex/gpt-5.6-luna'', 1),
      (''moonshot/kimi-k2.7-code'', 2),
      (''openai-codex/gpt-5.6-terra'', 3),
      (''moonshot/kimi-k3'', 4),
      (''openai-codex/gpt-5.6-sol'', 5)]"

fun isApprovedModelId :: "js \<Rightarrow> bool" where
  "isApprovedModelId (Str s) = (s \<in> set APPROVED_MODELS)"
| "isApprovedModelId _ = False"

text \<open>Throwing is None; the printed value of the message is not modelled.\<close>

definition parseModelId :: "js \<Rightarrow> string option" where
  "parseModelId v = (if isApprovedModelId v then Some (js_str v) else None)"

text \<open>Reading the rank of an identifier outside the registry yields undefined: None.\<close>

definition getCapabilityRank :: "string \<Rightarrow> int option" where
  "getCapabilityRank m = map_of CAPABILITY_RANK m"

definition compareCapability :: "string \<Rightarrow> string \<Rightarrow> int option" where
  "compareCapability a b =
     (case (getCapabilityRank a, getCapabilityRank b) of (Some x, Some y) \<Rightarrow> Some (x - y) | _ \<Rightarrow> None)"

definition getProvider :: "string \<Rightarrow> string" where
  "getProvider m = hd (split_on (\<lambda>c. c = CHR ''/'') m)"

text \<open>The second component is undefined (None) when the identifier has no slash.\<close>

definition getModelName :: "string \<Rightarrow> string option" where
  "getModelName m = (case split_on (\<lambda>c. c = CHR ''/'') m of _ # n # _ \<Rightarrow> Some n | _ \<Rightarrow> None)"

lemma isApprovedModelIdD: "isApprovedModelId v \<Longrightarrow> \<exists>s. v = Str s \<and> s \<in> set APPROVED_MODELS"
  by (cases v) auto

lemma approved_nonempty: "s \<in> set APPROVED_MODELS \<Longrightarrow> s \<noteq> []"
  by (auto simp: APPROVED_MODELS_def)

lemma getCapabilityRank_approved:
  "s \<in> set APPROVED_MODELS \<Longrightarrow> \<exists>r. getCapabilityRank s = Some r \<and> 1 \<le> r \<and> r \<le> 5"
  by (auto simp: APPROVED_MODELS_def getCapabilityRank_def CAPABILITY_RANK_def)

lemma getCapabilityRank_dom: "getCapabilityRank s = Some r \<Longrightarrow> s \<in> set APPROVED_MODELS"
  by (auto simp: APPROVED_MODELS_def getCapabilityRank_def CAPABILITY_RANK_def split: if_splits)

lemma getCapabilityRank_inj:
  "getCapabilityRank a = Some r \<Longrightarrow> getCapabilityRank b = Some r \<Longrightarrow> a = b"
  by (auto simp: getCapabilityRank_def CAPABILITY_RANK_def split: if_splits)

end
