(* ===== verification/Orch_Contracts.thy ===== *)
theory Orch_Contracts
  imports Approved_Models
begin

text \<open>
  The contracts of the Orchestration domain (\<^verbatim>\<open>orchestration/contracts.ts\<close>,
  \<^verbatim>\<open>lifecycle.ts\<close>): node states and their transitions, approved work, error codes and
  limits, the validators of queue envelopes, lease commands and builder routing, the
  artifact-locator check, and the empirical scheduling policy.
\<close>

section \<open>Data\<close>

datatype node_state = Pending | Ready | In_progress | Passed | Failed

datatype work_origin = Decomposition | Direct_task

record approved_node =
  an_id :: string
  an_intent :: string
  an_change_spec :: string
  an_acceptance_criteria :: "string list"
  an_depends_on :: "string list"
  an_criteria_origin_source :: work_origin
  an_criteria_origin_source_id :: string

record approved_work =
  aw_work_id :: string
  aw_origin :: work_origin
  aw_repo :: string
  aw_branch :: string
  aw_payload_hash :: string
  aw_approval_id :: "string option"
  aw_approved_at :: "string option"
  aw_approved_head :: "string option"
  aw_nodes :: "approved_node list"

record imported_work =
  iw_work_id :: string
  iw_version :: int

record classified_overlap =
  co_node_id :: string
  co_confidence :: js_num
  co_likely_touched_units :: "string list"
  co_shared_surfaces :: "string list"

record predicted_touch_evidence =
  ev_evidence_id :: string
  ev_repo :: string
  ev_approved_head :: string
  ev_graph_revision :: string
  ev_manifest_digest :: string
  ev_algorithm_version :: string
  ev_policy_version :: string
  ev_gate1_approval_id :: string
  ev_classified_overlaps :: "classified_overlap list"

datatype scheduling_decision = Optimistic string | Serialize string string

record scheduling_policy =
  pol_version :: string
  pol_classify :: "string \<Rightarrow> classified_overlap list \<Rightarrow> string list \<Rightarrow> scheduling_decision"

record queue_envelope =
  qe_job_id :: string
  qe_attempt_id :: string
  qe_node_id :: string
  qe_work_id :: string

record worker_result =
  wr_result_id :: string
  wr_attempt_id :: string
  wr_node_id :: string
  wr_work_id :: string
  wr_outcome :: node_state
  wr_phase :: string
  wr_token :: string
  wr_generation :: int
  wr_expected_node_version :: int
  wr_artifact_path :: "string option"
  wr_summary :: "string option"

datatype orch_code =
    INVALID_WORK | DUPLICATE_WORK | CONFLICTING_WORK | WORK_NOT_FOUND | NODE_NOT_FOUND
  | INVALID_TRANSITION | STALE_VERSION | INVALID_LEASE_COMMAND | LEASE_CONFLICT | LEASE_EXPIRED
  | INVALID_RESULT | STALE_RESULT | RESULT_IDENTITY_MISMATCH | RESULT_CONFLICT
  | CONFLICTING_PROOF_RESULT | IDEMPOTENCY_KEY_PAYLOAD_MISMATCH | QUEUE_ENVELOPE_INVALID
  | PREDICTED_TOUCH_INVALID | DATABASE_PATH_UNSAFE | MIGRATION_FAILED | DATABASE_UNREACHABLE

type_synonym orch_error = "orch_code \<times> string"
type_synonym 'a orch_result = "(orch_code, 'a) outcome"

definition fail :: "orch_error \<Rightarrow> 'a orch_result" where
  "fail e = Err (fst e) (snd e)"

record limits =
  maxIdLength :: nat
  maxTextLength :: nat
  maxCriteriaPerNode :: nat
  maxNodes :: nat
  maxDependenciesPerNode :: nat
  maxRepoLength :: nat
  maxBranchLength :: nat
  maxEvidenceIdLength :: nat
  maxGraphRevisionLength :: nat
  maxDigestLength :: nat
  maxVersionLength :: nat
  maxOwnerLength :: nat
  maxTokenLength :: nat
  maxResultIdLength :: nat
  maxSummaryLength :: nat
  maxPathLength :: nat
  maxQueuePayloadDepth :: nat
  maxClassifiedOverlaps :: nat
  maxTouchedUnitsPerOverlap :: nat
  maxSharedSurfacesPerOverlap :: nat

definition ORCHESTRATION_LIMITS :: limits where
  "ORCHESTRATION_LIMITS = \<lparr>
     maxIdLength = 200, maxTextLength = 20000, maxCriteriaPerNode = 100, maxNodes = 500,
     maxDependenciesPerNode = 500, maxRepoLength = 400, maxBranchLength = 400,
     maxEvidenceIdLength = 200, maxGraphRevisionLength = 400, maxDigestLength = 256,
     maxVersionLength = 100, maxOwnerLength = 200, maxTokenLength = 256,
     maxResultIdLength = 200, maxSummaryLength = 4000, maxPathLength = 2000,
     maxQueuePayloadDepth = 1, maxClassifiedOverlaps = 1000,
     maxTouchedUnitsPerOverlap = 200, maxSharedSurfacesPerOverlap = 200 \<rparr>"

abbreviation OL :: limits where
  "OL \<equiv> ORCHESTRATION_LIMITS"

section \<open>Lifecycle\<close>

fun ALLOWED_TRANSITIONS :: "node_state \<Rightarrow> node_state list" where
  "ALLOWED_TRANSITIONS Pending = [Ready]"
| "ALLOWED_TRANSITIONS Ready = [In_progress]"
| "ALLOWED_TRANSITIONS In_progress = [Passed, Failed]"
| "ALLOWED_TRANSITIONS Passed = []"
| "ALLOWED_TRANSITIONS Failed = []"

definition isValidTransition :: "node_state \<Rightarrow> node_state \<Rightarrow> bool" where
  "isValidTransition from to = (to \<in> set (ALLOWED_TRANSITIONS from))"

fun state_str :: "node_state \<Rightarrow> string" where
  "state_str Pending = ''pending''"
| "state_str Ready = ''ready''"
| "state_str In_progress = ''in_progress''"
| "state_str Passed = ''passed''"
| "state_str Failed = ''failed''"

definition transitionError :: "node_state \<Rightarrow> node_state \<Rightarrow> orch_error" where
  "transitionError from to =
     (INVALID_TRANSITION, ''transition from '' @ state_str from @ '' to '' @ state_str to @ '' is not allowed'')"

section \<open>Builder routing and artifact locators\<close>

definition isResolvedBuilderRouting :: "js \<Rightarrow> bool" where
  "isResolvedBuilderRouting v =
     (isPlainObject v
      \<and> hasExactKeys v [''builder'', ''policyVersion'']
      \<and> isApprovedModelId (fld v ''builder'')
      \<and> (case fld v ''policyVersion'' of Num n \<Rightarrow> is_integer n \<and> \<not> num_lt n (Fin 0) | _ \<Rightarrow> False))"

definition isSafeArtifactLocator :: "js \<Rightarrow> bool" where
  "isSafeArtifactLocator v =
     (isNonEmptyString v (maxPathLength OL)
      \<and> (let s = js_str v in
          list_all (\<lambda>c. \<not> (of_char c :: nat) < 32) s
          \<and> \<not> (case s of c # _ \<Rightarrow> c = CHR ''/'' | [] \<Rightarrow> False)
          \<and> \<not> (case s of c # d # _ \<Rightarrow>
                 ((65 \<le> (of_char c :: nat) \<and> (of_char c :: nat) \<le> 90) \<or> (97 \<le> (of_char c :: nat) \<and> (of_char c :: nat) \<le> 122))
                 \<and> d = CHR '':'' | _ \<Rightarrow> False)
          \<and> \<not> (case s of c # _ \<Rightarrow> c = CHR 0x5C | [] \<Rightarrow> False)
          \<and> ''..'' \<notin> set (split_on (\<lambda>c. c = CHR ''/'' \<or> c = CHR 0x5C) s)))"

section \<open>Scheduling policy\<close>

fun index_of :: "'a \<Rightarrow> 'a list \<Rightarrow> nat" where
  "index_of x [] = 0"
| "index_of x (y # ys) = (if x = y then 0 else Suc (index_of x ys))"

definition confident_overlap :: "js_num \<Rightarrow> string \<Rightarrow> classified_overlap \<Rightarrow> classified_overlap \<Rightarrow> bool" where
  "confident_overlap minConfidence nodeId self other =
     (co_node_id other \<noteq> nodeId
      \<and> \<not> num_lt (co_confidence other) minConfidence
      \<and> (list_ex (\<lambda>s. s \<in> set (co_shared_surfaces self)) (co_shared_surfaces other)
         \<or> list_ex (\<lambda>u. u \<in> set (co_likely_touched_units self)) (co_likely_touched_units other)))"

definition empirical_classify ::
  "(js_num \<Rightarrow> string) \<Rightarrow> js_num \<Rightarrow> string \<Rightarrow> classified_overlap list \<Rightarrow> string list \<Rightarrow> scheduling_decision" where
  "empirical_classify show_num minConfidence nodeId overlaps workNodeIds =
     (case find (\<lambda>ov. co_node_id ov = nodeId) overlaps of
        None \<Rightarrow> Optimistic ''node not present in evidence''
      | Some self \<Rightarrow>
          if num_lt (co_confidence self) minConfidence
          then Optimistic (''confidence '' @ show_num (co_confidence self) @ '' below policy threshold'')
          else if co_likely_touched_units self = [] \<and> co_shared_surfaces self = []
          then Optimistic ''no touched units or shared surfaces''
          else (let overlapsWith = filter (confident_overlap minConfidence nodeId self) overlaps in
            if overlapsWith = [] then Optimistic ''no confident overlapping node''
            else (let sortedIds = sort (nodeId # map co_node_id overlapsWith);
                      index = index_of nodeId sortedIds in
              if index = 0 then Optimistic ''deterministic winner among overlapping nodes''
              else (let blocker = sortedIds ! (index - 1) in
                Serialize blocker (''deterministic serialization behind '' @ blocker)))))"

definition makeEmpiricalSchedulingPolicy :: "(js_num \<Rightarrow> string) \<Rightarrow> string \<Rightarrow> js_num \<Rightarrow> scheduling_policy" where
  "makeEmpiricalSchedulingPolicy show_num version minConfidence =
     \<lparr> pol_version = version, pol_classify = empirical_classify show_num minConfidence \<rparr>"

section \<open>Envelope and lease-command validators\<close>

definition validateQueueEnvelope :: "js \<Rightarrow> orch_error option" where
  "validateQueueEnvelope v =
     (if \<not> isPlainObject v then Some (QUEUE_ENVELOPE_INVALID, ''envelope must be an object'')
      else if \<not> hasExactKeys v [''job_id'', ''attempt_id'', ''node_id'', ''work_id'']
      then Some (QUEUE_ENVELOPE_INVALID, ''envelope contains unknown or missing fields'')
      else first_some (\<lambda>key. if isNonEmptyString (fld v key) (maxIdLength OL) then None
                             else Some (QUEUE_ENVELOPE_INVALID, ''invalid '' @ key))
             [''job_id'', ''attempt_id'', ''node_id'', ''work_id''])"

definition as_envelope :: "js \<Rightarrow> queue_envelope" where
  "as_envelope v = \<lparr> qe_job_id = js_str (fld v ''job_id''), qe_attempt_id = js_str (fld v ''attempt_id''),
     qe_node_id = js_str (fld v ''node_id''), qe_work_id = js_str (fld v ''work_id'') \<rparr>"

definition validateLeaseCommand :: "js \<Rightarrow> orch_error option" where
  "validateLeaseCommand v =
     (if \<not> isPlainObject v then Some (INVALID_LEASE_COMMAND, ''lease command must be an object'')
      else let kind = fld v ''kind'' in
      if kind \<noteq> Str ''claim'' \<and> kind \<noteq> Str ''renew'' \<and> kind \<noteq> Str ''release''
      then Some (INVALID_LEASE_COMMAND, ''invalid kind'')
      else if kind = Str ''claim'' then first_error
        [(\<not> hasExactKeys v [''kind'', ''attempt_id'', ''owner''],
            (INVALID_LEASE_COMMAND, ''claim contains unknown fields'')),
         (\<not> isNonEmptyString (fld v ''attempt_id'') (maxIdLength OL), (INVALID_LEASE_COMMAND, ''invalid attempt_id'')),
         (\<not> isNonEmptyString (fld v ''owner'') (maxOwnerLength OL), (INVALID_LEASE_COMMAND, ''invalid owner''))]
      else first_error
        [(\<not> hasExactKeys v [''kind'', ''attempt_id'', ''owner'', ''token''],
            (INVALID_LEASE_COMMAND, js_str kind @ '' contains unknown fields'')),
         (\<not> isNonEmptyString (fld v ''attempt_id'') (maxIdLength OL), (INVALID_LEASE_COMMAND, ''invalid attempt_id'')),
         (\<not> isNonEmptyString (fld v ''owner'') (maxOwnerLength OL), (INVALID_LEASE_COMMAND, ''invalid owner'')),
         (\<not> isNonEmptyString (fld v ''token'') (maxTokenLength OL), (INVALID_LEASE_COMMAND, ''invalid token''))])"

section \<open>Lemmas\<close>

lemma isValidTransition_simps [simp]:
  "isValidTransition Pending t \<longleftrightarrow> t = Ready"
  "isValidTransition Ready t \<longleftrightarrow> t = In_progress"
  "isValidTransition In_progress t \<longleftrightarrow> t = Passed \<or> t = Failed"
  "\<not> isValidTransition Passed t" "\<not> isValidTransition Failed t"
  by (auto simp: isValidTransition_def)

text \<open>The rank of a state along the lifecycle: every transition climbs it by one.\<close>

fun state_rank :: "node_state \<Rightarrow> int" where
  "state_rank Pending = 0"
| "state_rank Ready = 1"
| "state_rank In_progress = 2"
| "state_rank Passed = 3"
| "state_rank Failed = 3"

lemma isValidTransition_rank: "isValidTransition s t \<Longrightarrow> state_rank t = state_rank s + 1"
  by (cases s) auto

lemma isResolvedBuilderRoutingD:
  assumes "isResolvedBuilderRouting v"
  shows "js_str (fld v ''builder'') \<in> set APPROVED_MODELS" "0 \<le> js_int (fld v ''policyVersion'')"
proof -
  show "js_str (fld v ''builder'') \<in> set APPROVED_MODELS"
    using assms by (auto simp: isResolvedBuilderRouting_def dest: isApprovedModelIdD)
  from assms obtain n where n: "fld v ''policyVersion'' = Num n" "is_integer n" "\<not> num_lt n (Fin 0)"
    by (auto simp: isResolvedBuilderRouting_def split: js.splits)
  then show "0 \<le> js_int (fld v ''policyVersion'')" by (cases n) auto
qed

lemma index_of_less: "x \<in> set xs \<Longrightarrow> index_of x xs < length xs \<and> xs ! index_of x xs = x"
  by (induction xs) auto

lemma index_of_first: "i < index_of x xs \<Longrightarrow> i < length xs \<Longrightarrow> xs ! i \<noteq> x"
proof (induction xs arbitrary: i)
  case (Cons y ys)
  then show ?case by (cases i) (auto split: if_splits)
qed simp

text \<open>The element before the first occurrence in a sorted list is strictly smaller.\<close>

lemma sorted_pred_less:
  fixes xs :: "'a :: linorder list"
  assumes "sorted xs" "x \<in> set xs" "index_of x xs \<noteq> 0"
  shows "xs ! (index_of x xs - 1) < x" "xs ! (index_of x xs - 1) \<in> set xs"
proof -
  let ?i = "index_of x xs"
  from index_of_less [OF assms(2)] have i: "?i < length xs" "xs ! ?i = x" by auto
  then show "xs ! (?i - 1) \<in> set xs" by (metis less_imp_diff_less nth_mem)
  have "xs ! (?i - 1) \<le> xs ! ?i" using assms(1) i(1) by (intro sorted_nth_mono) auto
  moreover have "xs ! (?i - 1) \<noteq> x"
    using assms(3) i(1) by (intro index_of_first) auto
  ultimately show "xs ! (?i - 1) < x" using i(2) by auto
qed

lemma empirical_classify_Serialize:
  assumes "empirical_classify show_num minC nodeId ovs ids = Serialize b r"
  obtains self other where "self \<in> set ovs" "co_node_id self = nodeId" "other \<in> set ovs"
    "co_node_id other = b" "confident_overlap minC nodeId self other"
    "\<not> num_lt (co_confidence self) minC" "b < nodeId"
proof -
  from assms obtain self where self: "find (\<lambda>ov. co_node_id ov = nodeId) ovs = Some self"
    by (auto simp: empirical_classify_def split: option.splits)
  define ow where "ow = filter (confident_overlap minC nodeId self) ovs"
  define sids where "sids = sort (nodeId # map co_node_id ow)"
  have conf: "\<not> num_lt (co_confidence self) minC"
    using assms self by (auto simp: empirical_classify_def split: if_splits)
  have idx: "index_of nodeId sids \<noteq> 0" and b: "b = sids ! (index_of nodeId sids - 1)"
    using assms self by (auto simp: empirical_classify_def Let_def ow_def sids_def split: if_splits)
  have s: "sorted sids" unfolding sids_def by (rule sorted_sort)
  have mem: "nodeId \<in> set sids" unfolding sids_def by (simp only: set_sort) simp
  have lt: "b < nodeId" unfolding b by (rule sorted_pred_less(1) [OF s mem idx])
  have "b \<in> set sids" unfolding b by (rule sorted_pred_less(2) [OF s mem idx])
  then have "b \<in> set (nodeId # map co_node_id ow)" unfolding sids_def by (simp only: set_sort)
  with lt obtain other where "other \<in> set ow" "co_node_id other = b" by auto
  moreover from find_SomeD [OF self] have "self \<in> set ovs" "co_node_id self = nodeId" by auto
  ultimately show thesis using that [of self other] conf lt by (auto simp: ow_def)
qed

end
