(* ===== verification/Kahn.thy ===== *)
theory Kahn
  imports Prelude "HOL-Library.AList"
begin

text \<open>
  Kahn's algorithm as the two validators run it: \<^verbatim>\<open>validateWork\<close> of
  \<^verbatim>\<open>sqlite-store.ts\<close> with a first-in first-out queue (\<^verbatim>\<open>queue.shift()\<close>) and
  \<^verbatim>\<open>findUnorderableUnits\<close> of \<^verbatim>\<open>unit-validation.ts\<close> with a stack
  (\<^verbatim>\<open>ready.pop()\<close>). A JavaScript Map is an association list in insertion order,
  written with \<^const>\<open>AList.update\<close>. The locale \<open>kahn_worklist\<close> proves the
  algorithm once for any discipline that takes one element out of the work list; the
  two loops are its interpretations.
\<close>

type_synonym graph = "(string \<times> string list) list"

section \<open>The code\<close>

definition init_indegree :: "graph \<Rightarrow> (string \<times> int) list" where
  "init_indegree g = map (\<lambda>(u, ds). (u, int (length ds))) g"

definition push_child :: "string \<Rightarrow> string \<Rightarrow> (string \<times> string list) list \<Rightarrow> (string \<times> string list) list" where
  "push_child u dep adj =
     (case map_of adj dep of None \<Rightarrow> adj | Some cs \<Rightarrow> AList.update dep (cs @ [u]) adj)"

definition build_adj :: "graph \<Rightarrow> (string \<times> string list) list" where
  "build_adj g = fold (\<lambda>(u, ds) adj. fold (push_child u) ds adj) g (map (\<lambda>(u, ds). (u, [])) g)"

definition adj_get :: "(string \<times> string list) list \<Rightarrow> string \<Rightarrow> string list" where
  "adj_get adj x = (case map_of adj x of Some cs \<Rightarrow> cs | None \<Rightarrow> [])"

fun relax :: "string list \<Rightarrow> (string \<times> int) list \<Rightarrow> string list \<Rightarrow> (string \<times> int) list \<times> string list" where
  "relax [] ind q = (ind, q)"
| "relax (c # cs) ind q =
     (case map_of ind c of
        None \<Rightarrow> relax cs ind q
      | Some d \<Rightarrow> relax cs (AList.update c (d - 1) ind) (if d - 1 = 0 then q @ [c] else q))"

definition positives :: "(string \<times> int) list \<Rightarrow> nat" where
  "positives ind = length (filter (\<lambda>p. 0 < snd p) ind)"

lemma positives_update:
  "map_of ind c = Some d \<Longrightarrow>
     positives (AList.update c (d - 1) ind) + (if d - 1 = 0 then 1 else 0) \<le> positives ind"
  by (induction ind) (auto simp: positives_def split: if_splits)

lemma relax_measure:
  "relax cs ind q = (ind', q') \<Longrightarrow> length q' + positives ind' \<le> length q + positives ind"
proof (induction cs ind q rule: relax.induct)
  case (2 c cs ind q)
  show ?case
  proof (cases "map_of ind c")
    case None
    with 2 show ?thesis by simp
  next
    case (Some d)
    with "2.IH"(2) [OF Some] "2.prems" positives_update [OF Some]
    show ?thesis by (auto split: if_splits)
  qed
qed simp

lemma relax_measure_last:
  assumes "ready \<noteq> []" "relax cs ind (butlast ready) = (ind', ready')"
  shows "length ready' + positives ind' < length ready + positives ind"
proof -
  have "length (butlast ready) < length ready" using assms(1) by simp
  then show ?thesis using relax_measure [OF assms(2)] by linarith
qed

function kahn_fifo ::
  "(string \<Rightarrow> string list) \<Rightarrow> (string \<times> int) list \<Rightarrow> string list \<Rightarrow> nat \<Rightarrow> (string \<times> int) list \<times> nat" where
  "kahn_fifo adj ind [] n = (ind, n)"
| "kahn_fifo adj ind (x # q) n =
     (case relax (adj x) ind q of (ind', q') \<Rightarrow> kahn_fifo adj ind' q' (Suc n))"
  by pat_completeness auto
termination
  by (relation "measure (\<lambda>(adj, ind, q, n). length q + positives ind)")
     (auto dest!: relax_measure [OF sym])

function kahn_lifo ::
  "(string \<Rightarrow> string list) \<Rightarrow> (string \<times> int) list \<Rightarrow> string list \<Rightarrow> nat \<Rightarrow> (string \<times> int) list \<times> nat" where
  "kahn_lifo adj ind ready n =
     (if ready = [] then (ind, n)
      else case relax (adj (last ready)) ind (butlast ready) of
             (ind', ready') \<Rightarrow> kahn_lifo adj ind' ready' (Suc n))"
  by pat_completeness auto
termination
  by (relation "measure (\<lambda>(adj, ind, q, n). length q + positives ind)")
     (auto dest!: relax_measure_last [OF _ sym])

declare kahn_lifo.simps [simp del]

definition initially_ready :: "(string \<times> int) list \<Rightarrow> string list" where
  "initially_ready ind = map fst (filter (\<lambda>p. snd p = 0) ind)"

section \<open>What the graph means\<close>

definition deps :: "graph \<Rightarrow> string \<Rightarrow> string list" where
  "deps g u = (case map_of g u of Some ds \<Rightarrow> ds | None \<Rightarrow> [])"

definition node_set :: "graph \<Rightarrow> string set" where
  "node_set g = fst ` set g"

text \<open>An edge leads from a dependency to the node that declares it.\<close>

definition edges :: "graph \<Rightarrow> (string \<times> string) set" where
  "edges g = {(d, u). u \<in> node_set g \<and> d \<in> set (deps g u)}"

definition wf_graph :: "graph \<Rightarrow> bool" where
  "wf_graph g \<longleftrightarrow> distinct (map fst g) \<and> (\<forall>(u, ds) \<in> set g. set ds \<subseteq> node_set g)"

definition children :: "graph \<Rightarrow> string \<Rightarrow> string list" where
  "children g x = concat (map (\<lambda>(u, ds). replicate (count_list ds x) u) g)"

section \<open>Lemmas on the data structures\<close>

lemma finite_node_set [simp]: "finite (node_set g)"
  by (simp add: node_set_def)

lemma deps_mem: "distinct (map fst g) \<Longrightarrow> (u, ds) \<in> set g \<Longrightarrow> deps g u = ds"
  by (simp add: deps_def)

lemma wf_graph_deps: "wf_graph g \<Longrightarrow> u \<in> node_set g \<Longrightarrow> set (deps g u) \<subseteq> node_set g"
  by (auto simp: wf_graph_def node_set_def deps_mem) fastforce

lemma map_of_init_indegree:
  assumes "wf_graph g" "u \<in> node_set g"
  shows "map_of (init_indegree g) u = Some (int (length (deps g u)))"
proof -
  from assms obtain ds where m: "(u, ds) \<in> set g" by (auto simp: node_set_def)
  have d: "distinct (map fst (init_indegree g))"
    using assms(1) by (simp add: wf_graph_def init_indegree_def comp_def case_prod_beta)
  have "(u, int (length ds)) \<in> set (init_indegree g)" using m by (force simp: init_indegree_def)
  then show ?thesis using d m assms(1) by (simp add: deps_mem wf_graph_def)
qed

lemma keys_init_indegree [simp]: "map fst (init_indegree g) = map fst g"
  by (simp add: init_indegree_def comp_def case_prod_beta)

lemma keys_update_mem: "c \<in> fst ` set ind \<Longrightarrow> map fst (AList.update c v ind) = map fst ind"
  by (induction ind) auto

lemma push_child_spec:
  assumes "dep \<in> fst ` set adj"
  shows "map fst (push_child u dep adj) = map fst adj"
    and "adj_get (push_child u dep adj) = (adj_get adj)(dep := adj_get adj dep @ [u])"
proof -
  from assms obtain cs where cs: "map_of adj dep = Some cs"
    by (metis map_of_eq_None_iff not_None_eq)
  show "map fst (push_child u dep adj) = map fst adj"
    using cs assms by (simp add: push_child_def keys_update_mem)
  show "adj_get (push_child u dep adj) = (adj_get adj)(dep := adj_get adj dep @ [u])"
    using cs by (auto simp: push_child_def adj_get_def update_conv)
qed

lemma fold_push_child:
  assumes "set ds \<subseteq> fst ` set adj"
  shows "map fst (fold (push_child u) ds adj) = map fst adj
    \<and> adj_get (fold (push_child u) ds adj) = (\<lambda>x. adj_get adj x @ replicate (count_list ds x) u)"
  using assms
proof (induction ds arbitrary: adj)
  case (Cons d ds)
  then have d: "d \<in> fst ` set adj" by simp
  have k: "fst ` set (push_child u d adj) = fst ` set adj"
    by (metis push_child_spec(1) [OF d] list.set_map)
  have IH: "map fst (fold (push_child u) ds (push_child u d adj)) = map fst (push_child u d adj)
    \<and> adj_get (fold (push_child u) ds (push_child u d adj)) =
      (\<lambda>x. adj_get (push_child u d adj) x @ replicate (count_list ds x) u)"
    by (rule Cons.IH) (use Cons.prems k in auto)
  show ?case using IH push_child_spec [OF d]
    by (auto simp: fun_eq_iff replicate_app_Cons_same)
qed simp

lemma fold_build_adj:
  assumes "\<forall>(u, ds) \<in> set g. set ds \<subseteq> fst ` set adj"
  shows "map fst (fold (\<lambda>(u, ds) adj. fold (push_child u) ds adj) g adj) = map fst adj
    \<and> adj_get (fold (\<lambda>(u, ds) adj. fold (push_child u) ds adj) g adj) = (\<lambda>x. adj_get adj x @ children g x)"
  using assms
proof (induction g arbitrary: adj)
  case (Cons p g)
  obtain u ds where p: "p = (u, ds)" by (cases p)
  have f: "map fst (fold (push_child u) ds adj) = map fst adj
    \<and> adj_get (fold (push_child u) ds adj) = (\<lambda>x. adj_get adj x @ replicate (count_list ds x) u)"
    by (rule fold_push_child) (use Cons.prems p in auto)
  then have k: "fst ` set (fold (push_child u) ds adj) = fst ` set adj"
    by (metis list.set_map)
  show ?case
    using Cons.IH [of "fold (push_child u) ds adj"] Cons.prems f k p
    by (simp add: children_def)
qed (simp add: children_def)

lemma adj_get_build_adj: "wf_graph g \<Longrightarrow> adj_get (build_adj g) = children g"
proof -
  assume wf: "wf_graph g"
  let ?a = "map (\<lambda>(u, ds). (u, [] :: string list)) g"
  have "fst ` set ?a = node_set g" by (force simp: node_set_def)
  then have "\<forall>(u, ds) \<in> set g. set ds \<subseteq> fst ` set ?a" using wf by (auto simp: wf_graph_def)
  moreover have "adj_get ?a = (\<lambda>x. [])"
  proof
    fix x
    have "map_of ?a x = Some cs \<Longrightarrow> cs = []" for cs by (drule map_of_SomeD) auto
    then show "adj_get ?a x = []" by (auto simp: adj_get_def split: option.splits)
  qed
  ultimately show ?thesis using fold_build_adj [of g ?a] by (simp add: build_adj_def)
qed

lemma count_children:
  assumes "distinct (map fst g)"
  shows "count_list (children g x) u = (if u \<in> node_set g then count_list (deps g u) x else 0)"
proof -
  have rep: "count_list (replicate n v) u = (if v = u then n else 0)" for n v
    by (induction n) auto
  show ?thesis using assms
  proof (induction g)
    case Nil
    then show ?case by (simp add: children_def node_set_def)
  next
    case (Cons p g)
    obtain v ds where p: "p = (v, ds)" by (cases p)
    have split: "count_list (children (p # g) x) u = (if v = u then count_list ds x else 0) + count_list (children g x) u"
    proof -
      have "children (p # g) x = replicate (count_list ds x) v @ children g x"
        by (simp add: children_def p)
      then show ?thesis by (simp add: rep)
    qed
    have v: "v \<notin> node_set g" using Cons.prems p by (auto simp: node_set_def)
    show ?case using Cons.IH Cons.prems v
      by (auto simp: split [unfolded p] p node_set_def deps_def split: if_splits)
  qed
qed

lemma set_children: "distinct (map fst g) \<Longrightarrow> set (children g x) \<subseteq> node_set g"
  using count_children count_list_0_iff by (metis subsetI)

lemma filter_count:
  "x \<notin> P \<Longrightarrow> length (filter (\<lambda>d. d \<notin> insert x P) ds) + count_list ds x = length (filter (\<lambda>d. d \<notin> P) ds)"
  by (induction ds) auto

lemma relax_spec:
  assumes "relax cs ind q = (ind', q')" "set cs \<subseteq> fst ` set ind"
    and "\<And>c. c \<in> fst ` set ind \<Longrightarrow> map_of ind c = Some (f c) \<and> int (count_list cs c) \<le> f c"
  shows "map fst ind' = map fst ind
    \<and> (\<forall>c \<in> fst ` set ind. map_of ind' c = Some (f c - int (count_list cs c)))
    \<and> (\<exists>new. q' = q @ new \<and> distinct new \<and> set new = {c \<in> set cs. f c = int (count_list cs c)})"
  using assms
proof (induction cs arbitrary: ind q f)
  case Nil
  then show ?case by simp
next
  case (Cons c cs)
  have c: "c \<in> fst ` set ind" "map_of ind c = Some (f c)" using Cons.prems by auto
  define ind2 where "ind2 = AList.update c (f c - 1) ind"
  define f2 where "f2 = f(c := f c - 1)"
  have k: "map fst ind2 = map fst ind" using c by (simp add: ind2_def keys_update_mem)
  then have k': "fst ` set ind2 = fst ` set ind" by (metis list.set_map)
  have r: "relax cs ind2 (if f c - 1 = 0 then q @ [c] else q) = (ind', q')"
    using Cons.prems(1) c by (simp add: ind2_def)
  have f2: "map_of ind2 x = Some (f2 x) \<and> int (count_list cs x) \<le> f2 x" if "x \<in> fst ` set ind2" for x
    using Cons.prems(3) [of x] that k' by (auto simp: ind2_def f2_def update_conv)
  have sub: "set cs \<subseteq> fst ` set ind2" using Cons.prems(2) k' by simp
  from Cons.IH [OF r sub f2] obtain new where
    IH: "map fst ind' = map fst ind2" "\<forall>x \<in> fst ` set ind2. map_of ind' x = Some (f2 x - int (count_list cs x))"
      "q' = (if f c - 1 = 0 then q @ [c] else q) @ new" "distinct new"
      "set new = {x \<in> set cs. f2 x = int (count_list cs x)}"
    by blast
  have fc: "int (count_list (c # cs) c) \<le> f c" using Cons.prems(3) [OF c(1)] by auto
  have cnew: "c \<notin> set new \<and> c \<notin> set cs" if "f c = 1"
  proof -
    from fc that have "count_list cs c = 0" by simp
    then have "c \<notin> set cs" by (simp add: count_list_0_iff)
    with IH(5) show ?thesis by simp
  qed
  define new' where "new' = (if f c - 1 = 0 then [c] else []) @ new"
  have "q' = q @ new'" using IH(3) by (simp add: new'_def)
  moreover have "distinct new'" using IH(4) cnew by (auto simp: new'_def)
  moreover have "set new' = {x \<in> set (c # cs). f x = int (count_list (c # cs) x)}"
  proof (cases "f c = 1")
    case True
    then have "count_list cs c = 0" using fc by simp
    then have "x \<in> set new' \<longleftrightarrow> x \<in> set (c # cs) \<and> f x = int (count_list (c # cs) x)" for x
      using IH(5) cnew [OF True] True by (cases "x = c") (auto simp: new'_def f2_def)
    then show ?thesis by blast
  next
    case False
    have mem: "c \<in> set cs" if "f c - 1 = int (count_list cs c)"
    proof (rule ccontr)
      assume "c \<notin> set cs"
      then have "count_list cs c = 0" by (simp add: count_list_0_iff)
      with that False show False by simp
    qed
    have "x \<in> set new \<longleftrightarrow> x \<in> set (c # cs) \<and> f x = int (count_list (c # cs) x)" for x
    proof (cases "x = c")
      case True
      have "c \<in> set new \<longleftrightarrow> c \<in> set cs \<and> f c - 1 = int (count_list cs c)" using IH(5) by (simp add: f2_def)
      moreover have "int (count_list (c # cs) c) = int (count_list cs c) + 1" by simp
      ultimately show ?thesis unfolding True using mem by auto
    next
      case False
      then show ?thesis using IH(5) by (auto simp: f2_def)
    qed
    moreover have "set new' = set new" using False by (simp add: new'_def)
    ultimately show ?thesis by blast
  qed
  moreover have "\<forall>x \<in> fst ` set ind. map_of ind' x = Some (f x - int (count_list (c # cs) x))"
    using IH(2) k' by (auto simp: f2_def)
  moreover have "map fst ind' = map fst ind" using IH(1) k by simp
  ultimately show ?case by blast
qed

section \<open>The invariant of the loop\<close>

text \<open>
  With \<open>done\<close> the elements taken so far: the recorded degree of a node counts its
  dependencies not yet done, the work list and \<open>done\<close> hold exactly the nodes whose
  dependencies are all done, and each element of \<open>done\<close> comes after its dependencies.
\<close>

definition kahn_inv :: "graph \<Rightarrow> (string \<times> int) list \<Rightarrow> string list \<Rightarrow> string list \<Rightarrow> bool" where
  "kahn_inv g ind ready don \<longleftrightarrow>
     map fst ind = map fst g
     \<and> (\<forall>u \<in> node_set g. map_of ind u = Some (int (length (filter (\<lambda>d. d \<notin> set don) (deps g u)))))
     \<and> distinct (don @ ready)
     \<and> set (don @ ready) = {u \<in> node_set g. set (deps g u) \<subseteq> set don}
     \<and> (\<forall>i < length don. set (deps g (don ! i)) \<subseteq> set (take i don))"

lemma kahn_inv_topo: "kahn_inv g ind ready don \<Longrightarrow> i < length don \<Longrightarrow> set (deps g (don ! i)) \<subseteq> set (take i don)"
  by (simp add: kahn_inv_def)

lemma kahn_inv_mem:
  assumes "kahn_inv g ind ready don"
  shows "u \<in> set don \<or> u \<in> set ready \<longleftrightarrow> u \<in> node_set g \<and> set (deps g u) \<subseteq> set don"
proof -
  from assms have "set don \<union> set ready = {u \<in> node_set g. set (deps g u) \<subseteq> set don}"
    by (simp add: kahn_inv_def)
  then show ?thesis by blast
qed

lemma initially_ready_eq: "initially_ready (init_indegree g) = map fst (filter (\<lambda>p. snd p = []) g)"
  by (induction g) (auto simp: initially_ready_def init_indegree_def)

lemma kahn_inv_init:
  assumes wf: "wf_graph g"
  shows "kahn_inv g (init_indegree g) (initially_ready (init_indegree g)) []"
proof -
  have "map_of (init_indegree g) u = Some (int (length (filter (\<lambda>d. d \<notin> set []) (deps g u))))"
    if "u \<in> node_set g" for u
    using map_of_init_indegree [OF wf that] by simp
  moreover have "distinct (initially_ready (init_indegree g))"
    using wf unfolding initially_ready_eq
    by (intro distinct_map_filter) (simp add: wf_graph_def)
  moreover have "set (initially_ready (init_indegree g)) = {u \<in> node_set g. set (deps g u) \<subseteq> set []}"
  proof -
    have dist: "distinct (map fst g)" using wf by (simp add: wf_graph_def)
    have "u \<in> set (initially_ready (init_indegree g)) \<longleftrightarrow> u \<in> node_set g \<and> deps g u = []" for u
      using deps_mem [OF dist] by (force simp: initially_ready_eq node_set_def)
    then show ?thesis by auto
  qed
  ultimately show ?thesis by (simp add: kahn_inv_def)
qed

lemma kahn_inv_step:
  assumes wf: "wf_graph g" and inv: "kahn_inv g ind ready don"
    and split: "ready = as @ x # bs"
    and rel: "relax (children g x) ind (as @ bs) = (ind', ready')"
  shows "kahn_inv g ind' ready' (don @ [x])"
proof -
  define f where "f u = int (length (filter (\<lambda>d. d \<notin> set don) (deps g u)))" for u
  have dist: "distinct (map fst g)" using wf by (simp add: wf_graph_def)
  have keys: "map fst ind = map fst g" using inv by (simp add: kahn_inv_def)
  then have nodes: "fst ` set ind = node_set g" by (metis list.set_map node_set_def)
  have mo: "map_of ind u = Some (f u)" if "u \<in> node_set g" for u
    using inv that by (simp add: kahn_inv_def f_def)
  have dis: "distinct (don @ ready)" and
    st: "set (don @ ready) = {u \<in> node_set g. set (deps g u) \<subseteq> set don}"
    using inv by (simp_all add: kahn_inv_def)
  have x: "x \<in> node_set g" "set (deps g x) \<subseteq> set don" "x \<notin> set don"
    using st dis split by auto
  have cnt: "count_list (children g x) u = count_list (deps g u) x" if "u \<in> node_set g" for u
    using count_children [OF dist] that by simp
  have fc: "int (length (filter (\<lambda>d. d \<notin> set (don @ [x])) (deps g u))) = f u - int (count_list (children g x) u)"
    if "u \<in> node_set g" for u
    using filter_count [OF x(3), of "deps g u"] cnt [OF that] by (simp add: f_def)
  have sub: "set (children g x) \<subseteq> fst ` set ind"
    using set_children [OF dist] nodes by simp
  have le: "map_of ind c = Some (f c) \<and> int (count_list (children g x) c) \<le> f c"
    if "c \<in> fst ` set ind" for c
    using that nodes mo fc [of c] by (metis diff_ge_0_iff_ge of_nat_0_le_iff)
  from relax_spec [OF rel sub le] obtain new where
    r: "map fst ind' = map fst ind" "\<forall>c \<in> node_set g. map_of ind' c = Some (f c - int (count_list (children g x) c))"
      "ready' = (as @ bs) @ new" "distinct new"
      "set new = {c \<in> set (children g x). f c = int (count_list (children g x) c)}"
    unfolding nodes by blast
  have new: "c \<in> set new \<longleftrightarrow> c \<in> node_set g \<and> x \<in> set (deps g c) \<and> set (deps g c) \<subseteq> insert x (set don)" for c
  proof (cases "c \<in> node_set g")
    case True
    have "c \<in> set (children g x) \<longleftrightarrow> x \<in> set (deps g c)"
      using cnt [OF True] by (metis count_list_0_iff)
    moreover have "f c = int (count_list (children g x) c) \<longleftrightarrow> set (deps g c) \<subseteq> insert x (set don)"
    proof -
      have "f c = int (count_list (children g x) c) \<longleftrightarrow> filter (\<lambda>d. d \<notin> set (don @ [x])) (deps g c) = []"
        using fc [OF True] by auto
      then show ?thesis by (auto simp: filter_empty_conv)
    qed
    ultimately show ?thesis using r(5) True by blast
  next
    case False
    then show ?thesis using r(5) sub nodes by auto
  qed
  have "set ((don @ [x]) @ ready') = set (don @ ready) \<union> set new" using r(3) split by auto
  also have "\<dots> = {u \<in> node_set g. set (deps g u) \<subseteq> set (don @ [x])}"
    using st new by auto
  finally have st': "set ((don @ [x]) @ ready') = {u \<in> node_set g. set (deps g u) \<subseteq> set (don @ [x])}" .
  have "set new \<inter> set (don @ ready) = {}" using new st x(3) by auto
  then have dis': "distinct ((don @ [x]) @ ready')" using dis r(3,4) split by auto
  have topo: "\<forall>i < length (don @ [x]). set (deps g ((don @ [x]) ! i)) \<subseteq> set (take i (don @ [x]))"
    using inv x(2) by (auto simp: kahn_inv_def nth_append less_Suc_eq)
  show ?thesis unfolding kahn_inv_def
    using keys r(1) r(2) fc st' dis' topo by simp
qed

lemma edges_nodes: "wf_graph g \<Longrightarrow> edges g \<subseteq> node_set g \<times> node_set g"
  using wf_graph_deps by (auto simp: edges_def)

lemma finite_edges: "wf_graph g \<Longrightarrow> finite (edges g)"
  using edges_nodes by (meson finite_SigmaI finite_node_set finite_subset)

text \<open>Nodes whose ordering is blocked: those downstream of a cycle.\<close>

definition below_cycle :: "graph \<Rightarrow> string set" where
  "below_cycle g = {u \<in> node_set g. \<exists>c. (c, c) \<in> (edges g)\<^sup>+ \<and> (c, u) \<in> (edges g)\<^sup>*}"

lemma kahn_inv_order:
  assumes inv: "kahn_inv g ind ready don" and "(d, don ! i) \<in> edges g" "i < length don"
  shows "\<exists>j < i. d = don ! j"
proof -
  have "d \<in> set (take i don)"
    using kahn_inv_topo [OF inv assms(3)] assms(2) by (auto simp: edges_def)
  then show ?thesis using assms(3) by (auto simp: in_set_conv_nth)
qed

text \<open>No element of \<open>done\<close> lies on a cycle: its position would be below itself.\<close>

lemma kahn_inv_no_cycle:
  assumes inv: "kahn_inv g ind ready don"
  shows "u \<in> set don \<Longrightarrow> (c, u) \<in> (edges g)\<^sup>+ \<Longrightarrow> \<exists>i j. i < j \<and> j < length don \<and> c = don ! i \<and> u = don ! j"
proof -
  assume "(c, u) \<in> (edges g)\<^sup>+" "u \<in> set don"
  then show ?thesis
  proof (induction rule: converse_trancl_induct)
    case (base y)
    from base.prems obtain j where "j < length don" "u = don ! j" by (auto simp: in_set_conv_nth)
    then show ?case using kahn_inv_order [OF inv] base.hyps by blast
  next
    case (step y z)
    then obtain i j where "i < j" "j < length don" "z = don ! i" "u = don ! j" by blast
    moreover from this obtain k where "k < i" "y = don ! k"
      using kahn_inv_order [OF inv, of y i] step.hyps by auto
    ultimately show ?case by (intro exI [of _ k] exI [of _ j]) simp
  qed
qed

lemma kahn_inv_end:
  assumes wf: "wf_graph g" and inv: "kahn_inv g ind [] don"
  shows "set don = node_set g - below_cycle g"
proof (intro equalityI subsetI)
  fix u assume u: "u \<in> set don"
  have dis: "distinct don" using inv by (simp add: kahn_inv_def)
  have "\<not> ((c, c) \<in> (edges g)\<^sup>+ \<and> (c, u) \<in> (edges g)\<^sup>*)" for c
  proof
    assume a: "(c, c) \<in> (edges g)\<^sup>+ \<and> (c, u) \<in> (edges g)\<^sup>*"
    then have "c \<in> set don"
      using u kahn_inv_no_cycle [OF inv u] by (metis rtrancl_eq_or_trancl nth_mem order.strict_trans)
    with a obtain i j where "i < j" "j < length don" "don ! i = don ! j"
      using kahn_inv_no_cycle [OF inv] by metis
    with dis show False by (simp add: nth_eq_iff_index_eq)
  qed
  then show "u \<in> node_set g - below_cycle g"
    using u inv by (auto simp: below_cycle_def kahn_inv_def)
next
  fix u assume u: "u \<in> node_set g - below_cycle g"
  show "u \<in> set don"
  proof (rule ccontr)
    assume nd: "u \<notin> set don"
    define A where "A = {v \<in> node_set g. v \<notin> set don \<and> (v, u) \<in> (edges g)\<^sup>*}"
    have pred: "\<exists>d \<in> A. (d, v) \<in> edges g" if "v \<in> A" for v
    proof -
      from that have v: "v \<in> node_set g" "v \<notin> set don" "(v, u) \<in> (edges g)\<^sup>*" by (auto simp: A_def)
      from v(1,2) inv obtain d where d: "d \<in> set (deps g v)" "d \<notin> set don"
        using kahn_inv_mem [OF inv, of v] by auto
      then have "(d, v) \<in> edges g" using v(1) by (auto simp: edges_def)
      moreover from this have "d \<in> node_set g" using edges_nodes [OF wf] by auto
      ultimately show ?thesis using d v(3) by (auto simp: A_def intro: converse_rtrancl_into_rtrancl)
    qed
    define F where "F = edges g \<inter> A \<times> A"
    have "\<not> acyclic F"
    proof
      assume "acyclic F"
      moreover have "finite F" using finite_edges [OF wf] by (simp add: F_def)
      ultimately have "wf F" by (simp add: finite_acyclic_wf)
      moreover have "u \<in> A" using u nd by (simp add: A_def)
      ultimately have "\<exists>m \<in> A. \<forall>d. (d, m) \<in> F \<longrightarrow> d \<notin> A"
        unfolding wf_eq_minimal by blast
      then obtain m where "m \<in> A" "\<forall>d. (d, m) \<in> F \<longrightarrow> d \<notin> A" by blast
      moreover from this pred obtain d where "d \<in> A" "(d, m) \<in> edges g" by blast
      ultimately show False unfolding F_def by blast
    qed
    then obtain c where c: "(c, c) \<in> F\<^sup>+" by (auto simp: acyclic_def)
    then have "c \<in> A" by (auto simp: F_def dest: tranclD)
    moreover have "F \<subseteq> edges g" by (simp add: F_def)
    then have "(c, c) \<in> (edges g)\<^sup>+" using c trancl_mono by blast
    ultimately show False using u by (auto simp: below_cycle_def A_def)
  qed
qed

lemma below_cycle_acyclic: "wf_graph g \<Longrightarrow> below_cycle g = {} \<longleftrightarrow> acyclic (edges g)"
  using edges_nodes
  by (fastforce simp: below_cycle_def acyclic_def dest: tranclD)

section \<open>Any work-list discipline\<close>

locale kahn_worklist =
  fixes pick :: "string list \<Rightarrow> string \<times> string list"
    and loop :: "(string \<Rightarrow> string list) \<Rightarrow> (string \<times> int) list \<Rightarrow> string list \<Rightarrow> nat \<Rightarrow> (string \<times> int) list \<times> nat"
  assumes pick_split: "xs \<noteq> [] \<Longrightarrow> \<exists>as bs. xs = as @ fst (pick xs) # bs \<and> snd (pick xs) = as @ bs"
    and loop_done: "loop adj ind [] n = (ind, n)"
    and loop_next: "xs \<noteq> [] \<Longrightarrow> loop adj ind xs n =
      (case relax (adj (fst (pick xs))) ind (snd (pick xs)) of (ind', xs') \<Rightarrow> loop adj ind' xs' (Suc n))"
begin

lemma loop_inv:
  assumes "wf_graph g" "kahn_inv g ind ready don"
  shows "\<exists>ind' don'. loop (children g) ind ready (length don) = (ind', length don') \<and> kahn_inv g ind' [] don'"
  using assms(2)
proof (induction "length ready + positives ind" arbitrary: ind ready don rule: less_induct)
  case less
  show ?case
  proof (cases "ready = []")
    case True
    then show ?thesis using less.prems loop_done by blast
  next
    case False
    obtain x r where p: "pick ready = (x, r)" by (cases "pick ready")
    from pick_split [OF False] p obtain as bs where s: "ready = as @ x # bs" "r = as @ bs" by auto
    obtain ind' ready' where rl: "relax (children g x) ind r = (ind', ready')" by (cases "relax (children g x) ind r")
    have "kahn_inv g ind' ready' (don @ [x])"
      using kahn_inv_step [OF assms(1) less.prems s(1)] rl s(2) by simp
    moreover have "length ready' + positives ind' < length ready + positives ind"
      using relax_measure [OF rl] s by simp
    ultimately show ?thesis
      using less.hyps [of ready' ind' "don @ [x]"] loop_next [OF False] p rl by simp
  qed
qed

text \<open>The loop from the initial work list: it counts the orderable nodes and leaves a
  positive degree at exactly the others.\<close>

lemma loop_correct:
  assumes wf: "wf_graph g"
    and "loop (children g) (init_indegree g) (initially_ready (init_indegree g)) 0 = (ind, n)"
  shows "n = card (node_set g - below_cycle g)" "map fst ind = map fst g"
    "\<forall>u \<in> node_set g. \<exists>d. map_of ind u = Some d \<and> (0 < d \<longleftrightarrow> u \<in> below_cycle g) \<and> 0 \<le> d"
proof -
  from loop_inv [OF wf kahn_inv_init [OF wf]] assms(2) obtain don where
    d: "n = length don" "kahn_inv g ind [] don" by auto
  from kahn_inv_end [OF wf d(2)] have sd: "set don = node_set g - below_cycle g" .
  show "n = card (node_set g - below_cycle g)"
    using d sd by (metis append_Nil2 distinct_card kahn_inv_def)
  show "map fst ind = map fst g" using d by (simp add: kahn_inv_def)
  have "0 < int (length (filter (\<lambda>x. x \<notin> set don) (deps g u))) \<longleftrightarrow> u \<in> below_cycle g"
    if "u \<in> node_set g" for u
  proof -
    have "u \<in> set don \<longleftrightarrow> set (deps g u) \<subseteq> set don" using d(2) that by (auto simp: kahn_inv_def)
    moreover have "0 < int (length (filter (\<lambda>x. x \<notin> set don) (deps g u))) \<longleftrightarrow> \<not> set (deps g u) \<subseteq> set don"
      by (auto simp: filter_empty_conv)
    ultimately show ?thesis using sd that by blast
  qed
  then show "\<forall>u \<in> node_set g. \<exists>d. map_of ind u = Some d \<and> (0 < d \<longleftrightarrow> u \<in> below_cycle g) \<and> 0 \<le> d"
    using d(2) by (simp add: kahn_inv_def)
qed

lemma loop_counts_all:
  assumes wf: "wf_graph g"
    and "loop (children g) (init_indegree g) (initially_ready (init_indegree g)) 0 = (ind, n)"
  shows "n = length g \<longleftrightarrow> acyclic (edges g)"
proof -
  have n: "n = card (node_set g - below_cycle g)" by (rule loop_correct(1) [OF assms])
  have len: "length g = card (node_set g)"
    using wf by (metis distinct_card length_map list.set_map node_set_def wf_graph_def)
  have sub: "below_cycle g \<subseteq> node_set g" by (auto simp: below_cycle_def)
  have "card (node_set g - below_cycle g) = card (node_set g) \<longleftrightarrow> below_cycle g = {}"
  proof
    assume "card (node_set g - below_cycle g) = card (node_set g)"
    then have "node_set g - below_cycle g = node_set g" by (intro card_subset_eq) auto
    with sub show "below_cycle g = {}" by blast
  qed simp
  then show ?thesis using n len below_cycle_acyclic [OF wf] by simp
qed

end

interpretation fifo: kahn_worklist "\<lambda>xs. (hd xs, tl xs)" kahn_fifo
proof (unfold_locales, goal_cases)
  case (1 xs)
  then show ?case by (intro exI [of _ "[]"] exI [of _ "tl xs"]) simp
next
  case (3 xs adj ind n)
  then show ?case by (cases xs) auto
qed simp

interpretation lifo: kahn_worklist "\<lambda>xs. (last xs, butlast xs)" kahn_lifo
proof (unfold_locales, goal_cases)
  case (1 xs)
  then show ?case by (intro exI [of _ "butlast xs"] exI [of _ "[]"]) simp
qed (simp_all add: kahn_lifo.simps)

end
