(* ===== verification/Work_Validation.thy ===== *)
theory Work_Validation
  imports Orch_Contracts Kahn
begin

text \<open>
  The admission check of approved work (\<^verbatim>\<open>validateWork\<close> of
  \<^verbatim>\<open>orchestration/sqlite-store.ts\<close>), guard by guard in the source's order: field
  presence and bounds, the Gate-1 requirement on decomposed work, the nodes with their
  duplicate-id scan, the dependency references, and the cycle check; the reading of
  the validated value as \<^typ>\<open>approved_work\<close>; and the canonical JSON text whose digest
  identifies a work.
\<close>

section \<open>The validator\<close>

definition origin_ok :: "js \<Rightarrow> bool" where
  "origin_ok v = (v = Str ''decomposition'' \<or> v = Str ''direct_task'')"

abbreviation invalid_work :: "string \<Rightarrow> orch_error" where
  "invalid_work m \<equiv> (INVALID_WORK, m)"

definition work_keys :: "string list" where
  "work_keys = [''work_id'', ''origin'', ''repo'', ''branch'', ''payload_hash'', ''approval_id'',
     ''approved_at'', ''approved_head'', ''nodes'']"

definition node_keys :: "string list" where
  "node_keys = [''id'', ''intent'', ''change_spec'', ''acceptance_criteria'', ''depends_on'',
     ''criteria_origin_source'', ''criteria_origin_source_id'']"

definition check_work_fields :: "js \<Rightarrow> orch_error option" where
  "check_work_fields w = first_error
     [(\<not> hasOwnField w ''work_id'', invalid_work ''missing work_id''),
      (\<not> isNonEmptyString (fld w ''work_id'') (maxIdLength OL), invalid_work ''invalid work_id''),
      (\<not> hasOwnField w ''origin'', invalid_work ''missing origin''),
      (\<not> origin_ok (fld w ''origin''), invalid_work ''invalid origin''),
      (\<not> hasOwnField w ''repo'', invalid_work ''missing repo''),
      (\<not> isNonEmptyString (fld w ''repo'') (maxRepoLength OL), invalid_work ''invalid repo''),
      (\<not> hasOwnField w ''branch'', invalid_work ''missing branch''),
      (\<not> isNonEmptyString (fld w ''branch'') (maxBranchLength OL), invalid_work ''invalid branch''),
      (\<not> hasOwnField w ''payload_hash'', invalid_work ''missing payload_hash''),
      (\<not> isNonEmptyString (fld w ''payload_hash'') (maxDigestLength OL), invalid_work ''invalid payload_hash''),
      (\<not> ownOrMissing w ''approval_id'', invalid_work ''inherited approval_id''),
      (\<not> isOptionalString (fld w ''approval_id'') (maxIdLength OL), invalid_work ''invalid approval_id''),
      (\<not> ownOrMissing w ''approved_at'', invalid_work ''inherited approved_at''),
      (\<not> isOptionalString (fld w ''approved_at'') (maxVersionLength OL), invalid_work ''invalid approved_at''),
      (\<not> ownOrMissing w ''approved_head'', invalid_work ''inherited approved_head''),
      (\<not> isOptionalString (fld w ''approved_head'') (maxDigestLength OL), invalid_work ''invalid approved_head''),
      (fld w ''origin'' = Str ''decomposition''
         \<and> (\<not> isNonEmptyString (fld w ''approval_id'') (maxIdLength OL)
            \<or> \<not> isNonEmptyString (fld w ''approved_at'') (maxVersionLength OL)
            \<or> \<not> isNonEmptyString (fld w ''approved_head'') (maxDigestLength OL)),
       invalid_work ''decomposed work requires Gate-1 approval_id, approved_at, and approved_head''),
      (\<not> hasOwnField w ''nodes'', invalid_work ''missing nodes''),
      (\<not> is_array (fld w ''nodes'') \<or> items (fld w ''nodes'') = []
         \<or> maxNodes OL < length (items (fld w ''nodes'')), invalid_work ''invalid nodes'')]"

definition check_node :: "string list \<Rightarrow> js \<Rightarrow> orch_error option" where
  "check_node seen n =
     (if \<not> isPlainObject n then Some (invalid_work ''node must be an object'')
      else case unknown_key n node_keys of
        Some key \<Rightarrow> Some (invalid_work (''unknown node field '' @ key))
      | None \<Rightarrow> first_error
     [(\<not> hasOwnField n ''id'', invalid_work ''missing node id''),
      (\<not> isNonEmptyString (fld n ''id'') (maxIdLength OL), invalid_work ''invalid node id''),
      (js_str (fld n ''id'') \<in> set seen, (DUPLICATE_WORK, ''duplicate node id '' @ js_str (fld n ''id''))),
      (\<not> hasOwnField n ''intent'', invalid_work ''missing intent''),
      (\<not> isNonEmptyString (fld n ''intent'') (maxTextLength OL), invalid_work ''invalid intent''),
      (\<not> hasOwnField n ''change_spec'', invalid_work ''missing change_spec''),
      (\<not> isNonEmptyString (fld n ''change_spec'') (maxTextLength OL), invalid_work ''invalid change_spec''),
      (\<not> hasOwnField n ''acceptance_criteria'', invalid_work ''missing acceptance criteria''),
      (\<not> is_array (fld n ''acceptance_criteria'') \<or> items (fld n ''acceptance_criteria'') = []
         \<or> maxCriteriaPerNode OL < length (items (fld n ''acceptance_criteria'')),
       invalid_work ''invalid acceptance criteria''),
      (\<not> list_all (\<lambda>c. isNonEmptyString c (maxTextLength OL)) (items (fld n ''acceptance_criteria'')),
       invalid_work ''invalid criterion''),
      (\<not> hasOwnField n ''depends_on'', invalid_work ''missing depends_on''),
      (\<not> is_array (fld n ''depends_on'')
         \<or> maxDependenciesPerNode OL < length (items (fld n ''depends_on'')), invalid_work ''invalid depends_on''),
      (\<not> list_all (\<lambda>d. isNonEmptyString d (maxIdLength OL)) (items (fld n ''depends_on'')),
       invalid_work ''invalid dependency id''),
      (\<not> hasOwnField n ''criteria_origin_source'', invalid_work ''missing criteria_origin_source''),
      (\<not> origin_ok (fld n ''criteria_origin_source''), invalid_work ''invalid criteria_origin_source''),
      (\<not> hasOwnField n ''criteria_origin_source_id'', invalid_work ''missing criteria_origin_source_id''),
      (\<not> isNonEmptyString (fld n ''criteria_origin_source_id'') (maxIdLength OL),
       invalid_work ''invalid criteria_origin_source_id'')])"

fun check_nodes :: "string list \<Rightarrow> js list \<Rightarrow> orch_error option" where
  "check_nodes seen [] = None"
| "check_nodes seen (n # ns) =
     or_else (check_node seen n) (check_nodes (seen @ [js_str (fld n ''id'')]) ns)"

definition node_graph :: "js list \<Rightarrow> graph" where
  "node_graph ns = map (\<lambda>n. (js_str (fld n ''id''), map js_str (items (fld n ''depends_on'')))) ns"

definition check_dep :: "string list \<Rightarrow> string \<Rightarrow> string \<Rightarrow> orch_error option" where
  "check_dep nodeIds nodeId dep =
     (if dep \<notin> set nodeIds then Some (invalid_work (''unknown dependency '' @ dep))
      else if dep = nodeId then Some (invalid_work (''self dependency '' @ nodeId))
      else None)"

definition check_deps :: "graph \<Rightarrow> orch_error option" where
  "check_deps g = first_some (\<lambda>(u, ds). first_some (check_dep (map fst g) u) ds) g"

definition check_cycle :: "graph \<Rightarrow> orch_error option" where
  "check_cycle g =
     (let inDegree = init_indegree g;
          queue = initially_ready inDegree;
          processed = snd (kahn_fifo (adj_get (build_adj g)) inDegree queue 0)
      in if processed \<noteq> length g then Some (invalid_work ''dependency cycle detected'') else None)"

definition validateWork :: "js \<Rightarrow> orch_error option" where
  "validateWork w =
     (if \<not> isPlainObject w then Some (invalid_work ''work must be an object'')
      else case unknown_key w work_keys of
        Some key \<Rightarrow> Some (invalid_work (''unknown field '' @ key))
      | None \<Rightarrow>
          or_else (check_work_fields w)
            (or_else (check_nodes [] (items (fld w ''nodes'')))
              (or_else (check_deps (node_graph (items (fld w ''nodes''))))
                (check_cycle (node_graph (items (fld w ''nodes'')))))))"

section \<open>The validated value\<close>

text \<open>The casts the source applies to a value that passed \<open>validateWork\<close>.\<close>

definition as_origin :: "js \<Rightarrow> work_origin" where
  "as_origin v = (if v = Str ''direct_task'' then Direct_task else Decomposition)"

definition as_node :: "js \<Rightarrow> approved_node" where
  "as_node n = \<lparr> an_id = js_str (fld n ''id''), an_intent = js_str (fld n ''intent''),
     an_change_spec = js_str (fld n ''change_spec''),
     an_acceptance_criteria = map js_str (items (fld n ''acceptance_criteria'')),
     an_depends_on = map js_str (items (fld n ''depends_on'')),
     an_criteria_origin_source = as_origin (fld n ''criteria_origin_source''),
     an_criteria_origin_source_id = js_str (fld n ''criteria_origin_source_id'') \<rparr>"

definition as_work :: "js \<Rightarrow> approved_work" where
  "as_work w = \<lparr> aw_work_id = js_str (fld w ''work_id''), aw_origin = as_origin (fld w ''origin''),
     aw_repo = js_str (fld w ''repo''), aw_branch = js_str (fld w ''branch''),
     aw_payload_hash = js_str (fld w ''payload_hash''), aw_approval_id = js_opt_str (fld w ''approval_id''),
     aw_approved_at = js_opt_str (fld w ''approved_at''), aw_approved_head = js_opt_str (fld w ''approved_head''),
     aw_nodes = map as_node (items (fld w ''nodes'')) \<rparr>"

section \<open>Identity of a work\<close>

fun origin_str :: "work_origin \<Rightarrow> string" where
  "origin_str Decomposition = ''decomposition''"
| "origin_str Direct_task = ''direct_task''"

fun opt_field :: "string \<Rightarrow> string option \<Rightarrow> (string \<times> json) list" where
  "opt_field k None = []"
| "opt_field k (Some s) = [(k, JStr s)]"

definition canonical_node :: "approved_node \<Rightarrow> json" where
  "canonical_node n = JObj
     [(''id'', JStr (an_id n)), (''intent'', JStr (an_intent n)), (''change_spec'', JStr (an_change_spec n)),
      (''acceptance_criteria'', JArr (map JStr (an_acceptance_criteria n))),
      (''depends_on'', JArr (map JStr (sort (an_depends_on n)))),
      (''criteria_origin_source'', JStr (origin_str (an_criteria_origin_source n))),
      (''criteria_origin_source_id'', JStr (an_criteria_origin_source_id n))]"

definition canonical_work :: "approved_work \<Rightarrow> json" where
  "canonical_work w = JObj
     ([(''work_id'', JStr (aw_work_id w)), (''origin'', JStr (origin_str (aw_origin w))),
       (''repo'', JStr (aw_repo w)), (''branch'', JStr (aw_branch w)), (''payload_hash'', JStr (aw_payload_hash w))]
      @ opt_field ''approval_id'' (aw_approval_id w)
      @ opt_field ''approved_at'' (aw_approved_at w)
      @ opt_field ''approved_head'' (aw_approved_head w)
      @ [(''nodes'', JArr (map canonical_node (aw_nodes w)))])"

text \<open>\<open>digest\<close> is the SHA-256 hex digest of Node's crypto module.\<close>

definition canonicalWorkHash :: "(string \<Rightarrow> string) \<Rightarrow> approved_work \<Rightarrow> string" where
  "canonicalWorkHash digest w = digest (JSON_stringify (canonical_work w))"

section \<open>What validation establishes\<close>

definition work_graph :: "approved_work \<Rightarrow> graph" where
  "work_graph w = map (\<lambda>n. (an_id n, an_depends_on n)) (aw_nodes w)"

definition bounded :: "nat \<Rightarrow> string \<Rightarrow> bool" where
  "bounded mx s \<longleftrightarrow> s \<noteq> [] \<and> length s \<le> mx"

text \<open>The contract of an admitted node and of an admitted work.\<close>

definition valid_node :: "approved_node \<Rightarrow> bool" where
  "valid_node n \<longleftrightarrow>
     bounded (maxIdLength OL) (an_id n) \<and> bounded (maxTextLength OL) (an_intent n)
     \<and> bounded (maxTextLength OL) (an_change_spec n)
     \<and> an_acceptance_criteria n \<noteq> [] \<and> length (an_acceptance_criteria n) \<le> maxCriteriaPerNode OL
     \<and> (\<forall>c \<in> set (an_acceptance_criteria n). bounded (maxTextLength OL) c)
     \<and> length (an_depends_on n) \<le> maxDependenciesPerNode OL
     \<and> bounded (maxIdLength OL) (an_criteria_origin_source_id n)"

definition valid_work :: "approved_work \<Rightarrow> bool" where
  "valid_work w \<longleftrightarrow>
     bounded (maxIdLength OL) (aw_work_id w) \<and> bounded (maxRepoLength OL) (aw_repo w)
     \<and> bounded (maxBranchLength OL) (aw_branch w) \<and> bounded (maxDigestLength OL) (aw_payload_hash w)
     \<and> (aw_origin w = Decomposition \<longrightarrow>
          aw_approval_id w \<noteq> None \<and> aw_approved_at w \<noteq> None \<and> aw_approved_head w \<noteq> None)
     \<and> aw_nodes w \<noteq> [] \<and> length (aw_nodes w) \<le> maxNodes OL
     \<and> (\<forall>n \<in> set (aw_nodes w). valid_node n \<and> an_id n \<notin> set (an_depends_on n))
     \<and> wf_graph (work_graph w) \<and> acyclic (edges (work_graph w))"

lemma node_graph_as_work: "node_graph (items (fld w ''nodes'')) = work_graph (as_work w)"
  by (simp add: node_graph_def work_graph_def as_work_def as_node_def comp_def)

lemma check_node_valid: "check_node seen n = None \<Longrightarrow> valid_node (as_node n) \<and> an_id (as_node n) \<notin> set seen"
  by (auto simp: check_node_def valid_node_def as_node_def bounded_def list_all_iff
      dest: isNonEmptyString_js_str split: if_splits option.splits)

lemma check_nodes_valid:
  "check_nodes seen ns = None \<Longrightarrow>
     (\<forall>n \<in> set ns. valid_node (as_node n)) \<and> distinct (map (\<lambda>n. js_str (fld n ''id'')) ns)
     \<and> set (map (\<lambda>n. js_str (fld n ''id'')) ns) \<inter> set seen = {}"
proof (induction seen ns rule: check_nodes.induct)
  case (2 seen n ns)
  then have n: "check_node seen n = None" and ns: "check_nodes (seen @ [js_str (fld n ''id'')]) ns = None"
    by auto
  from check_node_valid [OF n] have "valid_node (as_node n)" "js_str (fld n ''id'') \<notin> set seen"
    by (auto simp: as_node_def)
  with 2(1) [OF ns] show ?case by auto
qed simp

lemma check_deps_None:
  assumes "distinct (map fst g)"
  shows "check_deps g = None \<longleftrightarrow> wf_graph g \<and> (\<forall>(u, ds) \<in> set g. u \<notin> set ds)"
  using assms
  by (force simp: check_deps_def check_dep_def wf_graph_def node_set_def split: if_splits)

lemma check_cycle_None: "wf_graph g \<Longrightarrow> check_cycle g = None \<longleftrightarrow> acyclic (edges g)"
proof -
  assume wf: "wf_graph g"
  obtain ind n where k: "kahn_fifo (children g) (init_indegree g) (initially_ready (init_indegree g)) 0 = (ind, n)"
    by (cases "kahn_fifo (children g) (init_indegree g) (initially_ready (init_indegree g)) 0")
  from fifo.loop_counts_all [OF wf k] show ?thesis
    using k by (auto simp: check_cycle_def Let_def adj_get_build_adj [OF wf])
qed

lemma check_work_fields_valid:
  assumes "check_work_fields w = None"
  shows "bounded (maxIdLength OL) (aw_work_id (as_work w)) \<and> bounded (maxRepoLength OL) (aw_repo (as_work w))
     \<and> bounded (maxBranchLength OL) (aw_branch (as_work w)) \<and> bounded (maxDigestLength OL) (aw_payload_hash (as_work w))
     \<and> (aw_origin (as_work w) = Decomposition \<longrightarrow>
          aw_approval_id (as_work w) \<noteq> None \<and> aw_approved_at (as_work w) \<noteq> None \<and> aw_approved_head (as_work w) \<noteq> None)
     \<and> aw_nodes (as_work w) \<noteq> [] \<and> length (aw_nodes (as_work w)) \<le> maxNodes OL"
proof -
  have ns: "isNonEmptyString v mx \<Longrightarrow> bounded mx (js_str v) \<and> js_opt_str v \<noteq> None" for v mx
    by (cases v) (auto simp: bounded_def)
  show ?thesis using assms ns
    by (simp add: check_work_fields_def as_work_def as_origin_def origin_ok_def) blast
qed

lemma validateWork_parts:
  "validateWork w = None \<longleftrightarrow> isPlainObject w \<and> unknown_key w work_keys = None \<and> check_work_fields w = None
     \<and> check_nodes [] (items (fld w ''nodes'')) = None \<and> check_deps (work_graph (as_work w)) = None
     \<and> check_cycle (work_graph (as_work w)) = None"
  by (auto simp: validateWork_def node_graph_as_work split: option.splits)

lemma ids_as_work: "map fst (work_graph (as_work w)) = map (\<lambda>n. js_str (fld n ''id'')) (items (fld w ''nodes''))"
  by (simp add: work_graph_def as_work_def as_node_def comp_def)

lemma validateWork_valid:
  assumes "validateWork w = None"
  shows "valid_work (as_work w)"
proof -
  note parts = assms [unfolded validateWork_parts]
  from check_nodes_valid [of "[]" "items (fld w ''nodes'')"] parts
  have nodes: "\<forall>n \<in> set (aw_nodes (as_work w)). valid_node n"
    and dist: "distinct (map fst (work_graph (as_work w)))"
    unfolding ids_as_work by (auto simp: as_work_def)
  from check_deps_None [OF dist] parts
  have wf: "wf_graph (work_graph (as_work w))" and self: "\<forall>(u, ds) \<in> set (work_graph (as_work w)). u \<notin> set ds"
    by auto
  from self have "\<forall>n \<in> set (aw_nodes (as_work w)). an_id n \<notin> set (an_depends_on n)"
    by (auto simp: work_graph_def)
  moreover from parts have "check_work_fields w = None" by blast
  note check_work_fields_valid [OF this]
  moreover from parts check_cycle_None [OF wf] have "acyclic (edges (work_graph (as_work w)))" by blast
  ultimately show ?thesis unfolding valid_work_def using nodes wf by blast
qed

text \<open>A work that passes every structural check is refused exactly when its dependencies form a cycle.\<close>

lemma validateWork_cycle:
  assumes "isPlainObject w" "unknown_key w work_keys = None" "check_work_fields w = None"
    "check_nodes [] (items (fld w ''nodes'')) = None" "check_deps (work_graph (as_work w)) = None"
  shows "validateWork w = (if acyclic (edges (work_graph (as_work w))) then None
                           else Some (INVALID_WORK, ''dependency cycle detected''))"
proof -
  from check_nodes_valid [of "[]"] assms(4) have dist: "distinct (map fst (work_graph (as_work w)))"
    unfolding ids_as_work by blast
  from check_deps_None [OF dist] assms(5) have wf: "wf_graph (work_graph (as_work w))" by simp
  have "check_cycle (work_graph (as_work w)) =
      (if acyclic (edges (work_graph (as_work w))) then None else Some (INVALID_WORK, ''dependency cycle detected''))"
    using check_cycle_None [OF wf] by (auto simp: check_cycle_def Let_def split: if_splits)
  then show ?thesis using assms by (simp add: validateWork_def node_graph_as_work)
qed

end
