(* ===== verification/Store_Schema.thy ===== *)
theory Store_Schema
  imports Work_Validation
begin

text \<open>
  The tables of the Orchestration store after its eight migrations
  (\<^verbatim>\<open>MIGRATIONS\<close> and the record types of \<^verbatim>\<open>orchestration/sqlite-store.ts\<close>), the
  environment an operation runs in, and the validators of worker results and of
  predicted-touch evidence.

  A table is the list of its rows in rowid order. A JSON text column
  (\<^verbatim>\<open>acceptance_criteria_json\<close>, \<^verbatim>\<open>depends_on_json\<close>) is the array it encodes:
  the store writes it with \<^verbatim>\<open>JSON.stringify\<close> and reads it with \<^verbatim>\<open>JSON.parse\<close>
  only. A timestamp column is the time in milliseconds, which its ISO text determines
  and, for the years 0 to 9999, orders. The AUTOINCREMENT keys of
  \<^verbatim>\<open>scheduling_decisions\<close> and \<^verbatim>\<open>audit\<close> are never read and are left out.
\<close>

section \<open>Rows\<close>

record work_row =
  w_work_id :: string
  w_origin :: work_origin
  w_repo :: string
  w_branch :: string
  w_payload_hash :: string
  w_approval_id :: "string option"
  w_approved_at :: "string option"
  w_approved_head :: "string option"
  w_version :: int
  w_frozen_graph_revision :: "string option"
  w_frozen_manifest_digest :: "string option"
  w_frozen_algorithm_version :: "string option"
  w_frozen_policy_version :: "string option"
  w_frozen_evidence_id :: "string option"
  w_frozen_at :: "int option"

record node_row =
  n_work_id :: string
  n_node_id :: string
  n_state :: node_state
  n_version :: int
  n_intent :: string
  n_change_spec :: string
  n_acceptance_criteria :: "string list"
  n_depends_on :: "string list"
  n_criteria_origin_source :: work_origin
  n_criteria_origin_source_id :: string

record dependency_row =
  d_work_id :: string
  d_node_id :: string
  d_depends_on_node_id :: string

datatype attempt_state = Created | Leased | Result_accepted | Completed

record attempt_row =
  a_attempt_id :: string
  a_work_id :: string
  a_node_id :: string
  a_attempt_number :: int
  a_state :: attempt_state
  a_job_id :: "string option"
  a_created_at :: int
  a_lease_generation :: int

record lease_row =
  l_attempt_id :: string
  l_generation :: int
  l_owner :: string
  l_token_digest :: string
  l_issued_at :: int
  l_expires_at :: int

record accepted_row =
  r_attempt_id :: string
  r_result_id :: string
  r_node_id :: string
  r_work_id :: string
  r_outcome :: node_state
  r_phase :: string
  r_artifact_path :: "string option"
  r_summary :: "string option"
  r_accepted_at :: int
  r_generation :: int
  r_expected_node_version :: int

record authorization_row =
  c_attempt_id :: string
  c_node_id :: string
  c_work_id :: string
  c_result_id :: string
  c_expected_node_version :: int
  c_authorized_at :: int

datatype sched_kind = K_optimistic | K_serialize

record scheduling_row =
  s_work_id :: string
  s_evidence_id :: string
  s_node_id :: string
  s_decision :: sched_kind
  s_blocker_node_id :: "string option"
  s_reason :: string
  s_repo :: string
  s_branch :: string
  s_approved_head :: string
  s_graph_revision :: string
  s_manifest_digest :: string
  s_algorithm_version :: string
  s_policy_version :: string
  s_gate1_approval_id :: string
  s_classification :: string
  s_created_at :: int

record routing_row =
  b_attempt_id :: string
  b_builder_model :: string
  b_policy_version :: int
  b_created_at :: int

record phase_row =
  p_attempt_id :: string
  p_phase :: string
  p_revision :: int
  p_status :: string
  p_content_hash :: string
  p_artifact_path :: string
  p_created_at :: int

record proof_row =
  f_attempt_id :: string
  f_result_id :: string
  f_node_id :: string
  f_builder_model :: string
  f_status :: string
  f_commit_sha :: "string option"
  f_failure_code :: "string option"
  f_started_at :: int
  f_finished_at :: int

record check_row =
  k_attempt_id :: string
  k_check_name :: string
  k_passed :: int

record submission_row =
  t_submission_id :: string
  t_caller_id :: string
  t_work_id :: string
  t_payload_hash :: string
  t_acceptance_json :: string
  t_manifest_json :: string
  t_created_at :: int

record idempotency_row =
  i_scope_key :: string
  i_caller_id :: string
  i_payload_hash :: string
  i_submission_id :: string

record audit_row =
  u_work_id :: "string option"
  u_node_id :: "string option"
  u_attempt_id :: "string option"
  u_event :: string
  u_details_json :: string
  u_created_at :: int

record db =
  works :: "work_row list"
  nodes :: "node_row list"
  dependencies :: "dependency_row list"
  attempts :: "attempt_row list"
  leases :: "lease_row list"
  accepted_results :: "accepted_row list"
  completion_authorizations :: "authorization_row list"
  scheduling_decisions :: "scheduling_row list"
  audit_log :: "audit_row list"
  attempt_routing_decisions :: "routing_row list"
  phase_artifacts :: "phase_row list"
  pool_proof_results :: "proof_row list"
  pool_proof_checks :: "check_row list"
  direct_task_submissions :: "submission_row list"
  direct_task_idempotency :: "idempotency_row list"

definition empty_db :: db where
  "empty_db = \<lparr> works = [], nodes = [], dependencies = [], attempts = [], leases = [],
     accepted_results = [], completion_authorizations = [], scheduling_decisions = [], audit_log = [],
     attempt_routing_decisions = [], phase_artifacts = [], pool_proof_results = [], pool_proof_checks = [],
     direct_task_submissions = [], direct_task_idempotency = [] \<rparr>"

definition node_key :: "node_row \<Rightarrow> string \<times> string" where
  "node_key r = (n_work_id r, n_node_id r)"

definition dependency_key :: "dependency_row \<Rightarrow> string \<times> string \<times> string" where
  "dependency_key r = (d_work_id r, d_node_id r, d_depends_on_node_id r)"

definition check_key :: "check_row \<Rightarrow> string \<times> string" where
  "check_key r = (k_attempt_id r, k_check_name r)"

abbreviation get_work_row :: "string \<Rightarrow> db \<Rightarrow> work_row option" where
  "get_work_row k d \<equiv> t_get w_work_id k (works d)"

abbreviation get_node_row :: "string \<Rightarrow> string \<Rightarrow> db \<Rightarrow> node_row option" where
  "get_node_row w n d \<equiv> t_get node_key (w, n) (nodes d)"

abbreviation get_attempt_row :: "string \<Rightarrow> db \<Rightarrow> attempt_row option" where
  "get_attempt_row k d \<equiv> t_get a_attempt_id k (attempts d)"

abbreviation get_lease_row :: "string \<Rightarrow> db \<Rightarrow> lease_row option" where
  "get_lease_row k d \<equiv> t_get l_attempt_id k (leases d)"

section \<open>Environment\<close>

text \<open>
  What an operation takes from outside the database: the SHA-256 hex digest, the token
  the random source yields, the current time, and the message with which
  \<^verbatim>\<open>BEGIN IMMEDIATE\<close> fails when another writer holds the lock (None when it
  succeeds).
\<close>

record env =
  env_digest :: "string \<Rightarrow> string"
  env_token :: string
  env_now :: int
  env_begin_error :: "string option"

text \<open>The operations whose \<^verbatim>\<open>BEGIN IMMEDIATE\<close> stands outside their try block let its error escape.\<close>

definition begin_immediate :: "env \<Rightarrow> db \<Rightarrow> 'a orch_result \<times> db \<Rightarrow> 'a orch_result \<times> db" where
  "begin_immediate e d body = (case env_begin_error e of None \<Rightarrow> body | Some m \<Rightarrow> (Threw m, d))"

text \<open>The three operations that guard it answer with a typed error.\<close>

definition begin_immediate_typed :: "env \<Rightarrow> db \<Rightarrow> 'a orch_result \<times> db \<Rightarrow> 'a orch_result \<times> db" where
  "begin_immediate_typed e d body =
     (case env_begin_error e of
        None \<Rightarrow> body
      | Some m \<Rightarrow> (Err DATABASE_UNREACHABLE (''could not begin write transaction: '' @ m), d))"

definition audit :: "env \<Rightarrow> string \<Rightarrow> (string \<times> json) list \<Rightarrow> string option \<Rightarrow> string option \<Rightarrow> string option \<Rightarrow> db \<Rightarrow> db" where
  "audit e event details workId nodeId attemptId d =
     d\<lparr> audit_log := audit_log d @
        [\<lparr> u_work_id = workId, u_node_id = nodeId, u_attempt_id = attemptId, u_event = event,
           u_details_json = JSON_stringify (JObj details), u_created_at = env_now e \<rparr>] \<rparr>"

section \<open>Dates\<close>

text \<open>Comparisons of a stored time with a Date: false when the Date is invalid.\<close>

fun time_le :: "int \<Rightarrow> js_date \<Rightarrow> bool" where
  "time_le t (Some n) = (t \<le> n)"
| "time_le t None = False"

fun time_gt :: "int \<Rightarrow> js_date \<Rightarrow> bool" where
  "time_gt t (Some n) = (n < t)"
| "time_gt t None = False"

definition invalid_time :: string where
  "invalid_time = ''Invalid time value''"

section \<open>Worker results\<close>

definition result_keys :: "string list" where
  "result_keys = [''result_id'', ''attempt_id'', ''node_id'', ''work_id'', ''outcome'', ''phase'', ''token'',
     ''generation'', ''expected_node_version'', ''artifact_path'', ''summary'']"

definition validateResult :: "js \<Rightarrow> orch_error option" where
  "validateResult v =
     (if \<not> isPlainObject v then Some (INVALID_RESULT, ''result must be an object'')
      else case unknown_key v result_keys of
        Some key \<Rightarrow> Some (INVALID_RESULT, ''unknown field '' @ key)
      | None \<Rightarrow> first_error
        [(\<not> isNonEmptyString (fld v ''result_id'') (maxResultIdLength OL), (INVALID_RESULT, ''invalid result_id'')),
         (\<not> isNonEmptyString (fld v ''attempt_id'') (maxIdLength OL), (INVALID_RESULT, ''invalid attempt_id'')),
         (\<not> isNonEmptyString (fld v ''node_id'') (maxIdLength OL), (INVALID_RESULT, ''invalid node_id'')),
         (\<not> isNonEmptyString (fld v ''work_id'') (maxIdLength OL), (INVALID_RESULT, ''invalid work_id'')),
         (fld v ''outcome'' \<noteq> Str ''passed'' \<and> fld v ''outcome'' \<noteq> Str ''failed'', (INVALID_RESULT, ''invalid outcome'')),
         (\<not> isNonEmptyString (fld v ''phase'') (maxVersionLength OL), (INVALID_RESULT, ''invalid phase'')),
         (\<not> isNonEmptyString (fld v ''token'') (maxTokenLength OL), (INVALID_RESULT, ''invalid token'')),
         (\<not> isPositiveInteger (fld v ''generation''), (INVALID_RESULT, ''invalid generation'')),
         (\<not> isPositiveInteger (fld v ''expected_node_version''), (INVALID_RESULT, ''invalid expected_node_version'')),
         (fld v ''artifact_path'' \<noteq> Undefined \<and> \<not> isNonEmptyString (fld v ''artifact_path'') (maxPathLength OL),
          (INVALID_RESULT, ''invalid artifact_path'')),
         (fld v ''summary'' \<noteq> Undefined \<and> \<not> isNonEmptyString (fld v ''summary'') (maxSummaryLength OL),
          (INVALID_RESULT, ''invalid summary''))])"

definition as_result :: "js \<Rightarrow> worker_result" where
  "as_result v = \<lparr> wr_result_id = js_str (fld v ''result_id''), wr_attempt_id = js_str (fld v ''attempt_id''),
     wr_node_id = js_str (fld v ''node_id''), wr_work_id = js_str (fld v ''work_id''),
     wr_outcome = (if fld v ''outcome'' = Str ''passed'' then Passed else Failed),
     wr_phase = js_str (fld v ''phase''), wr_token = js_str (fld v ''token''),
     wr_generation = js_int (fld v ''generation''),
     wr_expected_node_version = js_int (fld v ''expected_node_version''),
     wr_artifact_path = js_opt_str (fld v ''artifact_path''), wr_summary = js_opt_str (fld v ''summary'') \<rparr>"

definition resultsEqual :: "accepted_row \<Rightarrow> worker_result \<Rightarrow> bool" where
  "resultsEqual a b =
     (r_result_id a = wr_result_id b \<and> r_attempt_id a = wr_attempt_id b \<and> r_node_id a = wr_node_id b
      \<and> r_work_id a = wr_work_id b \<and> r_outcome a = wr_outcome b \<and> r_phase a = wr_phase b
      \<and> r_generation a = wr_generation b \<and> r_expected_node_version a = wr_expected_node_version b
      \<and> r_artifact_path a = wr_artifact_path b \<and> r_summary a = wr_summary b)"

section \<open>Predicted-touch evidence\<close>

abbreviation pt_invalid :: "string \<Rightarrow> orch_error" where
  "pt_invalid m \<equiv> (PREDICTED_TOUCH_INVALID, m)"

definition evidence_string_fields :: "(string \<times> nat) list" where
  "evidence_string_fields =
     [(''evidence_id'', maxEvidenceIdLength OL), (''repo'', maxRepoLength OL),
      (''approved_head'', maxDigestLength OL), (''graph_revision'', maxGraphRevisionLength OL),
      (''manifest_digest'', maxDigestLength OL), (''algorithm_version'', maxVersionLength OL),
      (''policy_version'', maxVersionLength OL), (''gate1_approval_id'', maxIdLength OL)]"

definition evidence_keys :: "string list" where
  "evidence_keys = [''evidence_id'', ''repo'', ''approved_head'', ''graph_revision'', ''manifest_digest'',
     ''algorithm_version'', ''policy_version'', ''gate1_approval_id'', ''classified_overlaps'']"

definition overlap_keys :: "string list" where
  "overlap_keys = [''node_id'', ''confidence'', ''likely_touched_units'', ''shared_surfaces'']"

fun invalid_confidence :: "js \<Rightarrow> bool" where
  "invalid_confidence (Num n) = (num_lt n (Fin 0) \<or> num_lt (Fin 1) n)"
| "invalid_confidence _ = True"

definition check_overlap :: "js \<Rightarrow> orch_error option" where
  "check_overlap v =
     (if \<not> isPlainObject v then Some (pt_invalid ''overlap must be an object'')
      else case unknown_key v overlap_keys of
        Some key \<Rightarrow> Some (pt_invalid (''unknown overlap field '' @ key))
      | None \<Rightarrow> first_error
        [(\<not> hasOwnField v ''node_id'', pt_invalid ''missing overlap node_id''),
         (\<not> isNonEmptyString (fld v ''node_id'') (maxIdLength OL), pt_invalid ''invalid overlap node_id''),
         (\<not> hasOwnField v ''confidence'', pt_invalid ''missing confidence''),
         (invalid_confidence (fld v ''confidence''), pt_invalid ''invalid confidence''),
         (\<not> hasOwnField v ''likely_touched_units'', pt_invalid ''missing likely_touched_units''),
         (\<not> hasOwnField v ''shared_surfaces'', pt_invalid ''missing shared_surfaces''),
         (\<not> is_array (fld v ''likely_touched_units'')
            \<or> maxTouchedUnitsPerOverlap OL < length (items (fld v ''likely_touched_units''))
            \<or> \<not> is_array (fld v ''shared_surfaces'')
            \<or> maxSharedSurfacesPerOverlap OL < length (items (fld v ''shared_surfaces'')),
          pt_invalid ''invalid overlap arrays''),
         (\<not> list_all (\<lambda>u. isNonEmptyString u (maxIdLength OL)) (items (fld v ''likely_touched_units'')),
          pt_invalid ''invalid touched unit''),
         (\<not> list_all (\<lambda>s. isNonEmptyString s (maxIdLength OL)) (items (fld v ''shared_surfaces'')),
          pt_invalid ''invalid shared surface'')])"

definition validatePredictedTouchEvidence :: "js \<Rightarrow> orch_error option" where
  "validatePredictedTouchEvidence v =
     (if \<not> isPlainObject v then Some (pt_invalid ''evidence must be a plain object'')
      else or_else
        (first_some (\<lambda>(name, mx). first_error
            [(\<not> hasOwnField v name, pt_invalid (''missing '' @ name)),
             (\<not> isNonEmptyString (fld v name) mx, pt_invalid (''invalid '' @ name))]) evidence_string_fields)
        (or_else
          (first_error
            [(\<not> hasOwnField v ''classified_overlaps'', pt_invalid ''missing classified_overlaps''),
             (\<not> is_array (fld v ''classified_overlaps'')
                \<or> maxClassifiedOverlaps OL < length (items (fld v ''classified_overlaps'')),
              pt_invalid ''invalid classified_overlaps'')])
          (or_else (first_some check_overlap (items (fld v ''classified_overlaps'')))
            (case unknown_key v evidence_keys of
               Some key \<Rightarrow> Some (pt_invalid (''unknown field '' @ key)) | None \<Rightarrow> None))))"

definition as_overlap :: "js \<Rightarrow> classified_overlap" where
  "as_overlap v = \<lparr> co_node_id = js_str (fld v ''node_id''), co_confidence = js_number (fld v ''confidence''),
     co_likely_touched_units = map js_str (items (fld v ''likely_touched_units'')),
     co_shared_surfaces = map js_str (items (fld v ''shared_surfaces'')) \<rparr>"

definition as_evidence :: "js \<Rightarrow> predicted_touch_evidence" where
  "as_evidence v = \<lparr> ev_evidence_id = js_str (fld v ''evidence_id''), ev_repo = js_str (fld v ''repo''),
     ev_approved_head = js_str (fld v ''approved_head''), ev_graph_revision = js_str (fld v ''graph_revision''),
     ev_manifest_digest = js_str (fld v ''manifest_digest''),
     ev_algorithm_version = js_str (fld v ''algorithm_version''),
     ev_policy_version = js_str (fld v ''policy_version''),
     ev_gate1_approval_id = js_str (fld v ''gate1_approval_id''),
     ev_classified_overlaps = map as_overlap (items (fld v ''classified_overlaps'')) \<rparr>"

section \<open>Lemmas\<close>

lemma begin_immediate_simps [simp]:
  "env_begin_error e = None \<Longrightarrow> begin_immediate e d body = body"
  "env_begin_error e = None \<Longrightarrow> begin_immediate_typed e d body = body"
  "env_begin_error e = Some m \<Longrightarrow> begin_immediate e d body = (Threw m, d)"
  "env_begin_error e = Some m \<Longrightarrow>
     begin_immediate_typed e d body = (Err DATABASE_UNREACHABLE (''could not begin write transaction: '' @ m), d)"
  by (simp_all add: begin_immediate_def begin_immediate_typed_def)

text \<open>An operation that begins a transaction ends in the state of its body or in the state it began in.\<close>

lemma snd_begin: "P d \<Longrightarrow> P (snd body) \<Longrightarrow> P (snd (begin_immediate e d body))"
  "P d \<Longrightarrow> P (snd body') \<Longrightarrow> P (snd (begin_immediate_typed e d body'))"
  by (simp_all add: begin_immediate_def begin_immediate_typed_def split: option.splits)

text \<open>Auditing only appends to the audit log.\<close>

lemma audit_simps [simp]:
  "works (audit e ev de w n a d) = works d" "nodes (audit e ev de w n a d) = nodes d"
  "dependencies (audit e ev de w n a d) = dependencies d" "attempts (audit e ev de w n a d) = attempts d"
  "leases (audit e ev de w n a d) = leases d" "accepted_results (audit e ev de w n a d) = accepted_results d"
  "completion_authorizations (audit e ev de w n a d) = completion_authorizations d"
  "scheduling_decisions (audit e ev de w n a d) = scheduling_decisions d"
  "attempt_routing_decisions (audit e ev de w n a d) = attempt_routing_decisions d"
  "phase_artifacts (audit e ev de w n a d) = phase_artifacts d"
  "pool_proof_results (audit e ev de w n a d) = pool_proof_results d"
  "pool_proof_checks (audit e ev de w n a d) = pool_proof_checks d"
  "direct_task_submissions (audit e ev de w n a d) = direct_task_submissions d"
  "direct_task_idempotency (audit e ev de w n a d) = direct_task_idempotency d"
  by (simp_all add: audit_def)

lemma audit_log_audit [simp]: "prefix (audit_log d) (audit_log (audit e ev de w n a d))"
  by (simp add: audit_def)

lemma time_le_gt: "t \<noteq> None \<Longrightarrow> time_le x t \<longleftrightarrow> \<not> time_gt x t"
  by (cases t) auto

lemma validateResult_valid:
  assumes "validateResult v = None"
  shows "bounded (maxIdLength OL) (wr_attempt_id (as_result v)) \<and> bounded (maxTokenLength OL) (wr_token (as_result v))
    \<and> 1 \<le> wr_generation (as_result v) \<and> 1 \<le> wr_expected_node_version (as_result v)
    \<and> wr_outcome (as_result v) \<in> {Passed, Failed}"
proof -
  have b: "isNonEmptyString x mx \<Longrightarrow> bounded mx (js_str x)" for x mx
    by (cases x) (auto simp: bounded_def)
  have p: "isPositiveInteger x \<Longrightarrow> 1 \<le> js_int x" for x
    by (drule isPositiveIntegerD) auto
  show ?thesis using assms b p
    by (simp add: validateResult_def as_result_def split: if_splits option.splits)
qed

end
