(* ===== verification/Store_Ops.thy ===== *)
theory Store_Ops
  imports Store_Schema
begin

text \<open>
  The operations of the Orchestration store (\<^verbatim>\<open>createSqliteStore\<close> in
  \<^verbatim>\<open>orchestration/sqlite-store.ts\<close>), one definition each, in the source's order. An
  operation maps the environment, its arguments and the database to its result and the
  database it leaves; a rolled-back transaction leaves the database as it was. Primary
  keys, unique constraints, foreign keys and the append-only triggers are written out
  where an insert can meet them.
\<close>

section \<open>Inserts under constraints\<close>

definition insert_unique :: "('r \<Rightarrow> 'k) \<Rightarrow> 'r \<Rightarrow> 'r list \<Rightarrow> 'r list option" where
  "insert_unique key r rows = (case t_get key (key r) rows of None \<Rightarrow> Some (rows @ [r]) | Some _ \<Rightarrow> None)"

fun insert_all :: "('r \<Rightarrow> 'k) \<Rightarrow> 'r list \<Rightarrow> 'r list \<Rightarrow> 'r list option" where
  "insert_all key [] rows = Some rows"
| "insert_all key (r # rs) rows =
     (case insert_unique key r rows of None \<Rightarrow> None | Some rows' \<Rightarrow> insert_all key rs rows')"

section \<open>Work\<close>

definition new_work_row :: "env \<Rightarrow> approved_work \<Rightarrow> work_row" where
  "new_work_row e w = \<lparr> w_work_id = aw_work_id w, w_origin = aw_origin w, w_repo = aw_repo w,
     w_branch = aw_branch w, w_payload_hash = canonicalWorkHash (env_digest e) w,
     w_approval_id = aw_approval_id w, w_approved_at = aw_approved_at w, w_approved_head = aw_approved_head w,
     w_version = 1, w_frozen_graph_revision = None, w_frozen_manifest_digest = None,
     w_frozen_algorithm_version = None, w_frozen_policy_version = None, w_frozen_evidence_id = None,
     w_frozen_at = None \<rparr>"

definition new_node_row :: "string \<Rightarrow> approved_node \<Rightarrow> node_row" where
  "new_node_row workId n = \<lparr> n_work_id = workId, n_node_id = an_id n, n_state = Pending, n_version = 1,
     n_intent = an_intent n, n_change_spec = an_change_spec n,
     n_acceptance_criteria = an_acceptance_criteria n, n_depends_on = an_depends_on n,
     n_criteria_origin_source = an_criteria_origin_source n,
     n_criteria_origin_source_id = an_criteria_origin_source_id n \<rparr>"

definition new_dependency_rows :: "string \<Rightarrow> approved_node \<Rightarrow> dependency_row list" where
  "new_dependency_rows workId n =
     map (\<lambda>dep. \<lparr> d_work_id = workId, d_node_id = an_id n, d_depends_on_node_id = dep \<rparr>) (an_depends_on n)"

text \<open>The rows of the nodes, each followed by its dependency rows; Inl is the constraint that stops the loop.\<close>

fun insert_nodes :: "string \<Rightarrow> approved_node list \<Rightarrow> db \<Rightarrow> string + db" where
  "insert_nodes workId [] d = Inr d"
| "insert_nodes workId (n # ns) d =
     (case insert_unique node_key (new_node_row workId n) (nodes d) of
        None \<Rightarrow> Inl ''UNIQUE constraint failed: nodes.work_id, nodes.node_id''
      | Some rows \<Rightarrow>
          (case insert_all dependency_key (new_dependency_rows workId n) (dependencies d) of
             None \<Rightarrow> Inl ''UNIQUE constraint failed: dependencies.work_id, dependencies.node_id, dependencies.depends_on_node_id''
           | Some drows \<Rightarrow> insert_nodes workId ns (d\<lparr> nodes := rows, dependencies := drows \<rparr>)))"

definition importApprovedWork :: "env \<Rightarrow> js \<Rightarrow> db \<Rightarrow> imported_work orch_result \<times> db" where
  "importApprovedWork e v d =
     (case validateWork v of
        Some err \<Rightarrow> (fail err, d)
      | None \<Rightarrow>
          let work = as_work v in
          case get_work_row (aw_work_id work) d of
            Some existing \<Rightarrow>
              (if w_payload_hash existing = canonicalWorkHash (env_digest e) work
               then (Ok \<lparr> iw_work_id = aw_work_id work, iw_version = 1 \<rparr>, d)
               else (Err CONFLICTING_WORK ''work_id already imported with different content'', d))
          | None \<Rightarrow> begin_immediate e d
              (case insert_nodes (aw_work_id work) (aw_nodes work) (d\<lparr> works := works d @ [new_work_row e work] \<rparr>) of
                 Inl m \<Rightarrow> (Err INVALID_WORK m, d)
               | Inr d' \<Rightarrow>
                   (Ok \<lparr> iw_work_id = aw_work_id work, iw_version = 1 \<rparr>,
                    audit e ''work_imported''
                      [(''origin'', JStr (origin_str (aw_origin work))), (''node_count'', JNum (int (length (aw_nodes work))))]
                      (Some (aw_work_id work)) None None d')))"

definition getImportedWork :: "string \<Rightarrow> db \<Rightarrow> imported_work option" where
  "getImportedWork workId d =
     map_option (\<lambda>r. \<lparr> iw_work_id = w_work_id r, iw_version = w_version r \<rparr>) (get_work_row workId d)"

definition getWork :: "string \<Rightarrow> db \<Rightarrow> (string \<times> string) option" where
  "getWork workId d = map_option (\<lambda>r. (w_repo r, w_branch r)) (get_work_row workId d)"

definition approved_of_row :: "node_row \<Rightarrow> approved_node" where
  "approved_of_row r = \<lparr> an_id = n_node_id r, an_intent = n_intent r, an_change_spec = n_change_spec r,
     an_acceptance_criteria = n_acceptance_criteria r, an_depends_on = n_depends_on r,
     an_criteria_origin_source = n_criteria_origin_source r,
     an_criteria_origin_source_id = n_criteria_origin_source_id r \<rparr>"

definition getApprovedNode :: "string \<Rightarrow> string \<Rightarrow> db \<Rightarrow> approved_node option" where
  "getApprovedNode workId nodeId d = map_option approved_of_row (get_node_row workId nodeId d)"

definition listNodes :: "string \<Rightarrow> db \<Rightarrow> node_row list" where
  "listNodes workId d = sort_key n_node_id (filter (\<lambda>r. n_work_id r = workId) (nodes d))"

section \<open>Node transitions\<close>

definition set_node_state :: "string \<Rightarrow> string \<Rightarrow> int \<Rightarrow> node_state \<Rightarrow> db \<Rightarrow> db" where
  "set_node_state workId nodeId expectedVersion newState d =
     d\<lparr> nodes := t_update node_key (workId, nodeId)
          (\<lambda>r. if n_version r = expectedVersion
               then r\<lparr> n_state := newState, n_version := n_version r + 1 \<rparr> else r) (nodes d) \<rparr>"

definition transitionNode :: "env \<Rightarrow> string \<Rightarrow> string \<Rightarrow> int \<Rightarrow> node_state \<Rightarrow> db \<Rightarrow> node_row orch_result \<times> db" where
  "transitionNode e workId nodeId expectedVersion newState d =
     (if \<not> isValidTransition Pending newState \<and> \<not> isValidTransition Ready newState
         \<and> \<not> isValidTransition In_progress newState
      then (Err INVALID_TRANSITION (''transition to '' @ state_str newState @ '' is not allowed''), d)
      else begin_immediate e d
       (case get_node_row workId nodeId d of
          None \<Rightarrow> (Err NODE_NOT_FOUND ''node not found'', d)
        | Some row \<Rightarrow>
            if n_version row \<noteq> expectedVersion then (Err STALE_VERSION ''expected version mismatch'', d)
            else if \<not> isValidTransition (n_state row) newState
            then (Err INVALID_TRANSITION
                    (''transition from '' @ state_str (n_state row) @ '' to '' @ state_str newState @ '' is not allowed''), d)
            else (Ok (row\<lparr> n_state := newState, n_version := n_version row + 1 \<rparr>),
                  audit e ''node_transitioned''
                    [(''from'', JStr (state_str (n_state row))), (''to'', JStr (state_str newState)),
                     (''expected_version'', JNum expectedVersion)]
                    (Some workId) (Some nodeId) None (set_node_state workId nodeId expectedVersion newState d))))"

section \<open>Attempts\<close>

definition attempt_number_key :: "attempt_row \<Rightarrow> string \<times> string \<times> int" where
  "attempt_number_key r = (a_work_id r, a_node_id r, a_attempt_number r)"

definition createAttempt ::
  "env \<Rightarrow> string \<Rightarrow> string \<Rightarrow> string \<Rightarrow> int \<Rightarrow> string \<Rightarrow> js \<Rightarrow> db \<Rightarrow> attempt_row orch_result \<times> db" where
  "createAttempt e workId nodeId attemptId attemptNumber jobId builderRouting d =
     (if \<not> isNonEmptyString (Str attemptId) (maxIdLength OL) \<or> \<not> isNonEmptyString (Str jobId) (maxIdLength OL)
      then (Err INVALID_RESULT ''invalid attempt or job id'', d)
      else if \<not> isPositiveInteger (JInt attemptNumber) then (Err INVALID_RESULT ''invalid attempt number'', d)
      else if \<not> isResolvedBuilderRouting builderRouting
      then (Err INVALID_RESULT ''attempt requires resolved builder routing'', d)
      else begin_immediate e d
       (case get_node_row workId nodeId d of
          None \<Rightarrow> (Err NODE_NOT_FOUND ''node not found'', d)
        | Some nodeRow \<Rightarrow>
            if n_state nodeRow \<noteq> Ready
            then (Err INVALID_TRANSITION ''attempts can only be created for ready nodes'', d)
            else case get_attempt_row attemptId d of
              Some existing \<Rightarrow> (Ok existing, d)
            | None \<Rightarrow>
                let row = \<lparr> a_attempt_id = attemptId, a_work_id = workId, a_node_id = nodeId,
                            a_attempt_number = attemptNumber, a_state = Created, a_job_id = Some jobId,
                            a_created_at = env_now e, a_lease_generation = 0 \<rparr>;
                    routing = \<lparr> b_attempt_id = attemptId, b_builder_model = js_str (fld builderRouting ''builder''),
                                b_policy_version = js_int (fld builderRouting ''policyVersion''),
                                b_created_at = env_now e \<rparr>
                in case insert_unique attempt_number_key row (attempts d) of
                     None \<Rightarrow> (Err INVALID_RESULT
                       ''UNIQUE constraint failed: attempts.work_id, attempts.node_id, attempts.attempt_number'', d)
                   | Some rows \<Rightarrow>
                       (case insert_unique b_attempt_id routing (attempt_routing_decisions d) of
                          None \<Rightarrow> (Err INVALID_RESULT ''attempt_routing_decisions is append-only'', d)
                        | Some brows \<Rightarrow>
                            (Ok row,
                             audit e ''attempt_created''
                               [(''attempt_id'', JStr attemptId), (''attempt_number'', JNum attemptNumber),
                                (''job_id'', JStr jobId)]
                               (Some workId) (Some nodeId) (Some attemptId)
                               (d\<lparr> attempts := rows, attempt_routing_decisions := brows \<rparr>)))))"

definition getAttempt :: "string \<Rightarrow> db \<Rightarrow> attempt_row option" where
  "getAttempt attemptId d = get_attempt_row attemptId d"

definition getBuilderRoutingByAttemptId :: "string \<Rightarrow> db \<Rightarrow> routing_row option" where
  "getBuilderRoutingByAttemptId attemptId d =
     (if \<not> isNonEmptyString (Str attemptId) (maxIdLength OL) then None
      else t_get b_attempt_id attemptId (attempt_routing_decisions d))"

section \<open>Phase artifacts\<close>

definition CRAFTS_PHASES :: "string list" where
  "CRAFTS_PHASES = [''C'', ''R'', ''A'', ''F'', ''T'', ''S'']"

definition PHASE_ARTIFACT_STATUSES :: "string list" where
  "PHASE_ARTIFACT_STATUSES = [''passed'', ''needs_fix'', ''failed'', ''blocked'']"

fun isCraftsPhase :: "js \<Rightarrow> bool" where
  "isCraftsPhase (Str s) = (s \<in> set CRAFTS_PHASES)"
| "isCraftsPhase _ = False"

fun isPhaseArtifactStatus :: "js \<Rightarrow> bool" where
  "isPhaseArtifactStatus (Str s) = (s \<in> set PHASE_ARTIFACT_STATUSES)"
| "isPhaseArtifactStatus _ = False"

definition phase_key :: "phase_row \<Rightarrow> string \<times> string" where
  "phase_key r = (p_attempt_id r, p_phase r)"

text \<open>\<^verbatim>\<open>COALESCE(MAX(revision), 0)\<close> over the rows of one attempt and phase.\<close>

definition max_revision :: "string \<Rightarrow> string \<Rightarrow> phase_row list \<Rightarrow> int" where
  "max_revision attemptId phase rows =
     foldr max (map p_revision (filter (\<lambda>r. phase_key r = (attemptId, phase)) rows)) 0"

definition recordPhaseArtifact :: "env \<Rightarrow> js \<Rightarrow> db \<Rightarrow> phase_row orch_result \<times> db" where
  "recordPhaseArtifact e v d =
     (let attemptId = fld v ''attempt_id''; phase = fld v ''phase''; status = fld v ''status'';
          contentHash = fld v ''content_hash''; artifactPath = fld v ''artifact_path'' in
      case first_error
        [(\<not> isPlainObject v, (INVALID_RESULT, ''phase artifact input must be an object'')),
         (\<not> isNonEmptyString attemptId (maxIdLength OL), (INVALID_RESULT, ''invalid attempt id'')),
         (\<not> isCraftsPhase phase, (INVALID_RESULT, ''invalid phase'')),
         (\<not> isPhaseArtifactStatus status, (INVALID_RESULT, ''invalid status'')),
         (\<not> isNonEmptyString contentHash (maxDigestLength OL), (INVALID_RESULT, ''invalid content hash'')),
         (\<not> isSafeArtifactLocator artifactPath,
          (INVALID_RESULT, ''artifact_path is not a safe workspace-relative locator''))] of
        Some err \<Rightarrow> (fail err, d)
      | None \<Rightarrow> begin_immediate_typed e d
          (case get_attempt_row (js_str attemptId) d of
             None \<Rightarrow> (Err INVALID_RESULT ''FOREIGN KEY constraint failed'', d)
           | Some _ \<Rightarrow>
               let next = max_revision (js_str attemptId) (js_str phase) (phase_artifacts d) + 1;
                   row = \<lparr> p_attempt_id = js_str attemptId, p_phase = js_str phase, p_revision = next,
                           p_status = js_str status, p_content_hash = js_str contentHash,
                           p_artifact_path = js_str artifactPath, p_created_at = env_now e \<rparr>
               in (Ok row,
                   audit e ''phase_artifact_recorded''
                     [(''phase'', JStr (js_str phase)), (''revision'', JNum next), (''status'', JStr (js_str status))]
                     None None (Some (js_str attemptId))
                     (d\<lparr> phase_artifacts := phase_artifacts d @ [row] \<rparr>))))"

definition getPhaseArtifactRevisions :: "string \<Rightarrow> string \<Rightarrow> db \<Rightarrow> phase_row list" where
  "getPhaseArtifactRevisions attemptId phase d =
     sort_key p_revision (filter (\<lambda>r. phase_key r = (attemptId, phase)) (phase_artifacts d))"

definition getLatestPhaseArtifact :: "string \<Rightarrow> string \<Rightarrow> db \<Rightarrow> phase_row option" where
  "getLatestPhaseArtifact attemptId phase d =
     (case rev (getPhaseArtifactRevisions attemptId phase d) of [] \<Rightarrow> None | r # _ \<Rightarrow> Some r)"

definition getAttemptByJob :: "string \<Rightarrow> db \<Rightarrow> attempt_row option" where
  "getAttemptByJob jobId d = find (\<lambda>r. a_job_id r = Some jobId) (attempts d)"

definition getActiveAttemptForNode :: "string \<Rightarrow> string \<Rightarrow> db \<Rightarrow> attempt_row option" where
  "getActiveAttemptForNode workId nodeId d =
     (case rev (sort_key a_attempt_number
        (filter (\<lambda>r. a_work_id r = workId \<and> a_node_id r = nodeId \<and> (a_state r = Created \<or> a_state r = Leased)) (attempts d))) of
        [] \<Rightarrow> None | r # _ \<Rightarrow> Some r)"

definition setJobId :: "string \<Rightarrow> string \<Rightarrow> db \<Rightarrow> db" where
  "setJobId attemptId jobId d =
     d\<lparr> attempts := t_update a_attempt_id attemptId
          (\<lambda>r. if a_state r = Created then r\<lparr> a_job_id := Some jobId, a_state := Created \<rparr> else r) (attempts d) \<rparr>"

section \<open>Leases\<close>

definition claimLease :: "env \<Rightarrow> js \<Rightarrow> js_date \<Rightarrow> js_date \<Rightarrow> db \<Rightarrow> (int \<times> string) orch_result \<times> db" where
  "claimLease e command expiresAt issuedAt d =
     (case validateLeaseCommand command of
        Some err \<Rightarrow> (fail err, d)
      | None \<Rightarrow>
          let attemptId = js_str (fld command ''attempt_id''); owner = js_str (fld command ''owner'');
              token = env_token e in
          begin_immediate e d
           (case get_attempt_row attemptId d of
              None \<Rightarrow> (Err INVALID_LEASE_COMMAND ''attempt not found'', d)
            | Some attempt \<Rightarrow>
                case get_lease_row attemptId d of
                  Some _ \<Rightarrow> (Err LEASE_CONFLICT ''lease already exists'', d)
                | None \<Rightarrow>
                    let nextGeneration = a_lease_generation attempt + 1 in
                    case (issuedAt, expiresAt) of
                      (Some issued, Some expires) \<Rightarrow>
                        (Ok (nextGeneration, token),
                         audit e ''lease_claimed'' [(''generation'', JNum nextGeneration), (''owner'', JStr owner)]
                           None None (Some attemptId)
                           (d\<lparr> leases := leases d @ [\<lparr> l_attempt_id = attemptId, l_generation = nextGeneration,
                                 l_owner = owner, l_token_digest = env_digest e token,
                                 l_issued_at = issued, l_expires_at = expires \<rparr>],
                              attempts := t_update a_attempt_id attemptId
                                (\<lambda>r. r\<lparr> a_state := Leased, a_lease_generation := nextGeneration \<rparr>) (attempts d) \<rparr>))
                    | _ \<Rightarrow> (Err LEASE_CONFLICT invalid_time, d)))"

definition getLease :: "string \<Rightarrow> db \<Rightarrow> lease_row option" where
  "getLease attemptId d = get_lease_row attemptId d"

definition bad_data_argument :: string where
  "bad_data_argument = ''The data argument must be of type string or an instance of Buffer, TypedArray, or DataView.''"

definition renewLease :: "env \<Rightarrow> js \<Rightarrow> js_date \<Rightarrow> js_date \<Rightarrow> db \<Rightarrow> int orch_result \<times> db" where
  "renewLease e command expiresAt now d =
     (case validateLeaseCommand command of
        Some err \<Rightarrow> (fail err, d)
      | None \<Rightarrow>
          let attemptId = js_str (fld command ''attempt_id'') in
          begin_immediate e d
           (case get_lease_row attemptId d of
              None \<Rightarrow> (Err LEASE_EXPIRED ''no current lease'', d)
            | Some lease \<Rightarrow>
                if l_owner lease \<noteq> js_str (fld command ''owner'') then (Err INVALID_LEASE_COMMAND ''owner mismatch'', d)
                else case fld command ''token'' of
                  Str token \<Rightarrow>
                    (if env_digest e token \<noteq> l_token_digest lease then (Err INVALID_LEASE_COMMAND ''token mismatch'', d)
                     else if time_le (l_expires_at lease) now then (Err LEASE_EXPIRED ''lease already expired'', d)
                     else case expiresAt of
                       None \<Rightarrow> (Err LEASE_EXPIRED invalid_time, d)
                     | Some expires \<Rightarrow>
                         (Ok (l_generation lease),
                          audit e ''lease_renewed'' [(''generation'', JNum (l_generation lease))] None None (Some attemptId)
                            (d\<lparr> leases := t_update l_attempt_id attemptId (\<lambda>r. r\<lparr> l_expires_at := expires \<rparr>) (leases d) \<rparr>)))
                | _ \<Rightarrow> (Err LEASE_EXPIRED bad_data_argument, d)))"

definition drop_lease :: "string \<Rightarrow> db \<Rightarrow> db" where
  "drop_lease attemptId d =
     d\<lparr> leases := t_delete l_attempt_id attemptId (leases d),
        attempts := t_update a_attempt_id attemptId (\<lambda>r. r\<lparr> a_state := Created \<rparr>) (attempts d) \<rparr>"

definition releaseLease :: "env \<Rightarrow> js \<Rightarrow> js_date \<Rightarrow> db \<Rightarrow> unit orch_result \<times> db" where
  "releaseLease e command now d =
     (case validateLeaseCommand command of
        Some err \<Rightarrow> (fail err, d)
      | None \<Rightarrow>
          let attemptId = js_str (fld command ''attempt_id'') in
          begin_immediate e d
           (case get_lease_row attemptId d of
              None \<Rightarrow> (Err INVALID_LEASE_COMMAND ''no current lease'', d)
            | Some lease \<Rightarrow>
                if l_owner lease \<noteq> js_str (fld command ''owner'') then (Err INVALID_LEASE_COMMAND ''owner mismatch'', d)
                else case fld command ''token'' of
                  Str token \<Rightarrow>
                    (if env_digest e token \<noteq> l_token_digest lease then (Err INVALID_LEASE_COMMAND ''token mismatch'', d)
                     else (Ok (), audit e ''lease_released'' [] None None (Some attemptId) (drop_lease attemptId d)))
                | _ \<Rightarrow> (Err LEASE_CONFLICT bad_data_argument, d)))"

definition reclaimLease :: "env \<Rightarrow> string \<Rightarrow> string \<Rightarrow> js_date \<Rightarrow> db \<Rightarrow> int orch_result \<times> db" where
  "reclaimLease e attemptId owner now d =
     (if \<not> isNonEmptyString (Str owner) (maxOwnerLength OL) then (Err INVALID_LEASE_COMMAND ''invalid owner'', d)
      else begin_immediate e d
       (case get_attempt_row attemptId d of
          None \<Rightarrow> (Err INVALID_LEASE_COMMAND ''attempt not found'', d)
        | Some attempt \<Rightarrow>
            case get_lease_row attemptId d of
              None \<Rightarrow> (Err LEASE_EXPIRED ''no lease to reclaim'', d)
            | Some lease \<Rightarrow>
                if time_gt (l_expires_at lease) now then (Err LEASE_CONFLICT ''lease is not expired'', d)
                else (Ok (a_lease_generation attempt + 1),
                      audit e ''lease_reclaimed''
                        [(''generation'', JNum (a_lease_generation attempt + 1)), (''owner'', JStr owner)]
                        None None (Some attemptId) (drop_lease attemptId d))))"

section \<open>Results\<close>

definition lease_valid :: "env \<Rightarrow> worker_result \<Rightarrow> js_date \<Rightarrow> lease_row option \<Rightarrow> bool" where
  "lease_valid e result now lease =
     (case lease of None \<Rightarrow> False
      | Some l \<Rightarrow> time_gt (l_expires_at l) now \<and> wr_generation result = l_generation l
          \<and> env_digest e (wr_token result) = l_token_digest l)"

definition acceptResult :: "env \<Rightarrow> js \<Rightarrow> js_date \<Rightarrow> db \<Rightarrow> unit orch_result \<times> db" where
  "acceptResult e v now d =
     (case validateResult v of
        Some err \<Rightarrow> (fail err, d)
      | None \<Rightarrow>
          let result = as_result v; attemptId = wr_attempt_id result in
          begin_immediate e d
           (case get_attempt_row attemptId d of
              None \<Rightarrow> (Err INVALID_RESULT ''attempt not found'', d)
            | Some attempt \<Rightarrow>
                if a_node_id attempt \<noteq> wr_node_id result \<or> a_work_id attempt \<noteq> wr_work_id result
                then (Err RESULT_IDENTITY_MISMATCH ''result identity does not match stored attempt'', d)
                else case t_get r_attempt_id attemptId (accepted_results d) of
                  Some existing \<Rightarrow>
                    (if resultsEqual existing result
                     then (Ok (), audit e ''result_duplicate_ignored'' [(''result_id'', JStr (wr_result_id result))]
                                    (Some (wr_work_id result)) (Some (wr_node_id result)) (Some attemptId) d)
                     else (Err RESULT_CONFLICT ''result id already used with different content'', d))
                | None \<Rightarrow>
                    case get_node_row (wr_work_id result) (wr_node_id result) d of
                      None \<Rightarrow> (Err NODE_NOT_FOUND ''node not found'', d)
                    | Some node \<Rightarrow>
                        if wr_expected_node_version result \<noteq> n_version node
                        then (Err STALE_VERSION ''expected node version mismatch'', d)
                        else if \<not> lease_valid e result now (get_lease_row attemptId d)
                        then (Err STALE_RESULT ''lease expired, generation mismatch, or token mismatch'', d)
                        else case now of
                          None \<Rightarrow> (Err INVALID_RESULT invalid_time, d)
                        | Some t \<Rightarrow>
                            (Ok (),
                             audit e ''result_accepted''
                               [(''result_id'', JStr (wr_result_id result)), (''outcome'', JStr (state_str (wr_outcome result))),
                                (''generation'', JNum (wr_generation result)),
                                (''expected_node_version'', JNum (wr_expected_node_version result))]
                               (Some (wr_work_id result)) (Some (wr_node_id result)) (Some attemptId)
                               (d\<lparr> accepted_results := accepted_results d @
                                     [\<lparr> r_attempt_id = attemptId, r_result_id = wr_result_id result,
                                        r_node_id = wr_node_id result, r_work_id = wr_work_id result,
                                        r_outcome = wr_outcome result, r_phase = wr_phase result,
                                        r_artifact_path = wr_artifact_path result, r_summary = wr_summary result,
                                        r_accepted_at = t, r_generation = wr_generation result,
                                        r_expected_node_version = wr_expected_node_version result \<rparr>],
                                  completion_authorizations := completion_authorizations d @
                                     [\<lparr> c_attempt_id = attemptId, c_node_id = wr_node_id result,
                                        c_work_id = wr_work_id result, c_result_id = wr_result_id result,
                                        c_expected_node_version = n_version node, c_authorized_at = t \<rparr>],
                                  attempts := t_update a_attempt_id attemptId
                                     (\<lambda>r. r\<lparr> a_state := Result_accepted \<rparr>) (attempts d) \<rparr>))))"

definition getAcceptedResult :: "string \<Rightarrow> db \<Rightarrow> accepted_row option" where
  "getAcceptedResult attemptId d = t_get r_attempt_id attemptId (accepted_results d)"

definition completeAuthorizedResult :: "env \<Rightarrow> string \<Rightarrow> string \<Rightarrow> string \<Rightarrow> db \<Rightarrow> node_row orch_result \<times> db" where
  "completeAuthorizedResult e workId nodeId attemptId d = begin_immediate e d
     (case t_get c_attempt_id attemptId (completion_authorizations d) of
        None \<Rightarrow> (Err INVALID_RESULT ''no completion authorization for attempt'', d)
      | Some auth \<Rightarrow>
          case get_node_row workId nodeId d of
            None \<Rightarrow> (Err NODE_NOT_FOUND ''node not found'', d)
          | Some node \<Rightarrow>
              if n_version node \<noteq> c_expected_node_version auth then (Err STALE_VERSION ''expected version mismatch'', d)
              else case t_get r_attempt_id attemptId (accepted_results d) of
                None \<Rightarrow> (Err INVALID_RESULT ''no accepted result for attempt'', d)
              | Some accepted \<Rightarrow>
                  if \<not> isValidTransition (n_state node) (r_outcome accepted)
                  then (Err INVALID_TRANSITION
                          (''cannot complete from '' @ state_str (n_state node) @ '' to '' @ state_str (r_outcome accepted)), d)
                  else (Ok (node\<lparr> n_state := r_outcome accepted, n_version := n_version node + 1 \<rparr>),
                        audit e ''result_completed''
                          [(''result_id'', JStr (c_result_id auth)), (''expected_version'', JNum (c_expected_node_version auth)),
                           (''outcome'', JStr (state_str (r_outcome accepted)))]
                          (Some workId) (Some nodeId) (Some attemptId)
                          ((set_node_state workId nodeId (c_expected_node_version auth) (r_outcome accepted) d)
                             \<lparr> attempts := t_update a_attempt_id attemptId (\<lambda>r. r\<lparr> a_state := Completed \<rparr>) (attempts d),
                               completion_authorizations := t_delete c_attempt_id attemptId (completion_authorizations d) \<rparr>)))"

end
