(* ===== verification/Store_Evidence.thy ===== *)
theory Store_Evidence
  imports Store_Ops "HOL-Library.AList"
begin

text \<open>
  The rest of the Orchestration store: the import of predicted-touch evidence and the
  scheduling decisions it leaves, the listings that reconciliation reads, the Pool
  Proof results with their checks, and the caller-scoped import of direct tasks.
\<close>

section \<open>Predicted touch\<close>

record predicted_touch_import =
  pt_evidence_id :: string
  pt_work_id :: string
  pt_decision :: sched_kind
  pt_blocker_node_id :: "string option"
  pt_reason :: string

definition scheduling_row_of ::
  "env \<Rightarrow> string \<Rightarrow> predicted_touch_evidence \<Rightarrow> string \<Rightarrow> sched_kind \<Rightarrow> string option \<Rightarrow> string
     \<Rightarrow> string \<Rightarrow> string \<Rightarrow> string \<Rightarrow> scheduling_row" where
  "scheduling_row_of e workId ev nodeId decision blocker reason repo branch classification =
     \<lparr> s_work_id = workId, s_evidence_id = ev_evidence_id ev, s_node_id = nodeId, s_decision = decision,
       s_blocker_node_id = blocker, s_reason = reason, s_repo = repo, s_branch = branch,
       s_approved_head = ev_approved_head ev, s_graph_revision = ev_graph_revision ev,
       s_manifest_digest = ev_manifest_digest ev, s_algorithm_version = ev_algorithm_version ev,
       s_policy_version = ev_policy_version ev, s_gate1_approval_id = ev_gate1_approval_id ev,
       s_classification = classification, s_created_at = env_now e \<rparr>"

text \<open>
  The fallback record. When the work does not exist the insert violates the foreign
  key, the transaction rolls back, and the decision is still returned.
\<close>

definition persistSchedulingDecision ::
  "env \<Rightarrow> sched_kind \<Rightarrow> string \<Rightarrow> predicted_touch_evidence \<Rightarrow> string \<Rightarrow> string option \<Rightarrow> db
     \<Rightarrow> predicted_touch_import orch_result \<times> db" where
  "persistSchedulingDecision e decision workId ev reason blocker d = begin_immediate e d
     (Ok \<lparr> pt_evidence_id = ev_evidence_id ev, pt_work_id = workId, pt_decision = decision,
           pt_blocker_node_id = blocker, pt_reason = reason \<rparr>,
      case get_work_row workId d of
        None \<Rightarrow> d
      | Some work \<Rightarrow>
          d\<lparr> scheduling_decisions := filter (\<lambda>r. s_work_id r \<noteq> workId) (scheduling_decisions d) @
               [scheduling_row_of e workId ev [] decision blocker reason (w_repo work) (w_branch work) ''fallback''] \<rparr>)"

definition provenance_reasons :: "work_row \<Rightarrow> predicted_touch_evidence \<Rightarrow> string list" where
  "provenance_reasons work ev =
     (let first =
        (if w_origin work \<noteq> Decomposition then [''work is not decomposed''] else []) @
        (if w_approval_id work \<noteq> Some (ev_gate1_approval_id ev) then [''approval_id mismatch''] else []) @
        (if w_approved_head work \<noteq> Some (ev_approved_head ev) then [''approved_head mismatch''] else []) @
        (if w_repo work \<noteq> ev_repo ev then [''repo mismatch''] else [])
      in if first = [] \<and> w_frozen_graph_revision work \<noteq> None then
        (if w_frozen_graph_revision work \<noteq> Some (ev_graph_revision ev) then [''graph_revision mismatch''] else []) @
        (if w_frozen_manifest_digest work \<noteq> Some (ev_manifest_digest ev) then [''manifest_digest mismatch''] else []) @
        (if w_frozen_algorithm_version work \<noteq> Some (ev_algorithm_version ev) then [''algorithm_version mismatch''] else []) @
        (if w_frozen_policy_version work \<noteq> Some (ev_policy_version ev) then [''policy_version mismatch''] else [])
      else first)"

definition collect_blockers ::
  "scheduling_policy \<Rightarrow> classified_overlap list \<Rightarrow> string list \<Rightarrow> (string \<times> string) list" where
  "collect_blockers policy overlaps nodeIds =
     foldl (\<lambda>bs ov.
        if co_node_id ov \<notin> set nodeIds then bs
        else case pol_classify policy (co_node_id ov) overlaps nodeIds of
          Serialize b _ \<Rightarrow> (if b \<noteq> co_node_id ov \<and> b \<in> set nodeIds then AList.update (co_node_id ov) b bs else bs)
        | Optimistic _ \<Rightarrow> bs) [] overlaps"

definition freeze_work :: "env \<Rightarrow> predicted_touch_evidence \<Rightarrow> work_row \<Rightarrow> work_row" where
  "freeze_work e ev w = w\<lparr> w_frozen_graph_revision := Some (ev_graph_revision ev),
     w_frozen_manifest_digest := Some (ev_manifest_digest ev),
     w_frozen_algorithm_version := Some (ev_algorithm_version ev),
     w_frozen_policy_version := Some (ev_policy_version ev),
     w_frozen_evidence_id := Some (ev_evidence_id ev), w_frozen_at := Some (env_now e) \<rparr>"

definition importPredictedTouch ::
  "env \<Rightarrow> string \<Rightarrow> js \<Rightarrow> scheduling_policy \<Rightarrow> db \<Rightarrow> predicted_touch_import orch_result \<times> db" where
  "importPredictedTouch e workId v policy d =
     (case validatePredictedTouchEvidence v of
        Some err \<Rightarrow> (fail err, d)
      | None \<Rightarrow>
          let ev = as_evidence v in
          if pol_version policy \<noteq> ev_policy_version ev
          then persistSchedulingDecision e K_optimistic workId ev ''policy version mismatch'' None d
          else case get_work_row workId d of
            None \<Rightarrow> (Err WORK_NOT_FOUND ''work not found'', d)
          | Some work \<Rightarrow>
              let reasons = provenance_reasons work ev in
              if reasons \<noteq> [] then persistSchedulingDecision e K_optimistic workId ev (join_with ''; '' reasons) None d
              else
                let nodeIds = sort (map n_node_id (filter (\<lambda>r. n_work_id r = workId) (nodes d)));
                    blockers = collect_blockers policy (ev_classified_overlaps ev) nodeIds;
                    serialized = ''serialized by policy '' @ pol_version policy;
                    no_overlap = ''no overlap under policy '' @ pol_version policy;
                    rows = map (\<lambda>(n, b). scheduling_row_of e workId ev n K_serialize (Some b) serialized
                                   (w_repo work) (w_branch work) ''high_confidence_overlap'') blockers
                         @ (if blockers = []
                            then [scheduling_row_of e workId ev [] K_optimistic None no_overlap
                                   (w_repo work) (w_branch work) ''no_confident_overlap'']
                            else [])
                in begin_immediate e d
                 (Ok (case blockers of
                        [] \<Rightarrow> \<lparr> pt_evidence_id = ev_evidence_id ev, pt_work_id = workId, pt_decision = K_optimistic,
                                pt_blocker_node_id = None, pt_reason = no_overlap \<rparr>
                      | (n, b) # _ \<Rightarrow> \<lparr> pt_evidence_id = ev_evidence_id ev, pt_work_id = workId, pt_decision = K_serialize,
                                pt_blocker_node_id = Some b, pt_reason = serialized \<rparr>),
                  d\<lparr> scheduling_decisions := filter (\<lambda>r. s_work_id r \<noteq> workId) (scheduling_decisions d) @ rows,
                     works := (if w_frozen_graph_revision work = None
                               then t_update w_work_id workId (freeze_work e ev) (works d) else works d) \<rparr>))"

definition getSchedulingBlockers :: "string \<Rightarrow> db \<Rightarrow> (string \<times> string) list" where
  "getSchedulingBlockers workId d =
     foldl (\<lambda>m r. case s_blocker_node_id r of Some b \<Rightarrow> AList.update (s_node_id r) b m | None \<Rightarrow> m) []
       (filter (\<lambda>r. s_work_id r = workId \<and> s_decision r = K_serialize) (scheduling_decisions d))"

section \<open>Listings\<close>

definition listAttemptsNeedingReconciliation :: "int \<Rightarrow> db \<Rightarrow> attempt_row list" where
  "listAttemptsNeedingReconciliation now d =
     filter (\<lambda>r. a_state r = Created
        \<or> (a_state r = Leased \<and> a_attempt_id r \<in> set (map l_attempt_id (filter (\<lambda>l. l_expires_at l \<le> now) (leases d)))))
       (attempts d)"

definition listAuthorizedResults :: "db \<Rightarrow> authorization_row list" where
  "listAuthorizedResults d = completion_authorizations d"

definition listCreatedAttempts :: "db \<Rightarrow> attempt_row list" where
  "listCreatedAttempts d = filter (\<lambda>r. a_state r = Created) (attempts d)"

section \<open>Pool Proof results\<close>

record proof_input =
  pi_attempt_id :: string
  pi_result_id :: string
  pi_node_id :: string
  pi_builder_model :: string
  pi_status :: string
  pi_commit_sha :: "string option"
  pi_failure_code :: "string option"
  pi_checks :: "(string \<times> bool) list"
  pi_started_at :: js_date
  pi_finished_at :: js_date

definition is_sha1_hex :: "string \<Rightarrow> bool" where
  "is_sha1_hex s = (length s = 40 \<and> list_all (\<lambda>c. c \<in> set ''0123456789abcdef'') s)"

fun check_names :: "string list \<Rightarrow> (string \<times> bool) list \<Rightarrow> orch_error option" where
  "check_names seen [] = None"
| "check_names seen ((name, passed) # cs) =
     (if name = [] \<or> 200 < length name then Some (INVALID_RESULT, ''check name out of bounds'')
      else if name \<in> set seen then Some (INVALID_RESULT, ''duplicate check name '' @ name)
      else check_names (name # seen) cs)"

definition validate_proof_input :: "proof_input \<Rightarrow> orch_error option" where
  "validate_proof_input inp =
     or_else (first_error
       [(\<not> isNonEmptyString (Str (pi_attempt_id inp)) (maxIdLength OL), (INVALID_RESULT, ''invalid attempt_id'')),
        (\<not> isNonEmptyString (Str (pi_result_id inp)) (maxResultIdLength OL), (INVALID_RESULT, ''invalid result_id'')),
        (\<not> isNonEmptyString (Str (pi_node_id inp)) (maxIdLength OL), (INVALID_RESULT, ''invalid node_id'')),
        (\<not> isApprovedModelId (Str (pi_builder_model inp)), (INVALID_RESULT, ''invalid builder_model'')),
        (pi_status inp \<noteq> ''passed'' \<and> pi_status inp \<noteq> ''failed'', (INVALID_RESULT, ''invalid status'')),
        ((case pi_commit_sha inp of None \<Rightarrow> False | Some s \<Rightarrow> \<not> is_sha1_hex s),
         (INVALID_RESULT, ''commit_sha must be a 40-character hex SHA-1'')),
        (pi_status inp = ''passed'' \<and> pi_commit_sha inp = None, (INVALID_RESULT, ''passed result requires a commit sha'')),
        (pi_status inp = ''failed'' \<and> pi_commit_sha inp \<noteq> None, (INVALID_RESULT, ''failed result must have null commit_sha'')),
        (pi_status inp = ''failed'' \<and> pi_failure_code inp = None, (INVALID_RESULT, ''failed result requires a failure code'')),
        (pi_status inp = ''passed'' \<and> pi_failure_code inp \<noteq> None, (INVALID_RESULT, ''passed result must have null failure_code'')),
        ((case pi_failure_code inp of None \<Rightarrow> False | Some s \<Rightarrow> \<not> isNonEmptyString (Str s) (maxVersionLength OL)),
         (INVALID_RESULT, ''invalid failure_code'')),
        (pi_started_at inp = None \<or> pi_finished_at inp = None, (INVALID_RESULT, ''timestamps must be finite'')),
        ((case (pi_started_at inp, pi_finished_at inp) of (Some s, Some f) \<Rightarrow> f < s | _ \<Rightarrow> False),
         (INVALID_RESULT, ''finished_at must not be before started_at'')),
        (pi_checks inp = [], (INVALID_RESULT, ''checks must be a non-empty array''))])
      (check_names [] (pi_checks inp))"

definition proof_row_of :: "proof_input \<Rightarrow> proof_row" where
  "proof_row_of inp = \<lparr> f_attempt_id = pi_attempt_id inp, f_result_id = pi_result_id inp,
     f_node_id = pi_node_id inp, f_builder_model = pi_builder_model inp, f_status = pi_status inp,
     f_commit_sha = pi_commit_sha inp, f_failure_code = pi_failure_code inp,
     f_started_at = the (pi_started_at inp), f_finished_at = the (pi_finished_at inp) \<rparr>"

definition check_rows_of :: "string \<Rightarrow> (string \<times> bool) list \<Rightarrow> check_row list" where
  "check_rows_of attemptId cs =
     map (\<lambda>(name, passed). \<lparr> k_attempt_id = attemptId, k_check_name = name, k_passed = (if passed then 1 else 0) \<rparr>) cs"

text \<open>
  The replay test compares the stored checks in SQLite's binary order with the
  submitted ones in the order of \<^verbatim>\<open>localeCompare\<close>, here the parameter \<open>lc\<close>.
\<close>

definition same_checks :: "(string \<Rightarrow> string \<Rightarrow> int) \<Rightarrow> string \<Rightarrow> (string \<times> bool) list \<Rightarrow> db \<Rightarrow> bool" where
  "same_checks lc attemptId cs d =
     (let existingChecks = sort_key k_check_name (filter (\<lambda>r. k_attempt_id r = attemptId) (pool_proof_checks d));
          inputChecks = sort_by (\<lambda>a b. lc (fst a) (fst b)) cs
      in length existingChecks = length inputChecks
         \<and> list_all2 (\<lambda>ec ic. k_check_name ec = fst ic \<and> k_passed ec = (if snd ic then 1 else 0)) existingChecks inputChecks)"

definition recordProofResult ::
  "(string \<Rightarrow> string \<Rightarrow> int) \<Rightarrow> env \<Rightarrow> proof_input \<Rightarrow> db \<Rightarrow> unit orch_result \<times> db" where
  "recordProofResult lc e inp d =
     (case validate_proof_input inp of
        Some err \<Rightarrow> (fail err, d)
      | None \<Rightarrow> begin_immediate_typed e d
          (case get_attempt_row (pi_attempt_id inp) d of
             None \<Rightarrow> (Err INVALID_RESULT ''attempt not found'', d)
           | Some attempt \<Rightarrow>
               if a_node_id attempt \<noteq> pi_node_id inp
               then (Err RESULT_IDENTITY_MISMATCH ''result node_id does not match stored attempt'', d)
               else if (case t_get b_attempt_id (pi_attempt_id inp) (attempt_routing_decisions d) of
                          None \<Rightarrow> True | Some r \<Rightarrow> b_builder_model r \<noteq> pi_builder_model inp)
               then (Err RESULT_IDENTITY_MISMATCH ''result builder_model does not attempt routing provenance'', d)
               else case t_get f_attempt_id (pi_attempt_id inp) (pool_proof_results d) of
                 Some existing \<Rightarrow>
                   (if existing = proof_row_of inp \<and> same_checks lc (pi_attempt_id inp) (pi_checks inp) d
                    then (Ok (), audit e ''proof_result_replay_no_op''
                                   [(''result_id'', JStr (pi_result_id inp)), (''status'', JStr (pi_status inp))]
                                   None (Some (pi_node_id inp)) (Some (pi_attempt_id inp)) d)
                    else (Err CONFLICTING_PROOF_RESULT ''terminal proof result already recorded with different content'', d))
               | None \<Rightarrow>
                   case insert_all check_key (check_rows_of (pi_attempt_id inp) (pi_checks inp)) (pool_proof_checks d) of
                     None \<Rightarrow> (Err INVALID_RESULT ''pool_proof_checks is append-only'', d)
                   | Some checks \<Rightarrow>
                       (Ok (), audit e ''proof_result_recorded''
                          [(''result_id'', JStr (pi_result_id inp)), (''status'', JStr (pi_status inp))]
                          None (Some (pi_node_id inp)) (Some (pi_attempt_id inp))
                          (d\<lparr> pool_proof_results := pool_proof_results d @ [proof_row_of inp],
                             pool_proof_checks := checks \<rparr>))))"

definition getProofResult :: "string \<Rightarrow> db \<Rightarrow> proof_row option" where
  "getProofResult attemptId d =
     (if \<not> isNonEmptyString (Str attemptId) (maxIdLength OL) then None
      else t_get f_attempt_id attemptId (pool_proof_results d))"

text \<open>The attempts of a work, which the joins select by.\<close>

definition attempt_in_work :: "string \<Rightarrow> db \<Rightarrow> string \<Rightarrow> bool" where
  "attempt_in_work workId d attemptId =
     list_ex (\<lambda>a. a_attempt_id a = attemptId \<and> a_work_id a = workId) (attempts d)"

definition getProofResultsByWork :: "string \<Rightarrow> db \<Rightarrow> proof_row list" where
  "getProofResultsByWork workId d =
     (if \<not> isNonEmptyString (Str workId) (maxIdLength OL) then []
      else sort_key f_attempt_id (filter (\<lambda>r. attempt_in_work workId d (f_attempt_id r)) (pool_proof_results d)))"

definition getProofChecks :: "string \<Rightarrow> db \<Rightarrow> check_row list" where
  "getProofChecks attemptId d =
     (if \<not> isNonEmptyString (Str attemptId) (maxIdLength OL) then []
      else filter (\<lambda>r. k_attempt_id r = attemptId) (pool_proof_checks d))"

definition hasConflictingProofResult :: "string \<Rightarrow> string \<Rightarrow> db \<Rightarrow> bool \<times> string option" where
  "hasConflictingProofResult attemptId resultId d =
     (if \<not> isNonEmptyString (Str attemptId) (maxIdLength OL) \<or> \<not> isNonEmptyString (Str resultId) (maxResultIdLength OL)
      then (False, None)
      else case t_get f_attempt_id attemptId (pool_proof_results d) of
        None \<Rightarrow> (False, None)
      | Some row \<Rightarrow> (f_result_id row \<noteq> resultId, Some (f_result_id row)))"

definition countPhaseArtifactsForAttempt :: "string \<Rightarrow> db \<Rightarrow> nat" where
  "countPhaseArtifactsForAttempt attemptId d =
     (if \<not> isNonEmptyString (Str attemptId) (maxIdLength OL) then 0
      else length (filter (\<lambda>r. p_attempt_id r = attemptId) (phase_artifacts d)))"

definition countPhaseArtifactsByWork :: "string \<Rightarrow> db \<Rightarrow> nat" where
  "countPhaseArtifactsByWork workId d =
     (if \<not> isNonEmptyString (Str workId) (maxIdLength OL) then 0
      else length (filter (\<lambda>r. attempt_in_work workId d (p_attempt_id r)) (phase_artifacts d)))"

definition getAttemptRoutingDecisionsByWork :: "string \<Rightarrow> db \<Rightarrow> routing_row list" where
  "getAttemptRoutingDecisionsByWork workId d =
     (if \<not> isNonEmptyString (Str workId) (maxIdLength OL) then []
      else sort_key b_attempt_id (filter (\<lambda>r. attempt_in_work workId d (b_attempt_id r)) (attempt_routing_decisions d)))"

section \<open>Direct tasks\<close>

record direct_task_input =
  di_caller_id :: string
  di_scope_key :: "string option"
  di_payload_hash :: string
  di_submission_id :: string
  di_acceptance_json :: string
  di_manifest_json :: string
  di_work :: js

datatype direct_import = Imported string string | Replayed string string string

definition validate_direct_task :: "direct_task_input \<Rightarrow> orch_error option" where
  "validate_direct_task inp =
     or_else (validateWork (di_work inp)) (first_error
       [(\<not> isNonEmptyString (Str (di_caller_id inp)) (maxOwnerLength OL), (INVALID_WORK, ''invalid caller_id'')),
        (\<not> isNonEmptyString (Str (di_payload_hash inp)) (maxDigestLength OL), (INVALID_WORK, ''invalid payload_hash'')),
        (\<not> isNonEmptyString (Str (di_submission_id inp)) (maxIdLength OL), (INVALID_WORK, ''invalid submission_id'')),
        (\<not> isNonEmptyString (Str (di_acceptance_json inp)) 1000000 \<or> \<not> isNonEmptyString (Str (di_manifest_json inp)) 1000000,
         (INVALID_WORK, ''invalid acceptance or manifest'')),
        ((case di_scope_key inp of None \<Rightarrow> False | Some k \<Rightarrow> \<not> isNonEmptyString (Str k) 1024),
         (INVALID_WORK, ''invalid scope_key'')),
        (aw_origin (as_work (di_work inp)) \<noteq> Direct_task \<or> length (aw_nodes (as_work (di_work inp))) \<noteq> 1,
         (INVALID_WORK, ''direct task import requires one direct_task node''))])"

record idempotency_record =
  ir_scope_key :: string
  ir_caller_id :: string
  ir_payload_hash :: string
  ir_submission_id :: string
  ir_work_id :: string
  ir_acceptance_json :: string

text \<open>The row of a scope key joined with its submission.\<close>

definition find_idempotency :: "string \<Rightarrow> db \<Rightarrow> idempotency_record option" where
  "find_idempotency k d =
     (case t_get i_scope_key k (direct_task_idempotency d) of
        None \<Rightarrow> None
      | Some i \<Rightarrow>
          (case t_get t_submission_id (i_submission_id i) (direct_task_submissions d) of
             None \<Rightarrow> None
           | Some s \<Rightarrow> Some \<lparr> ir_scope_key = i_scope_key i, ir_caller_id = i_caller_id i,
                 ir_payload_hash = i_payload_hash i, ir_submission_id = i_submission_id i,
                 ir_work_id = t_work_id s, ir_acceptance_json = t_acceptance_json s \<rparr>))"

definition insert_direct_task :: "env \<Rightarrow> direct_task_input \<Rightarrow> db \<Rightarrow> string + db" where
  "insert_direct_task e inp d =
     (let work = as_work (di_work inp);
          rows = map (new_node_row (aw_work_id work)) (aw_nodes work);
          sub = \<lparr> t_submission_id = di_submission_id inp, t_caller_id = di_caller_id inp, t_work_id = aw_work_id work,
                  t_payload_hash = di_payload_hash inp, t_acceptance_json = di_acceptance_json inp,
                  t_manifest_json = di_manifest_json inp, t_created_at = env_now e \<rparr> in
      case insert_all node_key rows (nodes d) of
        None \<Rightarrow> Inl ''UNIQUE constraint failed: nodes.work_id, nodes.node_id''
      | Some nrows \<Rightarrow>
          case insert_unique t_work_id sub (direct_task_submissions d) of
            None \<Rightarrow> Inl ''UNIQUE constraint failed: direct_task_submissions.work_id''
          | Some subs \<Rightarrow>
              let d' = d\<lparr> works := works d @ [new_work_row e work], nodes := nrows, direct_task_submissions := subs \<rparr> in
              case di_scope_key inp of
                None \<Rightarrow> Inr d'
              | Some k \<Rightarrow>
                  (case insert_unique i_scope_key
                          \<lparr> i_scope_key = k, i_caller_id = di_caller_id inp, i_payload_hash = di_payload_hash inp,
                            i_submission_id = di_submission_id inp \<rparr> (direct_task_idempotency d) of
                     None \<Rightarrow> Inl ''UNIQUE constraint failed: direct_task_idempotency.scope_key''
                   | Some idem \<Rightarrow> Inr (d'\<lparr> direct_task_idempotency := idem \<rparr>)))"

definition importDirectTask :: "env \<Rightarrow> direct_task_input \<Rightarrow> db \<Rightarrow> direct_import orch_result \<times> db" where
  "importDirectTask e inp d =
     (case validate_direct_task inp of
        Some err \<Rightarrow> (fail err, d)
      | None \<Rightarrow> begin_immediate_typed e d
          (case Option.bind (di_scope_key inp) (\<lambda>k. find_idempotency k d) of
             Some existing \<Rightarrow>
               (if ir_caller_id existing \<noteq> di_caller_id inp
                then (Err INVALID_WORK ''idempotency scope caller mismatch'', d)
                else if ir_payload_hash existing \<noteq> di_payload_hash inp
                then (Err IDEMPOTENCY_KEY_PAYLOAD_MISMATCH
                        ''this idempotency key was already used with a different payload'', d)
                else (Ok (Replayed (ir_work_id existing) (ir_submission_id existing) (ir_acceptance_json existing)), d))
           | None \<Rightarrow>
               let work = as_work (di_work inp) in
               case get_work_row (aw_work_id work) d of
                 Some _ \<Rightarrow> (Err CONFLICTING_WORK ''work_id already imported'', d)
               | None \<Rightarrow>
                   case t_get t_submission_id (di_submission_id inp) (direct_task_submissions d) of
                     Some _ \<Rightarrow> (Err DUPLICATE_WORK ''submission_id already imported'', d)
                   | None \<Rightarrow>
                       (case insert_direct_task e inp d of
                          Inl m \<Rightarrow> (Err INVALID_WORK m, d)
                        | Inr d' \<Rightarrow>
                            (Ok (Imported (aw_work_id work) (di_submission_id inp)),
                             audit e ''direct_task_imported'' [(''origin'', JStr ''direct_task'')]
                               (Some (aw_work_id work)) None None d'))))"

definition getDirectTaskIdempotency :: "string \<Rightarrow> db \<Rightarrow> idempotency_record option" where
  "getDirectTaskIdempotency scopeKey d =
     (if \<not> isNonEmptyString (Str scopeKey) 1024 then None else find_idempotency scopeKey d)"

definition getDirectTaskSubmission :: "string \<Rightarrow> string \<Rightarrow> db \<Rightarrow> submission_row option" where
  "getDirectTaskSubmission callerId submissionId d =
     (if \<not> isNonEmptyString (Str callerId) (maxOwnerLength OL) \<or> \<not> isNonEmptyString (Str submissionId) (maxIdLength OL)
      then None
      else find (\<lambda>r. t_caller_id r = callerId \<and> t_submission_id r = submissionId) (direct_task_submissions d))"

record direct_task_claimable =
  dc_submission_id :: string
  dc_work_id :: string
  dc_node_id :: string
  dc_node_state :: node_state
  dc_node_version :: int
  dc_manifest_json :: string
  dc_attempt :: "(string \<times> attempt_state) option"

definition claimables_of :: "db \<Rightarrow> submission_row \<Rightarrow> node_row \<Rightarrow> direct_task_claimable list" where
  "claimables_of d s n =
     (let row = (\<lambda>a. \<lparr> dc_submission_id = t_submission_id s, dc_work_id = t_work_id s, dc_node_id = n_node_id n,
                       dc_node_state = n_state n, dc_node_version = n_version n,
                       dc_manifest_json = t_manifest_json s, dc_attempt = a \<rparr>);
          as = filter (\<lambda>a. a_work_id a = t_work_id s \<and> a_node_id a = n_node_id n) (attempts d)
      in if as = [] then [row None] else map (\<lambda>a. row (Some (a_attempt_id a, a_state a))) as)"

definition listDirectTaskClaimables :: "db \<Rightarrow> direct_task_claimable list" where
  "listDirectTaskClaimables d =
     concat (map (\<lambda>s. concat (map (claimables_of d s)
        (filter (\<lambda>n. n_work_id n = t_work_id s \<and> n_state n \<in> {Pending, Ready, In_progress}) (nodes d))))
       (sort_key t_created_at (direct_task_submissions d)))"

end
