(* ===== verification/Store_Steps.thy ===== *)
theory Store_Steps
  imports Store_Evidence
begin

text \<open>
  The store as a transition system. \<open>store_step\<close> has one rule per operation that may
  write, with any environment and any arguments; \<open>store_tx\<close> is the abstract
  specification, one rule per kind of committed transaction with the facts its guards
  establish. The refinement lemma \<open>store_step_tx\<close> shows that every operation commits
  one of these transactions or changes nothing but the audit log.
\<close>

inductive store_step :: "db \<Rightarrow> db \<Rightarrow> bool" where
  st_import: "store_step d (snd (importApprovedWork e v d))"
| st_transition: "store_step d (snd (transitionNode e w n ver s d))"
| st_attempt: "store_step d (snd (createAttempt e w n a num j b d))"
| st_phase: "store_step d (snd (recordPhaseArtifact e v d))"
| st_job: "store_step d (setJobId a j d)"
| st_claim: "store_step d (snd (claimLease e c ex is d))"
| st_renew: "store_step d (snd (renewLease e c ex now d))"
| st_release: "store_step d (snd (releaseLease e c now d))"
| st_reclaim: "store_step d (snd (reclaimLease e a ow now d))"
| st_accept: "store_step d (snd (acceptResult e v now d))"
| st_complete: "store_step d (snd (completeAuthorizedResult e w n a d))"
| st_touch: "store_step d (snd (importPredictedTouch e w v pol d))"
| st_proof: "store_step d (snd (recordProofResult lc e inp d))"
| st_direct: "store_step d (snd (importDirectTask e dinp d))"

abbreviation reachable :: "db \<Rightarrow> bool" where
  "reachable \<equiv> store_step\<^sup>*\<^sup>* empty_db"

definition fresh_work :: "approved_work \<Rightarrow> db \<Rightarrow> bool" where
  "fresh_work w d \<longleftrightarrow> valid_work w \<and> get_work_row (aw_work_id w) d = None
     \<and> (\<forall>n \<in> set (aw_nodes w). get_node_row (aw_work_id w) (an_id n) d = None)"

definition add_work :: "env \<Rightarrow> approved_work \<Rightarrow> db \<Rightarrow> db" where
  "add_work e w d = d\<lparr> works := works d @ [new_work_row e w],
     nodes := nodes d @ map (new_node_row (aw_work_id w)) (aw_nodes w) \<rparr>"

inductive store_tx :: "db \<Rightarrow> db \<Rightarrow> bool" where
  tx_none: "store_tx d d"
| tx_audit: "store_tx d (d\<lparr> audit_log := l \<rparr>)"
| tx_work: "fresh_work w d \<Longrightarrow> store_tx d ((add_work e w d)\<lparr> dependencies := deps', audit_log := l \<rparr>)"
| tx_node: "get_node_row w n d = Some r \<Longrightarrow> isValidTransition (n_state r) s \<Longrightarrow>
     store_tx d ((set_node_state w n (n_version r) s d)\<lparr> audit_log := l \<rparr>)"
| tx_attempt: "get_node_row (a_work_id a) (a_node_id a) d = Some r \<Longrightarrow> n_state r = Ready \<Longrightarrow>
     get_attempt_row (a_attempt_id a) d = None \<Longrightarrow>
     t_get attempt_number_key (attempt_number_key a) (attempts d) = None \<Longrightarrow>
     t_get b_attempt_id (b_attempt_id b) (attempt_routing_decisions d) = None \<Longrightarrow>
     a_state a = Created \<Longrightarrow> a_lease_generation a = 0 \<Longrightarrow> 1 \<le> a_attempt_number a \<Longrightarrow>
     b_attempt_id b = a_attempt_id a \<Longrightarrow> b_builder_model b \<in> set APPROVED_MODELS \<Longrightarrow> 0 \<le> b_policy_version b \<Longrightarrow>
     store_tx d (d\<lparr> attempts := attempts d @ [a],
                    attempt_routing_decisions := attempt_routing_decisions d @ [b], audit_log := l \<rparr>)"
| tx_phase: "get_attempt_row (p_attempt_id p) d = Some a \<Longrightarrow>
     p_revision p = max_revision (p_attempt_id p) (p_phase p) (phase_artifacts d) + 1 \<Longrightarrow>
     store_tx d (d\<lparr> phase_artifacts := phase_artifacts d @ [p], audit_log := l \<rparr>)"
| tx_job: "store_tx d (d\<lparr> attempts := t_update a_attempt_id k
     (\<lambda>r. if a_state r = Created then r\<lparr> a_job_id := Some j \<rparr> else r) (attempts d) \<rparr>)"
| tx_claim: "get_attempt_row k d = Some a \<Longrightarrow> get_lease_row k d = None \<Longrightarrow>
     l_attempt_id le = k \<Longrightarrow> l_generation le = a_lease_generation a + 1 \<Longrightarrow>
     store_tx d (d\<lparr> leases := leases d @ [le],
        attempts := t_update a_attempt_id k
          (\<lambda>r. r\<lparr> a_state := Leased, a_lease_generation := a_lease_generation a + 1 \<rparr>) (attempts d), audit_log := l \<rparr>)"
| tx_renew: "get_lease_row k d = Some le \<Longrightarrow> store_tx d (d\<lparr> leases := t_update l_attempt_id k (\<lambda>r. r\<lparr> l_expires_at := ex \<rparr>) (leases d), audit_log := l \<rparr>)"
| tx_drop: "get_lease_row k d = Some le \<Longrightarrow> store_tx d ((drop_lease k d)\<lparr> audit_log := l \<rparr>)"
| tx_accept: "get_attempt_row (r_attempt_id r) d = Some a \<Longrightarrow> a_node_id a = r_node_id r \<Longrightarrow> a_work_id a = r_work_id r \<Longrightarrow>
     t_get r_attempt_id (r_attempt_id r) (accepted_results d) = None \<Longrightarrow>
     get_node_row (r_work_id r) (r_node_id r) d = Some n \<Longrightarrow> r_expected_node_version r = n_version n \<Longrightarrow>
     get_lease_row (r_attempt_id r) d = Some le \<Longrightarrow> r_generation r = l_generation le \<Longrightarrow>
     r_accepted_at r < l_expires_at le \<Longrightarrow> r_outcome r \<in> {Passed, Failed} \<Longrightarrow>
     c = \<lparr> c_attempt_id = r_attempt_id r, c_node_id = r_node_id r, c_work_id = r_work_id r,
           c_result_id = r_result_id r, c_expected_node_version = n_version n, c_authorized_at = r_accepted_at r \<rparr> \<Longrightarrow>
     store_tx d (d\<lparr> accepted_results := accepted_results d @ [r],
        completion_authorizations := completion_authorizations d @ [c],
        attempts := t_update a_attempt_id (r_attempt_id r) (\<lambda>r. r\<lparr> a_state := Result_accepted \<rparr>) (attempts d),
        audit_log := l \<rparr>)"
| tx_complete: "t_get c_attempt_id k (completion_authorizations d) = Some c \<Longrightarrow>
     get_node_row w n d = Some nr \<Longrightarrow> n_version nr = c_expected_node_version c \<Longrightarrow>
     t_get r_attempt_id k (accepted_results d) = Some r \<Longrightarrow> isValidTransition (n_state nr) (r_outcome r) \<Longrightarrow>
     store_tx d ((set_node_state w n (n_version nr) (r_outcome r) d)
       \<lparr> attempts := t_update a_attempt_id k (\<lambda>r. r\<lparr> a_state := Completed \<rparr>) (attempts d),
         completion_authorizations := t_delete c_attempt_id k (completion_authorizations d), audit_log := l \<rparr>)"
| tx_schedule: "get_work_row w d = Some wr \<Longrightarrow>
     ws = works d \<or> ws = t_update w_work_id w (freeze_work e ev) (works d) \<Longrightarrow> (\<forall>r \<in> set rows. s_work_id r = w) \<Longrightarrow>
     store_tx d (d\<lparr> scheduling_decisions := filter (\<lambda>r. s_work_id r \<noteq> w) (scheduling_decisions d) @ rows, works := ws \<rparr>)"
| tx_proof: "validate_proof_input inp = None \<Longrightarrow> get_attempt_row (pi_attempt_id inp) d = Some a \<Longrightarrow>
     a_node_id a = pi_node_id inp \<Longrightarrow>
     t_get b_attempt_id (pi_attempt_id inp) (attempt_routing_decisions d) = Some b \<Longrightarrow>
     b_builder_model b = pi_builder_model inp \<Longrightarrow>
     t_get f_attempt_id (pi_attempt_id inp) (pool_proof_results d) = None \<Longrightarrow>
     insert_all check_key (check_rows_of (pi_attempt_id inp) (pi_checks inp)) (pool_proof_checks d) = Some checks \<Longrightarrow>
     store_tx d (d\<lparr> pool_proof_results := pool_proof_results d @ [proof_row_of inp],
                    pool_proof_checks := checks, audit_log := l \<rparr>)"
| tx_direct: "fresh_work w d \<Longrightarrow> t_work_id s = aw_work_id w \<Longrightarrow>
     t_get t_submission_id (t_submission_id s) (direct_task_submissions d) = None \<Longrightarrow>
     t_get t_work_id (t_work_id s) (direct_task_submissions d) = None \<Longrightarrow>
     idem = [] \<or> (\<exists>i. idem = [i] \<and> t_get i_scope_key (i_scope_key i) (direct_task_idempotency d) = None
        \<and> i_submission_id i = t_submission_id s \<and> i_caller_id i = t_caller_id s \<and> i_payload_hash i = t_payload_hash s) \<Longrightarrow>
     store_tx d ((add_work e w d)\<lparr> direct_task_submissions := direct_task_submissions d @ [s],
        direct_task_idempotency := direct_task_idempotency d @ idem, audit_log := l \<rparr>)"

text \<open>
  What a request on an existing lease may do, with the request: \<open>lease_tx\<close> is the
  specification of the three operations that change or end a lease. A renewal and a release
  come from the holder, whose name and token are those of the lease; a renewal comes before
  the expiry; anybody may reclaim a lease that is over.
\<close>

datatype lease_request = Renew_request js js_date js_date | Release_request js | Reclaim_request string js_date

definition by_holder :: "(string \<Rightarrow> string) \<Rightarrow> js \<Rightarrow> string \<Rightarrow> lease_row \<Rightarrow> db \<Rightarrow> bool" where
  "by_holder digest command k le d \<longleftrightarrow> fld command ''attempt_id'' = Str k \<and> get_lease_row k d = Some le
     \<and> fld command ''owner'' = Str (l_owner le) \<and> (\<exists>token. fld command ''token'' = Str token \<and> digest token = l_token_digest le)"

inductive lease_tx :: "(string \<Rightarrow> string) \<Rightarrow> lease_request \<Rightarrow> db \<Rightarrow> db \<Rightarrow> bool" for digest where
  lx_refused: "lease_tx digest q d d"
| lx_renew: "by_holder digest command k le d \<Longrightarrow> \<not> time_le (l_expires_at le) now \<Longrightarrow>
     lease_tx digest (Renew_request command (Some expires) now) d
       (d\<lparr> leases := t_update l_attempt_id k (\<lambda>r. r\<lparr> l_expires_at := expires \<rparr>) (leases d), audit_log := l \<rparr>)"
| lx_release: "by_holder digest command k le d \<Longrightarrow>
     lease_tx digest (Release_request command) d
       (d\<lparr> leases := t_delete l_attempt_id k (leases d),
          attempts := t_update a_attempt_id k (\<lambda>r. r\<lparr> a_state := Created \<rparr>) (attempts d), audit_log := l \<rparr>)"
| lx_reclaim: "get_attempt_row k d = Some a \<Longrightarrow> get_lease_row k d = Some le \<Longrightarrow> \<not> time_gt (l_expires_at le) now \<Longrightarrow>
     lease_tx digest (Reclaim_request k now) d
       (d\<lparr> leases := t_delete l_attempt_id k (leases d),
          attempts := t_update a_attempt_id k (\<lambda>r. r\<lparr> a_state := Created \<rparr>) (attempts d), audit_log := l \<rparr>)"

section \<open>Lemmas on the inserts\<close>

lemma insert_unique_Some: "insert_unique key r rows = Some rows' \<longleftrightarrow> t_get key (key r) rows = None \<and> rows' = rows @ [r]"
  by (auto simp: insert_unique_def split: option.splits simp del: t_get_None)

lemma insert_all_Some:
  "insert_all key rs rows = Some rows' \<Longrightarrow>
     rows' = rows @ rs \<and> distinct (map key rs) \<and> (\<forall>r \<in> set rs. key r \<notin> key ` set rows)"
proof (induction rs arbitrary: rows)
  case (Cons r rs)
  then obtain mid where "insert_unique key r rows = Some mid" "insert_all key rs mid = Some rows'"
    by (auto split: option.splits)
  with Cons.IH [of mid] show ?case by (auto simp: insert_unique_Some)
qed simp

lemma insert_nodes_Inr:
  "insert_nodes wid ns d = Inr d' \<Longrightarrow>
     (\<exists>deps'. d' = d\<lparr> nodes := nodes d @ map (new_node_row wid) ns, dependencies := deps' \<rparr>)
     \<and> (\<forall>n \<in> set ns. (wid, an_id n) \<notin> node_key ` set (nodes d))"
proof (induction ns arbitrary: d)
  case (Cons n ns)
  from Cons.prems obtain rows drows where
    r: "insert_unique node_key (new_node_row wid n) (nodes d) = Some rows"
      "insert_nodes wid ns (d\<lparr> nodes := rows, dependencies := drows \<rparr>) = Inr d'"
    by (auto split: option.splits)
  have k: "node_key (new_node_row wid n) = (wid, an_id n)" by (simp add: node_key_def new_node_row_def)
  from r(1) have rows: "rows = nodes d @ [new_node_row wid n]" "(wid, an_id n) \<notin> node_key ` set (nodes d)"
    by (simp_all add: insert_unique_Some k)
  from Cons.IH [OF r(2)] rows show ?case by auto
next
  case Nil
  then have "d' = d\<lparr> nodes := nodes d @ map (new_node_row wid) [], dependencies := dependencies d \<rparr>"
    by (cases d) simp
  then have "\<exists>deps'. d' = d\<lparr> nodes := nodes d @ map (new_node_row wid) [], dependencies := deps' \<rparr>"
    by (rule exI [of _ "dependencies d"])
  then show ?case by (simp only: list.set ball_empty simp_thms)
qed

section \<open>Refinement: every operation commits a transaction\<close>

lemma import_tx: "store_tx d (snd (importApprovedWork e v d))"
proof (cases "\<exists>d'. validateWork v = None \<and> get_work_row (aw_work_id (as_work v)) d = None \<and> env_begin_error e = None
    \<and> insert_nodes (aw_work_id (as_work v)) (aw_nodes (as_work v)) (d\<lparr> works := works d @ [new_work_row e (as_work v)] \<rparr>) = Inr d'")
  case True
  let ?w = "as_work v"
  from True obtain d' where v: "validateWork v = None" and g: "get_work_row (aw_work_id ?w) d = None"
    and b: "env_begin_error e = None"
    and i: "insert_nodes (aw_work_id ?w) (aw_nodes ?w) (d\<lparr> works := works d @ [new_work_row e ?w] \<rparr>) = Inr d'" by blast
  from insert_nodes_Inr [OF i] obtain deps' where
    d': "d' = (add_work e ?w d)\<lparr> dependencies := deps' \<rparr>"
    and fr: "\<forall>n \<in> set (aw_nodes ?w). (aw_work_id ?w, an_id n) \<notin> node_key ` set (nodes d)"
    by (auto simp: add_work_def)
  have "fresh_work ?w d" using v g fr validateWork_valid by (simp add: fresh_work_def)
  then show ?thesis using v g b i
    by (auto simp: importApprovedWork_def d' audit_def Let_def simp del: t_get_None intro: store_tx.tx_work)
next
  case False
  then have "snd (importApprovedWork e v d) = d"
    by (auto simp: importApprovedWork_def begin_immediate_def fail_def Let_def split: option.splits sum.splits simp del: t_get_None)
  then show ?thesis by (simp add: store_tx.tx_none)
qed

lemma transition_tx: "store_tx d (snd (transitionNode e w n ver s d))"
  by (auto simp: transitionNode_def begin_immediate_def audit_def simp del: t_get_None
      split: option.splits intro: store_tx.tx_none store_tx.tx_node)

lemma attempt_tx: "store_tx d (snd (createAttempt e w n a num j b d))"
proof -
  let ?row = "\<lparr> a_attempt_id = a, a_work_id = w, a_node_id = n, a_attempt_number = num, a_state = Created,
     a_job_id = Some j, a_created_at = env_now e, a_lease_generation = 0 \<rparr>"
  let ?b = "\<lparr> b_attempt_id = a, b_builder_model = js_str (fld b ''builder''),
     b_policy_version = js_int (fld b ''policyVersion''), b_created_at = env_now e \<rparr>"
  have "store_tx d (d\<lparr> attempts := attempts d @ [?row],
      attempt_routing_decisions := attempt_routing_decisions d @ [?b], audit_log := l \<rparr>)"
    if "1 \<le> num" "isResolvedBuilderRouting b" "get_node_row w n d = Some r" "n_state r = Ready"
      "get_attempt_row a d = None" "t_get attempt_number_key (attempt_number_key ?row) (attempts d) = None"
      "t_get b_attempt_id a (attempt_routing_decisions d) = None" for r l
    using that isResolvedBuilderRoutingD [OF that(2)] by (intro store_tx.tx_attempt [of _ _ r]) auto
  then show ?thesis
    by (auto simp: createAttempt_def begin_immediate_def audit_def Let_def insert_unique_Some
        simp del: t_get_None split: option.splits intro: store_tx.tx_none)
qed

lemma phase_tx: "store_tx d (snd (recordPhaseArtifact e v d))"
  by (auto simp: recordPhaseArtifact_def begin_immediate_typed_def audit_def Let_def fail_def
      simp del: t_get_None split: option.splits intro: store_tx.tx_none intro!: store_tx.tx_phase)

lemma claim_tx: "store_tx d (snd (claimLease e c ex is d))"
  by (auto simp: claimLease_def begin_immediate_def audit_def Let_def fail_def
      simp del: t_get_None split: option.splits intro: store_tx.tx_none intro!: store_tx.tx_claim)

lemma renew_tx: "store_tx d (snd (renewLease e c ex now d))"
  by (auto simp: renewLease_def begin_immediate_def audit_def Let_def fail_def
      simp del: t_get_None split: option.splits js.splits intro: store_tx.tx_none store_tx.tx_renew)

lemma job_tx: "store_tx d (setJobId a j d)"
proof -
  have "(\<lambda>r :: attempt_row. if a_state r = Created then r\<lparr> a_job_id := Some j, a_state := Created \<rparr> else r)
      = (\<lambda>r. if a_state r = Created then r\<lparr> a_job_id := Some j \<rparr> else r)" by (auto simp: fun_eq_iff)
  then show ?thesis unfolding setJobId_def by (simp only: store_tx.tx_job)
qed

lemma release_tx: "store_tx d (snd (releaseLease e c now d))"
proof -
  have "store_tx d ((drop_lease k d)\<lparr> audit_log := l \<rparr>)" if "get_lease_row k d = Some le" for k le l
    using that by (rule store_tx.tx_drop)
  then show ?thesis
    by (auto simp: releaseLease_def begin_immediate_def audit_def Let_def fail_def
      simp del: t_get_None split: option.splits js.splits intro: store_tx.tx_none)
qed

lemma reclaim_tx: "store_tx d (snd (reclaimLease e a ow now d))"
proof -
  have "store_tx d ((drop_lease k d)\<lparr> audit_log := l \<rparr>)" if "get_lease_row k d = Some le" for k le l
    using that by (rule store_tx.tx_drop)
  then show ?thesis
    by (auto simp: reclaimLease_def begin_immediate_def audit_def simp del: t_get_None
      split: option.splits intro: store_tx.tx_none)
qed

lemma lease_command_texts:
  assumes "validateLeaseCommand command = None"
  shows "fld command ''attempt_id'' = Str (js_str (fld command ''attempt_id''))" "fld command ''owner'' = Str (js_str (fld command ''owner''))"
proof -
  have texts: "isNonEmptyString v n \<Longrightarrow> v = Str (js_str v)" for v n by (cases v) simp_all
  show "fld command ''attempt_id'' = Str (js_str (fld command ''attempt_id''))" "fld command ''owner'' = Str (js_str (fld command ''owner''))"
    using assms texts [of "fld command ''attempt_id''"] texts [of "fld command ''owner''"]
    by (auto simp: validateLeaseCommand_def Let_def split: if_splits)
qed

lemma renewal_lease_tx: "lease_tx (env_digest e) (Renew_request c ex now) d (snd (renewLease e c ex now d))"
proof (cases "validateLeaseCommand c")
  case None
  have "lease_tx (env_digest e) (Renew_request c (Some x) now) d
      (d\<lparr> leases := t_update l_attempt_id (js_str (fld c ''attempt_id'')) (\<lambda>r. r\<lparr> l_expires_at := x \<rparr>) (leases d), audit_log := l \<rparr>)"
    if "get_lease_row (js_str (fld c ''attempt_id'')) d = Some le" "l_owner le = js_str (fld c ''owner'')" "fld c ''token'' = Str token"
      "env_digest e token = l_token_digest le" "\<not> time_le (l_expires_at le) now" for le token x l
    by (rule lease_tx.lx_renew [OF _ that(5)]) (use that lease_command_texts [OF None] in \<open>simp add: by_holder_def del: t_get_None\<close>)
  then show ?thesis using None
    by (auto simp: renewLease_def begin_immediate_def audit_def Let_def fail_def simp del: t_get_None
        split: option.splits js.splits intro: lease_tx.lx_refused)
qed (simp add: renewLease_def fail_def lease_tx.lx_refused)

lemma release_lease_tx: "lease_tx (env_digest e) (Release_request c) d (snd (releaseLease e c now d))"
proof (cases "validateLeaseCommand c")
  case None
  have "lease_tx (env_digest e) (Release_request c) d ((drop_lease (js_str (fld c ''attempt_id'')) d)\<lparr> audit_log := l \<rparr>)"
    if "get_lease_row (js_str (fld c ''attempt_id'')) d = Some le" "l_owner le = js_str (fld c ''owner'')" "fld c ''token'' = Str token"
      "env_digest e token = l_token_digest le" for le token l
    unfolding drop_lease_def db.simps
    by (rule lease_tx.lx_release [of _ _ _ le]) (use that lease_command_texts [OF None] in \<open>simp add: by_holder_def del: t_get_None\<close>)
  then show ?thesis using None
    by (auto simp: releaseLease_def begin_immediate_def audit_def Let_def fail_def simp del: t_get_None
        split: option.splits js.splits intro: lease_tx.lx_refused)
qed (simp add: releaseLease_def fail_def lease_tx.lx_refused)

lemma reclaim_lease_tx: "lease_tx digest (Reclaim_request k now) d (snd (reclaimLease e k ow now d))"
proof -
  have "lease_tx digest (Reclaim_request k now) d ((drop_lease k d)\<lparr> audit_log := l \<rparr>)"
    if "get_attempt_row k d = Some a" "get_lease_row k d = Some le" "\<not> time_gt (l_expires_at le) now" for a le l
    unfolding drop_lease_def db.simps by (rule lease_tx.lx_reclaim [OF that])
  then show ?thesis
    by (auto simp: reclaimLease_def begin_immediate_def audit_def simp del: t_get_None
      split: option.splits intro: lease_tx.lx_refused)
qed

lemma touch_tx: "store_tx d (snd (importPredictedTouch e w v pol d))"
proof -
  have same: "d\<lparr> scheduling_decisions := x \<rparr> = d\<lparr> scheduling_decisions := x, works := works d \<rparr>" for x
    by (cases d) simp
  have q0: "store_tx d (d\<lparr> scheduling_decisions := filter (\<lambda>r. s_work_id r \<noteq> w) (scheduling_decisions d) @ rows \<rparr>)"
    if "get_work_row w d = Some wr" "\<forall>r \<in> set rows. s_work_id r = w" for wr rows
    using that by (subst same) (intro store_tx.tx_schedule, auto)
  have p: "store_tx d (snd (persistSchedulingDecision e k w ev re bl d))" for k ev re bl
    by (auto simp: persistSchedulingDecision_def begin_immediate_def scheduling_row_of_def simp del: t_get_None
        split: option.splits intro!: q0 intro: store_tx.tx_none)
  have q: "store_tx d (d\<lparr> scheduling_decisions := filter (\<lambda>r. s_work_id r \<noteq> w) (scheduling_decisions d) @ rows, works := ws \<rparr>)"
    if "get_work_row w d = Some wr" "ws = works d \<or> ws = t_update w_work_id w (freeze_work e ev) (works d)"
      "\<forall>r \<in> set rows. s_work_id r = w" for wr ws ev rows
    using that by (rule store_tx.tx_schedule)
  show ?thesis
    unfolding importPredictedTouch_def Let_def begin_immediate_def
    by (auto simp: p fail_def scheduling_row_of_def simp del: t_get_None split: option.splits list.splits intro!: q q0 intro: store_tx.tx_none)
qed

lemma accept_tx: "store_tx d (snd (acceptResult e v now d))"
proof -
  let ?r = "as_result v"
  let ?k = "wr_attempt_id ?r"
  let ?row = "\<lambda>t. \<lparr> r_attempt_id = ?k, r_result_id = wr_result_id ?r, r_node_id = wr_node_id ?r, r_work_id = wr_work_id ?r,
     r_outcome = wr_outcome ?r, r_phase = wr_phase ?r, r_artifact_path = wr_artifact_path ?r, r_summary = wr_summary ?r,
     r_accepted_at = t, r_generation = wr_generation ?r, r_expected_node_version = wr_expected_node_version ?r \<rparr>"
  have "store_tx d (d\<lparr> accepted_results := accepted_results d @ [?row t],
        completion_authorizations := completion_authorizations d @
          [\<lparr> c_attempt_id = ?k, c_node_id = wr_node_id ?r, c_work_id = wr_work_id ?r, c_result_id = wr_result_id ?r,
             c_expected_node_version = n_version n, c_authorized_at = t \<rparr>],
        attempts := t_update a_attempt_id ?k (\<lambda>r. r\<lparr> a_state := Result_accepted \<rparr>) (attempts d), audit_log := l \<rparr>)"
    if "validateResult v = None" "get_attempt_row ?k d = Some a" "a_node_id a = wr_node_id ?r" "a_work_id a = wr_work_id ?r"
      "t_get r_attempt_id ?k (accepted_results d) = None" "get_node_row (wr_work_id ?r) (wr_node_id ?r) d = Some n"
      "wr_expected_node_version ?r = n_version n" "lease_valid e ?r (Some t) (get_lease_row ?k d)" for a n t l
  proof -
    from that(8) obtain le where le: "get_lease_row ?k d = Some le" "wr_generation ?r = l_generation le" "t < l_expires_at le"
      by (auto simp: lease_valid_def simp del: t_get_None split: option.splits)
    show ?thesis
      using store_tx.tx_accept [of "?row t" d a n le _ l] that le validateResult_valid [OF that(1)] by simp
  qed
  then show ?thesis
    unfolding acceptResult_def Let_def begin_immediate_def
    by (auto simp: audit_def fail_def simp del: t_get_None split: option.splits intro: store_tx.tx_none store_tx.tx_audit)
qed

lemma complete_tx: "store_tx d (snd (completeAuthorizedResult e w n a d))"
proof -
  have "store_tx d ((set_node_state w n (c_expected_node_version c) (r_outcome r) d)
       \<lparr> attempts := t_update a_attempt_id a (\<lambda>r. r\<lparr> a_state := Completed \<rparr>) (attempts d),
         completion_authorizations := t_delete c_attempt_id a (completion_authorizations d), audit_log := l \<rparr>)"
    if "t_get c_attempt_id a (completion_authorizations d) = Some c" "get_node_row w n d = Some nr"
      "n_version nr = c_expected_node_version c" "t_get r_attempt_id a (accepted_results d) = Some r"
      "isValidTransition (n_state nr) (r_outcome r)" for c nr r l
    using store_tx.tx_complete [OF that] that(3) by simp
  then show ?thesis
    by (auto simp: completeAuthorizedResult_def begin_immediate_def audit_def simp del: t_get_None
        split: option.splits intro: store_tx.tx_none)
qed

lemma proof_tx: "store_tx d (snd (recordProofResult lc e inp d))"
  unfolding recordProofResult_def begin_immediate_typed_def
  by (auto simp: audit_def fail_def simp del: t_get_None split: option.splits
      intro: store_tx.tx_none store_tx.tx_audit intro!: store_tx.tx_proof)

lemma find_idempotency_None:
  assumes "find_idempotency k d = None" "t_get i_scope_key k (direct_task_idempotency d) = Some i"
  shows "t_get t_submission_id (i_submission_id i) (direct_task_submissions d) = None"
  using assms by (auto simp: find_idempotency_def simp del: t_get_None split: option.splits)

lemma no_idempotency: "d\<lparr> direct_task_idempotency := direct_task_idempotency d \<rparr> = d"
  by (cases d) simp

lemma direct_tx: "store_tx d (snd (importDirectTask e inp d))"
proof (cases "\<exists>d'. validate_direct_task inp = None \<and> env_begin_error e = None
    \<and> Option.bind (di_scope_key inp) (\<lambda>k. find_idempotency k d) = None
    \<and> get_work_row (aw_work_id (as_work (di_work inp))) d = None
    \<and> t_get t_submission_id (di_submission_id inp) (direct_task_submissions d) = None
    \<and> insert_direct_task e inp d = Inr d'")
  case True
  let ?w = "as_work (di_work inp)"
  let ?s = "\<lparr> t_submission_id = di_submission_id inp, t_caller_id = di_caller_id inp, t_work_id = aw_work_id ?w,
                  t_payload_hash = di_payload_hash inp, t_acceptance_json = di_acceptance_json inp,
                  t_manifest_json = di_manifest_json inp, t_created_at = env_now e \<rparr>"
  let ?i = "\<lambda>k. \<lparr> i_scope_key = k, i_caller_id = di_caller_id inp, i_payload_hash = di_payload_hash inp,
                            i_submission_id = di_submission_id inp \<rparr>"
  define idem where "idem = (case di_scope_key inp of None \<Rightarrow> [] | Some k \<Rightarrow> [?i k])"
  from True obtain d' where v: "validate_direct_task inp = None" and b: "env_begin_error e = None"
    and f: "Option.bind (di_scope_key inp) (\<lambda>k. find_idempotency k d) = None"
    and g: "get_work_row (aw_work_id ?w) d = None"
    and s: "t_get t_submission_id (di_submission_id inp) (direct_task_submissions d) = None"
    and i: "insert_direct_task e inp d = Inr d'" by blast
  from i obtain nrows where
    n: "insert_all node_key (map (new_node_row (aw_work_id ?w)) (aw_nodes ?w)) (nodes d) = Some nrows"
    by (auto simp: insert_direct_task_def Let_def split: option.splits)
  from insert_all_Some [OF n] have nr: "nrows = nodes d @ map (new_node_row (aw_work_id ?w)) (aw_nodes ?w)"
    and fr: "\<forall>n \<in> set (aw_nodes ?w). node_key (new_node_row (aw_work_id ?w) n) \<notin> node_key ` set (nodes d)" by auto
  have sub: "t_get t_work_id (aw_work_id ?w) (direct_task_submissions d) = None"
    using i by (auto simp: insert_direct_task_def Let_def insert_unique_Some n simp del: t_get_None split: option.splits)
  have id: "idem = [] \<or> (\<exists>i. idem = [i] \<and> t_get i_scope_key (i_scope_key i) (direct_task_idempotency d) = None
        \<and> i_submission_id i = t_submission_id ?s \<and> i_caller_id i = t_caller_id ?s \<and> i_payload_hash i = t_payload_hash ?s)"
    using i by (auto simp: insert_direct_task_def Let_def insert_unique_Some n idem_def simp del: t_get_None split: option.splits)
  have d': "d' = (add_work e ?w d)\<lparr> direct_task_submissions := direct_task_submissions d @ [?s],
        direct_task_idempotency := direct_task_idempotency d @ idem \<rparr>"
    using i by (auto simp: insert_direct_task_def Let_def insert_unique_Some n idem_def add_work_def
        simp del: t_get_None split: option.splits intro: no_idempotency) (auto simp: nr)
  have "validateWork (di_work inp) = None" using v by (simp add: validate_direct_task_def)
  then have "fresh_work ?w d" using g fr validateWork_valid
    by (simp add: fresh_work_def node_key_def new_node_row_def)
  from store_tx.tx_direct [OF this, of ?s idem] sub s id
  have "store_tx d (d'\<lparr> audit_log := l \<rparr>)" for l by (simp add: d')
  then show ?thesis using v b f g s i
    by (simp add: importDirectTask_def audit_def Let_def del: t_get_None)
next
  case False
  then have "snd (importDirectTask e inp d) = d"
    unfolding importDirectTask_def begin_immediate_typed_def Let_def
    by (auto simp: fail_def split: option.splits sum.splits simp del: t_get_None)
  then show ?thesis by (simp add: store_tx.tx_none)
qed

lemmas op_tx = import_tx transition_tx attempt_tx phase_tx claim_tx renew_tx release_tx reclaim_tx
  accept_tx complete_tx touch_tx proof_tx direct_tx

text \<open>The refinement: a step of the store is a transaction of the specification.\<close>

lemma store_step_tx: "store_step d d' \<Longrightarrow> store_tx d d'"
  by (cases rule: store_step.cases) (auto intro: op_tx job_tx)

end
