(* ===== verification/Store_Invariants.thy ===== *)
theory Store_Invariants
  imports Store_Steps
begin

text \<open>
  Invariants of every database the store can reach, proved on the transactions of
  \<open>Store_Steps\<close> and carried to the operations by the refinement: the primary keys, the
  version arithmetic of nodes, the coherence of leases with attempts, the provenance of
  attempts and results, contiguous phase revisions, and the shape of imported work.
\<close>

section \<open>The invariants\<close>

definition keys_ok :: "db \<Rightarrow> bool" where
  "keys_ok d \<longleftrightarrow> t_unique w_work_id (works d) \<and> t_unique node_key (nodes d)
     \<and> t_unique a_attempt_id (attempts d) \<and> t_unique attempt_number_key (attempts d)
     \<and> t_unique l_attempt_id (leases d) \<and> t_unique r_attempt_id (accepted_results d)
     \<and> t_unique b_attempt_id (attempt_routing_decisions d) \<and> t_unique f_attempt_id (pool_proof_results d)
     \<and> t_unique t_submission_id (direct_task_submissions d) \<and> t_unique t_work_id (direct_task_submissions d)
     \<and> t_unique i_scope_key (direct_task_idempotency d)"

definition versions_ok :: "db \<Rightarrow> bool" where
  "versions_ok d \<longleftrightarrow> (\<forall>r \<in> set (nodes d). n_version r = state_rank (n_state r) + 1)"

definition leases_ok :: "db \<Rightarrow> bool" where
  "leases_ok d \<longleftrightarrow>
     (\<forall>a \<in> set (attempts d). 0 \<le> a_lease_generation a
        \<and> (a_state a = Leased \<longrightarrow> a_attempt_id a \<in> l_attempt_id ` set (leases d)))
     \<and> (\<forall>l \<in> set (leases d). \<exists>a \<in> set (attempts d). a_attempt_id a = l_attempt_id l
          \<and> a_lease_generation a = l_generation l \<and> 1 \<le> l_generation l)"

definition routing_ok :: "db \<Rightarrow> bool" where
  "routing_ok d \<longleftrightarrow>
     map b_attempt_id (attempt_routing_decisions d) = map a_attempt_id (attempts d)
     \<and> (\<forall>b \<in> set (attempt_routing_decisions d). b_builder_model b \<in> set APPROVED_MODELS \<and> 0 \<le> b_policy_version b)
     \<and> (\<forall>a \<in> set (attempts d). 1 \<le> a_attempt_number a \<and> (a_work_id a, a_node_id a) \<in> node_key ` set (nodes d))"

definition result_row_ok :: "db \<Rightarrow> accepted_row \<Rightarrow> bool" where
  "result_row_ok d r \<longleftrightarrow> r_outcome r \<in> {Passed, Failed} \<and> 1 \<le> r_generation r
     \<and> (\<exists>a \<in> set (attempts d). a_attempt_id a = r_attempt_id r \<and> a_node_id a = r_node_id r
          \<and> a_work_id a = r_work_id r \<and> r_generation r \<le> a_lease_generation a)"

definition auth_row_ok :: "db \<Rightarrow> authorization_row \<Rightarrow> bool" where
  "auth_row_ok d c \<longleftrightarrow> (\<exists>r \<in> set (accepted_results d). r_attempt_id r = c_attempt_id c \<and> r_node_id r = c_node_id c
     \<and> r_work_id r = c_work_id c \<and> r_result_id r = c_result_id c
     \<and> r_expected_node_version r = c_expected_node_version c)"

definition results_ok :: "db \<Rightarrow> bool" where
  "results_ok d \<longleftrightarrow> (\<forall>r \<in> set (accepted_results d). result_row_ok d r)
     \<and> (\<forall>c \<in> set (completion_authorizations d). auth_row_ok d c)
     \<and> t_unique c_attempt_id (completion_authorizations d)"

definition phases_ok :: "db \<Rightarrow> bool" where
  "phases_ok d \<longleftrightarrow> (\<forall>k. \<exists>n. map p_revision (filter (\<lambda>r. phase_key r = k) (phase_artifacts d)) = map int [1..<Suc n])
     \<and> (\<forall>p \<in> set (phase_artifacts d). p_attempt_id p \<in> a_attempt_id ` set (attempts d))"

text \<open>The declared dependencies of the nodes of a work, and the edges they draw.\<close>

definition stored_edges :: "string \<Rightarrow> db \<Rightarrow> (string \<times> string) set" where
  "stored_edges w d = {(x, n_node_id r) | x r. r \<in> set (nodes d) \<and> n_work_id r = w \<and> x \<in> set (n_depends_on r)}"

definition graphs_ok :: "db \<Rightarrow> bool" where
  "graphs_ok d \<longleftrightarrow> n_work_id ` set (nodes d) = w_work_id ` set (works d)
     \<and> (\<forall>w. acyclic (stored_edges w d))
     \<and> (\<forall>r \<in> set (nodes d). \<forall>x \<in> set (n_depends_on r). (n_work_id r, x) \<in> node_key ` set (nodes d))"

definition proofs_ok :: "db \<Rightarrow> bool" where
  "proofs_ok d \<longleftrightarrow> (\<forall>f \<in> set (pool_proof_results d).
     (f_status f = ''passed'' \<and> f_commit_sha f \<noteq> None \<and> f_failure_code f = None
      \<or> f_status f = ''failed'' \<and> f_commit_sha f = None \<and> f_failure_code f \<noteq> None)
     \<and> f_started_at f \<le> f_finished_at f
     \<and> (\<exists>a \<in> set (attempts d). a_attempt_id a = f_attempt_id f \<and> a_node_id a = f_node_id f)
     \<and> (\<exists>b \<in> set (attempt_routing_decisions d). b_attempt_id b = f_attempt_id f \<and> b_builder_model b = f_builder_model f)
     \<and> f_attempt_id f \<in> k_attempt_id ` set (pool_proof_checks d))
   \<and> t_unique check_key (pool_proof_checks d)"

definition submissions_ok :: "db \<Rightarrow> bool" where
  "submissions_ok d \<longleftrightarrow>
     (\<forall>i \<in> set (direct_task_idempotency d). \<exists>s \<in> set (direct_task_submissions d).
        t_submission_id s = i_submission_id i \<and> t_caller_id s = i_caller_id i \<and> t_payload_hash s = i_payload_hash i)
     \<and> (\<forall>s \<in> set (direct_task_submissions d). t_work_id s \<in> w_work_id ` set (works d))"

definition store_inv :: "db \<Rightarrow> bool" where
  "store_inv d \<longleftrightarrow> keys_ok d \<and> versions_ok d \<and> leases_ok d \<and> routing_ok d \<and> results_ok d \<and> phases_ok d
     \<and> graphs_ok d \<and> proofs_ok d \<and> submissions_ok d"

lemmas inv_defs = keys_ok_def versions_ok_def leases_ok_def routing_ok_def results_ok_def phases_ok_def
  graphs_ok_def proofs_ok_def submissions_ok_def

section \<open>Frame lemmas\<close>

lemma add_work_simps [simp]:
  "works (add_work e w d) = works d @ [new_work_row e w]"
  "nodes (add_work e w d) = nodes d @ map (new_node_row (aw_work_id w)) (aw_nodes w)"
  "dependencies (add_work e w d) = dependencies d" "attempts (add_work e w d) = attempts d"
  "leases (add_work e w d) = leases d" "accepted_results (add_work e w d) = accepted_results d"
  "completion_authorizations (add_work e w d) = completion_authorizations d"
  "attempt_routing_decisions (add_work e w d) = attempt_routing_decisions d"
  "phase_artifacts (add_work e w d) = phase_artifacts d"
  "pool_proof_results (add_work e w d) = pool_proof_results d"
  "pool_proof_checks (add_work e w d) = pool_proof_checks d"
  "direct_task_submissions (add_work e w d) = direct_task_submissions d"
  "direct_task_idempotency (add_work e w d) = direct_task_idempotency d"
  by (simp_all add: add_work_def)

lemma set_node_state_simps [simp]:
  "works (set_node_state w n v s d) = works d" "dependencies (set_node_state w n v s d) = dependencies d"
  "attempts (set_node_state w n v s d) = attempts d" "leases (set_node_state w n v s d) = leases d"
  "accepted_results (set_node_state w n v s d) = accepted_results d"
  "completion_authorizations (set_node_state w n v s d) = completion_authorizations d"
  "attempt_routing_decisions (set_node_state w n v s d) = attempt_routing_decisions d"
  "phase_artifacts (set_node_state w n v s d) = phase_artifacts d"
  "pool_proof_results (set_node_state w n v s d) = pool_proof_results d"
  "pool_proof_checks (set_node_state w n v s d) = pool_proof_checks d"
  "direct_task_submissions (set_node_state w n v s d) = direct_task_submissions d"
  "direct_task_idempotency (set_node_state w n v s d) = direct_task_idempotency d"
  by (simp_all add: set_node_state_def)

lemma drop_lease_simps [simp]:
  "works (drop_lease k d) = works d" "nodes (drop_lease k d) = nodes d"
  "leases (drop_lease k d) = t_delete l_attempt_id k (leases d)"
  "attempts (drop_lease k d) = t_update a_attempt_id k (\<lambda>r. r\<lparr> a_state := Created \<rparr>) (attempts d)"
  "accepted_results (drop_lease k d) = accepted_results d"
  "completion_authorizations (drop_lease k d) = completion_authorizations d"
  "attempt_routing_decisions (drop_lease k d) = attempt_routing_decisions d"
  "phase_artifacts (drop_lease k d) = phase_artifacts d"
  "pool_proof_results (drop_lease k d) = pool_proof_results d"
  "pool_proof_checks (drop_lease k d) = pool_proof_checks d"
  "direct_task_submissions (drop_lease k d) = direct_task_submissions d"
  "direct_task_idempotency (drop_lease k d) = direct_task_idempotency d"
  by (simp_all add: drop_lease_def)

lemma setJobId_simps [simp]:
  "works (setJobId a j d) = works d" "nodes (setJobId a j d) = nodes d" "leases (setJobId a j d) = leases d"
  "accepted_results (setJobId a j d) = accepted_results d"
  "completion_authorizations (setJobId a j d) = completion_authorizations d"
  "attempt_routing_decisions (setJobId a j d) = attempt_routing_decisions d"
  "phase_artifacts (setJobId a j d) = phase_artifacts d"
  "pool_proof_results (setJobId a j d) = pool_proof_results d"
  "pool_proof_checks (setJobId a j d) = pool_proof_checks d"
  "direct_task_submissions (setJobId a j d) = direct_task_submissions d"
  "direct_task_idempotency (setJobId a j d) = direct_task_idempotency d"
  by (simp_all add: setJobId_def)

lemma node_key_update [simp]: "node_key (r\<lparr> n_state := s, n_version := v \<rparr>) = node_key r"
  by (simp add: node_key_def)

lemma node_key_if [simp]: "node_key (if b then r else r') = (if b then node_key r else node_key r')"
  by simp

lemma attempt_number_key_simps [simp]:
  "attempt_number_key (r\<lparr> a_state := s \<rparr>) = attempt_number_key r"
  "attempt_number_key (r\<lparr> a_state := s, a_lease_generation := g \<rparr>) = attempt_number_key r"
  "attempt_number_key (r\<lparr> a_job_id := j, a_state := s \<rparr>) = attempt_number_key r"
  "attempt_number_key (if b then r else r') = (if b then attempt_number_key r else attempt_number_key r')"
  by (simp_all add: attempt_number_key_def)

lemma new_row_keys [simp]:
  "w_work_id (new_work_row e w) = aw_work_id w" "node_key (new_node_row wid n) = (wid, an_id n)"
  "n_work_id (new_node_row wid n) = wid" "n_node_id (new_node_row wid n) = an_id n"
  "n_state (new_node_row wid n) = Pending" "n_version (new_node_row wid n) = 1"
  "n_depends_on (new_node_row wid n) = an_depends_on n"
  by (simp_all add: new_work_row_def new_node_row_def node_key_def)

lemma freeze_work_id [simp]: "w_work_id (freeze_work e ev w) = w_work_id w"
  by (simp add: freeze_work_def)

lemma nodes_set_node_state:
  "nodes (set_node_state w n v s d) = t_update node_key (w, n)
     (\<lambda>r. if n_version r = v then r\<lparr> n_state := s, n_version := n_version r + 1 \<rparr> else r) (nodes d)"
  by (simp add: set_node_state_def)

lemma attempts_setJobId:
  "attempts (setJobId k j d) = t_update a_attempt_id k
     (\<lambda>r. if a_state r = Created then r\<lparr> a_job_id := Some j, a_state := Created \<rparr> else r) (attempts d)"
  by (simp add: setJobId_def)

lemmas tx_effects = nodes_set_node_state attempts_setJobId

lemma distinct_new_nodes:
  "fresh_work w d \<Longrightarrow> t_unique node_key (map (new_node_row (aw_work_id w)) (aw_nodes w))"
  by (auto simp: fresh_work_def valid_work_def wf_graph_def work_graph_def t_unique_def comp_def distinct_map inj_on_def)

lemma fresh_work_disjoint:
  "fresh_work w d \<Longrightarrow> aw_work_id w \<notin> w_work_id ` set (works d)
     \<and> (\<forall>n \<in> set (aw_nodes w). (aw_work_id w, an_id n) \<notin> node_key ` set (nodes d))"
  by (simp add: fresh_work_def)

section \<open>Preservation by the transactions\<close>

lemma keys_tx:
  assumes "store_tx d d'" and inv: "keys_ok d"
  shows "keys_ok d'"
  using assms(1)
proof (cases rule: store_tx.cases)
  case (tx_work w)
  with inv fresh_work_disjoint [of w d] distinct_new_nodes [of w d] show ?thesis
    by (auto simp: keys_ok_def t_unique_append)
next
  case (tx_direct w)
  with inv fresh_work_disjoint [of w d] distinct_new_nodes [of w d] show ?thesis
    by (auto simp: keys_ok_def t_unique_append)
qed (use inv in \<open>auto simp: keys_ok_def t_unique_append tx_effects t_unique_delete proof_row_of_def attempt_number_key_def\<close>)


text \<open>How a transaction moves one node row, and how it moves one attempt row.\<close>

definition node_next :: "node_row \<Rightarrow> node_row \<Rightarrow> bool" where
  "node_next r r' \<longleftrightarrow> r' = r \<or>
     (\<exists>s. isValidTransition (n_state r) s \<and> r' = r\<lparr> n_state := s, n_version := n_version r + 1 \<rparr>)"

definition attempt_next :: "attempt_row \<Rightarrow> attempt_row \<Rightarrow> bool" where
  "attempt_next a a' \<longleftrightarrow> a_attempt_id a' = a_attempt_id a \<and> a_work_id a' = a_work_id a \<and> a_node_id a' = a_node_id a
     \<and> a_attempt_number a' = a_attempt_number a \<and> a_created_at a' = a_created_at a
     \<and> a_lease_generation a \<le> a_lease_generation a'"

lemma nodes_tx:
  assumes "store_tx d d'" "t_unique node_key (nodes d)"
  obtains f new where "nodes d' = map f (nodes d) @ new" "\<And>r. r \<in> set (nodes d) \<Longrightarrow> node_next r (f r)"
    "new = [] \<or> (\<exists>w. fresh_work w d \<and> new = map (new_node_row (aw_work_id w)) (aw_nodes w))"
proof -
  note res = that
  have move: "thesis" if "nodes d' = nodes (set_node_state w n (n_version r) s d)" "get_node_row w n d = Some r"
    "isValidTransition (n_state r) s" for w n r s
  proof -
    from that(2) assms(2) have u: "r' = r" if "r' \<in> set (nodes d)" "node_key r' = (w, n)" for r'
      using that by (metis t_unique_get option.inject)
    from that show ?thesis
      by (intro res [of "\<lambda>r'. if node_key r' = (w, n) then (if n_version r' = n_version r
            then r'\<lparr> n_state := s, n_version := n_version r' + 1 \<rparr> else r') else r'" "[]"])
        (auto simp: nodes_set_node_state t_update_def node_next_def dest: u)
  qed
  have same: "thesis" if "nodes d' = nodes d"
    using that by (intro res [of id "[]"]) (auto simp: node_next_def)
  have add: "thesis" if "fresh_work w d" "nodes d' = nodes d @ map (new_node_row (aw_work_id w)) (aw_nodes w)" for w
    using that by (intro res [of id "map (new_node_row (aw_work_id w)) (aw_nodes w)"]) (auto simp: node_next_def)
  from assms(1) show ?thesis
  proof (cases rule: store_tx.cases)
    case (tx_node w n r s)
    then show ?thesis by (intro move [of w n r s]) auto
  next
    case (tx_complete k c w n nr r)
    then show ?thesis by (intro move [of w n nr "r_outcome r"]) auto
  next
    case (tx_work w)
    then show ?thesis by (intro add [of w]) auto
  next
    case (tx_direct w)
    then show ?thesis by (intro add [of w]) auto
  qed (auto intro: same)
qed

lemma attempts_tx:
  assumes "store_tx d d'" "t_unique a_attempt_id (attempts d)"
  obtains f new where "attempts d' = map f (attempts d) @ new" "\<And>a. a \<in> set (attempts d) \<Longrightarrow> attempt_next a (f a)"
    "new = [] \<or> (\<exists>a. new = [a] \<and> a_state a = Created \<and> a_lease_generation a = 0)"
proof -
  note res = that
  have move: "thesis" if "attempts d' = t_update a_attempt_id k g (attempts d)"
    "\<And>a. a \<in> set (attempts d) \<Longrightarrow> a_attempt_id a = k \<Longrightarrow> attempt_next a (g a)" for k g
    using that by (intro res [of "\<lambda>a. if a_attempt_id a = k then g a else a" "[]"])
      (auto simp: t_update_def attempt_next_def)
  have same: "thesis" if "attempts d' = attempts d"
    using that by (intro res [of id "[]"]) (auto simp: attempt_next_def)
  from assms(1) show ?thesis
  proof (cases rule: store_tx.cases)
    case (tx_attempt a)
    then show ?thesis by (intro res [of id "[a]"]) (auto simp: attempt_next_def)
  next
    case (tx_job k j)
    then show ?thesis by (intro move [of k "\<lambda>r. if a_state r = Created then r\<lparr> a_job_id := Some j \<rparr> else r"]) (auto simp: attempt_next_def)
  next
    case (tx_claim k a)
    then have "a' = a" if "a' \<in> set (attempts d)" "a_attempt_id a' = k" for a'
      using that assms(2) by (metis t_unique_get option.inject)
    with tx_claim show ?thesis
      by (intro move [of k "\<lambda>r. r\<lparr> a_state := Leased, a_lease_generation := a_lease_generation a + 1 \<rparr>"])
        (auto simp: attempt_next_def)
  next
    case (tx_drop k)
    then show ?thesis by (intro move [of k "\<lambda>r. r\<lparr> a_state := Created \<rparr>"]) (auto simp: attempt_next_def)
  next
    case (tx_accept r)
    then show ?thesis
      by (intro move [of "r_attempt_id r" "\<lambda>r. r\<lparr> a_state := Result_accepted \<rparr>"]) (auto simp: attempt_next_def)
  next
    case (tx_complete k)
    then show ?thesis by (intro move [of k "\<lambda>r. r\<lparr> a_state := Completed \<rparr>"]) (auto simp: attempt_next_def)
  qed (auto intro: same)
qed

text \<open>A statement about some attempt that survives every move survives every transaction.\<close>

lemma some_attempt_tx:
  assumes "store_tx d d'" "t_unique a_attempt_id (attempts d)" "\<exists>a \<in> set (attempts d). P a"
    "\<And>a a'. attempt_next a a' \<Longrightarrow> P a \<Longrightarrow> P a'"
  shows "\<exists>a \<in> set (attempts d'). P a"
proof -
  from attempts_tx [OF assms(1,2)] obtain f new where
    "attempts d' = map f (attempts d) @ new" "\<And>a. a \<in> set (attempts d) \<Longrightarrow> attempt_next a (f a)" by metis
  with assms(3,4) show ?thesis by fastforce
qed

lemma versions_tx:
  assumes "store_tx d d'" "keys_ok d" "versions_ok d"
  shows "versions_ok d'"
proof -
  from assms(2) have "t_unique node_key (nodes d)" by (simp add: keys_ok_def)
  from nodes_tx [OF assms(1) this] obtain f new where
    n: "nodes d' = map f (nodes d) @ new" "\<And>r. r \<in> set (nodes d) \<Longrightarrow> node_next r (f r)"
    "new = [] \<or> (\<exists>w. fresh_work w d \<and> new = map (new_node_row (aw_work_id w)) (aw_nodes w))" by metis
  have "n_version (f r) = state_rank (n_state (f r)) + 1" if "r \<in> set (nodes d)" for r
    using n(2) [OF that] assms(3) that by (auto simp: node_next_def versions_ok_def dest: isValidTransition_rank)
  moreover have "n_version r = state_rank (n_state r) + 1" if "r \<in> set new" for r
    using n(3) that by auto
  ultimately show ?thesis by (auto simp: versions_ok_def n(1))
qed

lemma node_keys_tx:
  assumes "store_tx d d'" "keys_ok d"
  shows "node_key ` set (nodes d) \<subseteq> node_key ` set (nodes d')"
proof -
  from assms(2) have "t_unique node_key (nodes d)" by (simp add: keys_ok_def)
  from nodes_tx [OF assms(1) this] obtain f new where
    n: "nodes d' = map f (nodes d) @ new" "\<And>r. r \<in> set (nodes d) \<Longrightarrow> node_next r (f r)" by metis
  have "node_key (f r) = node_key r" if "r \<in> set (nodes d)" for r
    using n(2) [OF that] by (auto simp: node_next_def)
  then have "node_key ` set (nodes d) = (\<lambda>r. node_key (f r)) ` set (nodes d)" by (intro image_cong) auto
  then show ?thesis by (simp add: n(1) image_Un image_image)
qed

lemma leases_tx:
  assumes "store_tx d d'" "keys_ok d" "leases_ok d"
  shows "leases_ok d'"
proof -
  from assms(2) have u: "t_unique a_attempt_id (attempts d)" by (simp add: keys_ok_def)
  note inv = assms(3) [unfolded leases_ok_def]
  have upd: "leases_ok d'" if "leases d' = leases d" "attempts d' = t_update a_attempt_id k g (attempts d)"
    "\<And>a. a_attempt_id (g a) = a_attempt_id a \<and> a_lease_generation (g a) = a_lease_generation a
        \<and> (a_state (g a) = Leased \<longrightarrow> a_state a = Leased)" for k g
  proof -
    from that(3) have e: "a_attempt_id (if c then g a else a) = a_attempt_id a"
      "a_lease_generation (if c then g a else a) = a_lease_generation a"
      "a_state (if c then g a else a) = Leased \<Longrightarrow> a_state a = Leased" for a c by (auto split: if_splits)
    show ?thesis unfolding leases_ok_def that(1,2) bex_t_update ball_t_update
      using inv e(3) unfolding e(1,2) by blast
  qed
  from assms(1) show ?thesis
  proof (cases rule: store_tx.cases)
    case (tx_attempt a)
    with inv show ?thesis by (auto simp: leases_ok_def)
  next
    case (tx_job k j)
    then show ?thesis by (intro upd [of k "\<lambda>r. if a_state r = Created
        then r\<lparr> a_job_id := Some j \<rparr> else r"]) (auto split: if_splits)
  next
    case (tx_claim k a le)
    then have a: "a \<in> set (attempts d)" "a_attempt_id a = k" by (auto dest: t_getD)
    have ua: "a' = a" if "a' \<in> set (attempts d)" "a_attempt_id a' = k" for a'
      using that u tx_claim by (metis t_unique_get option.inject)
    have nl: "l_attempt_id x \<noteq> k" if "x \<in> set (leases d)" for x
      using tx_claim that by (auto simp: image_iff)
    from a inv have "0 \<le> a_lease_generation a" by auto
    with inv a ua nl tx_claim show ?thesis
      by (force simp: leases_ok_def bex_t_update ball_t_update)
  next
    case (tx_renew k le ex)
    with inv show ?thesis by (auto simp: leases_ok_def bex_t_update ball_t_update)
  next
    case (tx_drop k)
    with inv show ?thesis by (auto simp: leases_ok_def bex_t_update ball_t_update)
  next
    case (tx_accept r)
    then show ?thesis by (intro upd [of "r_attempt_id r" "\<lambda>r. r\<lparr> a_state := Result_accepted \<rparr>"]) auto
  next
    case (tx_complete k)
    then show ?thesis by (intro upd [of k "\<lambda>r. r\<lparr> a_state := Completed \<rparr>"]) auto
  qed (use inv in \<open>simp_all add: leases_ok_def\<close>)
qed

lemma routing_tx:
  assumes "store_tx d d'" "keys_ok d" "routing_ok d"
  shows "routing_ok d'"
proof -
  have k: "(w, n) \<in> node_key ` set (nodes d')" if "(w, n) \<in> node_key ` set (nodes d)" for w n
    using node_keys_tx [OF assms(1,2)] that by blast
  from assms(2) have u: "t_unique a_attempt_id (attempts d)" by (simp add: keys_ok_def)
  from attempts_tx [OF assms(1) u] obtain f new where
    a: "attempts d' = map f (attempts d) @ new" "\<And>a. a \<in> set (attempts d) \<Longrightarrow> attempt_next a (f a)" by metis
  show ?thesis
  proof (cases "attempt_routing_decisions d' = attempt_routing_decisions d \<and> length (attempts d') = length (attempts d)")
    case True
    with a have a': "attempts d' = map f (attempts d)" by simp
    then have "map a_attempt_id (attempts d') = map a_attempt_id (attempts d)"
      using a(2) by (simp add: attempt_next_def)
    with True assms(3) a(2) a' k show ?thesis by (auto simp: routing_ok_def attempt_next_def)
  next
    case False
    from assms(1) False show ?thesis
    proof (cases rule: store_tx.cases)
      case (tx_attempt a r b)
      then have "(a_work_id a, a_node_id a) \<in> node_key ` set (nodes d)" by (auto dest: t_get_image)
      with tx_attempt assms(3) show ?thesis by (auto simp: routing_ok_def)
    qed (simp_all add: attempts_setJobId)
  qed
qed

lemma results_tx:
  assumes "store_tx d d'" "keys_ok d" "leases_ok d" "results_ok d"
  shows "results_ok d'"
proof -
  from assms(2) have u: "t_unique a_attempt_id (attempts d)" by (simp add: keys_ok_def)
  note inv = assms(4) [unfolded results_ok_def]
  have keep: "result_row_ok d' r" if "result_row_ok d r" for r
    unfolding result_row_ok_def using that
    by (intro conjI some_attempt_tx [OF assms(1) u]) (auto simp: result_row_ok_def attempt_next_def)
  have same: "results_ok d'" if "accepted_results d' = accepted_results d"
    "completion_authorizations d' = completion_authorizations d"
    using that inv keep by (auto simp: results_ok_def auth_row_ok_def)
  from assms(1) show ?thesis
  proof (cases rule: store_tx.cases)
    case (tx_accept r a n le c)
    then obtain a' where a': "a' \<in> set (attempts d)" "a_attempt_id a' = l_attempt_id le"
      "a_lease_generation a' = l_generation le" "1 \<le> l_generation le" and le: "l_attempt_id le = r_attempt_id r"
      using assms(3) by (auto simp: leases_ok_def dest!: t_getD)
    then have "a' = a" using tx_accept u by (metis t_unique_get option.inject)
    with tx_accept a' le have "result_row_ok d r" by (auto simp: result_row_ok_def)
    moreover have "auth_row_ok d' c" using tx_accept by (simp add: auth_row_ok_def)
    moreover have "auth_row_ok d' c'" if "auth_row_ok d c'" for c'
      using that tx_accept(1) by (auto simp: auth_row_ok_def)
    moreover have "r_attempt_id r \<notin> c_attempt_id ` set (completion_authorizations d)"
      using inv tx_accept(5) by (auto simp: auth_row_ok_def) (metis image_eqI)
    ultimately show ?thesis using inv keep tx_accept(1,12) by (auto simp: results_ok_def t_unique_append)
  next
    case (tx_complete k)
    with inv keep show ?thesis by (auto simp: results_ok_def auth_row_ok_def t_unique_delete)
  qed (rule same; simp)+
qed

lemma max_revision_contiguous:
  assumes "map p_revision (filter (\<lambda>r. phase_key r = (a, ph)) rows) = map int [1..<Suc n]"
  shows "max_revision a ph rows = int n"
proof -
  have "foldr max (map int [1..<Suc n]) x = max x (int n)" if "0 \<le> x" for x
    using that by (induction n arbitrary: x) (auto simp: max_def)
  then show ?thesis unfolding max_revision_def assms by simp
qed

lemma phases_tx:
  assumes "store_tx d d'" "keys_ok d" "phases_ok d"
  shows "phases_ok d'"
proof -
  from assms(2) have u: "t_unique a_attempt_id (attempts d)" by (simp add: keys_ok_def)
  note inv = assms(3) [unfolded phases_ok_def]
  have keep: "k \<in> a_attempt_id ` set (attempts d')" if "k \<in> a_attempt_id ` set (attempts d)" for k
  proof -
    from that have "\<exists>a \<in> set (attempts d). a_attempt_id a = k" by auto
    from some_attempt_tx [OF assms(1) u this] show ?thesis by (auto simp: attempt_next_def)
  qed
  show ?thesis
  proof (cases "phase_artifacts d' = phase_artifacts d")
    case True
    with inv keep show ?thesis by (auto simp: phases_ok_def)
  next
    case False
    from assms(1) False show ?thesis
    proof (cases rule: store_tx.cases)
      case (tx_phase p a)
      from inv obtain n where n: "map p_revision (filter (\<lambda>r. phase_key r = phase_key p) (phase_artifacts d)) = map int [1..<Suc n]"
        by blast
      then have rev: "p_revision p = int (Suc n)"
        using tx_phase(3) max_revision_contiguous [of "p_attempt_id p" "p_phase p" "phase_artifacts d" n]
        by (simp add: phase_key_def)
      have "\<exists>m. map p_revision (filter (\<lambda>r. phase_key r = k) (phase_artifacts d @ [p])) = map int [1..<Suc m]" for k
      proof (cases "k = phase_key p")
        case True
        with n rev show ?thesis by (intro exI [of _ "Suc n"]) simp
      next
        case False
        then have "filter (\<lambda>r. phase_key r = k) (phase_artifacts d @ [p]) = filter (\<lambda>r. phase_key r = k) (phase_artifacts d)"
          by auto
        with inv show ?thesis by presburger
      qed
      moreover have "p_attempt_id p \<in> a_attempt_id ` set (attempts d)" using tx_phase(2) by (rule t_get_image)
      ultimately show ?thesis using tx_phase(1) inv by (auto simp: phases_ok_def)
    qed simp_all
  qed
qed

lemma submissions_tx:
  assumes "store_tx d d'" "submissions_ok d"
  shows "submissions_ok d'"
proof -
  have same: "submissions_ok d'" if "direct_task_submissions d' = direct_task_submissions d"
    "direct_task_idempotency d' = direct_task_idempotency d" "w_work_id ` set (works d) \<subseteq> w_work_id ` set (works d')"
    unfolding submissions_ok_def that(1,2) using assms(2) that(3) unfolding submissions_ok_def by blast
  from assms(1) show ?thesis
  proof (cases rule: store_tx.cases)
    case (tx_schedule w wr ws)
    then show ?thesis by (intro same) auto
  next
    case (tx_direct w s)
    with assms(2) show ?thesis by (auto simp: submissions_ok_def)
  qed (rule same; auto)+
qed

lemma validate_proof_inputD:
  assumes "validate_proof_input inp = None"
  shows "(pi_status inp = ''passed'' \<and> pi_commit_sha inp \<noteq> None \<and> pi_failure_code inp = None
      \<or> pi_status inp = ''failed'' \<and> pi_commit_sha inp = None \<and> pi_failure_code inp \<noteq> None)
    \<and> the (pi_started_at inp) \<le> the (pi_finished_at inp) \<and> pi_checks inp \<noteq> []
    \<and> pi_builder_model inp \<in> set APPROVED_MODELS"
  using assms by (auto simp: validate_proof_input_def dest: isApprovedModelIdD split: option.splits)

lemma proofs_tx:
  assumes "store_tx d d'" "keys_ok d" "proofs_ok d"
  shows "proofs_ok d'"
proof -
  from assms(2) have u: "t_unique a_attempt_id (attempts d)" by (simp add: keys_ok_def)
  have keep: "\<exists>a \<in> set (attempts d'). a_attempt_id a = k \<and> a_node_id a = n"
    if "\<exists>a \<in> set (attempts d). a_attempt_id a = k \<and> a_node_id a = n" for k n
    using some_attempt_tx [OF assms(1) u that] by (simp add: attempt_next_def)
  have same: "proofs_ok d'" if "pool_proof_results d' = pool_proof_results d" "pool_proof_checks d' = pool_proof_checks d"
    "set (attempt_routing_decisions d) \<subseteq> set (attempt_routing_decisions d')"
    unfolding proofs_ok_def that(1,2) using assms(3) that(3) keep unfolding proofs_ok_def by blast
  from assms(1) show ?thesis
  proof (cases rule: store_tx.cases)
    case (tx_proof inp a b checks)
    note v = validate_proof_inputD [OF tx_proof(2)]
    from insert_all_Some [OF tx_proof(8)] have c: "checks = pool_proof_checks d @ check_rows_of (pi_attempt_id inp) (pi_checks inp)"
      "t_unique check_key (check_rows_of (pi_attempt_id inp) (pi_checks inp))"
      "\<forall>r \<in> set (check_rows_of (pi_attempt_id inp) (pi_checks inp)). check_key r \<notin> check_key ` set (pool_proof_checks d)"
      by (auto simp: t_unique_def)
    then have "t_unique check_key checks" using assms(3) by (simp add: t_unique_append proofs_ok_def)
    moreover have "pi_attempt_id inp \<in> k_attempt_id ` set checks"
      using v c(1) by (cases "pi_checks inp") (auto simp: check_rows_of_def)
    moreover have "\<exists>a \<in> set (attempts d). a_attempt_id a = pi_attempt_id inp \<and> a_node_id a = pi_node_id inp"
      using tx_proof(3,4) by (auto dest: t_getD)
    moreover have "\<exists>b \<in> set (attempt_routing_decisions d). b_attempt_id b = pi_attempt_id inp \<and> b_builder_model b = pi_builder_model inp"
      using tx_proof(5,6) by (auto dest: t_getD)
    moreover have "k_attempt_id ` set (pool_proof_checks d) \<subseteq> k_attempt_id ` set checks" using c(1) by auto
    ultimately show ?thesis using tx_proof(1) v assms(3)
      unfolding proofs_ok_def by (simp add: proof_row_of_def subset_iff)
  qed (rule same; auto)+
qed

text \<open>A fresh work brings its own, acyclic, closed graph.\<close>

lemma edges_work_graph:
  assumes "wf_graph (work_graph w)"
  shows "edges (work_graph w) = {(x, an_id n) | x n. n \<in> set (aw_nodes w) \<and> x \<in> set (an_depends_on n)}"
proof -
  have "set (deps (work_graph w) (an_id n)) = set (an_depends_on n)" if "n \<in> set (aw_nodes w)" for n
    using assms that by (subst deps_mem [of _ _ "an_depends_on n"]) (auto simp: wf_graph_def work_graph_def)
  then show ?thesis by (auto simp: edges_def node_set_def work_graph_def image_image)
qed

lemma stored_edges_UN:
  "stored_edges w d = (\<Union>r \<in> set (nodes d). if n_work_id r = w then (\<lambda>x. (x, n_node_id r)) ` set (n_depends_on r) else {})"
  by (auto simp: stored_edges_def split: if_splits)

lemma node_nextD: "node_next r r' \<Longrightarrow> node_key r' = node_key r \<and> n_depends_on r' = n_depends_on r"
  by (auto simp: node_next_def)

lemma graphs_add:
  assumes inv: "graphs_ok d" and f: "fresh_work w d" and w: "works d' = works d @ [new_work_row e w]"
    and n: "nodes d' = nodes d @ map (new_node_row (aw_work_id w)) (aw_nodes w)"
  shows "graphs_ok d'"
proof -
  note inv = inv [unfolded graphs_ok_def]
  from f have v: "valid_work w" and fr: "aw_work_id w \<notin> w_work_id ` set (works d)" by (auto simp: fresh_work_def)
  from v have ne: "aw_nodes w \<noteq> []" and wf: "wf_graph (work_graph w)" and ac: "acyclic (edges (work_graph w))"
    by (auto simp: valid_work_def)
  have nw: "n_work_id r \<noteq> aw_work_id w" if "r \<in> set (nodes d)" for r using fr inv that by (metis imageI)
  have "stored_edges (aw_work_id w) d' = edges (work_graph w)"
    unfolding edges_work_graph [OF wf] stored_edges_UN using nw by (auto simp: n)
  moreover have "stored_edges x d' = stored_edges x d" if "x \<noteq> aw_work_id w" for x
    using that by (auto simp: stored_edges_def n)
  ultimately have "acyclic (stored_edges x d')" for x
    using inv ac by (cases "x = aw_work_id w") auto
  moreover have dep: "(aw_work_id w, x) \<in> node_key ` set (nodes d')" if "m \<in> set (aw_nodes w)" "x \<in> set (an_depends_on m)" for m x
  proof -
    from that wf have "x \<in> node_set (work_graph w)" by (force simp: wf_graph_def work_graph_def)
    then obtain m where "m \<in> set (aw_nodes w)" "x = an_id m" by (auto simp: node_set_def work_graph_def)
    then have "(aw_work_id w, x) \<in> node_key ` new_node_row (aw_work_id w) ` set (aw_nodes w)" by (simp add: image_image)
    then show ?thesis by (simp only: n set_append set_map image_Un Un_iff simp_thms)
  qed
  moreover have "n_work_id ` set (nodes d') = w_work_id ` set (works d')"
    using inv ne by (cases "aw_nodes w") (auto simp: n w image_Un image_image)
  moreover have "(n_work_id r, x) \<in> node_key ` set (nodes d')" if "r \<in> set (nodes d')" "x \<in> set (n_depends_on r)" for r x
  proof (cases "r \<in> set (nodes d)")
    case True
    with that inv have "(n_work_id r, x) \<in> node_key ` set (nodes d)" by blast
    then show ?thesis by (simp only: n set_append image_Un Un_iff simp_thms)
  next
    case False
    with that n obtain m where "m \<in> set (aw_nodes w)" "r = new_node_row (aw_work_id w) m" by auto
    with that dep show ?thesis by simp
  qed
  ultimately show ?thesis by (simp add: graphs_ok_def)
qed

lemma graphs_same:
  assumes inv: "graphs_ok d" and w: "w_work_id ` set (works d') = w_work_id ` set (works d)"
    and n: "nodes d' = map f (nodes d)" "\<And>r. r \<in> set (nodes d) \<Longrightarrow> node_key (f r) = node_key r \<and> n_depends_on (f r) = n_depends_on r"
  shows "graphs_ok d'"
proof -
  note inv = inv [unfolded graphs_ok_def]
  have f: "n_work_id (f r) = n_work_id r" "n_node_id (f r) = n_node_id r" "n_depends_on (f r) = n_depends_on r"
    "node_key (f r) = node_key r" if "r \<in> set (nodes d)" for r
    using n(2) [OF that] by (auto simp: node_key_def)
  have "stored_edges x d' = stored_edges x d" for x
    unfolding stored_edges_UN n(1) set_map image_image using f by (intro SUP_cong) auto
  moreover have "node_key ` set (nodes d') = node_key ` set (nodes d)" "n_work_id ` set (nodes d') = n_work_id ` set (nodes d)"
    using f by (auto simp: n(1) image_image)
  ultimately show ?thesis unfolding graphs_ok_def using inv w f by (simp add: n(1))
qed

lemma graphs_tx:
  assumes "store_tx d d'" "keys_ok d" "graphs_ok d"
  shows "graphs_ok d'"
proof -
  from assms(2) have "t_unique node_key (nodes d)" by (simp add: keys_ok_def)
  from nodes_tx [OF assms(1) this] obtain f new where
    n: "nodes d' = map f (nodes d) @ new" "\<And>r. r \<in> set (nodes d) \<Longrightarrow> node_next r (f r)" by metis
  have same: "graphs_ok d'" if "w_work_id ` set (works d') = w_work_id ` set (works d)" "length (nodes d') = length (nodes d)"
    using n that by (intro graphs_same [OF assms(3), of _ f]) (auto dest: node_nextD)
  from assms(1) show ?thesis
  proof (cases rule: store_tx.cases)
    case (tx_work w l deps' e)
    then show ?thesis by (intro graphs_add [OF assms(3), of w]) auto
  next
    case (tx_direct w s idem e l)
    then show ?thesis by (intro graphs_add [OF assms(3), of w]) auto
  next
    case (tx_schedule w wr ws)
    from tx_schedule(3) have "w_work_id ` set ws = w_work_id ` set (works d)" by (elim disjE) simp_all
    with tx_schedule show ?thesis by (intro same) simp_all
  qed (rule same; simp add: nodes_set_node_state)+
qed

section \<open>Reachable databases\<close>

lemma store_inv_tx: "store_tx d d' \<Longrightarrow> store_inv d \<Longrightarrow> store_inv d'"
  unfolding store_inv_def
  using keys_tx versions_tx leases_tx routing_tx results_tx phases_tx graphs_tx proofs_tx submissions_tx by blast

lemma store_inv_empty: "store_inv empty_db"
  by (auto simp: store_inv_def inv_defs empty_db_def stored_edges_def acyclic_def intro: exI [of _ 0])

interpretation store: invariant_system store_step empty_db store_inv
  by unfold_locales (auto intro: store_inv_empty store_inv_tx store_step_tx)

lemma reachable_inv: "reachable d \<Longrightarrow> store_inv d"
  by (rule store.inv_reachable)

end
