(* ===== verification/Store_Guarantees.thy ===== *)
theory Store_Guarantees
  imports Store_Invariants
begin

text \<open>
  What holds between any two databases of a run of the store: nodes only climb their
  lifecycle and keep their content, attempts keep their identity and their lease
  generation only grows, the append-only tables only grow at the end, and a lease
  generation names one holder. Then what the operations that spend an authority (a
  lease, a node version, a completion authorization) demand.
\<close>

section \<open>The relation between two databases of a run\<close>

definition node_le :: "node_row \<Rightarrow> node_row \<Rightarrow> bool" where
  "node_le r r' \<longleftrightarrow> node_key r' = node_key r \<and> approved_of_row r' = approved_of_row r
     \<and> isValidTransition\<^sup>*\<^sup>* (n_state r) (n_state r')
     \<and> n_version r' - n_version r = state_rank (n_state r') - state_rank (n_state r)"

definition work_content :: "work_row \<Rightarrow> string \<times> work_origin \<times> string \<times> string \<times> string \<times> string option \<times> string option \<times> string option" where
  "work_content w = (w_work_id w, w_origin w, w_repo w, w_branch w, w_payload_hash w, w_approval_id w, w_approved_at w, w_approved_head w)"

definition ledgers_grow :: "db \<Rightarrow> db \<Rightarrow> bool" where
  "ledgers_grow d d' \<longleftrightarrow> prefix (accepted_results d) (accepted_results d')
     \<and> prefix (attempt_routing_decisions d) (attempt_routing_decisions d')
     \<and> prefix (phase_artifacts d) (phase_artifacts d')
     \<and> prefix (pool_proof_results d) (pool_proof_results d') \<and> prefix (pool_proof_checks d) (pool_proof_checks d')
     \<and> prefix (direct_task_submissions d) (direct_task_submissions d')
     \<and> prefix (direct_task_idempotency d) (direct_task_idempotency d')
     \<and> prefix (map work_content (works d)) (map work_content (works d'))"

definition same_holder :: "lease_row \<Rightarrow> lease_row \<Rightarrow> bool" where
  "same_holder l l' \<longleftrightarrow> l_attempt_id l = l_attempt_id l' \<and> l_generation l = l_generation l'
     \<and> l_owner l = l_owner l' \<and> l_token_digest l = l_token_digest l' \<and> l_issued_at l = l_issued_at l'"

text \<open>A lease of a later database has a later generation, or is a lease of the earlier one.\<close>

definition fenced :: "db \<Rightarrow> db \<Rightarrow> bool" where
  "fenced d d' \<longleftrightarrow> (\<forall>a \<in> set (attempts d). \<forall>l' \<in> set (leases d'). l_attempt_id l' = a_attempt_id a \<longrightarrow>
     a_lease_generation a < l_generation l' \<or>
     (a_lease_generation a = l_generation l' \<and> (\<exists>l \<in> set (leases d). same_holder l l')))"

definition evolves :: "db \<Rightarrow> db \<Rightarrow> bool" where
  "evolves d d' \<longleftrightarrow> (\<forall>r \<in> set (nodes d). \<exists>r' \<in> set (nodes d'). node_le r r')
     \<and> (\<forall>a \<in> set (attempts d). \<exists>a' \<in> set (attempts d'). attempt_next a a')
     \<and> ledgers_grow d d' \<and> fenced d d'"

section \<open>The relation is a preorder\<close>

lemma node_le_refl [simp]: "node_le r r"
  by (simp add: node_le_def)

lemma node_le_trans: "node_le r s \<Longrightarrow> node_le s t \<Longrightarrow> node_le r t"
  by (auto simp: node_le_def)

lemma node_next_le: "node_next r r' \<Longrightarrow> node_le r r'"
  by (auto simp: node_next_def node_le_def approved_of_row_def dest: isValidTransition_rank)

lemma attempt_next_refl [simp]: "attempt_next a a"
  by (simp add: attempt_next_def)

lemma attempt_next_trans: "attempt_next a b \<Longrightarrow> attempt_next b c \<Longrightarrow> attempt_next a c"
  by (auto simp: attempt_next_def)

lemma ledgers_grow_trans: "ledgers_grow a b \<Longrightarrow> ledgers_grow b c \<Longrightarrow> ledgers_grow a c"
  unfolding ledgers_grow_def by (meson prefix_order.trans)

lemma same_holder_trans: "same_holder a b \<Longrightarrow> same_holder b c \<Longrightarrow> same_holder a c"
  by (auto simp: same_holder_def)

lemma fenced_trans:
  assumes st: "fenced s t" and tu: "fenced t u"
    and keep: "\<forall>a \<in> set (attempts s). \<exists>a' \<in> set (attempts t). attempt_next a a'"
  shows "fenced s u"
  unfolding fenced_def
proof (intro ballI impI)
  fix a l' assume a: "a \<in> set (attempts s)" and l': "l' \<in> set (leases u)" "l_attempt_id l' = a_attempt_id a"
  from keep a obtain a' where a': "a' \<in> set (attempts t)" "attempt_next a a'" by blast
  with tu l' have c: "a_lease_generation a' < l_generation l' \<or>
      (a_lease_generation a' = l_generation l' \<and> (\<exists>l \<in> set (leases t). same_holder l l'))"
    by (auto simp: fenced_def attempt_next_def)
  show "a_lease_generation a < l_generation l' \<or>
      (a_lease_generation a = l_generation l' \<and> (\<exists>l \<in> set (leases s). same_holder l l'))"
  proof (cases "a_lease_generation a < l_generation l'")
    case False
    with c a'(2) obtain l where l: "l \<in> set (leases t)" "same_holder l l'" "a_lease_generation a = l_generation l'"
      by (auto simp: attempt_next_def)
    with st a l'(2) obtain l0 where "l0 \<in> set (leases s)" "same_holder l0 l"
      by (fastforce simp: fenced_def same_holder_def)
    with l show ?thesis using same_holder_trans by blast
  qed simp
qed

lemma evolves_trans:
  assumes "evolves s t" "evolves t u"
  shows "evolves s u"
proof -
  have "\<exists>r' \<in> set (nodes u). node_le r r'" if "r \<in> set (nodes s)" for r
    using that assms node_le_trans unfolding evolves_def by meson
  moreover have "\<exists>a' \<in> set (attempts u). attempt_next a a'" if "a \<in> set (attempts s)" for a
    using that assms attempt_next_trans unfolding evolves_def by meson
  moreover have "fenced s u" using assms by (auto simp: evolves_def intro: fenced_trans)
  moreover have "ledgers_grow s u" using assms by (auto simp: evolves_def intro: ledgers_grow_trans)
  ultimately show ?thesis by (simp add: evolves_def)
qed

lemma fenced_refl: "store_inv d \<Longrightarrow> fenced d d"
  unfolding fenced_def
proof (intro ballI impI)
  fix a l assume inv: "store_inv d" and a: "a \<in> set (attempts d)" and l: "l \<in> set (leases d)" "l_attempt_id l = a_attempt_id a"
  from inv l obtain b where b: "b \<in> set (attempts d)" "a_attempt_id b = a_attempt_id a" "a_lease_generation b = l_generation l"
    by (auto simp: store_inv_def leases_ok_def)
  from inv a b have "b = a" by (auto simp: store_inv_def keys_ok_def t_unique_def distinct_map inj_on_def)
  with b l show "a_lease_generation a < l_generation l \<or>
      (a_lease_generation a = l_generation l \<and> (\<exists>l0 \<in> set (leases d). same_holder l0 l))"
    by (auto simp: same_holder_def)
qed

section \<open>Every transaction respects it\<close>

lemma ledgers_tx:
  assumes "store_tx d d'"
  shows "ledgers_grow d d'"
  using assms
proof (cases rule: store_tx.cases)
  case (tx_schedule w wr ws)
  have "map work_content ws = map work_content (works d)"
    using tx_schedule(3) by (elim disjE) (simp_all add: freeze_work_def work_content_def)
  with tx_schedule show ?thesis by (simp add: ledgers_grow_def)
next
  case (tx_proof inp a b checks)
  with insert_all_Some [OF tx_proof(8)] show ?thesis by (simp add: ledgers_grow_def)
qed (auto simp: ledgers_grow_def)

lemma fenced_tx:
  assumes "store_tx d d'" "store_inv d"
  shows "fenced d d'"
proof -
  note refl = fenced_refl [OF assms(2)]
  have shrink: "fenced d d'" if "\<And>l'. l' \<in> set (leases d') \<Longrightarrow> \<exists>l \<in> set (leases d). same_holder l l'"
    unfolding fenced_def
  proof (intro ballI impI)
    fix a l' assume a: "a \<in> set (attempts d)" "l' \<in> set (leases d')" "l_attempt_id l' = a_attempt_id a"
    from that [OF a(2)] obtain l where l: "l \<in> set (leases d)" "same_holder l l'" by blast
    with refl a have "a_lease_generation a < l_generation l \<or> a_lease_generation a = l_generation l"
      by (fastforce simp: fenced_def same_holder_def)
    with l show "a_lease_generation a < l_generation l' \<or>
        (a_lease_generation a = l_generation l' \<and> (\<exists>l \<in> set (leases d). same_holder l l'))"
      by (auto simp: same_holder_def)
  qed
  have same: "fenced d d'" if "leases d' = leases d"
    using that by (intro shrink) (auto simp: same_holder_def)
  from assms(1) show ?thesis
  proof (cases rule: store_tx.cases)
    case (tx_claim k a le)
    have "a' = a" if "a' \<in> set (attempts d)" "a_attempt_id a' = k" for a'
      using that assms(2) tx_claim(2) by (metis store_inv_def keys_ok_def t_unique_get option.inject)
    with tx_claim refl show ?thesis by (auto simp: fenced_def)
  next
    case (tx_renew k le ex)
    then show ?thesis by (intro shrink) (auto simp: set_t_update same_holder_def)
  next
    case (tx_drop k)
    then show ?thesis by (intro shrink) (auto simp: same_holder_def)
  qed (rule same; simp)+
qed

lemma evolves_tx:
  assumes "store_tx d d'" "store_inv d"
  shows "evolves d d'"
proof -
  from assms(2) have u: "t_unique node_key (nodes d)" "t_unique a_attempt_id (attempts d)"
    by (simp_all add: store_inv_def keys_ok_def)
  from nodes_tx [OF assms(1) u(1)] obtain f new where
    "nodes d' = map f (nodes d) @ new" "\<And>r. r \<in> set (nodes d) \<Longrightarrow> node_next r (f r)" by metis
  then have "\<exists>r' \<in> set (nodes d'). node_le r r'" if "r \<in> set (nodes d)" for r using that by (auto intro!: node_next_le)
  moreover from attempts_tx [OF assms(1) u(2)] obtain g new where
    "attempts d' = map g (attempts d) @ new" "\<And>a. a \<in> set (attempts d) \<Longrightarrow> attempt_next a (g a)" by metis
  then have "\<exists>a' \<in> set (attempts d'). attempt_next a a'" if "a \<in> set (attempts d)" for a using that by auto
  ultimately show ?thesis using ledgers_tx [OF assms(1)] fenced_tx [OF assms] by (simp add: evolves_def)
qed

lemma evolves_refl: "store_inv d \<Longrightarrow> evolves d d"
  by (rule evolves_tx [OF store_tx.tx_none])

interpretation store_run: guarantee_system store_step store_inv evolves
  by unfold_locales (auto intro: evolves_refl evolves_trans store_inv_tx store_step_tx evolves_tx)

lemma run_evolves: "reachable d \<Longrightarrow> store_step\<^sup>*\<^sup>* d d' \<Longrightarrow> evolves d d' \<and> store_inv d'"
  using store_run.guar_run reachable_inv by blast

end
