(* ===== verification/Store_Scenario.thy ===== *)
theory Store_Scenario
  imports Store_Guarantees
begin

text \<open>
  A concrete run of the store, evaluated by the kernel: two nodes are imported, the first is
  made ready, attempted, leased, started, reported and completed. Its states are the
  inputs at which the general theorems are instantiated.
\<close>

definition sc_env :: env where
  "sc_env = \<lparr> env_digest = (\<lambda>s. CHR ''#'' # s), env_token = ''tok'', env_now = 1000, env_begin_error = None \<rparr>"

definition sc_node :: "string \<Rightarrow> string list \<Rightarrow> js" where
  "sc_node i ds = plain [(''id'', Str i), (''intent'', Str ''do''), (''change_spec'', Str ''spec''),
     (''acceptance_criteria'', Arr [Str ''works'']), (''depends_on'', Arr (map Str ds)),
     (''criteria_origin_source'', Str ''decomposition''), (''criteria_origin_source_id'', Str ''d1'')]"

definition sc_work :: js where
  "sc_work = plain [(''work_id'', Str ''w''), (''origin'', Str ''decomposition''), (''repo'', Str ''r''),
     (''branch'', Str ''b''), (''payload_hash'', Str ''h''), (''approval_id'', Str ''g1''),
     (''approved_at'', Str ''t''), (''approved_head'', Str ''c0''),
     (''nodes'', Arr [sc_node ''n'' [], sc_node ''m'' [''n'']])]"

definition sc_routing :: js where
  "sc_routing = plain [(''builder'', Str (hd APPROVED_MODELS)), (''policyVersion'', JInt 1)]"

definition sc_claim :: js where
  "sc_claim = plain [(''kind'', Str ''claim''), (''attempt_id'', Str ''w/n/1''), (''owner'', Str ''o'')]"

definition sc_release :: js where
  "sc_release = plain [(''kind'', Str ''release''), (''attempt_id'', Str ''w/n/1''), (''owner'', Str ''o''), (''token'', Str ''tok'')]"

definition sc_result :: js where
  "sc_result = plain [(''result_id'', Str ''r1''), (''attempt_id'', Str ''w/n/1''), (''node_id'', Str ''n''),
     (''work_id'', Str ''w''), (''outcome'', Str ''passed''), (''phase'', Str ''S''), (''token'', Str ''tok''),
     (''generation'', JInt 1), (''expected_node_version'', JInt 3)]"

definition sc_phase :: js where
  "sc_phase = plain [(''attempt_id'', Str ''w/n/1''), (''phase'', Str ''C''), (''status'', Str ''passed''),
     (''content_hash'', Str ''h''), (''artifact_path'', Str ''out/c.md'')]"

definition sc_proof :: proof_input where
  "sc_proof = \<lparr> pi_attempt_id = ''w/n/1'', pi_result_id = ''p1'', pi_node_id = ''n'', pi_builder_model = hd APPROVED_MODELS,
     pi_status = ''failed'', pi_commit_sha = None, pi_failure_code = Some ''tests'', pi_checks = [(''unit'', False)],
     pi_started_at = Some 1, pi_finished_at = Some 2 \<rparr>"

definition sc_direct :: "string \<Rightarrow> direct_task_input" where
  "sc_direct caller = \<lparr> di_caller_id = caller, di_scope_key = Some ''key'', di_payload_hash = ''h'',
     di_submission_id = ''s1'', di_acceptance_json = ''{}'', di_manifest_json = ''{}'',
     di_work = plain [(''work_id'', Str ''dw''), (''origin'', Str ''direct_task''), (''repo'', Str ''r''),
       (''branch'', Str ''b''), (''payload_hash'', Str ''h''),
       (''nodes'', Arr [plain [(''id'', Str ''n''), (''intent'', Str ''do''), (''change_spec'', Str ''spec''),
          (''acceptance_criteria'', Arr [Str ''works'']), (''depends_on'', Arr []),
          (''criteria_origin_source'', Str ''direct_task''), (''criteria_origin_source_id'', Str ''d1'')]])] \<rparr>"

definition sc1 :: db where "sc1 = snd (importApprovedWork sc_env sc_work empty_db)"
definition sc2 :: db where "sc2 = snd (transitionNode sc_env ''w'' ''n'' 1 Ready sc1)"
definition sc3 :: db where "sc3 = snd (createAttempt sc_env ''w'' ''n'' ''w/n/1'' 1 ''job:w/n/1'' sc_routing sc2)"
definition sc4 :: db where "sc4 = snd (claimLease sc_env sc_claim (Some 2000) (Some 1000) sc3)"
definition sc5 :: db where "sc5 = snd (transitionNode sc_env ''w'' ''n'' 2 In_progress sc4)"
definition sc6 :: db where "sc6 = snd (acceptResult sc_env sc_result (Some 1500) sc5)"
definition sc7 :: db where "sc7 = snd (completeAuthorizedResult sc_env ''w'' ''n'' ''w/n/1'' sc6)"

lemma sc_steps:
  "store_step empty_db sc1" "store_step sc1 sc2" "store_step sc2 sc3" "store_step sc3 sc4"
  "store_step sc4 sc5" "store_step sc5 sc6" "store_step sc6 sc7"
  unfolding sc1_def sc2_def sc3_def sc4_def sc5_def sc6_def sc7_def by (rule store_step.intros)+

lemma sc_reachable: "reachable sc1" "reachable sc2" "reachable sc3" "reachable sc4" "reachable sc5" "reachable sc6" "reachable sc7"
proof -
  show 1: "reachable sc1" by (rule r_into_rtranclp) (rule sc_steps)
  show 2: "reachable sc2" using 1 sc_steps(2) by (rule rtranclp.rtrancl_into_rtrancl)
  show 3: "reachable sc3" using 2 sc_steps(3) by (rule rtranclp.rtrancl_into_rtrancl)
  show 4: "reachable sc4" using 3 sc_steps(4) by (rule rtranclp.rtrancl_into_rtrancl)
  show 5: "reachable sc5" using 4 sc_steps(5) by (rule rtranclp.rtrancl_into_rtrancl)
  show 6: "reachable sc6" using 5 sc_steps(6) by (rule rtranclp.rtrancl_into_rtrancl)
  show 7: "reachable sc7" using 6 sc_steps(7) by (rule rtranclp.rtrancl_into_rtrancl)
qed


end
