(* ===== verification/Store_Properties.thy ===== *)
theory Store_Properties
  imports Store_Scenario
begin

text \<open>
  The properties of the Orchestration store, stated over its operations and their runs.
\<close>

section \<open>Helper lemmas\<close>

lemma reachable_parts:
  assumes "reachable d"
  shows "keys_ok d" "versions_ok d" "leases_ok d" "routing_ok d" "results_ok d" "phases_ok d" "graphs_ok d"
    "proofs_ok d" "submissions_ok d"
  using reachable_inv [OF assms] by (simp_all add: store_inv_def)

lemma reachable_node: "reachable d \<Longrightarrow> r \<in> set (nodes d) \<Longrightarrow> get_node_row (n_work_id r) (n_node_id r) d = Some r"
  using reachable_parts(1) t_unique_get [of node_key "nodes d" r] by (simp add: keys_ok_def node_key_def)

lemma terminal_stuck:
  assumes "isValidTransition\<^sup>*\<^sup>* s t" "s \<in> {Passed, Failed}"
  shows "t = s"
  using assms by (induction rule: rtranclp_induct) auto

lemma node_run:
  assumes "reachable d" "store_step\<^sup>*\<^sup>* d d'" "get_node_row w n d = Some r"
  obtains r' where "get_node_row w n d' = Some r'" "node_le r r'"
proof -
  note ev = run_evolves [OF assms(1,2)]
  from assms(3) have "r \<in> set (nodes d)" and k: "node_key r = (w, n)" by (auto dest: t_getD)
  with ev obtain r' where r': "r' \<in> set (nodes d')" "node_le r r'" by (auto simp: evolves_def)
  with k have "node_key r' = (w, n)" by (simp add: node_le_def)
  with r' ev have "get_node_row w n d' = Some r'" by (auto simp: store_inv_def keys_ok_def t_unique_get_iff)
  with r' that show thesis by blast
qed

lemma row_eqI:
  assumes "node_le r r'" "n_state r' = n_state r"
  shows "r' = r"
  using assms by (cases r, cases r') (simp add: node_le_def node_key_def approved_of_row_def)

text \<open>An authorization that was spent: the result stands, the authorization is gone.\<close>

definition spent :: "string \<Rightarrow> db \<Rightarrow> bool" where
  "spent k d \<longleftrightarrow> k \<in> r_attempt_id ` set (accepted_results d) \<and> k \<notin> c_attempt_id ` set (completion_authorizations d)"

lemma spent_tx:
  assumes "store_tx d d'" "spent k d"
  shows "spent k d'"
  using assms(1)
proof (cases rule: store_tx.cases)
  case (tx_accept r)
  have "k \<noteq> r_attempt_id r" using tx_accept(5) assms(2) by (metis spent_def t_get_None)
  with tx_accept assms(2) show ?thesis by (auto simp: spent_def)
qed (use assms(2) in \<open>auto simp: spent_def\<close>)

lemma spent_run: "store_step\<^sup>*\<^sup>* d d' \<Longrightarrow> spent k d \<Longrightarrow> spent k d'"
  by (induction rule: rtranclp_induct) (auto intro: spent_tx store_step_tx)

section \<open>Refinement and invariants\<close>

text \<open>
  C1. Refinement: every operation of the store, with any argument and in any
  environment, commits one of the transactions of the abstract specification, whose
  guards its own checks establish, or leaves every table but the audit log alone. The
  operations on an existing lease also commit what their own request allows: only a command
  that names the owner and has the token of the lease renews it, before its expiry, or
  releases it, and only a lease past its expiry is reclaimed.
\<close>
theorem store_refines:
  "store_step d d' \<Longrightarrow> store_tx d d'
     \<and> lease_tx (env_digest e) (Renew_request command expires now) d (snd (renewLease e command expires now d))
     \<and> lease_tx (env_digest e) (Release_request command) d (snd (releaseLease e command now d))
     \<and> lease_tx (env_digest e) (Reclaim_request attempt now) d (snd (reclaimLease e attempt owner now d))"
  by (simp add: store_step_tx renewal_lease_tx release_lease_tx reclaim_lease_tx)

theorem store_refines_witness:
  "store_tx sc4 sc5 \<and> lease_tx (env_digest sc_env) (Release_request sc_release) sc4 (snd (releaseLease sc_env sc_release (Some 1500) sc4))
     \<and> leases sc4 \<noteq> [] \<and> leases (snd (releaseLease sc_env sc_release (Some 1500) sc4)) = []"
proof -
  have "leases sc4 \<noteq> []" "leases (snd (releaseLease sc_env sc_release (Some 1500) sc4)) = []" by code_simp+
  with store_refines [OF sc_steps(5), of sc_env sc_release None "Some 1500"] show ?thesis by simp
qed

text \<open>
  In every reachable database a node's version counts the transitions it has made:
  pending is version 1, ready 2, in progress 3, passed and failed 4.
\<close>
theorem node_version_counts_transitions:
  "reachable d \<Longrightarrow> get_node_row w n d = Some r \<Longrightarrow> n_version r = state_rank (n_state r) + 1"
  using reachable_parts(2) by (auto simp: versions_ok_def dest: t_getD)

theorem node_version_counts_transitions_witness:
  "\<exists>r. get_node_row ''w'' ''n'' sc5 = Some r \<and> n_version r = state_rank (n_state r) + 1 \<and> n_state r = In_progress"
proof -
  have "map_option n_state (get_node_row ''w'' ''n'' sc5) = Some In_progress" by code_simp
  then obtain r where "get_node_row ''w'' ''n'' sc5 = Some r" "n_state r = In_progress" by auto
  with node_version_counts_transitions [OF sc_reachable(5), of "''w''" "''n''"] show ?thesis by auto
qed

text \<open>
  C4. Along every run a node keeps its identity and approved content and moves only
  along the allowed transitions, its version growing by one per transition.
\<close>
theorem node_lifecycle:
  assumes "reachable d" "store_step\<^sup>*\<^sup>* d d'" "get_node_row w n d = Some r"
  shows "\<exists>r'. get_node_row w n d' = Some r' \<and> approved_of_row r' = approved_of_row r
    \<and> isValidTransition\<^sup>*\<^sup>* (n_state r) (n_state r')
    \<and> n_version r' - n_version r = state_rank (n_state r') - state_rank (n_state r)"
  by (rule node_run [OF assms]) (auto simp: node_le_def)

theorem node_lifecycle_witness:
  "\<exists>r r'. get_node_row ''w'' ''n'' sc6 = Some r \<and> get_node_row ''w'' ''n'' sc7 = Some r' \<and> n_version r' - n_version r = 1"
proof -
  have r: "store_step\<^sup>*\<^sup>* sc6 sc7" using sc_steps(7) by blast
  have "map_option n_state (get_node_row ''w'' ''n'' sc6) = Some In_progress" by code_simp
  then obtain r where "get_node_row ''w'' ''n'' sc6 = Some r" "n_state r = In_progress" by auto
  moreover have "map_option n_state (get_node_row ''w'' ''n'' sc7) = Some Passed" by code_simp
  ultimately show ?thesis using node_lifecycle [OF sc_reachable(6) r, of "''w''" "''n''"] by force
qed

text \<open>
  A passed or failed node is final: no later operation changes its row.
\<close>
theorem terminal_nodes_final:
  assumes "reachable d" "store_step\<^sup>*\<^sup>* d d'" "get_node_row w n d = Some r" "n_state r \<in> {Passed, Failed}"
  shows "get_node_row w n d' = Some r"
proof -
  from node_run [OF assms(1-3)] obtain r' where r': "get_node_row w n d' = Some r'" "node_le r r'" .
  with assms(4) have "n_state r' = n_state r" by (auto simp: node_le_def dest: terminal_stuck)
  with r' show ?thesis by (auto dest: row_eqI)
qed

theorem terminal_nodes_final_witness:
  "\<exists>r. get_node_row ''w'' ''n'' sc7 = Some r
     \<and> get_node_row ''w'' ''n'' (snd (transitionNode sc_env ''w'' ''n'' 4 Ready sc7)) = Some r"
proof -
  have "map_option n_state (get_node_row ''w'' ''n'' sc7) = Some Passed" by code_simp
  then obtain r where "get_node_row ''w'' ''n'' sc7 = Some r" "n_state r = Passed" by auto
  moreover have "store_step\<^sup>*\<^sup>* sc7 (snd (transitionNode sc_env ''w'' ''n'' 4 Ready sc7))"
    by (rule r_into_rtranclp) (rule store_step.st_transition)
  ultimately show ?thesis using terminal_nodes_final [OF sc_reachable(7), of _ "''w''" "''n''" r] by auto
qed

text \<open>
  C14. The append-only ledgers: along every run the accepted results, the routing
  decisions, the phase artifacts, the Pool Proof results and checks, the direct-task
  submissions and their idempotency keys, and the content of the imported works are
  only ever extended at the end; no row of them is changed or removed.
\<close>
theorem ledgers_append_only: "reachable d \<Longrightarrow> store_step\<^sup>*\<^sup>* d d' \<Longrightarrow> ledgers_grow d d'"
  using run_evolves by (simp add: evolves_def)

theorem ledgers_append_only_witness: "ledgers_grow sc5 sc7 \<and> accepted_results sc7 \<noteq> []"
proof -
  have "store_step\<^sup>*\<^sup>* sc5 sc7"
    using sc_steps(6,7) by (meson converse_rtranclp_into_rtranclp rtranclp.rtrancl_refl)
  moreover have "accepted_results sc7 \<noteq> []" by code_simp
  ultimately show ?thesis using ledgers_append_only [OF sc_reachable(5)] by blast
qed

text \<open>
  C5. Fencing: a lease found later on the same attempt has a generation at least that
  of a lease found earlier, and with the same generation it is the same lease: same
  owner, same token digest, same issue time. A reclaimed or released lease is thus
  never mistaken for its successor.
\<close>
theorem lease_fencing:
  assumes "reachable d" "store_step\<^sup>*\<^sup>* d d'" "getLease k d = Some l" "getLease k d' = Some l'"
  shows "l_generation l \<le> l_generation l' \<and> (l_generation l = l_generation l' \<longrightarrow> same_holder l l')"
proof -
  from assms(3,4) have l: "l \<in> set (leases d)" "l_attempt_id l = k" and l': "l' \<in> set (leases d')" "l_attempt_id l' = k"
    by (auto simp: getLease_def dest: t_getD)
  from reachable_parts(3) [OF assms(1)] l obtain a where
    a: "a \<in> set (attempts d)" "a_attempt_id a = k" "a_lease_generation a = l_generation l" by (auto simp: leases_ok_def)
  have "fenced d d'" using run_evolves [OF assms(1,2)] by (simp add: evolves_def)
  with a l' have "l_generation l < l_generation l' \<or> l_generation l = l_generation l' \<and> (\<exists>l0 \<in> set (leases d). same_holder l0 l')"
    unfolding fenced_def by metis
  moreover have "l0 = l" if "l0 \<in> set (leases d)" "same_holder l0 l'" for l0
    using that l l' reachable_parts(1) [OF assms(1)]
    by (auto simp: same_holder_def keys_ok_def t_unique_def distinct_map inj_on_def)
  ultimately show ?thesis by auto
qed

theorem lease_fencing_witness:
  "\<exists>l l'. getLease ''w/n/1'' sc4 = Some l \<and> getLease ''w/n/1'' sc5 = Some l' \<and> same_holder l l'"
proof -
  have "map_option l_generation (getLease ''w/n/1'' sc4) = Some 1"
    and "map_option l_generation (getLease ''w/n/1'' sc5) = Some 1" by code_simp+
  then obtain l l' where "getLease ''w/n/1'' sc4 = Some l" "getLease ''w/n/1'' sc5 = Some l'"
    "l_generation l = 1" "l_generation l' = 1" by auto
  with lease_fencing [OF sc_reachable(4) r_into_rtranclp [of store_step, OF sc_steps(5)]] show ?thesis by fastforce
qed

text \<open>
  Leases and attempts agree: an attempt carries at most one lease, whose generation
  is the attempt's current lease generation and at least 1, and an attempt marked
  leased has a lease.
\<close>
theorem lease_coherence:
  assumes "reachable d"
  shows "t_unique l_attempt_id (leases d)
    \<and> (getLease k d = Some l \<longrightarrow>
         (\<exists>a. getAttempt k d = Some a \<and> a_lease_generation a = l_generation l \<and> 1 \<le> l_generation l))
    \<and> (getAttempt k d = Some a \<longrightarrow> a_state a = Leased \<longrightarrow> getLease k d \<noteq> None)"
  using reachable_parts(1,3) [OF assms]
  by (auto simp: getLease_def getAttempt_def t_unique_get_iff keys_ok_def leases_ok_def)

theorem lease_coherence_witness:
  "\<exists>a. getAttempt ''w/n/1'' sc4 = Some a \<and> a_lease_generation a = 1 \<and> getLease ''w/n/1'' sc4 \<noteq> None"
proof -
  have "map_option l_generation (getLease ''w/n/1'' sc4) = Some 1" by code_simp
  then obtain l where "getLease ''w/n/1'' sc4 = Some l" "l_generation l = 1" by auto
  with lease_coherence [OF sc_reachable(4), of "''w/n/1''" l] show ?thesis by auto
qed

text \<open>
  Attempt provenance: every attempt belongs to a stored node, has a positive
  number, and carries exactly one routing decision, whose builder is an approved model
  and whose policy version is non-negative.
\<close>
theorem attempt_provenance:
  assumes "reachable d" "getAttempt k d = Some a"
  shows "get_node_row (a_work_id a) (a_node_id a) d \<noteq> None \<and> 1 \<le> a_attempt_number a
    \<and> (\<exists>b. t_get b_attempt_id k (attempt_routing_decisions d) = Some b
         \<and> b_builder_model b \<in> set APPROVED_MODELS \<and> 0 \<le> b_policy_version b)"
proof -
  note i = reachable_parts(4) [OF assms(1), unfolded routing_ok_def]
  from assms(2) have a: "a \<in> set (attempts d)" "a_attempt_id a = k" by (auto simp: getAttempt_def dest: t_getD)
  from i have "b_attempt_id ` set (attempt_routing_decisions d) = a_attempt_id ` set (attempts d)"
    by (metis set_map)
  with a have "k \<in> b_attempt_id ` set (attempt_routing_decisions d)" by auto
  then obtain b where b: "t_get b_attempt_id k (attempt_routing_decisions d) = Some b"
    by (cases "t_get b_attempt_id k (attempt_routing_decisions d)") auto
  with i a show ?thesis by (auto dest: t_getD)
qed

theorem attempt_provenance_witness:
  "\<exists>b. t_get b_attempt_id ''w/n/1'' (attempt_routing_decisions sc3) = Some b \<and> b_builder_model b \<in> set APPROVED_MODELS"
proof -
  have "map_option a_state (getAttempt ''w/n/1'' sc3) = Some Created" by code_simp
  then obtain a where "getAttempt ''w/n/1'' sc3 = Some a" by auto
  from attempt_provenance [OF sc_reachable(3) this] show ?thesis by blast
qed

text \<open>
  Result provenance: an accepted result reports passed or failed, names the work
  and node of its attempt, and was accepted under a lease generation the attempt has
  already reached; a completion authorization repeats the identity of an accepted result.
\<close>
theorem result_provenance:
  assumes "reachable d"
  shows "(getAcceptedResult k d = Some r \<longrightarrow> r_outcome r \<in> {Passed, Failed} \<and>
           (\<exists>a. getAttempt k d = Some a \<and> a_work_id a = r_work_id r \<and> a_node_id a = r_node_id r
              \<and> 1 \<le> r_generation r \<and> r_generation r \<le> a_lease_generation a))
    \<and> (c \<in> set (listAuthorizedResults d) \<longrightarrow> (\<exists>r. getAcceptedResult (c_attempt_id c) d = Some r \<and> r_work_id r = c_work_id c
         \<and> r_node_id r = c_node_id c \<and> r_result_id r = c_result_id c \<and> r_expected_node_version r = c_expected_node_version c))"
  using reachable_parts(1,5) [OF assms]
  by (fastforce simp: getAcceptedResult_def getAttempt_def listAuthorizedResults_def t_unique_get_iff keys_ok_def
      results_ok_def result_row_ok_def auth_row_ok_def)

theorem result_provenance_witness:
  "\<exists>r a. getAcceptedResult ''w/n/1'' sc6 = Some r \<and> getAttempt ''w/n/1'' sc6 = Some a \<and> a_node_id a = r_node_id r"
proof -
  have "map_option r_generation (getAcceptedResult ''w/n/1'' sc6) = Some 1" by code_simp
  then obtain r where "getAcceptedResult ''w/n/1'' sc6 = Some r" by auto
  with result_provenance [OF sc_reachable(6), of "''w/n/1''" r] show ?thesis by auto
qed

lemma sorted_revisions:
  assumes "map p_revision rows = map int [1..<Suc n]"
  shows "sort_key p_revision rows = rows" "rows \<noteq> [] \<Longrightarrow> p_revision (last rows) = int n"
proof -
  have "sorted (map p_revision rows)" unfolding assms by (simp add: sorted_map del: upt_Suc)
  then show "sort_key p_revision rows = rows" by (simp add: sorted_sort_id sort_key_id_if_sorted)
  have "length rows = n" using arg_cong [OF assms, of length] by simp
  then show "p_revision (last rows) = int n" if "rows \<noteq> []"
    using that last_map [of rows p_revision] by (cases n) (simp_all add: assms)
qed

text \<open>
  Phase revisions: the revisions stored for an attempt and phase are exactly
  1, 2, ..., n in this order; the latest artifact is the one of revision n, present
  as soon as one was recorded.
\<close>
theorem phase_revisions_contiguous:
  assumes "reachable d"
  shows "\<exists>n. map p_revision (getPhaseArtifactRevisions a ph d) = map int [1..<Suc n]
    \<and> (case getLatestPhaseArtifact a ph d of None \<Rightarrow> n = 0 | Some p \<Rightarrow> p_revision p = int n \<and> 0 < n)"
proof -
  let ?rows = "filter (\<lambda>r. phase_key r = (a, ph)) (phase_artifacts d)"
  from reachable_parts(6) [OF assms] obtain n where n: "map p_revision ?rows = map int [1..<Suc n]"
    unfolding phases_ok_def by blast
  note s = sorted_revisions [OF n]
  have l: "length ?rows = n" using arg_cong [OF n, of length] by simp
  have r: "getPhaseArtifactRevisions a ph d = ?rows" by (simp add: getPhaseArtifactRevisions_def s(1))
  have "case getLatestPhaseArtifact a ph d of None \<Rightarrow> n = 0 | Some p \<Rightarrow> p_revision p = int n \<and> 0 < n"
  proof (cases "rev ?rows")
    case Nil
    with l show ?thesis unfolding getLatestPhaseArtifact_def r by simp
  next
    case (Cons p ps)
    then have "?rows \<noteq> []" "last ?rows = p" by (metis rev.simps(1) list.distinct(1), metis hd_rev list.sel(1))
    with s(2) have "p_revision p = int n" by simp
    moreover have "0 < n" using l \<open>?rows \<noteq> []\<close> by (metis length_greater_0_conv)
    ultimately show ?thesis unfolding getLatestPhaseArtifact_def r Cons by simp
  qed
  with n show ?thesis by (intro exI [of _ n]) (simp add: getPhaseArtifactRevisions_def s(1))
qed

theorem phase_revisions_contiguous_witness:
  "let d = snd (recordPhaseArtifact sc_env sc_phase (snd (recordPhaseArtifact sc_env sc_phase sc3)))
   in \<exists>n. map p_revision (getPhaseArtifactRevisions ''w/n/1'' ''C'' d) = map int [1..<Suc n]
    \<and> getPhaseArtifactRevisions ''w/n/1'' ''C'' d \<noteq> []"
proof -
  let ?d1 = "snd (recordPhaseArtifact sc_env sc_phase sc3)"
  let ?d = "snd (recordPhaseArtifact sc_env sc_phase ?d1)"
  have "reachable ?d1" by (rule rtranclp.rtrancl_into_rtrancl [OF sc_reachable(3)]) (rule store_step.st_phase)
  then have "reachable ?d" by (rule rtranclp.rtrancl_into_rtrancl) (rule store_step.st_phase)
  from phase_revisions_contiguous [OF this, of "''w/n/1''" "''C''"] obtain n where
    "map p_revision (getPhaseArtifactRevisions ''w/n/1'' ''C'' ?d) = map int [1..<Suc n]" by blast
  moreover have "getPhaseArtifactRevisions ''w/n/1'' ''C'' ?d \<noteq> []" by code_simp
  ultimately show ?thesis unfolding Let_def by blast
qed

text \<open>
  The graph of an imported work stays well formed: every node belongs to an
  imported work, depends only on nodes of the same work, and the dependency edges of a
  work have no cycle.
\<close>
theorem stored_graphs_acyclic:
  assumes "reachable d"
  shows "acyclic (stored_edges w d)
    \<and> (get_node_row w n d = Some r \<longrightarrow> getImportedWork w d \<noteq> None
         \<and> (\<forall>x \<in> set (n_depends_on r). get_node_row w x d \<noteq> None))"
proof -
  note g = reachable_parts(7) [OF assms, unfolded graphs_ok_def]
  have "getImportedWork w d \<noteq> None \<and> (\<forall>x \<in> set (n_depends_on r). get_node_row w x d \<noteq> None)"
    if "get_node_row w n d = Some r"
  proof -
    from that have r: "r \<in> set (nodes d)" "n_work_id r = w" by (auto simp: node_key_def dest: t_getD)
    then have "w \<in> w_work_id ` set (works d)" using g by (metis imageI)
    with g r show ?thesis by (auto simp: getImportedWork_def)
  qed
  with g show ?thesis by blast
qed

theorem stored_graphs_acyclic_witness:
  "acyclic (stored_edges ''w'' sc1) \<and> get_node_row ''w'' ''n'' sc1 \<noteq> None
   \<and> map_option n_depends_on (get_node_row ''w'' ''m'' sc1) = Some [''n'']"
proof -
  have d: "map_option n_depends_on (get_node_row ''w'' ''m'' sc1) = Some [''n'']" by code_simp
  then obtain r where r: "get_node_row ''w'' ''m'' sc1 = Some r" "n_depends_on r = [''n'']" by auto
  with stored_graphs_acyclic [OF sc_reachable(1), of "''w''" "''m''" r] d show ?thesis by simp
qed

text \<open>
  Proof algebra: a stored Pool Proof result is either passed, with a commit and no
  failure code, or failed, with a failure code and no commit; it names the node and the
  routed builder of its attempt and has at least one check.
\<close>
theorem proof_results_wellformed:
  assumes "reachable d" "getProofResult k d = Some f"
  shows "(f_status f = ''passed'' \<and> f_commit_sha f \<noteq> None \<and> f_failure_code f = None
      \<or> f_status f = ''failed'' \<and> f_commit_sha f = None \<and> f_failure_code f \<noteq> None)
    \<and> f_started_at f \<le> f_finished_at f
    \<and> (\<exists>a. getAttempt k d = Some a \<and> a_node_id a = f_node_id f)
    \<and> (\<exists>b. t_get b_attempt_id k (attempt_routing_decisions d) = Some b \<and> b_builder_model b = f_builder_model f)
    \<and> getProofChecks k d \<noteq> []"
proof -
  note g = reachable_parts(8) [OF assms(1), unfolded proofs_ok_def] and k = reachable_parts(1) [OF assms(1), unfolded keys_ok_def]
  from assms(2) have f: "f \<in> set (pool_proof_results d)" "f_attempt_id f = k" by (auto simp: getProofResult_def dest: t_getD split: if_splits)
  have ne: "isNonEmptyString (Str k) (maxIdLength OL)" using assms(2) by (auto simp: getProofResult_def split: if_splits)
  from f g have "k \<in> k_attempt_id ` set (pool_proof_checks d)" by blast
  then have "getProofChecks k d \<noteq> []" by (auto simp: getProofChecks_def filter_empty_conv simp del: isNonEmptyString.simps simp: ne)
  with g k f show ?thesis by (auto simp: getAttempt_def t_unique_get_iff)
qed

theorem proof_results_wellformed_witness:
  "\<exists>f. getProofResult ''w/n/1'' (snd (recordProofResult (\<lambda>_ _. 0) sc_env sc_proof sc3)) = Some f
     \<and> f_failure_code f = Some ''tests'' \<and> f_commit_sha f = None"
proof -
  let ?d = "snd (recordProofResult (\<lambda>_ _. 0) sc_env sc_proof sc3)"
  have "reachable ?d" by (rule rtranclp.rtrancl_into_rtrancl [OF sc_reachable(3)]) (rule store_step.st_proof)
  moreover have "map_option f_failure_code (getProofResult ''w/n/1'' ?d) = Some (Some ''tests'')" by code_simp
  then obtain f where "getProofResult ''w/n/1'' ?d = Some f" "f_failure_code f = Some ''tests''" by auto
  ultimately show ?thesis using proof_results_wellformed [of ?d "''w/n/1''" f] by auto
qed

section \<open>What the operations demand and deliver\<close>

lemma no_return_to_pending: "\<not> isValidTransition s Pending"
  by (cases s) auto

text \<open>
  Optimistic concurrency on nodes: a transition succeeds exactly when the node
  exists at the expected version and the lifecycle allows the move; it then stores the
  new state at the next version, and a second writer that holds the same version fails.
\<close>
theorem transition_compare_and_swap:
  assumes "env_begin_error e = None"
  shows "(fst (transitionNode e w n v s d) = Ok r' \<longleftrightarrow>
      (\<exists>r. get_node_row w n d = Some r \<and> n_version r = v \<and> isValidTransition (n_state r) s
         \<and> r' = r\<lparr> n_state := s, n_version := v + 1 \<rparr>))
    \<and> (fst (transitionNode e w n v s d) = Ok r' \<longrightarrow>
         get_node_row w n (snd (transitionNode e w n v s d)) = Some r'
         \<and> \<not> is_ok (fst (transitionNode e w n v s' (snd (transitionNode e w n v s d)))))"
proof -
  have ok: "fst (transitionNode e w n v s d) = Ok r' \<longleftrightarrow>
      (\<exists>r. get_node_row w n d = Some r \<and> n_version r = v \<and> isValidTransition (n_state r) s
         \<and> r' = r\<lparr> n_state := s, n_version := v + 1 \<rparr>)" for s r' d
    using assms by (cases s) (auto simp: transitionNode_def split: option.splits simp: no_return_to_pending simp del: t_get_None)
  have get: "get_node_row w n (snd (transitionNode e w n v s d)) = Some r'" if k: "fst (transitionNode e w n v s d) = Ok r'"
  proof -
    from k obtain r where "get_node_row w n d = Some r" "n_version r = v" "isValidTransition (n_state r) s"
      "r' = r\<lparr> n_state := s, n_version := v + 1 \<rparr>" unfolding ok by blast
    then show ?thesis using assms k
      by (auto simp: transitionNode_def set_node_state_def t_get_update split: if_splits simp del: t_get_None)
  qed
  have "\<not> is_ok (fst (transitionNode e w n v s' d'))" if "get_node_row w n d' = Some r'" "n_version r' = v + 1" for d'
    using ok [of s' d'] that by (cases "fst (transitionNode e w n v s' d')") auto
  with ok get show ?thesis by fastforce
qed

theorem transition_compare_and_swap_witness:
  "get_node_row ''w'' ''n'' sc2 \<noteq> None \<and> \<not> is_ok (fst (transitionNode sc_env ''w'' ''n'' 1 Ready sc2))"
proof -
  have b: "env_begin_error sc_env = None" by code_simp
  have "is_ok (fst (transitionNode sc_env ''w'' ''n'' 1 Ready sc1))" by code_simp
  then obtain r where "fst (transitionNode sc_env ''w'' ''n'' 1 Ready sc1) = Ok r"
    by (cases "fst (transitionNode sc_env ''w'' ''n'' 1 Ready sc1)") auto
  with transition_compare_and_swap [OF b, of "''w''" "''n''" 1 Ready sc1 r Ready] show ?thesis
    unfolding sc2_def by simp
qed

text \<open>
  C6. Authority to report: a result that is accepted for the first time comes from the
  holder of the attempt's current, unexpired lease (same generation, digest of the
  presented token stored with the lease), matches the identity of the attempt and the
  current version of the node, and is stored together with one completion authorization.
\<close>
theorem accept_requires_live_lease:
  assumes "fst (acceptResult e v now d) = Ok ()" "getAcceptedResult (wr_attempt_id (as_result v)) d = None"
  shows "\<exists>t l a n. now = Some t \<and> getLease (wr_attempt_id (as_result v)) d = Some l \<and> t < l_expires_at l
    \<and> wr_generation (as_result v) = l_generation l \<and> env_digest e (wr_token (as_result v)) = l_token_digest l
    \<and> getAttempt (wr_attempt_id (as_result v)) d = Some a
    \<and> a_work_id a = wr_work_id (as_result v) \<and> a_node_id a = wr_node_id (as_result v)
    \<and> get_node_row (a_work_id a) (a_node_id a) d = Some n \<and> n_version n = wr_expected_node_version (as_result v)
    \<and> (\<exists>r. getAcceptedResult (wr_attempt_id (as_result v)) (snd (acceptResult e v now d)) = Some r
          \<and> resultsEqual r (as_result v) \<and> r_accepted_at r = t)
    \<and> length (listAuthorizedResults (snd (acceptResult e v now d))) = Suc (length (listAuthorizedResults d))"
proof -
  from assms obtain a n t where
    h: "validateResult v = None" "env_begin_error e = None" "get_attempt_row (wr_attempt_id (as_result v)) d = Some a"
      "a_node_id a = wr_node_id (as_result v)" "a_work_id a = wr_work_id (as_result v)"
      "get_node_row (wr_work_id (as_result v)) (wr_node_id (as_result v)) d = Some n"
      "wr_expected_node_version (as_result v) = n_version n"
      "lease_valid e (as_result v) now (get_lease_row (wr_attempt_id (as_result v)) d)" "now = Some t"
    by (auto simp: acceptResult_def Let_def begin_immediate_def fail_def getAcceptedResult_def
        split: option.splits if_splits simp del: t_get_None)
  from h(8) obtain l where l: "get_lease_row (wr_attempt_id (as_result v)) d = Some l" "t < l_expires_at l"
    "wr_generation (as_result v) = l_generation l" "env_digest e (wr_token (as_result v)) = l_token_digest l"
    by (auto simp: lease_valid_def h(9) split: option.splits simp del: t_get_None)
  show ?thesis using h l assms(2)
    by (auto simp: acceptResult_def Let_def getAcceptedResult_def getLease_def getAttempt_def listAuthorizedResults_def
        t_get_append t_get_Cons resultsEqual_def simp del: t_get_None)
qed

theorem accept_requires_live_lease_witness:
  "\<exists>l. getLease ''w/n/1'' sc5 = Some l \<and> 1500 < l_expires_at l \<and> l_token_digest l = env_digest sc_env ''tok''"
proof -
  have "fst (acceptResult sc_env sc_result (Some 1500) sc5) = Ok ()" by code_simp
  moreover have n: "wr_attempt_id (as_result sc_result) = ''w/n/1''" "wr_token (as_result sc_result) = ''tok''" by code_simp+
  moreover have "getAcceptedResult ''w/n/1'' sc5 = None" by code_simp
  ultimately show ?thesis using accept_requires_live_lease [of sc_env sc_result "Some 1500" sc5] by auto
qed

text \<open>Once accepted, a result is found under its attempt.\<close>

lemma accept_Ok_stored:
  assumes "fst (acceptResult e v now d) = Ok ()"
  shows "validateResult v = None
    \<and> (\<exists>r. t_get r_attempt_id (wr_attempt_id (as_result v)) (accepted_results (snd (acceptResult e v now d))) = Some r
         \<and> resultsEqual r (as_result v))
    \<and> (\<exists>a. a \<in> set (attempts (snd (acceptResult e v now d))) \<and> a_attempt_id a = wr_attempt_id (as_result v)
         \<and> a_node_id a = wr_node_id (as_result v) \<and> a_work_id a = wr_work_id (as_result v))"
proof -
  let ?k = "wr_attempt_id (as_result v)"
  from assms obtain a where v: "validateResult v = None" and b: "env_begin_error e = None"
    and a: "get_attempt_row ?k d = Some a" "a_node_id a = wr_node_id (as_result v)" "a_work_id a = wr_work_id (as_result v)"
    by (auto simp: acceptResult_def Let_def begin_immediate_def fail_def split: option.splits if_splits simp del: t_get_None)
  then have "a \<in> set (attempts d)" "a_attempt_id a = ?k" by (auto dest: t_getD)
  then have "\<exists>a' \<in> set (t_update a_attempt_id ?k (\<lambda>r. r\<lparr> a_state := Result_accepted \<rparr>) (attempts d)).
      a_attempt_id a' = ?k \<and> a_node_id a' = wr_node_id (as_result v) \<and> a_work_id a' = wr_work_id (as_result v)"
    using a(2,3) unfolding bex_t_update by (intro bexI [of _ a]) auto
  moreover have "\<exists>a' \<in> set (attempts d). a_attempt_id a' = ?k \<and> a_node_id a' = wr_node_id (as_result v) \<and> a_work_id a' = wr_work_id (as_result v)"
    using a(2,3) \<open>a \<in> set (attempts d)\<close> \<open>a_attempt_id a = ?k\<close> by blast
  ultimately show ?thesis using assms v b a
    by (auto simp: acceptResult_def Let_def t_get_append t_get_Cons resultsEqual_def
        split: option.splits if_splits simp del: t_get_None)
qed

text \<open>
  Reporting is idempotent: once a result was accepted, the same report is answered
  with success in every later state and changes nothing but the audit log, whatever has
  become of the lease, the node or the clock.
\<close>
theorem accept_replay_is_noop:
  assumes "reachable d" "fst (acceptResult e v now d) = Ok ()" "store_step\<^sup>*\<^sup>* (snd (acceptResult e v now d)) d2"
    "env_begin_error e2 = None"
  shows "fst (acceptResult e2 v now2 d2) = Ok ()
    \<and> (snd (acceptResult e2 v now2 d2))\<lparr> audit_log := audit_log d2 \<rparr> = d2"
proof -
  let ?k = "wr_attempt_id (as_result v)" and ?d1 = "snd (acceptResult e v now d)"
  have "reachable ?d1" by (rule rtranclp.rtrancl_into_rtrancl [OF assms(1)]) (rule store_step.st_accept)
  then have ev: "evolves ?d1 d2" and inv: "store_inv d2" using run_evolves assms(3) by blast+
  from accept_Ok_stored [OF assms(2)] obtain r a where v: "validateResult v = None"
    and r: "t_get r_attempt_id ?k (accepted_results ?d1) = Some r" "resultsEqual r (as_result v)"
    and a: "a \<in> set (attempts ?d1)" "a_attempt_id a = ?k" "a_node_id a = wr_node_id (as_result v)" "a_work_id a = wr_work_id (as_result v)"
    by blast
  have "t_get r_attempt_id ?k (accepted_results d2) = Some r"
    using ev r(1) by (auto simp: evolves_def ledgers_grow_def intro: t_get_prefix)
  moreover from ev a(1) obtain a2 where a2: "a2 \<in> set (attempts d2)" "attempt_next a a2" by (auto simp: evolves_def)
  then have "get_attempt_row ?k d2 = Some a2" using a inv
    by (auto simp: attempt_next_def store_inv_def keys_ok_def t_unique_get_iff)
  ultimately show ?thesis using v r(2) a a2(2) assms(4)
    by (simp add: acceptResult_def Let_def attempt_next_def audit_def)
qed

theorem accept_replay_is_noop_witness: "fst (acceptResult sc_env sc_result None sc7) = Ok ()"
proof -
  have "fst (acceptResult sc_env sc_result (Some 1500) sc5) = Ok ()" by code_simp
  moreover have "store_step\<^sup>*\<^sup>* (snd (acceptResult sc_env sc_result (Some 1500) sc5)) sc7"
    using sc_steps(7) by (simp add: sc6_def r_into_rtranclp)
  moreover have "env_begin_error sc_env = None" by code_simp
  ultimately show ?thesis using accept_replay_is_noop [OF sc_reachable(5)] by blast
qed

text \<open>
  Completion is spent once: after a result was completed, no later attempt to
  complete it succeeds, on any node and in any later state.
\<close>
theorem completion_spent_once:
  assumes "reachable d" "fst (completeAuthorizedResult e w n k d) = Ok r"
    "store_step\<^sup>*\<^sup>* (snd (completeAuthorizedResult e w n k d)) d2"
  shows "\<not> is_ok (fst (completeAuthorizedResult e2 w2 n2 k d2))"
proof -
  from assms(2) obtain acc where "t_get r_attempt_id k (accepted_results d) = Some acc"
    by (auto simp: completeAuthorizedResult_def begin_immediate_def split: option.splits if_splits simp del: t_get_None)
  then have "spent k (snd (completeAuthorizedResult e w n k d))" using assms(2)
    by (auto simp: spent_def completeAuthorizedResult_def begin_immediate_def t_get_image split: option.splits if_splits simp del: t_get_None)
  from spent_run [OF assms(3) this] have "t_get c_attempt_id k (completion_authorizations d2) = None"
    by (simp add: spent_def)
  then show ?thesis by (simp add: completeAuthorizedResult_def begin_immediate_def split: option.splits del: t_get_None)
qed

theorem completion_spent_once_witness: "\<not> is_ok (fst (completeAuthorizedResult sc_env ''w'' ''n'' ''w/n/1'' sc7))"
proof -
  have "is_ok (fst (completeAuthorizedResult sc_env ''w'' ''n'' ''w/n/1'' sc6))" by code_simp
  then obtain r where "fst (completeAuthorizedResult sc_env ''w'' ''n'' ''w/n/1'' sc6) = Ok r"
    by (cases "fst (completeAuthorizedResult sc_env ''w'' ''n'' ''w/n/1'' sc6)") auto
  from completion_spent_once [OF sc_reachable(6) this] show ?thesis by (simp add: sc7_def)
qed

text \<open>
  Exclusive claims: a claim succeeds only on an attempt without a lease; it issues
  the next generation and stores the digest of the token, not the token; every further
  claim on the attempt is refused with a lease conflict until the lease is dropped.
\<close>
theorem claim_is_exclusive:
  assumes "fst (claimLease e c ex is d) = Ok (g, tok)"
  shows "\<exists>k a l. k = js_str (fld c ''attempt_id'') \<and> getLease k d = None \<and> getAttempt k d = Some a
    \<and> g = a_lease_generation a + 1 \<and> tok = env_token e
    \<and> getLease k (snd (claimLease e c ex is d)) = Some l \<and> l_generation l = g
    \<and> l_owner l = js_str (fld c ''owner'') \<and> l_token_digest l = env_digest e tok
    \<and> (\<forall>e2 ex2 is2 c2. env_begin_error e2 = None \<longrightarrow> validateLeaseCommand c2 = None \<longrightarrow> js_str (fld c2 ''attempt_id'') = k \<longrightarrow>
         claimLease e2 c2 ex2 is2 (snd (claimLease e c ex is d))
           = (Err LEASE_CONFLICT ''lease already exists'', snd (claimLease e c ex is d)))"
proof -
  let ?k = "js_str (fld c ''attempt_id'')" and ?d' = "snd (claimLease e c ex is d)"
  from assms obtain a i x where v: "validateLeaseCommand c = None" and b: "env_begin_error e = None"
    and a: "get_attempt_row ?k d = Some a" and n: "get_lease_row ?k d = None" and t: "is = Some i" "ex = Some x"
    by (auto simp: claimLease_def Let_def begin_immediate_def fail_def split: option.splits if_splits simp del: t_get_None)
  from assms a n have g: "g = a_lease_generation a + 1" "tok = env_token e"
    by (auto simp: claimLease_def Let_def v b t simp del: t_get_None)
  have le: "get_lease_row ?k ?d' = Some \<lparr> l_attempt_id = ?k, l_generation = g, l_owner = js_str (fld c ''owner''),
      l_token_digest = env_digest e tok, l_issued_at = i, l_expires_at = x \<rparr>"
    using a n g by (simp add: claimLease_def Let_def v b t t_get_append t_get_Cons del: t_get_None)
  have at: "get_attempt_row ?k ?d' \<noteq> None"
    using a n by (simp add: claimLease_def Let_def v b t t_get_update del: t_get_None)
  have "claimLease e2 c2 ex2 is2 ?d' = (Err LEASE_CONFLICT ''lease already exists'', ?d')"
    if "env_begin_error e2 = None" "validateLeaseCommand c2 = None" "js_str (fld c2 ''attempt_id'') = ?k" for e2 c2 ex2 is2
    using that le at by (auto simp: claimLease_def [of e2] Let_def split: option.splits simp del: t_get_None)
  then show ?thesis using n a g le by (auto simp: getLease_def getAttempt_def simp del: t_get_None)
qed

theorem claim_is_exclusive_witness: "fst (claimLease sc_env sc_claim (Some 9) (Some 8) sc4) = Err LEASE_CONFLICT ''lease already exists''"
proof -
  have "fst (claimLease sc_env sc_claim (Some 2000) (Some 1000) sc3) = Ok (1, ''tok'')" by code_simp
  moreover have "env_begin_error sc_env = None" "validateLeaseCommand sc_claim = None" by code_simp+
  ultimately show ?thesis using claim_is_exclusive [of sc_env sc_claim "Some 2000" "Some 1000" sc3 1 "''tok''"]
    by (auto simp: sc4_def)
qed

text \<open>
  A lease is renewed or released only by its owner presenting the token: both
  operations fail, and change nothing, for another owner or a token with another digest.
\<close>
theorem lease_commands_need_owner_and_token:
  assumes "getLease (js_str (fld c ''attempt_id'')) d = Some l"
    "js_str (fld c ''owner'') \<noteq> l_owner l \<or> env_digest e (js_str (fld c ''token'')) \<noteq> l_token_digest l"
  shows "\<not> is_ok (fst (renewLease e c ex now d)) \<and> snd (renewLease e c ex now d) = d
    \<and> \<not> is_ok (fst (releaseLease e c now d)) \<and> snd (releaseLease e c now d) = d"
  using assms
  by (auto simp: renewLease_def releaseLease_def Let_def begin_immediate_def fail_def getLease_def
      split: option.splits js.splits simp del: t_get_None)

theorem lease_commands_need_owner_and_token_witness:
  "\<not> is_ok (fst (releaseLease (sc_env\<lparr> env_digest := (\<lambda>_. ''forged'') \<rparr>) sc_release None sc4))"
proof -
  have "map_option l_token_digest (getLease (js_str (fld sc_release ''attempt_id'')) sc4) = Some ''#tok''" by code_simp
  then obtain l where "getLease (js_str (fld sc_release ''attempt_id'')) sc4 = Some l" "l_token_digest l = ''#tok''" by auto
  with lease_commands_need_owner_and_token [of sc_release sc4 l "sc_env\<lparr> env_digest := (\<lambda>_. ''forged'') \<rparr>"] show ?thesis by simp
qed

text \<open>
  Releasing a lease reopens its attempt whatever state the attempt has reached:
  after a result was accepted, and even after it was completed, the holder's release
  succeeds, sets the attempt back to created and puts it on the reconciliation list again.
\<close>
theorem release_reopens_attempt:
  assumes "env_begin_error e = None" "validateLeaseCommand c = None" "fld c ''token'' = Str tok"
    "getLease (js_str (fld c ''attempt_id'')) d = Some l" "l_owner l = js_str (fld c ''owner'')"
    "l_token_digest l = env_digest e tok" "getAttempt (js_str (fld c ''attempt_id'')) d = Some a"
  shows "fst (releaseLease e c now d) = Ok ()
    \<and> (\<exists>a'. getAttempt (js_str (fld c ''attempt_id'')) (snd (releaseLease e c now d)) = Some a' \<and> a_state a' = Created
         \<and> a' \<in> set (listAttemptsNeedingReconciliation t (snd (releaseLease e c now d))))"
proof -
  let ?k = "js_str (fld c ''attempt_id'')" and ?d' = "snd (releaseLease e c now d)"
  have d': "attempts ?d' = t_update a_attempt_id ?k (\<lambda>r. r\<lparr> a_state := Created \<rparr>) (attempts d)"
    and ok: "fst (releaseLease e c now d) = Ok ()"
    using assms by (simp_all add: releaseLease_def Let_def getLease_def del: t_get_None)
  have g: "t_get a_attempt_id ?k (attempts ?d') = Some (a\<lparr> a_state := Created \<rparr>)"
    unfolding d' using assms(7) by (simp add: t_get_update getAttempt_def)
  with t_getD [OF g] show ?thesis using ok by (simp add: getAttempt_def listAttemptsNeedingReconciliation_def)
qed

theorem release_reopens_attempt_witness:
  "map_option a_state (getAttempt ''w/n/1'' sc7) = Some Completed \<and>
   map_option a_state (getAttempt ''w/n/1'' (snd (releaseLease sc_env sc_release (Some 9) sc7))) = Some Created"
proof -
  have c: "map_option a_state (getAttempt ''w/n/1'' sc7) = Some Completed" by code_simp
  have l: "map_option (\<lambda>l. (l_owner l, l_token_digest l)) (getLease ''w/n/1'' sc7) = Some (''o'', ''#tok'')" by code_simp
  have "env_begin_error sc_env = None" "validateLeaseCommand sc_release = None" "fld sc_release ''token'' = Str ''tok''"
    and k: "js_str (fld sc_release ''attempt_id'') = ''w/n/1''" "js_str (fld sc_release ''owner'') = ''o''"
    and "env_digest sc_env ''tok'' = ''#tok''" by code_simp+
  with c l release_reopens_attempt [of sc_env sc_release "''tok''" sc7 _ _ "Some 9"] show ?thesis by fastforce
qed

lemma approved_of_new_row: "approved_of_row (new_node_row wid n) = n"
  by (cases n) (simp add: approved_of_row_def new_node_row_def)

lemma import_Ok_stored:
  assumes "reachable d" "fst (importApprovedWork e v d) = Ok iw" "get_work_row (aw_work_id (as_work v)) d = None"
  shows "get_work_row (aw_work_id (as_work v)) (snd (importApprovedWork e v d)) = Some (new_work_row e (as_work v))
    \<and> (\<forall>n \<in> set (aw_nodes (as_work v)).
         get_node_row (aw_work_id (as_work v)) (an_id n) (snd (importApprovedWork e v d)) = Some (new_node_row (aw_work_id (as_work v)) n))"
proof -
  let ?w = "as_work v" and ?d' = "snd (importApprovedWork e v d)"
  from assms(2,3) obtain d1 where v: "validateWork v = None" and b: "env_begin_error e = None"
    and i: "insert_nodes (aw_work_id ?w) (aw_nodes ?w) (d\<lparr> works := works d @ [new_work_row e ?w] \<rparr>) = Inr d1"
    by (auto simp: importApprovedWork_def Let_def begin_immediate_def fail_def split: option.splits sum.splits simp del: t_get_None)
  from insert_nodes_Inr [OF i] have d1: "works d1 = works d @ [new_work_row e ?w]"
    "nodes d1 = nodes d @ map (new_node_row (aw_work_id ?w)) (aw_nodes ?w)" by auto
  have d': "works ?d' = works d1" "nodes ?d' = nodes d1"
    using v b i assms(3) by (simp_all add: importApprovedWork_def Let_def del: t_get_None)
  have "reachable ?d'" by (rule rtranclp.rtrancl_into_rtrancl [OF assms(1)]) (rule store_step.st_import)
  then have k: "t_unique w_work_id (works ?d')" "t_unique node_key (nodes ?d')"
    using reachable_parts(1) by (auto simp: keys_ok_def)
  have "new_node_row (aw_work_id ?w) n \<in> set (nodes ?d')" if "n \<in> set (aw_nodes ?w)" for n using that d' d1 by auto
  with k d' d1 show ?thesis by (auto simp: t_unique_get_iff)
qed

text \<open>
  Import round trip: a work that is imported is stored with its canonical digest,
  and every approved node is read back exactly as it was approved, pending, at version 1.
\<close>
theorem import_round_trip:
  assumes "reachable d" "fst (importApprovedWork e v d) = Ok iw" "getWork (aw_work_id (as_work v)) d = None"
    "n \<in> set (aw_nodes (as_work v))"
  shows "getApprovedNode (aw_work_id (as_work v)) (an_id n) (snd (importApprovedWork e v d)) = Some n
    \<and> getWork (aw_work_id (as_work v)) (snd (importApprovedWork e v d)) = Some (aw_repo (as_work v), aw_branch (as_work v))
    \<and> (\<exists>r. get_node_row (aw_work_id (as_work v)) (an_id n) (snd (importApprovedWork e v d)) = Some r
         \<and> n_state r = Pending \<and> n_version r = 1)"
proof -
  from assms(3) have "get_work_row (aw_work_id (as_work v)) d = None" by (simp add: getWork_def del: t_get_None)
  from import_Ok_stored [OF assms(1,2) this] assms(4) show ?thesis
    by (auto simp: getApprovedNode_def getWork_def approved_of_new_row new_work_row_def)
qed

theorem import_round_trip_witness: "getWork ''w'' sc1 = Some (''r'', ''b'') \<and> getApprovedNode ''w'' ''n'' sc1 \<noteq> None"
proof -
  have "map_option (\<lambda>_. ()) (find (\<lambda>n. an_id n = ''n'') (aw_nodes (as_work sc_work))) = Some ()" by code_simp
  then obtain n where n: "n \<in> set (aw_nodes (as_work sc_work))" "an_id n = ''n''" by (auto dest: find_SomeD)
  have "is_ok (fst (importApprovedWork sc_env sc_work empty_db))" by code_simp
  then obtain iw where "fst (importApprovedWork sc_env sc_work empty_db) = Ok iw"
    by (cases "fst (importApprovedWork sc_env sc_work empty_db)") auto
  moreover have "getWork (aw_work_id (as_work sc_work)) empty_db = None" by code_simp
  moreover have "aw_work_id (as_work sc_work) = ''w''" "aw_repo (as_work sc_work) = ''r''" "aw_branch (as_work sc_work) = ''b''"
    by code_simp+
  ultimately show ?thesis using import_round_trip [OF rtranclp.rtrancl_refl, of sc_env sc_work iw n] n
    by (auto simp: sc1_def)
qed

text \<open>
  C11. Import is idempotent by content: in every later state the same work is accepted
  again without any change, and a work with the same id and another canonical digest is
  refused as conflicting.
\<close>
theorem import_idempotent:
  assumes "reachable d" "fst (importApprovedWork e v d) = Ok iw" "getWork (aw_work_id (as_work v)) d = None"
    "store_step\<^sup>*\<^sup>* (snd (importApprovedWork e v d)) d2"
    "validateWork v2 = None" "aw_work_id (as_work v2) = aw_work_id (as_work v)" "env_digest e2 = env_digest e"
  shows "importApprovedWork e2 v2 d2 =
    (if canonicalWorkHash (env_digest e) (as_work v2) = canonicalWorkHash (env_digest e) (as_work v)
     then (Ok iw, d2) else (Err CONFLICTING_WORK ''work_id already imported with different content'', d2))"
proof -
  let ?d1 = "snd (importApprovedWork e v d)"
  from assms(3) have n: "get_work_row (aw_work_id (as_work v)) d = None" by (simp add: getWork_def del: t_get_None)
  from import_Ok_stored [OF assms(1,2) n] have w: "new_work_row e (as_work v) \<in> set (works ?d1)" by (auto dest: t_getD)
  have iw: "iw = \<lparr> iw_work_id = aw_work_id (as_work v), iw_version = 1 \<rparr>"
    using assms(2) n by (auto simp: importApprovedWork_def Let_def begin_immediate_def fail_def
        split: option.splits sum.splits simp del: t_get_None)
  have r1: "reachable ?d1" by (rule rtranclp.rtrancl_into_rtrancl [OF assms(1)]) (rule store_step.st_import)
  from run_evolves [OF this assms(4)] have p: "prefix (map work_content (works ?d1)) (map work_content (works d2))"
    and k: "t_unique w_work_id (works d2)" by (auto simp: evolves_def ledgers_grow_def store_inv_def keys_ok_def)
  have "work_content ` set (works ?d1) \<subseteq> work_content ` set (works d2)" using set_mono_prefix [OF p] by simp
  with w have "work_content (new_work_row e (as_work v)) \<in> work_content ` set (works d2)" by blast
  then obtain w2 where "w2 \<in> set (works d2)" "work_content w2 = work_content (new_work_row e (as_work v))" by auto
  with k have "get_work_row (aw_work_id (as_work v)) d2 = Some w2"
    "w_payload_hash w2 = canonicalWorkHash (env_digest e) (as_work v)"
    by (auto simp: work_content_def t_unique_get_iff new_work_row_def)
  with assms(5-7) iw show ?thesis by (simp add: importApprovedWork_def Let_def)
qed

theorem import_idempotent_witness: "importApprovedWork sc_env sc_work sc7 = (fst (importApprovedWork sc_env sc_work empty_db), sc7)"
proof -
  have "is_ok (fst (importApprovedWork sc_env sc_work empty_db))" by code_simp
  then obtain iw where iw: "fst (importApprovedWork sc_env sc_work empty_db) = Ok iw"
    by (cases "fst (importApprovedWork sc_env sc_work empty_db)") auto
  have n: "getWork (aw_work_id (as_work sc_work)) empty_db = None" and v: "validateWork sc_work = None" by code_simp+
  have "store_step\<^sup>*\<^sup>* sc1 sc7" using sc_steps(2-7) by (meson converse_rtranclp_into_rtranclp rtranclp.rtrancl_refl)
  then have "store_step\<^sup>*\<^sup>* (snd (importApprovedWork sc_env sc_work empty_db)) sc7" by (simp add: sc1_def)
  from import_idempotent [OF rtranclp.rtrancl_refl iw n this v] iw show ?thesis by simp
qed

lemma direct_Ok_stored:
  assumes "fst (importDirectTask e inp d) = Ok (Imported w s)" "di_scope_key inp = Some k"
  shows "w = aw_work_id (as_work (di_work inp)) \<and> s = di_submission_id inp
    \<and> (\<exists>i t. t_get i_scope_key k (direct_task_idempotency (snd (importDirectTask e inp d))) = Some i
       \<and> i_submission_id i = s \<and> i_caller_id i = di_caller_id inp \<and> i_payload_hash i = di_payload_hash inp
       \<and> t_get t_submission_id s (direct_task_submissions (snd (importDirectTask e inp d))) = Some t
       \<and> t_work_id t = w \<and> t_acceptance_json t = di_acceptance_json inp)"
proof -
  from assms obtain d1 where v: "validate_direct_task inp = None" and b: "env_begin_error e = None"
    and f: "find_idempotency k d = None" and g: "get_work_row (aw_work_id (as_work (di_work inp))) d = None"
    and n: "t_get t_submission_id (di_submission_id inp) (direct_task_submissions d) = None"
    and i: "insert_direct_task e inp d = Inr d1"
    by (auto simp: importDirectTask_def Let_def begin_immediate_typed_def fail_def split: option.splits sum.splits if_splits simp del: t_get_None)
  have ws: "w = aw_work_id (as_work (di_work inp))" "s = di_submission_id inp"
    and d': "snd (importDirectTask e inp d) = audit e ''direct_task_imported'' [(''origin'', JStr ''direct_task'')]
       (Some (aw_work_id (as_work (di_work inp)))) None None d1"
    using assms v b f g n i by (simp_all add: importDirectTask_def Let_def del: t_get_None)
  show ?thesis using i assms(2) n unfolding d' ws
    by (auto simp: insert_direct_task_def Let_def insert_unique_Some t_get_append t_get_Cons split: option.splits simp del: t_get_None)
qed

text \<open>The record of a scope key and its submission are found in every later state.\<close>

lemma direct_stays_found:
  assumes "reachable d" "fst (importDirectTask e inp d) = Ok (Imported w s)" "di_scope_key inp = Some k"
    "store_step\<^sup>*\<^sup>* (snd (importDirectTask e inp d)) d2"
  shows "find_idempotency k d2 = Some \<lparr> ir_scope_key = k, ir_caller_id = di_caller_id inp,
      ir_payload_hash = di_payload_hash inp, ir_submission_id = s, ir_work_id = w, ir_acceptance_json = di_acceptance_json inp \<rparr>"
proof -
  from direct_Ok_stored [OF assms(2,3)] obtain i t where
    i: "t_get i_scope_key k (direct_task_idempotency (snd (importDirectTask e inp d))) = Some i"
      "i_submission_id i = s" "i_caller_id i = di_caller_id inp" "i_payload_hash i = di_payload_hash inp"
    and t: "t_get t_submission_id s (direct_task_submissions (snd (importDirectTask e inp d))) = Some t"
      "t_work_id t = w" "t_acceptance_json t = di_acceptance_json inp" by blast
  have "reachable (snd (importDirectTask e inp d))"
    by (rule rtranclp.rtrancl_into_rtrancl [OF assms(1)]) (rule store_step.st_direct)
  from run_evolves [OF this assms(4)] have "t_get i_scope_key k (direct_task_idempotency d2) = Some i"
    "t_get t_submission_id s (direct_task_submissions d2) = Some t"
    using i(1) t(1) by (auto simp: evolves_def ledgers_grow_def intro: t_get_prefix)
  then show ?thesis using i t t_get_key [of i_scope_key k] by (auto simp: find_idempotency_def)
qed

text \<open>
  Submission idempotency: once a direct task was imported under a scope key, every
  later import under the same key answers from the stored submission and changes
  nothing: the same caller and payload get the original work and submission ids back,
  another payload is refused as a key mismatch, another caller is refused.
\<close>
theorem direct_import_idempotent:
  assumes "reachable d" "fst (importDirectTask e inp d) = Ok (Imported w s)" "di_scope_key inp = Some k"
    "store_step\<^sup>*\<^sup>* (snd (importDirectTask e inp d)) d2"
    "env_begin_error e2 = None" "validate_direct_task inp2 = None" "di_scope_key inp2 = Some k"
  shows "importDirectTask e2 inp2 d2 =
    (if di_caller_id inp2 \<noteq> di_caller_id inp then (Err INVALID_WORK ''idempotency scope caller mismatch'', d2)
     else if di_payload_hash inp2 \<noteq> di_payload_hash inp
     then (Err IDEMPOTENCY_KEY_PAYLOAD_MISMATCH ''this idempotency key was already used with a different payload'', d2)
     else (Ok (Replayed w s (di_acceptance_json inp)), d2))"
  using direct_stays_found [OF assms(1-4)] assms(5-7) by (auto simp: importDirectTask_def)

theorem direct_import_idempotent_witness:
  "let d = snd (importDirectTask sc_env (sc_direct ''alice'') sc7) in
   importDirectTask sc_env (sc_direct ''alice'') d = (Ok (Replayed ''dw'' ''s1'' ''{}''), d)
   \<and> \<not> is_ok (fst (importDirectTask sc_env (sc_direct ''bob'') d))"
proof -
  have o: "fst (importDirectTask sc_env (sc_direct ''alice'') sc7) = Ok (Imported ''dw'' ''s1'')" by code_simp
  have "env_begin_error sc_env = None" "validate_direct_task (sc_direct ''alice'') = None" "validate_direct_task (sc_direct ''bob'') = None"
    by code_simp+
  then show ?thesis
    using direct_import_idempotent [OF sc_reachable(7) o _ rtranclp.rtrancl_refl, of "''key''" sc_env "sc_direct ''alice''"]
      direct_import_idempotent [OF sc_reachable(7) o _ rtranclp.rtrancl_refl, of "''key''" sc_env "sc_direct ''bob''"]
    by (simp add: Let_def sc_direct_def)
qed

end
