(* ===== verification/Attempt_Contract.thy ===== *)
theory Attempt_Contract
  imports Store_Schema
begin

text \<open>
  The unit boundary of Agent Execution: typed failures (\<^verbatim>\<open>agent-execution/contracts.ts\<close>),
  the sweep that keeps DAG structure away from a worker
  (\<^verbatim>\<open>agent-execution/dag-exclusion.ts\<close>) and the validation of the one attempt contract a
  worker executes (\<^verbatim>\<open>agent-execution/attempt-contract.ts\<close>).

  The values are trees, so the set of visited objects of \<^verbatim>\<open>findDagTopology\<close>, which only
  stops a second visit of a shared or cyclic object, never changes its answer and is left out.
\<close>

section \<open>Failures\<close>

record execution_failure =
  ef_code :: string
  ef_reason :: string
  ef_detail :: "string option"

definition FAILURE_REASONS :: "(string \<times> string) list" where
  "FAILURE_REASONS = [
  (''CONTEXT_NOT_AN_OBJECT'', ''Execution context must be an object''),
  (''CONTEXT_UNKNOWN_FIELD'', ''Execution context contains an unknown field''),
  (''CONTEXT_MISSING_FIELD'', ''Execution context is missing a required field''),
  (''CONTEXT_INVALID_FIELD'', ''Execution context field failed validation''),
  (''CONTEXT_VERSION_UNSUPPORTED'', ''Execution context schema version is not supported''),
  (''CONTEXT_UNTRUSTED_ISSUER'', ''Execution context was not issued by the supervisor''),
  (''CONTEXT_IDENTITY_MISMATCH'', ''Execution context identity does not match launcher expectations''),
  (''CONTEXT_TARGET_MISMATCH'', ''Execution context target does not match launcher expectations''),
  (''CONTEXT_WORKSPACE_MISMATCH'', ''Execution context workspace does not match launcher expectations''),
  (''CONTEXT_FRESHNESS_CEILING_EXCEEDED'', ''Execution context freshness budget exceeds the specification ceiling''),
  (''CONTEXT_EXPIRY_INCOHERENT'', ''Execution context expiry is not coherent with its issue time and budget''),
  (''CONTEXT_NOT_YET_VALID'', ''Execution context is issued too far in the future''),
  (''CONTEXT_STALE'', ''Execution context is stale''),
  (''CONTEXT_REPLAYED'', ''Execution context nonce has already been consumed''),
  (''CONTEXT_CARRIES_DAG_TOPOLOGY'', ''Execution context must not carry DAG topology''),
  (''CONTEXT_PI_RUNTIME_MISMATCH'', ''Execution context Pi runtime parent does not match launcher expectations''),
  (''CONTEXT_PI_SESSION_MISMATCH'', ''Execution context Pi session directory does not match launcher expectations''),
  (''CONTEXT_PI_EXECUTABLE_MISMATCH'', ''Execution context Pi executable identity does not match launcher expectations''),
  (''CONTEXT_PACKAGE_MISMATCH'', ''Execution context Worker package identity does not match launcher expectations''),
  (''CONTEXT_PROFILE_MISMATCH'', ''Execution context Worker profile identity does not match launcher expectations''),
  (''CONTEXT_MODEL_MISMATCH'', ''Execution context selected model does not match launcher expectations''),
  (''CONTEXT_TOOL_GRANT_MISMATCH'', ''Execution context tool grants do not match launcher expectations''),
  (''CONTEXT_RESULT_DESTINATION_MISMATCH'', ''Execution context result destination does not match launcher expectations''),
  (''CONTRACT_NOT_AN_OBJECT'', ''Attempt contract must be an object''),
  (''CONTRACT_UNKNOWN_FIELD'', ''Attempt contract contains an unknown field''),
  (''CONTRACT_MISSING_FIELD'', ''Attempt contract is missing a required field''),
  (''CONTRACT_INVALID_FIELD'', ''Attempt contract field failed validation''),
  (''CONTRACT_VERSION_UNSUPPORTED'', ''Attempt contract schema version is not supported''),
  (''CONTRACT_IDENTITY_MISMATCH'', ''Attempt contract identity does not match the execution context''),
  (''CONTRACT_TARGET_MISMATCH'', ''Attempt contract target does not match the execution context''),
  (''CONTRACT_CARRIES_DAG_TOPOLOGY'', ''Attempt contract must not carry DAG topology''),
  (''CONTRACT_NOT_EXACTLY_ONE'', ''Exactly one attempt contract must be supplied''),
  (''UNKNOWN_PHASE'', ''Unknown CRAFTS phase''),
  (''CAPABILITY_DENIED'', ''Phase does not hold the requested capability''),
  (''WRITE_PATH_OUT_OF_SCOPE'', ''Write target is outside the phase write scope''),
  (''FALLBACK_MODEL_UNAPPROVED'', ''Fallback model is outside the approved scope''),
  (''FALLBACK_ATTEMPT_MISMATCH'', ''Fallback must remain within the same attempt''),
  (''FALLBACK_CHAIN_EXHAUSTED'', ''Backend fallback chain is exhausted''),
  (''FALLBACK_CHAIN_LIMIT'', ''Backend fallback chain exceeds the per-attempt limit''),
  (''FALLBACK_LEDGER_SEALED'', ''Backend fallback ledger is already sealed''),
  (''FALLBACK_COST_INVALID'', ''Consumed cost must be a non-negative finite number''),
  (''FALLBACK_OUTCOME_INVALID'', ''Fallback outcome must be succeeded or failed''),
  (''TRANSCRIPT_STEP_OUT_OF_ORDER'', ''Transcript retention steps must run in the specified order''),
  (''TRANSCRIPT_NOT_REDACTED'', ''Transcript must be redacted before it is hashed and persisted''),
  (''TRANSCRIPT_PERSIST_FAILED'', ''Durable transcript persistence failed''),
  (''TRANSCRIPT_VERIFY_FAILED'', ''Durable transcript object failed verification''),
  (''TRANSCRIPT_INDEX_FAILED'', ''Transcript audit index commit failed''),
  (''TRANSCRIPT_PATH_NOT_WORKSPACE_RELATIVE'', ''transcript_path must be a workspace-relative locator''),
  (''CLEANUP_BLOCKED_PENDING_EXTRACTION'', ''Workspace cleanup is blocked until transcript extraction resolves''),
  (''POOL_PROOF_MODEL_UNAPPROVED'', ''Selected builder model is not in the approved registry''),
  (''POOL_PROOF_LAUNCHER_MISMATCH'', ''Launcher expectation binding failed''),
  (''POOL_PROOF_FAKE_ADAPTER_REJECTED'', ''Production proof entry point rejected a fake adapter'')]"

definition createExecutionFailure :: "string \<Rightarrow> string option \<Rightarrow> execution_failure" where
  "createExecutionFailure code detail =
     \<lparr> ef_code = code,
       ef_reason = (case map_of FAILURE_REASONS code of Some r \<Rightarrow> r | None \<Rightarrow> ''Agent execution failure''),
       ef_detail = detail \<rparr>"

section \<open>DAG exclusion\<close>

definition DAG_TOPOLOGY_KEYS :: "string list" where
  "DAG_TOPOLOGY_KEYS = [''depends_on'', ''dependson'', ''dependencies'', ''dag'', ''dag_id'', ''nodes'', ''edges'',
     ''ready_frontier'', ''frontier'', ''downstream'', ''upstream'', ''successors'', ''predecessors'', ''topology'',
     ''graph'', ''sibling_nodes'', ''node_graph'']"

text \<open>\<^verbatim>\<open>toLowerCase\<close> on the modelled code units: ASCII and Latin-1 capitals.\<close>

definition lower_char :: "char \<Rightarrow> char" where
  "lower_char c = (let n = of_char c :: nat in
     if (65 \<le> n \<and> n \<le> 90) \<or> (192 \<le> n \<and> n \<le> 222 \<and> n \<noteq> 215) then char_of (n + 32) else c)"

definition toLowerCase :: "string \<Rightarrow> string" where
  "toLowerCase s = map lower_char s"

fun findDagTopology :: "js \<Rightarrow> string \<Rightarrow> string option"
  and find_in_items :: "js list \<Rightarrow> string \<Rightarrow> nat \<Rightarrow> string option"
  and find_in_fields :: "(string \<times> js) list \<Rightarrow> string \<Rightarrow> string option" where
  "findDagTopology (Arr xs) path = find_in_items xs path 0"
| "findDagTopology (Obj p fs) path = find_in_fields fs path"
| "findDagTopology _ path = None"
| "find_in_items [] path i = None"
| "find_in_items (x # xs) path i =
     or_else (findDagTopology x (path @ ''['' @ nat_str i @ '']'')) (find_in_items xs path (Suc i))"
| "find_in_fields [] path = None"
| "find_in_fields ((key, child) # fs) path =
     (if toLowerCase key \<in> set DAG_TOPOLOGY_KEYS then Some (path @ ''.'' @ key)
      else or_else (findDagTopology child (path @ ''.'' @ key)) (find_in_fields fs path))"

section \<open>Attempt contracts\<close>

definition REQUIRED_FIELDS :: "string list" where
  "REQUIRED_FIELDS = [''schema_version'', ''node_id'', ''attempt_id'', ''attempt_number'', ''intent'', ''change_spec'',
     ''acceptance_criteria'', ''criteria_origin'', ''target_repo'', ''target_branch'', ''prior_failure_context'']"

fun isNonBlankString :: "js \<Rightarrow> bool" where
  "isNonBlankString (Str s) = (trim s \<noteq> [])"
| "isNonBlankString _ = False"

fun is_string :: "js \<Rightarrow> bool" where
  "is_string (Str _) = True"
| "is_string _ = False"

definition isStringArray :: "js \<Rightarrow> bool" where
  "isStringArray v = (is_array v \<and> list_all is_string (items v))"

type_synonym exec_error = "string \<times> string option"

abbreviation invalid_field :: "string \<Rightarrow> exec_error" where
  "invalid_field f \<equiv> (''CONTRACT_INVALID_FIELD'', Some f)"

fun check_criteria :: "string list \<Rightarrow> js list \<Rightarrow> exec_error option" where
  "check_criteria seen [] = None"
| "check_criteria seen (c # cs) =
     (if \<not> is_object c then Some (invalid_field ''acceptance_criteria'')
      else if length (Object_keys c) \<noteq> 2 \<or> \<not> isNonBlankString (fld c ''id'') \<or> \<not> isNonBlankString (fld c ''text'')
      then Some (invalid_field ''acceptance_criteria'')
      else if js_str (fld c ''id'') \<in> set seen then Some (invalid_field ''acceptance_criteria'')
      else check_criteria (js_str (fld c ''id'') # seen) cs)"

definition validateCriteria :: "js \<Rightarrow> exec_error option" where
  "validateCriteria v =
     (if \<not> is_array v \<or> items v = [] then Some (invalid_field ''acceptance_criteria'') else check_criteria [] (items v))"

definition prior_failure_keys :: "string list" where
  "prior_failure_keys = [''attempt_id'', ''phase'', ''attempted'', ''failure_reason'', ''discoveries'', ''dead_ends'']"

definition check_prior_entry :: "js \<Rightarrow> exec_error option" where
  "check_prior_entry v =
     (if \<not> is_object v then Some (invalid_field ''prior_failure_context'')
      else case unknown_key v prior_failure_keys of
        Some key \<Rightarrow> Some (''CONTRACT_UNKNOWN_FIELD'', Some (''prior_failure_context.'' @ key))
      | None \<Rightarrow>
          if \<not> isNonBlankString (fld v ''attempt_id'') \<or> fld v ''phase'' \<notin> set (map Str [''C'', ''R'', ''A'', ''F'', ''T'', ''S''])
             \<or> \<not> isStringArray (fld v ''attempted'') \<or> \<not> is_string (fld v ''failure_reason'')
             \<or> \<not> isStringArray (fld v ''discoveries'') \<or> \<not> isStringArray (fld v ''dead_ends'')
          then Some (invalid_field ''prior_failure_context'') else None)"

definition validatePriorFailureContext :: "js \<Rightarrow> exec_error option" where
  "validatePriorFailureContext v =
     (if \<not> is_array v then Some (invalid_field ''prior_failure_context'') else first_some check_prior_entry (items v))"

record contract_expectations =
  xe_node_id :: string
  xe_attempt_id :: string
  xe_target_repo :: string
  xe_target_branch :: string

definition bad_criteria_origin :: "js \<Rightarrow> bool" where
  "bad_criteria_origin v = (\<not> is_object v \<or> length (Object_keys v) \<noteq> 2
     \<or> fld v ''source'' \<notin> {Str ''decomposition'', Str ''direct_task''} \<or> \<not> isNonBlankString (fld v ''source_id''))"

definition contract_error :: "js \<Rightarrow> contract_expectations \<Rightarrow> exec_error option" where
  "contract_error v x =
     (if \<not> is_object v then Some (''CONTRACT_NOT_AN_OBJECT'', None)
      else case unknown_key v REQUIRED_FIELDS of
        Some key \<Rightarrow> Some (''CONTRACT_UNKNOWN_FIELD'', Some key)
      | None \<Rightarrow>
          or_else (first_some (\<lambda>key. if hasOwnField v key then None else Some (''CONTRACT_MISSING_FIELD'', Some key)) REQUIRED_FIELDS)
         (or_else (if fld v ''schema_version'' \<noteq> Num (Fin 1) then Some (''CONTRACT_VERSION_UNSUPPORTED'', None) else None)
         (or_else (first_some (\<lambda>key. if isNonBlankString (fld v key) then None else Some (invalid_field key))
                     [''node_id'', ''attempt_id'', ''intent'', ''change_spec'', ''target_repo'', ''target_branch''])
         (or_else (if \<not> isPositiveInteger (fld v ''attempt_number'') then Some (invalid_field ''attempt_number'') else None)
         (or_else (validateCriteria (fld v ''acceptance_criteria''))
         (or_else (if bad_criteria_origin (fld v ''criteria_origin'') then Some (invalid_field ''criteria_origin'') else None)
         (or_else (validatePriorFailureContext (fld v ''prior_failure_context''))
         (or_else (map_option (\<lambda>path. (''CONTRACT_CARRIES_DAG_TOPOLOGY'', Some path)) (findDagTopology v ''attempt-contract''))
         (or_else (if fld v ''node_id'' \<noteq> Str (xe_node_id x) \<or> fld v ''attempt_id'' \<noteq> Str (xe_attempt_id x)
                   then Some (''CONTRACT_IDENTITY_MISMATCH'', None) else None)
                  (if fld v ''target_repo'' \<noteq> Str (xe_target_repo x) \<or> fld v ''target_branch'' \<noteq> Str (xe_target_branch x)
                   then Some (''CONTRACT_TARGET_MISMATCH'', None) else None))))))))))"

text \<open>A valid contract with the ids of its criteria.\<close>

record validated_contract =
  vc_contract :: js
  vc_criteria_ids :: "string list"

definition validateOne :: "js \<Rightarrow> contract_expectations \<Rightarrow> execution_failure + validated_contract" where
  "validateOne v x =
     (case contract_error v x of
        Some (code, detail) \<Rightarrow> Inl (createExecutionFailure code detail)
      | None \<Rightarrow> Inr \<lparr> vc_contract = v,
          vc_criteria_ids = map (\<lambda>c. js_str (fld c ''id'')) (items (fld v ''acceptance_criteria'')) \<rparr>)"

definition validateAttemptContracts :: "js \<Rightarrow> contract_expectations \<Rightarrow> execution_failure + validated_contract" where
  "validateAttemptContracts inputs x =
     (case inputs of
        Arr [v] \<Rightarrow> validateOne v x
      | _ \<Rightarrow> Inl (createExecutionFailure ''CONTRACT_NOT_EXACTLY_ONE'' None))"

section \<open>What the sweep finds\<close>

text \<open>A value carries structure when a key of it, at any depth, is a topology key up to case.\<close>

inductive carries_topology :: "js \<Rightarrow> bool" where
  here: "(key, v) \<in> set fs \<Longrightarrow> toLowerCase key \<in> set DAG_TOPOLOGY_KEYS \<Longrightarrow> carries_topology (Obj p fs)"
| field: "(key, v) \<in> set fs \<Longrightarrow> carries_topology v \<Longrightarrow> carries_topology (Obj p fs)"
| item: "v \<in> set xs \<Longrightarrow> carries_topology v \<Longrightarrow> carries_topology (Arr xs)"

inductive_simps carries_topology_simps [simp]:
  "carries_topology (Obj p fs)" "carries_topology (Arr xs)" "carries_topology (Str s)" "carries_topology (Num n)"
  "carries_topology Undefined" "carries_topology Null" "carries_topology (Bool b)" "carries_topology (DateObj t)"
  "carries_topology Opaque"

lemma find_topology_None:
  "findDagTopology v path = None \<longleftrightarrow> \<not> carries_topology v"
  "find_in_items xs path i = None \<longleftrightarrow> (\<forall>x \<in> set xs. \<not> carries_topology x)"
  "find_in_fields fs path = None \<longleftrightarrow> (\<forall>(k, x) \<in> set fs. toLowerCase k \<notin> set DAG_TOPOLOGY_KEYS \<and> \<not> carries_topology x)"
  by (induction v path and xs path i and fs path rule: findDagTopology_find_in_items_find_in_fields.induct)
    auto

lemma contract_error_None:
  "contract_error v x = None \<longleftrightarrow> is_object v \<and> unknown_key v REQUIRED_FIELDS = None
     \<and> (\<forall>key \<in> set REQUIRED_FIELDS. hasOwnField v key) \<and> fld v ''schema_version'' = Num (Fin 1)
     \<and> (\<forall>key \<in> {''node_id'', ''attempt_id'', ''intent'', ''change_spec'', ''target_repo'', ''target_branch''}.
          isNonBlankString (fld v key))
     \<and> isPositiveInteger (fld v ''attempt_number'') \<and> validateCriteria (fld v ''acceptance_criteria'') = None
     \<and> \<not> bad_criteria_origin (fld v ''criteria_origin'')
     \<and> validatePriorFailureContext (fld v ''prior_failure_context'') = None
     \<and> \<not> carries_topology v
     \<and> fld v ''node_id'' = Str (xe_node_id x) \<and> fld v ''attempt_id'' = Str (xe_attempt_id x)
     \<and> fld v ''target_repo'' = Str (xe_target_repo x) \<and> fld v ''target_branch'' = Str (xe_target_branch x)"
proof (cases "is_object v \<and> unknown_key v REQUIRED_FIELDS = None")
  case True
  then show ?thesis
    by (simp only: contract_error_def option.case or_else_None first_some_None if_Some_None map_option_is_None
        find_topology_None(1) simp_thms list.set insert_iff empty_iff ball_simps de_Morgan_disj if_False) blast
next
  case False
  then show ?thesis
  proof (cases "unknown_key v REQUIRED_FIELDS")
    case None
    with False show ?thesis by (simp add: contract_error_def)
  next
    case (Some key)
    then show ?thesis by (simp add: contract_error_def)
  qed
qed

lemma check_criteria_None:
  "check_criteria seen cs = None \<longleftrightarrow>
     (\<forall>c \<in> set cs. is_object c \<and> length (Object_keys c) = 2 \<and> isNonBlankString (fld c ''id'') \<and> isNonBlankString (fld c ''text''))
     \<and> distinct (map (\<lambda>c. js_str (fld c ''id'')) cs) \<and> (\<forall>c \<in> set cs. js_str (fld c ''id'') \<notin> set seen)"
  by (induction seen cs rule: check_criteria.induct) (auto simp: image_iff)

end
