(* ===== verification/Dispatch.thy ===== *)
theory Dispatch
  imports Store_Properties Attempt_Contract
begin

text \<open>
  From the stored graph to the worker: the ready frontier
  (\<^verbatim>\<open>orchestration/ready-frontier.ts\<close>), identifiers, envelopes and contracts
  (\<^verbatim>\<open>orchestration/attempt-dispatch.ts\<close>), the dispatch of a frontier
  (\<^verbatim>\<open>orchestration/dispatch-service.ts\<close>) and startup reconciliation
  (\<^verbatim>\<open>orchestration/reconciliation.ts\<close>).

  The queue is outside the repository: \<open>ensureJob\<close> and \<open>removeJob\<close> are calls whose
  requests the model records, and a parameter says for each call whether it throws. The
  builder-routing resolver is a parameter that may throw (None) or answer any value. Every
  store call runs in an environment of its own (clock, write lock), chosen by the ports.
  \<open>lc\<close> is \<^verbatim>\<open>String.prototype.localeCompare\<close>.
\<close>

section \<open>Ready frontier\<close>

record frontier_node =
  fr_node :: approved_node
  fr_ready_after_scheduling :: bool
  fr_blocker_node_id :: "string option"

definition computeReadyFrontier ::
  "(string \<Rightarrow> string \<Rightarrow> int) \<Rightarrow> approved_node list \<Rightarrow> string list \<Rightarrow> (string \<times> string) list \<Rightarrow> frontier_node list" where
  "computeReadyFrontier lc ns passedIds schedulingBlockers =
     sort_by (\<lambda>a b. lc (an_id (fr_node a)) (an_id (fr_node b)))
       (map (\<lambda>n. let blocker = map_of schedulingBlockers (an_id n) in
               \<lparr> fr_node = n, fr_ready_after_scheduling = (blocker = None), fr_blocker_node_id = blocker \<rparr>)
         (filter (\<lambda>n. an_id n \<notin> set passedIds \<and> list_all (\<lambda>dep. dep \<in> set passedIds) (an_depends_on n)) ns))"

section \<open>Identifiers and envelopes\<close>

definition deriveAttemptId :: "string \<Rightarrow> string \<Rightarrow> int \<Rightarrow> string" where
  "deriveAttemptId workId nodeId attemptNumber = ''att://'' @ workId @ ''/'' @ nodeId @ ''/'' @ int_str attemptNumber"

definition deriveJobId :: "string \<Rightarrow> string" where
  "deriveJobId attemptId = ''job://'' @ attemptId"

definition deriveCriterionId :: "string \<Rightarrow> string \<Rightarrow> nat \<Rightarrow> string \<Rightarrow> string" where
  "deriveCriterionId workId nodeId index text =
     ''crit://'' @ workId @ ''/'' @ nodeId @ ''/'' @ nat_str index @ ''/'' @ nat_str (length text)"

definition makeQueueEnvelope :: "string \<Rightarrow> string \<Rightarrow> int \<Rightarrow> queue_envelope" where
  "makeQueueEnvelope workId nodeId attemptNumber =
     (let attemptId = deriveAttemptId workId nodeId attemptNumber in
      \<lparr> qe_job_id = deriveJobId attemptId, qe_attempt_id = attemptId, qe_node_id = nodeId, qe_work_id = workId \<rparr>)"

definition envelope_js :: "queue_envelope \<Rightarrow> js" where
  "envelope_js q = plain [(''job_id'', Str (qe_job_id q)), (''attempt_id'', Str (qe_attempt_id q)),
     (''node_id'', Str (qe_node_id q)), (''work_id'', Str (qe_work_id q))]"

definition projectAttemptContract :: "approved_node \<Rightarrow> string \<Rightarrow> string \<Rightarrow> int \<Rightarrow> string \<Rightarrow> string \<Rightarrow> js" where
  "projectAttemptContract node workId attemptId attemptNumber repo branch =
     plain [(''schema_version'', JInt 1), (''node_id'', Str (an_id node)), (''attempt_id'', Str attemptId),
       (''attempt_number'', JInt attemptNumber), (''intent'', Str (an_intent node)),
       (''change_spec'', Str (an_change_spec node)),
       (''acceptance_criteria'', Arr (map (\<lambda>(index, text).
          plain [(''id'', Str (deriveCriterionId workId (an_id node) index text)), (''text'', Str text)])
          (enumerate 0 (an_acceptance_criteria node)))),
       (''criteria_origin'', plain [(''source'', Str (origin_str (an_criteria_origin_source node))),
          (''source_id'', Str (an_criteria_origin_source_id node))]),
       (''target_repo'', Str repo), (''target_branch'', Str branch), (''prior_failure_context'', Arr [])]"

section \<open>Consuming an envelope\<close>

definition consumeQueueEnvelope :: "js \<Rightarrow> contract_expectations \<Rightarrow> db \<Rightarrow> js orch_result" where
  "consumeQueueEnvelope envelope x d =
     (case validateQueueEnvelope envelope of
        Some err \<Rightarrow> fail err
      | None \<Rightarrow>
          let ev = as_envelope envelope in
          if qe_node_id ev \<noteq> xe_node_id x \<or> qe_attempt_id ev \<noteq> xe_attempt_id x
          then Err QUEUE_ENVELOPE_INVALID ''envelope identity does not match expectations''
          else case getAttemptByJob (qe_job_id ev) d of
            None \<Rightarrow> Err QUEUE_ENVELOPE_INVALID ''job not found''
          | Some attempt \<Rightarrow>
              if a_attempt_id attempt \<noteq> qe_attempt_id ev \<or> a_node_id attempt \<noteq> qe_node_id ev \<or> a_work_id attempt \<noteq> qe_work_id ev
              then Err QUEUE_ENVELOPE_INVALID ''envelope identifiers do not match stored attempt''
              else if a_state attempt \<noteq> Created \<and> a_state attempt \<noteq> Leased
              then Err QUEUE_ENVELOPE_INVALID ''attempt is not dispatchable''
              else case getApprovedNode (a_work_id attempt) (a_node_id attempt) d of
                None \<Rightarrow> Err NODE_NOT_FOUND ''node not found''
              | Some node \<Rightarrow>
                  (case getWork (a_work_id attempt) d of
                     None \<Rightarrow> Err WORK_NOT_FOUND ''work not found''
                   | Some (repo, branch) \<Rightarrow>
                       let contract = projectAttemptContract node (a_work_id attempt) (a_attempt_id attempt)
                                        (a_attempt_number attempt) repo branch in
                       case validateAttemptContracts (Arr [contract])
                              \<lparr> xe_node_id = a_node_id attempt, xe_attempt_id = a_attempt_id attempt,
                                xe_target_repo = repo, xe_target_branch = branch \<rparr> of
                         Inl failure \<Rightarrow> Err QUEUE_ENVELOPE_INVALID (ef_reason failure)
                       | Inr _ \<Rightarrow> Ok contract))"

section \<open>Dispatch\<close>

datatype skip_code = NODE_RECORD_MISSING | NODE_TRANSITION_FAILED | NODE_NOT_DISPATCHABLE | ROUTING_UNAVAILABLE
  | ROUTING_INVALID | ATTEMPT_CREATION_FAILED | QUEUE_ENQUEUE_FAILED

record dispatch_state =
  ds_db :: db
  ds_jobs :: "queue_envelope list"
  ds_dispatched :: "(string \<times> string) list"
  ds_skipped :: "(string \<times> skip_code) list"

record ports =
  po_transition_env :: "string \<Rightarrow> env"
  po_attempt_env :: "string \<Rightarrow> env"
  po_queue_throws :: "queue_envelope \<Rightarrow> bool"
  po_resolve :: "string \<Rightarrow> string \<Rightarrow> string \<Rightarrow> js option"

definition skip :: "string \<Rightarrow> skip_code \<Rightarrow> dispatch_state \<Rightarrow> dispatch_state" where
  "skip nodeId code s = s\<lparr> ds_skipped := ds_skipped s @ [(nodeId, code)] \<rparr>"

text \<open>The transition of a pending node, and the state the node is then known in; None when it failed.\<close>

definition make_ready :: "env \<Rightarrow> string \<Rightarrow> node_row \<Rightarrow> db \<Rightarrow> node_state option \<times> db" where
  "make_ready e workId record d =
     (if n_state record = Pending then
        case transitionNode e workId (n_node_id record) (n_version record) Ready d of
          (Ok r, d') \<Rightarrow> (Some (n_state r), d')
        | (_, d') \<Rightarrow> (None, d')
      else (Some (n_state record), d))"

text \<open>
  One pass of the loop over the frontier. A \<^verbatim>\<open>createAttempt\<close> that throws aborts the
  whole dispatch: Inl carries its message and the state reached.
\<close>

definition dispatch_one ::
  "ports \<Rightarrow> string \<Rightarrow> node_row list \<Rightarrow> frontier_node \<Rightarrow> dispatch_state \<Rightarrow> (string \<times> dispatch_state) + dispatch_state" where
  "dispatch_one po workId records entry s =
     (if \<not> fr_ready_after_scheduling entry then Inr s
      else let nodeId = an_id (fr_node entry) in
      case find (\<lambda>r. n_node_id r = nodeId) records of
        None \<Rightarrow> Inr (skip nodeId NODE_RECORD_MISSING s)
      | Some record \<Rightarrow>
          case make_ready (po_transition_env po nodeId) workId record (ds_db s) of
            (None, d1) \<Rightarrow> Inr (skip nodeId NODE_TRANSITION_FAILED (s\<lparr> ds_db := d1 \<rparr>))
          | (Some nodeState, d1) \<Rightarrow>
              let s1 = s\<lparr> ds_db := d1 \<rparr> in
              if nodeState \<noteq> Ready then Inr (skip nodeId NODE_NOT_DISPATCHABLE s1)
              else let attemptId = deriveAttemptId workId nodeId 1; jobId = deriveJobId attemptId in
              case po_resolve po workId nodeId attemptId of
                None \<Rightarrow> Inr (skip nodeId ROUTING_UNAVAILABLE s1)
              | Some routing \<Rightarrow>
                  if \<not> isResolvedBuilderRouting routing then Inr (skip nodeId ROUTING_INVALID s1)
                  else case createAttempt (po_attempt_env po nodeId) workId nodeId attemptId 1 jobId routing d1 of
                    (Threw m, d2) \<Rightarrow> Inl (m, s1\<lparr> ds_db := d2 \<rparr>)
                  | (Err _ _, d2) \<Rightarrow> Inr (skip nodeId ATTEMPT_CREATION_FAILED (s1\<lparr> ds_db := d2 \<rparr>))
                  | (Ok _, d2) \<Rightarrow>
                      let s2 = s1\<lparr> ds_db := d2, ds_jobs := ds_jobs s1 @ [makeQueueEnvelope workId nodeId 1] \<rparr> in
                      if po_queue_throws po (makeQueueEnvelope workId nodeId 1)
                      then Inr (skip nodeId QUEUE_ENQUEUE_FAILED s2)
                      else Inr (s2\<lparr> ds_dispatched := ds_dispatched s2 @ [(attemptId, jobId)] \<rparr>))"

fun dispatch_all ::
  "ports \<Rightarrow> string \<Rightarrow> node_row list \<Rightarrow> frontier_node list \<Rightarrow> dispatch_state \<Rightarrow> (string \<times> dispatch_state) + dispatch_state" where
  "dispatch_all po workId records [] s = Inr s"
| "dispatch_all po workId records (entry # es) s =
     (case dispatch_one po workId records entry s of
        Inl err \<Rightarrow> Inl err
      | Inr s' \<Rightarrow> dispatch_all po workId records es s')"

definition approved_nodes_of :: "string \<Rightarrow> db \<Rightarrow> approved_node list" where
  "approved_nodes_of workId d =
     concat (map (\<lambda>r. case getApprovedNode workId (n_node_id r) d of Some n \<Rightarrow> [n] | None \<Rightarrow> []) (listNodes workId d))"

definition passed_ids :: "string \<Rightarrow> db \<Rightarrow> string list" where
  "passed_ids workId d = map n_node_id (filter (\<lambda>r. n_state r = Passed) (listNodes workId d))"

definition dispatchReadyFrontier ::
  "(string \<Rightarrow> string \<Rightarrow> int) \<Rightarrow> ports \<Rightarrow> string \<Rightarrow> (string \<times> string) list \<Rightarrow> db \<Rightarrow> (string \<times> dispatch_state) + dispatch_state" where
  "dispatchReadyFrontier lc po workId schedulingBlockers d =
     (let s = \<lparr> ds_db = d, ds_jobs = [], ds_dispatched = [], ds_skipped = [] \<rparr> in
      case getImportedWork workId d of
        None \<Rightarrow> Inl (''work '' @ workId @ '' not found'', s)
      | Some _ \<Rightarrow>
          dispatch_all po workId (listNodes workId d)
            (computeReadyFrontier lc (approved_nodes_of workId d) (passed_ids workId d) schedulingBlockers) s)"

section \<open>Reconciliation\<close>

text \<open>
  The requests reconciliation makes of the queue, in order. A call that throws ends the
  pass: Inl carries the state reached.
\<close>

datatype queue_call = Ensure queue_envelope | Remove string

record reconcile_state =
  rc_db :: db
  rc_calls :: "queue_call list"

type_synonym reconcile_result = "reconcile_state + reconcile_state"

record reconcile_ports =
  rp_throws :: "queue_call \<Rightarrow> bool"
  rp_reclaim_env :: "string \<Rightarrow> env"
  rp_complete_env :: "string \<Rightarrow> env"

definition call_queue :: "reconcile_ports \<Rightarrow> queue_call \<Rightarrow> reconcile_state \<Rightarrow> reconcile_result" where
  "call_queue rp c s = (let s' = s\<lparr> rc_calls := rc_calls s @ [c] \<rparr> in if rp_throws rp c then Inl s' else Inr s')"

definition reconcile_created :: "reconcile_ports \<Rightarrow> attempt_row \<Rightarrow> reconcile_state \<Rightarrow> reconcile_result" where
  "reconcile_created rp a s =
     (let envelope = makeQueueEnvelope (a_work_id a) (a_node_id a) (a_attempt_number a) in
      case call_queue rp (Ensure envelope) s of
        Inl s' \<Rightarrow> Inl s'
      | Inr s' \<Rightarrow> Inr (s'\<lparr> rc_db := setJobId (a_attempt_id a) (qe_job_id envelope) (rc_db s') \<rparr>))"

definition reconcile_expired :: "reconcile_ports \<Rightarrow> int \<Rightarrow> attempt_row \<Rightarrow> reconcile_state \<Rightarrow> reconcile_result" where
  "reconcile_expired rp now a s =
     (if a_state a = Leased then
        case reclaimLease (rp_reclaim_env rp (a_attempt_id a)) (a_attempt_id a) ''reconciliation'' (Some now) (rc_db s) of
          (Threw m, d') \<Rightarrow> Inl (s\<lparr> rc_db := d' \<rparr>)
        | (_, d') \<Rightarrow> Inr (s\<lparr> rc_db := d' \<rparr>)
      else Inr s)"

definition reconcile_authorized :: "reconcile_ports \<Rightarrow> authorization_row \<Rightarrow> reconcile_state \<Rightarrow> reconcile_result" where
  "reconcile_authorized rp c s =
     (case find (\<lambda>n. n_node_id n = c_node_id c) (listNodes (c_work_id c) (rc_db s)) of
        None \<Rightarrow> Inr s
      | Some n \<Rightarrow>
          if n_state n = Passed \<or> n_state n = Failed then Inr s
          else (case completeAuthorizedResult (rp_complete_env rp (c_attempt_id c)) (c_work_id c) (c_node_id c) (c_attempt_id c) (rc_db s) of
                  (Threw m, d') \<Rightarrow> Inl (s\<lparr> rc_db := d' \<rparr>)
                | (Err _ _, d') \<Rightarrow> Inr (s\<lparr> rc_db := d' \<rparr>)
                | (Ok _, d') \<Rightarrow> call_queue rp (Remove (deriveJobId (c_attempt_id c))) (s\<lparr> rc_db := d' \<rparr>)))"

fun for_each :: "('a \<Rightarrow> reconcile_state \<Rightarrow> reconcile_result) \<Rightarrow> 'a list \<Rightarrow> reconcile_state \<Rightarrow> reconcile_result" where
  "for_each f [] s = Inr s"
| "for_each f (x # xs) s = (case f x s of Inl s' \<Rightarrow> Inl s' | Inr s' \<Rightarrow> for_each f xs s')"

definition reconcile :: "reconcile_ports \<Rightarrow> int \<Rightarrow> db \<Rightarrow> reconcile_result" where
  "reconcile rp now d =
     (case for_each (reconcile_created rp) (listCreatedAttempts d) \<lparr> rc_db = d, rc_calls = [] \<rparr> of
        Inl s \<Rightarrow> Inl s
      | Inr s1 \<Rightarrow>
          (case for_each (reconcile_expired rp now) (listAttemptsNeedingReconciliation now (rc_db s1)) s1 of
             Inl s \<Rightarrow> Inl s
           | Inr s2 \<Rightarrow> for_each (reconcile_authorized rp) (listAuthorizedResults (rc_db s2)) s2))"

end
