(* ===== verification/Dispatch_Properties.thy ===== *)
theory Dispatch_Properties
  imports Dispatch
begin

text \<open>
  The properties of dispatch: the frontier is exactly the set of unpassed nodes whose
  dependencies have passed and is never empty while work remains, dispatch creates
  attempts for unblocked frontier nodes only, and the derived ids identify their attempt.
\<close>

section \<open>The frontier\<close>

lemma frontier_nodes:
  "fr_node ` set (computeReadyFrontier lc ns ps bs) = {n \<in> set ns. an_id n \<notin> set ps \<and> set (an_depends_on n) \<subseteq> set ps}"
  by (force simp: computeReadyFrontier_def list_all_iff Let_def)

lemma frontier_entry:
  "f \<in> set (computeReadyFrontier lc ns ps bs) \<Longrightarrow>
     fr_blocker_node_id f = map_of bs (an_id (fr_node f)) \<and> (fr_ready_after_scheduling f \<longleftrightarrow> map_of bs (an_id (fr_node f)) = None)"
  by (auto simp: computeReadyFrontier_def Let_def)

lemma consistent_cmp_on: "consistent_cmp lc \<Longrightarrow> consistent_cmp (\<lambda>a b. lc (f a) (f b))"
  unfolding consistent_cmp_def by blast

text \<open>
  The ready frontier consists of exactly the nodes that have not passed and whose
  dependencies all have; it is ordered by node id, and an entry is ready after scheduling
  exactly when no blocker is recorded for it.
\<close>
theorem frontier_exact:
  assumes "consistent_cmp lc"
  shows "fr_node ` set (computeReadyFrontier lc ns ps bs) = {n \<in> set ns. an_id n \<notin> set ps \<and> set (an_depends_on n) \<subseteq> set ps}
    \<and> sorted_wrt (\<lambda>a b. lc (an_id (fr_node a)) (an_id (fr_node b)) \<le> 0) (computeReadyFrontier lc ns ps bs)
    \<and> (\<forall>f \<in> set (computeReadyFrontier lc ns ps bs).
         fr_ready_after_scheduling f \<longleftrightarrow> map_of bs (an_id (fr_node f)) = None)"
proof (intro conjI ballI)
  show "sorted_wrt (\<lambda>a b. lc (an_id (fr_node a)) (an_id (fr_node b)) \<le> 0) (computeReadyFrontier lc ns ps bs)"
    unfolding computeReadyFrontier_def by (rule sorted_sort_by [OF consistent_cmp_on [OF assms]])
qed (simp_all only: frontier_nodes frontier_entry)

theorem frontier_exact_witness:
  "computeReadyFrontier (\<lambda>a b. if a < b then - 1 else if a = b then 0 else 1) (approved_nodes_of ''w'' sc1) [] [] \<noteq> []
   \<and> list_all fr_ready_after_scheduling
        (computeReadyFrontier (\<lambda>a b. if a < b then - 1 else if a = b then 0 else 1) (approved_nodes_of ''w'' sc1) [] [])"
proof -
  have "consistent_cmp (\<lambda>a b :: string. if a < b then - 1 else if a = b then 0 else 1)"
    unfolding consistent_cmp_def by auto
  from frontier_exact [OF this, of "approved_nodes_of ''w'' sc1" "[]" "[]"]
  have "list_all fr_ready_after_scheduling
      (computeReadyFrontier (\<lambda>a b. if a < b then - 1 else if a = b then 0 else 1) (approved_nodes_of ''w'' sc1) [] [])"
    by (simp add: list_all_iff)
  moreover have "computeReadyFrontier (\<lambda>a b. if a < b then - 1 else if a = b then 0 else 1) (approved_nodes_of ''w'' sc1) [] [] \<noteq> []"
    by code_simp
  ultimately show ?thesis by blast
qed

section \<open>Progress\<close>

lemma set_listNodes: "set (listNodes w d) = {r \<in> set (nodes d). n_work_id r = w}"
  by (auto simp: listNodes_def)

lemma approved_nodes_reachable:
  assumes "reachable d"
  shows "set (approved_nodes_of w d) = approved_of_row ` {r \<in> set (nodes d). n_work_id r = w}"
proof -
  have "getApprovedNode w (n_node_id r) d = Some (approved_of_row r)" if "r \<in> set (nodes d)" "n_work_id r = w" for r
    using reachable_node [OF assms that(1)] that(2) by (simp add: getApprovedNode_def)
  then show ?thesis by (force simp: approved_nodes_of_def set_listNodes)
qed

lemma approved_of_row_simps [simp]:
  "an_id (approved_of_row r) = n_node_id r" "an_depends_on (approved_of_row r) = n_depends_on r"
  by (simp_all add: approved_of_row_def)

lemma passed_ids_iff:
  assumes "reachable d" "r \<in> set (nodes d)" "n_work_id r = w"
  shows "n_node_id r \<in> set (passed_ids w d) \<longleftrightarrow> n_state r = Passed"
proof
  assume "n_node_id r \<in> set (passed_ids w d)"
  then obtain r' where r': "r' \<in> set (nodes d)" "n_work_id r' = w" "n_state r' = Passed" "n_node_id r' = n_node_id r"
    by (auto simp: passed_ids_def set_listNodes)
  with assms reachable_node [OF assms(1,2)] reachable_node [OF assms(1) r'(1)] show "n_state r = Passed" by simp
qed (use assms in \<open>auto simp: passed_ids_def set_listNodes\<close>)

lemma finite_stored_edges: "finite (stored_edges w d)"
proof -
  have "stored_edges w d \<subseteq> (\<Union>r \<in> set (nodes d). (\<lambda>x. (x, n_node_id r)) ` set (n_depends_on r))"
    by (auto simp: stored_edges_def)
  then show ?thesis by (rule finite_subset) simp
qed

text \<open>
  Progress: in every reachable database, as long as a node of a work has not passed,
  the ready frontier of the work is not empty; the stored graph never deadlocks.
\<close>
theorem frontier_progress:
  assumes "reachable d" "get_node_row w n d = Some r" "n_state r \<noteq> Passed"
  shows "computeReadyFrontier lc (approved_nodes_of w d) (passed_ids w d) bs \<noteq> []"
proof -
  let ?open = "{n_node_id r | r. r \<in> set (nodes d) \<and> n_work_id r = w \<and> n_state r \<noteq> Passed}"
  have g: "acyclic (stored_edges w d)"
    and cl: "\<And>r x. r \<in> set (nodes d) \<Longrightarrow> x \<in> set (n_depends_on r) \<Longrightarrow> (n_work_id r, x) \<in> node_key ` set (nodes d)"
    using reachable_parts(7) [OF assms(1)] by (auto simp: graphs_ok_def)
  have "wf (stored_edges w d)" using g finite_stored_edges by (rule finite_acyclic_wf [rotated])
  moreover have "n \<in> ?open" using assms(2,3) by (force simp: node_key_def dest: t_getD)
  ultimately obtain m where m: "m \<in> ?open" "\<And>y. (y, m) \<in> stored_edges w d \<Longrightarrow> y \<notin> ?open" by (rule wfE_min) blast
  then obtain r where r: "r \<in> set (nodes d)" "n_work_id r = w" "n_state r \<noteq> Passed" "m = n_node_id r" by blast
  have "x \<in> set (passed_ids w d)" if x: "x \<in> set (n_depends_on r)" for x
  proof -
    from cl [OF r(1) x] r(2) obtain r' where r': "r' \<in> set (nodes d)" "n_work_id r' = w" "n_node_id r' = x"
      by (auto simp: node_key_def)
    have "(x, m) \<in> stored_edges w d" using r x by (auto simp: stored_edges_def)
    with m(2) r' have "n_state r' = Passed" by blast
    with r' show ?thesis by (auto simp: passed_ids_def set_listNodes)
  qed
  moreover have "m \<notin> set (passed_ids w d)" using passed_ids_iff [OF assms(1) r(1,2)] r by simp
  ultimately have "approved_of_row r \<in> fr_node ` set (computeReadyFrontier lc (approved_nodes_of w d) (passed_ids w d) bs)"
    unfolding frontier_nodes approved_nodes_reachable [OF assms(1)] using r by auto
  then show ?thesis by force
qed

theorem frontier_progress_witness: "computeReadyFrontier (\<lambda>_ _. 0) (approved_nodes_of ''w'' sc7) (passed_ids ''w'' sc7) [] \<noteq> []"
proof -
  have "map_option n_state (get_node_row ''w'' ''m'' sc7) = Some Pending" by code_simp
  then obtain r where "get_node_row ''w'' ''m'' sc7 = Some r" "n_state r = Pending" by auto
  with frontier_progress [OF sc_reachable(7)] show ?thesis by simp
qed

section \<open>Dispatch\<close>

fun after :: "(string \<times> dispatch_state) + dispatch_state \<Rightarrow> dispatch_state" where
  "after (Inl (m, s)) = s"
| "after (Inr s) = s"

text \<open>What a dispatch has done so far, relative to the database it began with.\<close>

definition dispatch_inv :: "string \<Rightarrow> string set \<Rightarrow> db \<Rightarrow> dispatch_state \<Rightarrow> bool" where
  "dispatch_inv w F d0 s \<longleftrightarrow> store_step\<^sup>*\<^sup>* d0 (ds_db s)
     \<and> (\<forall>a \<in> set (attempts (ds_db s)). a \<in> set (attempts d0) \<or>
          (a_work_id a = w \<and> a_node_id a \<in> F \<and> a_attempt_id a = deriveAttemptId w (a_node_id a) 1 \<and> a_state a = Created))
     \<and> (\<forall>(k, j) \<in> set (ds_dispatched s). \<exists>n \<in> F. k = deriveAttemptId w n 1 \<and> j = deriveJobId k
          \<and> get_attempt_row k (ds_db s) \<noteq> None \<and> makeQueueEnvelope w n 1 \<in> set (ds_jobs s))"

lemma transition_attempts [simp]: "attempts (snd (transitionNode e w n v st d)) = attempts d"
  by (simp add: transitionNode_def begin_immediate_def split: option.splits)

lemma make_ready_run:
  assumes "make_ready e w r d = (x, d')"
  shows "store_step\<^sup>*\<^sup>* d d' \<and> attempts d' = attempts d"
proof (cases "n_state r = Pending")
  case True
  with assms have "d' = snd (transitionNode e w (n_node_id r) (n_version r) Ready d)"
    by (auto simp: make_ready_def split: prod.splits outcome.splits)
  then show ?thesis by (auto intro: r_into_rtranclp store_step.st_transition)
next
  case False
  with assms show ?thesis by (auto simp: make_ready_def)
qed

definition fresh_attempt :: "env \<Rightarrow> string \<Rightarrow> string \<Rightarrow> string \<Rightarrow> int \<Rightarrow> string \<Rightarrow> attempt_row" where
  "fresh_attempt e w n k i j = \<lparr> a_attempt_id = k, a_work_id = w, a_node_id = n, a_attempt_number = i, a_state = Created,
     a_job_id = Some j, a_created_at = env_now e, a_lease_generation = 0 \<rparr>"

lemma createAttempt_attempts:
  "attempts (snd (createAttempt e w n k i j b d)) = attempts d
   \<or> attempts (snd (createAttempt e w n k i j b d)) = attempts d @ [fresh_attempt e w n k i j]"
  by (auto simp: createAttempt_def begin_immediate_def Let_def insert_unique_Some fresh_attempt_def
      split: option.splits simp del: t_get_None)

lemma createAttempt_Ok: "fst (createAttempt e w n k i j b d) = Ok a \<Longrightarrow> get_attempt_row k (snd (createAttempt e w n k i j b d)) \<noteq> None"
  by (auto simp: createAttempt_def begin_immediate_def Let_def insert_unique_def t_get_append t_get_Cons
      split: option.splits if_splits simp del: t_get_None)

lemma get_attempt_grows:
  "attempts d' = attempts d \<or> attempts d' = attempts d @ [x] \<Longrightarrow> get_attempt_row k d \<noteq> None \<Longrightarrow> get_attempt_row k d' \<noteq> None"
  by auto

lemma dispatch_inv_db:
  assumes "dispatch_inv w F d0 s" "store_step\<^sup>*\<^sup>* (ds_db s) d'"
    "attempts d' = attempts (ds_db s) \<or> attempts d' = attempts (ds_db s) @ [a]"
    "a_work_id a = w \<and> a_node_id a \<in> F \<and> a_attempt_id a = deriveAttemptId w (a_node_id a) 1 \<and> a_state a = Created
       \<or> attempts d' = attempts (ds_db s)"
  shows "dispatch_inv w F d0 (s\<lparr> ds_db := d' \<rparr>)"
proof -
  have "store_step\<^sup>*\<^sup>* d0 d'" using assms(1,2) by (auto simp: dispatch_inv_def)
  moreover have "get_attempt_row k d' \<noteq> None" if "get_attempt_row k (ds_db s) \<noteq> None" for k
    using get_attempt_grows [OF assms(3) that] .
  moreover have "\<forall>a \<in> set (attempts d'). a \<in> set (attempts d0) \<or>
      (a_work_id a = w \<and> a_node_id a \<in> F \<and> a_attempt_id a = deriveAttemptId w (a_node_id a) 1 \<and> a_state a = Created)"
    using assms(1) assms(3,4) unfolding dispatch_inv_def by (elim disjE) auto
  ultimately show ?thesis using assms(1) unfolding dispatch_inv_def by (fastforce simp del: t_get_None)
qed

lemma dispatch_inv_skip [simp]: "dispatch_inv w F d0 (skip n c s) = dispatch_inv w F d0 s"
  by (simp add: dispatch_inv_def skip_def)

lemma dispatch_one_inv:
  assumes inv: "dispatch_inv w F d0 s"
    and f: "fr_ready_after_scheduling f \<Longrightarrow> an_id (fr_node f) \<in> F"
  shows "dispatch_inv w F d0 (after (dispatch_one po w rs f s))"
proof (cases "fr_ready_after_scheduling f")
  case True
  let ?n = "an_id (fr_node f)" and ?k = "deriveAttemptId w (an_id (fr_node f)) 1"
  from f [OF True] have F: "?n \<in> F" .
  show ?thesis
  proof (cases "find (\<lambda>r. n_node_id r = ?n) rs")
    case None
    with True inv show ?thesis by (simp add: dispatch_one_def Let_def)
  next
    case (Some r)
    obtain x d1 where mr: "make_ready (po_transition_env po ?n) w r (ds_db s) = (x, d1)" by fastforce
    from make_ready_run [OF mr] inv have i1: "dispatch_inv w F d0 (s\<lparr> ds_db := d1 \<rparr>)"
      by (intro dispatch_inv_db) auto
    show ?thesis
    proof (cases "x = Some Ready \<and> (\<exists>b. po_resolve po w ?n ?k = Some b \<and> isResolvedBuilderRouting b)")
      case False
      then show ?thesis using True Some mr i1
        by (auto simp: dispatch_one_def Let_def split: option.splits)
    next
      case ok: True
      then obtain b where b: "x = Some Ready" "po_resolve po w ?n ?k = Some b" "isResolvedBuilderRouting b" by blast
      let ?c = "createAttempt (po_attempt_env po ?n) w ?n ?k 1 (deriveJobId ?k) b d1"
      have i2: "dispatch_inv w F d0 (s\<lparr> ds_db := snd ?c \<rparr>)"
      proof -
        let ?row = "fresh_attempt (po_attempt_env po ?n) w ?n ?k 1 (deriveJobId ?k)"
        have "a_work_id ?row = w \<and> a_node_id ?row \<in> F \<and> a_attempt_id ?row = deriveAttemptId w (a_node_id ?row) 1 \<and> a_state ?row = Created"
          using F by (simp add: fresh_attempt_def)
        moreover have "store_step\<^sup>*\<^sup>* d1 (snd ?c)" by (rule r_into_rtranclp) (rule store_step.st_attempt)
        ultimately show ?thesis
          using dispatch_inv_db [OF i1, of "snd ?c" ?row] createAttempt_attempts [of "po_attempt_env po ?n" w ?n ?k 1 "deriveJobId ?k" b d1]
          by simp
      qed
      have get: "get_attempt_row ?k (snd ?c) \<noteq> None" if "fst ?c = Ok a" for a
        using that by (rule createAttempt_Ok)
      show ?thesis
      proof (cases "fst ?c")
        case (Ok a)
        let ?s2 = "s\<lparr> ds_db := snd ?c, ds_jobs := ds_jobs s @ [makeQueueEnvelope w ?n 1] \<rparr>"
        have i3: "dispatch_inv w F d0 ?s2" using i2 by (fastforce simp: dispatch_inv_def simp del: t_get_None)
        have i4: "dispatch_inv w F d0 (?s2\<lparr> ds_dispatched := ds_dispatched s @ [(?k, deriveJobId ?k)] \<rparr>)"
          using i3 get [OF Ok] F by (fastforce simp: dispatch_inv_def simp del: t_get_None)
        from Ok i3 i4 True Some mr b show ?thesis by (cases ?c) (simp add: dispatch_one_def Let_def)
      next
        case (Err c m)
        with i2 True Some mr b show ?thesis by (cases ?c) (simp add: dispatch_one_def Let_def)
      next
        case (Threw m)
        with i2 True Some mr b show ?thesis by (cases ?c) (simp add: dispatch_one_def Let_def)
      qed
    qed
  qed
qed (simp add: dispatch_one_def inv)

lemma dispatch_all_inv:
  "dispatch_inv w F d0 s \<Longrightarrow> (\<And>f. f \<in> set fs \<Longrightarrow> fr_ready_after_scheduling f \<Longrightarrow> an_id (fr_node f) \<in> F)
     \<Longrightarrow> dispatch_inv w F d0 (after (dispatch_all po w rs fs s))"
proof (induction fs arbitrary: s)
  case (Cons f fs)
  have "dispatch_inv w F d0 (after (dispatch_one po w rs f s))" using Cons.prems by (intro dispatch_one_inv) auto
  with Cons show ?case by (auto split: sum.splits)
qed simp

lemma dispatch_inv_dispatched:
  assumes "dispatch_inv w F d0 s" "(k, j) \<in> set (ds_dispatched s)"
  shows "getAttempt k (ds_db s) \<noteq> None \<and> (\<exists>q \<in> set (ds_jobs s). qe_attempt_id q = k \<and> qe_job_id q = j \<and> qe_work_id q = w)"
proof -
  from assms obtain n where n: "k = deriveAttemptId w n 1" "j = deriveJobId k" "get_attempt_row k (ds_db s) \<noteq> None"
    "makeQueueEnvelope w n 1 \<in> set (ds_jobs s)" unfolding dispatch_inv_def by blast
  then show ?thesis
    by (intro conjI bexI [of _ "makeQueueEnvelope w n 1"]) (simp_all add: getAttempt_def makeQueueEnvelope_def Let_def del: t_get_None)
qed

text \<open>A node that may be dispatched: not passed, its dependencies passed, no blocker given.\<close>

definition dispatchable :: "string \<Rightarrow> (string \<times> string) list \<Rightarrow> db \<Rightarrow> string \<Rightarrow> bool" where
  "dispatchable w bs d n \<longleftrightarrow> map_of bs n = None \<and> (\<exists>r. get_node_row w n d = Some r \<and> n_state r \<noteq> Passed
     \<and> (\<forall>x \<in> set (n_depends_on r). \<exists>r'. get_node_row w x d = Some r' \<and> n_state r' = Passed))"

lemma frontier_dispatchable:
  assumes "reachable d" "f \<in> set (computeReadyFrontier lc (approved_nodes_of w d) (passed_ids w d) bs)"
    "fr_ready_after_scheduling f"
  shows "dispatchable w bs d (an_id (fr_node f))"
proof -
  from assms(2) have "fr_node f \<in> fr_node ` set (computeReadyFrontier lc (approved_nodes_of w d) (passed_ids w d) bs)" by blast
  then obtain r where r: "r \<in> set (nodes d)" "n_work_id r = w" "fr_node f = approved_of_row r"
    "n_node_id r \<notin> set (passed_ids w d)" "set (n_depends_on r) \<subseteq> set (passed_ids w d)"
    unfolding frontier_nodes approved_nodes_reachable [OF assms(1)] by auto
  have g: "get_node_row w (n_node_id x) d = Some x" if "x \<in> set (nodes d)" "n_work_id x = w" for x
    using reachable_node [OF assms(1) that(1)] that(2) by simp
  have "\<exists>r'. get_node_row w x d = Some r' \<and> n_state r' = Passed" if "x \<in> set (n_depends_on r)" for x
    using that r(5) g by (force simp: passed_ids_def set_listNodes)
  with r g assms(3) frontier_entry [OF assms(2)] passed_ids_iff [OF assms(1) r(1,2)] show ?thesis
    by (auto simp: dispatchable_def)
qed

text \<open>
  C15. Dispatch is safe: whatever the queue, the resolver and the write lock do, and
  even when the pass is aborted, it is a run of the store; every attempt it creates
  belongs to a node that had not passed, whose dependencies all had, and for which no
  scheduling blocker was given; and every job it reports as dispatched has its attempt
  stored and its envelope handed to the queue.
\<close>
theorem dispatch_creates_only_ready_attempts:
  assumes "reachable d" "s = after (dispatchReadyFrontier lc po w bs d)"
  shows "store_step\<^sup>*\<^sup>* d (ds_db s)
    \<and> (\<forall>a \<in> set (attempts (ds_db s)) - set (attempts d). a_work_id a = w \<and> dispatchable w bs d (a_node_id a))
    \<and> (\<forall>(k, j) \<in> set (ds_dispatched s). getAttempt k (ds_db s) \<noteq> None
         \<and> (\<exists>q \<in> set (ds_jobs s). qe_attempt_id q = k \<and> qe_job_id q = j \<and> qe_work_id q = w))"
proof -
  have "dispatch_inv w {n. dispatchable w bs d n} d \<lparr> ds_db = d, ds_jobs = [], ds_dispatched = [], ds_skipped = [] \<rparr>"
    by (simp add: dispatch_inv_def)
  then have inv: "dispatch_inv w {n. dispatchable w bs d n} d s" unfolding assms(2)
    by (auto simp: dispatchReadyFrontier_def Let_def split: option.splits
        intro!: dispatch_all_inv frontier_dispatchable [OF assms(1)])
  moreover have "a_work_id a = w \<and> dispatchable w bs d (a_node_id a)"
    if "a \<in> set (attempts (ds_db s)) - set (attempts d)" for a
    using inv that unfolding dispatch_inv_def by blast
  moreover have "store_step\<^sup>*\<^sup>* d (ds_db s)" using inv by (simp add: dispatch_inv_def)
  ultimately show ?thesis using dispatch_inv_dispatched [OF inv] by blast
qed

definition sc_ports :: ports where
  "sc_ports = \<lparr> po_transition_env = (\<lambda>_. sc_env), po_attempt_env = (\<lambda>_. sc_env), po_queue_throws = (\<lambda>_. False),
     po_resolve = (\<lambda>_ _ _. Some sc_routing) \<rparr>"

theorem dispatch_creates_only_ready_attempts_witness:
  "getAttempt ''att://w/n/1'' (ds_db (after (dispatchReadyFrontier (\<lambda>_ _. 0) sc_ports ''w'' [] sc1))) \<noteq> None
   \<and> store_step\<^sup>*\<^sup>* sc1 (ds_db (after (dispatchReadyFrontier (\<lambda>_ _. 0) sc_ports ''w'' [] sc1)))"
proof -
  have "(''att://w/n/1'', ''job://att://w/n/1'') \<in> set (ds_dispatched (after (dispatchReadyFrontier (\<lambda>_ _. 0) sc_ports ''w'' [] sc1)))"
    by code_simp
  with dispatch_creates_only_ready_attempts [OF sc_reachable(1) refl, of "\<lambda>_ _. 0" sc_ports "''w''" "[]"]
  show ?thesis by blast
qed

section \<open>Identifiers\<close>

lemma slash_not_digit: "CHR ''/'' \<notin> set (nat_str n)"
  using nat_str_digits [of n] by (auto simp: digit_chars_def)

lemma int_str_no_slash: "0 \<le> i \<Longrightarrow> CHR ''/'' \<notin> set (int_str i)"
  by (simp add: int_str_def slash_not_digit)

text \<open>
  Attempt and job ids identify: for work and node ids without a slash, different
  works, nodes or attempt numbers never share an attempt id or a job id.
\<close>
theorem attempt_ids_injective:
  assumes "CHR ''/'' \<notin> set w" "CHR ''/'' \<notin> set w'" "CHR ''/'' \<notin> set n" "CHR ''/'' \<notin> set n'" "0 \<le> i" "0 \<le> i'"
  shows "(deriveAttemptId w n i = deriveAttemptId w' n' i' \<longleftrightarrow> w = w' \<and> n = n' \<and> i = i')
    \<and> (deriveJobId (deriveAttemptId w n i) = deriveJobId (deriveAttemptId w' n' i') \<longleftrightarrow> w = w' \<and> n = n' \<and> i = i')"
proof -
  have "int_str i = int_str i' \<longleftrightarrow> i = i'" using assms(5,6) by (auto simp: int_str_def)
  then show ?thesis using assms(1-4)
    by (simp add: deriveAttemptId_def deriveJobId_def append_sep_inject)
qed

theorem attempt_ids_injective_witness: "deriveAttemptId ''w'' ''n'' 1 \<noteq> deriveAttemptId ''w'' ''m'' 1"
  using attempt_ids_injective [of "''w''" "''w''" "''n''" "''m''" 1 1] by simp

text \<open>
  Ids that contain a slash collide: two different works can derive the same attempt
  id, and the second dispatch is then answered with the attempt of the first.
\<close>
theorem attempt_ids_collide: "deriveAttemptId ''a/b'' ''c'' 1 = deriveAttemptId ''a'' ''b/c'' 1"
  by (simp add: deriveAttemptId_def)

end
