(* ===== verification/Queue_Properties.thy ===== *)
theory Queue_Properties
  imports Dispatch_Properties
begin

text \<open>
  What the queue consumer hands to a worker, and what startup reconciliation does.
\<close>

section \<open>Projected contracts\<close>

lemma trim_Nil: "trim s = [] \<longleftrightarrow> (\<forall>c \<in> set s. is_ws c)"
proof -
  have "set s = set (takeWhile is_ws s) \<union> set (dropWhile is_ws s)" by (metis set_append takeWhile_dropWhile_id)
  then have "(\<forall>c \<in> set (dropWhile is_ws s). is_ws c) \<longleftrightarrow> (\<forall>c \<in> set s. is_ws c)" by (blast dest: set_takeWhileD)
  then show ?thesis by (simp add: trim_def)
qed

lemma criterion_id_visible: "trim (deriveCriterionId w n i t) \<noteq> []"
proof -
  have "\<not> is_ws (CHR ''c'')" by code_simp
  then show ?thesis unfolding trim_Nil by (auto simp: deriveCriterionId_def)
qed

lemma criterion_id_inj: "deriveCriterionId w n i t = deriveCriterionId w n j u \<Longrightarrow> i = j"
  using append_sep_inject [OF slash_not_digit [of i] slash_not_digit [of j]] by (simp add: deriveCriterionId_def)

lemma criteria_distinct:
  "distinct (map (\<lambda>(i, t). deriveCriterionId w n i t) (enumerate k ts))"
proof -
  have "inj_on (\<lambda>(i, t). deriveCriterionId w n i t) (set (enumerate k ts))"
    by (rule inj_onI) (auto dest!: criterion_id_inj simp: in_set_enumerate_eq)
  then show ?thesis by (simp add: distinct_map distinct_enumerate)
qed

text \<open>A projected contract reads back field by field.\<close>

lemma projected_fields:
  fixes n w k i r b
  defines "v \<equiv> projectAttemptContract n w k i r b"
  shows "is_object v" "unknown_key v REQUIRED_FIELDS = None" "\<forall>key \<in> set REQUIRED_FIELDS. hasOwnField v key"
    "fld v ''schema_version'' = Num (Fin 1)" "fld v ''node_id'' = Str (an_id n)" "fld v ''attempt_id'' = Str k"
    "fld v ''attempt_number'' = JInt i" "fld v ''intent'' = Str (an_intent n)" "fld v ''change_spec'' = Str (an_change_spec n)"
    "fld v ''target_repo'' = Str r" "fld v ''target_branch'' = Str b" "fld v ''prior_failure_context'' = Arr []"
    "fld v ''criteria_origin'' = plain [(''source'', Str (origin_str (an_criteria_origin_source n))),
       (''source_id'', Str (an_criteria_origin_source_id n))]"
    "fld v ''acceptance_criteria'' = Arr (map (\<lambda>(j, t).
       plain [(''id'', Str (deriveCriterionId w (an_id n) j t)), (''text'', Str t)]) (enumerate 0 (an_acceptance_criteria n)))"
  unfolding v_def by (simp_all add: projectAttemptContract_def unknown_key_def REQUIRED_FIELDS_def hasOwnField_def)

lemma projected_criteria:
  "validateCriteria (fld (projectAttemptContract n w k i r b) ''acceptance_criteria'') = None
     \<longleftrightarrow> an_acceptance_criteria n \<noteq> [] \<and> (\<forall>t \<in> set (an_acceptance_criteria n). trim t \<noteq> [])"
proof -
  let ?ps = "enumerate 0 (an_acceptance_criteria n)"
  let ?crit = "\<lambda>(j, t). plain [(''id'', Str (deriveCriterionId w (an_id n) j t)), (''text'', Str t)]"
  have ids: "distinct (map (\<lambda>c. js_str (fld c ''id'')) (map ?crit ?ps))"
    using criteria_distinct [of w "an_id n" 0 "an_acceptance_criteria n"] by (simp add: case_prod_unfold comp_def)
  have texts: "set (an_acceptance_criteria n) = snd ` set ?ps" by (metis map_snd_enumerate set_map)
  have "check_criteria [] (map ?crit ?ps) = None \<longleftrightarrow> (\<forall>p \<in> set ?ps. trim (snd p) \<noteq> [])"
    unfolding check_criteria_None using ids by (auto simp: criterion_id_visible)
  moreover have "map ?crit ?ps = [] \<longleftrightarrow> an_acceptance_criteria n = []"
    by (simp flip: length_0_conv)
  ultimately show ?thesis
    unfolding validateCriteria_def projected_fields is_array.simps items.simps texts by simp
qed

lemma topology_free_keys:
  "list_all (\<lambda>k. toLowerCase k \<notin> set DAG_TOPOLOGY_KEYS) (REQUIRED_FIELDS @ [''id'', ''text'', ''source'', ''source_id''])"
  by code_simp

lemma projected_topology_free: "\<not> carries_topology (projectAttemptContract n w k i r b)"
  using topology_free_keys unfolding projectAttemptContract_def
  by (auto simp: REQUIRED_FIELDS_def split: prod.splits)

definition unit_visible :: "approved_node \<Rightarrow> string \<Rightarrow> string \<Rightarrow> string \<Rightarrow> bool" where
  "unit_visible n k repo branch \<longleftrightarrow> an_acceptance_criteria n \<noteq> []
     \<and> (\<forall>t \<in> set (an_acceptance_criteria n) \<union> {an_id n, k, an_intent n, an_change_spec n, repo, branch, an_criteria_origin_source_id n}.
          trim t \<noteq> [])"

lemma projected_valid:
  "contract_error (projectAttemptContract n w k i r b) \<lparr> xe_node_id = an_id n, xe_attempt_id = k, xe_target_repo = r, xe_target_branch = b \<rparr> = None
     \<longleftrightarrow> 1 \<le> i \<and> unit_visible n k r b"
proof -
  have o: "bad_criteria_origin (fld (projectAttemptContract n w k i r b) ''criteria_origin'') \<longleftrightarrow> trim (an_criteria_origin_source_id n) = []"
    unfolding projected_fields bad_criteria_origin_def by (cases "an_criteria_origin_source n") simp_all
  show ?thesis
    unfolding contract_error_None o projected_criteria
    by (auto simp: projected_fields projected_topology_free validatePriorFailureContext_def unit_visible_def
        simp del: isPositiveInteger.simps)
qed

section \<open>Consumption\<close>

text \<open>What a queue message is entitled to: the attempt, node and target it is resolved to.\<close>

definition entitled :: "queue_envelope \<Rightarrow> contract_expectations \<Rightarrow> db \<Rightarrow> attempt_row \<Rightarrow> node_row \<Rightarrow> work_row \<Rightarrow> bool" where
  "entitled q x d a n w \<longleftrightarrow>
     qe_node_id q = xe_node_id x \<and> qe_attempt_id q = xe_attempt_id x
     \<and> getAttemptByJob (qe_job_id q) d = Some a
     \<and> a_attempt_id a = qe_attempt_id q \<and> a_node_id a = qe_node_id q \<and> a_work_id a = qe_work_id q
     \<and> a_state a \<in> {Created, Leased}
     \<and> get_node_row (qe_work_id q) (qe_node_id q) d = Some n \<and> get_work_row (qe_work_id q) d = Some w"

lemma reachable_attempt:
  assumes "reachable d" "a \<in> set (attempts d)"
  obtains n w where "get_node_row (a_work_id a) (a_node_id a) d = Some n" "get_work_row (a_work_id a) d = Some w" "1 \<le> a_attempt_number a"
proof -
  from reachable_parts(4) [OF assms(1)] assms(2)
  have a: "(a_work_id a, a_node_id a) \<in> node_key ` set (nodes d)" "1 \<le> a_attempt_number a" by (auto simp: routing_ok_def)
  then obtain n where n: "n \<in> set (nodes d)" "n_work_id n = a_work_id a" "n_node_id n = a_node_id a" by (auto simp: node_key_def)
  with reachable_node [OF assms(1) n(1)] have "get_node_row (a_work_id a) (a_node_id a) d = Some n" by simp
  moreover have "a_work_id a \<in> w_work_id ` set (works d)" using reachable_parts(7) [OF assms(1)] n by (force simp: graphs_ok_def)
  then obtain w where "get_work_row (a_work_id a) d = Some w" by (metis t_get_None not_None_eq)
  ultimately show ?thesis using a(2) that by blast
qed

text \<open>
  C16. The queue consumer is exact: it hands over a contract precisely for a well-formed
  envelope that names the expected unit, whose job is stored for exactly that attempt,
  while the attempt is created or leased, and whose stored texts are visible; the contract
  is then the projection of the stored node for the stored attempt and target.
\<close>
theorem consume_exact:
  assumes "reachable d"
  shows "consumeQueueEnvelope v x d = Ok c \<longleftrightarrow> validateQueueEnvelope v = None \<and>
    (\<exists>a n w. entitled (as_envelope v) x d a n w
       \<and> unit_visible (approved_of_row n) (a_attempt_id a) (w_repo w) (w_branch w)
       \<and> c = projectAttemptContract (approved_of_row n) (a_work_id a) (a_attempt_id a) (a_attempt_number a) (w_repo w) (w_branch w))"
proof (cases "validateQueueEnvelope v = None \<and> (\<exists>a n w. entitled (as_envelope v) x d a n w)")
  case True
  then obtain a n w where v: "validateQueueEnvelope v = None" and e: "entitled (as_envelope v) x d a n w" by blast
  then have "a \<in> set (attempts d)" by (auto simp: entitled_def getAttemptByJob_def dest: find_SomeD)
  from reachable_attempt [OF assms this] have i: "1 \<le> a_attempt_number a" by blast
  have id: "a_node_id a = an_id (approved_of_row n)" using e by (auto simp: entitled_def node_key_def dest: t_getD)
  let ?c = "projectAttemptContract (approved_of_row n) (a_work_id a) (a_attempt_id a) (a_attempt_number a) (w_repo w) (w_branch w)"
  let ?x = "\<lparr> xe_node_id = a_node_id a, xe_attempt_id = a_attempt_id a, xe_target_repo = w_repo w, xe_target_branch = w_branch w \<rparr>"
  have "consumeQueueEnvelope v x d = (case validateAttemptContracts (Arr [?c]) ?x of
      Inl failure \<Rightarrow> Err QUEUE_ENVELOPE_INVALID (ef_reason failure) | Inr _ \<Rightarrow> Ok ?c)"
    using v e unfolding consumeQueueEnvelope_def entitled_def Let_def getApprovedNode_def getWork_def by auto
  also have "\<dots> = Ok c \<longleftrightarrow> contract_error ?c ?x = None \<and> c = ?c"
    by (auto simp: validateAttemptContracts_def validateOne_def split: option.splits)
  also have "contract_error ?c ?x = None \<longleftrightarrow> unit_visible (approved_of_row n) (a_attempt_id a) (w_repo w) (w_branch w)"
    unfolding id projected_valid using i by blast
  finally show ?thesis using v e by (auto simp: entitled_def)
next
  case False
  have "consumeQueueEnvelope v x d \<noteq> Ok c"
  proof
    assume ok: "consumeQueueEnvelope v x d = Ok c"
    then have v: "validateQueueEnvelope v = None" by (auto simp: consumeQueueEnvelope_def fail_def split: option.splits prod.splits)
    with ok obtain a where a: "getAttemptByJob (qe_job_id (as_envelope v)) d = Some a"
      by (auto simp: consumeQueueEnvelope_def Let_def split: if_splits option.splits)
    from a have "a \<in> set (attempts d)" by (auto simp: getAttemptByJob_def dest: find_SomeD)
    from reachable_attempt [OF assms this] obtain n w where
      "get_node_row (a_work_id a) (a_node_id a) d = Some n" "get_work_row (a_work_id a) d = Some w" .
    with ok v a have "entitled (as_envelope v) x d a n w"
      unfolding consumeQueueEnvelope_def entitled_def Let_def by (auto split: if_splits)
    with False v show False by blast
  qed
  with False show ?thesis by blast
qed

theorem consume_exact_witness:
  "\<exists>a n w. entitled \<lparr> qe_job_id = ''job:w/n/1'', qe_attempt_id = ''w/n/1'', qe_node_id = ''n'', qe_work_id = ''w'' \<rparr>
     \<lparr> xe_node_id = ''n'', xe_attempt_id = ''w/n/1'', xe_target_repo = ''r'', xe_target_branch = ''b'' \<rparr> sc3 a n w"
proof -
  let ?q = "\<lparr> qe_job_id = ''job:w/n/1'', qe_attempt_id = ''w/n/1'', qe_node_id = ''n'', qe_work_id = ''w'' \<rparr>"
  let ?x = "\<lparr> xe_node_id = ''n'', xe_attempt_id = ''w/n/1'', xe_target_repo = ''r'', xe_target_branch = ''b'' \<rparr>"
  have "is_ok (consumeQueueEnvelope (envelope_js ?q) ?x sc3)" by code_simp
  then obtain c where "consumeQueueEnvelope (envelope_js ?q) ?x sc3 = Ok c" by (cases "consumeQueueEnvelope (envelope_js ?q) ?x sc3") auto
  moreover have "as_envelope (envelope_js ?q) = ?q" by code_simp
  ultimately show ?thesis using consume_exact [OF sc_reachable(3), of "envelope_js ?q" ?x c] by auto
qed

text \<open>
  C17. A worker is unaware of the graph: whatever batch of contracts is delivered, one that
  is accepted consists of exactly one contract, which carries no topology key at any depth,
  names the expected unit and target, and has distinct criterion ids.
\<close>
theorem accepted_contract_is_dag_unaware:
  assumes "validateAttemptContracts inputs x = Inr vc"
  shows "inputs = Arr [vc_contract vc] \<and> \<not> carries_topology (vc_contract vc)
    \<and> fld (vc_contract vc) ''node_id'' = Str (xe_node_id x) \<and> fld (vc_contract vc) ''attempt_id'' = Str (xe_attempt_id x)
    \<and> fld (vc_contract vc) ''target_repo'' = Str (xe_target_repo x) \<and> fld (vc_contract vc) ''target_branch'' = Str (xe_target_branch x)
    \<and> vc_criteria_ids vc \<noteq> [] \<and> distinct (vc_criteria_ids vc)"
proof -
  from assms obtain v where v: "inputs = Arr [v]" "validateOne v x = Inr vc"
    by (auto simp: validateAttemptContracts_def split: js.splits list.splits)
  then have e: "contract_error v x = None" and vc: "vc_contract vc = v"
    "vc_criteria_ids vc = map (\<lambda>c. js_str (fld c ''id'')) (items (fld v ''acceptance_criteria''))"
    by (auto simp: validateOne_def split: option.splits)
  from e have "validateCriteria (fld v ''acceptance_criteria'') = None" by (simp only: contract_error_None)
  then have "items (fld v ''acceptance_criteria'') \<noteq> []" "check_criteria [] (items (fld v ''acceptance_criteria'')) = None"
    by (auto simp: validateCriteria_def split: if_splits)
  with e v(1) show ?thesis unfolding vc contract_error_None check_criteria_None by simp
qed

theorem accepted_contract_is_dag_unaware_witness:
  "\<not> carries_topology (projectAttemptContract (approved_of_row (hd (nodes sc3))) ''w'' ''w/n/1'' 1 ''r'' ''b'')"
proof -
  let ?c = "projectAttemptContract (approved_of_row (hd (nodes sc3))) ''w'' ''w/n/1'' 1 ''r'' ''b''"
  let ?x = "\<lparr> xe_node_id = ''n'', xe_attempt_id = ''w/n/1'', xe_target_repo = ''r'', xe_target_branch = ''b'' \<rparr>"
  have "isl (validateAttemptContracts (Arr [?c]) ?x) = False" by code_simp
  then obtain vc where "validateAttemptContracts (Arr [?c]) ?x = Inr vc" by (cases "validateAttemptContracts (Arr [?c]) ?x") auto
  from accepted_contract_is_dag_unaware [OF this] have "Arr [?c] = Arr [vc_contract vc]" "\<not> carries_topology (vc_contract vc)"
    by blast+
  then show ?thesis by (simp only: js.inject list.inject simp_thms)
qed

section \<open>Reconciliation\<close>

lemma for_each_run:
  "for_each f xs s = r \<Longrightarrow> P s \<Longrightarrow> (\<And>x s. x \<in> set xs \<Longrightarrow> P s \<Longrightarrow> P (case_sum id id (f x s))) \<Longrightarrow> P (case_sum id id r)"
proof (induction xs arbitrary: s)
  case (Cons x xs)
  have "P (case_sum id id (f x s))" using Cons.prems(2,3) by simp
  with Cons show ?case by (cases "f x s") (auto simp: id_def)
qed auto

text \<open>A loop that ends normally has done its work on every element, when later steps keep it done.\<close>

lemma for_each_done:
  assumes "for_each f xs s = Inr s'" "I s" "\<And>x s t. I s \<Longrightarrow> f x s = Inr t \<Longrightarrow> I t \<and> Q x t"
    "\<And>x y s t. I s \<Longrightarrow> Q x s \<Longrightarrow> f y s = Inr t \<Longrightarrow> Q x t"
  shows "I s' \<and> (\<forall>x \<in> set xs. Q x s')"
proof -
  have keep: "for_each f ys s = Inr t \<Longrightarrow> I s \<Longrightarrow> Q x s \<Longrightarrow> Q x t" for ys s t x
  proof (induction ys arbitrary: s)
    case (Cons y ys)
    then obtain u where u: "f y s = Inr u" "for_each f ys u = Inr t" by (auto split: sum.splits)
    from assms(3) [OF Cons.prems(2) u(1)] assms(4) [OF Cons.prems(2,3) u(1)] Cons.IH [OF u(2)] show ?case by blast
  qed simp
  show ?thesis using assms(1,2)
  proof (induction xs arbitrary: s)
    case (Cons x xs)
    then obtain t where t: "f x s = Inr t" "for_each f xs t = Inr s'" by (auto split: sum.splits)
    with Cons.prems assms(3) have "I t" "Q x t" by blast+
    with Cons.IH [OF t(2)] keep [OF t(2)] show ?case by simp
  qed simp
qed

text \<open>The leased attempts whose lease has expired at a given time.\<close>

definition lapsed :: "int \<Rightarrow> db \<Rightarrow> string set" where
  "lapsed now d = {a_attempt_id a | a. a \<in> set (attempts d) \<and> a_state a = Leased
     \<and> (\<exists>l \<in> set (leases d). l_attempt_id l = a_attempt_id a \<and> l_expires_at l \<le> now)}"

lemma reclaim_lapsed:
  assumes "keys_ok d" "\<And>m. fst (reclaimLease e k ''reconciliation'' (Some now) d) \<noteq> Threw m"
  shows "lapsed now (snd (reclaimLease e k ''reconciliation'' (Some now) d)) \<subseteq> lapsed now d - {k}"
proof -
  have o: "isNonEmptyString (Str ''reconciliation'') (maxOwnerLength OL)" by code_simp
  then have e: "env_begin_error e = None"
    using assms(2) by (cases "env_begin_error e") (auto simp: reclaimLease_def begin_immediate_def)
  have drop: "lapsed now ((drop_lease k d)\<lparr> audit_log := l \<rparr>) \<subseteq> lapsed now d - {k}" for l
    by (auto simp: lapsed_def drop_lease_def t_update_def split: if_splits)
  show ?thesis
  proof (cases "get_attempt_row k d")
    case None
    then have "k \<notin> lapsed now d" by (auto simp: lapsed_def)
    with None show ?thesis using o e by (auto simp: reclaimLease_def begin_immediate_def simp del: t_get_None)
  next
    case a: (Some a)
    show ?thesis
    proof (cases "get_lease_row k d")
      case None
      then have "k \<notin> lapsed now d" by (force simp: lapsed_def)
      with None a show ?thesis using o e by (auto simp: reclaimLease_def begin_immediate_def simp del: t_get_None)
    next
      case l: (Some l)
      have "t_unique l_attempt_id (leases d)" using assms(1) by (simp add: keys_ok_def)
      with l have "l' = l" if "l' \<in> set (leases d)" "l_attempt_id l' = k" for l' using that by (metis t_unique_get option.inject)
      then have "k \<notin> lapsed now d" if "time_gt (l_expires_at l) (Some now)" using that by (auto simp: lapsed_def)
      with l a drop show ?thesis using o e
        by (auto simp: reclaimLease_def begin_immediate_def audit_def simp del: t_get_None)
    qed
  qed
qed

lemma complete_lapsed: "lapsed now (snd (completeAuthorizedResult e w n k d)) \<subseteq> lapsed now d"
proof -
  have "lapsed now (d\<lparr> attempts := t_update a_attempt_id k (\<lambda>r. r\<lparr> a_state := Completed \<rparr>) (attempts d) \<rparr>) \<subseteq> lapsed now d"
    by (auto simp: lapsed_def t_update_def split: if_splits)
  then have "lapsed now ((set_node_state w n v s d)
      \<lparr> attempts := t_update a_attempt_id k (\<lambda>r. r\<lparr> a_state := Completed \<rparr>) (attempts d), completion_authorizations := cs, audit_log := l \<rparr>)
      \<subseteq> lapsed now d" for v s cs l by (simp add: lapsed_def set_node_state_def)
  then show ?thesis
    by (auto simp: completeAuthorizedResult_def begin_immediate_def audit_def simp del: t_get_None split: option.splits)
qed

text \<open>The steps of a pass are steps of the store, whether they end normally or abort it.\<close>

lemma reconcile_steps:
  "store_step\<^sup>*\<^sup>* (rc_db s) (rc_db (case_sum id id (reconcile_created rp a s)))"
  "store_step\<^sup>*\<^sup>* (rc_db s) (rc_db (case_sum id id (reconcile_expired rp now a s)))"
  "store_step\<^sup>*\<^sup>* (rc_db s) (rc_db (case_sum id id (reconcile_authorized rp c s)))"
proof -
  show "store_step\<^sup>*\<^sup>* (rc_db s) (rc_db (case_sum id id (reconcile_created rp a s)))"
    by (auto simp: reconcile_created_def call_queue_def Let_def intro: st_job)
  have "store_step d (snd (reclaimLease e k ow t d))" for d e k ow t by (rule st_reclaim)
  then show "store_step\<^sup>*\<^sup>* (rc_db s) (rc_db (case_sum id id (reconcile_expired rp now a s)))"
    by (auto simp: reconcile_expired_def split: prod.splits outcome.splits) (metis r_into_rtranclp snd_conv)+
  have "store_step d (snd (completeAuthorizedResult e w n k d))" for d e k w n by (rule st_complete)
  then show "store_step\<^sup>*\<^sup>* (rc_db s) (rc_db (case_sum id id (reconcile_authorized rp c s)))"
    by (auto simp: reconcile_authorized_def call_queue_def Let_def split: prod.splits outcome.splits option.splits)
      (metis r_into_rtranclp snd_conv)+
qed

lemma reconcile_run: "store_step\<^sup>*\<^sup>* d (rc_db (case_sum id id (reconcile rp now d)))"
proof -
  have run: "store_step\<^sup>*\<^sup>* (rc_db s) (rc_db (case_sum id id (for_each f xs s)))"
    if "\<And>x s. store_step\<^sup>*\<^sup>* (rc_db s) (rc_db (case_sum id id (f x s)))" for f xs s
    by (rule for_each_run [where P = "\<lambda>t. store_step\<^sup>*\<^sup>* (rc_db s) (rc_db t)", OF refl])
      (simp, rule rtranclp_trans, assumption, rule that)
  define s0 where "s0 = \<lparr> rc_db = d, rc_calls = [] \<rparr>"
  define r1 where "r1 = for_each (reconcile_created rp) (listCreatedAttempts d) s0"
  have 1: "store_step\<^sup>*\<^sup>* d (rc_db (case_sum id id r1))"
    using run [OF reconcile_steps(1), of s0] by (simp add: r1_def s0_def)
  show ?thesis
  proof (cases r1)
    case (Inl s)
    with 1 show ?thesis by (simp add: reconcile_def r1_def s0_def)
  next
    case (Inr s1)
    define r2 where "r2 = for_each (reconcile_expired rp now) (listAttemptsNeedingReconciliation now (rc_db s1)) s1"
    have "store_step\<^sup>*\<^sup>* (rc_db s1) (rc_db (case_sum id id r2))"
      unfolding r2_def by (rule run [OF reconcile_steps(2)])
    with 1 Inr have 2: "store_step\<^sup>*\<^sup>* d (rc_db (case_sum id id r2))" by simp
    have r: "reconcile rp now d = (case r2 of Inl s \<Rightarrow> Inl s
        | Inr s2 \<Rightarrow> for_each (reconcile_authorized rp) (listAuthorizedResults (rc_db s2)) s2)"
      using Inr by (simp add: reconcile_def r1_def s0_def r2_def)
    show ?thesis
    proof (cases r2)
      case (Inr s2)
      with 2 have "store_step\<^sup>*\<^sup>* d (rc_db s2)" by simp
      also have "store_step\<^sup>*\<^sup>* (rc_db s2) (rc_db (case_sum id id (for_each (reconcile_authorized rp) (listAuthorizedResults (rc_db s2)) s2)))"
        by (rule run [OF reconcile_steps(3)])
      finally show ?thesis using Inr r by simp
    qed (use 2 r in simp)
  qed
qed

lemma step_Inr:
  "reconcile_created rp a s = Inr t \<Longrightarrow> Ensure (makeQueueEnvelope (a_work_id a) (a_node_id a) (a_attempt_number a)) \<in> set (rc_calls t)
     \<and> set (rc_calls s) \<subseteq> set (rc_calls t)"
  "reconcile_expired rp now a s = Inr t \<Longrightarrow> keys_ok (rc_db s) \<Longrightarrow> rc_calls t = rc_calls s \<and> lapsed now (rc_db t) \<subseteq> lapsed now (rc_db s)
     \<and> (a_state a = Leased \<longrightarrow> a_attempt_id a \<notin> lapsed now (rc_db t))"
  "reconcile_authorized rp c s = Inr t \<Longrightarrow> set (rc_calls s) \<subseteq> set (rc_calls t) \<and> lapsed now (rc_db t) \<subseteq> lapsed now (rc_db s)"
proof -
  show "reconcile_created rp a s = Inr t \<Longrightarrow> Ensure (makeQueueEnvelope (a_work_id a) (a_node_id a) (a_attempt_number a)) \<in> set (rc_calls t)
     \<and> set (rc_calls s) \<subseteq> set (rc_calls t)"
    by (auto simp: reconcile_created_def call_queue_def Let_def split: if_splits)
next
  assume "reconcile_expired rp now a s = Inr t" "keys_ok (rc_db s)"
  then show "rc_calls t = rc_calls s \<and> lapsed now (rc_db t) \<subseteq> lapsed now (rc_db s)
     \<and> (a_state a = Leased \<longrightarrow> a_attempt_id a \<notin> lapsed now (rc_db t))"
    using reclaim_lapsed [of "rc_db s" "rp_reclaim_env rp (a_attempt_id a)" "a_attempt_id a" now]
    by (auto simp: reconcile_expired_def split: if_splits prod.splits outcome.splits)
next
  assume "reconcile_authorized rp c s = Inr t"
  then show "set (rc_calls s) \<subseteq> set (rc_calls t) \<and> lapsed now (rc_db t) \<subseteq> lapsed now (rc_db s)"
    using complete_lapsed [of now "rp_complete_env rp (c_attempt_id c)" "c_work_id c" "c_node_id c" "c_attempt_id c" "rc_db s"]
    by (auto simp: reconcile_authorized_def call_queue_def Let_def split: if_splits prod.splits outcome.splits option.splits)
qed

lemma reconcile_Inr:
  assumes "reconcile rp now d = Inr s"
  obtains s1 s2 where "for_each (reconcile_created rp) (listCreatedAttempts d) \<lparr> rc_db = d, rc_calls = [] \<rparr> = Inr s1"
    "for_each (reconcile_expired rp now) (listAttemptsNeedingReconciliation now (rc_db s1)) s1 = Inr s2"
    "for_each (reconcile_authorized rp) (listAuthorizedResults (rc_db s2)) s2 = Inr s"
  using assms unfolding reconcile_def by (auto split: sum.splits)

lemma lapsed_listed:
  "k \<in> lapsed now d \<Longrightarrow> \<exists>a \<in> set (listAttemptsNeedingReconciliation now d). a_state a = Leased \<and> a_attempt_id a = k"
  by (force simp: lapsed_def listAttemptsNeedingReconciliation_def)

text \<open>
  C18. Startup reconciliation: a pass, aborted or not, is a run of the store; a pass that
  ends has asked the queue for the job of every attempt that was created, and leaves no
  leased attempt whose lease has expired.
\<close>
theorem reconcile_pass:
  assumes "reachable d"
  shows "store_step\<^sup>*\<^sup>* d (rc_db (case_sum id id (reconcile rp now d)))
    \<and> (\<forall>s. reconcile rp now d = Inr s \<longrightarrow>
         (\<forall>a \<in> set (listCreatedAttempts d). Ensure (makeQueueEnvelope (a_work_id a) (a_node_id a) (a_attempt_number a)) \<in> set (rc_calls s))
         \<and> lapsed now (rc_db s) = {})"
proof (intro conjI allI impI ballI reconcile_run)
  fix s assume "reconcile rp now d = Inr s"
  then obtain s1 s2 where
    1: "for_each (reconcile_created rp) (listCreatedAttempts d) \<lparr> rc_db = d, rc_calls = [] \<rparr> = Inr s1" and
    2: "for_each (reconcile_expired rp now) (listAttemptsNeedingReconciliation now (rc_db s1)) s1 = Inr s2" and
    3: "for_each (reconcile_authorized rp) (listAuthorizedResults (rc_db s2)) s2 = Inr s" by (rule reconcile_Inr)
  let ?Q = "\<lambda>a s. Ensure (makeQueueEnvelope (a_work_id a) (a_node_id a) (a_attempt_number a)) \<in> set (rc_calls s)"
  have reach: "reachable (rc_db t)" if "reachable (rc_db s)" "store_step\<^sup>*\<^sup>* (rc_db s) (rc_db (case_sum id id r))" "r = Inr t" for r s t
    using rtranclp_trans [OF that(1,2)] that(3) by simp
  have q1: "reachable (rc_db s1) \<and> (\<forall>a \<in> set (listCreatedAttempts d). ?Q a s1)"
  proof (rule for_each_done [where I = "\<lambda>s. reachable (rc_db s)", OF 1])
    show "reachable (rc_db u) \<and> ?Q a u" if "reachable (rc_db t)" "reconcile_created rp a t = Inr u" for a t u
      using reach [OF that(1) reconcile_steps(1) that(2)] step_Inr(1) [OF that(2)] by blast
    show "?Q a u" if "?Q a t" "reconcile_created rp b t = Inr u" for a b t u using that(1) step_Inr(1) [OF that(2)] by blast
  qed (use assms in simp)
  have q2: "(reachable (rc_db s2) \<and> rc_calls s2 = rc_calls s1 \<and> lapsed now (rc_db s2) \<subseteq> lapsed now (rc_db s1))
      \<and> (\<forall>a \<in> set (listAttemptsNeedingReconciliation now (rc_db s1)). a_state a = Leased \<longrightarrow> a_attempt_id a \<notin> lapsed now (rc_db s2))"
  proof (rule for_each_done [OF 2])
    show "(reachable (rc_db u) \<and> rc_calls u = rc_calls s1 \<and> lapsed now (rc_db u) \<subseteq> lapsed now (rc_db s1))
        \<and> (a_state a = Leased \<longrightarrow> a_attempt_id a \<notin> lapsed now (rc_db u))"
      if "reachable (rc_db t) \<and> rc_calls t = rc_calls s1 \<and> lapsed now (rc_db t) \<subseteq> lapsed now (rc_db s1)"
        "reconcile_expired rp now a t = Inr u" for a t u
      using that reach [OF _ reconcile_steps(2) that(2)] step_Inr(2) [OF that(2)] reachable_parts(1) [of "rc_db t"] by auto
    show "a_state a = Leased \<longrightarrow> a_attempt_id a \<notin> lapsed now (rc_db u)"
      if "reachable (rc_db t) \<and> rc_calls t = rc_calls s1 \<and> lapsed now (rc_db t) \<subseteq> lapsed now (rc_db s1)"
        "a_state a = Leased \<longrightarrow> a_attempt_id a \<notin> lapsed now (rc_db t)" "reconcile_expired rp now b t = Inr u" for a b t u
      using that step_Inr(2) [OF that(3)] reachable_parts(1) [of "rc_db t"] by auto
  qed (use q1 in simp)
  have q3: "(set (rc_calls s2) \<subseteq> set (rc_calls s) \<and> lapsed now (rc_db s) \<subseteq> lapsed now (rc_db s2)) \<and> (\<forall>c \<in> set (listAuthorizedResults (rc_db s2)). True)"
    by (rule for_each_done [OF 3]) (simp, use step_Inr(3) in blast, simp)
  from q2 lapsed_listed have "lapsed now (rc_db s2) = {}" by blast
  with q3 show "lapsed now (rc_db s) = {}" by blast
  fix a assume "a \<in> set (listCreatedAttempts d)"
  with q1 q2 q3 show "?Q a s" by auto
qed

theorem reconcile_pass_witness:
  "''w/n/1'' \<in> lapsed 3000 sc4
   \<and> (\<exists>s. reconcile \<lparr> rp_throws = (\<lambda>_. False), rp_reclaim_env = (\<lambda>_. sc_env), rp_complete_env = (\<lambda>_. sc_env) \<rparr> 3000 sc4 = Inr s
        \<and> lapsed 3000 (rc_db s) = {})"
proof -
  let ?rp = "\<lparr> rp_throws = (\<lambda>_. False), rp_reclaim_env = (\<lambda>_. sc_env), rp_complete_env = (\<lambda>_. sc_env) \<rparr>"
  have "list_ex (\<lambda>a. a_attempt_id a = ''w/n/1'' \<and> a_state a = Leased
      \<and> list_ex (\<lambda>l. l_attempt_id l = a_attempt_id a \<and> l_expires_at l \<le> 3000) (leases sc4)) (attempts sc4)" by code_simp
  then have "''w/n/1'' \<in> lapsed 3000 sc4" unfolding list_ex_iff lapsed_def by force
  moreover have "isl (reconcile ?rp 3000 sc4) = False" by code_simp
  then obtain s where "reconcile ?rp 3000 sc4 = Inr s" by (cases "reconcile ?rp 3000 sc4") auto
  moreover note reconcile_pass [OF sc_reachable(4), of ?rp 3000]
  ultimately show ?thesis by blast
qed

end
