(* ===== verification/Routing_Policy.thy ===== *)
theory Routing_Policy
  imports Approved_Models
begin

text \<open>
  Routing policies: the publication check of
  \<^verbatim>\<open>model-routing-and-evaluation/routing-policy.ts\<close> and the four loaders of
  \<^verbatim>\<open>bootstrap-policy.ts\<close> (bootstrap and eval-derived, for the pool worker and for the
  orchestrator control plane).

  Everything a loader throws is a value of \<open>policy_error\<close>, one constructor per kind of throw
  with the role, field or value it is about. The class instances that implement
  \<^verbatim>\<open>RoutingPolicy\<close> differ in where a capability rank comes from, which is the optional
  field \<open>pol_rank\<close>. Reading the fixture files is I/O and outside the model.
\<close>

section \<open>Errors and shapes\<close>

datatype policy_error =
    MustBeObject string
  | UnknownFields string "string list"
  | PrimaryNotApproved string js
  | FallbackNotArray string
  | FallbackNotApproved string js
  | DuplicateCandidate string string
  | RankOfUnapproved "string list"
  | RankInvalid string
  | RankDuplicate js_num
  | RanksNotUnique
  | RuleMustBeTrue string
  | RuleMustBeBoolean string
  | RulesMissing
  | MissingRole string
  | DisallowedRoles "string list"
  | RoleNotAllowed string
  | DuplicateRole string
  | ActorMustBe string
  | VersionInvalid string
  | StatusMustBe string
  | SourceMissing

type_synonym 'a policy_result = "policy_error + 'a"

record role_config =
  rk_primary :: string
  rk_fallback :: "string list"

record routing_policy =
  pol_version :: int
  pol_status :: string
  pol_actor :: string
  pol_roles :: "(string \<times> role_config) list"
  pol_rules :: js
  pol_rank :: "(string \<times> int) list option"

definition rk_candidates :: "role_config \<Rightarrow> string list" where
  "rk_candidates c = rk_primary c # rk_fallback c"

definition getRoleConfig :: "routing_policy \<Rightarrow> string \<Rightarrow> role_config option" where
  "getRoleConfig p role = map_of (pol_roles p) role"

definition hasRule :: "routing_policy \<Rightarrow> string \<Rightarrow> bool" where
  "hasRule p name = hasOwnField (pol_rules p) name"

definition getRule :: "routing_policy \<Rightarrow> string \<Rightarrow> js" where
  "getRule p name = fld (pol_rules p) name"

definition policy_rank :: "routing_policy \<Rightarrow> string \<Rightarrow> int option" where
  "policy_rank p m = (case pol_rank p of Some rank \<Rightarrow> map_of rank m | None \<Rightarrow> getCapabilityRank m)"

section \<open>Shared assertions\<close>

text \<open>An assertion answers with what it throws, or None.\<close>

fun isSafeInteger :: "js_num \<Rightarrow> bool" where
  "isSafeInteger (Fin r) = (of_int \<lfloor>r\<rfloor> = r \<and> \<bar>r\<bar> \<le> 9007199254740991)"
| "isSafeInteger _ = False"

fun assertPositiveIntegerVersion :: "js \<Rightarrow> string \<Rightarrow> policy_error option" where
  "assertPositiveIntegerVersion (Num n) label = (if \<not> isSafeInteger n \<or> num_lt n (Fin 1) then Some (VersionInvalid label) else None)"
| "assertPositiveIntegerVersion _ label = Some (VersionInvalid label)"

definition assertObject :: "js \<Rightarrow> string \<Rightarrow> policy_error option" where
  "assertObject v label = (if is_object v then None else Some (MustBeObject label))"

text \<open>The own keys; those of an array are its indices.\<close>

fun own_keys :: "js \<Rightarrow> string list" where
  "own_keys (Arr xs) = map nat_str [0..<length xs]"
| "own_keys v = Object_keys v"

definition assertNoUnknownFields :: "js \<Rightarrow> string list \<Rightarrow> string \<Rightarrow> policy_error option" where
  "assertNoUnknownFields v allowed label =
     or_else (assertObject v label)
       (let unknown = filter (\<lambda>k. k \<notin> set allowed) (own_keys v) in
        if unknown \<noteq> [] then Some (UnknownFields label unknown) else None)"

fun check_fallback :: "string \<Rightarrow> string list \<Rightarrow> js list \<Rightarrow> policy_error option" where
  "check_fallback role seen [] = None"
| "check_fallback role seen (entry # es) =
     (if \<not> isApprovedModelId entry then Some (FallbackNotApproved role entry)
      else if js_str entry \<in> set seen then Some (DuplicateCandidate role (js_str entry))
      else check_fallback role (js_str entry # seen) es)"

definition assertValidRoleConfig :: "string \<Rightarrow> js \<Rightarrow> role_config policy_result" where
  "assertValidRoleConfig role config =
     (case or_else (assertObject config (''Role '' @ role @ '' config''))
          (or_else (assertNoUnknownFields config [''primary'', ''fallback''] (''role '' @ role @ '' config''))
          (or_else (if \<not> isApprovedModelId (fld config ''primary'') then Some (PrimaryNotApproved role (fld config ''primary'')) else None)
          (or_else (if \<not> is_array (fld config ''fallback'') then Some (FallbackNotArray role) else None)
                   (check_fallback role [js_str (fld config ''primary'')] (items (fld config ''fallback''))))))  of
        Some e \<Rightarrow> Inl e
      | None \<Rightarrow> Inr \<lparr> rk_primary = js_str (fld config ''primary''), rk_fallback = map js_str (items (fld config ''fallback'')) \<rparr>)"

section \<open>Capability ranks\<close>

fun rank_value_ok :: "js \<Rightarrow> bool" where
  "rank_value_ok (Num n) = (is_integer n \<and> \<not> num_lt n (Fin 1) \<and> \<not> num_lt (Fin (of_nat (length APPROVED_MODELS))) n)"
| "rank_value_ok _ = False"

fun check_ranks :: "js \<Rightarrow> js_num list \<Rightarrow> string list \<Rightarrow> policy_error option" where
  "check_ranks rank seen [] = (if length seen \<noteq> length APPROVED_MODELS then Some RanksNotUnique else None)"
| "check_ranks rank seen (i # ids) =
     (if \<not> rank_value_ok (fld rank i) then Some (RankInvalid i)
      else if js_number (fld rank i) \<in> set seen then Some (RankDuplicate (js_number (fld rank i)))
      else check_ranks rank (js_number (fld rank i) # seen) ids)"

definition validateCapabilityRank :: "js \<Rightarrow> policy_error option" where
  "validateCapabilityRank rank =
     (let extraKeys = filter (\<lambda>k. k \<notin> set APPROVED_MODELS) (own_keys rank) in
      if extraKeys \<noteq> [] then Some (RankOfUnapproved extraKeys) else check_ranks rank [] APPROVED_MODELS)"

section \<open>Roles and rules\<close>

definition WORKER_ROLES :: "string list" where
  "WORKER_ROLES = [''node_conductor'', ''planning'', ''building'', ''assessing'', ''tightening'', ''sharpening'', ''failure_diagnosis'']"

definition ORCHESTRATOR_ROLES :: "string list" where
  "ORCHESTRATOR_ROLES = [''decomposition'']"

definition WORKER_RULES :: "string list" where
  "WORKER_RULES = [''builderEvaluatorMustDiffer'', ''evaluatorMustNotBeLowerCapability'', ''reserveSolFromNormalBuilding'',
     ''failClosedOnUnavailableExplicitModel'']"

definition ORCHESTRATOR_RULES :: "string list" where
  "ORCHESTRATOR_RULES = [''failClosedOnUnavailableExplicitModel'']"

fun is_boolean :: "js \<Rightarrow> bool" where
  "is_boolean (Bool _) = True"
| "is_boolean _ = False"

definition check_booleans :: "js \<Rightarrow> string list \<Rightarrow> policy_error option" where
  "check_booleans rules names =
     first_some (\<lambda>name. if hasOwnField rules name \<and> \<not> is_boolean (fld rules name) then Some (RuleMustBeBoolean name) else None) names"

definition check_mandatory :: "js \<Rightarrow> string list \<Rightarrow> policy_error option" where
  "check_mandatory rules names =
     first_some (\<lambda>name. if fld rules name \<noteq> Bool True then Some (RuleMustBeTrue name) else None) names"

definition assertWorkerRules :: "js \<Rightarrow> policy_error option" where
  "assertWorkerRules rules =
     or_else (assertNoUnknownFields rules WORKER_RULES ''rules'')
    (or_else (check_mandatory rules [''builderEvaluatorMustDiffer'', ''evaluatorMustNotBeLowerCapability''])
             (check_booleans rules WORKER_RULES))"

definition assertOrchestratorRules :: "js \<Rightarrow> policy_error option" where
  "assertOrchestratorRules rules =
     or_else (assertNoUnknownFields rules ORCHESTRATOR_RULES ''rules'') (check_booleans rules ORCHESTRATOR_RULES)"

text \<open>The constructors fill a map role by role; the first bad role ends the load.\<close>

fun required_roles :: "js \<Rightarrow> string list \<Rightarrow> (string \<times> role_config) list policy_result" where
  "required_roles roles [] = Inr []"
| "required_roles roles (role # rs) =
     (if \<not> js_truthy (fld roles role) then Inl (MissingRole role)
      else case assertValidRoleConfig role (fld roles role) of
        Inl e \<Rightarrow> Inl e
      | Inr c \<Rightarrow> (case required_roles roles rs of Inl e \<Rightarrow> Inl e | Inr m \<Rightarrow> Inr ((role, c) # m)))"

definition leaked_roles :: "js \<Rightarrow> string list \<Rightarrow> policy_error option" where
  "leaked_roles roles allowed =
     (let leaked = filter (\<lambda>r. r \<notin> set allowed) (own_keys roles) in if leaked \<noteq> [] then Some (DisallowedRoles leaked) else None)"

section \<open>Bootstrap loaders\<close>

definition BOOTSTRAP_STATUS :: string where
  "BOOTSTRAP_STATUS = ''bootstrap-until-eval-derived''"

definition BootstrapWorkerPolicy :: "js \<Rightarrow> routing_policy policy_result" where
  "BootstrapWorkerPolicy shape =
     (case validateCapabilityRank (fld shape ''capability_rank'') of
        Some e \<Rightarrow> Inl e
      | None \<Rightarrow>
          (case required_roles (fld shape ''roles'') WORKER_ROLES of
             Inl e \<Rightarrow> Inl e
           | Inr roleMap \<Rightarrow>
               (case or_else (leaked_roles (fld shape ''roles'') WORKER_ROLES) (assertWorkerRules (fld shape ''rules'')) of
                  Some e \<Rightarrow> Inl e
                | None \<Rightarrow> Inr \<lparr> pol_version = js_int (fld shape ''version''), pol_status = js_str (fld shape ''status''),
                    pol_actor = ''pool-worker'', pol_roles = roleMap, pol_rules = fld shape ''rules'', pol_rank = None \<rparr>)))"

definition BootstrapOrchestratorPolicy :: "js \<Rightarrow> routing_policy policy_result" where
  "BootstrapOrchestratorPolicy shape =
     (if fld shape ''actor'' \<noteq> Str ''orchestrator-control-plane'' then Inl (ActorMustBe ''orchestrator-control-plane'')
      else case required_roles (fld shape ''roles'') ORCHESTRATOR_ROLES of
        Inl e \<Rightarrow> Inl e
      | Inr roleMap \<Rightarrow>
          (case or_else (leaked_roles (fld shape ''roles'') ORCHESTRATOR_ROLES) (assertOrchestratorRules (fld shape ''rules'')) of
             Some e \<Rightarrow> Inl e
           | None \<Rightarrow> Inr \<lparr> pol_version = js_int (fld shape ''version''), pol_status = js_str (fld shape ''status''),
               pol_actor = js_str (fld shape ''actor''), pol_roles = roleMap, pol_rules = fld shape ''rules'', pol_rank = None \<rparr>))"

definition loadWorkerBootstrapPolicy :: "js \<Rightarrow> routing_policy policy_result" where
  "loadWorkerBootstrapPolicy json =
     (case or_else (assertObject json ''Worker bootstrap policy'')
          (or_else (assertNoUnknownFields json [''version'', ''status'', ''capability_rank'', ''roles'', ''rules''] ''worker bootstrap'')
          (or_else (assertPositiveIntegerVersion (fld json ''version'') ''Worker bootstrap version'')
          (or_else (if fld json ''status'' \<noteq> Str BOOTSTRAP_STATUS then Some (StatusMustBe BOOTSTRAP_STATUS) else None)
          (or_else (assertObject (fld json ''capability_rank'') ''Worker bootstrap capability_rank'')
          (or_else (assertObject (fld json ''roles'') ''Worker bootstrap roles'')
                   (assertObject (fld json ''rules'') ''Worker bootstrap rules'')))))) of
        Some e \<Rightarrow> Inl e
      | None \<Rightarrow> BootstrapWorkerPolicy json)"

definition loadOrchestratorBootstrapPolicy :: "js \<Rightarrow> routing_policy policy_result" where
  "loadOrchestratorBootstrapPolicy json =
     (case or_else (assertObject json ''Orchestrator bootstrap policy'')
          (or_else (assertNoUnknownFields json [''version'', ''status'', ''actor'', ''roles'', ''rules''] ''orchestrator bootstrap'')
          (or_else (assertPositiveIntegerVersion (fld json ''version'') ''Orchestrator bootstrap version'')
          (or_else (if fld json ''status'' \<noteq> Str BOOTSTRAP_STATUS then Some (StatusMustBe BOOTSTRAP_STATUS) else None)
          (or_else (assertObject (fld json ''roles'') ''Orchestrator bootstrap roles'')
                   (assertObject (fld json ''rules'') ''Orchestrator bootstrap rules''))))) of
        Some e \<Rightarrow> Inl e
      | None \<Rightarrow> BootstrapOrchestratorPolicy json)"

section \<open>Eval-derived publications\<close>

fun parse_roles :: "js \<Rightarrow> string list \<Rightarrow> string list \<Rightarrow> (string \<times> role_config) list policy_result" where
  "parse_roles roles allowedRoles [] = Inr []"
| "parse_roles roles allowedRoles (role # rs) =
     (if role \<notin> set allowedRoles then Inl (RoleNotAllowed role)
      else case assertValidRoleConfig role (fld roles role) of
        Inl e \<Rightarrow> Inl e
      | Inr c \<Rightarrow> (case parse_roles roles allowedRoles rs of Inl e \<Rightarrow> Inl e | Inr m \<Rightarrow> Inr ((role, c) # m)))"

definition parseEvalRoleMap :: "js \<Rightarrow> string list \<Rightarrow> (string \<times> role_config) list policy_result" where
  "parseEvalRoleMap roles allowedRoles =
     (case assertObject roles ''Publication roles'' of
        Some e \<Rightarrow> Inl e
      | None \<Rightarrow> parse_roles roles allowedRoles (own_keys roles))"

definition parseEvalCapabilityRank :: "js \<Rightarrow> (string \<times> int) list policy_result" where
  "parseEvalCapabilityRank rank =
     (case or_else (assertObject rank ''Publication capability_rank'') (validateCapabilityRank rank) of
        Some e \<Rightarrow> Inl e
      | None \<Rightarrow> Inr (map (\<lambda>k. (k, js_int (fld rank k))) (own_keys rank)))"

definition parseEvalRules :: "js \<Rightarrow> string list \<Rightarrow> string list \<Rightarrow> js policy_result" where
  "parseEvalRules rules allowedRules mandatoryTrue =
     (if rules = Undefined then (if mandatoryTrue \<noteq> [] then Inl RulesMissing else Inr (plain []))
      else case or_else (assertObject rules ''Publication rules'')
          (or_else (assertNoUnknownFields rules allowedRules ''rules'')
          (or_else (check_booleans rules allowedRules) (check_mandatory rules mandatoryTrue))) of
        Some e \<Rightarrow> Inl e
      | None \<Rightarrow> Inr rules)"

definition assertEvalPublicationEnvelope :: "js \<Rightarrow> string \<Rightarrow> string list \<Rightarrow> policy_error option" where
  "assertEvalPublicationEnvelope json allowedActor allowedFields =
     or_else (assertObject json ''Eval-derived publication'')
    (or_else (if fld json ''actor'' \<noteq> Str allowedActor then Some (ActorMustBe allowedActor) else None)
    (or_else (assertNoUnknownFields json allowedFields ''eval-derived publication'')
    (or_else (assertPositiveIntegerVersion (fld json ''version'') ''Publication version'')
    (or_else (if fld json ''status'' \<noteq> Str ''eval-derived'' then Some (StatusMustBe ''eval-derived'') else None)
             (if js_str (fld json ''source'') = [] then Some SourceMissing else None)))))"

definition EvalDerivedPolicy ::
  "js \<Rightarrow> (string \<times> role_config) list \<Rightarrow> js \<Rightarrow> (string \<times> int) list option \<Rightarrow> routing_policy" where
  "EvalDerivedPolicy envelope roles rules capabilityRank =
     \<lparr> pol_version = js_int (fld envelope ''version''), pol_status = js_str (fld envelope ''status''),
       pol_actor = js_str (fld envelope ''actor''), pol_roles = roles, pol_rules = rules, pol_rank = capabilityRank \<rparr>"

definition loadWorkerEvalPublication :: "js \<Rightarrow> routing_policy policy_result" where
  "loadWorkerEvalPublication json =
     (case assertEvalPublicationEnvelope json ''pool-worker''
             [''version'', ''status'', ''actor'', ''source'', ''capability_rank'', ''roles'', ''rules''] of
        Some e \<Rightarrow> Inl e
      | None \<Rightarrow>
          (case parseEvalCapabilityRank (fld json ''capability_rank'') of
             Inl e \<Rightarrow> Inl e
           | Inr capabilityRank \<Rightarrow>
               (case parseEvalRoleMap (fld json ''roles'') WORKER_ROLES of
                  Inl e \<Rightarrow> Inl e
                | Inr roles \<Rightarrow>
                    (case parseEvalRules (fld json ''rules'') WORKER_RULES [''builderEvaluatorMustDiffer'', ''evaluatorMustNotBeLowerCapability''] of
                       Inl e \<Rightarrow> Inl e
                     | Inr rules \<Rightarrow> Inr (EvalDerivedPolicy json roles rules (Some capabilityRank))))))"

definition loadOrchestratorEvalPublication :: "js \<Rightarrow> routing_policy policy_result" where
  "loadOrchestratorEvalPublication json =
     (case assertEvalPublicationEnvelope json ''orchestrator-control-plane''
             [''version'', ''status'', ''actor'', ''source'', ''roles'', ''rules''] of
        Some e \<Rightarrow> Inl e
      | None \<Rightarrow>
          (case parseEvalRoleMap (fld json ''roles'') ORCHESTRATOR_ROLES of
             Inl e \<Rightarrow> Inl e
           | Inr roles \<Rightarrow>
               (case parseEvalRules (fld json ''rules'') ORCHESTRATOR_RULES [] of
                  Inl e \<Rightarrow> Inl e
                | Inr rules \<Rightarrow> Inr (EvalDerivedPolicy json roles rules None))))"

section \<open>The publication check\<close>

text \<open>This check tests \<^verbatim>\<open>typeof v === 'object'\<close> only, so it lets arrays through.\<close>

definition truthy_object :: "js \<Rightarrow> bool" where
  "truthy_object v = (is_object v \<or> is_array v)"

definition assertNoUnknownRoleFields :: "js \<Rightarrow> policy_error option" where
  "assertNoUnknownRoleFields config =
     (let unknown = filter (\<lambda>k. k \<notin> {''primary'', ''fallback''}) (own_keys config) in
      if unknown \<noteq> [] then Some (UnknownFields ''role config'' unknown) else None)"

fun check_publication_roles :: "js \<Rightarrow> string list \<Rightarrow> string list \<Rightarrow> string list \<Rightarrow> policy_error option" where
  "check_publication_roles roles allowedRoles seen [] = None"
| "check_publication_roles roles allowedRoles seen (role # rs) =
     (if role \<notin> set allowedRoles then Some (RoleNotAllowed role)
      else if role \<in> set seen then Some (DuplicateRole role)
      else let config = fld roles role in
       or_else (if \<not> truthy_object config then Some (MustBeObject (''Role '' @ role @ '' config'')) else None)
      (or_else (assertNoUnknownRoleFields config)
      (or_else (if \<not> isApprovedModelId (fld config ''primary'') then Some (PrimaryNotApproved role (fld config ''primary'')) else None)
      (or_else (if \<not> is_array (fld config ''fallback'') then Some (FallbackNotArray role) else None)
      (or_else (check_fallback role [js_str (fld config ''primary'')] (items (fld config ''fallback'')))
               (check_publication_roles roles allowedRoles (role # seen) rs))))))"

definition validateRoutingPolicyPublication :: "js \<Rightarrow> string \<Rightarrow> string list \<Rightarrow> js policy_result" where
  "validateRoutingPolicyPublication candidate allowedActor allowedRoles =
     (case or_else (if \<not> truthy_object candidate then Some (MustBeObject ''Publication'') else None)
          (or_else (assertPositiveIntegerVersion (fld candidate ''version'') ''Publication version'')
          (or_else (if fld candidate ''status'' \<noteq> Str ''eval-derived'' then Some (StatusMustBe ''eval-derived'') else None)
          (or_else (if fld candidate ''actor'' \<noteq> Str allowedActor then Some (ActorMustBe allowedActor) else None)
          (or_else (if js_str (fld candidate ''source'') = [] then Some SourceMissing else None)
          (or_else (if \<not> truthy_object (fld candidate ''roles'') then Some (MustBeObject ''Publication roles'') else None)
          (or_else (check_publication_roles (fld candidate ''roles'') allowedRoles [] (own_keys (fld candidate ''roles'')))
                   (let unknownFields = filter (\<lambda>k. k \<notin> {''version'', ''status'', ''actor'', ''source'', ''roles'', ''rules''}) (own_keys candidate) in
                    if unknownFields \<noteq> [] then Some (UnknownFields ''publication'' unknownFields) else None))))))) of
        Some e \<Rightarrow> Inl e
      | None \<Rightarrow> Inr candidate)"

end
