(* ===== verification/Model_Router.thy ===== *)
theory Model_Router
  imports Routing_Policy
begin

text \<open>
  The fail-closed model router (\<^verbatim>\<open>model-routing-and-evaluation/model-router.ts\<close>):
  availability snapshots, selection for a role, and selection of a builder and evaluator
  pair. A validated availability is the list of its model ids.
\<close>

section \<open>Failures and decisions\<close>

record routing_failure =
  rf_code :: string
  rf_role :: "string option"
  rf_requestedModel :: "string option"
  rf_reason :: string

record fallback_behavior =
  fb_primaryAvailable :: bool
  fb_selectedFallbackIndex :: "nat option"
  fb_skippedCandidates :: "(string \<times> string) list"

record routing_decision =
  rd_role :: string
  rd_selectedModel :: string
  rd_rationale :: "(string \<times> string) list"
  rd_policyVersion :: int
  rd_fallbackBehavior :: fallback_behavior

definition ROUTING_FAILURE_REASONS :: "(string \<times> string) list" where
  "ROUTING_FAILURE_REASONS = [
  (''INVALID_AVAILABILITY'', ''Availability snapshot must be an array''),
  (''INVALID_AVAILABILITY_ENTRY'', ''Availability entry must be an object''),
  (''MISSING_AVAILABILITY_FULL_ID'', ''Availability entry missing fullId string''),
  (''UNAPPROVED_AVAILABILITY_ID'', ''Availability entry is not an approved model''),
  (''INCONSISTENT_AVAILABILITY_PROVIDER'', ''Provider field does not match ID provider''),
  (''INCONSISTENT_AVAILABILITY_MODEL'', ''Model field does not match ID model''),
  (''DUPLICATE_AVAILABILITY_ID'', ''Duplicate availability entry''),
  (''UNKNOWN_ROLE'', ''Role has no routing configuration''),
  (''UNAPPROVED_EXPLICIT_MODEL'', ''Explicit model is not approved''),
  (''UNAVAILABLE_EXPLICIT_MODEL'', ''Explicit model is not available''),
  (''NO_AVAILABLE_CANDIDATE'', ''No available candidate for role''),
  (''MISSING_PAIR_POLICY'', ''Policy missing builder or evaluator role config''),
  (''PAIR_CONSTRUCTION_FAILED'', ''Failed to construct builder/evaluator decisions''),
  (''NO_VALID_BUILDER_EVALUATOR_PAIR'', ''No builder/evaluator pair satisfies policy constraints'')]"

definition createRoutingFailure :: "string \<Rightarrow> string option \<Rightarrow> string option \<Rightarrow> routing_failure" where
  "createRoutingFailure code role requestedModel =
     \<lparr> rf_code = code, rf_role = role, rf_requestedModel = requestedModel,
       rf_reason = (case map_of ROUTING_FAILURE_REASONS code of Some r \<Rightarrow> r | None \<Rightarrow> ''Routing failure'') \<rparr>"

definition createRoutingDecision ::
  "string \<Rightarrow> string \<Rightarrow> int \<Rightarrow> (string \<times> string) list \<Rightarrow> fallback_behavior \<Rightarrow> routing_decision" where
  "createRoutingDecision role selectedModel policyVersion rationale fallbackBehavior =
     \<lparr> rd_role = role, rd_selectedModel = selectedModel, rd_rationale = rationale, rd_policyVersion = policyVersion,
       rd_fallbackBehavior = fallbackBehavior \<rparr>"

text \<open>The JSON projections; undefined fields are left out.\<close>

definition routing_failure_js :: "routing_failure \<Rightarrow> js" where
  "routing_failure_js f = plain ([(''code'', Str (rf_code f)), (''reason'', Str (rf_reason f))]
     @ (case rf_role f of Some r \<Rightarrow> [(''role'', Str r)] | None \<Rightarrow> [])
     @ (case rf_requestedModel f of Some r \<Rightarrow> [(''requestedModel'', Str r)] | None \<Rightarrow> []))"

definition PROJECTED_FAILURE_FIELDS :: "string list" where
  "PROJECTED_FAILURE_FIELDS = [''code'', ''role'', ''requestedModel'', ''reason'']"

section \<open>Availability\<close>

fun check_availability :: "string list \<Rightarrow> js list \<Rightarrow> routing_failure + string list" where
  "check_availability values [] = Inr values"
| "check_availability values (entry # es) =
     (let fullId = js_str (fld entry ''fullId'') in
      if \<not> is_object entry then Inl (createRoutingFailure ''INVALID_AVAILABILITY_ENTRY'' None None)
      else if js_opt_str (fld entry ''fullId'') = None then Inl (createRoutingFailure ''MISSING_AVAILABILITY_FULL_ID'' None None)
      else if \<not> isApprovedModelId (fld entry ''fullId'') then Inl (createRoutingFailure ''UNAPPROVED_AVAILABILITY_ID'' None None)
      else if fld entry ''provider'' \<noteq> Undefined \<and> fld entry ''provider'' \<noteq> Str (getProvider fullId)
      then Inl (createRoutingFailure ''INCONSISTENT_AVAILABILITY_PROVIDER'' None (Some fullId))
      else if fld entry ''model'' \<noteq> Undefined \<and> js_opt_str (fld entry ''model'') \<noteq> getModelName fullId
      then Inl (createRoutingFailure ''INCONSISTENT_AVAILABILITY_MODEL'' None (Some fullId))
      else if fullId \<in> set values then Inl (createRoutingFailure ''DUPLICATE_AVAILABILITY_ID'' None (Some fullId))
      else check_availability (values @ [fullId]) es)"

definition validateAvailability :: "js \<Rightarrow> routing_failure + string list" where
  "validateAvailability input =
     (if \<not> is_array input then Inl (createRoutingFailure ''INVALID_AVAILABILITY'' None None)
      else check_availability [] (items input))"

section \<open>Selection for a role\<close>

type_synonym pick = "string \<times> (string \<times> string) list \<times> fallback_behavior"

fun pick_loop :: "string list \<Rightarrow> string \<Rightarrow> nat \<Rightarrow> (string \<times> string) list \<Rightarrow> string list \<Rightarrow> routing_failure + pick" where
  "pick_loop av role i skipped [] = Inl (createRoutingFailure ''NO_AVAILABLE_CANDIDATE'' (Some role) None)"
| "pick_loop av role i skipped (candidate # cs) =
     (if candidate \<in> set av then
        Inr (candidate,
          [(if i = 0 then ''primary_selected'' else ''fallback_selected'',
            if i = 0 then ''Primary candidate selected'' else ''Fallback candidate selected'')],
          \<lparr> fb_primaryAvailable = (i = 0), fb_selectedFallbackIndex = (if i = 0 then None else Some (i - 1)),
            fb_skippedCandidates = skipped \<rparr>)
      else pick_loop av role (Suc i) (skipped @ [(candidate, ''unavailable'')]) cs)"

definition pickCandidate :: "routing_policy \<Rightarrow> string \<Rightarrow> string list \<Rightarrow> string option \<Rightarrow> routing_failure + pick" where
  "pickCandidate policy role av explicitModelId =
     (case getRoleConfig policy role of
        None \<Rightarrow> Inl (createRoutingFailure ''UNKNOWN_ROLE'' None None)
      | Some config \<Rightarrow>
          (case explicitModelId of
             Some m \<Rightarrow>
               if \<not> isApprovedModelId (Str m) then Inl (createRoutingFailure ''UNAPPROVED_EXPLICIT_MODEL'' None None)
               else if m \<notin> set av then Inl (createRoutingFailure ''UNAVAILABLE_EXPLICIT_MODEL'' (Some role) (Some m))
               else Inr (m, [(''explicit_model_selected'', ''Explicit candidate selected'')],
                 \<lparr> fb_primaryAvailable = False, fb_selectedFallbackIndex = None, fb_skippedCandidates = [] \<rparr>)
           | None \<Rightarrow> pick_loop av role 0 [] (rk_candidates config)))"

definition selectForRole :: "routing_policy \<Rightarrow> string \<Rightarrow> string list \<Rightarrow> string option \<Rightarrow> routing_failure + routing_decision" where
  "selectForRole policy role av explicitModelId =
     (case pickCandidate policy role av explicitModelId of
        Inl f \<Rightarrow> Inl f
      | Inr (selected, rationale, fallback) \<Rightarrow> Inr (createRoutingDecision role selected (pol_version policy) rationale fallback))"

section \<open>Selection of a pair\<close>

record pair_options =
  po_explicitBuilder :: "string option"
  po_explicitEvaluator :: "string option"

text \<open>A comparison with an undefined rank is false.\<close>

definition rank_less :: "routing_policy \<Rightarrow> string \<Rightarrow> string \<Rightarrow> bool" where
  "rank_less policy a b = (case (policy_rank policy a, policy_rank policy b) of (Some x, Some y) \<Rightarrow> x < y | _ \<Rightarrow> False)"

text \<open>The guards shared by both loops: a candidate that is skipped, and the model it stands for.\<close>

definition effective :: "string list \<Rightarrow> string option \<Rightarrow> string \<Rightarrow> string option" where
  "effective av explicit candidate =
     (if candidate \<notin> set av then None
      else if explicit \<noteq> None \<and> explicit \<noteq> Some candidate then None
      else let m = (case explicit of Some x \<Rightarrow> x | None \<Rightarrow> candidate) in
      if \<not> isApprovedModelId (Str m) then None else if m \<notin> set av then None else Some m)"

definition build_pair :: "routing_policy \<Rightarrow> string list \<Rightarrow> string \<Rightarrow> string \<Rightarrow> routing_failure + routing_decision \<times> routing_decision" where
  "build_pair policy av b e =
     (case (selectForRole policy ''building'' av (Some b), selectForRole policy ''assessing'' av (Some e)) of
        (Inr builder, Inr evaluator) \<Rightarrow> Inr (builder, evaluator)
      | _ \<Rightarrow> Inl (createRoutingFailure ''PAIR_CONSTRUCTION_FAILED'' None None))"

fun evaluator_loop ::
  "routing_policy \<Rightarrow> string list \<Rightarrow> string option \<Rightarrow> string \<Rightarrow> string list \<Rightarrow> (routing_failure + routing_decision \<times> routing_decision) option" where
  "evaluator_loop policy av explicit b [] = None"
| "evaluator_loop policy av explicit b (candidate # cs) =
     (case effective av explicit candidate of
        None \<Rightarrow> evaluator_loop policy av explicit b cs
      | Some e \<Rightarrow>
          if b = e then evaluator_loop policy av explicit b cs
          else if rank_less policy e b then evaluator_loop policy av explicit b cs
          else Some (build_pair policy av b e))"

fun builder_loop ::
  "routing_policy \<Rightarrow> string list \<Rightarrow> pair_options \<Rightarrow> string list \<Rightarrow> string list \<Rightarrow> (routing_failure + routing_decision \<times> routing_decision) option" where
  "builder_loop policy av opts es [] = None"
| "builder_loop policy av opts es (candidate # cs) =
     (case effective av (po_explicitBuilder opts) candidate of
        None \<Rightarrow> builder_loop policy av opts es cs
      | Some b \<Rightarrow>
          (case evaluator_loop policy av (po_explicitEvaluator opts) b es of
             Some r \<Rightarrow> Some r
           | None \<Rightarrow> builder_loop policy av opts es cs))"

definition unapproved :: "string option \<Rightarrow> bool" where
  "unapproved explicit = (case explicit of Some m \<Rightarrow> \<not> isApprovedModelId (Str m) | None \<Rightarrow> False)"

definition selectBuilderEvaluatorPair ::
  "routing_policy \<Rightarrow> string list \<Rightarrow> pair_options \<Rightarrow> routing_failure + routing_decision \<times> routing_decision" where
  "selectBuilderEvaluatorPair policy av opts =
     (case (getRoleConfig policy ''building'', getRoleConfig policy ''assessing'') of
        (Some builderConfig, Some evaluatorConfig) \<Rightarrow>
          if unapproved (po_explicitBuilder opts) then Inl (createRoutingFailure ''UNAPPROVED_EXPLICIT_MODEL'' (Some ''building'') None)
          else if unapproved (po_explicitEvaluator opts) then Inl (createRoutingFailure ''UNAPPROVED_EXPLICIT_MODEL'' (Some ''assessing'') None)
          else (case builder_loop policy av opts (rk_candidates evaluatorConfig) (rk_candidates builderConfig) of
                  Some r \<Rightarrow> r
                | None \<Rightarrow> Inl (createRoutingFailure ''NO_VALID_BUILDER_EVALUATOR_PAIR'' None None))
      | _ \<Rightarrow> Inl (createRoutingFailure ''MISSING_PAIR_POLICY'' None None))"

end
