(* ===== verification/Routing_Properties.thy ===== *)
theory Routing_Properties
  imports Model_Router
begin

text \<open>
  The properties of model routing: a loaded policy stays within the approved models and
  ranks them without ties, a role gets its first available candidate, and the builder and
  evaluator pair is the first one, in policy order, that differs and does not downgrade.
\<close>

section \<open>Loaded policies\<close>

lemma check_fallback_None:
  "check_fallback role seen es = None \<Longrightarrow>
     (\<forall>e \<in> set es. isApprovedModelId e) \<and> distinct (map js_str es) \<and> (\<forall>e \<in> set es. js_str e \<notin> set seen)"
  by (induction role seen es rule: check_fallback.induct) (auto split: if_splits simp: image_iff)

definition role_ok :: "string list \<Rightarrow> string \<times> role_config \<Rightarrow> bool" where
  "role_ok allowed rc \<longleftrightarrow> fst rc \<in> set allowed \<and> set (rk_candidates (snd rc)) \<subseteq> set APPROVED_MODELS \<and> distinct (rk_candidates (snd rc))"

lemma assertValidRoleConfig_ok:
  assumes "assertValidRoleConfig role v = Inr c"
  shows "set (rk_candidates c) \<subseteq> set APPROVED_MODELS \<and> distinct (rk_candidates c)"
proof -
  let ?p = "js_str (fld v ''primary'')" and ?es = "items (fld v ''fallback'')"
  from assms have p: "isApprovedModelId (fld v ''primary'')" and f: "check_fallback role [?p] ?es = None"
    and c: "c = \<lparr> rk_primary = ?p, rk_fallback = map js_str ?es \<rparr>"
    by (auto simp: assertValidRoleConfig_def if_Some_None split: option.splits if_splits)
  from p have "?p \<in> set APPROVED_MODELS" by (auto dest: isApprovedModelIdD)
  moreover have "js_str e \<in> set APPROVED_MODELS" if "e \<in> set ?es" for e
    using check_fallback_None [OF f] that by (auto dest!: isApprovedModelIdD)
  ultimately show ?thesis using check_fallback_None [OF f] by (auto simp: c rk_candidates_def)
qed

lemma required_roles_ok:
  "required_roles roles rs = Inr m \<Longrightarrow> set rs \<subseteq> set allowed \<Longrightarrow> list_all (role_ok allowed) m \<and> map fst m = rs"
  by (induction roles rs arbitrary: m rule: required_roles.induct)
    (auto split: if_splits sum.splits simp: role_ok_def dest: assertValidRoleConfig_ok)

lemma parse_roles_ok: "parse_roles roles allowed rs = Inr m \<Longrightarrow> list_all (role_ok allowed) m \<and> map fst m = rs"
  by (induction roles allowed rs arbitrary: m rule: parse_roles.induct)
    (auto split: if_splits sum.splits simp: role_ok_def dest: assertValidRoleConfig_ok)

lemma parseEvalRoleMap_ok: "parseEvalRoleMap roles allowed = Inr m \<Longrightarrow> list_all (role_ok allowed) m"
  by (auto simp: parseEvalRoleMap_def split: option.splits dest: parse_roles_ok)

text \<open>Ranks: every approved model has one between 1 and 5, and no two share one.\<close>

definition rank_ok :: "(string \<Rightarrow> int option) \<Rightarrow> bool" where
  "rank_ok rank \<longleftrightarrow> (\<forall>m \<in> set APPROVED_MODELS. \<exists>r. rank m = Some r \<and> 1 \<le> r \<and> r \<le> 5) \<and> inj_on rank (set APPROVED_MODELS)"

lemma canonical_rank_ok: "rank_ok getCapabilityRank"
  unfolding rank_ok_def
proof (intro conjI ballI getCapabilityRank_approved inj_onI)
  fix a b assume "a \<in> set APPROVED_MODELS" "getCapabilityRank a = getCapabilityRank b"
  with getCapabilityRank_approved [of a] show "a = b" by (metis getCapabilityRank_inj)
qed

lemma rank_value_okD: "rank_value_ok v \<Longrightarrow> \<exists>n. v = JInt n \<and> 1 \<le> n \<and> n \<le> 5"
proof (cases v)
  case (Num n)
  assume "rank_value_ok v"
  with Num obtain r where r: "n = Fin r" "of_int \<lfloor>r\<rfloor> = r" "1 \<le> r" "r \<le> 5"
    by (cases n) (auto simp: APPROVED_MODELS_def)
  moreover have "\<lfloor>r\<rfloor> \<le> 5" using r(2,4) by (metis of_int_le_numeral_iff)
  ultimately have "v = JInt \<lfloor>r\<rfloor> \<and> 1 \<le> \<lfloor>r\<rfloor> \<and> \<lfloor>r\<rfloor> \<le> 5" using Num by (auto simp: le_floor_iff)
  then show ?thesis by blast
qed auto

lemma check_ranks_None:
  "check_ranks rank seen ids = None \<Longrightarrow> (\<forall>i \<in> set ids. rank_value_ok (fld rank i) \<and> js_number (fld rank i) \<notin> set seen)
     \<and> distinct (map (\<lambda>i. js_number (fld rank i)) ids)"
  by (induction rank seen ids rule: check_ranks.induct) (auto split: if_splits simp: image_iff)

lemma fld_own: "fld v k \<noteq> Undefined \<Longrightarrow> k \<in> set (own_keys v)"
  by (cases v) (auto split: option.splits simp: rev_image_eqI dest!: map_of_SomeD)

lemma parsed_rank_ok:
  assumes "parseEvalCapabilityRank v = Inr rank"
  shows "rank_ok (map_of rank)"
proof -
  from assms have c: "check_ranks v [] APPROVED_MODELS = None"
    and r: "rank = map (\<lambda>k. (k, js_int (fld v k))) (own_keys v)"
    by (auto simp: parseEvalCapabilityRank_def validateCapabilityRank_def Let_def split: option.splits if_splits)
  note c = check_ranks_None [OF c]
  have val: "\<exists>n. fld v m = JInt n \<and> map_of rank m = Some n \<and> 1 \<le> n \<and> n \<le> 5" if "m \<in> set APPROVED_MODELS" for m
  proof -
    from c that rank_value_okD obtain n where n: "fld v m = JInt n" "1 \<le> n" "n \<le> 5" by blast
    then have "m \<in> set (own_keys v)" using fld_own [of v m] by simp
    then have "map_of rank m = Some (js_int (fld v m))" by (simp add: r map_of_map_restrict)
    with n show ?thesis by simp
  qed
  moreover have "inj_on (map_of rank) (set APPROVED_MODELS)"
  proof (rule inj_onI)
    fix a b assume ab: "a \<in> set APPROVED_MODELS" "b \<in> set APPROVED_MODELS" "map_of rank a = map_of rank b"
    then have "js_number (fld v a) = js_number (fld v b)" using val [of a] val [of b] by auto
    moreover have "inj_on (\<lambda>i. js_number (fld v i)) (set APPROVED_MODELS)" using c by (simp add: distinct_map)
    ultimately show "a = b" using ab by (simp add: inj_on_def)
  qed
  ultimately show ?thesis unfolding rank_ok_def by blast
qed

lemma version_positive: "assertPositiveIntegerVersion v label = None \<Longrightarrow> 1 \<le> js_int v"
proof (cases v)
  case (Num n)
  assume "assertPositiveIntegerVersion v label = None"
  with Num show ?thesis by (cases n) (auto simp: le_floor_iff split: if_splits)
qed auto

text \<open>What every policy promises, whichever loader produced it, for its actor and its roles.\<close>

definition policy_ok :: "string \<Rightarrow> string list \<Rightarrow> routing_policy \<Rightarrow> bool" where
  "policy_ok actor allowed p \<longleftrightarrow> 1 \<le> pol_version p \<and> pol_actor p = actor
     \<and> list_all (role_ok allowed) (pol_roles p) \<and> rank_ok (policy_rank p)"

locale policy_loader =
  fixes load :: "js \<Rightarrow> routing_policy policy_result" and actor :: string and allowed :: "string list"
  assumes load_ok: "load v = Inr p \<Longrightarrow> policy_ok actor allowed p"
begin

lemma config_ok:
  assumes "load v = Inr p" "getRoleConfig p role = Some c"
  shows "role \<in> set allowed \<and> set (rk_candidates c) \<subseteq> set APPROVED_MODELS \<and> distinct (rk_candidates c)"
  using load_ok [OF assms(1)] map_of_SomeD [OF assms(2) [unfolded getRoleConfig_def]]
  by (force simp: policy_ok_def list_all_iff role_ok_def)

lemma rank_total:
  assumes "load v = Inr p" "m \<in> set APPROVED_MODELS"
  obtains r where "policy_rank p m = Some r" "1 \<le> r" "r \<le> 5"
  using load_ok [OF assms(1)] assms(2) by (auto simp: policy_ok_def rank_ok_def)

lemma rank_strict:
  "load v = Inr p \<Longrightarrow> a \<in> set APPROVED_MODELS \<Longrightarrow> b \<in> set APPROVED_MODELS \<Longrightarrow> a \<noteq> b \<Longrightarrow> \<not> rank_less p a b \<Longrightarrow> rank_less p b a"
proof -
  assume l: "load v = Inr p" and a: "a \<in> set APPROVED_MODELS" and b: "b \<in> set APPROVED_MODELS" and ab: "a \<noteq> b" "\<not> rank_less p a b"
  obtain x where "policy_rank p a = Some x" by (rule rank_total [OF l a])
  moreover obtain y where "policy_rank p b = Some y" by (rule rank_total [OF l b])
  moreover have "inj_on (policy_rank p) (set APPROVED_MODELS)" using load_ok [OF l] by (simp only: policy_ok_def rank_ok_def)
  then have "policy_rank p a \<noteq> policy_rank p b" using ab(1) a b by (rule inj_on_contraD)
  ultimately show ?thesis using ab(2) by (simp add: rank_less_def)
qed

end

interpretation worker_boot: policy_loader loadWorkerBootstrapPolicy "''pool-worker''" WORKER_ROLES
proof
  fix v p assume "loadWorkerBootstrapPolicy v = Inr p"
  then have "assertPositiveIntegerVersion (fld v ''version'') ''Worker bootstrap version'' = None" "BootstrapWorkerPolicy v = Inr p"
    by (auto simp: loadWorkerBootstrapPolicy_def split: option.splits)
  then show "policy_ok ''pool-worker'' WORKER_ROLES p"
    by (auto simp: BootstrapWorkerPolicy_def policy_ok_def policy_rank_def [abs_def] canonical_rank_ok
        split: option.splits sum.splits dest: version_positive required_roles_ok [OF _ subset_refl])
qed

interpretation orchestrator_boot: policy_loader loadOrchestratorBootstrapPolicy "''orchestrator-control-plane''" ORCHESTRATOR_ROLES
proof
  fix v p assume "loadOrchestratorBootstrapPolicy v = Inr p"
  then have "assertPositiveIntegerVersion (fld v ''version'') ''Orchestrator bootstrap version'' = None" "BootstrapOrchestratorPolicy v = Inr p"
    by (auto simp: loadOrchestratorBootstrapPolicy_def split: option.splits)
  then show "policy_ok ''orchestrator-control-plane'' ORCHESTRATOR_ROLES p"
    by (auto simp: BootstrapOrchestratorPolicy_def policy_ok_def policy_rank_def [abs_def] canonical_rank_ok
        split: option.splits sum.splits if_splits dest: version_positive required_roles_ok [OF _ subset_refl])
qed

lemma envelope_ok:
  assumes "assertEvalPublicationEnvelope v actor fs = None"
  shows "1 \<le> js_int (fld v ''version'')" "js_str (fld v ''actor'') = actor"
    "is_object v" "filter (\<lambda>k. k \<notin> set fs) (own_keys v) = []" "assertPositiveIntegerVersion (fld v ''version'') ''Publication version'' = None"
    "fld v ''status'' = Str ''eval-derived''" "fld v ''actor'' = Str actor" "js_str (fld v ''source'') \<noteq> []"
  using assms
  by (auto simp: assertEvalPublicationEnvelope_def assertObject_def assertNoUnknownFields_def Let_def if_Some_None
      dest: version_positive split: if_splits)

interpretation worker_eval: policy_loader loadWorkerEvalPublication "''pool-worker''" WORKER_ROLES
proof
  fix v p assume "loadWorkerEvalPublication v = Inr p"
  then show "policy_ok ''pool-worker'' WORKER_ROLES p"
    by (auto simp: loadWorkerEvalPublication_def EvalDerivedPolicy_def policy_ok_def policy_rank_def [abs_def]
        split: option.splits sum.splits dest: envelope_ok parsed_rank_ok parseEvalRoleMap_ok)
qed

interpretation orchestrator_eval: policy_loader loadOrchestratorEvalPublication "''orchestrator-control-plane''" ORCHESTRATOR_ROLES
proof
  fix v p assume "loadOrchestratorEvalPublication v = Inr p"
  then show "policy_ok ''orchestrator-control-plane'' ORCHESTRATOR_ROLES p"
    by (auto simp: loadOrchestratorEvalPublication_def EvalDerivedPolicy_def policy_ok_def policy_rank_def [abs_def] canonical_rank_ok
        split: option.splits sum.splits dest: envelope_ok parseEvalRoleMap_ok)
qed

section \<open>Scope\<close>

lemma worker_rules_mandatory:
  "check_mandatory rules names = None \<Longrightarrow> name \<in> set names \<Longrightarrow> fld rules name = Bool True"
  by (auto simp: check_mandatory_def if_Some_None)

lemma orchestrator_roles_only:
  assumes "policy_ok actor ORCHESTRATOR_ROLES p" "role \<in> set WORKER_ROLES"
  shows "getRoleConfig p role = None"
proof -
  have "fst rc \<noteq> role" if "rc \<in> set (pol_roles p)" for rc
    using assms that by (auto simp: policy_ok_def list_all_iff role_ok_def ORCHESTRATOR_ROLES_def WORKER_ROLES_def)
  then show ?thesis by (auto simp: getRoleConfig_def map_of_eq_None_iff)
qed

text \<open>
  C20. No loader widens the approved scope: every policy that loads, from a bootstrap file
  or from an eval-derived publication, has a positive version, configures only roles of its
  actor with distinct approved candidates, and ranks the approved models injectively between
  1 and 5. A worker policy has both mandatory pairing rules set; an orchestrator policy
  configures no worker role.
\<close>
theorem loaded_policies_in_scope:
  "(Inr p \<in> {loadWorkerBootstrapPolicy v, loadWorkerEvalPublication v} \<longrightarrow>
      policy_ok ''pool-worker'' WORKER_ROLES p
      \<and> getRule p ''builderEvaluatorMustDiffer'' = Bool True \<and> getRule p ''evaluatorMustNotBeLowerCapability'' = Bool True)
   \<and> (Inr p \<in> {loadOrchestratorBootstrapPolicy v, loadOrchestratorEvalPublication v} \<longrightarrow>
      policy_ok ''orchestrator-control-plane'' ORCHESTRATOR_ROLES p \<and> (\<forall>role \<in> set WORKER_ROLES. getRoleConfig p role = None))"
proof (intro conjI impI)
  assume l: "Inr p \<in> {loadWorkerBootstrapPolicy v, loadWorkerEvalPublication v}"
  then show "policy_ok ''pool-worker'' WORKER_ROLES p" using worker_boot.load_ok worker_eval.load_ok by (metis insertE singletonD)
  from l have "check_mandatory (pol_rules p) [''builderEvaluatorMustDiffer'', ''evaluatorMustNotBeLowerCapability''] = None"
  proof (elim insertE)
    assume "Inr p = loadWorkerBootstrapPolicy v"
    from this [symmetric] have "BootstrapWorkerPolicy v = Inr p" by (auto simp: loadWorkerBootstrapPolicy_def split: option.splits)
    then show ?thesis by (auto simp: BootstrapWorkerPolicy_def assertWorkerRules_def split: option.splits sum.splits)
  next
    assume "Inr p = loadWorkerEvalPublication v"
    from this [symmetric] show ?thesis
      by (auto simp: loadWorkerEvalPublication_def EvalDerivedPolicy_def parseEvalRules_def split: option.splits sum.splits if_splits)
  qed simp
  then show "getRule p ''builderEvaluatorMustDiffer'' = Bool True" "getRule p ''evaluatorMustNotBeLowerCapability'' = Bool True"
    by (simp_all add: getRule_def worker_rules_mandatory)
next
  assume "Inr p \<in> {loadOrchestratorBootstrapPolicy v, loadOrchestratorEvalPublication v}"
  then show ok: "policy_ok ''orchestrator-control-plane'' ORCHESTRATOR_ROLES p"
    using orchestrator_boot.load_ok orchestrator_eval.load_ok by (metis insertE singletonD)
  show "\<forall>role \<in> set WORKER_ROLES. getRoleConfig p role = None" using orchestrator_roles_only [OF ok] by blast
qed

text \<open>The bootstrap files of the repository.\<close>

definition role_js :: "string \<Rightarrow> string \<Rightarrow> js" where
  "role_js a b = plain [(''primary'', Str a), (''fallback'', Arr [Str b])]"

definition worker_bootstrap :: js where
  "worker_bootstrap = plain [(''version'', JInt 1), (''status'', Str ''bootstrap-until-eval-derived''),
     (''capability_rank'', plain (map (\<lambda>(m, r). (m, JInt r)) CAPABILITY_RANK)),
     (''roles'', plain [
       (''node_conductor'', role_js ''openai-codex/gpt-5.6-terra'' ''moonshot/kimi-k3''),
       (''planning'', role_js ''openai-codex/gpt-5.6-terra'' ''moonshot/kimi-k3''),
       (''building'', role_js ''moonshot/kimi-k2.7-code'' ''openai-codex/gpt-5.6-terra''),
       (''assessing'', role_js ''openai-codex/gpt-5.6-sol'' ''moonshot/kimi-k3''),
       (''tightening'', role_js ''openai-codex/gpt-5.6-sol'' ''openai-codex/gpt-5.6-terra''),
       (''sharpening'', role_js ''openai-codex/gpt-5.6-luna'' ''openai-codex/gpt-5.6-terra''),
       (''failure_diagnosis'', role_js ''openai-codex/gpt-5.6-terra'' ''openai-codex/gpt-5.6-sol'')]),
     (''rules'', plain (map (\<lambda>r. (r, Bool True)) WORKER_RULES))]"

definition orchestrator_bootstrap :: js where
  "orchestrator_bootstrap = plain [(''version'', JInt 1), (''status'', Str ''bootstrap-until-eval-derived''),
     (''actor'', Str ''orchestrator-control-plane''),
     (''roles'', plain [(''decomposition'', role_js ''moonshot/kimi-k3'' ''openai-codex/gpt-5.6-sol'')]),
     (''rules'', plain [(''failClosedOnUnavailableExplicitModel'', Bool True)])]"

definition worker_policy :: routing_policy where
  "worker_policy = (case loadWorkerBootstrapPolicy worker_bootstrap of Inr p \<Rightarrow> p)"

lemma worker_policy_loads: "loadWorkerBootstrapPolicy worker_bootstrap = Inr worker_policy"
proof -
  have "\<not> isl (loadWorkerBootstrapPolicy worker_bootstrap)" by code_simp
  then show ?thesis by (cases "loadWorkerBootstrapPolicy worker_bootstrap") (auto simp: worker_policy_def)
qed

theorem loaded_policies_in_scope_witness:
  "policy_ok ''pool-worker'' WORKER_ROLES worker_policy
   \<and> (\<exists>p. loadOrchestratorBootstrapPolicy orchestrator_bootstrap = Inr p \<and> policy_ok ''orchestrator-control-plane'' ORCHESTRATOR_ROLES p)"
proof -
  have "\<not> isl (loadOrchestratorBootstrapPolicy orchestrator_bootstrap)" by code_simp
  then obtain p where "loadOrchestratorBootstrapPolicy orchestrator_bootstrap = Inr p"
    by (cases "loadOrchestratorBootstrapPolicy orchestrator_bootstrap") auto
  then show ?thesis
    using loaded_policies_in_scope [of worker_policy worker_bootstrap] loaded_policies_in_scope [of p orchestrator_bootstrap]
      worker_policy_loads by auto
qed

section \<open>Selection for a role\<close>

text \<open>The reference: the first available candidate, with what was skipped before it.\<close>

definition first_available :: "string \<Rightarrow> int \<Rightarrow> string list \<Rightarrow> string list \<Rightarrow> routing_failure + routing_decision" where
  "first_available role version av cs =
     (let skipped = takeWhile (\<lambda>m. m \<notin> set av) cs; i = length skipped in
      if i = length cs then Inl (createRoutingFailure ''NO_AVAILABLE_CANDIDATE'' (Some role) None)
      else Inr (createRoutingDecision role (cs ! i) version
        [(if i = 0 then (''primary_selected'', ''Primary candidate selected'') else (''fallback_selected'', ''Fallback candidate selected''))]
        \<lparr> fb_primaryAvailable = (i = 0), fb_selectedFallbackIndex = (if i = 0 then None else Some (i - 1)),
          fb_skippedCandidates = map (\<lambda>m. (m, ''unavailable'')) skipped \<rparr>))"

lemma pick_loop_takeWhile:
  "pick_loop av role i skipped cs =
     (let new = takeWhile (\<lambda>m. m \<notin> set av) cs; j = i + length new in
      if length new = length cs then Inl (createRoutingFailure ''NO_AVAILABLE_CANDIDATE'' (Some role) None)
      else Inr (cs ! length new,
        [(if j = 0 then (''primary_selected'', ''Primary candidate selected'') else (''fallback_selected'', ''Fallback candidate selected''))],
        \<lparr> fb_primaryAvailable = (j = 0), fb_selectedFallbackIndex = (if j = 0 then None else Some (j - 1)),
          fb_skippedCandidates = skipped @ map (\<lambda>m. (m, ''unavailable'')) new \<rparr>))"
  by (induction av role i skipped cs rule: pick_loop.induct) (auto simp: Let_def)

text \<open>
  A role gets its first available candidate: without an explicit model, selection
  picks the first candidate of the role's configuration that is available and reports the
  skipped ones, or fails when none is available. An explicit model is never substituted:
  selection returns that model or fails, exactly when it is not approved or not available.
\<close>
theorem role_selection_exact:
  assumes "getRoleConfig p role = Some c"
  shows "selectForRole p role av None = first_available role (pol_version p) av (rk_candidates c)
    \<and> (\<forall>m. selectForRole p role av (Some m) =
         (if m \<notin> set APPROVED_MODELS then Inl (createRoutingFailure ''UNAPPROVED_EXPLICIT_MODEL'' None None)
          else if m \<notin> set av then Inl (createRoutingFailure ''UNAVAILABLE_EXPLICIT_MODEL'' (Some role) (Some m))
          else Inr (createRoutingDecision role m (pol_version p) [(''explicit_model_selected'', ''Explicit candidate selected'')]
            \<lparr> fb_primaryAvailable = False, fb_selectedFallbackIndex = None, fb_skippedCandidates = [] \<rparr>)))"
  using assms by (auto simp: selectForRole_def pickCandidate_def pick_loop_takeWhile first_available_def Let_def)

theorem role_selection_exact_witness:
  "(\<exists>d. selectForRole worker_policy ''building'' [''openai-codex/gpt-5.6-terra''] None = Inr d
      \<and> rd_selectedModel d = ''openai-codex/gpt-5.6-terra'' \<and> fb_selectedFallbackIndex (rd_fallbackBehavior d) = Some 0)"
proof -
  let ?c = "\<lparr> rk_primary = ''moonshot/kimi-k2.7-code'', rk_fallback = [''openai-codex/gpt-5.6-terra''] \<rparr>"
  have "getRoleConfig worker_policy ''building'' = Some ?c" by code_simp
  from role_selection_exact [OF this] show ?thesis
    by (simp add: first_available_def rk_candidates_def createRoutingDecision_def)
qed

section \<open>Selection of a pair\<close>

definition allows :: "string option \<Rightarrow> string \<Rightarrow> bool" where
  "allows explicit m \<longleftrightarrow> explicit = None \<or> explicit = Some m"

definition valid_pair :: "routing_policy \<Rightarrow> string list \<Rightarrow> pair_options \<Rightarrow> string \<times> string \<Rightarrow> bool" where
  "valid_pair p av opts = (\<lambda>(b, e). b \<in> set av \<and> e \<in> set av \<and> allows (po_explicitBuilder opts) b \<and> allows (po_explicitEvaluator opts) e
     \<and> b \<noteq> e \<and> \<not> rank_less p e b)"

definition chosen :: "routing_policy \<Rightarrow> string \<Rightarrow> string \<Rightarrow> routing_decision" where
  "chosen p role m = createRoutingDecision role m (pol_version p) [(''explicit_model_selected'', ''Explicit candidate selected'')]
     \<lparr> fb_primaryAvailable = False, fb_selectedFallbackIndex = None, fb_skippedCandidates = [] \<rparr>"

lemma effective_eq: "m \<in> set APPROVED_MODELS \<Longrightarrow> effective av explicit m = (if m \<in> set av \<and> allows explicit m then Some m else None)"
  by (auto simp: effective_def allows_def Let_def)

lemma evaluator_loop_find:
  assumes "set es \<subseteq> set APPROVED_MODELS" "b \<in> set av" "allows (po_explicitBuilder opts) b"
  shows "evaluator_loop p av (po_explicitEvaluator opts) b es = map_option (build_pair p av b) (find (\<lambda>e. valid_pair p av opts (b, e)) es)"
  using assms(1)
proof (induction es)
  case (Cons e es)
  then show ?case using assms(2,3) by (auto simp: effective_eq valid_pair_def)
qed simp

lemma find_map: "find P (map f xs) = map_option f (find (P \<circ> f) xs)"
  by (induction xs) auto

lemma find_append: "find P (xs @ ys) = (case find P xs of Some x \<Rightarrow> Some x | None \<Rightarrow> find P ys)"
  by (induction xs) auto

lemma builder_loop_find:
  assumes "set bs \<subseteq> set APPROVED_MODELS" "set es \<subseteq> set APPROVED_MODELS"
  shows "builder_loop p av opts es bs = map_option (\<lambda>(b, e). build_pair p av b e) (find (valid_pair p av opts) (List.product bs es))"
  using assms(1)
proof (induction bs)
  case (Cons b bs)
  have row: "find (valid_pair p av opts) (map (Pair b) es) = map_option (Pair b) (find (\<lambda>e. valid_pair p av opts (b, e)) es)"
    by (simp add: find_map comp_def)
  show ?case
  proof (cases "b \<in> set av \<and> allows (po_explicitBuilder opts) b")
    case True
    with Cons assms(2) show ?thesis
      by (auto simp: effective_eq evaluator_loop_find find_append row split: option.splits)
  next
    case False
    then have "find (valid_pair p av opts) (map (Pair b) es) = None" by (auto simp: find_None_iff valid_pair_def)
    with False Cons show ?thesis by (auto simp: effective_eq find_append)
  qed
qed simp

lemma build_pair_chosen:
  assumes "getRoleConfig p ''building'' = Some bc" "getRoleConfig p ''assessing'' = Some ec"
    "b \<in> set APPROVED_MODELS" "e \<in> set APPROVED_MODELS" "b \<in> set av" "e \<in> set av"
  shows "build_pair p av b e = Inr (chosen p ''building'' b, chosen p ''assessing'' e)"
  using assms by (simp add: build_pair_def selectForRole_def pickCandidate_def chosen_def)

lemma find_product_approved:
  assumes "find (valid_pair p av opts) (List.product bs es) = Some (b, e)" "set bs \<subseteq> A" "set es \<subseteq> A"
  shows "valid_pair p av opts (b, e) \<and> b \<in> set bs \<and> e \<in> set es \<and> b \<in> A \<and> e \<in> A"
  using find_SomeD [OF assms(1)] assms(2,3) by auto

lemma pair_reference:
  assumes "set (rk_candidates bc) \<subseteq> set APPROVED_MODELS" "set (rk_candidates ec) \<subseteq> set APPROVED_MODELS"
    "getRoleConfig p ''building'' = Some bc" "getRoleConfig p ''assessing'' = Some ec"
    "\<not> unapproved (po_explicitBuilder opts)" "\<not> unapproved (po_explicitEvaluator opts)"
  shows "selectBuilderEvaluatorPair p av opts =
    (case find (valid_pair p av opts) (List.product (rk_candidates bc) (rk_candidates ec)) of
       Some (b, e) \<Rightarrow> Inr (chosen p ''building'' b, chosen p ''assessing'' e)
     | None \<Rightarrow> Inl (createRoutingFailure ''NO_VALID_BUILDER_EVALUATOR_PAIR'' None None))"
proof (cases "find (valid_pair p av opts) (List.product (rk_candidates bc) (rk_candidates ec))")
  case None
  with assms show ?thesis by (simp add: selectBuilderEvaluatorPair_def builder_loop_find)
next
  case (Some be)
  obtain b e where be: "be = (b, e)" by (cases be)
  from find_product_approved [OF Some [unfolded be] assms(1,2)]
  have "build_pair p av b e = Inr (chosen p ''building'' b, chosen p ''assessing'' e)"
    using assms(3,4) by (auto simp: valid_pair_def intro!: build_pair_chosen)
  with Some be assms show ?thesis by (simp add: selectBuilderEvaluatorPair_def builder_loop_find)
qed

lemma worker_config:
  assumes "Inr p \<in> {loadWorkerBootstrapPolicy v, loadWorkerEvalPublication v}" "getRoleConfig p role = Some c"
  shows "set (rk_candidates c) \<subseteq> set APPROVED_MODELS"
  using assms worker_boot.config_ok [of v p role c] worker_eval.config_ok [of v p role c] by auto

text \<open>
  C19. The two nested loops find the first valid pair: for every loaded worker policy
  with both roles and approved explicit choices, the selected pair is the first one, in the
  order builder candidate before evaluator candidate, of two different available models that
  respects the explicit choices and does not downgrade the evaluator; the router reports
  that no pair exists exactly when there is none, and never fails to construct the pair.
\<close>
theorem pair_is_first_valid:
  assumes "Inr p \<in> {loadWorkerBootstrapPolicy v, loadWorkerEvalPublication v}"
    "getRoleConfig p ''building'' = Some bc" "getRoleConfig p ''assessing'' = Some ec"
    "\<not> unapproved (po_explicitBuilder opts)" "\<not> unapproved (po_explicitEvaluator opts)"
  shows "selectBuilderEvaluatorPair p av opts =
    (case find (valid_pair p av opts) (List.product (rk_candidates bc) (rk_candidates ec)) of
       Some (b, e) \<Rightarrow> Inr (chosen p ''building'' b, chosen p ''assessing'' e)
     | None \<Rightarrow> Inl (createRoutingFailure ''NO_VALID_BUILDER_EVALUATOR_PAIR'' None None))"
  using worker_config [OF assms(1,2)] worker_config [OF assms(1,3)] assms(2-) by (rule pair_reference)

definition no_options :: pair_options where
  "no_options = \<lparr> po_explicitBuilder = None, po_explicitEvaluator = None \<rparr>"

theorem pair_is_first_valid_witness:
  "selectBuilderEvaluatorPair worker_policy APPROVED_MODELS no_options
     = Inr (chosen worker_policy ''building'' ''moonshot/kimi-k2.7-code'', chosen worker_policy ''assessing'' ''openai-codex/gpt-5.6-sol'')"
proof -
  let ?bc = "\<lparr> rk_primary = ''moonshot/kimi-k2.7-code'', rk_fallback = [''openai-codex/gpt-5.6-terra''] \<rparr>"
  let ?ec = "\<lparr> rk_primary = ''openai-codex/gpt-5.6-sol'', rk_fallback = [''moonshot/kimi-k3''] \<rparr>"
  have c: "getRoleConfig worker_policy ''building'' = Some ?bc" "getRoleConfig worker_policy ''assessing'' = Some ?ec" by code_simp+
  have f: "find (valid_pair worker_policy APPROVED_MODELS no_options) (List.product (rk_candidates ?bc) (rk_candidates ?ec))
      = Some (''moonshot/kimi-k2.7-code'', ''openai-codex/gpt-5.6-sol'')" by code_simp
  show ?thesis
    using pair_is_first_valid [OF _ c, of worker_bootstrap no_options APPROVED_MODELS] worker_policy_loads f
    by (simp add: no_options_def unapproved_def)
qed

section \<open>Availability and the pair\<close>

lemma check_availability_ok:
  "check_availability vs es = Inr av \<Longrightarrow> distinct vs \<Longrightarrow> set vs \<subseteq> set APPROVED_MODELS \<Longrightarrow>
     distinct av \<and> set av \<subseteq> set APPROVED_MODELS \<and> av = vs @ map (\<lambda>e. js_str (fld e ''fullId'')) es"
proof (induction vs es rule: check_availability.induct)
  case (2 vs e es)
  from "2.prems"(1) have g: "isApprovedModelId (fld e ''fullId'')" "js_str (fld e ''fullId'') \<notin> set vs"
    "check_availability (vs @ [js_str (fld e ''fullId'')]) es = Inr av" by (auto simp: Let_def split: if_splits)
  then have "js_str (fld e ''fullId'') \<in> set APPROVED_MODELS" by (auto dest: isApprovedModelIdD)
  with "2.prems" g have *: "distinct (vs @ [js_str (fld e ''fullId'')])" "set (vs @ [js_str (fld e ''fullId'')]) \<subseteq> set APPROVED_MODELS"
    by auto
  have "distinct av \<and> set av \<subseteq> set APPROVED_MODELS \<and> av = (vs @ [js_str (fld e ''fullId'')]) @ map (\<lambda>e. js_str (fld e ''fullId'')) es"
    using "2.prems"(1) by (intro "2.IH" [OF refl _ _ _ _ _ _ g(3) *]) (auto simp: Let_def split: if_splits)
  then show ?case unfolding append_Cons append_Nil append_assoc list.map by blast
qed simp

text \<open>
  An evaluator is stronger than its builder: for every loaded worker policy and every
  validated availability snapshot, a selected pair consists of two models of the snapshot
  that are candidates of their roles, honours the explicit choices, and its evaluator has a
  strictly higher capability rank than its builder.
\<close>
theorem pair_evaluator_stronger:
  assumes "Inr p \<in> {loadWorkerBootstrapPolicy v, loadWorkerEvalPublication v}" "validateAvailability snapshot = Inr av"
    "selectBuilderEvaluatorPair p av opts = Inr (builder, evaluator)"
  shows "rank_less p (rd_selectedModel builder) (rd_selectedModel evaluator)
    \<and> (\<forall>d \<in> {builder, evaluator}. rd_selectedModel d \<in> (\<lambda>e. js_str (fld e ''fullId'')) ` set (items snapshot)
         \<and> (\<exists>c. getRoleConfig p (rd_role d) = Some c \<and> rd_selectedModel d \<in> set (rk_candidates c)))
    \<and> rd_role builder = ''building'' \<and> rd_role evaluator = ''assessing''
    \<and> allows (po_explicitBuilder opts) (rd_selectedModel builder) \<and> allows (po_explicitEvaluator opts) (rd_selectedModel evaluator)"
proof -
  from assms(3) obtain bc ec where c: "getRoleConfig p ''building'' = Some bc" "getRoleConfig p ''assessing'' = Some ec"
    and a: "\<not> unapproved (po_explicitBuilder opts)" "\<not> unapproved (po_explicitEvaluator opts)"
    by (auto simp: selectBuilderEvaluatorPair_def split: option.splits if_splits)
  note cc = worker_config [OF assms(1) c(1)] worker_config [OF assms(1) c(2)]
  from pair_reference [OF cc c a, of av] assms(3) obtain b e where
    f: "find (valid_pair p av opts) (List.product (rk_candidates bc) (rk_candidates ec)) = Some (b, e)"
    and d: "builder = chosen p ''building'' b" "evaluator = chosen p ''assessing'' e"
    by (auto split: option.splits)
  from find_product_approved [OF f cc] have v: "valid_pair p av opts (b, e)" "b \<in> set (rk_candidates bc)" "e \<in> set (rk_candidates ec)"
    "b \<in> set APPROVED_MODELS" "e \<in> set APPROVED_MODELS" by blast+
  have av: "av = map (\<lambda>e. js_str (fld e ''fullId'')) (items snapshot)"
    using assms(2) check_availability_ok [of "[]" "items snapshot" av] by (auto simp: validateAvailability_def split: if_splits)
  have "rank_less p b e" using v(1) assms(1) worker_boot.rank_strict [OF _ v(5,4), of v p] worker_eval.rank_strict [OF _ v(5,4), of v p]
    by (auto simp: valid_pair_def)
  with v c show ?thesis by (auto simp: d chosen_def createRoutingDecision_def valid_pair_def av)
qed

theorem pair_evaluator_stronger_witness: "rank_less worker_policy ''moonshot/kimi-k2.7-code'' ''openai-codex/gpt-5.6-sol''"
proof -
  let ?s = "Arr (map (\<lambda>m. plain [(''fullId'', Str m)]) APPROVED_MODELS)"
  have a: "validateAvailability ?s = Inr APPROVED_MODELS" by code_simp
  have "map_option (\<lambda>r. map rd_selectedModel [fst r, snd r]) (case selectBuilderEvaluatorPair worker_policy APPROVED_MODELS no_options of Inr r \<Rightarrow> Some r | Inl _ \<Rightarrow> None)
      = Some [''moonshot/kimi-k2.7-code'', ''openai-codex/gpt-5.6-sol'']" by code_simp
  then obtain b e where "selectBuilderEvaluatorPair worker_policy APPROVED_MODELS no_options = Inr (b, e)"
    "rd_selectedModel b = ''moonshot/kimi-k2.7-code''" "rd_selectedModel e = ''openai-codex/gpt-5.6-sol''"
    by (auto split: sum.splits)
  with pair_evaluator_stronger [OF _ a, of worker_policy worker_bootstrap no_options b e] worker_policy_loads show ?thesis by simp
qed

section \<open>Two checks of one publication\<close>

lemma case_option_Inr: "(case x of Some e \<Rightarrow> Inl e | None \<Rightarrow> Inr y) = Inr z \<longleftrightarrow> x = None \<and> y = z"
  by (cases x) auto

lemma capability_rank_key: "parseEvalCapabilityRank v = Inr r \<Longrightarrow> v \<noteq> Undefined"
  by (auto simp: parseEvalCapabilityRank_def assertObject_def split: option.splits)

text \<open>
  The two checks of an eval-derived worker publication exclude each other: the loader
  demands a capability rank, and the publication check treats that field as unknown, so no
  value passes both.
\<close>
theorem worker_publication_checks_disjoint:
  "\<not> (\<exists>p r. loadWorkerEvalPublication v = Inr p \<and> validateRoutingPolicyPublication v actor roles = Inr r)"
proof
  assume "\<exists>p r. loadWorkerEvalPublication v = Inr p \<and> validateRoutingPolicyPublication v actor roles = Inr r"
  then obtain p r where l: "loadWorkerEvalPublication v = Inr p" and c: "validateRoutingPolicyPublication v actor roles = Inr r" by blast
  from l have "fld v ''capability_rank'' \<noteq> Undefined"
    by (auto simp: loadWorkerEvalPublication_def split: option.splits sum.splits dest: capability_rank_key)
  then have k: "''capability_rank'' \<in> set (own_keys v)" by (rule fld_own)
  from c have "filter (\<lambda>k. k \<notin> {''version'', ''status'', ''actor'', ''source'', ''roles'', ''rules''}) (own_keys v) = []"
    unfolding validateRoutingPolicyPublication_def case_option_Inr or_else_None Let_def if_Some_None by blast
  from this [unfolded filter_empty_conv] k have "\<not> ''capability_rank'' \<notin> {''version'', ''status'', ''actor'', ''source'', ''roles'', ''rules''}"
    by (rule bspec)
  then show False by simp
qed

end
