(* ===== verification/Iso_Time.thy ===== *)
theory Iso_Time
  imports Js_Values
begin

text \<open>
  The part of JavaScript's Date that execution markers use: \<^verbatim>\<open>toISOString\<close>,
  \<^verbatim>\<open>Date.UTC\<close> with its getters, and \<^verbatim>\<open>Date.parse\<close> on canonical UTC timestamps, with
  \<^verbatim>\<open>parseCanonicalUtc\<close> of \<^verbatim>\<open>agent-execution/execution-context.ts\<close>, which is built from
  them. Time is in milliseconds since 1970; days are counted from the first of January of
  the year 0, and earlier times are outside the model.
\<close>

section \<open>Calendar\<close>

definition leap_year :: "nat \<Rightarrow> bool" where
  "leap_year y \<longleftrightarrow> (y mod 4 = 0 \<and> y mod 100 \<noteq> 0) \<or> y mod 400 = 0"

definition days_before_year :: "nat \<Rightarrow> nat" where
  "days_before_year y = 365 * y + (y + 3) div 4 + (y + 399) div 400 - (y + 99) div 100"

definition month_lengths :: "nat \<Rightarrow> nat list" where
  "month_lengths y = [31, if leap_year y then 29 else 28, 31, 30, 31, 30, 31, 31, 30, 31, 30, 31]"

text \<open>The year of a day, searched downwards from an upper bound.\<close>

fun year_from :: "nat \<Rightarrow> nat \<Rightarrow> nat" where
  "year_from 0 n = 0"
| "year_from (Suc y) n = (if n < days_before_year (Suc y) then year_from y n else Suc y)"

fun month_from :: "nat list \<Rightarrow> nat \<Rightarrow> nat \<times> nat" where
  "month_from [] d = (0, d)"
| "month_from (m # ms) d = (if d < m then (0, d) else let (i, r) = month_from ms (d - m) in (Suc i, r))"

definition civil_of :: "nat \<Rightarrow> nat \<times> nat \<times> nat" where
  "civil_of n = (let y = year_from (n div 365) n; (i, r) = month_from (month_lengths y) (n - days_before_year y)
                 in (y, Suc i, Suc r))"

text \<open>\<open>MakeDay\<close>: a month outside 1 to 12 carries into the year, a day outside the month runs over.\<close>

definition utc_days :: "nat \<Rightarrow> nat \<Rightarrow> nat \<Rightarrow> nat" where
  "utc_days year month day =
     (let m = int month - 1; y = nat (int year + m div 12) in
      nat (int (days_before_year y + sum_list (take (nat (m mod 12)) (month_lengths y))) + int day - 1))"

section \<open>Times of day\<close>

definition EPOCH_DAYS :: int where
  "EPOCH_DAYS = 719528"

definition days_of :: "int \<Rightarrow> nat" where
  "days_of ms = nat (ms div 86400000 + EPOCH_DAYS)"

definition clock_of :: "int \<Rightarrow> nat \<times> nat \<times> nat \<times> nat" where
  "clock_of ms = (let r = nat (ms mod 86400000) in
     (r div 3600000, r div 60000 mod 60, r div 1000 mod 60, r mod 1000))"

definition make_time :: "nat \<Rightarrow> nat \<Rightarrow> nat \<Rightarrow> nat \<Rightarrow> nat \<Rightarrow> int" where
  "make_time days h mi s ms = (int days - EPOCH_DAYS) * 86400000 + int (h * 3600000 + mi * 60000 + s * 1000 + ms)"

section \<open>Printing\<close>

fun pad :: "nat \<Rightarrow> nat \<Rightarrow> string" where
  "pad 0 n = []"
| "pad (Suc k) n = pad k (n div 10) @ [char_of (48 + n mod 10)]"

definition toISOString :: "int \<Rightarrow> string" where
  "toISOString t =
     (let (y, m, d) = civil_of (days_of t); (h, mi, s, ms) = clock_of t in
      (if y \<le> 9999 then pad 4 y else CHR ''+'' # pad 6 y) @ ''-'' @ pad 2 m @ ''-'' @ pad 2 d @ ''T''
        @ pad 2 h @ '':'' @ pad 2 mi @ '':'' @ pad 2 s @ ''.'' @ pad 3 ms @ ''Z'')"

section \<open>Parsing\<close>

definition is_digit :: "char \<Rightarrow> bool" where
  "is_digit c = (let n = of_char c :: nat in 48 \<le> n \<and> n \<le> 57)"

definition num_of :: "string \<Rightarrow> nat" where
  "num_of s = foldl (\<lambda>a c. 10 * a + (of_char c - 48)) 0 s"

text \<open>The pattern \<^verbatim>\<open>UTC_TIMESTAMP\<close>: the six numbers and the digits of the fraction.\<close>

definition utc_parts :: "string \<Rightarrow> ((nat \<times> nat \<times> nat) \<times> (nat \<times> nat \<times> nat) \<times> string) option" where
  "utc_parts s =
     (let rest = drop 19 s; fraction = butlast (tl rest);
          cut = (\<lambda>i k. take k (drop i s)) in
      if 20 \<le> length s
         \<and> list_all is_digit (cut 0 4 @ cut 5 2 @ cut 8 2 @ cut 11 2 @ cut 14 2 @ cut 17 2)
         \<and> s ! 4 = CHR ''-'' \<and> s ! 7 = CHR ''-'' \<and> s ! 10 = CHR ''T'' \<and> s ! 13 = CHR '':'' \<and> s ! 16 = CHR '':''
         \<and> (rest = ''Z'' \<or> hd rest = CHR ''.'' \<and> last rest = CHR ''Z'' \<and> fraction \<noteq> [] \<and> list_all is_digit fraction)
      then Some ((num_of (cut 0 4), num_of (cut 5 2), num_of (cut 8 2)), (num_of (cut 11 2), num_of (cut 14 2), num_of (cut 17 2)),
                 if rest = ''Z'' then [] else fraction)
      else None)"

definition Date_UTC :: "nat \<Rightarrow> nat \<Rightarrow> nat \<Rightarrow> nat \<Rightarrow> nat \<Rightarrow> nat \<Rightarrow> int" where
  "Date_UTC year month day h mi s = make_time (utc_days (if year \<le> 99 then 1900 + year else year) month day) h mi s 0"

text \<open>The parts are those of a real moment when the getters give them back; the fraction counts to the millisecond.\<close>

definition parseCanonicalUtc :: "js \<Rightarrow> int option" where
  "parseCanonicalUtc v =
     (case v of
        Str s \<Rightarrow>
          (case utc_parts s of
             None \<Rightarrow> None
           | Some ((year, month, day), (hour, minute, second), fraction) \<Rightarrow>
               let t = Date_UTC year month day hour minute second in
               if civil_of (days_of t) \<noteq> (year, month, day) \<or> clock_of t \<noteq> (hour, minute, second, 0) then None
               else Some (t + int (num_of (take 3 (fraction @ ''000'')))))
      | _ \<Rightarrow> None)"

section \<open>The calendar is consistent\<close>

lemma div_Suc_step: "0 < k \<Longrightarrow> (Suc y + (k - 1)) div k = (y + (k - 1)) div k + (if y mod k = 0 then 1 else 0)" for k y :: nat
proof -
  assume k: "0 < k"
  have "(Suc y + (k - 1)) div k = y div k + 1" using k by (simp add: div_add_self2)
  moreover have "(y + (k - 1)) div k = y div k + (if y mod k = 0 then 0 else 1)"
  proof -
    have "(y + (k - 1)) div k = y div k + (y mod k + (k - 1)) div k"
      using k by (metis div_mult_self4 mult_div_mod_eq add.assoc not_gr_zero)
    moreover have "(y mod k + (k - 1)) div k = (if y mod k = 0 then 0 else 1)"
      using k mod_less_divisor [OF k, of y] by (auto simp: div_nat_eqI)
    ultimately show ?thesis by simp
  qed
  ultimately show ?thesis by simp
qed

lemma days_before_Suc: "days_before_year (Suc y) = days_before_year y + (if leap_year y then 366 else 365)"
proof -
  have 4: "(Suc y + 3) div 4 = (y + 3) div 4 + (if y mod 4 = 0 then 1 else 0)"
    and 1: "(Suc y + 99) div 100 = (y + 99) div 100 + (if y mod 100 = 0 then 1 else 0)"
    and 400: "(Suc y + 399) div 400 = (y + 399) div 400 + (if y mod 400 = 0 then 1 else 0)"
    using div_Suc_step [of 4 y] div_Suc_step [of 100 y] div_Suc_step [of 400 y] by simp_all
  have le: "(y + 99) div 100 \<le> (y + 3) div 4" using div_le_mono [of "y + 99" "y + 99 + 0" 100] by linarith
  have m: "y mod 100 = 0 \<Longrightarrow> y mod 4 = 0" "y mod 400 = 0 \<Longrightarrow> y mod 100 = 0"
    using mod_mod_cancel [of 4 100 y] mod_mod_cancel [of 100 400 y] by auto
  have step: "365 * Suc y + (a + x) + (c + z) - (b + u) = 365 * y + a + c - b + (if P then 366 else 365)"
    if "b \<le> a" "x + z = u + (if P then 1 else 0)" for a b c x z u :: nat and P using that by (cases P) auto
  show ?thesis unfolding days_before_year_def leap_year_def 4 1 400 by (rule step [OF le]) (use m in auto)
qed

lemma days_before_ge: "365 * y \<le> days_before_year y"
  by (induction y) (auto simp: days_before_Suc)

lemma year_from_bounds:
  "n < days_before_year (Suc y) \<Longrightarrow> days_before_year (year_from y n) \<le> n \<and> n < days_before_year (Suc (year_from y n))"
  by (induction y n rule: year_from.induct) (auto simp: days_before_year_def [of 0])

lemma month_from_sum:
  "d < sum_list ms \<Longrightarrow> month_from ms d = (i, r) \<Longrightarrow> i < length ms \<and> r < ms ! i \<and> sum_list (take i ms) + r = d"
proof (induction ms arbitrary: d i r)
  case (Cons m ms)
  show ?case
  proof (cases "d < m")
    case True
    with Cons.prems show ?thesis by simp
  next
    case False
    with Cons.prems obtain j where j: "month_from ms (d - m) = (j, r)" "i = Suc j" by (auto split: prod.splits)
    have "d - m < sum_list ms" using Cons.prems(1) False by auto
    from Cons.IH [OF this j(1)] j(2) False show ?thesis by auto
  qed
qed simp

lemma sum_month_lengths: "sum_list (month_lengths y) = (if leap_year y then 366 else 365)"
  by (simp add: month_lengths_def)

lemma month_lengths_le: "i < length (month_lengths y) \<Longrightarrow> month_lengths y ! i \<le> 31"
proof -
  assume "i < length (month_lengths y)"
  then have "month_lengths y ! i \<in> set (month_lengths y)" by (rule nth_mem)
  then show ?thesis by (auto simp: month_lengths_def)
qed

lemma civil_of_facts:
  assumes "civil_of n = (y, m, d)"
  shows "1 \<le> m \<and> m \<le> 12 \<and> 1 \<le> d \<and> d \<le> 31 \<and> days_before_year y + sum_list (take (m - 1) (month_lengths y)) + (d - 1) = n"
proof -
  have "n < 365 * Suc (n div 365)" using dividend_less_times_div [of 365 n] by simp
  then have "n < days_before_year (Suc (n div 365))" using days_before_ge [of "Suc (n div 365)"] by (rule less_le_trans)
  note b = year_from_bounds [OF this]
  obtain i r where ir: "month_from (month_lengths (year_from (n div 365) n)) (n - days_before_year (year_from (n div 365) n)) = (i, r)"
    by (cases "month_from (month_lengths (year_from (n div 365) n)) (n - days_before_year (year_from (n div 365) n))")
  with assms have y: "y = year_from (n div 365) n" "m = Suc i" "d = Suc r" by (auto simp: civil_of_def Let_def)
  have "n - days_before_year y < sum_list (month_lengths y)"
    using b unfolding y sum_month_lengths days_before_Suc by (auto split: if_splits)
  from month_from_sum [OF this ir [folded y(1)]] have f: "i < length (month_lengths y)" "r < month_lengths y ! i"
    "sum_list (take i (month_lengths y)) + r = n - days_before_year y" by blast+
  moreover have "length (month_lengths y) = 12" by (simp add: month_lengths_def)
  moreover have "days_before_year y + (sum_list (take i (month_lengths y)) + r) = n" using f(3) b [folded y(1)] by simp
  ultimately show ?thesis using month_lengths_le [OF f(1)] y(2,3) by (auto simp: add.assoc)
qed

lemma utc_days_civil:
  assumes "civil_of n = (y, m, d)"
  shows "utc_days y m d = n"
proof -
  note f = civil_of_facts [OF assms]
  then have "(int m - 1) div 12 = 0" "(int m - 1) mod 12 = int m - 1" by auto
  moreover have "nat (int m - 1) = m - 1" by simp
  ultimately have "utc_days y m d = nat (int (days_before_year y + sum_list (take (m - 1) (month_lengths y))) + int d - 1)"
    by (simp add: utc_days_def Let_def)
  also have "\<dots> = n" using f by linarith
  finally show ?thesis .
qed

section \<open>Round trip\<close>

lemma is_digit_char: "n < 10 \<Longrightarrow> is_digit (char_of (48 + n))" for n :: nat
  by (simp add: is_digit_def)

lemma length_pad [simp]: "length (pad k n) = k"
  by (induction k n rule: pad.induct) auto

lemma digits_pad: "list_all is_digit (pad k n)"
  by (induction k n rule: pad.induct) (auto simp: is_digit_char)

lemma num_of_pad: "num_of (pad k n) = n mod 10 ^ k"
proof (induction k n rule: pad.induct)
  case (2 k n)
  have "num_of (pad (Suc k) n) = 10 * num_of (pad k (n div 10)) + n mod 10" by (simp add: num_of_def)
  also have "\<dots> = n mod 10 ^ Suc k" using "2.IH" by (simp add: mod_mult2_eq)
  finally show ?case .
qed (simp add: num_of_def)

lemma pad2: "pad 2 n = [char_of (48 + n div 10 mod 10), char_of (48 + n mod 10)]"
  by (simp add: numeral_2_eq_2)

text \<open>A string of the canonical shape is read part by part.\<close>

lemma utc_parts_canonical:
  assumes "length Y = 4" "length M = 2" "length D = 2" "length H = 2" "length I = 2" "length S = 2" "f \<noteq> []"
    "list_all is_digit (Y @ M @ D @ H @ I @ S @ f)"
  shows "utc_parts (Y @ ''-'' @ M @ ''-'' @ D @ ''T'' @ H @ '':'' @ I @ '':'' @ S @ ''.'' @ f @ ''Z'')
    = Some ((num_of Y, num_of M, num_of D), (num_of H, num_of I, num_of S), f)"
proof -
  have two: "\<exists>a b. xs = [a, b]" if "length xs = 2" for xs :: string
    using that by (auto simp: numeral_2_eq_2 length_Suc_conv)
  from assms(1) obtain a b c d where Y: "Y = [a, b, c, d]" by (auto simp: numeral_eq_Suc length_Suc_conv)
  obtain m1 m2 d1 d2 h1 h2 i1 i2 s1 s2 where p: "M = [m1, m2]" "D = [d1, d2]" "H = [h1, h2]" "I = [i1, i2]" "S = [s1, s2]"
    using two [OF assms(2)] two [OF assms(3)] two [OF assms(4)] two [OF assms(5)] two [OF assms(6)] by auto
  show ?thesis using assms(7,8) unfolding Y p by (simp add: utc_parts_def Let_def numeral_eq_Suc)
qed

lemma clock_of_facts:
  assumes "clock_of t = (h, mi, s, ms)"
  shows "h < 24 \<and> mi < 60 \<and> s < 60 \<and> ms < 1000 \<and> int (h * 3600000 + mi * 60000 + s * 1000 + ms) = t mod 86400000"
proof -
  define r where "r = nat (t mod 86400000)"
  have r: "r < 86400000" "int r = t mod 86400000" by (auto simp: r_def)
  have c: "h = r div 3600000" "mi = r div 60000 mod 60" "s = r div 1000 mod 60" "ms = r mod 1000"
    using assms by (auto simp: clock_of_def Let_def r_def)
  have "h < 24" using r(1) by (simp add: c(1) less_mult_imp_div_less)
  moreover have "h * 3600000 + mi * 60000 + s * 1000 + ms = r"
  proof -
    define q where "q = r div 1000"
    have e: "r div 60000 = q div 60" "r div 3600000 = q div 60 div 60" by (simp_all add: q_def div_mult2_eq [symmetric])
    have "h * 3600 + mi * 60 + s = q"
      unfolding c e q_def [symmetric] using div_mult_mod_eq [of q 60] div_mult_mod_eq [of "q div 60" 60] by linarith
    then show ?thesis using div_mult_mod_eq [of r 1000] unfolding c(4) q_def [symmetric] by linarith
  qed
  ultimately show ?thesis using c r(2) by auto
qed

lemma make_time_of:
  assumes "0 \<le> t div 86400000 + EPOCH_DAYS" "clock_of t = (h, mi, s, ms)"
  shows "make_time (days_of t) h mi s ms = t"
  using clock_of_facts [OF assms(2)] assms(1) by (simp add: make_time_def days_of_def)

lemma div_mod_pack: "b < k \<Longrightarrow> (a * k + b) div k = a \<and> (a * k + b) mod k = b" for a b k :: nat
  by simp

lemma time_parts:
  assumes "h < 24" "mi < 60" "s < 60" "ms < 1000"
  shows "days_of (make_time n h mi s ms) = n" "clock_of (make_time n h mi s ms) = (h, mi, s, ms)"
proof -
  let ?r = "h * 3600000 + mi * 60000 + s * 1000 + ms"
  have r: "?r < 86400000" using assms by simp
  then show "days_of (make_time n h mi s ms) = n" by (simp add: days_of_def make_time_def)
  have "make_time n h mi s ms mod 86400000 = int ?r mod 86400000" unfolding make_time_def by (rule mod_mult_self3)
  also have "\<dots> = int ?r" using r by (intro mod_pos_pos_trivial) linarith+
  finally have "nat (make_time n h mi s ms mod 86400000) = ?r" by (simp only: nat_int)
  then show "clock_of (make_time n h mi s ms) = (h, mi, s, ms)"
    using div_mod_pack [of "s * 1000 + ms" 60000 "h * 60 + mi"] div_mod_pack [of mi 60 h] div_mod_pack [of ms 1000 "h * 3600 + mi * 60 + s"]
      div_mod_pack [of s 60 "h * 60 + mi"] div_mod_pack [of "mi * 60000 + s * 1000 + ms" 3600000 h] assms
    unfolding clock_of_def Let_def by (simp add: algebra_simps)
qed

text \<open>The moments from 1970 to the end of the year 9999.\<close>

definition common_era :: "int \<Rightarrow> bool" where
  "common_era t \<longleftrightarrow> 0 \<le> t \<and> t < 253402300800000"

lemma days_before_mono: "x \<le> y \<Longrightarrow> days_before_year x \<le> days_before_year y"
  by (induction y) (auto simp: days_before_Suc le_Suc_eq)

lemma civil_of_year:
  assumes "civil_of n = (y, m, d)"
  shows "days_before_year y \<le> n \<and> n < days_before_year (Suc y)"
proof -
  have "n < 365 * Suc (n div 365)" using dividend_less_times_div [of 365 n] by simp
  then have "n < days_before_year (Suc (n div 365))" using days_before_ge [of "Suc (n div 365)"] by (rule less_le_trans)
  then have "days_before_year (year_from (n div 365) n) \<le> n \<and> n < days_before_year (Suc (year_from (n div 365) n))" by (rule year_from_bounds)
  moreover have "y = year_from (n div 365) n" using assms by (auto simp: civil_of_def Let_def split: prod.splits)
  ultimately show ?thesis by blast
qed

lemma common_era_year:
  assumes "common_era t" "civil_of (days_of t) = (y, m, d)"
  shows "1970 \<le> y \<and> y \<le> 9999"
proof -
  have "0 \<le> t div 86400000" "t div 86400000 < 2932897" using assms(1) by (auto simp: common_era_def)
  then have n: "days_before_year 1970 \<le> days_of t" "days_of t < days_before_year 10000"
    by (auto simp: days_of_def EPOCH_DAYS_def days_before_year_def)
  note y = civil_of_year [OF assms(2)]
  have "\<not> Suc y \<le> 1970" using n y days_before_mono [of "Suc y" 1970] by linarith
  moreover have "\<not> 10000 \<le> y" using n y days_before_mono [of 10000 y] by linarith
  ultimately show ?thesis by linarith
qed

lemma toISOString_shape:
  assumes "civil_of (days_of t) = (y, m, d)" "clock_of t = (h, mi, s, ms)" "y \<le> 9999"
  shows "utc_parts (toISOString t) = Some ((y, m, d), (h, mi, s), pad 3 ms)"
proof -
  have "num_of (pad 4 y) = y" "num_of (pad 2 m) = m" "num_of (pad 2 d) = d" "num_of (pad 2 h) = h" "num_of (pad 2 mi) = mi" "num_of (pad 2 s) = s"
    using civil_of_facts [OF assms(1)] clock_of_facts [OF assms(2)] assms(3) by (simp_all add: num_of_pad)
  then show ?thesis
    using utc_parts_canonical [of "pad 4 y" "pad 2 m" "pad 2 d" "pad 2 h" "pad 2 mi" "pad 2 s" "pad 3 ms"] assms
    by (simp add: toISOString_def Let_def digits_pad flip: length_0_conv)
qed

lemma parse_toISOString:
  assumes "common_era t"
  shows "parseCanonicalUtc (Str (toISOString t)) = Some t"
proof -
  obtain y m d where c: "civil_of (days_of t) = (y, m, d)" by (cases "civil_of (days_of t)") auto
  obtain h mi s ms where k: "clock_of t = (h, mi, s, ms)" by (cases "clock_of t") auto
  note y = common_era_year [OF assms c] and b = clock_of_facts [OF k]
  have p: "utc_parts (toISOString t) = Some ((y, m, d), (h, mi, s), pad 3 ms)" using toISOString_shape [OF c k] y by simp
  have D: "Date_UTC y m d h mi s = make_time (days_of t) h mi s 0" using y utc_days_civil [OF c] by (simp add: Date_UTC_def)
  have "0 \<le> t div 86400000 + EPOCH_DAYS" using assms by (simp add: common_era_def EPOCH_DAYS_def pos_imp_zdiv_nonneg_iff)
  then have "make_time (days_of t) h mi s ms = t" using k by (rule make_time_of)
  then have t: "make_time (days_of t) h mi s 0 + int ms = t" by (simp add: make_time_def)
  have parts: "days_of (make_time (days_of t) h mi s 0) = days_of t" "clock_of (make_time (days_of t) h mi s 0) = (h, mi, s, 0)"
    using time_parts [of h mi s 0 "days_of t"] b by simp_all
  have "num_of (take 3 (pad 3 ms @ ''000'')) = ms" using b by (simp add: num_of_pad)
  then show ?thesis unfolding parseCanonicalUtc_def js.case p by (simp add: D parts c t)
qed

lemma toISOString_length: "common_era t \<Longrightarrow> length (toISOString t) = 24"
proof -
  assume e: "common_era t"
  obtain y m d where c: "civil_of (days_of t) = (y, m, d)" by (cases "civil_of (days_of t)") auto
  obtain h mi s ms where k: "clock_of t = (h, mi, s, ms)" by (cases "clock_of t") auto
  show ?thesis using common_era_year [OF e c] by (simp add: toISOString_def c k)
qed

end
