(* ===== verification/Execution_Context.thy ===== *)
theory Execution_Context
  imports Attempt_Contract Iso_Time
begin

text \<open>
  The launcher's gate (\<^verbatim>\<open>agent-execution/execution-context.ts\<close>): an untrusted marker is
  bound to the launcher's own expectations, its freshness window and a single-use nonce
  before any work begins.

  The nonce store is the list of consumed nonces; without a store nothing is consumed. The
  clock is a parameter, the \<open>now\<close> of the options.
\<close>

section \<open>Expectations\<close>

record launch_expectations =
  le_nodeId :: string
  le_attemptId :: string
  le_targetRepo :: string
  le_targetBranch :: string
  le_workspacePath :: string

record pool_proof_expectations = launch_expectations +
  pe_piRuntimeParent :: string
  pe_piSessionDir :: string
  pe_piExecutablePath :: string
  pe_piExecutableVersion :: string
  pe_piExecutableDigest :: string
  pe_packagePath :: string
  pe_packageProfile :: string
  pe_packageDigest :: string
  pe_profileName :: string
  pe_profilePath :: string
  pe_profileDigest :: string
  pe_selectedModel :: string
  pe_toolGrants :: "string list"
  pe_resultDestinationId :: string

definition FRESHNESS_CEILING_SECONDS :: int where "FRESHNESS_CEILING_SECONDS = 300"
definition CLOCK_SKEW_TOLERANCE_MS :: int where "CLOCK_SKEW_TOLERANCE_MS = 30000"
definition MAX_FIELD_LENGTH :: nat where "MAX_FIELD_LENGTH = 4096"

definition CONTEXT_FIELDS :: "string list" where
  "CONTEXT_FIELDS = [''schema_version'', ''actor'', ''node_id'', ''attempt_id'', ''attempt_nonce'', ''issued_by'', ''issued_at'',
     ''expires_at'', ''max_age_seconds'', ''target_repo'', ''target_branch'', ''workspace_path'', ''pi_runtime_parent'',
     ''pi_session_dir'', ''pi_executable_identity'', ''package_identity'', ''profile_identity'', ''selected_model'',
     ''tool_grants'', ''result_destination'']"

section \<open>Patterns\<close>

definition is_hex :: "char \<Rightarrow> bool" where
  "is_hex c = (let n = of_char c :: nat in (48 \<le> n \<and> n \<le> 57) \<or> (97 \<le> n \<and> n \<le> 102))"

fun nonce_matches :: "js \<Rightarrow> bool" where
  "nonce_matches (Str s) = (32 \<le> length s \<and> length s \<le> 128 \<and> list_all is_hex s)"
| "nonce_matches _ = False"

definition is_newline :: "char \<Rightarrow> bool" where
  "is_newline c = (c = CHR 0x0A \<or> c = CHR 0x0D)"

text \<open>
  The look-ahead of \<^verbatim>\<open>ABSOLUTE_WORKSPACE_PATH\<close>, tried after the first slash: a slash and
  two dots, followed by a slash or the end, somewhere ahead on the same line.
\<close>

fun dotdot_ahead :: "string \<Rightarrow> bool" where
  "dotdot_ahead [] = False"
| "dotdot_ahead (c # cs) =
     ((c = CHR ''/'' \<and> take 2 cs = ''..'' \<and> (drop 2 cs = [] \<or> hd (drop 2 cs) = CHR ''/'')) \<or> (\<not> is_newline c \<and> dotdot_ahead cs))"

fun isAbsolutePath :: "js \<Rightarrow> bool" where
  "isAbsolutePath (Str (c # cs)) =
     (c = CHR ''/'' \<and> \<not> dotdot_ahead cs \<and> cs \<noteq> [] \<and> last cs \<noteq> CHR ''/'' \<and> list_all (\<lambda>x. \<not> is_newline x) (butlast cs))"
| "isAbsolutePath _ = False"

fun non_empty :: "js \<Rightarrow> bool" where
  "non_empty (Str s) = (s \<noteq> [])"
| "non_empty _ = False"

definition isGrantArray :: "js \<Rightarrow> bool" where
  "isGrantArray v = (is_array v \<and> list_all non_empty (items v))"

section \<open>Nested objects\<close>

abbreviation context_invalid :: "string \<Rightarrow> exec_error" where
  "context_invalid f \<equiv> (''CONTEXT_INVALID_FIELD'', Some f)"

definition validateIdentityObject :: "js \<Rightarrow> string list \<Rightarrow> string \<Rightarrow> exec_error option" where
  "validateIdentityObject v requiredKeys code =
     (if \<not> is_object v then Some (code, None)
      else case unknown_key v requiredKeys of
        Some key \<Rightarrow> Some (code, Some key)
      | None \<Rightarrow> first_some (\<lambda>key. if \<not> hasOwnField v key \<or> \<not> isNonBlankString (fld v key) then Some (code, Some key) else None) requiredKeys)"

definition validateResultDestination :: "js \<Rightarrow> exec_error option" where
  "validateResultDestination v =
     (if \<not> is_object v then Some (context_invalid ''result_destination'')
      else if unknown_key v [''kind'', ''id''] \<noteq> None then Some (context_invalid ''result_destination'')
      else if \<not> hasOwnField v ''kind'' \<or> \<not> hasOwnField v ''id'' then Some (context_invalid ''result_destination'')
      else if fld v ''kind'' \<noteq> Str ''sqlite'' \<and> fld v ''kind'' \<noteq> Str ''callback'' then Some (context_invalid ''result_destination.kind'')
      else if \<not> isNonBlankString (fld v ''id'') then Some (context_invalid ''result_destination.id'')
      else None)"

section \<open>The checks in order\<close>

fun too_long :: "js \<Rightarrow> bool" where
  "too_long (Str s) = (MAX_FIELD_LENGTH < length s)"
| "too_long _ = False"

definition shape_error :: "js \<Rightarrow> exec_error option" where
  "shape_error v =
     (if \<not> is_object v then Some (''CONTEXT_NOT_AN_OBJECT'', None)
      else
       or_else (first_some (\<lambda>key. if too_long (fld v key) then Some (context_invalid key) else None) (Object_keys v))
      (or_else (if fld v ''schema_version'' \<noteq> Num (Fin 3) then Some (''CONTEXT_VERSION_UNSUPPORTED'', None) else None)
      (or_else (map_option (\<lambda>key. (''CONTEXT_UNKNOWN_FIELD'', Some key)) (unknown_key v CONTEXT_FIELDS))
               (first_some (\<lambda>key. if hasOwnField v key then None else Some (''CONTEXT_MISSING_FIELD'', Some key)) CONTEXT_FIELDS))))"

definition field_error :: "js \<Rightarrow> exec_error option" where
  "field_error v =
     or_else (if fld v ''actor'' \<noteq> Str ''pool-worker'' then Some (context_invalid ''actor'') else None)
    (or_else (if fld v ''issued_by'' \<noteq> Str ''agent-pool-supervisor'' \<and> fld v ''issued_by'' \<noteq> Str ''agent-pool-runtime''
              then Some (''CONTEXT_UNTRUSTED_ISSUER'', None) else None)
    (or_else (first_some (\<lambda>key. if isNonBlankString (fld v key) then None else Some (context_invalid key))
                [''node_id'', ''attempt_id'', ''target_repo'', ''target_branch''])
    (or_else (if \<not> nonce_matches (fld v ''attempt_nonce'') then Some (context_invalid ''attempt_nonce'') else None)
    (or_else (first_some (\<lambda>key. if isAbsolutePath (fld v key) then None else Some (context_invalid key))
                [''workspace_path'', ''pi_runtime_parent'', ''pi_session_dir''])
    (or_else (if \<not> isPositiveInteger (fld v ''max_age_seconds'') then Some (context_invalid ''max_age_seconds'') else None)
    (or_else (if FRESHNESS_CEILING_SECONDS < js_int (fld v ''max_age_seconds'') then Some (''CONTEXT_FRESHNESS_CEILING_EXCEEDED'', None) else None)
    (or_else (validateIdentityObject (fld v ''pi_executable_identity'') [''path'', ''version'', ''digest''] ''CONTEXT_INVALID_FIELD'')
    (or_else (validateIdentityObject (fld v ''package_identity'') [''path'', ''profile'', ''digest''] ''CONTEXT_INVALID_FIELD'')
    (or_else (validateIdentityObject (fld v ''profile_identity'') [''name'', ''path'', ''digest''] ''CONTEXT_INVALID_FIELD'')
    (or_else (if \<not> isNonBlankString (fld v ''selected_model'') then Some (context_invalid ''selected_model'') else None)
    (or_else (if \<not> isApprovedModelId (fld v ''selected_model'') then Some (''POOL_PROOF_MODEL_UNAPPROVED'', None) else None)
    (or_else (if \<not> isGrantArray (fld v ''tool_grants'') \<or> items (fld v ''tool_grants'') = [] then Some (context_invalid ''tool_grants'') else None)
             (validateResultDestination (fld v ''result_destination''))))))))))))))"

definition time_error :: "js \<Rightarrow> exec_error option" where
  "time_error v =
     (case parseCanonicalUtc (fld v ''issued_at'') of
        None \<Rightarrow> Some (context_invalid ''issued_at'')
      | Some issuedAtMs \<Rightarrow>
          (case parseCanonicalUtc (fld v ''expires_at'') of
             None \<Rightarrow> Some (context_invalid ''expires_at'')
           | Some expiresAtMs \<Rightarrow>
               if expiresAtMs \<le> issuedAtMs \<or> js_int (fld v ''max_age_seconds'') * 1000 < expiresAtMs - issuedAtMs
               then Some (''CONTEXT_EXPIRY_INCOHERENT'', None) else None))"

definition launch_error :: "js \<Rightarrow> 'a launch_expectations_scheme \<Rightarrow> exec_error option" where
  "launch_error v x =
     or_else (map_option (\<lambda>path. (''CONTEXT_CARRIES_DAG_TOPOLOGY'', Some path)) (findDagTopology v ''execution-context''))
    (or_else (if fld v ''node_id'' \<noteq> Str (le_nodeId x) \<or> fld v ''attempt_id'' \<noteq> Str (le_attemptId x)
              then Some (''CONTEXT_IDENTITY_MISMATCH'', None) else None)
    (or_else (if fld v ''target_repo'' \<noteq> Str (le_targetRepo x) \<or> fld v ''target_branch'' \<noteq> Str (le_targetBranch x)
              then Some (''CONTEXT_TARGET_MISMATCH'', None) else None)
             (if fld v ''workspace_path'' \<noteq> Str (le_workspacePath x) then Some (''CONTEXT_WORKSPACE_MISMATCH'', None) else None)))"

definition binding_error :: "js \<Rightarrow> pool_proof_expectations \<Rightarrow> exec_error option" where
  "binding_error v p = first_error
     [(fld v ''pi_runtime_parent'' \<noteq> Str (pe_piRuntimeParent p), (''CONTEXT_PI_RUNTIME_MISMATCH'', None)),
      (fld v ''pi_session_dir'' \<noteq> Str (pe_piSessionDir p), (''CONTEXT_PI_SESSION_MISMATCH'', None)),
      (fld (fld v ''pi_executable_identity'') ''path'' \<noteq> Str (pe_piExecutablePath p)
         \<or> fld (fld v ''pi_executable_identity'') ''version'' \<noteq> Str (pe_piExecutableVersion p)
         \<or> fld (fld v ''pi_executable_identity'') ''digest'' \<noteq> Str (pe_piExecutableDigest p), (''CONTEXT_PI_EXECUTABLE_MISMATCH'', None)),
      (fld (fld v ''package_identity'') ''path'' \<noteq> Str (pe_packagePath p)
         \<or> fld (fld v ''package_identity'') ''profile'' \<noteq> Str (pe_packageProfile p)
         \<or> fld (fld v ''package_identity'') ''digest'' \<noteq> Str (pe_packageDigest p), (''CONTEXT_PACKAGE_MISMATCH'', None)),
      (fld (fld v ''profile_identity'') ''name'' \<noteq> Str (pe_profileName p)
         \<or> fld (fld v ''profile_identity'') ''path'' \<noteq> Str (pe_profilePath p)
         \<or> fld (fld v ''profile_identity'') ''digest'' \<noteq> Str (pe_profileDigest p), (''CONTEXT_PROFILE_MISMATCH'', None)),
      (fld v ''selected_model'' \<noteq> Str (pe_selectedModel p), (''CONTEXT_MODEL_MISMATCH'', None)),
      (items (fld v ''tool_grants'') \<noteq> map Str (pe_toolGrants p), (''CONTEXT_TOOL_GRANT_MISMATCH'', None)),
      (fld (fld v ''result_destination'') ''kind'' \<noteq> Str ''sqlite''
         \<or> fld (fld v ''result_destination'') ''id'' \<noteq> Str (pe_resultDestinationId p), (''CONTEXT_RESULT_DESTINATION_MISMATCH'', None))]"

definition freshness_error :: "int \<Rightarrow> int \<Rightarrow> int \<Rightarrow> int \<Rightarrow> exec_error option" where
  "freshness_error now issuedAtMs expiresAtMs maxAge =
     (if CLOCK_SKEW_TOLERANCE_MS < issuedAtMs - now then Some (''CONTEXT_NOT_YET_VALID'', None)
      else if expiresAtMs \<le> now \<or> maxAge * 1000 < now - issuedAtMs then Some (''CONTEXT_STALE'', None) else None)"

section \<open>Validation\<close>

record validated_context =
  vx_context :: js
  vx_issuedAtMs :: int
  vx_expiresAtMs :: int

definition validateExecutionContext ::
  "js \<Rightarrow> 'a launch_expectations_scheme \<Rightarrow> pool_proof_expectations option \<Rightarrow> int \<Rightarrow> string list option
     \<Rightarrow> (execution_failure + validated_context) \<times> string list option" where
  "validateExecutionContext v x poolProof now nonceStore =
     (let issuedAtMs = the (parseCanonicalUtc (fld v ''issued_at'')); expiresAtMs = the (parseCanonicalUtc (fld v ''expires_at'')) in
      case or_else (shape_error v) (or_else (field_error v) (or_else (time_error v) (or_else (launch_error v x)
          (or_else (case poolProof of Some p \<Rightarrow> binding_error v p | None \<Rightarrow> None)
                   (freshness_error now issuedAtMs expiresAtMs (js_int (fld v ''max_age_seconds''))))))) of
        Some (code, detail) \<Rightarrow> (Inl (createExecutionFailure code detail), nonceStore)
      | None \<Rightarrow>
          let ok = Inr \<lparr> vx_context = v, vx_issuedAtMs = issuedAtMs, vx_expiresAtMs = expiresAtMs \<rparr>; nonce = js_str (fld v ''attempt_nonce'') in
          (case nonceStore of
             None \<Rightarrow> (ok, None)
           | Some consumed \<Rightarrow>
               if nonce \<in> set consumed then (Inl (createExecutionFailure ''CONTEXT_REPLAYED'' None), nonceStore)
               else (ok, Some (nonce # consumed))))"

end
