(* ===== verification/Pool_Runtime.thy ===== *)
theory Pool_Runtime
  imports Execution_Context
begin

text \<open>
  The minimal pool runtime (\<^verbatim>\<open>agent-execution/minimal-pool-runtime.ts\<close>): a process-local
  FIFO with a fixed number of slots, and the run of one job in a slot.

  The runtime is single-threaded and asynchronous: its atomic steps are a submission, a
  slot that finishes, and a shutdown request, in any interleaving. \<open>runOne\<close> is the work
  between the start and the end of a slot; its collaborators (resource factory, launcher,
  verifier, persistence) are ports that may throw, with the message as Inl or Some. A port
  that never answers leaves its slot busy.
\<close>

section \<open>Jobs, resources and expectations\<close>

record proof_job =
  pj_nodeId :: string
  pj_attemptId :: string
  pj_attemptNumber :: int
  pj_intent :: string
  pj_changeSpec :: string
  pj_acceptanceCriteria :: "(string \<times> string) list"
  pj_criteriaOriginSource :: string
  pj_criteriaOriginSourceId :: string
  pj_targetRepo :: string
  pj_targetBranch :: string
  pj_allowedChangedPaths :: "string list"
  pj_fixtureTestCommand :: "string list"
  pj_workspacePath :: "string option"

record attempt_resources =
  rs_attemptId :: string
  rs_basePath :: string
  rs_workspacePath :: string
  rs_piRuntimeParent :: string
  rs_piSessionDir :: string
  rs_nonce :: string
  rs_resultId :: string
  rs_createdAt :: int

record cleanup_disposition =
  cl_attemptRootRemoved :: bool
  cl_workspaceRemoved :: bool
  cl_errors :: "string list"

definition buildExpectations ::
  "attempt_resources \<Rightarrow> proof_job \<Rightarrow> string \<Rightarrow> pool_proof_expectations \<Rightarrow> pool_proof_expectations" where
  "buildExpectations resources job selectedModel launchIdentity =
     \<lparr> le_nodeId = pj_nodeId job, le_attemptId = pj_attemptId job, le_targetRepo = pj_targetRepo job,
       le_targetBranch = pj_targetBranch job, le_workspacePath = rs_workspacePath resources,
       pe_piRuntimeParent = rs_piRuntimeParent resources, pe_piSessionDir = rs_piSessionDir resources,
       pe_piExecutablePath = pe_piExecutablePath launchIdentity, pe_piExecutableVersion = pe_piExecutableVersion launchIdentity,
       pe_piExecutableDigest = pe_piExecutableDigest launchIdentity, pe_packagePath = pe_packagePath launchIdentity,
       pe_packageProfile = pe_packageProfile launchIdentity, pe_packageDigest = pe_packageDigest launchIdentity,
       pe_profileName = pe_profileName launchIdentity, pe_profilePath = pe_profilePath launchIdentity,
       pe_profileDigest = pe_profileDigest launchIdentity, pe_selectedModel = selectedModel,
       pe_toolGrants = pe_toolGrants launchIdentity, pe_resultDestinationId = rs_resultId resources \<rparr>"

definition buildMarker :: "attempt_resources \<Rightarrow> proof_job \<Rightarrow> string \<Rightarrow> pool_proof_expectations \<Rightarrow> int \<Rightarrow> js" where
  "buildMarker resources job selectedModel expectations issuedAt =
     plain [(''schema_version'', JInt 3), (''actor'', Str ''pool-worker''), (''node_id'', Str (pj_nodeId job)),
       (''attempt_id'', Str (pj_attemptId job)), (''attempt_nonce'', Str (rs_nonce resources)),
       (''issued_by'', Str ''agent-pool-runtime''), (''issued_at'', Str (toISOString issuedAt)),
       (''expires_at'', Str (toISOString (issuedAt + 180000))), (''max_age_seconds'', JInt 180),
       (''target_repo'', Str (pj_targetRepo job)), (''target_branch'', Str (pj_targetBranch job)),
       (''workspace_path'', Str (le_workspacePath expectations)), (''pi_runtime_parent'', Str (pe_piRuntimeParent expectations)),
       (''pi_session_dir'', Str (pe_piSessionDir expectations)),
       (''pi_executable_identity'', plain [(''path'', Str (pe_piExecutablePath expectations)),
          (''version'', Str (pe_piExecutableVersion expectations)), (''digest'', Str (pe_piExecutableDigest expectations))]),
       (''package_identity'', plain [(''path'', Str (pe_packagePath expectations)),
          (''profile'', Str (pe_packageProfile expectations)), (''digest'', Str (pe_packageDigest expectations))]),
       (''profile_identity'', plain [(''name'', Str (pe_profileName expectations)),
          (''path'', Str (pe_profilePath expectations)), (''digest'', Str (pe_profileDigest expectations))]),
       (''selected_model'', Str selectedModel), (''tool_grants'', Arr (map Str (pe_toolGrants expectations))),
       (''result_destination'', plain [(''kind'', Str ''sqlite''), (''id'', Str (pe_resultDestinationId expectations))])]"

section \<open>The run of one job\<close>

datatype submit_result =
    Finished string string string nat "cleanup_disposition option"
  | Failure string string "string option" "nat option" "cleanup_disposition option"

record verdict =
  vd_status :: string
  vd_commitSha :: "string option"
  vd_failureCode :: "string option"
  vd_checks :: "(string \<times> bool) list"

record result_record =
  re_attemptId :: string
  re_resultId :: string
  re_verdict :: verdict

datatype 'p launch_outcome = LaunchThrew string | LaunchFailed execution_failure | Launched 'p

datatype run_call = PersistAttempt string | PersistResult result_record bool | Release attempt_resources

record 'p run_ports =
  ru_allocate :: "string \<Rightarrow> string option \<Rightarrow> string + attempt_resources"
  ru_persistAttempt :: "string \<Rightarrow> string \<Rightarrow> string \<Rightarrow> string \<Rightarrow> string option"
  ru_launch :: "pool_proof_expectations \<Rightarrow> proof_job \<Rightarrow> js \<Rightarrow> 'p launch_outcome"
  ru_verify :: "attempt_resources \<Rightarrow> proof_job \<Rightarrow> 'p \<Rightarrow> string + verdict"
  ru_persistResult :: "nat \<Rightarrow> result_record \<Rightarrow> string option"
  ru_release :: "attempt_resources \<Rightarrow> string + cleanup_disposition"
  ru_issuedAt :: int
  ru_selectedModel :: string
  ru_launchIdentity :: pool_proof_expectations

definition failed_record :: "string \<Rightarrow> string \<Rightarrow> string \<Rightarrow> string \<Rightarrow> result_record" where
  "failed_record attemptId resultId failureCode check = \<lparr> re_attemptId = attemptId, re_resultId = resultId,
     re_verdict = \<lparr> vd_status = ''failed'', vd_commitSha = None, vd_failureCode = Some failureCode, vd_checks = [(check, False)] \<rparr> \<rparr>"

text \<open>The handler of an exception: one attempt to record the failure, whose own failure is swallowed.\<close>

definition runtime_exception :: "'p run_ports \<Rightarrow> proof_job \<Rightarrow> nat \<Rightarrow> attempt_resources \<Rightarrow> nat \<Rightarrow> string \<Rightarrow> submit_result \<times> run_call list" where
  "runtime_exception ru job slotIndex resources k m =
     (let r = failed_record (pj_attemptId job) (rs_resultId resources) ''RUNTIME_EXCEPTION'' ''runtime_exception'' in
      (Failure (pj_attemptId job) ''RUNTIME_EXCEPTION'' (Some m) (Some slotIndex) None,
       [PersistResult r (ru_persistResult ru k r = None)]))"

definition run_body :: "'p run_ports \<Rightarrow> proof_job \<Rightarrow> nat \<Rightarrow> attempt_resources \<Rightarrow> submit_result \<times> run_call list" where
  "run_body ru job slotIndex resources =
     (let attemptId = pj_attemptId job; resultId = rs_resultId resources; model = ru_selectedModel ru;
          expectations = buildExpectations resources job model (ru_launchIdentity ru);
          marker = buildMarker resources job model expectations (ru_issuedAt ru);
          caught = runtime_exception ru job slotIndex resources in
      case ru_persistAttempt ru attemptId (pj_nodeId job) model resultId of
        Some m \<Rightarrow> caught 0 m
      | None \<Rightarrow>
          (case ru_launch ru expectations job marker of
             LaunchThrew m \<Rightarrow> (case caught 0 m of (r, cs) \<Rightarrow> (r, PersistAttempt attemptId # cs))
           | LaunchFailed f \<Rightarrow>
               (let rec = failed_record attemptId resultId (ef_code f) ''launcher_binding'' in
                case ru_persistResult ru 0 rec of
                  None \<Rightarrow> (Failure attemptId (ef_code f) None (Some slotIndex) None, [PersistAttempt attemptId, PersistResult rec True])
                | Some m \<Rightarrow> (case caught 1 m of (r, cs) \<Rightarrow> (r, PersistAttempt attemptId # PersistResult rec False # cs)))
           | Launched process \<Rightarrow>
               (case ru_verify ru resources job process of
                  Inl m \<Rightarrow> (case caught 0 m of (r, cs) \<Rightarrow> (r, PersistAttempt attemptId # cs))
                | Inr v \<Rightarrow>
                    (let rec = \<lparr> re_attemptId = attemptId, re_resultId = resultId, re_verdict = v \<rparr> in
                     case ru_persistResult ru 0 rec of
                       None \<Rightarrow> (Finished attemptId resultId (vd_status v) slotIndex None, [PersistAttempt attemptId, PersistResult rec True])
                     | Some m \<Rightarrow> (case caught 1 m of (r, cs) \<Rightarrow> (r, PersistAttempt attemptId # PersistResult rec False # cs))))))"

fun with_cleanup :: "submit_result \<Rightarrow> cleanup_disposition \<Rightarrow> submit_result" where
  "with_cleanup (Finished a r s i _) c = Finished a r s i (Some c)"
| "with_cleanup (Failure a e m i _) c = Failure a e m i (Some c)"

definition runOne :: "'p run_ports \<Rightarrow> proof_job \<Rightarrow> nat \<Rightarrow> submit_result \<times> run_call list" where
  "runOne ru job slotIndex =
     (case ru_allocate ru (pj_attemptId job) (pj_workspacePath job) of
        Inl m \<Rightarrow> (Failure (pj_attemptId job) ''RESOURCE_ALLOCATION_FAILED'' (Some m) (Some slotIndex) None, [])
      | Inr resources \<Rightarrow>
          (case run_body ru job slotIndex resources of
             (result, calls) \<Rightarrow>
               (with_cleanup result
                  (case ru_release ru resources of
                     Inr c \<Rightarrow> c
                   | Inl m \<Rightarrow> \<lparr> cl_attemptRootRemoved = False, cl_workspaceRemoved = False, cl_errors = [m] \<rparr>),
                calls @ [Release resources])))"

section \<open>The pool\<close>

text \<open>Each adapter is real or fake; the record holds which are fake.\<close>

record adapter_provenance =
  ap_launcher_fake :: bool
  ap_sandbox_fake :: bool
  ap_verifier_fake :: bool
  ap_persistence_fake :: bool

definition hasFakeAdapter :: "adapter_provenance \<Rightarrow> bool" where
  "hasFakeAdapter p = (ap_launcher_fake p \<or> ap_sandbox_fake p \<or> ap_verifier_fake p \<or> ap_persistence_fake p)"

definition validateSlotCount :: "js \<Rightarrow> nat option" where
  "validateSlotCount v =
     (if v = Undefined \<or> v = Null then Some 1 else if isPositiveInteger v then Some (nat (js_int v)) else None)"

record slot =
  sl_busy :: bool
  sl_attemptId :: "string option"

text \<open>
  The state of the runtime. The last two fields are its history, the jobs accepted and the
  jobs started with their slot, in order; no operation reads them.
\<close>

record pool =
  pl_slots :: "slot list"
  pl_queue :: "proof_job list"
  pl_admitted :: "string list"
  pl_shuttingDown :: bool
  pl_idleWaiters :: nat
  pl_accepted :: "proof_job list"
  pl_started :: "(nat \<times> proof_job) list"

record pool_config =
  pc_provenance :: adapter_provenance
  pc_allowFakeAdapters :: bool

definition initial_pool :: "nat \<Rightarrow> pool" where
  "initial_pool n = \<lparr> pl_slots = replicate n \<lparr> sl_busy = False, sl_attemptId = None \<rparr>, pl_queue = [], pl_admitted = [],
     pl_shuttingDown = False, pl_idleWaiters = 0, pl_accepted = [], pl_started = [] \<rparr>"

text \<open>The message for a bad slot count also prints the value, which is left out here.\<close>

definition createMinimalPoolRuntimeWithPolicy :: "pool_config \<Rightarrow> js \<Rightarrow> string + pool" where
  "createMinimalPoolRuntimeWithPolicy cfg slotCount =
     (if pc_allowFakeAdapters cfg \<and> \<not> hasFakeAdapter (pc_provenance cfg) then Inl ''POOL_PROOF_TEST_RUNTIME_REQUIRES_FAKE_ADAPTER: test-only runtime requires explicit fake adapter provenance''
      else case validateSlotCount slotCount of
        None \<Rightarrow> Inl ''POOL_PROOF_INVALID_SLOT_COUNT: slotCount must be a positive integer''
      | Some n \<Rightarrow> Inr (initial_pool n))"

definition all_idle :: "pool \<Rightarrow> bool" where
  "all_idle s = list_all (\<lambda>x. \<not> sl_busy x) (pl_slots s)"

definition notifyWaiters :: "pool \<Rightarrow> pool" where
  "notifyWaiters s = (if pl_queue s = [] \<and> all_idle s then s\<lparr> pl_idleWaiters := 0 \<rparr> else s)"

text \<open>The scan of \<^verbatim>\<open>schedule\<close> from slot \<open>i\<close> on: the slots, the queue and the jobs started.\<close>

fun fill_slots :: "nat \<Rightarrow> slot list \<Rightarrow> proof_job list \<Rightarrow> slot list \<times> proof_job list \<times> (nat \<times> proof_job) list" where
  "fill_slots i [] q = ([], q, [])"
| "fill_slots i (x # xs) q =
     (if sl_busy x then (case fill_slots (Suc i) xs q of (ys, q', st) \<Rightarrow> (x # ys, q', st))
      else case q of
        [] \<Rightarrow> (x # xs, [], [])
      | job # q1 \<Rightarrow> (case fill_slots (Suc i) xs q1 of
          (ys, q', st) \<Rightarrow> (\<lparr> sl_busy = True, sl_attemptId = Some (pj_attemptId job) \<rparr> # ys, q', (i, job) # st)))"

definition schedule :: "pool \<Rightarrow> pool" where
  "schedule s = (case fill_slots 0 (pl_slots s) (pl_queue s) of
     (slots, queue, st) \<Rightarrow> s\<lparr> pl_slots := slots, pl_queue := queue, pl_started := pl_started s @ st \<rparr>)"

text \<open>A submission is answered at once (Some) or waits in the queue for its run (None).\<close>

definition submit :: "pool_config \<Rightarrow> proof_job \<Rightarrow> pool \<Rightarrow> submit_result option \<times> pool" where
  "submit cfg job s =
     (if pl_shuttingDown s then (Some (Failure (pj_attemptId job) ''POOL_PROOF_RUNTIME_SHUTTING_DOWN'' None None None), s)
      else if hasFakeAdapter (pc_provenance cfg) \<and> \<not> pc_allowFakeAdapters cfg
      then (Some (Failure (pj_attemptId job) ''POOL_PROOF_FAKE_ADAPTER_REJECTED: production proof entry point rejected a fake adapter'' None None None), s)
      else if \<not> hasFakeAdapter (pc_provenance cfg) \<and> pc_allowFakeAdapters cfg
      then (Some (Failure (pj_attemptId job) ''POOL_PROOF_TEST_RUNTIME_REQUIRES_FAKE_ADAPTER: test-only runtime requires explicit fake adapter provenance'' None None None), s)
      else if pj_attemptId job \<in> set (pl_admitted s)
      then (Some (Failure (pj_attemptId job) ''POOL_PROOF_DUPLICATE_ATTEMPT_ID'' None None None), s)
      else (None, schedule (s\<lparr> pl_admitted := pj_attemptId job # pl_admitted s, pl_queue := pl_queue s @ [job],
                              pl_accepted := pl_accepted s @ [job] \<rparr>)))"

text \<open>The end of \<^verbatim>\<open>runSlot\<close>: the slot is freed, the waiters are told, the queue is served.\<close>

definition finish_slot :: "nat \<Rightarrow> pool \<Rightarrow> pool" where
  "finish_slot i s = schedule (notifyWaiters (s\<lparr> pl_slots := (pl_slots s)[i := \<lparr> sl_busy = False, sl_attemptId = None \<rparr>] \<rparr>))"

definition shutdown :: "pool \<Rightarrow> pool" where
  "shutdown s = (let s' = s\<lparr> pl_shuttingDown := True \<rparr> in
     if pl_queue s \<noteq> [] \<or> \<not> all_idle s then s'\<lparr> pl_idleWaiters := pl_idleWaiters s + 1 \<rparr> else s')"

inductive pool_step :: "pool_config \<Rightarrow> pool \<Rightarrow> pool \<Rightarrow> bool" for cfg where
  ps_submit: "pool_step cfg s (snd (submit cfg job s))"
| ps_finish: "i < length (pl_slots s) \<Longrightarrow> sl_busy (pl_slots s ! i) \<Longrightarrow> pool_step cfg s (finish_slot i s)"
| ps_shutdown: "pool_step cfg s (shutdown s)"

end
