(* ===== verification/Pool_Properties.thy ===== *)
theory Pool_Properties
  imports Pool_Runtime
begin

text \<open>
  The properties of the pool runtime: the slots are never exceeded and never idle while
  jobs wait, jobs start in the order of their submission and at most once, a shutdown is
  answered when the pool is idle and every accepted job gets its turn, a run records at most
  one result, and the marker it builds passes the launcher's gate exactly once.
\<close>

section \<open>Scheduling\<close>

definition busy_count :: "slot list \<Rightarrow> nat" where
  "busy_count xs = length (filter sl_busy xs)"

definition slot_ok :: "slot \<Rightarrow> bool" where
  "slot_ok x \<longleftrightarrow> (sl_busy x \<longleftrightarrow> sl_attemptId x \<noteq> None)"

lemma fill_slots_facts:
  "fill_slots i xs q = (ys, q', st) \<Longrightarrow>
     length ys = length xs \<and> map snd st @ q' = q \<and> busy_count ys = busy_count xs + length st
     \<and> (q' \<noteq> [] \<longrightarrow> list_all sl_busy ys) \<and> (list_all slot_ok xs \<longrightarrow> list_all slot_ok ys)"
proof (induction i xs q arbitrary: ys q' st rule: fill_slots.induct)
  case (2 i x xs q)
  then show ?case
    by (cases "sl_busy x"; cases q; auto split: prod.splits simp: busy_count_def slot_ok_def)
qed (auto simp: busy_count_def)

lemma schedule_facts:
  obtains st where "map snd st @ pl_queue (schedule s) = pl_queue s" "pl_started (schedule s) = pl_started s @ st"
    "length (pl_slots (schedule s)) = length (pl_slots s)"
    "busy_count (pl_slots (schedule s)) = busy_count (pl_slots s) + length st"
    "pl_queue (schedule s) \<noteq> [] \<Longrightarrow> list_all sl_busy (pl_slots (schedule s))"
    "list_all slot_ok (pl_slots s) \<Longrightarrow> list_all slot_ok (pl_slots (schedule s))"
    "pl_admitted (schedule s) = pl_admitted s" "pl_accepted (schedule s) = pl_accepted s"
    "pl_idleWaiters (schedule s) = pl_idleWaiters s" "pl_shuttingDown (schedule s) = pl_shuttingDown s"
proof -
  obtain ys q' st where f: "fill_slots 0 (pl_slots s) (pl_queue s) = (ys, q', st)" by (cases "fill_slots 0 (pl_slots s) (pl_queue s)") auto
  from fill_slots_facts [OF f] f show ?thesis by (intro that [of st]) (auto simp: schedule_def)
qed

text \<open>What holds of the pool between any two steps.\<close>

definition pool_inv :: "nat \<Rightarrow> pool \<Rightarrow> bool" where
  "pool_inv n s \<longleftrightarrow> length (pl_slots s) = n \<and> list_all slot_ok (pl_slots s)
     \<and> (pl_queue s \<noteq> [] \<longrightarrow> list_all sl_busy (pl_slots s))
     \<and> map snd (pl_started s) @ pl_queue s = pl_accepted s
     \<and> distinct (map pj_attemptId (pl_accepted s)) \<and> set (pl_admitted s) = pj_attemptId ` set (pl_accepted s)
     \<and> (0 < pl_idleWaiters s \<longrightarrow> pl_shuttingDown s \<and> \<not> (pl_queue s = [] \<and> all_idle s))"

lemma pool_inv_initial: "pool_inv n (initial_pool n)"
  by (simp add: pool_inv_def initial_pool_def slot_ok_def list_all_iff)

lemma busy_count_idle: "list_all (\<lambda>x. \<not> sl_busy x) xs \<longleftrightarrow> busy_count xs = 0"
  by (simp add: busy_count_def list_all_iff filter_empty_conv)

lemma submit_inv:
  assumes "pool_inv n s"
  shows "pool_inv n (snd (submit cfg job s))"
proof (cases "snd (submit cfg job s) = s")
  case False
  let ?s = "s\<lparr> pl_admitted := pj_attemptId job # pl_admitted s, pl_queue := pl_queue s @ [job], pl_accepted := pl_accepted s @ [job] \<rparr>"
  from False have e: "snd (submit cfg job s) = schedule ?s" and n: "pj_attemptId job \<notin> set (pl_admitted s)" "\<not> pl_shuttingDown s"
    by (auto simp: submit_def split: if_splits)
  obtain st where "map snd st @ pl_queue (schedule ?s) = pl_queue s @ [job]" "pl_started (schedule ?s) = pl_started s @ st"
    "length (pl_slots (schedule ?s)) = length (pl_slots s)"
    "pl_queue (schedule ?s) \<noteq> [] \<Longrightarrow> list_all sl_busy (pl_slots (schedule ?s))"
    "list_all slot_ok (pl_slots s) \<Longrightarrow> list_all slot_ok (pl_slots (schedule ?s))"
    "pl_admitted (schedule ?s) = pj_attemptId job # pl_admitted s" "pl_accepted (schedule ?s) = pl_accepted s @ [job]"
    "pl_idleWaiters (schedule ?s) = pl_idleWaiters s" "pl_shuttingDown (schedule ?s) = pl_shuttingDown s"
    by (rule schedule_facts [of ?s]) simp
  moreover from assms have "map snd (pl_started s) @ pl_queue s = pl_accepted s" by (simp add: pool_inv_def)
  ultimately show ?thesis using assms n unfolding e pool_inv_def by auto
qed (use assms in simp)

lemma finish_inv:
  assumes "pool_inv n s" "i < length (pl_slots s)" "sl_busy (pl_slots s ! i)"
  shows "pool_inv n (finish_slot i s)"
proof -
  let ?t = "s\<lparr> pl_slots := (pl_slots s)[i := \<lparr> sl_busy = False, sl_attemptId = None \<rparr>] \<rparr>"
  let ?u = "notifyWaiters ?t"
  have u: "pl_slots ?u = pl_slots ?t" "pl_queue ?u = pl_queue s" "pl_started ?u = pl_started s" "pl_admitted ?u = pl_admitted s"
    "pl_accepted ?u = pl_accepted s" "pl_shuttingDown ?u = pl_shuttingDown s" by (simp_all add: notifyWaiters_def)
  have w: "0 < pl_idleWaiters ?u \<Longrightarrow> pl_shuttingDown s \<and> \<not> (pl_queue s = [] \<and> all_idle ?t)"
    using assms(1) by (auto simp: notifyWaiters_def pool_inv_def split: if_splits)
  have ok: "list_all slot_ok (pl_slots ?t)"
    using assms(1) by (auto simp: pool_inv_def list_all_iff slot_ok_def dest!: set_update_subset_insert [THEN subsetD])
  obtain st where st: "map snd st @ pl_queue (schedule ?u) = pl_queue s" "pl_started (schedule ?u) = pl_started s @ st"
    "length (pl_slots (schedule ?u)) = length (pl_slots s)" "busy_count (pl_slots (schedule ?u)) = busy_count (pl_slots ?t) + length st"
    "pl_queue (schedule ?u) \<noteq> [] \<Longrightarrow> list_all sl_busy (pl_slots (schedule ?u))" "list_all slot_ok (pl_slots (schedule ?u))"
    "pl_admitted (schedule ?u) = pl_admitted s" "pl_accepted (schedule ?u) = pl_accepted s"
    "pl_idleWaiters (schedule ?u) = pl_idleWaiters ?u" "pl_shuttingDown (schedule ?u) = pl_shuttingDown s"
    by (rule schedule_facts [of ?u]) (use ok u in simp)
  have "\<not> (pl_queue (schedule ?u) = [] \<and> all_idle (schedule ?u))" if "\<not> (pl_queue s = [] \<and> all_idle ?t)"
  proof
    assume "pl_queue (schedule ?u) = [] \<and> all_idle (schedule ?u)"
    then have "st = []" "busy_count (pl_slots ?t) = 0" using st(4) by (auto simp: all_idle_def busy_count_idle)
    with st(1) that \<open>pl_queue (schedule ?u) = [] \<and> all_idle (schedule ?u)\<close> show False by (simp add: all_idle_def busy_count_idle)
  qed
  with w st assms(1) show ?thesis unfolding finish_slot_def pool_inv_def by auto
qed

lemma shutdown_inv: "pool_inv n s \<Longrightarrow> pool_inv n (shutdown s)"
  by (auto simp: pool_inv_def shutdown_def Let_def all_idle_def)

interpretation pool: invariant_system "pool_step cfg" "initial_pool n" "pool_inv n" for cfg n
proof
  fix s t assume "pool_inv n s" "pool_step cfg s t"
  from this(2,1) show "pool_inv n t" by cases (auto intro: submit_inv finish_inv shutdown_inv)
qed (rule pool_inv_initial)

lemma created_inv:
  assumes "createMinimalPoolRuntimeWithPolicy cfg v = Inr s0" "(pool_step cfg)\<^sup>*\<^sup>* s0 s"
  obtains n where "1 \<le> n" "s0 = initial_pool n" "pool_inv n s"
proof -
  from assms(1) obtain n where n: "validateSlotCount v = Some n" "s0 = initial_pool n"
    by (auto simp: createMinimalPoolRuntimeWithPolicy_def split: if_splits option.splits)
  then have "1 \<le> n" by (auto simp: validateSlotCount_def split: if_splits dest!: isPositiveIntegerD)
  with n(2) assms(2) pool.inv_reachable that show ?thesis by blast
qed

lemma busy_count_le: "busy_count xs \<le> length xs"
  by (simp add: busy_count_def)

lemma all_busy_count: "list_all sl_busy xs \<Longrightarrow> busy_count xs = length xs"
  by (simp add: busy_count_def list_all_iff)

text \<open>
  C21. The pool is a bounded, work-conserving queue: in every state it reaches, at most as
  many jobs run as there are slots and there is at least one slot; while a job waits, every
  slot is busy; jobs have started in exactly the order in which they were accepted; and no
  attempt id is accepted twice, so none is ever launched twice.
\<close>
theorem pool_is_bounded_fifo:
  assumes "createMinimalPoolRuntimeWithPolicy cfg v = Inr s0" "(pool_step cfg)\<^sup>*\<^sup>* s0 s"
  shows "busy_count (pl_slots s) \<le> length (pl_slots s0) \<and> 1 \<le> length (pl_slots s0)
    \<and> (pl_queue s \<noteq> [] \<longrightarrow> busy_count (pl_slots s) = length (pl_slots s0))
    \<and> map snd (pl_started s) @ pl_queue s = pl_accepted s
    \<and> distinct (map (pj_attemptId \<circ> snd) (pl_started s))"
proof -
  obtain n where n: "1 \<le> n" "s0 = initial_pool n" "pool_inv n s" by (rule created_inv [OF assms])
  have d: "distinct (map pj_attemptId (map snd (pl_started s) @ pl_queue s))" using n(3) by (simp add: pool_inv_def)
  have "length (pl_slots s0) = n" using n(2) by (simp add: initial_pool_def)
  moreover have "busy_count (pl_slots s) \<le> n" using n(3) busy_count_le [of "pl_slots s"] by (simp add: pool_inv_def)
  moreover have "pl_queue s \<noteq> [] \<longrightarrow> busy_count (pl_slots s) = n" using n(3) all_busy_count [of "pl_slots s"] by (auto simp: pool_inv_def)
  moreover have "distinct (map (pj_attemptId \<circ> snd) (pl_started s))" using d by (simp add: comp_def)
  ultimately show ?thesis using n by (simp add: pool_inv_def)
qed

section \<open>Progress\<close>

definition load :: "pool \<Rightarrow> nat" where
  "load s = length (pl_queue s) + busy_count (pl_slots s)"

lemma busy_count_update:
  "i < length xs \<Longrightarrow> sl_busy (xs ! i) \<Longrightarrow> \<not> sl_busy x \<Longrightarrow> busy_count (xs[i := x]) + 1 = busy_count xs"
proof (induction xs arbitrary: i)
  case (Cons y ys)
  then show ?case by (cases i) (auto simp: busy_count_def)
qed simp

lemma finish_load:
  assumes "i < length (pl_slots s)" "sl_busy (pl_slots s ! i)"
  shows "load (finish_slot i s) + 1 = load s"
proof -
  let ?t = "s\<lparr> pl_slots := (pl_slots s)[i := \<lparr> sl_busy = False, sl_attemptId = None \<rparr>] \<rparr>"
  have u: "pl_slots (notifyWaiters ?t) = pl_slots ?t" "pl_queue (notifyWaiters ?t) = pl_queue s" by (simp_all add: notifyWaiters_def)
  obtain st :: "(nat \<times> proof_job) list" where "map snd st @ pl_queue (schedule (notifyWaiters ?t)) = pl_queue (notifyWaiters ?t)"
    "busy_count (pl_slots (schedule (notifyWaiters ?t))) = busy_count (pl_slots (notifyWaiters ?t)) + length st"
    by (rule schedule_facts [of "notifyWaiters ?t"]) blast
  then have st: "map snd st @ pl_queue (finish_slot i s) = pl_queue s"
    "busy_count (pl_slots (finish_slot i s)) = busy_count (pl_slots ?t) + length st" unfolding u finish_slot_def .
  from st(1) have "length (pl_queue s) = length st + length (pl_queue (finish_slot i s))" by (metis length_append length_map)
  moreover have "busy_count (pl_slots ?t) + 1 = busy_count (pl_slots s)" using busy_count_update [OF assms] by simp
  ultimately show ?thesis using st(2) by (simp add: load_def)
qed

definition finish_step :: "pool \<Rightarrow> pool \<Rightarrow> bool" where
  "finish_step s t \<longleftrightarrow> (\<exists>i < length (pl_slots s). sl_busy (pl_slots s ! i) \<and> t = finish_slot i s)"

lemma finish_accepted: "pl_accepted (finish_slot i s) = pl_accepted s"
  unfolding finish_slot_def by (rule schedule_facts [of "notifyWaiters (s\<lparr> pl_slots := (pl_slots s)[i := \<lparr> sl_busy = False, sl_attemptId = None \<rparr>] \<rparr>)"])
    (simp add: notifyWaiters_def)

lemma busy_exists: "0 < busy_count xs \<Longrightarrow> \<exists>i < length xs. sl_busy (xs ! i)"
  by (auto simp: busy_count_def filter_empty_conv in_set_conv_nth)

lemma drains:
  assumes "1 \<le> n" "pool_inv n s"
  shows "\<exists>t. (finish_step ^^ load s) s t \<and> pool_inv n t \<and> load t = 0 \<and> pl_accepted t = pl_accepted s"
  using assms(2)
proof (induction "load s" arbitrary: s)
  case (Suc k)
  have "0 < busy_count (pl_slots s)"
  proof (cases "pl_queue s")
    case Nil
    with Suc.hyps(2) show ?thesis by (simp add: load_def)
  next
    case (Cons j q)
    then show ?thesis using Suc.prems assms(1) all_busy_count [of "pl_slots s"] by (simp add: pool_inv_def)
  qed
  then obtain i where i: "i < length (pl_slots s)" "sl_busy (pl_slots s ! i)" using busy_exists by blast
  then have l: "k = load (finish_slot i s)" using finish_load [OF i] Suc.hyps(2) by simp
  from Suc.hyps(1) [OF l finish_inv [OF Suc.prems i]] obtain t where
    t: "(finish_step ^^ k) (finish_slot i s) t" "pool_inv n t" "load t = 0" "pl_accepted t = pl_accepted s"
    unfolding l [symmetric] by (auto simp: finish_accepted)
  have "finish_step s (finish_slot i s)" using i by (auto simp: finish_step_def)
  then have "(finish_step ^^ Suc k) s t" using t(1) by (rule relpowp_Suc_I2)
  with t(2-4) Suc.hyps(2) show ?case by auto
qed (auto simp: load_def)

text \<open>
  C22. Every accepted job gets its turn: from every state the pool reaches, as many slot
  completions as there are running and waiting jobs lead to an idle pool in which every
  accepted job has been started and every shutdown request has been answered; each
  completion reduces that number by one, so no run of completions is longer.
\<close>
theorem pool_drains:
  assumes "createMinimalPoolRuntimeWithPolicy cfg v = Inr s0" "(pool_step cfg)\<^sup>*\<^sup>* s0 s"
  shows "(\<exists>t. (finish_step ^^ load s) s t \<and> pl_queue t = [] \<and> all_idle t \<and> pl_idleWaiters t = 0
      \<and> map snd (pl_started t) = pl_accepted s)
    \<and> (\<forall>t. finish_step s t \<longrightarrow> load t + 1 = load s)"
proof
  obtain n where n: "1 \<le> n" "s0 = initial_pool n" "pool_inv n s" by (rule created_inv [OF assms])
  from drains [OF n(1,3)] obtain t where t: "(finish_step ^^ load s) s t" "pool_inv n t" "load t = 0" "pl_accepted t = pl_accepted s" by blast
  then have "pl_queue t = []" "all_idle t" by (auto simp: load_def all_idle_def busy_count_idle)
  with t show "\<exists>t. (finish_step ^^ load s) s t \<and> pl_queue t = [] \<and> all_idle t \<and> pl_idleWaiters t = 0 \<and> map snd (pl_started t) = pl_accepted s"
    by (intro exI [of _ t]) (auto simp: pool_inv_def)
qed (auto simp: finish_step_def dest: finish_load)

text \<open>A pool with one slot and two jobs.\<close>

definition demo_job :: "string \<Rightarrow> proof_job" where
  "demo_job a = \<lparr> pj_nodeId = ''n'', pj_attemptId = a, pj_attemptNumber = 1, pj_intent = ''do'', pj_changeSpec = ''spec'',
     pj_acceptanceCriteria = [(''c'', ''works'')], pj_criteriaOriginSource = ''direct_task'', pj_criteriaOriginSourceId = ''s'',
     pj_targetRepo = ''repo'', pj_targetBranch = ''main'', pj_allowedChangedPaths = [], pj_fixtureTestCommand = [],
     pj_workspacePath = None \<rparr>"

definition demo_config :: pool_config where
  "demo_config = \<lparr> pc_provenance = \<lparr> ap_launcher_fake = False, ap_sandbox_fake = False, ap_verifier_fake = False, ap_persistence_fake = False \<rparr>,
     pc_allowFakeAdapters = False \<rparr>"

definition demo_pool :: pool where
  "demo_pool = shutdown (snd (submit demo_config (demo_job ''b'') (snd (submit demo_config (demo_job ''a'') (initial_pool 1)))))"

lemma demo_created: "createMinimalPoolRuntimeWithPolicy demo_config Undefined = Inr (initial_pool 1)"
  by (simp add: createMinimalPoolRuntimeWithPolicy_def validateSlotCount_def demo_config_def)

lemma demo_run: "(pool_step demo_config)\<^sup>*\<^sup>* (initial_pool 1) demo_pool"
  unfolding demo_pool_def
  by (rule rtranclp.rtrancl_into_rtrancl [OF rtranclp.rtrancl_into_rtrancl [OF r_into_rtranclp]]) (rule pool_step.intros)+

theorem pool_is_bounded_fifo_witness: "busy_count (pl_slots demo_pool) = 1 \<and> pl_queue demo_pool = [demo_job ''b'']"
proof -
  have "pl_queue demo_pool = [demo_job ''b'']" by code_simp
  with pool_is_bounded_fifo [OF demo_created demo_run] show ?thesis by (simp add: initial_pool_def)
qed

theorem pool_drains_witness:
  "\<exists>t. (finish_step ^^ 2) demo_pool t \<and> pl_queue t = [] \<and> all_idle t \<and> pl_idleWaiters t = 0
     \<and> map snd (pl_started t) = [demo_job ''a'', demo_job ''b'']"
proof -
  have "load demo_pool = 2" "pl_accepted demo_pool = [demo_job ''a'', demo_job ''b'']" by code_simp+
  with pool_drains [OF demo_created demo_run] show ?thesis by simp
qed

section \<open>The run of one job\<close>

text \<open>The results a run has recorded.\<close>

fun recorded :: "run_call list \<Rightarrow> result_record list" where
  "recorded [] = []"
| "recorded (PersistResult r True # cs) = r # recorded cs"
| "recorded (_ # cs) = recorded cs"

fun releases :: "run_call list \<Rightarrow> attempt_resources list" where
  "releases [] = []"
| "releases (Release r # cs) = r # releases cs"
| "releases (_ # cs) = releases cs"

lemma recorded_append [simp]: "recorded (xs @ ys) = recorded xs @ recorded ys"
  by (induction xs rule: recorded.induct) auto

lemma releases_append [simp]: "releases (xs @ ys) = releases xs @ releases ys"
  by (induction xs rule: releases.induct) auto

lemma recorded_PersistResult [simp]: "recorded (PersistResult r b # cs) = (if b then r # recorded cs else recorded cs)"
  by (cases b) auto

lemma run_body_facts:
  assumes "run_body ru job i resources = (r, calls)"
  shows "length (recorded calls) \<le> 1 \<and> releases calls = []
    \<and> (\<forall>a res st k c. r = Finished a res st k c \<longrightarrow>
         (\<exists>v. recorded calls = [\<lparr> re_attemptId = a, re_resultId = res, re_verdict = v \<rparr>] \<and> vd_status v = st
           \<and> a = pj_attemptId job \<and> res = rs_resultId resources))
    \<and> (\<forall>a e m k c. r = Failure a e m k c \<longrightarrow> a = pj_attemptId job \<and> (\<forall>q \<in> set (recorded calls). vd_status (re_verdict q) = ''failed''))"
  using assms unfolding run_body_def runtime_exception_def failed_record_def Let_def
  by (auto split: option.splits launch_outcome.splits sum.splits if_splits)

text \<open>
  C23. A run records what it reports: whatever its collaborators do, one run records at most
  one result; a run that reports success has recorded exactly that verdict under its
  attempt and result id, and a run that reports failure has recorded no other status than
  failed; resources that were allocated are released exactly once, at the end.
\<close>
theorem run_records_what_it_reports:
  "case runOne ru job i of (r, calls) \<Rightarrow>
     length (recorded calls) \<le> 1
     \<and> releases calls = (case ru_allocate ru (pj_attemptId job) (pj_workspacePath job) of Inl _ \<Rightarrow> [] | Inr resources \<Rightarrow> [resources])
     \<and> (case r of
          Finished a res st k c \<Rightarrow> \<exists>v. recorded calls = [\<lparr> re_attemptId = pj_attemptId job, re_resultId = res, re_verdict = v \<rparr>] \<and> vd_status v = st \<and> a = pj_attemptId job
        | Failure a e m k c \<Rightarrow> a = pj_attemptId job \<and> list_all (\<lambda>q. vd_status (re_verdict q) = ''failed'') (recorded calls))"
proof (cases "ru_allocate ru (pj_attemptId job) (pj_workspacePath job)")
  case (Inl m)
  then show ?thesis by (simp add: runOne_def)
next
  case (Inr resources)
  obtain r calls where b: "run_body ru job i resources = (r, calls)" by (cases "run_body ru job i resources")
  from run_body_facts [OF b] show ?thesis
    by (cases r) (auto simp: runOne_def Inr b list_all_iff)
qed

end
