(* ===== verification/Context_Properties.thy ===== *)
theory Context_Properties
  imports Pool_Properties
begin

text \<open>
  The properties of the launcher's gate: what an accepted marker guarantees, and that the
  marker the pool runtime builds is accepted, once, within its window.
\<close>

section \<open>Accepted markers\<close>

lemma time_error_None:
  "time_error v = None \<longleftrightarrow> (\<exists>i e. parseCanonicalUtc (fld v ''issued_at'') = Some i \<and> parseCanonicalUtc (fld v ''expires_at'') = Some e
     \<and> i < e \<and> e - i \<le> js_int (fld v ''max_age_seconds'') * 1000)"
  by (auto simp: time_error_def not_le not_less split: option.splits)

lemma freshness_error_None:
  "freshness_error now i e a = None \<longleftrightarrow> i - now \<le> CLOCK_SKEW_TOLERANCE_MS \<and> now < e \<and> now - i \<le> a * 1000"
  by (auto simp: freshness_error_def)

lemma validateExecutionContext_Inr:
  "(\<exists>c. fst (validateExecutionContext v x poolProof now store) = Inr c) \<longleftrightarrow>
     shape_error v = None \<and> field_error v = None \<and> time_error v = None \<and> launch_error v x = None
     \<and> (\<forall>p. poolProof = Some p \<longrightarrow> binding_error v p = None)
     \<and> freshness_error now (the (parseCanonicalUtc (fld v ''issued_at''))) (the (parseCanonicalUtc (fld v ''expires_at'')))
         (js_int (fld v ''max_age_seconds'')) = None
     \<and> (\<forall>ns. store = Some ns \<longrightarrow> js_str (fld v ''attempt_nonce'') \<notin> set ns)"
proof -
  let ?e = "or_else (shape_error v) (or_else (field_error v) (or_else (time_error v) (or_else (launch_error v x)
      (or_else (case poolProof of Some p \<Rightarrow> binding_error v p | None \<Rightarrow> None)
        (freshness_error now (the (parseCanonicalUtc (fld v ''issued_at''))) (the (parseCanonicalUtc (fld v ''expires_at'')))
           (js_int (fld v ''max_age_seconds'')))))))"
  have pp: "(case poolProof of Some p \<Rightarrow> binding_error v p | None \<Rightarrow> None) = None \<longleftrightarrow> (\<forall>p. poolProof = Some p \<longrightarrow> binding_error v p = None)"
    by (cases poolProof) auto
  have "(\<exists>c. fst (validateExecutionContext v x poolProof now store) = Inr c) \<longleftrightarrow>
      ?e = None \<and> (\<forall>ns. store = Some ns \<longrightarrow> js_str (fld v ''attempt_nonce'') \<notin> set ns)"
    unfolding validateExecutionContext_def Let_def by (cases ?e; cases store) auto
  then show ?thesis unfolding or_else_None pp by blast
qed

lemma accepted_nonce:
  assumes "fst (validateExecutionContext v x poolProof now store) = Inr c"
  shows "snd (validateExecutionContext v x poolProof now store) = map_option ((#) (js_str (fld v ''attempt_nonce''))) store
    \<and> vx_context c = v \<and> vx_issuedAtMs c = the (parseCanonicalUtc (fld v ''issued_at''))
    \<and> vx_expiresAtMs c = the (parseCanonicalUtc (fld v ''expires_at''))"
  using assms unfolding validateExecutionContext_def Let_def by (auto split: option.splits if_splits)

lemma field_error_None:
  "field_error v = None \<Longrightarrow> isPositiveInteger (fld v ''max_age_seconds'') \<and> js_int (fld v ''max_age_seconds'') \<le> FRESHNESS_CEILING_SECONDS
     \<and> isApprovedModelId (fld v ''selected_model'') \<and> nonce_matches (fld v ''attempt_nonce'')"
  unfolding field_error_def or_else_None if_Some_None by auto

lemma launch_error_None:
  "launch_error v x = None \<longleftrightarrow> \<not> carries_topology v \<and> fld v ''node_id'' = Str (le_nodeId x) \<and> fld v ''attempt_id'' = Str (le_attemptId x)
     \<and> fld v ''target_repo'' = Str (le_targetRepo x) \<and> fld v ''target_branch'' = Str (le_targetBranch x)
     \<and> fld v ''workspace_path'' = Str (le_workspacePath x)"
  unfolding launch_error_def or_else_None if_Some_None map_option_is_None find_topology_None(1) by blast

text \<open>
  C29. What passes the launcher's gate is bound and fresh: an accepted marker carries no graph
  structure, names exactly the expected node, attempt, repository, branch and workspace and
  an approved model, lies in a window of at most five minutes that contains the current
  time up to the clock skew, and uses up its nonce, which had not been used before.
\<close>
theorem accepted_marker_is_bound_and_fresh:
  assumes "validateExecutionContext v x poolProof now (Some consumed) = (Inr c, store)"
  shows "\<not> carries_topology v
    \<and> (fld v ''node_id'', fld v ''attempt_id'', fld v ''target_repo'', fld v ''target_branch'', fld v ''workspace_path'')
        = (Str (le_nodeId x), Str (le_attemptId x), Str (le_targetRepo x), Str (le_targetBranch x), Str (le_workspacePath x))
    \<and> isApprovedModelId (fld v ''selected_model'')
    \<and> vx_issuedAtMs c - 30000 \<le> now \<and> now < vx_expiresAtMs c \<and> vx_expiresAtMs c - vx_issuedAtMs c \<le> 300000
    \<and> js_str (fld v ''attempt_nonce'') \<notin> set consumed \<and> store = Some (js_str (fld v ''attempt_nonce'') # consumed)"
proof -
  have a: "fst (validateExecutionContext v x poolProof now (Some consumed)) = Inr c" using assms by simp
  then have "\<exists>c. fst (validateExecutionContext v x poolProof now (Some consumed)) = Inr c" by blast
  then have g: "field_error v = None" "time_error v = None" "launch_error v x = None"
    "freshness_error now (the (parseCanonicalUtc (fld v ''issued_at''))) (the (parseCanonicalUtc (fld v ''expires_at'')))
       (js_int (fld v ''max_age_seconds'')) = None" "js_str (fld v ''attempt_nonce'') \<notin> set consumed"
    unfolding validateExecutionContext_Inr by blast+
  from g(2) obtain i e where t: "parseCanonicalUtc (fld v ''issued_at'') = Some i" "parseCanonicalUtc (fld v ''expires_at'') = Some e"
    "e - i \<le> js_int (fld v ''max_age_seconds'') * 1000" unfolding time_error_None by blast
  moreover have "js_int (fld v ''max_age_seconds'') \<le> 300" using field_error_None [OF g(1)] by (simp add: FRESHNESS_CEILING_SECONDS_def)
  ultimately have "e - i \<le> 300000" by simp
  moreover have "i - 30000 \<le> now" "now < e" using g(4) by (auto simp: t freshness_error_None CLOCK_SKEW_TOLERANCE_MS_def)
  moreover have "vx_issuedAtMs c = i" "vx_expiresAtMs c = e" "store = Some (js_str (fld v ''attempt_nonce'') # consumed)"
    using accepted_nonce [OF a] assms by (simp_all add: t)
  ultimately show ?thesis using g(5) g(3) [unfolded launch_error_None] field_error_None [OF g(1)] by simp
qed

section \<open>The marker of the runtime\<close>

text \<open>What the runtime needs of a job, its resources and the launch identity.\<close>

definition launchable :: "attempt_resources \<Rightarrow> proof_job \<Rightarrow> string \<Rightarrow> pool_proof_expectations \<Rightarrow> bool" where
  "launchable rs job model ident \<longleftrightarrow>
     list_all (\<lambda>t. trim t \<noteq> []) [pj_nodeId job, pj_attemptId job, pj_targetRepo job, pj_targetBranch job, pe_piExecutablePath ident,
       pe_piExecutableVersion ident, pe_piExecutableDigest ident, pe_packagePath ident, pe_packageProfile ident, pe_packageDigest ident,
       pe_profileName ident, pe_profilePath ident, pe_profileDigest ident, rs_resultId rs]
     \<and> list_all (\<lambda>t. length t \<le> MAX_FIELD_LENGTH) [pj_nodeId job, pj_attemptId job, pj_targetRepo job, pj_targetBranch job,
         rs_workspacePath rs, rs_piRuntimeParent rs, rs_piSessionDir rs]
     \<and> list_all (\<lambda>t. isAbsolutePath (Str t)) [rs_workspacePath rs, rs_piRuntimeParent rs, rs_piSessionDir rs]
     \<and> nonce_matches (Str (rs_nonce rs)) \<and> model \<in> set APPROVED_MODELS
     \<and> pe_toolGrants ident \<noteq> [] \<and> list_all (\<lambda>g. g \<noteq> []) (pe_toolGrants ident)"

abbreviation marker_of :: "attempt_resources \<Rightarrow> proof_job \<Rightarrow> string \<Rightarrow> pool_proof_expectations \<Rightarrow> int \<Rightarrow> js" where
  "marker_of rs job model ident t \<equiv> buildMarker rs job model (buildExpectations rs job model ident) t"

lemma approved_visible: "list_all (\<lambda>m. trim m \<noteq> [] \<and> length m \<le> MAX_FIELD_LENGTH) APPROVED_MODELS"
  by code_simp

lemma approved_visibleD: "m \<in> set APPROVED_MODELS \<Longrightarrow> trim m \<noteq> [] \<and> length m \<le> MAX_FIELD_LENGTH"
  using approved_visible by (simp add: list_all_iff)

lemma marker_shape:
  assumes "launchable rs job model ident" "common_era t" "common_era (t + 180000)"
  shows "shape_error (marker_of rs job model ident t) = None"
proof -
  have "length (rs_nonce rs) \<le> MAX_FIELD_LENGTH" "length model \<le> MAX_FIELD_LENGTH"
    using assms(1) approved_visibleD by (auto simp: launchable_def MAX_FIELD_LENGTH_def)
  moreover have "24 \<le> MAX_FIELD_LENGTH" "10 < MAX_FIELD_LENGTH" by (simp_all add: MAX_FIELD_LENGTH_def)
  ultimately show ?thesis
    using assms toISOString_length [OF assms(2)] toISOString_length [OF assms(3)]
    by (simp add: shape_error_def launchable_def buildMarker_def buildExpectations_def unknown_key_def CONTEXT_FIELDS_def hasOwnField_def
        MAX_FIELD_LENGTH_def)
qed

lemma marker_fields:
  assumes "launchable rs job model ident"
  shows "field_error (marker_of rs job model ident t) = None"
  using assms approved_visibleD [of model] unfolding field_error_def or_else_None
  by (simp add: launchable_def buildMarker_def buildExpectations_def validateIdentityObject_def validateResultDestination_def unknown_key_def
      hasOwnField_def isGrantArray_def FRESHNESS_CEILING_SECONDS_def list_all_iff)

lemma marker_times:
  assumes "common_era t" "common_era (t + 180000)"
  shows "parseCanonicalUtc (fld (marker_of rs job model ident t) ''issued_at'') = Some t"
    "parseCanonicalUtc (fld (marker_of rs job model ident t) ''expires_at'') = Some (t + 180000)"
    "js_int (fld (marker_of rs job model ident t) ''max_age_seconds'') = 180"
  using parse_toISOString [OF assms(1)] parse_toISOString [OF assms(2)] by (simp_all add: buildMarker_def)

lemma marker_keys_free:
  "list_all (\<lambda>k. toLowerCase k \<notin> set DAG_TOPOLOGY_KEYS) (CONTEXT_FIELDS @ [''path'', ''version'', ''digest'', ''profile'', ''name'', ''kind'', ''id''])"
  by code_simp

lemma no_topology:
  assumes "list_all (\<lambda>(k, v). toLowerCase k \<notin> set DAG_TOPOLOGY_KEYS \<and> \<not> carries_topology v) fs"
  shows "\<not> carries_topology (plain fs)"
  using assms by (induction fs) auto

lemma marker_topology_free: "\<not> carries_topology (buildMarker rs job model x t)"
proof -
  have k: "toLowerCase k \<notin> set DAG_TOPOLOGY_KEYS"
    if "k \<in> set (CONTEXT_FIELDS @ [''path'', ''version'', ''digest'', ''profile'', ''name'', ''kind'', ''id''])" for k
    using that marker_keys_free unfolding list_all_iff by blast
  show ?thesis unfolding buildMarker_def
    by (rule no_topology) (simp add: no_topology k CONTEXT_FIELDS_def del: carries_topology_simps(1))
qed

lemma marker_launch: "launch_error (marker_of rs job model ident t) (buildExpectations rs job model ident) = None"
  unfolding launch_error_None by (intro conjI marker_topology_free) (simp_all add: buildMarker_def buildExpectations_def)

lemma marker_binding: "binding_error (marker_of rs job model ident t) (buildExpectations rs job model ident) = None"
  by (simp add: binding_error_def buildMarker_def buildExpectations_def)

lemma marker_nonce: "js_str (fld (marker_of rs job model ident t) ''attempt_nonce'') = rs_nonce rs"
  by (simp add: buildMarker_def)

lemma marker_gate:
  assumes "launchable rs job model ident" "common_era t" "common_era (t + 180000)"
  shows "(\<exists>c. fst (validateExecutionContext (marker_of rs job model ident t) (buildExpectations rs job model ident)
             (Some (buildExpectations rs job model ident)) now (Some consumed)) = Inr c)
       \<longleftrightarrow> t - 30000 \<le> now \<and> now < t + 180000 \<and> rs_nonce rs \<notin> set consumed"
  unfolding validateExecutionContext_Inr marker_shape [OF assms] marker_fields [OF assms(1)] marker_launch marker_nonce
    time_error_None marker_times [OF assms(2,3)] freshness_error_None
  by (auto simp: marker_binding CLOCK_SKEW_TOLERANCE_MS_def)

text \<open>
  C30. The runtime and the launcher agree, once: for a launchable job the marker the runtime
  builds is accepted against the expectations it builds, from thirty seconds before to three
  minutes after its issue, exactly when its nonce has not been consumed; accepting it
  consumes the nonce.
\<close>
theorem marker_accepted_once:
  assumes "launchable rs job model ident" "common_era t" "common_era (t + 180000)"
  shows "(\<exists>c. fst (validateExecutionContext (marker_of rs job model ident t) (buildExpectations rs job model ident)
             (Some (buildExpectations rs job model ident)) now (Some consumed)) = Inr c)
       \<longleftrightarrow> t - 30000 \<le> now \<and> now < t + 180000 \<and> rs_nonce rs \<notin> set consumed"
  using assms by (rule marker_gate)

definition demo_identity :: pool_proof_expectations where
  "demo_identity = \<lparr> le_nodeId = [], le_attemptId = [], le_targetRepo = [], le_targetBranch = [], le_workspacePath = [],
     pe_piRuntimeParent = [], pe_piSessionDir = [], pe_piExecutablePath = ''/bin/pi'', pe_piExecutableVersion = ''1'',
     pe_piExecutableDigest = ''d1'', pe_packagePath = ''/pkg'', pe_packageProfile = ''worker'', pe_packageDigest = ''d2'',
     pe_profileName = ''builder'', pe_profilePath = ''/pkg/builder'', pe_profileDigest = ''d3'', pe_selectedModel = [],
     pe_toolGrants = [''read''], pe_resultDestinationId = [] \<rparr>"

definition demo_resources :: attempt_resources where
  "demo_resources = \<lparr> rs_attemptId = ''a'', rs_basePath = ''/tmp/a'', rs_workspacePath = ''/tmp/a/workspace'', rs_piRuntimeParent = ''/tmp/a/pi'',
     rs_piSessionDir = ''/tmp/a/pi/session'', rs_nonce = ''0123456789abcdef0123456789abcdef'', rs_resultId = ''result-1'', rs_createdAt = 0 \<rparr>"

lemma demo_launchable: "launchable demo_resources (demo_job ''a'') (hd APPROVED_MODELS) demo_identity"
  by code_simp

definition demo_marker :: js where
  "demo_marker = marker_of demo_resources (demo_job ''a'') (hd APPROVED_MODELS) demo_identity 1767225600000"

theorem marker_accepted_once_witness:
  "\<exists>c. fst (validateExecutionContext demo_marker (buildExpectations demo_resources (demo_job ''a'') (hd APPROVED_MODELS) demo_identity)
     (Some (buildExpectations demo_resources (demo_job ''a'') (hd APPROVED_MODELS) demo_identity)) 1767225600000 (Some [])) = Inr c"
  using marker_accepted_once [OF demo_launchable, of 1767225600000 1767225600000 "[]"] by (simp add: demo_marker_def common_era_def)

theorem accepted_marker_is_bound_and_fresh_witness: "fld demo_marker ''attempt_id'' = Str ''a'' \<and> \<not> carries_topology demo_marker"
proof -
  let ?x = "buildExpectations demo_resources (demo_job ''a'') (hd APPROVED_MODELS) demo_identity"
  obtain c s where "validateExecutionContext demo_marker ?x (Some ?x) 1767225600000 (Some []) = (Inr c, s)"
    using marker_gate [OF demo_launchable, of 1767225600000 1767225600000 "[]"]
    by (cases "validateExecutionContext demo_marker ?x (Some ?x) 1767225600000 (Some [])") (auto simp: demo_marker_def common_era_def)
  from accepted_marker_is_bound_and_fresh [OF this] show ?thesis by (simp add: buildExpectations_def demo_job_def)
qed

text \<open>
  The path test looks for a slash after the leading one, so a traversal in the first
  segment passes, while the same traversal further down does not.
\<close>

lemma root_traversal_accepted: "isAbsolutePath (Str ''/../etc'') \<and> \<not> isAbsolutePath (Str ''/tmp/../etc'')"
  by code_simp

end
