(* ===== verification/Backend_Fallback.thy ===== *)
theory Backend_Fallback
  imports Attempt_Contract
begin

text \<open>
  Two policies inside one attempt: the capability grants of the CRAFTS phases
  (\<^verbatim>\<open>agent-execution/phase-capabilities.ts\<close>) and the ledger of the backends an attempt
  has consumed (\<^verbatim>\<open>agent-execution/backend-fallback.ts\<close>). Amounts are added exactly, as
  rationals.
\<close>

section \<open>Phase grants\<close>

datatype capability = Cap_read | Cap_grep | Cap_graphify | Cap_bash | Cap_write | Cap_edit | Cap_security_tooling

datatype write_scope = Workspace | Knowledge_sink

record phase_grant =
  pg_phase :: string
  pg_capabilities :: "capability list"
  pg_writeScope :: "write_scope option"

definition GRANTS :: "(string \<times> phase_grant) list" where
  "GRANTS = [
     (''C'', \<lparr> pg_phase = ''C'', pg_capabilities = [Cap_read, Cap_grep, Cap_graphify], pg_writeScope = None \<rparr>),
     (''R'', \<lparr> pg_phase = ''R'', pg_capabilities = [Cap_read, Cap_grep, Cap_graphify, Cap_bash, Cap_write, Cap_edit], pg_writeScope = Some Workspace \<rparr>),
     (''A'', \<lparr> pg_phase = ''A'', pg_capabilities = [Cap_read, Cap_grep, Cap_graphify], pg_writeScope = None \<rparr>),
     (''F'', \<lparr> pg_phase = ''F'', pg_capabilities = [Cap_read, Cap_grep, Cap_graphify, Cap_bash, Cap_write, Cap_edit], pg_writeScope = Some Workspace \<rparr>),
     (''T'', \<lparr> pg_phase = ''T'', pg_capabilities = [Cap_read, Cap_grep, Cap_graphify, Cap_security_tooling], pg_writeScope = None \<rparr>),
     (''S'', \<lparr> pg_phase = ''S'', pg_capabilities = [Cap_read, Cap_grep, Cap_write, Cap_edit], pg_writeScope = Some Knowledge_sink \<rparr>)]"

definition getPhaseGrant :: "string \<Rightarrow> execution_failure + phase_grant" where
  "getPhaseGrant phase =
     (case map_of GRANTS phase of Some g \<Rightarrow> Inr g | None \<Rightarrow> Inl (createExecutionFailure ''UNKNOWN_PHASE'' (Some phase)))"

definition phaseHasCapability :: "string \<Rightarrow> capability \<Rightarrow> bool" where
  "phaseHasCapability phase c = (case getPhaseGrant phase of Inl _ \<Rightarrow> False | Inr g \<Rightarrow> c \<in> set (pg_capabilities g))"

record write_authorization =
  wa_phase :: string
  wa_scope :: write_scope
  wa_root :: string

text \<open>An absent or empty sink root is no sink.\<close>

definition authorizeWrite :: "string \<Rightarrow> string \<Rightarrow> string option \<Rightarrow> execution_failure + write_authorization" where
  "authorizeWrite phase workspaceRoot knowledgeSinkRoot =
     (case getPhaseGrant phase of
        Inl f \<Rightarrow> Inl f
      | Inr g \<Rightarrow>
          (case pg_writeScope g of
             None \<Rightarrow> Inl (createExecutionFailure ''CAPABILITY_DENIED'' (Some (pg_phase g @ '' may not write'')))
           | Some scope \<Rightarrow>
               if Cap_write \<notin> set (pg_capabilities g)
               then Inl (createExecutionFailure ''CAPABILITY_DENIED'' (Some (pg_phase g @ '' may not write'')))
               else if scope = Workspace then Inr \<lparr> wa_phase = pg_phase g, wa_scope = Workspace, wa_root = workspaceRoot \<rparr>
               else (case knowledgeSinkRoot of
                       Some (c # cs) \<Rightarrow> Inr \<lparr> wa_phase = pg_phase g, wa_scope = Knowledge_sink, wa_root = c # cs \<rparr>
                     | _ \<Rightarrow> Inl (createExecutionFailure ''WRITE_PATH_OUT_OF_SCOPE'' (Some ''no owner-approved knowledge sink is configured'')))))"

section \<open>The fallback ledger\<close>

definition MAX_BACKENDS_PER_ATTEMPT :: int where "MAX_BACKENDS_PER_ATTEMPT = 3"

record consumed_cost =
  cc_input_tokens :: int
  cc_output_tokens :: int
  cc_amount :: "rat option"
  cc_currency :: "string option"

record backend_consumption =
  bc_sequence :: nat
  bc_model :: string
  bc_succeeded :: bool
  bc_cost :: consumed_cost
  bc_evidence :: "string list"

fun is_token_count :: "js \<Rightarrow> bool" where
  "is_token_count (Num n) = (is_integer n \<and> \<not> num_lt n (Fin 0))"
| "is_token_count _ = False"

fun is_amount :: "js \<Rightarrow> bool" where
  "is_amount (Num (Fin r)) = (0 \<le> r)"
| "is_amount _ = False"

fun js_rat :: "js \<Rightarrow> rat option" where
  "js_rat (Num (Fin r)) = Some r"
| "js_rat _ = None"

definition validateCost :: "js \<Rightarrow> execution_failure + consumed_cost" where
  "validateCost v =
     (if \<not> is_object v \<or> length (Object_keys v) \<noteq> 4
         \<or> \<not> is_token_count (fld v ''input_tokens'') \<or> \<not> is_token_count (fld v ''output_tokens'')
         \<or> (fld v ''amount'' \<noteq> Null \<and> \<not> is_amount (fld v ''amount''))
         \<or> (fld v ''currency'' \<noteq> Null \<and> \<not> is_string (fld v ''currency''))
         \<or> (fld v ''amount'' = Null) \<noteq> (fld v ''currency'' = Null)
      then Inl (createExecutionFailure ''FALLBACK_COST_INVALID'' None)
      else Inr \<lparr> cc_input_tokens = js_int (fld v ''input_tokens''), cc_output_tokens = js_int (fld v ''output_tokens''),
        cc_amount = js_rat (fld v ''amount''), cc_currency = js_opt_str (fld v ''currency'') \<rparr>)"

text \<open>The loop of \<^verbatim>\<open>sumCost\<close>: the total so far and whether two currencies were seen.\<close>

definition add_cost :: "consumed_cost \<times> bool \<Rightarrow> backend_consumption \<Rightarrow> consumed_cost \<times> bool" where
  "add_cost st b =
     (let (total, mixed) = st; c = bc_cost b;
          t1 = total\<lparr> cc_input_tokens := cc_input_tokens total + cc_input_tokens c, cc_output_tokens := cc_output_tokens total + cc_output_tokens c \<rparr> in
      case cc_amount c of
        None \<Rightarrow> (t1, mixed)
      | Some a \<Rightarrow>
          if cc_currency total \<noteq> None \<and> cc_currency c \<noteq> cc_currency total then (t1, True)
          else (t1\<lparr> cc_amount := Some ((case cc_amount total of Some x \<Rightarrow> x | None \<Rightarrow> 0) + a), cc_currency := cc_currency c \<rparr>, mixed))"

definition sumCost :: "backend_consumption list \<Rightarrow> consumed_cost" where
  "sumCost bs =
     (let (total, mixed) = foldl add_cost (\<lparr> cc_input_tokens = 0, cc_output_tokens = 0, cc_amount = None, cc_currency = None \<rparr>, False) bs in
      if mixed then total\<lparr> cc_amount := None, cc_currency := None \<rparr> else total)"

record ledger =
  lg_attemptId :: string
  lg_nodeId :: string
  lg_role :: string
  lg_maxBackends :: int
  lg_consumptions :: "backend_consumption list"
  lg_sealed :: bool

definition createBackendFallbackLedger :: "string \<Rightarrow> string \<Rightarrow> string \<Rightarrow> js \<Rightarrow> execution_failure + ledger" where
  "createBackendFallbackLedger attemptId nodeId role maxBackends =
     (let m = (if maxBackends = Undefined \<or> maxBackends = Null then JInt MAX_BACKENDS_PER_ATTEMPT else maxBackends) in
      if \<not> isPositiveInteger m \<or> MAX_BACKENDS_PER_ATTEMPT < js_int m then Inl (createExecutionFailure ''FALLBACK_CHAIN_LIMIT'' None)
      else Inr \<lparr> lg_attemptId = attemptId, lg_nodeId = nodeId, lg_role = role, lg_maxBackends = js_int m, lg_consumptions = [], lg_sealed = False \<rparr>)"

record consumption_input =
  ci_attemptId :: js
  ci_model :: js
  ci_outcome :: js
  ci_cost :: js
  ci_evidence :: js

definition record_consumption :: "consumption_input \<Rightarrow> ledger \<Rightarrow> (execution_failure + backend_consumption) \<times> ledger" where
  "record_consumption inp l =
     (if ci_attemptId inp \<noteq> Str (lg_attemptId l) then (Inl (createExecutionFailure ''FALLBACK_ATTEMPT_MISMATCH'' None), l)
      else if lg_sealed l then (Inl (createExecutionFailure ''FALLBACK_LEDGER_SEALED'' None), l)
      else if \<not> isApprovedModelId (ci_model inp) then (Inl (createExecutionFailure ''FALLBACK_MODEL_UNAPPROVED'' None), l)
      else if lg_maxBackends l \<le> int (length (lg_consumptions l)) then (Inl (createExecutionFailure ''FALLBACK_CHAIN_EXHAUSTED'' None), l)
      else if ci_outcome inp \<noteq> Str ''succeeded'' \<and> ci_outcome inp \<noteq> Str ''failed''
      then (Inl (createExecutionFailure ''FALLBACK_OUTCOME_INVALID'' None), l)
      else case validateCost (ci_cost inp) of
        Inl f \<Rightarrow> (Inl f, l)
      | Inr cost \<Rightarrow>
          if \<not> isStringArray (ci_evidence inp)
          then (Inl (createExecutionFailure ''FALLBACK_COST_INVALID'' (Some ''evidence must be an array of strings'')), l)
          else let b = \<lparr> bc_sequence = length (lg_consumptions l) + 1, bc_model = js_str (ci_model inp),
                  bc_succeeded = (ci_outcome inp = Str ''succeeded''), bc_cost = cost, bc_evidence = map js_str (items (ci_evidence inp)) \<rparr> in
            (Inr b, l\<lparr> lg_consumptions := lg_consumptions l @ [b], lg_sealed := (lg_sealed l \<or> bc_succeeded b) \<rparr>))"

definition canFallback :: "ledger \<Rightarrow> bool" where
  "canFallback l = (\<not> lg_sealed l \<and> int (length (lg_consumptions l)) < lg_maxBackends l)"

section \<open>Properties\<close>

text \<open>
  Only the builder phases write to the workspace: for every phase name, a write is
  authorized for the workspace exactly for the phases R and F, outside it only for S and
  only into a configured knowledge sink, and never for the evaluator A; an unknown phase
  has no capability at all.
\<close>
theorem write_authority_exact:
  "authorizeWrite phase ws sink = Inr w \<longleftrightarrow>
     (phase \<in> {''R'', ''F''} \<and> w = \<lparr> wa_phase = phase, wa_scope = Workspace, wa_root = ws \<rparr>)
     \<or> (phase = ''S'' \<and> (\<exists>r. sink = Some r \<and> r \<noteq> [] \<and> w = \<lparr> wa_phase = phase, wa_scope = Knowledge_sink, wa_root = r \<rparr>))"
  by (auto simp: authorizeWrite_def getPhaseGrant_def GRANTS_def split: option.splits list.splits if_splits)

inductive ledger_step :: "ledger \<Rightarrow> ledger \<Rightarrow> bool" where
  "ledger_step l (snd (record_consumption inp l))"

definition ledger_inv :: "ledger \<Rightarrow> bool" where
  "ledger_inv l \<longleftrightarrow> 1 \<le> lg_maxBackends l \<and> lg_maxBackends l \<le> 3 \<and> int (length (lg_consumptions l)) \<le> lg_maxBackends l
     \<and> map bc_sequence (lg_consumptions l) = [1..<Suc (length (lg_consumptions l))]
     \<and> (\<forall>b \<in> set (lg_consumptions l). bc_model b \<in> set APPROVED_MODELS \<and> 0 \<le> cc_input_tokens (bc_cost b) \<and> 0 \<le> cc_output_tokens (bc_cost b)
          \<and> (cc_amount (bc_cost b) = None \<longleftrightarrow> cc_currency (bc_cost b) = None))
     \<and> (\<forall>b \<in> set (butlast (lg_consumptions l)). \<not> bc_succeeded b)
     \<and> (lg_sealed l \<longleftrightarrow> lg_consumptions l \<noteq> [] \<and> bc_succeeded (last (lg_consumptions l)))"

lemma token_count: "is_token_count v \<Longrightarrow> 0 \<le> js_int v"
proof (cases v)
  case (Num n)
  assume "is_token_count v"
  with Num show ?thesis by (cases n) (auto simp: not_less)
qed auto

lemma validateCost_ok:
  assumes "validateCost v = Inr c"
  shows "0 \<le> cc_input_tokens c \<and> 0 \<le> cc_output_tokens c \<and> (cc_amount c = None \<longleftrightarrow> cc_currency c = None)"
proof -
  have n: "js_rat (fld v ''amount'') = None \<longleftrightarrow> fld v ''amount'' = Null" if "fld v ''amount'' = Null \<or> is_amount (fld v ''amount'')"
    using that by (cases "fld v ''amount''" rule: is_amount.cases) auto
  have c: "js_opt_str (fld v ''currency'') = None \<longleftrightarrow> fld v ''currency'' = Null" if "fld v ''currency'' = Null \<or> is_string (fld v ''currency'')"
    using that by (cases "fld v ''currency''") auto
  show ?thesis using assms n c by (auto simp: validateCost_def token_count split: if_splits)
qed

lemma recorded:
  assumes change: "snd (record_consumption inp l) \<noteq> l"
  obtains c where "validateCost (ci_cost inp) = Inr c" "isApprovedModelId (ci_model inp)" "\<not> lg_sealed l"
    "int (length (lg_consumptions l)) < lg_maxBackends l"
    "snd (record_consumption inp l) = (let b = \<lparr> bc_sequence = length (lg_consumptions l) + 1, bc_model = js_str (ci_model inp),
        bc_succeeded = (ci_outcome inp = Str ''succeeded''), bc_cost = c, bc_evidence = map js_str (items (ci_evidence inp)) \<rparr> in
      l\<lparr> lg_consumptions := lg_consumptions l @ [b], lg_sealed := (lg_sealed l \<or> bc_succeeded b) \<rparr>)"
proof -
  note unfolded = change [unfolded record_consumption_def]
  have a: "ci_attemptId inp = Str (lg_attemptId l)" by (rule ccontr) (use unfolded in simp)
  have s: "\<not> lg_sealed l" by (rule notI) (use unfolded in \<open>simp add: a\<close>)
  have m: "isApprovedModelId (ci_model inp)" by (rule ccontr) (use unfolded in \<open>simp add: a s\<close>)
  have n: "\<not> lg_maxBackends l \<le> int (length (lg_consumptions l))" by (rule notI) (use unfolded in \<open>simp add: a s m\<close>)
  have o: "\<not> (ci_outcome inp \<noteq> Str ''succeeded'' \<and> ci_outcome inp \<noteq> Str ''failed'')"
    by (rule notI) (use unfolded in \<open>simp add: a s m n\<close>)
  obtain c where c: "validateCost (ci_cost inp) = Inr c" 
    by (cases "validateCost (ci_cost inp)") (use unfolded in \<open>simp_all only: a s m n o if_False if_True sum.case not_False_eq_True snd_conv simp_thms\<close>)
  have e: "isStringArray (ci_evidence inp)"
    by (rule ccontr) (use unfolded in \<open>simp only: a s m n o c if_False if_True sum.case not_False_eq_True snd_conv simp_thms\<close>)
  show ?thesis
    by (rule that [OF c m s]) (use n in simp, simp only: record_consumption_def a s m n o c e Let_def if_False if_True sum.case not_True_eq_False not_False_eq_True snd_conv simp_thms)
qed

lemma record_inv: "ledger_inv l \<Longrightarrow> ledger_inv (snd (record_consumption inp l))"
proof -
  assume inv: "ledger_inv l"
  show ?thesis
  proof (cases "snd (record_consumption inp l) = l")
    case False
    let ?b = "\<lambda>c. \<lparr> bc_sequence = length (lg_consumptions l) + 1, bc_model = js_str (ci_model inp),
        bc_succeeded = (ci_outcome inp = Str ''succeeded''), bc_cost = c, bc_evidence = map js_str (items (ci_evidence inp)) \<rparr>"
    from False obtain c where c: "snd (record_consumption inp l) =
        l\<lparr> lg_consumptions := lg_consumptions l @ [?b c], lg_sealed := (lg_sealed l \<or> bc_succeeded (?b c)) \<rparr>"
      "isApprovedModelId (ci_model inp)" "\<not> lg_sealed l" "int (length (lg_consumptions l)) < lg_maxBackends l" "validateCost (ci_cost inp) = Inr c"
      by (rule recorded) (simp add: Let_def)
    define b where "b = ?b c"
    have b: "snd (record_consumption inp l) = l\<lparr> lg_consumptions := lg_consumptions l @ [b], lg_sealed := (lg_sealed l \<or> bc_succeeded b) \<rparr>"
      "bc_sequence b = length (lg_consumptions l) + 1" "bc_model b \<in> set APPROVED_MODELS" "\<not> lg_sealed l"
      "int (length (lg_consumptions l)) < lg_maxBackends l" "validateCost (ci_cost inp) = Inr (bc_cost b)"
      using c isApprovedModelIdD [OF c(2)] by (auto simp: b_def)
    have "\<not> bc_succeeded x" if "x \<in> set (lg_consumptions l)" for x
    proof (cases "lg_consumptions l" rule: rev_cases)
      case (snoc ys y)
      with inv b(4) that show ?thesis by (auto simp: ledger_inv_def)
    qed (use that in simp)
    with inv b validateCost_ok [OF b(6)] show ?thesis by (auto simp: ledger_inv_def)
  qed (use inv in simp)
qed

interpretation fallback: invariant_system ledger_step
    "\<lparr> lg_attemptId = a, lg_nodeId = n, lg_role = r, lg_maxBackends = 3, lg_consumptions = [], lg_sealed = False \<rparr>" ledger_inv for a n r
proof
  fix s t assume "ledger_inv s" "ledger_step s t"
  from this(2,1) show "ledger_inv t" by cases (simp add: record_inv)
qed (simp add: ledger_inv_def)

section \<open>Totals\<close>

definition priced :: "backend_consumption list \<Rightarrow> backend_consumption list" where
  "priced bs = filter (\<lambda>b. cc_amount (bc_cost b) \<noteq> None) bs"

definition price :: "backend_consumption \<Rightarrow> rat" where
  "price b = the (cc_amount (bc_cost b))"

definition one_currency :: "backend_consumption list \<Rightarrow> bool" where
  "one_currency bs \<longleftrightarrow> (\<forall>x \<in> set (priced bs). \<forall>y \<in> set (priced bs). cc_currency (bc_cost x) = cc_currency (bc_cost y))"

text \<open>The reference total: token sums, and the amount only when it has one currency.\<close>

definition total_of :: "backend_consumption list \<Rightarrow> consumed_cost" where
  "total_of bs = \<lparr> cc_input_tokens = sum_list (map (cc_input_tokens \<circ> bc_cost) bs), cc_output_tokens = sum_list (map (cc_output_tokens \<circ> bc_cost) bs),
     cc_amount = (if priced bs = [] \<or> \<not> one_currency bs then None else Some (sum_list (map price (priced bs)))),
     cc_currency = (if priced bs = [] \<or> \<not> one_currency bs then None else cc_currency (bc_cost (hd (priced bs)))) \<rparr>"

definition summed :: "backend_consumption list \<Rightarrow> consumed_cost \<times> bool \<Rightarrow> bool" where
  "summed bs st \<longleftrightarrow> cc_input_tokens (fst st) = sum_list (map (cc_input_tokens \<circ> bc_cost) bs)
     \<and> cc_output_tokens (fst st) = sum_list (map (cc_output_tokens \<circ> bc_cost) bs)
     \<and> cc_currency (fst st) = (if priced bs = [] then None else cc_currency (bc_cost (hd (priced bs))))
     \<and> (snd st \<longleftrightarrow> (\<exists>x \<in> set (priced bs). cc_currency (bc_cost x) \<noteq> cc_currency (bc_cost (hd (priced bs)))))
     \<and> (\<not> snd st \<longrightarrow> cc_amount (fst st) = (if priced bs = [] then None else Some (sum_list (map price (priced bs)))))"

lemma summed_step:
  assumes "summed bs st" "cc_amount (bc_cost b) = None \<longleftrightarrow> cc_currency (bc_cost b) = None"
    "\<forall>x \<in> set bs. cc_amount (bc_cost x) = None \<longleftrightarrow> cc_currency (bc_cost x) = None"
  shows "summed (bs @ [b]) (add_cost st b)"
proof (cases "cc_amount (bc_cost b)")
  case None
  then show ?thesis using assms(1) by (cases st) (auto simp: summed_def add_cost_def priced_def Let_def)
next
  case (Some a)
  have p: "priced (bs @ [b]) = priced bs @ [b]" using Some by (simp add: priced_def)
  show ?thesis
  proof (cases "priced bs")
    case Nil
    then show ?thesis using assms(1) Some by (cases st) (auto simp: summed_def add_cost_def p Let_def price_def)
  next
    case (Cons x xs)
    then have "x \<in> set bs" "cc_amount (bc_cost x) \<noteq> None" by (metis (mono_tags, lifting) filter_eq_ConsD in_set_conv_decomp priced_def)+
    then have "cc_currency (bc_cost x) \<noteq> None" using assms(3) by auto
    then show ?thesis using assms(1) Some Cons by (cases st) (auto simp: summed_def add_cost_def p Let_def price_def)
  qed
qed

lemma sumCost_total:
  assumes "\<forall>x \<in> set bs. cc_amount (bc_cost x) = None \<longleftrightarrow> cc_currency (bc_cost x) = None"
  shows "sumCost bs = total_of bs"
proof -
  let ?z = "(\<lparr> cc_input_tokens = 0, cc_output_tokens = 0, cc_amount = None, cc_currency = None \<rparr>, False)"
  have "summed bs (foldl add_cost ?z bs)" using assms
  proof (induction bs rule: rev_induct)
    case (snoc b bs)
    then show ?case using summed_step [of bs "foldl add_cost ?z bs" b] by simp
  qed (simp add: summed_def priced_def)
  then obtain t m where st: "foldl add_cost ?z bs = (t, m)" "summed bs (t, m)" by (metis surj_pair)
  have o: "one_currency bs \<longleftrightarrow> \<not> m"
  proof
    assume "one_currency bs"
    show "\<not> m"
    proof
      assume m
      with st(2) obtain x where x: "x \<in> set (priced bs)" "cc_currency (bc_cost x) \<noteq> cc_currency (bc_cost (hd (priced bs)))"
        by (auto simp: summed_def)
      then have "hd (priced bs) \<in> set (priced bs)" by (cases "priced bs") auto
      with x \<open>one_currency bs\<close> show False unfolding one_currency_def by blast
    qed
  next
    assume "\<not> m"
    with st(2) have "\<forall>x \<in> set (priced bs). cc_currency (bc_cost x) = cc_currency (bc_cost (hd (priced bs)))" by (auto simp: summed_def)
    then show "one_currency bs" unfolding one_currency_def by metis
  qed
  have "sumCost bs = (if m then t\<lparr> cc_amount := None, cc_currency := None \<rparr> else t)" by (simp add: sumCost_def st(1))
  also have "\<dots> = total_of bs"
  proof (cases t)
    case (fields i out am cu)
    with st(2) show ?thesis unfolding total_of_def o summed_def by (cases m) simp_all
  qed
  finally show ?thesis .
qed

text \<open>
  One attempt, one bounded account: whatever is reported to a ledger, it holds at most
  three backends, numbered in order, all approved, with at most the last one successful; it
  accepts nothing after a success; and its total is exact: the token sums of all backends,
  failed ones included, and an amount only when every priced backend used one currency.
\<close>
theorem ledger_is_bounded_and_exact:
  assumes "createBackendFallbackLedger a n r m = Inr l0" "ledger_step\<^sup>*\<^sup>* l0 l"
  shows "length (lg_consumptions l) \<le> 3 \<and> map bc_sequence (lg_consumptions l) = [1..<Suc (length (lg_consumptions l))]
    \<and> bc_model ` set (lg_consumptions l) \<subseteq> set APPROVED_MODELS
    \<and> filter bc_succeeded (butlast (lg_consumptions l)) = []
    \<and> (lg_sealed l \<longrightarrow> (\<forall>inp. snd (record_consumption inp l) = l) \<and> \<not> canFallback l)
    \<and> sumCost (lg_consumptions l) = total_of (lg_consumptions l)"
proof -
  have "ledger_inv l0" using assms(1)
    by (auto simp: createBackendFallbackLedger_def ledger_inv_def Let_def MAX_BACKENDS_PER_ATTEMPT_def
        split: if_splits dest!: isPositiveIntegerD simp del: isPositiveInteger.simps)
  then have i: "ledger_inv l" using assms(2) by (rule fallback.inv_run)
  then have "sumCost (lg_consumptions l) = total_of (lg_consumptions l)" by (intro sumCost_total) (simp add: ledger_inv_def)
  moreover have "snd (record_consumption inp l) = l" if "lg_sealed l" for inp using that by (simp add: record_consumption_def)
  ultimately show ?thesis using i by (auto simp: ledger_inv_def canFallback_def filter_empty_conv)
qed

definition demo_consumption :: "string \<Rightarrow> string \<Rightarrow> consumption_input" where
  "demo_consumption outcome currency = \<lparr> ci_attemptId = Str ''a'', ci_model = Str (hd APPROVED_MODELS), ci_outcome = Str outcome,
     ci_cost = plain [(''input_tokens'', JInt 10), (''output_tokens'', JInt 5), (''amount'', JInt 2), (''currency'', Str currency)],
     ci_evidence = Arr [Str ''log''] \<rparr>"

definition demo_ledger :: ledger where
  "demo_ledger = \<lparr> lg_attemptId = ''a'', lg_nodeId = ''n'', lg_role = ''building'', lg_maxBackends = 3, lg_consumptions = [], lg_sealed = False \<rparr>"

theorem ledger_is_bounded_and_exact_witness:
  "sumCost (lg_consumptions (snd (record_consumption (demo_consumption ''succeeded'' ''EUR'') (snd (record_consumption (demo_consumption ''failed'' ''USD'') demo_ledger)))))
     = \<lparr> cc_input_tokens = 20, cc_output_tokens = 10, cc_amount = None, cc_currency = None \<rparr>"
proof -
  let ?l = "snd (record_consumption (demo_consumption ''succeeded'' ''EUR'') (snd (record_consumption (demo_consumption ''failed'' ''USD'') demo_ledger)))"
  have c: "createBackendFallbackLedger ''a'' ''n'' ''building'' Undefined = Inr demo_ledger"
    by (simp add: createBackendFallbackLedger_def demo_ledger_def MAX_BACKENDS_PER_ATTEMPT_def Let_def)
  have r: "ledger_step\<^sup>*\<^sup>* demo_ledger ?l"
    by (rule rtranclp.rtrancl_into_rtrancl [OF r_into_rtranclp]) (rule ledger_step.intros)+
  have "total_of (lg_consumptions ?l) = \<lparr> cc_input_tokens = 20, cc_output_tokens = 10, cc_amount = None, cc_currency = None \<rparr>" by code_simp
  with ledger_is_bounded_and_exact [OF c r] show ?thesis by simp
qed

end
