(* ===== verification/Unit_Validation.thy ===== *)
theory Unit_Validation
  imports Js_Values Kahn
begin

text \<open>
  Mechanical validation of hand-authored work
  (\<^verbatim>\<open>work-intake/unit-validation.ts\<close>, with the limits of \<^verbatim>\<open>work-intake/contracts.ts\<close>).
  Violations are collected in the order the code finds them, then sorted and capped.

  The ellipsis that \<^verbatim>\<open>echoSafe\<close> appends to a long key is one UTF-16 unit outside the
  modelled range; it is written as the three bytes of its UTF-8 form, which sort after
  every ASCII character as the unit does.
\<close>

section \<open>Contracts\<close>

definition UNIT_FIELDS :: "string list" where
  "UNIT_FIELDS = [''id'', ''intent'', ''change_spec'', ''acceptance_criteria'', ''depends_on'']"

definition SUBMISSION_FIELDS :: "string list" where
  "SUBMISSION_FIELDS = [''repo'', ''branch'', ''unit'', ''units'']"

definition FORBIDDEN_KEYS :: "string list" where
  "FORBIDDEN_KEYS = [''__proto__'', ''constructor'', ''prototype'']"

record intake_limits =
  il_maxTotalContentChars :: nat
  il_maxUnits :: nat
  il_maxIdLength :: nat
  il_maxIntentLength :: nat
  il_maxChangeSpecLength :: nat
  il_maxCriterionLength :: nat
  il_maxCriteriaPerUnit :: nat
  il_maxDependenciesPerUnit :: nat
  il_maxRepoLength :: nat
  il_maxBranchLength :: nat
  il_maxIdempotencyKeyLength :: nat

definition INTAKE_LIMITS :: intake_limits where
  "INTAKE_LIMITS = \<lparr> il_maxTotalContentChars = 1000000, il_maxUnits = 500, il_maxIdLength = 200, il_maxIntentLength = 2000,
     il_maxChangeSpecLength = 20000, il_maxCriterionLength = 4000, il_maxCriteriaPerUnit = 100, il_maxDependenciesPerUnit = 500,
     il_maxRepoLength = 400, il_maxBranchLength = 400, il_maxIdempotencyKeyLength = 255 \<rparr>"

record violation =
  iv_code :: string
  iv_path :: string
  iv_message :: string
  iv_unit_id :: "string option"

abbreviation viol :: "string \<Rightarrow> string \<Rightarrow> string \<Rightarrow> string option \<Rightarrow> violation" where
  "viol code path message unitId \<equiv> \<lparr> iv_code = code, iv_path = path, iv_message = message, iv_unit_id = unitId \<rparr>"

record direct_unit =
  du_id :: string
  du_intent :: string
  du_change_spec :: string
  du_acceptance_criteria :: "string list"
  du_depends_on :: "string list"

datatype submission_shape = Single_unit | Hand_authored_dag

record validated_submission =
  vs_repo :: string
  vs_branch :: string
  vs_units :: "direct_unit list"
  vs_shape :: submission_shape

section \<open>Targets\<close>

definition target_char :: "char \<Rightarrow> bool" where
  "target_char c = (let n = of_char c :: nat in (65 \<le> n \<and> n \<le> 90) \<or> (97 \<le> n \<and> n \<le> 122) \<or> (48 \<le> n \<and> n \<le> 57)
     \<or> c = CHR ''.'' \<or> c = CHR ''_'' \<or> c = CHR ''-'')"

text \<open>A component of the pattern: accepted characters, not only dots.\<close>

definition target_component :: "string \<Rightarrow> bool" where
  "target_component s = (s \<noteq> [] \<and> list_all target_char s \<and> \<not> list_all (\<lambda>c. c = CHR ''.'') s)"

definition REPO_PATTERN :: "string \<Rightarrow> bool" where
  "REPO_PATTERN s = (\<not> sublist ''..'' s \<and>
     (case split_on (\<lambda>c. c = CHR ''/'') s of
        [a, b] \<Rightarrow> target_component a \<and> hd a \<noteq> CHR ''-'' \<and> target_component b \<and> hd b \<noteq> CHR ''-''
      | _ \<Rightarrow> False))"

definition BRANCH_PATTERN :: "string \<Rightarrow> bool" where
  "BRANCH_PATTERN s = (\<not> sublist ''..'' s \<and> take 1 s \<noteq> ''-'' \<and> list_all target_component (split_on (\<lambda>c. c = CHR ''/'') s))"

definition checkTargetFormat :: "string \<Rightarrow> string \<Rightarrow> (string \<Rightarrow> bool) \<Rightarrow> violation list" where
  "checkTargetFormat value path pattern =
     (if \<not> pattern value then [viol ''INVALID_FIELD_FORMAT'' path (path @ '' is not a well-formed target'') None] else [])"

section \<open>Violations\<close>

definition MAX_REPORTED_VIOLATIONS :: nat where "MAX_REPORTED_VIOLATIONS = 100"

definition compare_violations :: "violation \<Rightarrow> violation \<Rightarrow> int" where
  "compare_violations a b =
     (if iv_path a \<noteq> iv_path b then (if iv_path a < iv_path b then - 1 else 1)
      else if iv_code a \<noteq> iv_code b then (if iv_code a < iv_code b then - 1 else 1)
      else if iv_message a < iv_message b then - 1 else if iv_message b < iv_message a then 1 else 0)"

definition sortViolations :: "violation list \<Rightarrow> violation list" where
  "sortViolations vs = take MAX_REPORTED_VIOLATIONS (sort_by compare_violations vs)"

definition echoSafe :: "string \<Rightarrow> string" where
  "echoSafe key = (if length key \<le> 64 then key else take 64 key @ [CHR 0xE2, CHR 0x80, CHR 0xA6])"

section \<open>Fields of a unit\<close>

definition checkString :: "js \<Rightarrow> string \<Rightarrow> nat \<Rightarrow> string option \<Rightarrow> violation list" where
  "checkString v path maxLength unitId =
     (case v of
        Str s \<Rightarrow>
          (if trim s = [] then [viol ''MISSING_FIELD'' path (path @ '' must not be blank'') unitId]
           else if maxLength < length s then [viol ''FIELD_TOO_LONG'' path (path @ '' exceeds '' @ nat_str maxLength @ '' characters'') unitId]
           else [])
      | Undefined \<Rightarrow> [viol ''MISSING_FIELD'' path (path @ '' is required'') unitId]
      | _ \<Rightarrow> [viol ''INVALID_FIELD_TYPE'' path (path @ '' must be a string'') unitId])"

definition check_criterion :: "string \<Rightarrow> string option \<Rightarrow> js \<Rightarrow> violation list" where
  "check_criterion path unitId v =
     (case v of
        Str s \<Rightarrow>
          (if trim s = [] then [viol ''MISSING_ACCEPTANCE_CRITERIA'' path ''acceptance criteria must not be blank'' unitId]
           else if il_maxCriterionLength INTAKE_LIMITS < length s
           then [viol ''FIELD_TOO_LONG'' path (''acceptance criterion exceeds '' @ nat_str (il_maxCriterionLength INTAKE_LIMITS) @ '' characters'') unitId]
           else [])
      | _ \<Rightarrow> [viol ''INVALID_FIELD_TYPE'' path ''each acceptance criterion must be a string'' unitId])"

definition at_index :: "string \<Rightarrow> nat \<Rightarrow> string" where
  "at_index path i = path @ ''['' @ nat_str i @ '']''"

definition validateAcceptanceCriteria :: "js \<Rightarrow> string \<Rightarrow> string option \<Rightarrow> violation list" where
  "validateAcceptanceCriteria raw path unitId =
     (if raw = Undefined then [viol ''MISSING_ACCEPTANCE_CRITERIA'' path ''acceptance_criteria is required on every unit'' unitId]
      else if \<not> is_array raw then [viol ''INVALID_FIELD_TYPE'' path ''acceptance_criteria must be an array of strings'' unitId]
      else if items raw = [] then [viol ''MISSING_ACCEPTANCE_CRITERIA'' path ''acceptance_criteria must not be empty'' unitId]
      else if il_maxCriteriaPerUnit INTAKE_LIMITS < length (items raw)
      then [viol ''FIELD_TOO_LONG'' path (''acceptance_criteria exceeds '' @ nat_str (il_maxCriteriaPerUnit INTAKE_LIMITS) @ '' entries'') unitId]
      else concat (map (\<lambda>(i, c). check_criterion (at_index path i) unitId c) (enumerate 0 (items raw))))"

fun check_dependencies :: "string \<Rightarrow> string option \<Rightarrow> nat \<Rightarrow> string list \<Rightarrow> js list \<Rightarrow> violation list" where
  "check_dependencies path unitId i seen [] = []"
| "check_dependencies path unitId i seen (d # ds) =
     (if \<not> (case d of Str s \<Rightarrow> trim s \<noteq> [] | _ \<Rightarrow> False)
      then viol ''INVALID_FIELD_TYPE'' (at_index path i) ''each dependency must be a non-empty unit id'' unitId
             # check_dependencies path unitId (Suc i) seen ds
      else if unitId = Some (js_str d)
      then viol ''SELF_DEPENDENCY'' (at_index path i) (''unit '' @ js_str d @ '' cannot depend on itself'') unitId
             # check_dependencies path unitId (Suc i) seen ds
      else if js_str d \<in> set seen
      then viol ''DUPLICATE_DEPENDENCY'' (at_index path i) (''dependency '' @ js_str d @ '' is listed more than once'') unitId
             # check_dependencies path unitId (Suc i) seen ds
      else check_dependencies path unitId (Suc i) (js_str d # seen) ds)"

definition validateDependsOn :: "js \<Rightarrow> string \<Rightarrow> string option \<Rightarrow> violation list" where
  "validateDependsOn raw path unitId =
     (if raw = Undefined then []
      else if \<not> is_array raw then [viol ''INVALID_FIELD_TYPE'' path ''depends_on must be an array of unit ids'' unitId]
      else if il_maxDependenciesPerUnit INTAKE_LIMITS < length (items raw)
      then [viol ''FIELD_TOO_LONG'' path (''depends_on exceeds '' @ nat_str (il_maxDependenciesPerUnit INTAKE_LIMITS) @ '' entries'') unitId]
      else check_dependencies path unitId 0 [] (items raw))"

definition unknown_fields :: "js \<Rightarrow> string list \<Rightarrow> string \<Rightarrow> string \<Rightarrow> string option \<Rightarrow> violation list" where
  "unknown_fields v allowed path kind unitId =
     map (\<lambda>key. viol ''UNKNOWN_FIELD'' (path @ ''.'' @ echoSafe key) (echoSafe key @ '' is not an accepted '' @ kind @ '' field'') unitId)
       (filter (\<lambda>key. key \<in> set FORBIDDEN_KEYS \<or> key \<notin> set allowed) (Object_keys v))"

definition validateUnitShape :: "js \<Rightarrow> string \<Rightarrow> violation list" where
  "validateUnitShape raw path =
     (if \<not> isPlainObject raw then [viol ''INVALID_FIELD_TYPE'' path (path @ '' must be an object'') None]
      else let unitId = js_opt_str (fld raw ''id'') in
        unknown_fields raw UNIT_FIELDS path ''unit'' unitId
        @ checkString (fld raw ''id'') (path @ ''.id'') (il_maxIdLength INTAKE_LIMITS) unitId
        @ checkString (fld raw ''intent'') (path @ ''.intent'') (il_maxIntentLength INTAKE_LIMITS) unitId
        @ checkString (fld raw ''change_spec'') (path @ ''.change_spec'') (il_maxChangeSpecLength INTAKE_LIMITS) unitId
        @ validateAcceptanceCriteria (fld raw ''acceptance_criteria'') (path @ ''.acceptance_criteria'') unitId
        @ validateDependsOn (fld raw ''depends_on'') (path @ ''.depends_on'') unitId)"

section \<open>Units together\<close>

text \<open>The typed view of a unit whose shape was accepted; an absent edge list is empty.\<close>

definition as_unit :: "js \<Rightarrow> direct_unit" where
  "as_unit v = \<lparr> du_id = js_str (fld v ''id''), du_intent = js_str (fld v ''intent''), du_change_spec = js_str (fld v ''change_spec''),
     du_acceptance_criteria = map js_str (items (fld v ''acceptance_criteria'')), du_depends_on = map js_str (items (fld v ''depends_on'')) \<rparr>"

definition unit_graph :: "direct_unit list \<Rightarrow> graph" where
  "unit_graph us = map (\<lambda>u. (du_id u, du_depends_on u)) us"

text \<open>Called on units with distinct ids and resolved edges only.\<close>

definition findUnorderableUnits :: "direct_unit list \<Rightarrow> string list" where
  "findUnorderableUnits us =
     (let g = unit_graph us; ind = init_indegree g in
      case kahn_lifo (adj_get (build_adj g)) ind (initially_ready ind) 0 of
        (ind', ordered) \<Rightarrow>
          if ordered = length us then [] else sort (map fst (filter (\<lambda>p. 0 < snd p) ind')))"

definition measureContent :: "direct_unit list \<Rightarrow> js \<Rightarrow> nat" where
  "measureContent us body = length (js_str (fld body ''repo'')) + length (js_str (fld body ''branch''))
     + sum_list (map (\<lambda>u. length (du_id u) + length (du_intent u) + length (du_change_spec u)
         + sum_list (map length (du_acceptance_criteria u)) + sum_list (map length (du_depends_on u))) us)"

definition base_path :: "submission_shape \<Rightarrow> string" where
  "base_path shape = (case shape of Single_unit \<Rightarrow> ''$.unit'' | Hand_authored_dag \<Rightarrow> ''$.units'')"

definition unit_path :: "submission_shape \<Rightarrow> nat \<Rightarrow> string" where
  "unit_path shape i = (case shape of Single_unit \<Rightarrow> base_path shape | Hand_authored_dag \<Rightarrow> at_index (base_path shape) i)"

fun duplicate_ids :: "submission_shape \<Rightarrow> nat \<Rightarrow> string list \<Rightarrow> direct_unit list \<Rightarrow> violation list" where
  "duplicate_ids shape i seen [] = []"
| "duplicate_ids shape i seen (u # us) =
     (if du_id u \<in> set seen
      then viol ''DUPLICATE_UNIT_ID'' (unit_path shape i @ ''.id'') (''unit id '' @ du_id u @ '' is declared more than once'') (Some (du_id u))
             # duplicate_ids shape (Suc i) seen us
      else duplicate_ids shape (Suc i) (du_id u # seen) us)"

definition unknown_dependencies :: "submission_shape \<Rightarrow> direct_unit list \<Rightarrow> violation list" where
  "unknown_dependencies shape us =
     concat (map (\<lambda>(i, u). concat (map (\<lambda>(j, d).
         if d \<in> du_id ` set us then []
         else [viol ''UNKNOWN_DEPENDENCY'' (at_index (unit_path shape i @ ''.depends_on'') j)
                 (''dependency '' @ d @ '' does not match any submitted unit id'') (Some (du_id u))])
       (enumerate 0 (du_depends_on u)))) (enumerate 0 us))"

section \<open>Submissions\<close>

type_synonym validation = "violation list + validated_submission"

definition invalid :: "violation list \<Rightarrow> validation" where
  "invalid vs = Inl (sortViolations vs)"

text \<open>The checks across units, once every unit is well-formed alone.\<close>

definition validate_units :: "js \<Rightarrow> submission_shape \<Rightarrow> direct_unit list \<Rightarrow> validation" where
  "validate_units body shape us =
     (if il_maxTotalContentChars INTAKE_LIMITS < measureContent us body
      then Inl [viol ''PAYLOAD_TOO_LARGE'' ''$''
             (''submission content exceeds '' @ nat_str (il_maxTotalContentChars INTAKE_LIMITS) @ '' characters'') None]
      else if duplicate_ids shape 0 [] us \<noteq> [] then invalid (duplicate_ids shape 0 [] us)
      else if unknown_dependencies shape us \<noteq> [] then invalid (unknown_dependencies shape us)
      else let unorderable = findUnorderableUnits us in
        if unorderable \<noteq> []
        then invalid [viol ''DEPENDENCY_CYCLE'' (base_path shape) (''dependency cycle reaches these units: '' @ join_with '', '' unorderable) None]
        else Inr \<lparr> vs_repo = js_str (fld body ''repo''), vs_branch = js_str (fld body ''branch''), vs_units = us, vs_shape = shape \<rparr>)"

definition check_target :: "js \<Rightarrow> string \<Rightarrow> nat \<Rightarrow> (string \<Rightarrow> bool) \<Rightarrow> violation list" where
  "check_target v path mx pattern =
     (case checkString v path mx None of [] \<Rightarrow> checkTargetFormat (js_str v) path pattern | vs \<Rightarrow> vs)"

definition envelope_violations :: "js \<Rightarrow> violation list" where
  "envelope_violations body =
     unknown_fields body SUBMISSION_FIELDS ''$'' ''submission'' None
     @ check_target (fld body ''repo'') ''$.repo'' (il_maxRepoLength INTAKE_LIMITS) REPO_PATTERN
     @ check_target (fld body ''branch'') ''$.branch'' (il_maxBranchLength INTAKE_LIMITS) BRANCH_PATTERN"

definition single_edges :: "js \<Rightarrow> violation list" where
  "single_edges raw =
     (if isPlainObject raw \<and> is_array (fld raw ''depends_on'') \<and> items (fld raw ''depends_on'') \<noteq> []
      then [viol ''SINGLE_UNIT_HAS_DEPENDENCIES'' ''$.unit.depends_on''
              ''a single-unit submission cannot declare dependencies; use units for a DAG'' None]
      else [])"

definition validateSubmission :: "js \<Rightarrow> validation" where
  "validateSubmission body =
     (if \<not> isPlainObject body then Inl [viol ''MALFORMED_BODY'' ''$'' ''request body must be a JSON object'' None]
      else let vs = envelope_violations body; rawUnit = fld body ''unit''; rawUnits = fld body ''units'' in
      if rawUnit \<noteq> Undefined \<and> rawUnits \<noteq> Undefined
      then invalid (vs @ [viol ''AMBIGUOUS_SUBMISSION_SHAPE'' ''$'' ''provide exactly one of unit or units, not both'' None])
      else if rawUnit = Undefined \<and> rawUnits = Undefined
      then invalid (vs @ [viol ''EMPTY_SUBMISSION'' ''$'' ''provide exactly one of unit or units'' None])
      else if rawUnit \<noteq> Undefined
      then (let all = vs @ validateUnitShape rawUnit ''$.unit'' @ single_edges rawUnit in
            if all \<noteq> [] then invalid all else validate_units body Single_unit [as_unit rawUnit])
      else if \<not> is_array rawUnits then invalid (vs @ [viol ''INVALID_FIELD_TYPE'' ''$.units'' ''units must be an array'' None])
      else if items rawUnits = [] then invalid (vs @ [viol ''EMPTY_SUBMISSION'' ''$.units'' ''units must not be empty'' None])
      else if il_maxUnits INTAKE_LIMITS < length (items rawUnits)
      then invalid (vs @ [viol ''TOO_MANY_UNITS'' ''$.units'' (''units exceeds '' @ nat_str (il_maxUnits INTAKE_LIMITS) @ '' entries'') None])
      else (let all = vs @ concat (map (\<lambda>(i, u). validateUnitShape u (at_index ''$.units'' i)) (enumerate 0 (items rawUnits))) in
            if all \<noteq> [] then invalid all else validate_units body Hand_authored_dag (map as_unit (items rawUnits))))"

end
