(* ===== verification/Direct_Intake.thy ===== *)
theory Direct_Intake
  imports Unit_Validation "HOL-Library.AList"
begin

text \<open>
  The direct-task boundary: canonical payload text (\<^verbatim>\<open>work-intake/payload-hash.ts\<close>),
  caller-scoped idempotency (\<^verbatim>\<open>work-intake/idempotency.ts\<close>), acceptance
  (\<^verbatim>\<open>work-intake/direct-intake.ts\<close>) and the HTTP adapter
  (\<^verbatim>\<open>work-intake/http-adapter.ts\<close>).

  Parameters: \<open>number_text\<close> prints a finite number as \<^verbatim>\<open>JSON.stringify\<close> does, \<open>sha\<close>
  is the hex SHA-256 of a text, \<open>get\<close> and \<open>put\<close> are the store the caller injects (the
  in-memory store of the source is one instance), \<open>gen\<close> is the value the injected
  generator returns on this call.
\<close>

section \<open>Canonical text\<close>

definition MAX_CANONICAL_DEPTH :: nat where "MAX_CANONICAL_DEPTH = 32"

text \<open>The results of the parts in order, or the first exception among them.\<close>

fun all_or_first :: "(string + 'a) list \<Rightarrow> string + 'a list" where
  "all_or_first [] = Inr []"
| "all_or_first (Inl e # rs) = Inl e"
| "all_or_first (Inr x # rs) = (case all_or_first rs of Inl e \<Rightarrow> Inl e | Inr xs \<Rightarrow> Inr (x # xs))"

fun canonicalize :: "(rat \<Rightarrow> string) \<Rightarrow> nat \<Rightarrow> js \<Rightarrow> string + string" where
  "canonicalize number_text depth v =
     (if MAX_CANONICAL_DEPTH < depth then Inl ''payload nesting exceeds canonicalization depth limit''
      else case v of
        Null \<Rightarrow> Inr ''null''
      | Num (Fin r) \<Rightarrow> Inr (number_text r)
      | Num _ \<Rightarrow> Inl ''non-finite numbers are not canonicalizable''
      | Str s \<Rightarrow> Inr (json_quote s)
      | Bool b \<Rightarrow> Inr (if b then ''true'' else ''false'')
      | Arr xs \<Rightarrow> map_sum id (\<lambda>ts. ''['' @ join_with '','' ts @ '']'')
          (all_or_first (map (canonicalize number_text (Suc depth)) xs))
      | Obj p fs \<Rightarrow> map_sum id (\<lambda>es. ''{'' @ join_with '','' es @ ''}'')
          (all_or_first (map (\<lambda>(key, t). map_sum id (\<lambda>s. json_quote key @ '':'' @ s) t)
            (sort_key fst (map (\<lambda>f. (fst f, canonicalize number_text (Suc depth) (snd f)))
              (filter (\<lambda>f. snd f \<noteq> Undefined) fs)))))
      | DateObj t \<Rightarrow> Inr ''{}''
      | _ \<Rightarrow> Inl ''value of this type is not canonicalizable'')"

declare canonicalize.simps [simp del]

definition hashPayload :: "(rat \<Rightarrow> string) \<Rightarrow> (string \<Rightarrow> string) \<Rightarrow> js \<Rightarrow> string + string" where
  "hashPayload number_text sha v = map_sum id sha (canonicalize number_text 0 v)"

section \<open>Acceptance\<close>

record criteria_provenance =
  cp_origin :: string
  cp_caller_id :: string
  cp_submission_id :: string
  cp_unit_id :: string
  cp_idempotency_key :: "string option"

record accepted_unit =
  au_id :: string
  au_intent :: string
  au_change_spec :: string
  au_acceptance_criteria :: "string list"
  au_depends_on :: "string list"
  au_acceptance_criteria_provenance :: criteria_provenance

record acceptance =
  da_submission_id :: string
  da_repo :: string
  da_branch :: string
  da_units :: "accepted_unit list"
  da_submission_shape :: submission_shape
  da_gate1_required :: bool
  da_gate2_required :: bool
  da_decomposition_invoked :: bool
  da_payload_hash :: string
  da_replayed :: bool

datatype intake_result = Accepted acceptance | Rejected "violation list"

record intake_record =
  ir_payload_hash :: string
  ir_result :: acceptance

section \<open>Idempotency\<close>

definition DIRECT_TASK_ROUTE :: string where "DIRECT_TASK_ROUTE = ''POST /tasks''"

definition isValidIdempotencyKey :: "string \<Rightarrow> bool" where
  "isValidIdempotencyKey key =
     (0 < length key \<and> length key \<le> il_maxIdempotencyKeyLength INTAKE_LIMITS
      \<and> list_all (\<lambda>c. 33 \<le> (of_char c :: nat) \<and> (of_char c :: nat) \<le> 126) key)"

definition length_prefixed :: "string \<Rightarrow> string" where
  "length_prefixed part = nat_str (length part) @ '':'' @ part"

definition idempotencyScopeKey :: "string \<Rightarrow> string \<Rightarrow> string \<Rightarrow> string" where
  "idempotencyScopeKey callerId route key = join_with ''|'' (map length_prefixed [callerId, route, key])"

definition DEFAULT_MAX_IDEMPOTENCY_RECORDS :: nat where "DEFAULT_MAX_IDEMPOTENCY_RECORDS = 10000"

record memory_store =
  ms_records :: "(string \<times> intake_record) list"
  ms_limit :: nat

definition memory_get :: "memory_store \<Rightarrow> string \<Rightarrow> intake_record option" where
  "memory_get s scopeKey = map_of (ms_records s) scopeKey"

definition memory_put :: "memory_store \<Rightarrow> string \<Rightarrow> intake_record \<Rightarrow> string + memory_store" where
  "memory_put s scopeKey r =
     (if scopeKey \<notin> fst ` set (ms_records s) \<and> ms_limit s \<le> length (ms_records s)
      then Inl (''idempotency store is full ('' @ nat_str (ms_limit s) @ '' records); a durable store is required'')
      else Inr (s \<lparr> ms_records := AList.update scopeKey r (ms_records s) \<rparr>))"

section \<open>Direct tasks\<close>

definition acceptUnit :: "direct_unit \<Rightarrow> (string \<Rightarrow> criteria_provenance) \<Rightarrow> accepted_unit" where
  "acceptUnit u provenance =
     \<lparr> au_id = du_id u, au_intent = du_intent u, au_change_spec = du_change_spec u,
       au_acceptance_criteria = du_acceptance_criteria u, au_depends_on = du_depends_on u,
       au_acceptance_criteria_provenance = provenance (du_id u) \<rparr>"

definition shape_str :: "submission_shape \<Rightarrow> string" where
  "shape_str sh = (case sh of Single_unit \<Rightarrow> ''single_unit'' | Hand_authored_dag \<Rightarrow> ''hand_authored_dag'')"

definition normalized_unit :: "direct_unit \<Rightarrow> js" where
  "normalized_unit u = plain [(''id'', Str (du_id u)), (''intent'', Str (du_intent u)), (''change_spec'', Str (du_change_spec u)),
     (''acceptance_criteria'', Arr (map Str (du_acceptance_criteria u))), (''depends_on'', Arr (map Str (du_depends_on u)))]"

definition normalized :: "validated_submission \<Rightarrow> js" where
  "normalized v = plain [(''repo'', Str (vs_repo v)), (''branch'', Str (vs_branch v)), (''shape'', Str (shape_str (vs_shape v))),
     (''units'', Arr (map normalized_unit (vs_units v)))]"

definition new_acceptance ::
  "string \<Rightarrow> string option \<Rightarrow> string \<Rightarrow> string \<Rightarrow> validated_submission \<Rightarrow> acceptance" where
  "new_acceptance callerId key submissionId payloadHash v =
     \<lparr> da_submission_id = submissionId, da_repo = vs_repo v, da_branch = vs_branch v,
       da_units = map (\<lambda>u. acceptUnit u (\<lambda>unit_id. \<lparr> cp_origin = ''direct_task'', cp_caller_id = callerId,
         cp_submission_id = submissionId, cp_unit_id = unit_id, cp_idempotency_key = key \<rparr>)) (vs_units v),
       da_submission_shape = vs_shape v, da_gate1_required = False, da_gate2_required = True,
       da_decomposition_invoked = False, da_payload_hash = payloadHash, da_replayed = False \<rparr>"

text \<open>
  The answer to a request, or the exception the call throws, with the store it leaves.
\<close>

definition acceptDirectTasks ::
  "(rat \<Rightarrow> string) \<Rightarrow> (string \<Rightarrow> string) \<Rightarrow> ('s \<Rightarrow> string \<Rightarrow> intake_record option)
    \<Rightarrow> ('s \<Rightarrow> string \<Rightarrow> intake_record \<Rightarrow> string + 's) \<Rightarrow> js \<Rightarrow> js \<Rightarrow> js \<Rightarrow> string option \<Rightarrow> 's
    \<Rightarrow> (string + intake_result) \<times> 's" where
  "acceptDirectTasks number_text sha get put gen callerId body idempotencyKey s =
     (if trim (js_str callerId) = []
      then (Inr (Rejected [viol ''UNAUTHENTICATED'' ''$'' ''an authenticated caller id is required'' None]), s)
      else if \<not> (case idempotencyKey of None \<Rightarrow> True | Some k \<Rightarrow> isValidIdempotencyKey k)
      then (Inr (Rejected [viol ''INVALID_IDEMPOTENCY_KEY'' ''Idempotency-Key''
              ''idempotency key must be non-empty printable ASCII without whitespace'' None]), s)
      else case validateSubmission body of
        Inl vs \<Rightarrow> (Inr (Rejected vs), s)
      | Inr v \<Rightarrow>
        (case hashPayload number_text sha (normalized v) of
           Inl e \<Rightarrow> (Inl e, s)
         | Inr payloadHash \<Rightarrow>
           (let scopeKey = map_option (idempotencyScopeKey (js_str callerId) DIRECT_TASK_ROUTE) idempotencyKey in
            case Option.bind scopeKey (get s) of
              Some existing \<Rightarrow>
                if ir_payload_hash existing \<noteq> payloadHash
                then (Inr (Rejected [viol ''IDEMPOTENCY_KEY_PAYLOAD_MISMATCH'' ''Idempotency-Key''
                        ''this idempotency key was already used with a different payload'' None]), s)
                else (Inr (Accepted ((ir_result existing) \<lparr> da_replayed := True \<rparr>)), s)
            | None \<Rightarrow>
                if trim (js_str gen) = []
                then (Inl ''generateSubmissionId must return a non-empty caller-facing identifier'', s)
                else let a = new_acceptance (js_str callerId) idempotencyKey (js_str gen) payloadHash v in
                  (case scopeKey of
                     None \<Rightarrow> (Inr (Accepted a), s)
                   | Some k \<Rightarrow>
                     (case put s k \<lparr> ir_payload_hash = payloadHash, ir_result = a \<rparr> of
                        Inl e \<Rightarrow> (Inl e, s)
                      | Inr s' \<Rightarrow> (Inr (Accepted a), s'))))))"

section \<open>HTTP\<close>

definition DIRECT_TASK_PATH :: string where "DIRECT_TASK_PATH = ''/tasks''"

definition STATUS_BY_CODE :: "string \<Rightarrow> nat option" where
  "STATUS_BY_CODE = map_of [(''UNAUTHENTICATED'', 401), (''IDEMPOTENCY_KEY_PAYLOAD_MISMATCH'', 409)]"

fun statusForViolations :: "violation list \<Rightarrow> nat" where
  "statusForViolations [] = 400"
| "statusForViolations (v # vs) = (case STATUS_BY_CODE (iv_code v) of Some st \<Rightarrow> st | None \<Rightarrow> statusForViolations vs)"

text \<open>Case mapping of the code units below 128; the header names and methods of HTTP are ASCII.\<close>

definition lower_char :: "char \<Rightarrow> char" where
  "lower_char c = (let n = of_char c :: nat in if 65 \<le> n \<and> n \<le> 90 then char_of (n + 32) else c)"

definition upper_char :: "char \<Rightarrow> char" where
  "upper_char c = (let n = of_char c :: nat in if 97 \<le> n \<and> n \<le> 122 then char_of (n - 32) else c)"

definition headerValue :: "(string \<times> string option) list \<Rightarrow> string \<Rightarrow> string option" where
  "headerValue headers name =
     (case find (\<lambda>h. map lower_char (fst h) = map lower_char name) headers of None \<Rightarrow> None | Some h \<Rightarrow> snd h)"

record http_request =
  hr_method :: string
  hr_path :: string
  hr_headers :: "(string \<times> string option) list"
  hr_body :: js

text \<open>\<open>authenticate\<close> is the injected scheme: the caller id of an authenticated request.\<close>

definition handleDirectTaskRequest ::
  "(rat \<Rightarrow> string) \<Rightarrow> (string \<Rightarrow> string) \<Rightarrow> ('s \<Rightarrow> string \<Rightarrow> intake_record option)
    \<Rightarrow> ('s \<Rightarrow> string \<Rightarrow> intake_record \<Rightarrow> string + 's) \<Rightarrow> js
    \<Rightarrow> ((string \<times> string option) list \<Rightarrow> js option) \<Rightarrow> http_request \<Rightarrow> 's
    \<Rightarrow> (string + nat \<times> intake_result) \<times> 's" where
  "handleDirectTaskRequest number_text sha get put gen authenticate r s =
     (if hr_path r \<noteq> DIRECT_TASK_PATH then (Inr (404, Rejected []), s)
      else if map upper_char (hr_method r) \<noteq> ''POST''
      then (Inr (405, Rejected [viol ''MALFORMED_BODY'' ''$'' ''only POST is supported'' None]), s)
      else case authenticate (hr_headers r) of
        None \<Rightarrow> (Inr (401, Rejected [viol ''UNAUTHENTICATED'' ''$'' ''an authenticated caller id is required'' None]), s)
      | Some callerId \<Rightarrow>
        (case acceptDirectTasks number_text sha get put gen callerId (hr_body r) (headerValue (hr_headers r) ''idempotency-key'') s of
           (Inl e, s') \<Rightarrow> (Inl e, s')
         | (Inr (Rejected vs), s') \<Rightarrow> (Inr (statusForViolations vs, Rejected vs), s')
         | (Inr (Accepted a), s') \<Rightarrow> (Inr (if da_replayed a then 200 else 202, Accepted a), s')))"

end
