(* ===== verification/Unit_Validation_Properties.thy ===== *)
theory Unit_Validation_Properties
  imports Unit_Validation
begin

text \<open>
  What an accepted submission is: the mechanical validation accepts exactly the
  well-formed submissions (\<open>submission_ok\<close>), and its cycle test names exactly the
  units on or below a cycle. Each check is characterised by the predicate under which
  it reports nothing.
\<close>

section \<open>Well-formed submissions\<close>

definition text_ok :: "nat \<Rightarrow> string \<Rightarrow> bool" where
  "text_ok mx s \<longleftrightarrow> trim s \<noteq> [] \<and> length s \<le> mx"

definition unit_ok :: "direct_unit \<Rightarrow> bool" where
  "unit_ok u \<longleftrightarrow> text_ok 200 (du_id u) \<and> text_ok 2000 (du_intent u) \<and> text_ok 20000 (du_change_spec u)
     \<and> du_acceptance_criteria u \<noteq> [] \<and> length (du_acceptance_criteria u) \<le> 100
     \<and> (\<forall>c \<in> set (du_acceptance_criteria u). text_ok 4000 c)
     \<and> length (du_depends_on u) \<le> 500 \<and> distinct (du_depends_on u) \<and> du_id u \<notin> set (du_depends_on u)
     \<and> (\<forall>d \<in> set (du_depends_on u). trim d \<noteq> [])"

definition content_size :: "validated_submission \<Rightarrow> nat" where
  "content_size v = length (vs_repo v) + length (vs_branch v)
     + (\<Sum>u\<leftarrow>vs_units v. length (du_id u) + length (du_intent u) + length (du_change_spec u)
         + sum_list (map length (du_acceptance_criteria u)) + sum_list (map length (du_depends_on u)))"

definition submission_ok :: "validated_submission \<Rightarrow> bool" where
  "submission_ok v \<longleftrightarrow> text_ok 400 (vs_repo v) \<and> REPO_PATTERN (vs_repo v) \<and> text_ok 400 (vs_branch v) \<and> BRANCH_PATTERN (vs_branch v)
     \<and> vs_units v \<noteq> [] \<and> length (vs_units v) \<le> 500 \<and> (\<forall>u \<in> set (vs_units v). unit_ok u)
     \<and> wf_graph (unit_graph (vs_units v)) \<and> acyclic (edges (unit_graph (vs_units v)))
     \<and> content_size v \<le> 1000000
     \<and> (vs_shape v = Single_unit \<longrightarrow> (\<exists>u. vs_units v = [u] \<and> du_depends_on u = []))"

text \<open>
  What a body spells: the accepted keys and no others, and the values of the submission under
  them. An absent edge list spells no edges, and exactly one of the two unit fields is there.
\<close>

definition spells_unit :: "js \<Rightarrow> direct_unit \<Rightarrow> bool" where
  "spells_unit raw u \<longleftrightarrow> isPlainObject raw
     \<and> set (Object_keys raw) \<subseteq> {''id'', ''intent'', ''change_spec'', ''acceptance_criteria'', ''depends_on''}
     \<and> fld raw ''id'' = Str (du_id u) \<and> fld raw ''intent'' = Str (du_intent u) \<and> fld raw ''change_spec'' = Str (du_change_spec u)
     \<and> fld raw ''acceptance_criteria'' = Arr (map Str (du_acceptance_criteria u))
     \<and> (fld raw ''depends_on'' = Arr (map Str (du_depends_on u)) \<or> fld raw ''depends_on'' = Undefined \<and> du_depends_on u = [])"

definition spells_submission :: "js \<Rightarrow> validated_submission \<Rightarrow> bool" where
  "spells_submission body v \<longleftrightarrow> isPlainObject body \<and> set (Object_keys body) \<subseteq> {''repo'', ''branch'', ''unit'', ''units''}
     \<and> fld body ''repo'' = Str (vs_repo v) \<and> fld body ''branch'' = Str (vs_branch v)
     \<and> (case vs_shape v of
          Single_unit \<Rightarrow> fld body ''units'' = Undefined \<and> (\<exists>u. vs_units v = [u] \<and> spells_unit (fld body ''unit'') u)
        | Hand_authored_dag \<Rightarrow> fld body ''unit'' = Undefined \<and> (\<exists>raws. fld body ''units'' = Arr raws \<and> list_all2 spells_unit raws (vs_units v)))"

lemmas intake_limits = INTAKE_LIMITS_def

section \<open>Checks of one field\<close>

lemma checkString_Nil [simp]: "checkString v path mx u = [] \<longleftrightarrow> (\<exists>s. v = Str s \<and> text_ok mx s)"
  by (cases v) (auto simp: checkString_def text_ok_def)

lemma concat_enumerate_Nil:
  assumes "\<And>i x. x \<in> set xs \<Longrightarrow> f (i, x) = [] \<longleftrightarrow> P x"
  shows "concat (map f (enumerate n xs)) = [] \<longleftrightarrow> (\<forall>x \<in> set xs. P x)"
  using assms by (induction xs arbitrary: n) auto

lemma check_criterion_Nil [simp]: "check_criterion path u v = [] \<longleftrightarrow> (\<exists>s. v = Str s \<and> text_ok 4000 s)"
  by (cases v) (auto simp: check_criterion_def text_ok_def intake_limits)

lemma validateAcceptanceCriteria_Nil [simp]:
  "validateAcceptanceCriteria raw path u = [] \<longleftrightarrow>
     (\<exists>xs. raw = Arr xs \<and> xs \<noteq> [] \<and> length xs \<le> 100 \<and> (\<forall>x \<in> set xs. \<exists>s. x = Str s \<and> text_ok 4000 s))"
proof (cases raw)
  case (Arr xs)
  have "concat (map (\<lambda>(i, c). check_criterion (at_index path i) u c) (enumerate 0 xs)) = []
    \<longleftrightarrow> (\<forall>x \<in> set xs. \<exists>s. x = Str s \<and> text_ok 4000 s)"
    by (rule concat_enumerate_Nil) simp
  then show ?thesis using Arr by (simp add: validateAcceptanceCriteria_def intake_limits)
qed (simp_all add: validateAcceptanceCriteria_def)

lemma check_dependencies_Nil:
  "check_dependencies path u i seen ds = [] \<longleftrightarrow>
     (\<forall>d \<in> set ds. \<exists>s. d = Str s \<and> trim s \<noteq> []) \<and> (\<forall>d \<in> set ds. u \<noteq> Some (js_str d))
     \<and> distinct (map js_str ds) \<and> set seen \<inter> js_str ` set ds = {}"
proof (induction path u i seen ds rule: check_dependencies.induct)
  case (2 path u i seen d ds)
  have str: "(case d of Str s \<Rightarrow> trim s \<noteq> [] | _ \<Rightarrow> False) \<longleftrightarrow> (\<exists>s. d = Str s \<and> trim s \<noteq> [])"
    by (cases d) auto
  show ?case
  proof (cases "(\<exists>s. d = Str s \<and> trim s \<noteq> []) \<and> u \<noteq> Some (js_str d) \<and> js_str d \<notin> set seen")
    case True
    then have "check_dependencies path u i seen (d # ds) = check_dependencies path u (Suc i) (js_str d # seen) ds"
      by (auto simp: str)
    moreover have "check_dependencies path u (Suc i) (js_str d # seen) ds = [] \<longleftrightarrow>
        (\<forall>d \<in> set ds. \<exists>s. d = Str s \<and> trim s \<noteq> []) \<and> (\<forall>d \<in> set ds. u \<noteq> Some (js_str d))
        \<and> distinct (map js_str ds) \<and> set (js_str d # seen) \<inter> js_str ` set ds = {}"
      by (rule "2.IH"(4)) (use True in \<open>auto simp: str\<close>)
    ultimately show ?thesis using True by auto
  next
    case False
    then have "check_dependencies path u i seen (d # ds) \<noteq> []" by (auto simp: str)
    then show ?thesis using False by auto
  qed
qed simp

lemma validateDependsOn_Nil [simp]:
  "validateDependsOn raw path u = [] \<longleftrightarrow> raw = Undefined \<or>
     (\<exists>ds. raw = Arr ds \<and> length ds \<le> 500 \<and> (\<forall>d \<in> set ds. \<exists>s. d = Str s \<and> trim s \<noteq> [])
       \<and> (\<forall>d \<in> set ds. u \<noteq> Some (js_str d)) \<and> distinct (map js_str ds))"
  by (cases raw) (auto simp: validateDependsOn_def intake_limits check_dependencies_Nil)

lemma unknown_fields_Nil:
  "unknown_fields v allowed path kind u = [] \<longleftrightarrow> set (Object_keys v) \<subseteq> set allowed - set FORBIDDEN_KEYS"
  by (auto simp: unknown_fields_def filter_empty_conv)

lemma Str_items: "(\<forall>x \<in> set xs. \<exists>s. x = Str s \<and> P s) \<longleftrightarrow> (\<exists>ss. xs = map Str ss \<and> (\<forall>s \<in> set ss. P s))"
proof
  assume a: "\<forall>x \<in> set xs. \<exists>s. x = Str s \<and> P s"
  then have "xs = map Str (map js_str xs)" by (induction xs) auto
  moreover have "\<forall>s \<in> set (map js_str xs). P s" using a by fastforce
  ultimately show "\<exists>ss. xs = map Str ss \<and> (\<forall>s \<in> set ss. P s)" by blast
qed auto

section \<open>One unit\<close>

lemma unit_keys: "unknown_fields raw UNIT_FIELDS path ''unit'' u = []
    \<longleftrightarrow> set (Object_keys raw) \<subseteq> {''id'', ''intent'', ''change_spec'', ''acceptance_criteria'', ''depends_on''}"
  by (auto simp: unknown_fields_Nil UNIT_FIELDS_def FORBIDDEN_KEYS_def)

lemma Str_list_eq [simp]: "map Str xs = map Str ys \<longleftrightarrow> xs = ys"
  by (rule inj_map_eq_map) (simp add: inj_def)

lemma criteria_spelled:
  "validateAcceptanceCriteria v path i = [] \<longleftrightarrow> (\<exists>cs. v = Arr (map Str cs) \<and> cs \<noteq> [] \<and> length cs \<le> 100 \<and> (\<forall>c \<in> set cs. text_ok 4000 c))"
  unfolding validateAcceptanceCriteria_Nil Str_items by auto

lemma edges_spelled:
  "validateDependsOn v path (Some i) = [] \<longleftrightarrow> (\<exists>ds. (v = Arr (map Str ds) \<or> v = Undefined \<and> ds = [])
     \<and> length ds \<le> 500 \<and> distinct ds \<and> i \<notin> set ds \<and> (\<forall>d \<in> set ds. trim d \<noteq> []))"
proof
  assume "validateDependsOn v path (Some i) = []"
  then consider "v = Undefined" | xs ss where "v = Arr xs" "length xs \<le> 500" "xs = map Str ss" "\<forall>s \<in> set ss. trim s \<noteq> []"
      "\<forall>d \<in> set xs. Some i \<noteq> Some (js_str d)" "distinct (map js_str xs)"
    unfolding validateDependsOn_Nil Str_items by blast
  then show "\<exists>ds. (v = Arr (map Str ds) \<or> v = Undefined \<and> ds = []) \<and> length ds \<le> 500 \<and> distinct ds \<and> i \<notin> set ds
      \<and> (\<forall>d \<in> set ds. trim d \<noteq> [])"
    by cases (auto simp: comp_def)
next
  assume "\<exists>ds. (v = Arr (map Str ds) \<or> v = Undefined \<and> ds = []) \<and> length ds \<le> 500 \<and> distinct ds \<and> i \<notin> set ds
      \<and> (\<forall>d \<in> set ds. trim d \<noteq> [])"
  then show "validateDependsOn v path (Some i) = []" by (auto simp: comp_def)
qed

text \<open>A unit passes its checks exactly when it spells a well-formed unit, and that is its typed view.\<close>

lemma unit_shape_exact: "validateUnitShape raw path = [] \<and> as_unit raw = u \<longleftrightarrow> spells_unit raw u \<and> unit_ok u"
proof
  assume a: "validateUnitShape raw path = [] \<and> as_unit raw = u"
  then have plain: "isPlainObject raw" by (auto simp: validateUnitShape_def split: if_splits)
  let ?i = "js_opt_str (fld raw ''id'')"
  from a plain have c: "unknown_fields raw UNIT_FIELDS path ''unit'' ?i = []"
    "checkString (fld raw ''id'') (path @ ''.id'') 200 ?i = []" "checkString (fld raw ''intent'') (path @ ''.intent'') 2000 ?i = []"
    "checkString (fld raw ''change_spec'') (path @ ''.change_spec'') 20000 ?i = []"
    "validateAcceptanceCriteria (fld raw ''acceptance_criteria'') (path @ ''.acceptance_criteria'') ?i = []"
    "validateDependsOn (fld raw ''depends_on'') (path @ ''.depends_on'') ?i = []"
    by (simp_all add: validateUnitShape_def Let_def intake_limits)
  from c(2) obtain i where i: "fld raw ''id'' = Str i" "text_ok 200 i" by auto
  from c(6) i(1) have "validateDependsOn (fld raw ''depends_on'') (path @ ''.depends_on'') (Some i) = []" by simp
  then obtain ds where "fld raw ''depends_on'' = Arr (map Str ds) \<or> fld raw ''depends_on'' = Undefined \<and> ds = []"
    "length ds \<le> 500" "distinct ds" "i \<notin> set ds" "\<forall>d \<in> set ds. trim d \<noteq> []"
    unfolding edges_spelled by blast
  with a i c(1,3,4,5) plain show "spells_unit raw u \<and> unit_ok u"
    unfolding criteria_spelled unit_keys by (auto simp: spells_unit_def unit_ok_def as_unit_def comp_def)
next
  assume s: "spells_unit raw u \<and> unit_ok u"
  then have "as_unit raw = u" by (auto simp: spells_unit_def as_unit_def comp_def)
  moreover have "validateDependsOn (fld raw ''depends_on'') (path @ ''.depends_on'') (Some (du_id u)) = []"
    unfolding edges_spelled using s by (auto simp: spells_unit_def unit_ok_def)
  moreover have "validateAcceptanceCriteria (fld raw ''acceptance_criteria'') (path @ ''.acceptance_criteria'') (Some (du_id u)) = []"
    unfolding criteria_spelled using s by (auto simp: spells_unit_def unit_ok_def)
  ultimately show "validateUnitShape raw path = [] \<and> as_unit raw = u"
    using s by (simp add: validateUnitShape_def Let_def unit_keys spells_unit_def unit_ok_def intake_limits)
qed

lemma units_shape_exact:
  "concat (map (\<lambda>(i, u). validateUnitShape u (path i)) (enumerate n raws)) = [] \<and> map as_unit raws = us
     \<longleftrightarrow> list_all2 spells_unit raws us \<and> list_all unit_ok us"
proof (induction raws arbitrary: n us)
  case (Cons raw raws)
  show ?case
  proof (cases us)
    case (Cons u us')
    then show ?thesis using Cons.IH [of "Suc n" us'] unit_shape_exact [of raw "path n" u] by auto
  qed simp
qed auto

section \<open>Units together\<close>

lemma duplicate_ids_Nil:
  "duplicate_ids shape i seen us = [] \<longleftrightarrow> distinct (map du_id us) \<and> set seen \<inter> du_id ` set us = {}"
  by (induction shape i seen us rule: duplicate_ids.induct) auto

lemma unknown_dependencies_Nil:
  "unknown_dependencies shape us = [] \<longleftrightarrow> (\<forall>u \<in> set us. set (du_depends_on u) \<subseteq> du_id ` set us)"
  unfolding unknown_dependencies_def
proof (rule concat_enumerate_Nil, simp only: prod.case)
  fix i u assume "u \<in> set us"
  show "concat (map (\<lambda>(j, d). if d \<in> du_id ` set us then []
      else [viol ''UNKNOWN_DEPENDENCY'' (at_index (unit_path shape i @ ''.depends_on'') j)
              (''dependency '' @ d @ '' does not match any submitted unit id'') (Some (du_id u))]) (enumerate 0 (du_depends_on u))) = []
    \<longleftrightarrow> set (du_depends_on u) \<subseteq> du_id ` set us"
    unfolding subset_iff Ball_def [symmetric] by (rule concat_enumerate_Nil) simp
qed

lemma wf_unit_graph:
  "wf_graph (unit_graph us) \<longleftrightarrow> distinct (map du_id us) \<and> (\<forall>u \<in> set us. set (du_depends_on u) \<subseteq> du_id ` set us)"
  by (auto simp: wf_graph_def unit_graph_def node_set_def comp_def image_image)

text \<open>The cycle test: the units on or below a cycle, in order, or none.\<close>

lemma unorderable_exact:
  assumes wf: "wf_graph (unit_graph us)"
  shows "set (findUnorderableUnits us) = below_cycle (unit_graph us)" "sorted (findUnorderableUnits us)"
proof -
  let ?g = "unit_graph us"
  obtain ind n where k: "kahn_lifo (children ?g) (init_indegree ?g) (initially_ready (init_indegree ?g)) 0 = (ind, n)"
    by (cases "kahn_lifo (children ?g) (init_indegree ?g) (initially_ready (init_indegree ?g)) 0")
  have f: "findUnorderableUnits us = (if n = length us then [] else sort (map fst (filter (\<lambda>p. 0 < snd p) ind)))"
    using k by (simp add: findUnorderableUnits_def Let_def adj_get_build_adj [OF wf])
  have len: "length us = length ?g" by (simp add: unit_graph_def)
  note c = lifo.loop_correct [OF wf k]
  have all: "n = length us \<longleftrightarrow> below_cycle ?g = {}"
    using lifo.loop_counts_all [OF wf k] below_cycle_acyclic [OF wf] len by simp
  have "distinct (map fst ind)" using c(2) wf by (simp add: wf_graph_def)
  then have mem: "(u, d) \<in> set ind \<longleftrightarrow> map_of ind u = Some d" for u d by simp
  have keys: "fst ` set ind = node_set ?g" using c(2) by (metis list.set_map node_set_def)
  have "u \<in> fst ` {p \<in> set ind. 0 < snd p} \<longleftrightarrow> u \<in> below_cycle ?g" for u
  proof
    assume "u \<in> fst ` {p \<in> set ind. 0 < snd p}"
    then obtain d where d: "(u, d) \<in> set ind" "0 < d" by auto
    then have "u \<in> node_set ?g" using keys by force
    with c(3) d mem show "u \<in> below_cycle ?g" by fastforce
  next
    assume u: "u \<in> below_cycle ?g"
    then have "u \<in> node_set ?g" by (simp add: below_cycle_def)
    with c(3) u obtain d where "map_of ind u = Some d" "0 < d" by blast
    then show "u \<in> fst ` {p \<in> set ind. 0 < snd p}" using mem by force
  qed
  then show "set (findUnorderableUnits us) = below_cycle ?g" using f all by auto
  show "sorted (findUnorderableUnits us)" using f by simp
qed

lemma no_unorderable: "wf_graph (unit_graph us) \<Longrightarrow> findUnorderableUnits us = [] \<longleftrightarrow> acyclic (edges (unit_graph us))"
  using unorderable_exact(1) below_cycle_acyclic by (metis set_empty)

section \<open>The submission\<close>

lemma invalid_Inr [simp]: "invalid vs \<noteq> Inr v"
  by (simp add: invalid_def)

lemma validate_units_Inr:
  "validate_units body shape us = Inr v \<longleftrightarrow>
     v = \<lparr> vs_repo = js_str (fld body ''repo''), vs_branch = js_str (fld body ''branch''), vs_units = us, vs_shape = shape \<rparr>
     \<and> content_size v \<le> 1000000 \<and> wf_graph (unit_graph us) \<and> acyclic (edges (unit_graph us))"
proof -
  have "content_size \<lparr> vs_repo = js_str (fld body ''repo''), vs_branch = js_str (fld body ''branch''), vs_units = us, vs_shape = shape \<rparr>
    = measureContent us body"
    by (simp add: content_size_def measureContent_def)
  then show ?thesis
    using no_unorderable [of us]
    by (auto simp: validate_units_def Let_def duplicate_ids_Nil unknown_dependencies_Nil wf_unit_graph intake_limits)
qed

lemma check_target_Nil [simp]:
  "check_target v path mx pattern = [] \<longleftrightarrow> (\<exists>s. v = Str s \<and> text_ok mx s \<and> pattern s)"
proof (cases "checkString v path mx None")
  case Nil
  then obtain s where "v = Str s" "text_ok mx s" by auto
  then show ?thesis unfolding check_target_def Nil by (simp add: checkTargetFormat_def)
next
  case (Cons x xs)
  then have "\<not> (\<exists>s. v = Str s \<and> text_ok mx s)" by (metis checkString_Nil list.discI)
  then show ?thesis using Cons by (auto simp: check_target_def)
qed

lemma envelope_Nil:
  "envelope_violations body = [] \<longleftrightarrow> set (Object_keys body) \<subseteq> {''repo'', ''branch'', ''unit'', ''units''}
     \<and> (\<exists>r b. fld body ''repo'' = Str r \<and> text_ok 400 r \<and> REPO_PATTERN r \<and> fld body ''branch'' = Str b \<and> text_ok 400 b \<and> BRANCH_PATTERN b)"
proof -
  have "set (Object_keys body) \<subseteq> set SUBMISSION_FIELDS - set FORBIDDEN_KEYS
      \<longleftrightarrow> set (Object_keys body) \<subseteq> {''repo'', ''branch'', ''unit'', ''units''}"
    by (auto simp: SUBMISSION_FIELDS_def FORBIDDEN_KEYS_def)
  then show ?thesis by (auto simp: envelope_violations_def intake_limits unknown_fields_Nil)
qed

text \<open>A refusal says why.\<close>

lemma sorted_some: "vs \<noteq> [] \<Longrightarrow> sortViolations vs \<noteq> [] \<and> length (sortViolations vs) \<le> 100"
proof -
  assume "vs \<noteq> []"
  then have "length (sort_by compare_violations vs) \<noteq> 0" by simp
  then show ?thesis by (simp add: sortViolations_def MAX_REPORTED_VIOLATIONS_def del: length_sort_by)
qed

lemma refusal_names: "case validateSubmission body of Inl vs \<Rightarrow> vs \<noteq> [] \<and> length vs \<le> 100 | Inr v \<Rightarrow> True"
  by (auto simp: validateSubmission_def validate_units_def Let_def invalid_def sorted_some split: sum.split)

text \<open>A unit that stands alone.\<close>

lemma single_shape_exact:
  "raw \<noteq> Undefined \<and> validateUnitShape raw path @ single_edges raw = [] \<and> as_unit raw = u
     \<longleftrightarrow> spells_unit raw u \<and> unit_ok u \<and> du_depends_on u = []"
proof -
  have "single_edges raw = [] \<longleftrightarrow> du_depends_on u = []" if "spells_unit raw u"
    using that by (auto simp: single_edges_def spells_unit_def)
  moreover have "raw \<noteq> Undefined" if "spells_unit raw u" using that by (auto simp: spells_unit_def)
  ultimately show ?thesis using unit_shape_exact [of raw path u] by auto
qed

lemma validation_single:
  assumes "vs_shape v = Single_unit"
  shows "validateSubmission body = Inr v \<longleftrightarrow> spells_submission body v \<and> submission_ok v"
proof (cases "isPlainObject body \<and> fld body ''unit'' \<noteq> Undefined \<and> fld body ''units'' = Undefined")
  case True
  let ?raw = "fld body ''unit''"
  have "validateSubmission body = Inr v \<longleftrightarrow> envelope_violations body = [] \<and> validateUnitShape ?raw ''$.unit'' @ single_edges ?raw = []
      \<and> validate_units body Single_unit [as_unit ?raw] = Inr v"
    using True by (auto simp: validateSubmission_def Let_def)
  also have "\<dots> \<longleftrightarrow> spells_submission body v \<and> submission_ok v"
    using True assms single_shape_exact [of ?raw "''$.unit''" "hd (vs_units v)"]
    by (cases v) (auto simp: validate_units_Inr envelope_Nil spells_submission_def submission_ok_def)
  finally show ?thesis .
next
  case False
  have "\<not> spells_submission body v" using False assms by (auto simp: spells_submission_def spells_unit_def)
  moreover have "validateSubmission body \<noteq> Inr v"
    using False assms by (auto simp: validateSubmission_def Let_def validate_units_Inr)
  ultimately show ?thesis by simp
qed

lemma validation_dag:
  assumes "vs_shape v = Hand_authored_dag"
  shows "validateSubmission body = Inr v \<longleftrightarrow> spells_submission body v \<and> submission_ok v"
proof (cases "isPlainObject body \<and> fld body ''unit'' = Undefined \<and> (\<exists>raws. fld body ''units'' = Arr raws \<and> raws \<noteq> [] \<and> length raws \<le> 500)")
  case True
  then obtain raws where raws: "isPlainObject body" "fld body ''unit'' = Undefined" "fld body ''units'' = Arr raws" "raws \<noteq> []" "length raws \<le> 500"
    by blast
  have "validateSubmission body = Inr v \<longleftrightarrow> envelope_violations body = []
      \<and> concat (map (\<lambda>(i, u). validateUnitShape u (at_index ''$.units'' i)) (enumerate 0 raws)) = []
      \<and> validate_units body Hand_authored_dag (map as_unit raws) = Inr v"
    using raws by (simp add: validateSubmission_def Let_def intake_limits)
  also have "\<dots> \<longleftrightarrow> spells_submission body v \<and> submission_ok v"
    using raws assms units_shape_exact [of "at_index ''$.units''" 0 raws "vs_units v"]
    by (cases v) (auto simp: validate_units_Inr envelope_Nil spells_submission_def submission_ok_def list_all_iff dest: list_all2_lengthD)
  finally show ?thesis .
next
  case False
  have "\<not> (spells_submission body v \<and> submission_ok v)"
    using False assms by (auto simp: spells_submission_def submission_ok_def dest: list_all2_lengthD)
  moreover have "validateSubmission body \<noteq> Inr v"
    using False assms by (cases "fld body ''units''") (auto simp: validateSubmission_def Let_def validate_units_Inr intake_limits)
  ultimately show ?thesis by simp
qed

lemma validation_iff: "validateSubmission body = Inr v \<longleftrightarrow> spells_submission body v \<and> submission_ok v"
  by (cases "vs_shape v") (simp_all add: validation_single validation_dag)

lemma validateSubmission_sound: "validateSubmission body = Inr v \<Longrightarrow> submission_ok v"
  by (simp add: validation_iff)

text \<open>Every well-formed submission is spelled by some body.\<close>

definition unit_json :: "direct_unit \<Rightarrow> js" where
  "unit_json u = plain [(''id'', Str (du_id u)), (''intent'', Str (du_intent u)), (''change_spec'', Str (du_change_spec u)),
     (''acceptance_criteria'', Arr (map Str (du_acceptance_criteria u))), (''depends_on'', Arr (map Str (du_depends_on u)))]"

definition submission_json :: "validated_submission \<Rightarrow> js" where
  "submission_json v = plain [(''repo'', Str (vs_repo v)), (''branch'', Str (vs_branch v)),
     (case vs_shape v of Single_unit \<Rightarrow> (''unit'', unit_json (hd (vs_units v)))
      | Hand_authored_dag \<Rightarrow> (''units'', Arr (map unit_json (vs_units v))))]"

lemma submission_spelled: "submission_ok v \<Longrightarrow> spells_submission (submission_json v) v"
proof -
  assume "submission_ok v"
  have u: "spells_unit (unit_json u) u" for u by (simp add: spells_unit_def unit_json_def)
  then have "list_all2 spells_unit (map unit_json us) us" for us by (simp add: list_all2_conv_all_nth)
  with u \<open>submission_ok v\<close> show ?thesis
    by (cases "vs_shape v") (auto simp: spells_submission_def submission_json_def submission_ok_def)
qed

text \<open>
  C24. The mechanical validation accepts exactly the bodies that spell a well-formed submission,
  and answers with the submission they spell. A body spells a submission when it is a plain
  object with the accepted keys and no others, its targets and units are those of the
  submission, and so for the keys and values of every unit; exactly one of unit and units is
  there. A submission is well-formed when its targets match their patterns, every text is
  visible and within its limit, unit ids are distinct, dependencies are distinct, resolved and
  not reflexive, the graph has no cycle, the content is within the total limit, and a single
  unit stands alone. Every well-formed submission is spelled by a body, and a refusal names at
  least one and at most a hundred violations.
\<close>
theorem submission_validation_exact:
  "(validateSubmission body = Inr v \<longleftrightarrow> spells_submission body v \<and> submission_ok v)
   \<and> ((\<exists>b. validateSubmission b = Inr v) \<longleftrightarrow> submission_ok v)
   \<and> (case validateSubmission body of Inl vs \<Rightarrow> vs \<noteq> [] \<and> length vs \<le> 100 | Inr v' \<Rightarrow> True)"
  using validation_iff submission_spelled refusal_names by blast

end
