(* ===== verification/Intake_Properties.thy ===== *)
theory Intake_Properties
  imports Direct_Intake Unit_Validation_Properties
begin

text \<open>
  Direct intake: its canonical text determines the submission, its scope key the caller
  and the key, and its store answers every later request under a key from the first
  acceptance. The locale \<open>idempotency_store\<close> states the contract of the injected store;
  the in-memory store of the source is its interpretation.
\<close>

section \<open>Self-delimiting texts\<close>

definition self_delimiting :: "('a \<Rightarrow> string) \<Rightarrow> bool" where
  "self_delimiting f \<longleftrightarrow> (\<forall>x y r r'. f x @ r = f y @ r' \<longrightarrow> x = y \<and> r = r')"

lemma self_delimitingD: "self_delimiting f \<Longrightarrow> f x @ r = f y @ r' \<Longrightarrow> x = y \<and> r = r'"
  unfolding self_delimiting_def by blast

lemma self_delimiting_inj: "self_delimiting f \<Longrightarrow> f x = f y \<Longrightarrow> x = y"
  using self_delimitingD [of f x "[]" y "[]"] by simp

lemma hex_digit_inj: "a < 16 \<Longrightarrow> b < 16 \<Longrightarrow> hex_digit a = hex_digit b \<Longrightarrow> a = b"
  unfolding hex_digit_def
  by (drule arg_cong [where f = "of_char :: char \<Rightarrow> nat"]) (auto split: if_splits)

lemma of_char_backslash: "(of_char c :: nat) \<noteq> 92 \<Longrightarrow> c \<noteq> CHR 0x5C"
  by auto

lemma same_code:
  "(of_char c :: nat) = n \<Longrightarrow> of_char d = n \<Longrightarrow> c = d"
  "of_char c div 16 = (of_char d :: nat) div 16 \<Longrightarrow> of_char c mod 16 = (of_char d :: nat) mod 16 \<Longrightarrow> c = d"
   apply (metis of_char_eq_iff)
  apply (metis div_mult_mod_eq of_char_eq_iff)
  done

lemma head_differs: "xs \<noteq> [] \<and> hd xs \<noteq> c \<Longrightarrow> xs @ r \<noteq> c # r'"
  by (cases xs) auto

lemma json_escape_head: "json_escape c \<noteq> [] \<and> hd (json_escape c) \<noteq> CHR 0x22"
proof -
  have "(of_char c :: nat) \<noteq> 34 \<Longrightarrow> c \<noteq> CHR 0x22" by auto
  then show ?thesis by (auto simp: json_escape_def Let_def)
qed

text \<open>Escapes are read back one character at a time.\<close>

definition hex_value :: "char \<Rightarrow> nat" where
  "hex_value h = (let n = of_char h in if n < 58 then n - 48 else n - 87)"

lemma hex_value_digit: "n < 16 \<Longrightarrow> hex_value (hex_digit n) = n"
  by (simp add: hex_value_def hex_digit_def Let_def)

definition short_escapes :: "(char \<times> char) list" where
  "short_escapes = [(CHR 0x22, CHR 0x22), (CHR 0x5C, CHR 0x5C), (CHR ''b'', CHR 0x08), (CHR ''t'', CHR 0x09), (CHR ''n'', CHR 0x0A),
     (CHR ''f'', CHR 0x0C), (CHR ''r'', CHR 0x0D)]"

fun json_unescape :: "string \<Rightarrow> (char \<times> string) option" where
  "json_unescape [] = None"
| "json_unescape (c # s) =
     (if c \<noteq> CHR 0x5C then Some (c, s)
      else case s of
        [] \<Rightarrow> None
      | x # r \<Rightarrow>
          (case map_of short_escapes x of
             Some e \<Rightarrow> Some (e, r)
           | None \<Rightarrow> Some (char_of (16 * hex_value (r ! 2) + hex_value (r ! 3)), drop 4 r)))"

lemma json_unescape_escape: "json_unescape (json_escape c @ r) = Some (c, r)"
proof -
  consider "c \<in> {CHR 0x22, CHR 0x5C, CHR 0x08, CHR 0x09, CHR 0x0A, CHR 0x0C, CHR 0x0D}"
    | "c \<notin> {CHR 0x22, CHR 0x5C, CHR 0x08, CHR 0x09, CHR 0x0A, CHR 0x0C, CHR 0x0D}" by blast
  then show ?thesis
  proof cases
    case 1
    then show ?thesis by (elim insertE emptyE) (simp_all add: json_escape_def short_escapes_def)
  next
    case 2
    let ?n = "of_char c :: nat"
    have special: "?n \<noteq> of_char d" if "d \<in> {CHR 0x22, CHR 0x5C, CHR 0x08, CHR 0x09, CHR 0x0A, CHR 0x0C, CHR 0x0D}" for d
      using 2 that of_char_eq_iff [of c d] by metis
    have codes: "?n \<noteq> 34" "?n \<noteq> 92" "?n \<noteq> 8" "?n \<noteq> 9" "?n \<noteq> 10" "?n \<noteq> 12" "?n \<noteq> 13"
      using special [of "CHR 0x22"] special [of "CHR 0x5C"] special [of "CHR 0x08"] special [of "CHR 0x09"] special [of "CHR 0x0A"]
        special [of "CHR 0x0C"] special [of "CHR 0x0D"] by simp_all
    show ?thesis
    proof (cases "?n < 32")
      case True
      define h l where "h = hex_digit (?n div 16)" and "l = hex_digit (?n mod 16)"
      have v: "hex_value h = ?n div 16" "hex_value l = ?n mod 16" unfolding h_def l_def using True by (simp_all add: hex_value_digit)
      have "json_escape c = [CHR 0x5C, CHR ''u'', CHR ''0'', CHR ''0'', h, l]"
        using True codes unfolding json_escape_def Let_def h_def l_def by simp
      then have "json_unescape (json_escape c @ r) = Some (char_of (16 * hex_value h + hex_value l), r)"
        by (simp add: short_escapes_def)
      also have "char_of (16 * hex_value h + hex_value l) = c" unfolding v by (simp only: mult_div_mod_eq char_of_char)
      finally show ?thesis .
    next
      case False
      then show ?thesis using codes 2 by (simp add: json_escape_def Let_def)
    qed
  qed
qed

lemma json_escape_self: "self_delimiting json_escape"
  unfolding self_delimiting_def using json_unescape_escape by (metis option.inject prod.inject)

lemma json_quote_self: "self_delimiting json_quote"
proof -
  have key: "s = t \<and> r = r'" if "concat (map json_escape s) @ CHR 0x22 # r = concat (map json_escape t) @ CHR 0x22 # r'" for s t r r'
    using that
  proof (induction s arbitrary: t)
    case Nil
    then show ?case using head_differs [OF json_escape_head] by (cases t) (auto dest!: sym [of "CHR 0x22 # r"])
  next
    case (Cons c s)
    show ?case
    proof (cases t)
      case Nil
      then have "json_escape c @ concat (map json_escape s) @ CHR 0x22 # r = CHR 0x22 # r'" using Cons.prems by simp
      then show ?thesis using head_differs [OF json_escape_head] by blast
    next
      case (Cons d t')
      have "json_escape c @ (concat (map json_escape s) @ CHR 0x22 # r) = json_escape d @ (concat (map json_escape t') @ CHR 0x22 # r')"
        using Cons.prems Cons by simp
      from self_delimitingD [OF json_escape_self this] Cons.IH [of t'] show ?thesis using Cons by simp
    qed
  qed
  show ?thesis unfolding self_delimiting_def json_quote_def by (intro allI impI, rule key) simp
qed

text \<open>A bracketed list of self-delimiting texts that do not begin with a separator.\<close>

definition json_list :: "('a \<Rightarrow> string) \<Rightarrow> 'a list \<Rightarrow> string" where
  "json_list f xs = ''['' @ join_with '','' (map f xs) @ '']''"

lemma join_with_Cons: "join_with sep (x # xs) = x @ (if xs = [] then [] else sep @ join_with sep xs)"
  by (cases xs) auto

lemma json_list_self:
  assumes f: "self_delimiting f" and head: "\<And>x. f x \<noteq> [] \<and> hd (f x) \<noteq> CHR '']''"
  shows "self_delimiting (json_list f)"
proof -
  have key: "xs = ys \<and> r = r'" if "join_with '','' (map f xs) @ CHR '']'' # r = join_with '','' (map f ys) @ CHR '']'' # r'" for xs ys r r'
    using that
  proof (induction xs arbitrary: ys)
    case Nil
    show ?case
    proof (cases ys)
      case (Cons y zs)
      then have "f y @ (if zs = [] then [] else '','' @ join_with '','' (map f zs)) @ CHR '']'' # r' = CHR '']'' # r"
        using Nil by (simp add: join_with_Cons)
      then show ?thesis using head_differs [OF head] by blast
    qed (use Nil in simp)
  next
    case (Cons x xs)
    show ?case
    proof (cases ys)
      case Nil
      then have "f x @ (if xs = [] then [] else '','' @ join_with '','' (map f xs)) @ CHR '']'' # r = CHR '']'' # r'"
        using Cons.prems by (simp add: join_with_Cons)
      then show ?thesis using head_differs [OF head] by blast
    next
      case (Cons y zs)
      have "f x @ ((if xs = [] then [] else '','' @ join_with '','' (map f xs)) @ CHR '']'' # r)
        = f y @ ((if zs = [] then [] else '','' @ join_with '','' (map f zs)) @ CHR '']'' # r')"
        using Cons.prems Cons by (simp add: join_with_Cons)
      from self_delimitingD [OF f this] have e: "x = y"
        "(if xs = [] then [] else '','' @ join_with '','' (map f xs)) @ CHR '']'' # r
         = (if zs = [] then [] else '','' @ join_with '','' (map f zs)) @ CHR '']'' # r'" by blast+
      then have "(xs = [] \<longleftrightarrow> zs = [])" by (auto split: if_splits)
      with e Cons.IH [of zs] show ?thesis using Cons by (auto split: if_splits)
    qed
  qed
  show ?thesis unfolding self_delimiting_def json_list_def by (intro allI impI, rule key) simp
qed

lemma json_quote_head: "json_quote s \<noteq> [] \<and> hd (json_quote s) \<noteq> CHR '']''"
  by (simp add: json_quote_def)

section \<open>The canonical text of a submission\<close>

definition unit_text :: "direct_unit \<Rightarrow> string" where
  "unit_text u = ''{'' @ json_quote ''acceptance_criteria'' @ '':'' @ json_list json_quote (du_acceptance_criteria u)
     @ '','' @ json_quote ''change_spec'' @ '':'' @ json_quote (du_change_spec u)
     @ '','' @ json_quote ''depends_on'' @ '':'' @ json_list json_quote (du_depends_on u)
     @ '','' @ json_quote ''id'' @ '':'' @ json_quote (du_id u)
     @ '','' @ json_quote ''intent'' @ '':'' @ json_quote (du_intent u) @ ''}''"

definition submission_text :: "validated_submission \<Rightarrow> string" where
  "submission_text v = ''{'' @ json_quote ''branch'' @ '':'' @ json_quote (vs_branch v)
     @ '','' @ json_quote ''repo'' @ '':'' @ json_quote (vs_repo v)
     @ '','' @ json_quote ''shape'' @ '':'' @ json_quote (shape_str (vs_shape v))
     @ '','' @ json_quote ''units'' @ '':'' @ json_list unit_text (vs_units v) @ ''}''"

lemma all_or_first_Inr: "all_or_first (map (\<lambda>x. Inr (f x)) xs) = Inr (map f xs)"
  by (induction xs) auto

lemma canonical_strings:
  "d \<le> 31 \<Longrightarrow> canonicalize number_text d (Arr (map Str ss)) = Inr (json_list json_quote ss)"
  by (simp add: canonicalize.simps MAX_CANONICAL_DEPTH_def comp_def all_or_first_Inr json_list_def)

lemma canonical_string: "d \<le> 31 \<Longrightarrow> canonicalize number_text d (Str s) = Inr (json_quote s)"
  by (simp add: canonicalize.simps MAX_CANONICAL_DEPTH_def)

lemma unit_keys_sorted:
  "sort_key fst [(''id'', a), (''intent'', b), (''change_spec'', c), (''acceptance_criteria'', d), (''depends_on'', e)]
   = [(''acceptance_criteria'', d), (''change_spec'', c), (''depends_on'', e), (''id'', a), (''intent'', b)]"
  by (simp add: insort_key.simps)

lemma submission_keys_sorted:
  "sort_key fst [(''repo'', a), (''branch'', b), (''shape'', c), (''units'', d)]
   = [(''branch'', b), (''repo'', a), (''shape'', c), (''units'', d)]"
  by (simp add: insort_key.simps)

lemma canonical_unit: "d \<le> 30 \<Longrightarrow> canonicalize number_text d (normalized_unit u) = Inr (unit_text u)"
  by (subst canonicalize.simps)
     (simp add: normalized_unit_def MAX_CANONICAL_DEPTH_def canonical_string canonical_strings unit_keys_sorted unit_text_def)

lemma canonical_submission: "canonicalize number_text 0 (normalized v) = Inr (submission_text v)"
proof -
  have "canonicalize number_text (Suc 0) (Arr (map normalized_unit us)) = Inr (json_list unit_text us)" for us
    by (subst canonicalize.simps)
       (simp add: MAX_CANONICAL_DEPTH_def comp_def canonical_unit all_or_first_Inr json_list_def)
  then show ?thesis
    by (subst canonicalize.simps)
       (simp add: normalized_def MAX_CANONICAL_DEPTH_def canonical_string submission_keys_sorted submission_text_def)
qed

lemma hash_submission: "hashPayload number_text sha (normalized v) = Inr (sha (submission_text v))"
  by (simp add: hashPayload_def canonical_submission)

text \<open>Equal texts are taken apart from the left, one self-delimiting part after the other.\<close>

lemma self_delimiting_append: "self_delimiting f \<Longrightarrow> f x @ r = f y @ r' \<longleftrightarrow> x = y \<and> r = r'"
  by (auto dest: self_delimitingD)

lemmas take_apart = self_delimiting_append [OF json_quote_self]
  self_delimiting_append [OF json_list_self [OF json_quote_self json_quote_head]]

lemma unit_text_self: "self_delimiting unit_text"
  unfolding self_delimiting_def unit_text_def
  by (simp add: take_apart direct_unit.equality)

lemma unit_text_head: "unit_text u \<noteq> [] \<and> hd (unit_text u) \<noteq> CHR '']''"
  by (simp add: unit_text_def)

lemma shape_str_inj [simp]: "shape_str a = shape_str b \<longleftrightarrow> a = b"
  by (cases a; cases b) (simp_all add: shape_str_def)

lemma submission_text_inj: "submission_text v = submission_text w \<Longrightarrow> v = w"
  unfolding submission_text_def
  by (auto simp: take_apart self_delimiting_append [OF json_list_self [OF unit_text_self unit_text_head]]
      intro!: validated_submission.equality intro: self_delimiting_inj [OF json_list_self [OF unit_text_self unit_text_head]])

section \<open>The scope key\<close>

lemma length_prefixed_self: "self_delimiting length_prefixed"
proof -
  have colon: "CHR '':'' \<notin> set (nat_str n)" for n
    using nat_str_digits [of n] by (auto simp: digit_chars_def)
  have "x = y \<and> r = r'" if eq: "length_prefixed x @ r = length_prefixed y @ r'" for x y r r'
  proof -
    have "nat_str (length x) @ CHR '':'' # (x @ r) = nat_str (length y) @ CHR '':'' # (y @ r')"
      using eq by (simp add: length_prefixed_def)
    then have "length x = length y" "x @ r = y @ r'"
      using append_sep_inject [OF colon colon] by simp_all
    then show ?thesis by simp
  qed
  then show ?thesis unfolding self_delimiting_def by blast
qed

lemma scope_key_inj:
  "idempotencyScopeKey c route k = idempotencyScopeKey c' route' k' \<longleftrightarrow> c = c' \<and> route = route' \<and> k = k'"
  using self_delimiting_append [OF length_prefixed_self, of k "[]" k' "[]"]
  by (simp add: idempotencyScopeKey_def self_delimiting_append [OF length_prefixed_self])

text \<open>
  Neither encoding lets two inputs share a text: the canonical text that is hashed
  determines the submission, and the scope key determines the caller, the route and the
  idempotency key, whatever characters they contain.
\<close>
theorem intake_encodings_injective:
  "(canonicalize number_text 0 (normalized v) = canonicalize number_text' 0 (normalized w) \<longleftrightarrow> v = w)
   \<and> (idempotencyScopeKey c route k = idempotencyScopeKey c' route' k' \<longleftrightarrow> c = c' \<and> route = route' \<and> k = k')"
  using submission_text_inj [of v w] by (auto simp: canonical_submission scope_key_inj)

section \<open>The idempotency store\<close>

text \<open>One call of the boundary, whatever its request and whatever the generator returns.\<close>

definition intake_step ::
  "(rat \<Rightarrow> string) \<Rightarrow> (string \<Rightarrow> string) \<Rightarrow> ('s \<Rightarrow> string \<Rightarrow> intake_record option)
    \<Rightarrow> ('s \<Rightarrow> string \<Rightarrow> intake_record \<Rightarrow> string + 's) \<Rightarrow> 's \<Rightarrow> 's \<Rightarrow> bool" where
  "intake_step number_text sha get put s t \<longleftrightarrow>
     (\<exists>gen caller body key. t = snd (acceptDirectTasks number_text sha get put gen caller body key s))"

locale idempotency_store =
  fixes get :: "'s \<Rightarrow> string \<Rightarrow> intake_record option"
    and put :: "'s \<Rightarrow> string \<Rightarrow> intake_record \<Rightarrow> string + 's"
  assumes put_get: "put s k r = Inr s' \<Longrightarrow> get s' k' = (if k' = k then Some r else get s k')"
begin

text \<open>The only write is of a new acceptance under a scope key that had none.\<close>

lemma accept_writes:
  assumes "acceptDirectTasks number_text sha get put gen caller body key s = (res, s')" "s' \<noteq> s"
  shows "\<exists>k v. key = Some k \<and> trim (js_str caller) \<noteq> [] \<and> isValidIdempotencyKey k
     \<and> validateSubmission body = Inr v \<and> trim (js_str gen) \<noteq> []
     \<and> get s (idempotencyScopeKey (js_str caller) DIRECT_TASK_ROUTE k) = None
     \<and> res = Inr (Accepted (new_acceptance (js_str caller) key (js_str gen) (sha (submission_text v)) v))
     \<and> put s (idempotencyScopeKey (js_str caller) DIRECT_TASK_ROUTE k)
         \<lparr> ir_payload_hash = sha (submission_text v),
           ir_result = new_acceptance (js_str caller) key (js_str gen) (sha (submission_text v)) v \<rparr> = Inr s'"
  using assms
  by (auto simp: acceptDirectTasks_def Let_def hash_submission split: if_splits sum.splits option.splits)

lemma records_kept:
  assumes "intake_step number_text sha get put s t" "get s k = Some r"
  shows "get t k = Some r"
proof (cases "t = s")
  case False
  from assms(1) obtain gen caller body key res where
    "acceptDirectTasks number_text sha get put gen caller body key s = (res, t)"
    unfolding intake_step_def by (metis prod.collapse)
  from accept_writes [OF this False] show ?thesis
    using assms(2) by (auto simp: put_get)
qed (use assms(2) in simp)

lemma records_kept_run:
  "(intake_step number_text sha get put)\<^sup>*\<^sup>* s t \<Longrightarrow> get s k = Some r \<Longrightarrow> get t k = Some r"
  by (induction rule: rtranclp_induct) (auto intro: records_kept)

text \<open>An acceptance under a key is on record afterwards.\<close>

lemma accepted_recorded:
  assumes "acceptDirectTasks number_text sha get put gen caller body (Some key) s = (Inr (Accepted a), s')"
    and "validateSubmission body = Inr v"
  shows "trim (js_str caller) \<noteq> [] \<and> isValidIdempotencyKey key \<and>
    (\<exists>r. get s' (idempotencyScopeKey (js_str caller) DIRECT_TASK_ROUTE key) = Some r
       \<and> ir_payload_hash r = sha (submission_text v) \<and> (ir_result r) \<lparr> da_replayed := True \<rparr> = a \<lparr> da_replayed := True \<rparr>)"
  using assms
  by (auto simp: acceptDirectTasks_def Let_def hash_submission put_get split: if_splits sum.splits option.splits)

text \<open>With a record, the answer is a replay or a mismatch, and nothing is written.\<close>

lemma answered_from_record:
  assumes "get s (idempotencyScopeKey (js_str caller) DIRECT_TASK_ROUTE key) = Some r"
    and "trim (js_str caller) \<noteq> []" "isValidIdempotencyKey key" "validateSubmission body = Inr v"
  shows "acceptDirectTasks number_text sha get put gen caller body (Some key) s =
    (if ir_payload_hash r = sha (submission_text v) then (Inr (Accepted ((ir_result r) \<lparr> da_replayed := True \<rparr>)), s)
     else (Inr (Rejected [viol ''IDEMPOTENCY_KEY_PAYLOAD_MISMATCH'' ''Idempotency-Key''
             ''this idempotency key was already used with a different payload'' None]), s))"
  using assms by (simp add: acceptDirectTasks_def Let_def hash_submission)

end

interpretation memory: idempotency_store memory_get memory_put
  by unfold_locales (auto simp: memory_get_def memory_put_def update_conv' split: if_splits)

text \<open>
  A key is used once: after a request has been accepted under a caller's key, in
  every later state of the store the same caller's request under that key is answered
  from the record, without a new submission: the original result, marked as replayed,
  for the same submission, and a mismatch for any other (as long as the digest does not
  collide on the two texts). Another caller's requests never meet the record, because
  the scope key names the caller.
\<close>
theorem intake_exactly_once:
  assumes "acceptDirectTasks number_text sha memory_get memory_put gen caller body (Some key) s = (Inr (Accepted a), s1)"
    and "validateSubmission body = Inr v"
    and "(intake_step number_text sha memory_get memory_put)\<^sup>*\<^sup>* s1 s2"
    and "validateSubmission body' = Inr v'"
    and "sha (submission_text v) = sha (submission_text v') \<Longrightarrow> submission_text v = submission_text v'"
  shows "acceptDirectTasks number_text sha memory_get memory_put gen' caller body' (Some key) s2 =
    (Inr (if v' = v then Accepted (a \<lparr> da_replayed := True \<rparr>)
          else Rejected [viol ''IDEMPOTENCY_KEY_PAYLOAD_MISMATCH'' ''Idempotency-Key''
             ''this idempotency key was already used with a different payload'' None]), s2)"
proof -
  from memory.accepted_recorded [OF assms(1,2)] obtain r where
    r: "memory_get s1 (idempotencyScopeKey (js_str caller) DIRECT_TASK_ROUTE key) = Some r"
      "ir_payload_hash r = sha (submission_text v)" "(ir_result r) \<lparr> da_replayed := True \<rparr> = a \<lparr> da_replayed := True \<rparr>"
      "trim (js_str caller) \<noteq> []" "isValidIdempotencyKey key" by blast
  have "v' = v" if "sha (submission_text v) = sha (submission_text v')"
    using submission_text_inj [OF assms(5) [OF that]] by simp
  then have "ir_payload_hash r = sha (submission_text v') \<longleftrightarrow> v' = v" using r(2) by auto
  with memory.answered_from_record [OF memory.records_kept_run [OF assms(3) r(1)] r(4,5) assms(4)] r(3)
  show ?thesis by simp
qed

definition demo_submission :: validated_submission where
  "demo_submission = \<lparr> vs_repo = ''o/r'', vs_branch = ''main'',
     vs_units = [\<lparr> du_id = ''a'', du_intent = ''i'', du_change_spec = ''c'', du_acceptance_criteria = [''x''], du_depends_on = [] \<rparr>],
     vs_shape = Single_unit \<rparr>"

definition demo_other :: validated_submission where
  "demo_other = demo_submission \<lparr> vs_branch := ''dev'' \<rparr>"

definition demo_memory :: memory_store where
  "demo_memory = \<lparr> ms_records = [], ms_limit = 1 \<rparr>"

definition demo_accept :: "js \<Rightarrow> memory_store \<Rightarrow> (string + intake_result) \<times> memory_store" where
  "demo_accept body s =
     acceptDirectTasks (\<lambda>r. ''0'') (\<lambda>t. t) memory_get memory_put (Str ''s1'') (Str ''me'') body (Some ''k'') s"

lemma demo_valid:
  "validateSubmission (submission_json demo_submission) = Inr demo_submission"
  "validateSubmission (submission_json demo_other) = Inr demo_other"
  by code_simp+

lemma demo_accepted:
  "\<exists>a s1. demo_accept (submission_json demo_submission) demo_memory = (Inr (Accepted a), s1)"
proof -
  let ?r = "demo_accept (submission_json demo_submission) demo_memory"
  have "(case fst ?r of Inr (Accepted a) \<Rightarrow> True | _ \<Rightarrow> False)" by code_simp
  then show ?thesis by (cases ?r) (auto split: sum.splits intake_result.splits)
qed

theorem intake_exactly_once_witness:
  "\<exists>a s1. demo_accept (submission_json demo_submission) demo_memory = (Inr (Accepted a), s1)
     \<and> demo_accept (submission_json demo_submission) s1 = (Inr (Accepted (a \<lparr> da_replayed := True \<rparr>)), s1)
     \<and> fst (demo_accept (submission_json demo_other) s1) = Inr (Rejected [viol ''IDEMPOTENCY_KEY_PAYLOAD_MISMATCH'' ''Idempotency-Key''
             ''this idempotency key was already used with a different payload'' None])"
proof -
  from demo_accepted obtain a s1 where
    a: "demo_accept (submission_json demo_submission) demo_memory = (Inr (Accepted a), s1)" by blast
  note once = intake_exactly_once [OF a [unfolded demo_accept_def] demo_valid(1) rtranclp.rtrancl_refl]
  have "demo_other \<noteq> demo_submission" by (simp add: demo_other_def demo_submission_def)
  with once [OF demo_valid(1), of "Str ''s1''"] once [OF demo_valid(2), of "Str ''s1''"] a show ?thesis
    by (intro exI [of _ a] exI [of _ s1]) (simp add: demo_accept_def)
qed

section \<open>What an acceptance says\<close>

definition recorded :: "(string \<Rightarrow> string) \<Rightarrow> string \<times> intake_record \<Rightarrow> bool" where
  "recorded sha p \<longleftrightarrow> (\<exists>caller key sid v.
     fst p = idempotencyScopeKey caller DIRECT_TASK_ROUTE key \<and> trim caller \<noteq> [] \<and> isValidIdempotencyKey key
     \<and> submission_ok v \<and> trim sid \<noteq> []
     \<and> snd p = \<lparr> ir_payload_hash = sha (submission_text v),
                 ir_result = new_acceptance caller (Some key) sid (sha (submission_text v)) v \<rparr>)"

definition memory_inv :: "(string \<Rightarrow> string) \<Rightarrow> nat \<Rightarrow> memory_store \<Rightarrow> bool" where
  "memory_inv sha n s \<longleftrightarrow> ms_limit s = n \<and> length (ms_records s) \<le> n \<and> list_all (recorded sha) (ms_records s)"

lemma memory_put_inv:
  assumes "memory_inv sha n s" "memory_put s k r = Inr t" "recorded sha (k, r)"
  shows "memory_inv sha n t"
proof -
  let ?rs = "AList.update k r (ms_records s)"
  have sub: "set (AList.update k r al) \<subseteq> insert (k, r) (set al)" for al by (induction al) auto
  have len: "length (AList.update k r al) = (if k \<in> fst ` set al then length al else Suc (length al))" for al
    by (induction al) (auto simp: image_iff)
  have t: "t = s \<lparr> ms_records := ?rs \<rparr>" "k \<in> fst ` set (ms_records s) \<or> length (ms_records s) < ms_limit s"
    using assms(2) by (simp_all add: memory_put_def split: if_splits) linarith
  have "list_all (recorded sha) ?rs"
    using sub [of "ms_records s"] assms(1,3) unfolding memory_inv_def list_all_iff by blast
  moreover have "length ?rs \<le> n" using t(2) len [of "ms_records s"] assms(1) by (auto simp: memory_inv_def)
  ultimately show ?thesis using t(1) assms(1) by (simp add: memory_inv_def)
qed

lemma memory_accept_inv:
  assumes "memory_inv sha n s" "acceptDirectTasks number_text sha memory_get memory_put gen caller body key s = (res, t)"
  shows "memory_inv sha n t"
proof (cases "t = s")
  case False
  from memory.accept_writes [OF assms(2) False] obtain k v where
    k: "trim (js_str caller) \<noteq> []" "isValidIdempotencyKey k" "validateSubmission body = Inr v" "trim (js_str gen) \<noteq> []" "key = Some k"
      "memory_put s (idempotencyScopeKey (js_str caller) DIRECT_TASK_ROUTE k)
         \<lparr> ir_payload_hash = sha (submission_text v),
           ir_result = new_acceptance (js_str caller) key (js_str gen) (sha (submission_text v)) v \<rparr> = Inr t" by blast
  have "submission_ok v" by (rule validateSubmission_sound [OF k(3)])
  with k(1,2,4,5) show ?thesis
    by (intro memory_put_inv [OF assms(1) k(6)])
       (unfold recorded_def, intro exI [of _ "js_str caller"] exI [of _ k] exI [of _ "js_str gen"] exI [of _ v], simp)
qed (use assms(1) in simp)

definition intake_start :: "nat \<Rightarrow> memory_store" where
  "intake_start n = \<lparr> ms_records = [], ms_limit = n \<rparr>"

interpretation intake: invariant_system "intake_step number_text sha memory_get memory_put" "intake_start n" "memory_inv sha n"
proof unfold_locales
  show "memory_inv sha n (intake_start n)" by (simp add: memory_inv_def intake_start_def)
  show "memory_inv sha n t" if "memory_inv sha n s" "intake_step number_text sha memory_get memory_put s t" for s t
    using that by (auto simp: intake_step_def intro: memory_accept_inv [OF that(1) prod.collapse [symmetric]])
qed

lemma scope_record:
  assumes "memory_inv sha n s" "memory_get s (idempotencyScopeKey caller DIRECT_TASK_ROUTE key) = Some r"
  shows "\<exists>w sid. submission_ok w \<and> ir_payload_hash r = sha (submission_text w)
     \<and> ir_result r = new_acceptance caller (Some key) sid (sha (submission_text w)) w"
proof -
  have "(idempotencyScopeKey caller DIRECT_TASK_ROUTE key, r) \<in> set (ms_records s)"
    using assms(2) by (auto simp: memory_get_def dest: map_of_SomeD)
  then have "recorded sha (idempotencyScopeKey caller DIRECT_TASK_ROUTE key, r)"
    using assms(1) by (simp add: memory_inv_def list_all_iff)
  then obtain sid w where "submission_ok w"
      "r = \<lparr> ir_payload_hash = sha (submission_text w), ir_result = new_acceptance caller (Some key) sid (sha (submission_text w)) w \<rparr>"
    unfolding recorded_def fst_conv snd_conv scope_key_inj by blast
  then show ?thesis by (intro exI [of _ w] exI [of _ sid]) simp
qed

text \<open>Every accepted submission is the validated one, or the one on record under the same digest.\<close>

lemma accepted_is_submitted:
  assumes inv: "memory_inv sha n s"
    and acc: "acceptDirectTasks number_text sha memory_get memory_put gen caller body key s = (Inr (Accepted a), t)"
  shows "\<exists>v w. validateSubmission body = Inr v \<and> submission_ok w \<and> sha (submission_text w) = sha (submission_text v)
     \<and> a = (new_acceptance (js_str caller) key (da_submission_id a) (sha (submission_text v)) w) \<lparr> da_replayed := da_replayed a \<rparr>
     \<and> (if da_replayed a then key \<noteq> None \<and> t = s else w = v)"
proof -
  obtain v where v: "validateSubmission body = Inr v" "trim (js_str caller) \<noteq> []"
      "case key of None \<Rightarrow> True | Some k \<Rightarrow> isValidIdempotencyKey k"
    using acc by (auto simp: acceptDirectTasks_def split: if_splits sum.splits)
  show ?thesis
  proof (cases "Option.bind (map_option (idempotencyScopeKey (js_str caller) DIRECT_TASK_ROUTE) key) (memory_get s)")
    case None
    have "a = new_acceptance (js_str caller) key (js_str gen) (sha (submission_text v)) v"
      using acc v None by (auto simp: acceptDirectTasks_def Let_def hash_submission split: if_splits sum.splits option.splits)
    then show ?thesis using v(1) validateSubmission_sound [OF v(1)]
      by (intro exI [of _ v]) (simp add: new_acceptance_def)
  next
    case (Some r)
    then obtain k where k: "key = Some k" "memory_get s (idempotencyScopeKey (js_str caller) DIRECT_TASK_ROUTE k) = Some r"
      by (cases key) auto
    then have valid: "isValidIdempotencyKey k" using v(3) by simp
    have a: "ir_payload_hash r = sha (submission_text v)" "a = (ir_result r) \<lparr> da_replayed := True \<rparr>" "t = s"
      using acc memory.answered_from_record [OF k(2) v(2) valid v(1)] k(1) by (auto split: if_splits)
    from scope_record [OF inv k(2)] a v(1) k(1) show ?thesis
      by (auto simp: new_acceptance_def)
  qed
qed

text \<open>
  The HTTP boundary, from every state its own calls can reach: a refusal has the
  status of its cause and records nothing; 202 answers a new submission with exactly the
  validated units under the authenticated caller, 200 a replay of the acceptance on
  record under the same digest, and both say that Gate 1 and decomposition were skipped
  and Gate 2 is required. The store never holds more records than its limit.
\<close>
theorem http_intake_exact:
  assumes "(intake_step number_text sha memory_get memory_put)\<^sup>*\<^sup>* (intake_start n) s"
    and "handleDirectTaskRequest number_text sha memory_get memory_put gen authenticate r s = (Inr (status, res), t)"
  shows "length (ms_records t) \<le> n \<and> (case res of
      Rejected vs \<Rightarrow> t = s \<and> status = (if hr_path r \<noteq> ''/tasks'' then 404 else if map upper_char (hr_method r) \<noteq> ''POST'' then 405
                                else if authenticate (hr_headers r) = None then 401 else statusForViolations vs)
    | Accepted a \<Rightarrow> status = (if da_replayed a then 200 else 202) \<and> hr_path r = ''/tasks''
        \<and> \<not> da_gate1_required a \<and> da_gate2_required a \<and> \<not> da_decomposition_invoked a
        \<and> (\<exists>caller v w. authenticate (hr_headers r) = Some caller \<and> validateSubmission (hr_body r) = Inr v
            \<and> sha (submission_text w) = sha (submission_text v) \<and> da_payload_hash a = sha (submission_text v)
            \<and> map (\<lambda>u. (au_id u, au_intent u, au_change_spec u, au_acceptance_criteria u, au_depends_on u)) (da_units a)
              = map (\<lambda>u. (du_id u, du_intent u, du_change_spec u, du_acceptance_criteria u, du_depends_on u)) (vs_units w)
            \<and> list_all (\<lambda>u. cp_caller_id (au_acceptance_criteria_provenance u) = js_str caller
                \<and> cp_unit_id (au_acceptance_criteria_provenance u) = au_id u
                \<and> cp_submission_id (au_acceptance_criteria_provenance u) = da_submission_id a) (da_units a)
            \<and> (if da_replayed a then t = s else w = v)))"
proof -
  have inv: "memory_inv sha n s" by (rule intake.inv_reachable [OF assms(1)])
  consider (refused) vs where "res = Rejected vs" "t = s" "hr_path r \<noteq> DIRECT_TASK_PATH \<or> map upper_char (hr_method r) \<noteq> ''POST''
        \<or> authenticate (hr_headers r) = None"
    | (called) caller where "hr_path r = DIRECT_TASK_PATH" "map upper_char (hr_method r) = ''POST''" "authenticate (hr_headers r) = Some caller"
    using assms(2) by (auto simp: handleDirectTaskRequest_def split: if_splits option.splits)
  then show ?thesis
  proof cases
    case refused
    then show ?thesis using assms(2) inv
      by (auto simp: handleDirectTaskRequest_def DIRECT_TASK_PATH_def memory_inv_def split: if_splits option.splits)
  next
    case called
    obtain ans t' where acc: "acceptDirectTasks number_text sha memory_get memory_put gen caller (hr_body r)
        (headerValue (hr_headers r) ''idempotency-key'') s = (Inr ans, t')"
      "res = ans" "t = t'" "status = (case ans of Rejected vs \<Rightarrow> statusForViolations vs | Accepted a \<Rightarrow> if da_replayed a then 200 else 202)"
      using assms(2) called by (auto simp: handleDirectTaskRequest_def split: prod.splits sum.splits intake_result.splits)
    have lim: "length (ms_records t) \<le> n" using memory_accept_inv [OF inv acc(1)] acc(3) by (simp add: memory_inv_def)
    show ?thesis
    proof (cases ans)
      case (Rejected vs)
      then have "t' = s" using memory.accept_writes [OF acc(1)] by blast
      then show ?thesis using Rejected acc called lim by (simp add: DIRECT_TASK_PATH_def)
    next
      case (Accepted a)
      from accepted_is_submitted [OF inv acc(1) [unfolded Accepted]] obtain v w where
        v: "validateSubmission (hr_body r) = Inr v" "sha (submission_text w) = sha (submission_text v)"
          "a = (new_acceptance (js_str caller) (headerValue (hr_headers r) ''idempotency-key'') (da_submission_id a) (sha (submission_text v)) w)
            \<lparr> da_replayed := da_replayed a \<rparr>" "if da_replayed a then t' = s else w = v" by (auto split: if_splits)
      have f: "\<not> da_gate1_required a" "da_gate2_required a" "\<not> da_decomposition_invoked a" "da_payload_hash a = sha (submission_text v)"
          "da_units a = da_units (new_acceptance (js_str caller) (headerValue (hr_headers r) ''idempotency-key'') (da_submission_id a) (sha (submission_text v)) w)"
        by (subst v(3), simp add: new_acceptance_def)+
      show ?thesis
        using Accepted acc(2-4) called lim v(1,2,4) f
        by (auto simp: DIRECT_TASK_PATH_def new_acceptance_def acceptUnit_def comp_def list_all_iff intro!: exI [of _ w])
    qed
  qed
qed

definition demo_request :: http_request where
  "demo_request = \<lparr> hr_method = ''post'', hr_path = ''/tasks'', hr_headers = [(''Idempotency-Key'', Some ''k'')],
     hr_body = submission_json demo_submission \<rparr>"

theorem http_intake_exact_witness:
  "\<exists>a t. handleDirectTaskRequest (\<lambda>r. ''0'') (\<lambda>x. x) memory_get memory_put (Str ''s1'') (\<lambda>h. Some (Str ''me'')) demo_request (intake_start 1)
       = (Inr (202, Accepted a), t) \<and> da_gate2_required a \<and> length (ms_records t) \<le> 1"
proof -
  let ?r = "handleDirectTaskRequest (\<lambda>r. ''0'') (\<lambda>x. x) memory_get memory_put (Str ''s1'') (\<lambda>h. Some (Str ''me'')) demo_request (intake_start 1)"
  have "(case fst ?r of Inr (st, Accepted a) \<Rightarrow> st = 202 | _ \<Rightarrow> False)" by code_simp
  then obtain a t where r: "?r = (Inr (202, Accepted a), t)"
    by (cases ?r; cases "fst ?r"; cases "snd (projr (fst ?r))") (auto split: sum.splits)
  from http_intake_exact [OF rtranclp.rtrancl_refl r] r show ?thesis by auto
qed

end
