(* ===== verification/Index_Contracts.thy ===== *)
theory Index_Contracts
  imports Js_Values
begin

text \<open>
  Contracts of the codebase index (\<^verbatim>\<open>codebase-knowledge/contracts.ts\<close>): the
  sensitive-path policy with its glob matcher, the identity of an index revision, and the
  lexical path normalisation of \<^verbatim>\<open>target-repository.ts\<close>. A validator returns the
  validated value or the message it throws. \<open>date_parse\<close> is \<^verbatim>\<open>Date.parse\<close>, whose
  accepted formats are the engine's.
\<close>

section \<open>Searching strings\<close>

text \<open>\<^verbatim>\<open>value.indexOf(part, pos)\<close>: the first occurrence at or after the position.\<close>

definition index_of_from :: "string \<Rightarrow> string \<Rightarrow> nat \<Rightarrow> nat option" where
  "index_of_from s part pos = find (\<lambda>i. prefix part (drop i s)) [pos..<Suc (length s)]"

definition split_char :: "char \<Rightarrow> string \<Rightarrow> string list" where
  "split_char c s = split_on (\<lambda>x. x = c) s"

section \<open>Sensitive paths\<close>

record sensitive_path_policy =
  sp_version :: string
  sp_patterns :: "string list"

definition SENSITIVE_PATH_POLICY_VERSION :: string where "SENSITIVE_PATH_POLICY_VERSION = ''1''"
definition INDEX_SCHEMA_VERSION :: string where "INDEX_SCHEMA_VERSION = ''1''"
definition ALGORITHM_VERSION :: string where "ALGORITHM_VERSION = ''1''"

definition DEFAULT_SENSITIVE_PATH_POLICY :: sensitive_path_policy where
  "DEFAULT_SENSITIVE_PATH_POLICY = \<lparr> sp_version = SENSITIVE_PATH_POLICY_VERSION,
     sp_patterns = [''.env'', ''.env.*'', ''*credentials*'', ''*secret*'', ''*private*'', ''*key*'', ''*token*'',
       ''*.pem'', ''*.key'', ''*.p12'', ''*.pfx'', ''.ssh/*'', ''.agent-pool/*''] \<rparr>"

text \<open>The loop over the parts of a split pattern: the position after the last part, or no match.\<close>

fun glob_parts :: "string \<Rightarrow> nat \<Rightarrow> nat \<Rightarrow> string list \<Rightarrow> nat option" where
  "glob_parts value i pos [] = Some pos"
| "glob_parts value i pos (part # parts) =
     (if part = [] then glob_parts value (Suc i) pos parts
      else case index_of_from value part pos of
        None \<Rightarrow> None
      | Some idx \<Rightarrow> if i = 0 \<and> idx \<noteq> 0 then None else glob_parts value (Suc i) (idx + length part) parts)"

definition globMatch :: "string \<Rightarrow> string \<Rightarrow> bool" where
  "globMatch value pattern =
     (if CHR ''*'' \<notin> set pattern then value = pattern
      else let parts = split_char (CHR ''*'') pattern in
        case glob_parts value 0 0 parts of
          None \<Rightarrow> False
        | Some pos \<Rightarrow> \<not> (last parts \<noteq> [] \<and> pos \<noteq> length value))"

fun matchParts :: "string list \<Rightarrow> string list \<Rightarrow> bool" where
  "matchParts [] pathParts = (pathParts = [])"
| "matchParts (p # ps) pathParts =
     (if p = ''*'' then list_ex (\<lambda>i. matchParts ps (drop i pathParts)) [0..<Suc (length pathParts)]
      else case pathParts of [] \<Rightarrow> False | s # ss \<Rightarrow> globMatch s p \<and> matchParts ps ss)"

definition base_of :: "string \<Rightarrow> string" where
  "base_of path = (let b = last (split_char (CHR ''/'') path) in if b = [] then path else b)"

definition matchSensitivePattern :: "string \<Rightarrow> string \<Rightarrow> bool" where
  "matchSensitivePattern path pattern =
     (if CHR ''/'' \<in> set pattern then matchParts (split_char (CHR ''/'') pattern) (split_char (CHR ''/'') path)
      else globMatch (base_of path) pattern)"

definition forward_slashes :: "string \<Rightarrow> string" where
  "forward_slashes = map (\<lambda>c. if c = CHR 0x5C then CHR ''/'' else c)"

definition isSensitivePath :: "string \<Rightarrow> sensitive_path_policy \<Rightarrow> bool" where
  "isSensitivePath relativePath policy =
     (relativePath \<noteq> [] \<and> list_ex (matchSensitivePattern (forward_slashes relativePath)) (sp_patterns policy))"

section \<open>Relative paths\<close>

text \<open>
  \<^verbatim>\<open>path.normalize\<close> of POSIX: empty and dot segments go, a dot-dot segment takes the one
  before it, and at the front of a relative path it stays.
\<close>

fun norm_segments :: "bool \<Rightarrow> string list \<Rightarrow> string list \<Rightarrow> string list" where
  "norm_segments absolute done [] = rev done"
| "norm_segments absolute done (s # ss) =
     (if s = [] \<or> s = ''.'' then norm_segments absolute done ss
      else if s = ''..'' then
        (case done of
           d # ds \<Rightarrow> if d = ''..'' then norm_segments absolute (s # done) ss else norm_segments absolute ds ss
         | [] \<Rightarrow> if absolute then norm_segments absolute [] ss else norm_segments absolute [s] ss)
      else norm_segments absolute (s # done) ss)"

definition path_normalize :: "string \<Rightarrow> string" where
  "path_normalize p =
     (if p = [] then ''.''
      else let absolute = (hd p = CHR ''/''); trailing = (last p = CHR ''/'');
               body = join_with ''/'' (norm_segments absolute [] (split_char (CHR ''/'') p)) in
        if body = [] then (if absolute then ''/'' else if trailing then ''./'' else ''.'')
        else (if absolute then ''/'' else []) @ body @ (if trailing then ''/'' else []))"

fun collapse_slashes :: "string \<Rightarrow> string" where
  "collapse_slashes (a # b # cs) =
     (if a = CHR ''/'' \<and> b = CHR ''/'' then collapse_slashes (b # cs) else a # collapse_slashes (b # cs))"
| "collapse_slashes cs = cs"

definition drop_dot_slash :: "string \<Rightarrow> string" where
  "drop_dot_slash s = (if prefix ''./'' s then drop 2 s else s)"

definition normalizeRelativePath :: "js \<Rightarrow> string + string" where
  "normalizeRelativePath raw =
     (case raw of
        Str p \<Rightarrow>
          if p = [] then Inl ''relative path must be a non-empty string''
          else if CHR 0x00 \<in> set p then Inl ''relative path contains NUL''
          else let cleaned = collapse_slashes (drop_dot_slash (path_normalize p)) in
            if prefix ''/'' cleaned then Inl ''relative path must not be absolute''
            else if prefix ''..'' cleaned \<or> sublist ''/../'' cleaned then Inl ''relative path outside target root''
            else Inr cleaned
      | _ \<Rightarrow> Inl ''relative path must be a non-empty string'')"

definition isOutsideResolvedRoot :: "string \<Rightarrow> string \<Rightarrow> string + bool" where
  "isOutsideResolvedRoot rootReal candidateReal =
     (if \<not> prefix ''/'' rootReal then Inl ''root must be absolute''
      else if \<not> prefix ''/'' candidateReal then Inl ''candidate must be absolute''
      else if candidateReal = rootReal then Inr False
      else Inr (\<not> prefix (rootReal @ ''/'') candidateReal))"

section \<open>Index revisions\<close>

record repo_identity =
  ri_owner :: string
  ri_name :: string

record index_revision =
  ix_repository :: repo_identity
  ix_head :: string
  ix_graphifyVersion :: string
  ix_indexSchemaVersion :: string
  ix_sensitivePathPolicyVersion :: string
  ix_manifestDigest :: string
  ix_indexRevision :: string
  ix_createdAt :: string

definition visible_string :: "js \<Rightarrow> bool" where
  "visible_string v = (case v of Str s \<Rightarrow> trim s \<noteq> [] | _ \<Rightarrow> False)"

text \<open>\<^verbatim>\<open>!value || typeof value !== "object"\<close>: arrays and dates pass this test.\<close>

definition objectlike :: "js \<Rightarrow> bool" where
  "objectlike v = (is_object v \<or> is_array v)"

definition full_sha :: "js \<Rightarrow> bool" where
  "full_sha v = (case v of Str s \<Rightarrow> length s = 40 \<and> list_all (\<lambda>c. c \<in> set ''0123456789abcdef'') s | _ \<Rightarrow> False)"

definition assertRepoIdentity :: "js \<Rightarrow> string + repo_identity" where
  "assertRepoIdentity v =
     (case first_error
        [(\<not> objectlike v, ''repository identity must be an object''),
         (\<not> visible_string (fld v ''owner''), ''repository owner must be a non-empty string''),
         (\<not> visible_string (fld v ''name''), ''repository name must be a non-empty string'')] of
        Some e \<Rightarrow> Inl e
      | None \<Rightarrow> Inr \<lparr> ri_owner = js_str (fld v ''owner''), ri_name = js_str (fld v ''name'') \<rparr>)"

definition revision_errors :: "(string \<Rightarrow> js_date) \<Rightarrow> js \<Rightarrow> string option" where
  "revision_errors date_parse v = first_error
     [(\<not> full_sha (fld v ''head''), ''index revision head must be a full 40-character SHA''),
      (\<not> visible_string (fld v ''graphifyVersion''), ''graphify version must be a non-empty string''),
      (\<not> visible_string (fld v ''indexSchemaVersion''), ''index schema version must be a non-empty string''),
      (\<not> visible_string (fld v ''sensitivePathPolicyVersion''), ''sensitive path policy version must be a non-empty string''),
      (\<not> (case fld v ''manifestDigest'' of Str s \<Rightarrow> prefix ''sha256:'' s | _ \<Rightarrow> False), ''manifest digest must be a sha256-prefixed string''),
      (\<not> visible_string (fld v ''indexRevision''), ''index revision id must be a non-empty string''),
      (\<not> (case fld v ''createdAt'' of Str s \<Rightarrow> date_parse s \<noteq> None | _ \<Rightarrow> False), ''createdAt must be an ISO timestamp'')]"

definition assertIndexRevision :: "(string \<Rightarrow> js_date) \<Rightarrow> js \<Rightarrow> string + index_revision" where
  "assertIndexRevision date_parse v =
     (if \<not> objectlike v then Inl ''index revision must be an object''
      else case assertRepoIdentity (fld v ''repository'') of
        Inl e \<Rightarrow> Inl e
      | Inr repository \<Rightarrow>
          (case revision_errors date_parse v of
             Some e \<Rightarrow> Inl e
           | None \<Rightarrow> Inr \<lparr> ix_repository = repository, ix_head = js_str (fld v ''head''),
               ix_graphifyVersion = js_str (fld v ''graphifyVersion''), ix_indexSchemaVersion = js_str (fld v ''indexSchemaVersion''),
               ix_sensitivePathPolicyVersion = js_str (fld v ''sensitivePathPolicyVersion''),
               ix_manifestDigest = js_str (fld v ''manifestDigest''), ix_indexRevision = js_str (fld v ''indexRevision''),
               ix_createdAt = js_str (fld v ''createdAt'') \<rparr>))"

text \<open>\<open>base64url\<close> encodes the payload, \<open>created\<close> is the clock's ISO time.\<close>

definition makeIndexRevision ::
  "(string \<Rightarrow> string) \<Rightarrow> string \<Rightarrow> repo_identity \<Rightarrow> string \<Rightarrow> string \<Rightarrow> string \<Rightarrow> string \<Rightarrow> sensitive_path_policy \<Rightarrow> index_revision" where
  "makeIndexRevision base64url created repository head graphifyVersion indexSchemaVersion manifestDigest policy =
     \<lparr> ix_repository = repository, ix_head = head, ix_graphifyVersion = graphifyVersion, ix_indexSchemaVersion = indexSchemaVersion,
       ix_sensitivePathPolicyVersion = sp_version policy, ix_manifestDigest = manifestDigest,
       ix_indexRevision = base64url (JSON_stringify (JArr (map JStr
         [ri_owner repository, ri_name repository, head, graphifyVersion, indexSchemaVersion, sp_version policy, manifestDigest]))),
       ix_createdAt = created \<rparr>"

definition cacheKey :: "index_revision \<Rightarrow> string" where
  "cacheKey r = join_with '':'' [ri_owner (ix_repository r), ri_name (ix_repository r), ix_head r, ix_graphifyVersion r,
     ix_indexSchemaVersion r, ix_sensitivePathPolicyVersion r, ix_manifestDigest r]"

section \<open>Manifests, graphs and cache records\<close>

record manifest_entry =
  me_relativePath :: string
  me_mode :: int
  me_size :: int
  me_digest :: string

record source_manifest =
  sm_repository :: repo_identity
  sm_head :: string
  sm_entries :: "manifest_entry list"
  sm_digest :: string

record graphify_graph =
  gg_nodes :: "js list"
  gg_links :: "js list"

definition assertGraphifyGraph :: "js \<Rightarrow> string + graphify_graph" where
  "assertGraphifyGraph v =
     (case first_error
        [(\<not> objectlike v, ''graph must be an object''),
         (\<not> is_array (fld v ''nodes''), ''graph.nodes must be an array''),
         (\<not> is_array (fld v ''links''), ''graph.links must be an array'')] of
        Some e \<Rightarrow> Inl e
      | None \<Rightarrow> Inr \<lparr> gg_nodes = items (fld v ''nodes''), gg_links = items (fld v ''links'') \<rparr>)"

text \<open>\<open>as_manifest\<close> is the unchecked cast of the record's manifest.\<close>

record cache_record =
  cr_key :: string
  cr_revision :: index_revision
  cr_manifest :: source_manifest
  cr_graphPath :: string
  cr_createdAt :: js_num
  cr_digest :: string

definition assertCacheRecord :: "(string \<Rightarrow> js_date) \<Rightarrow> (js \<Rightarrow> source_manifest) \<Rightarrow> js \<Rightarrow> string + cache_record" where
  "assertCacheRecord date_parse as_manifest v =
     (if \<not> objectlike v then Inl ''cache record must be an object''
      else if \<not> visible_string (fld v ''key'') then Inl ''cache record key is required''
      else case assertIndexRevision date_parse (fld v ''revision'') of
        Inl e \<Rightarrow> Inl e
      | Inr revision \<Rightarrow>
          (case first_error
             [(\<not> objectlike (fld v ''manifest''), ''cache record manifest is required''),
              (js_opt_str (fld v ''graphPath'') = None, ''cache record graphPath is required''),
              (\<not> (case fld v ''createdAt'' of Num _ \<Rightarrow> True | _ \<Rightarrow> False), ''cache record createdAt is required''),
              (fld (fld v ''integrity'') ''algorithm'' \<noteq> Str ''sha256'' \<or> js_opt_str (fld (fld v ''integrity'') ''digest'') = None,
               ''cache record integrity must be sha256 digest'')] of
             Some e \<Rightarrow> Inl e
           | None \<Rightarrow> Inr \<lparr> cr_key = js_str (fld v ''key''), cr_revision = revision, cr_manifest = as_manifest (fld v ''manifest''),
               cr_graphPath = js_str (fld v ''graphPath''), cr_createdAt = js_number (fld v ''createdAt''),
               cr_digest = js_str (fld (fld v ''integrity'') ''digest'') \<rparr>))"

end
