(* ===== verification/Graph_Index.thy ===== *)
theory Graph_Index
  imports Index_Contracts "HOL-Library.AList"
begin

text \<open>
  The code graph: its validation against the source manifest and breadth retrieval
  (\<^verbatim>\<open>codebase-knowledge/breadth-retrieval.ts\<close>), the predicted touch set
  (\<^verbatim>\<open>predicted-touch.ts\<close>), the choice of the files to index
  (\<^verbatim>\<open>scratch-projection.ts\<close>) and the record checks and eviction of the index cache
  (\<^verbatim>\<open>controller-index-cache.ts\<close>). The raw graph is a JSON value; files, the clock and
  SHA-256 are arguments.
\<close>

section \<open>Validation against the manifest\<close>

datatype graph_error =
    Not_an_object
  | Bad_node_id
  | Duplicate_node_id string
  | Missing_source_file string
  | Invalid_source_file string
  | Sensitive_source_file string string
  | Source_not_in_manifest string string
  | Bad_link_source
  | Bad_link_target
  | Unknown_link_source string
  | Unknown_link_target string
  | Index_not_found
  | Bad_graph string
  | No_proposed_units
  | Not_searchable

definition validateSourcePath :: "string \<Rightarrow> js \<Rightarrow> source_manifest \<Rightarrow> graph_error + string" where
  "validateSourcePath nodeId sourceFile manifest =
     (if sourceFile = Undefined \<or> sourceFile = Str [] then Inl (Missing_source_file nodeId)
      else case normalizeRelativePath sourceFile of
        Inl _ \<Rightarrow> Inl (Invalid_source_file nodeId)
      | Inr relative \<Rightarrow>
          if isSensitivePath relative DEFAULT_SENSITIVE_PATH_POLICY then Inl (Sensitive_source_file nodeId relative)
          else if relative \<notin> me_relativePath ` set (sm_entries manifest) then Inl (Source_not_in_manifest nodeId relative)
          else Inr relative)"

definition id_text :: "js \<Rightarrow> bool" where
  "id_text v = (case v of Str s \<Rightarrow> s \<noteq> [] | _ \<Rightarrow> False)"

text \<open>Reading a property of null or undefined throws before any check.\<close>

fun check_graph_nodes :: "source_manifest \<Rightarrow> string list \<Rightarrow> js list \<Rightarrow> graph_error option" where
  "check_graph_nodes manifest seen [] = None"
| "check_graph_nodes manifest seen (n # ns) =
     (if n = Null \<or> n = Undefined then Some Not_an_object
      else if \<not> id_text (fld n ''id'') then Some Bad_node_id
      else if js_str (fld n ''id'') \<in> set seen then Some (Duplicate_node_id (js_str (fld n ''id'')))
      else case validateSourcePath (js_str (fld n ''id'')) (fld n ''source_file'') manifest of
        Inl e \<Rightarrow> Some e
      | Inr _ \<Rightarrow> check_graph_nodes manifest (js_str (fld n ''id'') # seen) ns)"

definition check_graph_link :: "string list \<Rightarrow> js \<Rightarrow> graph_error option" where
  "check_graph_link ids l = first_error
     [(l = Null \<or> l = Undefined, Not_an_object),
      (\<not> id_text (fld l ''source''), Bad_link_source),
      (\<not> id_text (fld l ''target''), Bad_link_target),
      (js_str (fld l ''source'') \<notin> set ids, Unknown_link_source (js_str (fld l ''source''))),
      (js_str (fld l ''target'') \<notin> set ids, Unknown_link_target (js_str (fld l ''target'')))]"

definition node_id :: "js \<Rightarrow> string" where
  "node_id n = js_str (fld n ''id'')"

definition validateGraphAgainstManifest :: "graphify_graph \<Rightarrow> source_manifest \<Rightarrow> graph_error option" where
  "validateGraphAgainstManifest g manifest =
     (case check_graph_nodes manifest [] (gg_nodes g) of
        Some e \<Rightarrow> Some e
      | None \<Rightarrow> first_some (check_graph_link (map node_id (gg_nodes g))) (gg_links g))"

section \<open>Breadth retrieval\<close>

record graph_unit =
  gu_id :: string
  gu_label :: js
  gu_kind :: js
  gu_sourcePath :: js
  gu_community :: js

record graph_edge =
  ge_source :: string
  ge_target :: string
  ge_relation :: js

record breadth_result =
  br_revision :: index_revision
  br_units :: "graph_unit list"
  br_edges :: "graph_edge list"
  br_truncated :: bool
  br_truncationReason :: "string option"

definition js_or :: "js \<Rightarrow> js \<Rightarrow> js" where
  "js_or a b = (if js_truthy a then a else b)"

definition toUnit :: "js \<Rightarrow> graph_unit" where
  "toUnit n = \<lparr> gu_id = node_id n, gu_label = js_or (fld n ''label'') (fld n ''id''),
     gu_kind = js_or (fld n ''file_type'') (Str ''unknown''), gu_sourcePath = js_or (fld n ''source_file'') (Str []),
     gu_community = (case fld n ''community'' of Num k \<Rightarrow> Num k | _ \<Rightarrow> Undefined) \<rparr>"

definition toEdge :: "js \<Rightarrow> graph_edge" where
  "toEdge l = \<lparr> ge_source = js_str (fld l ''source''), ge_target = js_str (fld l ''target''),
     ge_relation = js_or (fld l ''relation'') (js_or (fld l ''label'') (Str ''relates-to'')) \<rparr>"

text \<open>\<^verbatim>\<open>xs.slice(0, n)\<close>.\<close>

definition slice0 :: "int \<Rightarrow> 'a list \<Rightarrow> 'a list" where
  "slice0 n xs = take (nat (if n < 0 then max 0 (int (length xs) + n) else n)) xs"

record breadth_query =
  bq_maxUnits :: "int option"
  bq_maxEdges :: "int option"

definition query_value :: "int \<Rightarrow> int option \<Rightarrow> int" where
  "query_value d v = (case v of None \<Rightarrow> d | Some n \<Rightarrow> n)"

definition budget_reason :: "string \<Rightarrow> int \<Rightarrow> nat \<Rightarrow> string" where
  "budget_reason what budget found = what @ '' budget '' @ int_str budget @ '' exceeded ('' @ nat_str found @ '')''"

definition breadth_of :: "cache_record \<Rightarrow> graphify_graph \<Rightarrow> breadth_query \<Rightarrow> breadth_result" where
  "breadth_of record g query =
     (let maxUnits = query_value 200 (bq_maxUnits query); maxEdges = query_value 500 (bq_maxEdges query);
          units = map toUnit (slice0 maxUnits (gg_nodes g)); edges = map toEdge (slice0 maxEdges (gg_links g));
          truncatedUnits = (length units < length (gg_nodes g)); truncatedEdges = (length edges < length (gg_links g));
          reasons = (if truncatedUnits then [budget_reason ''unit'' maxUnits (length (gg_nodes g))] else [])
            @ (if truncatedEdges then [budget_reason ''edge'' maxEdges (length (gg_links g))] else []) in
      \<lparr> br_revision = cr_revision record, br_units = units, br_edges = edges,
        br_truncated = (truncatedUnits \<or> truncatedEdges),
        br_truncationReason = (if truncatedUnits \<or> truncatedEdges then Some (join_with ''; '' reasons) else None) \<rparr>)"

text \<open>
  \<open>read_cache\<close> is the record the cache holds under a key, \<open>read_graph\<close> the parsed
  graph file of a record.
\<close>

definition breadthRetrieval ::
  "(string \<Rightarrow> cache_record option) \<Rightarrow> (string \<Rightarrow> js) \<Rightarrow> index_revision \<Rightarrow> breadth_query \<Rightarrow> graph_error + breadth_result" where
  "breadthRetrieval read_cache read_graph revision query =
     (case read_cache (cacheKey revision) of
        None \<Rightarrow> Inl Index_not_found
      | Some record \<Rightarrow>
          (case assertGraphifyGraph (read_graph (cr_graphPath record)) of
             Inl e \<Rightarrow> Inl (Bad_graph e)
           | Inr g \<Rightarrow>
               (case validateGraphAgainstManifest g (cr_manifest record) of
                  Some e \<Rightarrow> Inl e
                | None \<Rightarrow> Inr (breadth_of record g query))))"

section \<open>Predicted touch\<close>

definition normalizeProposed :: "string \<Rightarrow> string" where
  "normalizeProposed = drop_dot_slash"

text \<open>\<^verbatim>\<open>v.includes(s)\<close> on a label or path that need not be a string.\<close>

fun js_includes :: "js \<Rightarrow> string \<Rightarrow> graph_error + bool" where
  "js_includes (Str s) part = Inr (sublist part s)"
| "js_includes (Arr xs) part = Inr (Str part \<in> set xs)"
| "js_includes _ part = Inl Not_searchable"

fun or_then :: "graph_error + bool \<Rightarrow> graph_error + bool \<Rightarrow> graph_error + bool" where
  "or_then (Inl e) _ = Inl e"
| "or_then (Inr True) _ = Inr True"
| "or_then (Inr False) r = r"

fun unitMatches :: "graph_unit \<Rightarrow> string list \<Rightarrow> graph_error + bool" where
  "unitMatches u [] = Inr False"
| "unitMatches u (p # ps) =
     or_then (or_then (js_includes (gu_sourcePath u) (normalizeProposed p))
       (or_then (Inr (sublist (normalizeProposed p) (gu_id u))) (js_includes (gu_label u) (normalizeProposed p))))
     (unitMatches u ps)"

fun likely_set :: "string list \<Rightarrow> graph_unit list \<Rightarrow> (string \<times> graph_unit) list \<Rightarrow> graph_error + (string \<times> graph_unit) list" where
  "likely_set proposed [] acc = Inr acc"
| "likely_set proposed (u # us) acc =
     (case unitMatches u proposed of
        Inl e \<Rightarrow> Inl e
      | Inr True \<Rightarrow> likely_set proposed us (AList.update (gu_id u) u acc)
      | Inr False \<Rightarrow> likely_set proposed us acc)"

record touch_evidence =
  te_indexRevision :: index_revision
  te_proposedUnits :: "string list"
  te_likelyUnits :: "string list"
  te_sharedSurfaces :: "(string \<times> string \<times> js) list"
  te_sourceProvenance :: "(string \<times> js) list"
  te_confidenceBasis :: string
  te_algorithmVersion :: string
  te_gate1FreezeId :: string

definition freezeId :: "(string \<Rightarrow> string) \<Rightarrow> index_revision \<Rightarrow> string list \<Rightarrow> string" where
  "freezeId sha revision proposed = ''gate1-freeze-'' @ take 32 (sha (ix_indexRevision revision @ concat (sort proposed)))"

definition touch_of :: "(string \<Rightarrow> string) \<Rightarrow> breadth_result \<Rightarrow> string list \<Rightarrow> (string \<times> graph_unit) list \<Rightarrow> touch_evidence" where
  "touch_of sha result proposed likely =
     (let likelyUnits = take 50 (map fst likely) in
      \<lparr> te_indexRevision = br_revision result, te_proposedUnits = proposed, te_likelyUnits = likelyUnits,
        te_sharedSurfaces = map (\<lambda>e. (ge_source e, ge_target e, ge_relation e))
          (filter (\<lambda>e. ge_source e \<in> set likelyUnits \<or> ge_target e \<in> set likelyUnits) (take 200 (br_edges result))),
        te_sourceProvenance = map (\<lambda>u. (gu_id u, gu_sourcePath u)) (filter (\<lambda>u. gu_id u \<in> set likelyUnits) (br_units result)),
        te_confidenceBasis = ''structural-edge-breadth'', te_algorithmVersion = ALGORITHM_VERSION,
        te_gate1FreezeId = freezeId sha (br_revision result) proposed \<rparr>)"

definition derivePredictedTouch ::
  "(string \<Rightarrow> string) \<Rightarrow> (string \<Rightarrow> cache_record option) \<Rightarrow> (string \<Rightarrow> js) \<Rightarrow> index_revision \<Rightarrow> string list \<Rightarrow> graph_error + touch_evidence" where
  "derivePredictedTouch sha read_cache read_graph revision proposed =
     (if proposed = [] then Inl No_proposed_units
      else case breadthRetrieval read_cache read_graph revision \<lparr> bq_maxUnits = None, bq_maxEdges = None \<rparr> of
        Inl e \<Rightarrow> Inl e
      | Inr result \<Rightarrow>
          (case likely_set proposed (br_units result) [] of
             Inl e \<Rightarrow> Inl e
           | Inr likely \<Rightarrow> Inr (touch_of sha result proposed likely)))"

section \<open>Files to index\<close>

definition CODE_EXTENSIONS :: "string list" where
  "CODE_EXTENSIONS = [''.js'', ''.mjs'', ''.cjs'', ''.ts'', ''.mts'', ''.cts'', ''.jsx'', ''.tsx'', ''.py'', ''.rb'', ''.go'', ''.rs'',
     ''.java'', ''.kt'', ''.c'', ''.cpp'', ''.cc'', ''.h'', ''.hpp'', ''.cs'', ''.fs'', ''.swift'', ''.php'', ''.scala'', ''.clj'']"

definition EXCLUDED_NAMES :: "string list" where
  "EXCLUDED_NAMES = [''.env'', ''.env.local'', ''.env.production'', ''.env.development'',
     ''package-lock.json'', ''yarn.lock'', ''pnpm-lock.yaml'']"

definition last_index_of :: "char \<Rightarrow> string \<Rightarrow> nat option" where
  "last_index_of c s = find (\<lambda>i. s ! i = c) (rev [0..<length s])"

definition isStructuralCodeFile :: "string \<Rightarrow> string + bool" where
  "isStructuralCodeFile relativePath =
     (case normalizeRelativePath (Str relativePath) of
        Inl e \<Rightarrow> Inl e
      | Inr normalized \<Rightarrow>
          (let base = last (split_char (CHR ''/'') normalized) in
           Inr (if base \<in> set EXCLUDED_NAMES then False
                else case last_index_of (CHR ''.'') base of
                  None \<Rightarrow> False
                | Some ext \<Rightarrow> if ext = 0 then False else drop ext base \<in> set CODE_EXTENSIONS)))"

definition filterSensitiveEntries :: "manifest_entry list \<Rightarrow> sensitive_path_policy \<Rightarrow> manifest_entry list" where
  "filterSensitiveEntries entries policy = filter (\<lambda>e. \<not> isSensitivePath (me_relativePath e) policy) entries"

text \<open>The entries that the projection copies, in manifest order, or the exception of an unusable path.\<close>

fun projected_entries :: "sensitive_path_policy \<Rightarrow> manifest_entry list \<Rightarrow> string + manifest_entry list" where
  "projected_entries policy [] = Inr []"
| "projected_entries policy (e # es) =
     (case isStructuralCodeFile (me_relativePath e) of
        Inl err \<Rightarrow> Inl err
      | Inr code \<Rightarrow>
          if code \<and> \<not> isSensitivePath (me_relativePath e) policy then map_sum id (Cons e) (projected_entries policy es)
          else projected_entries policy es)"

section \<open>The index cache\<close>

record cache_policy =
  cp_root :: string
  cp_maxBytes :: int
  cp_maxAgeMs :: int
  cp_maxEntries :: int

text \<open>
  What \<^verbatim>\<open>readCache\<close> accepts: \<open>file\<close> is the parsed record file, \<open>realpath\<close> the real
  path of a file or the error of resolving it, \<open>digest_of\<close> the digest of a graph file, if
  it can be read.
\<close>

definition readCache ::
  "(string \<Rightarrow> js_date) \<Rightarrow> (js \<Rightarrow> source_manifest) \<Rightarrow> (string \<Rightarrow> string + string) \<Rightarrow> (string \<Rightarrow> string option) \<Rightarrow> rat
    \<Rightarrow> cache_policy \<Rightarrow> string \<Rightarrow> js option \<Rightarrow> string + cache_record option" where
  "readCache date_parse as_manifest realpath digest_of now cache key file =
     (case file of
        None \<Rightarrow> Inr None
      | Some v \<Rightarrow>
          (case assertCacheRecord date_parse as_manifest v of
             Inl _ \<Rightarrow> Inr None
           | Inr record \<Rightarrow>
               if cr_key record \<noteq> key then Inr None
               else if (case cr_createdAt record of Fin t \<Rightarrow> of_int (cp_maxAgeMs cache) < now - t | NegInf \<Rightarrow> True | _ \<Rightarrow> False) then Inr None
               else case realpath (cr_graphPath record) of
                 Inl e \<Rightarrow> Inl e
               | Inr graphReal \<Rightarrow>
                   (case isOutsideResolvedRoot (cp_root cache) graphReal of
                      Inl e \<Rightarrow> Inl e
                    | Inr True \<Rightarrow> Inr None
                    | Inr False \<Rightarrow>
                        if digest_of (cr_graphPath record) = Some (cr_digest record) then Inr (Some record) else Inr None)))"

record entry_info =
  ei_recordDir :: string
  ei_mtime :: int
  ei_size :: int
  ei_blobPath :: string

record orphan_blob =
  ob_path :: string
  ob_size :: int
  ob_mtime :: int

definition must_evict :: "cache_policy \<Rightarrow> int \<Rightarrow> int \<Rightarrow> int \<Rightarrow> int \<Rightarrow> bool" where
  "must_evict cache now mtime totalBytes count =
     (cp_maxAgeMs cache < now - mtime \<or> cp_maxBytes cache < totalBytes \<or> cp_maxEntries cache < count)"

text \<open>
  The loop over the live array: the iterator's index moves on although the removal shifts
  the later entries down. \<open>rm\<close> says whether the removal of a directory succeeds.
\<close>

function evict_entries ::
  "(string \<Rightarrow> bool) \<Rightarrow> cache_policy \<Rightarrow> int \<Rightarrow> nat \<Rightarrow> entry_info list \<Rightarrow> int \<Rightarrow> entry_info list \<times> int" where
  "evict_entries rm cache now i entries totalBytes =
     (if length entries \<le> i then (entries, totalBytes)
      else if \<not> must_evict cache now (ei_mtime (entries ! i)) totalBytes (int (length entries)) then (entries, totalBytes)
      else if rm (ei_recordDir (entries ! i))
      then evict_entries rm cache now (Suc i) (take i entries @ drop (Suc i) entries) (totalBytes - ei_size (entries ! i))
      else evict_entries rm cache now (Suc i) entries totalBytes)"
  by pat_completeness auto
termination
  by (relation "measure (\<lambda>(rm, cache, now, i, entries, totalBytes). length entries - i)") auto

declare evict_entries.simps [simp del]

fun evict_orphans :: "(string \<Rightarrow> bool) \<Rightarrow> cache_policy \<Rightarrow> int \<Rightarrow> int \<Rightarrow> orphan_blob list \<Rightarrow> int \<Rightarrow> orphan_blob list" where
  "evict_orphans rm cache now count [] totalBytes = []"
| "evict_orphans rm cache now count (b # bs) totalBytes =
     (if \<not> must_evict cache now (ob_mtime b) totalBytes count then b # bs
      else if rm (ob_path b) then evict_orphans rm cache now count bs (totalBytes - ob_size b)
      else b # evict_orphans rm cache now count bs totalBytes)"

text \<open>The records and the orphan blobs that are left.\<close>

definition evictCache ::
  "(string \<Rightarrow> bool) \<Rightarrow> cache_policy \<Rightarrow> int \<Rightarrow> entry_info list \<Rightarrow> orphan_blob list \<Rightarrow> entry_info list \<times> orphan_blob list" where
  "evictCache rm cache now entries orphans =
     (let total = sum_list (map ei_size entries) + sum_list (map ob_size orphans) in
      case evict_entries rm cache now 0 (sort_by (\<lambda>a b. ei_mtime a - ei_mtime b) entries) total of
        (left, total') \<Rightarrow>
          (left, evict_orphans rm cache now (int (length left)) (sort_by (\<lambda>a b. ob_mtime a - ob_mtime b) orphans) total'))"

end
