(* ===== verification/Path_Properties.thy ===== *)
theory Path_Properties
  imports Index_Contracts
begin

text \<open>
  What the lexical checks of the index guarantee: a normalised relative path has no
  dot-dot segment, and the sensitive-path policy means exactly what the theorem at the end
  spells out, including the paths it lets through.
\<close>

section \<open>Splitting and joining\<close>

lemma split_on_none: "\<not> (\<exists>c \<in> set s. P c) \<Longrightarrow> split_on P s = [s]"
  by (induction s) auto

lemma split_on_append_sep:
  "\<not> (\<exists>c \<in> set s. P c) \<Longrightarrow> P d \<Longrightarrow> split_on P (s @ d # t) = s # split_on P t"
  by (induction s) auto

lemma split_join:
  assumes "list_all (\<lambda>s. c \<notin> set s) xs" "xs \<noteq> []"
  shows "split_char c (join_with [c] xs) = xs"
  using assms
proof (induction xs rule: induct_list012)
  case (3 x y zs)
  have "split_char c (join_with [c] (x # y # zs)) = x # split_char c (join_with [c] (y # zs))"
    unfolding split_char_def join_with.simps append_Cons append_Nil
    by (rule split_on_append_sep) (use 3 in auto)
  then show ?case using 3 by simp
qed (auto simp: split_char_def intro: split_on_none)

lemma split_char_free: "x \<in> set (split_char c s) \<Longrightarrow> c \<notin> set x"
proof (induction s arbitrary: x)
  case (Cons d s)
  then show ?case
    by (cases "split_on (\<lambda>y. y = c) s") (auto simp: split_char_def split: if_splits)
qed (simp add: split_char_def)

section \<open>Normalised paths\<close>

lemma norm_segments_inv:
  assumes "norm_segments a ds ss = r"
    and "\<exists>k us. rev ds = replicate k ''..'' @ us \<and> ''..'' \<notin> set us"
  shows "\<exists>k us. r = replicate k ''..'' @ us \<and> ''..'' \<notin> set us"
  using assms
proof (induction a ds ss arbitrary: r rule: norm_segments.induct)
  case (2 a ds s ss)
  from "2.prems"(2) obtain k us where ds: "rev ds = replicate k ''..'' @ us" "''..'' \<notin> set us" by blast
  show ?case
  proof (cases "s = [] \<or> s = ''.''")
    case True
    then show ?thesis using 2 by auto
  next
    case plain: False
    show ?thesis
    proof (cases "s = ''..''")
      case False
      have "\<exists>k us. rev (s # ds) = replicate k ''..'' @ us \<and> ''..'' \<notin> set us"
        using ds False by (intro exI [of _ k] exI [of _ "us @ [s]"]) auto
      then show ?thesis using "2.IH"(6) "2.prems"(1) plain False by auto
    next
      case dd: True
      show ?thesis
      proof (cases ds)
        case Nil
        have "\<exists>k us. rev [s] = replicate k ''..'' @ us \<and> ''..'' \<notin> set us"
          using dd by (intro exI [of _ 1] exI [of _ "[]"]) auto
        moreover have "\<exists>k us. rev [] = replicate k ''..'' @ us \<and> ''..'' \<notin> set us"
          by (intro exI [of _ 0] exI [of _ "[]"]) auto
        ultimately show ?thesis
          using "2.IH"(2) [OF plain dd Nil] "2.IH"(3) [OF plain dd Nil] "2.prems"(1) dd Nil by (cases a) auto
      next
        case (Cons d ds')
        then have rds: "rev ds' @ [d] = replicate k ''..'' @ us" using ds(1) by simp
        show ?thesis
        proof (cases "d = ''..''")
          case True
          then have "us = []"
            using rds ds(2) by (metis append_is_Nil_conv last_append last_in_set last_snoc)
          then have "\<exists>k us. rev (s # ds) = replicate k ''..'' @ us \<and> ''..'' \<notin> set us"
            using ds dd by (intro exI [of _ "Suc k"] exI [of _ "[]"]) (simp add: replicate_append_same)
          then show ?thesis using "2.IH"(4) [OF plain dd Cons True] "2.prems"(1) dd Cons True by auto
        next
          case False
          have "us \<noteq> []"
          proof
            assume "us = []"
            then have "set (rev ds' @ [d]) \<subseteq> {''..''}" using rds by auto
            with False show False by simp
          qed
          then have "rev ds' = replicate k ''..'' @ butlast us"
            using rds by (metis butlast_append butlast_snoc)
          moreover have "''..'' \<notin> set (butlast us)" using ds(2) by (meson in_set_butlastD)
          ultimately show ?thesis using "2.IH"(5) [OF plain dd Cons False] "2.prems"(1) dd Cons False by auto
        qed
      qed
    qed
  qed
qed auto

lemma norm_segments_subset:
  "set (norm_segments a ds ss) \<subseteq> set ds \<union> {s \<in> set ss. s \<noteq> [] \<and> s \<noteq> ''.''}"
  by (induction a ds ss rule: norm_segments.induct) (auto split: list.splits if_splits)

text \<open>The segments of a relative path after normalisation: dot-dots, then plain names.\<close>

definition plain_segment :: "string \<Rightarrow> bool" where
  "plain_segment s \<longleftrightarrow> s \<noteq> [] \<and> s \<noteq> ''.'' \<and> s \<noteq> ''..'' \<and> CHR ''/'' \<notin> set s"

lemma normal_segments:
  obtains k us where "norm_segments a [] (split_char (CHR ''/'') p) = replicate k ''..'' @ us" "list_all plain_segment us"
proof -
  have "\<exists>k us. norm_segments a [] (split_char (CHR ''/'') p) = replicate k ''..'' @ us \<and> ''..'' \<notin> set us"
    by (rule norm_segments_inv [OF refl]) (intro exI [of _ 0] exI [of _ "[]"], simp)
  then obtain k us where r: "norm_segments a [] (split_char (CHR ''/'') p) = replicate k ''..'' @ us" "''..'' \<notin> set us"
    by blast
  have "set us \<subseteq> {s \<in> set (split_char (CHR ''/'') p). s \<noteq> [] \<and> s \<noteq> ''.''}"
    using norm_segments_subset [of a "[]" "split_char (CHR ''/'') p"] r(1) by auto
  then have "list_all plain_segment us"
    using r(2) split_char_free by (fastforce simp: list_all_iff plain_segment_def)
  with r(1) that show ?thesis by blast
qed

lemma join_nonempty: "list_all (\<lambda>s. s \<noteq> []) xs \<Longrightarrow> join_with sep xs = [] \<longleftrightarrow> xs = []"
  by (induction sep xs rule: join_with.induct) auto

text \<open>Neighbouring slashes only come from empty segments.\<close>

lemma collapse_id: "\<not> sublist ''//'' s \<Longrightarrow> collapse_slashes s = s"
proof (induction s rule: collapse_slashes.induct)
  case (1 a b cs)
  have "\<not> (a = CHR ''/'' \<and> b = CHR ''/'')"
    using 1(3) by (auto simp: sublist_def)
  moreover have "\<not> sublist ''//'' (b # cs)" using 1(3) by (meson sublist_Cons_right)
  ultimately show ?case using 1 by auto
qed auto

lemma split_char_append: "split_char c (x @ c # y) = split_char c x @ split_char c y"
proof (induction x)
  case (Cons d x)
  then show ?case by (cases "split_char c x") (auto simp: split_char_def)
qed (simp add: split_char_def)

lemma split_char_nonempty [simp]: "split_char c s \<noteq> []"
  by (simp add: split_char_def)

lemma double_slash_segment: "sublist ''//'' s \<Longrightarrow> [] \<in> set (butlast (split_char (CHR ''/'') s))"
proof -
  assume "sublist ''//'' s"
  then obtain x y where "s = x @ CHR ''/'' # CHR ''/'' # y" by (auto simp: sublist_def)
  then have "split_char (CHR ''/'') s = split_char (CHR ''/'') x @ split_char (CHR ''/'') (CHR ''/'' # y)"
    by (simp only: split_char_append)
  also have "split_char (CHR ''/'') (CHR ''/'' # y) = [] # split_char (CHR ''/'') y"
    using split_char_append [of "CHR ''/''" "[]" y] by (simp add: split_char_def)
  finally show ?thesis by (simp add: butlast_append)
qed

lemma collapse_keeps_slash: "prefix ''/'' s \<Longrightarrow> prefix ''/'' (collapse_slashes s)"
  by (induction s rule: collapse_slashes.induct) auto

text \<open>The cleaned form of a relative path whose segments are plain.\<close>

lemma plain_path_clean:
  assumes "us \<noteq> []" "list_all plain_segment us" "s = join_with ''/'' us @ (if t then ''/'' else [])"
  shows "collapse_slashes (drop_dot_slash s) = s" "set (split_char (CHR ''/'') s) \<subseteq> insert [] (set us)"
proof -
  have "list_all (\<lambda>s. CHR ''/'' \<notin> set s) us" using assms(2) by (auto simp: list_all_iff plain_segment_def)
  then have su: "split_char (CHR ''/'') (join_with ''/'' us) = us" using split_join assms(1) by blast
  then have sp: "split_char (CHR ''/'') s = us @ (if t then [[]] else [])"
    using split_char_append [of "CHR ''/''" "join_with ''/'' us" "[]"] assms(3) by (auto simp: split_char_def)
  then show "set (split_char (CHR ''/'') s) \<subseteq> insert [] (set us)" by auto
  have "\<not> prefix ''./'' s"
  proof
    assume "prefix ''./'' s"
    then obtain r where "s = ''.'' @ CHR ''/'' # r" by (auto simp: prefix_def)
    then have "split_char (CHR ''/'') s = split_char (CHR ''/'') ''.'' @ split_char (CHR ''/'') r"
      using split_char_append by blast
    then have "hd us = ''.''" using sp assms(1) by (cases us) (auto simp: split_char_def split: if_splits)
    with assms(1,2) show False by (cases us) (auto simp: plain_segment_def)
  qed
  moreover have "\<not> sublist ''//'' s"
  proof
    assume "sublist ''//'' s"
    from double_slash_segment [OF this] sp assms(1) have "[] \<in> set us"
      by (auto simp: butlast_append split: if_splits dest: in_set_butlastD)
    with assms(2) show False by (auto simp: list_all_iff plain_segment_def)
  qed
  ultimately show "collapse_slashes (drop_dot_slash s) = s" by (simp add: drop_dot_slash_def collapse_id)
qed

lemma join_dots: "k \<noteq> 0 \<Longrightarrow> prefix ''..'' (join_with ''/'' (replicate k ''..'' @ us) @ t)"
  by (cases k; cases "replicate (k - 1) ''..'' @ us") (auto simp: replicate_Suc)

text \<open>
  A path that passes the normalisation stays below the root it is joined to: it is
  not absolute and none of its segments is a dot-dot.
\<close>
theorem relative_paths_stay_inside:
  assumes "normalizeRelativePath raw = Inr q"
  shows "\<not> prefix ''/'' q \<and> ''..'' \<notin> set (split_char (CHR ''/'') q)"
proof -
  obtain p where p: "raw = Str p" "p \<noteq> []" "q = collapse_slashes (drop_dot_slash (path_normalize p))"
      "\<not> prefix ''/'' q" "\<not> prefix ''..'' q"
    using assms by (auto simp: normalizeRelativePath_def Let_def split: js.splits if_splits)
  have rel: "hd p \<noteq> CHR ''/''"
  proof
    assume h: "hd p = CHR ''/''"
    then have "prefix ''/'' (path_normalize p)" using p(2) by (simp add: path_normalize_def Let_def)
    then have "prefix ''/'' (drop_dot_slash (path_normalize p))"
      by (auto simp: drop_dot_slash_def prefix_def)
    with collapse_keeps_slash p(3,4) show False by blast
  qed
  let ?segs = "norm_segments False [] (split_char (CHR ''/'') p)"
  from normal_segments obtain k us where r: "?segs = replicate k ''..'' @ us" "list_all plain_segment us" by blast
  have "list_all (\<lambda>s. s \<noteq> []) us" using r(2) by (rule list.pred_mono_strong) (simp add: plain_segment_def)
  then have "list_all (\<lambda>s. s \<noteq> []) ?segs" unfolding r(1) list_all_append by (simp add: list_all_iff)
  then have empty: "join_with ''/'' ?segs = [] \<longleftrightarrow> ?segs = []" by (rule join_nonempty)
  show ?thesis
  proof (cases "?segs = []")
    case True
    then have "path_normalize p = ''./'' \<or> path_normalize p = ''.''"
      using rel p(2) by (simp add: path_normalize_def Let_def)
    then have "q = [] \<or> q = ''.''" using p(3) by (auto simp: drop_dot_slash_def)
    then show ?thesis using p(4) by (auto simp: split_char_def)
  next
    case False
    then have norm: "path_normalize p = join_with ''/'' ?segs @ (if last p = CHR ''/'' then ''/'' else [])"
      using rel p(2) empty by (simp add: path_normalize_def Let_def)
    have "k = 0"
    proof (rule ccontr)
      assume "k \<noteq> 0"
      then have pre: "prefix ''..'' (path_normalize p)" using norm r(1) join_dots by simp
      then obtain t where t: "path_normalize p = CHR ''.'' # CHR ''.'' # t" by (auto simp: prefix_def)
      then have "prefix ''..'' (collapse_slashes (drop_dot_slash (path_normalize p)))"
        by (cases t) (auto simp: drop_dot_slash_def)
      with p(3,5) show False by simp
    qed
    with r have us: "?segs = us" "us \<noteq> []" using False by simp_all
    from plain_path_clean [OF us(2) r(2) norm [unfolded us(1)]] p(3) r(2) p(4) show ?thesis
      by (auto simp: list_all_iff plain_segment_def)
  qed
qed

theorem relative_paths_stay_inside_witness:
  "normalizeRelativePath (Str ''src/./a/../b.ts'') = Inr ''src/b.ts'' \<and> \<not> prefix ''/'' ''src/b.ts''
   \<and> ''..'' \<notin> set (split_char (CHR ''/'') ''src/b.ts'')"
proof -
  have n: "normalizeRelativePath (Str ''src/./a/../b.ts'') = Inr ''src/b.ts''" by code_simp
  with relative_paths_stay_inside [OF n] show ?thesis by simp
qed

section \<open>Sensitive paths\<close>

lemma index_of_from_None: "index_of_from s w 0 = None \<longleftrightarrow> \<not> sublist w s"
proof -
  have "(\<exists>i < Suc (length s). prefix w (drop i s)) \<longleftrightarrow> sublist w s"
  proof
    assume "\<exists>i < Suc (length s). prefix w (drop i s)"
    then obtain i r where "drop i s = w @ r" by (auto simp: prefix_def)
    then have "s = take i s @ w @ r" by (metis append_take_drop_id)
    then show "sublist w s" unfolding sublist_def by blast
  next
    assume "sublist w s"
    then obtain x y where "s = x @ w @ y" by (auto simp: sublist_def)
    then show "\<exists>i < Suc (length s). prefix w (drop i s)" by (intro exI [of _ "length x"]) auto
  qed
  moreover have "index_of_from s w 0 = None \<longleftrightarrow> \<not> (\<exists>i < Suc (length s). prefix w (drop i s))"
    by (auto simp: index_of_from_def find_None_iff simp del: upt_Suc)
  ultimately show ?thesis by simp
qed

lemma index_of_from_zero: "index_of_from s w 0 = Some 0 \<longleftrightarrow> prefix w s"
proof -
  have "[0..<Suc (length s)] = 0 # [Suc 0..<Suc (length s)]" by (simp add: upt_conv_Cons del: upt_Suc)
  then have "index_of_from s w 0 = (if prefix w s then Some 0 else find (\<lambda>i. prefix w (drop i s)) [Suc 0..<Suc (length s)])"
    by (simp add: index_of_from_def del: upt_Suc)
  moreover have "find (\<lambda>i. prefix w (drop i s)) [Suc 0..<Suc (length s)] \<noteq> Some 0"
    by (auto dest!: find_SomeD simp del: upt_Suc)
  ultimately show ?thesis by simp
qed

lemma glob_contains:
  assumes "split_char (CHR ''*'') pat = [[], w, []]" "CHR ''*'' \<in> set pat" "w \<noteq> []"
  shows "globMatch v pat \<longleftrightarrow> sublist w v"
  using assms index_of_from_None [of v w] by (auto simp: globMatch_def split: option.splits)

lemma glob_prefix:
  assumes "split_char (CHR ''*'') pat = [w, []]" "CHR ''*'' \<in> set pat" "w \<noteq> []"
  shows "globMatch v pat \<longleftrightarrow> prefix w v"
  using assms index_of_from_zero [of v w] by (auto simp: globMatch_def split: option.splits)

lemma glob_suffix:
  assumes "split_char (CHR ''*'') pat = [[], w]" "CHR ''*'' \<in> set pat" "w \<noteq> []"
  shows "globMatch v pat \<longleftrightarrow> map_option (\<lambda>i. i + length w) (index_of_from v w 0) = Some (length v)"
  using assms by (auto simp: globMatch_def split: option.splits)

lemma glob_directory:
  assumes "\<not> (CHR ''*'' \<in> set d)" "d \<noteq> ''*''" "xs \<noteq> []"
  shows "matchParts [d, ''*''] xs \<longleftrightarrow> hd xs = d"
proof -
  obtain y ys where "xs = y # ys" using assms(3) by (cases xs) auto
  moreover have "matchParts [''*''] ys"
    by (simp add: list_ex_iff)
  moreover have "matchParts [d, ''*''] (y # ys) \<longleftrightarrow> globMatch y d \<and> matchParts [''*''] ys"
    using assms(2) by (subst matchParts.simps(2)) simp
  ultimately show ?thesis using assms by (simp add: globMatch_def del: matchParts.simps(2))
qed

text \<open>The first occurrence of an extension ends the name.\<close>

definition ends_at_first :: "string \<Rightarrow> string \<Rightarrow> bool" where
  "ends_at_first b e \<longleftrightarrow> map_option (\<lambda>i. i + length e) (index_of_from b e 0) = Some (length b)"

text \<open>
  The default sensitive-path policy, spelled out: a path is refused exactly if its
  last segment is .env or begins with .env., contains one of five words, or ends
  in a key-file extension whose first occurrence is that ending, or if its first segment
  is .ssh or .agent-pool; backslashes count as slashes, case matters.
\<close>
theorem sensitive_path_exact:
  "isSensitivePath p DEFAULT_SENSITIVE_PATH_POLICY \<longleftrightarrow> p \<noteq> [] \<and>
     (let b = base_of (forward_slashes p) in
        b = ''.env'' \<or> prefix ''.env.'' b
        \<or> list_ex (\<lambda>w. sublist w b) [''credentials'', ''secret'', ''private'', ''key'', ''token'']
        \<or> list_ex (ends_at_first b) [''.pem'', ''.key'', ''.p12'', ''.pfx'']
        \<or> hd (split_char (CHR ''/'') (forward_slashes p)) \<in> {''.ssh'', ''.agent-pool''})"
proof -
  have plain: "globMatch b ''.env'' \<longleftrightarrow> b = ''.env''" for b by (simp add: globMatch_def)
  have env: "globMatch b ''.env.*'' \<longleftrightarrow> prefix ''.env.'' b" for b
    by (rule glob_prefix) (simp_all add: split_char_def)
  have words: "globMatch b ''*credentials*'' \<longleftrightarrow> sublist ''credentials'' b" "globMatch b ''*secret*'' \<longleftrightarrow> sublist ''secret'' b"
    "globMatch b ''*private*'' \<longleftrightarrow> sublist ''private'' b" "globMatch b ''*key*'' \<longleftrightarrow> sublist ''key'' b"
    "globMatch b ''*token*'' \<longleftrightarrow> sublist ''token'' b" for b
    by (rule glob_contains; simp add: split_char_def)+
  have exts: "globMatch b ''*.pem'' \<longleftrightarrow> ends_at_first b ''.pem''" "globMatch b ''*.key'' \<longleftrightarrow> ends_at_first b ''.key''"
    "globMatch b ''*.p12'' \<longleftrightarrow> ends_at_first b ''.p12''" "globMatch b ''*.pfx'' \<longleftrightarrow> ends_at_first b ''.pfx''" for b
    unfolding ends_at_first_def by (rule glob_suffix; simp add: split_char_def)+
  have dirs: "matchParts (split_char (CHR ''/'') ''.ssh/*'') (split_char (CHR ''/'') s) \<longleftrightarrow> hd (split_char (CHR ''/'') s) = ''.ssh''"
    "matchParts (split_char (CHR ''/'') ''.agent-pool/*'') (split_char (CHR ''/'') s) \<longleftrightarrow> hd (split_char (CHR ''/'') s) = ''.agent-pool''" for s
  proof -
    have "split_char (CHR ''/'') ''.ssh/*'' = [''.ssh'', ''*'']" "split_char (CHR ''/'') ''.agent-pool/*'' = [''.agent-pool'', ''*'']"
      by (simp_all add: split_char_def)
    then show "matchParts (split_char (CHR ''/'') ''.ssh/*'') (split_char (CHR ''/'') s) \<longleftrightarrow> hd (split_char (CHR ''/'') s) = ''.ssh''"
      "matchParts (split_char (CHR ''/'') ''.agent-pool/*'') (split_char (CHR ''/'') s) \<longleftrightarrow> hd (split_char (CHR ''/'') s) = ''.agent-pool''"
      by (simp_all only: glob_directory split_char_nonempty) (subst glob_directory; simp)+
  qed
  show ?thesis
    by (simp add: isSensitivePath_def DEFAULT_SENSITIVE_PATH_POLICY_def matchSensitivePattern_def Let_def plain env words exts dirs)
qed

text \<open>A key file whose name repeats its extension is not recognised.\<close>

lemma repeated_extension_passes: "\<not> isSensitivePath ''certs/server.pem.pem'' DEFAULT_SENSITIVE_PATH_POLICY"
  by code_simp

text \<open>Nor is a key in a nested directory of the names that are refused at the top.\<close>

lemma nested_ssh_passes: "\<not> isSensitivePath ''home/.ssh/id_rsa'' DEFAULT_SENSITIVE_PATH_POLICY"
  by code_simp

text \<open>Two identities with a colon in a name share their cache key.\<close>

lemma cache_keys_collide:
  "\<exists>a b. a \<noteq> b \<and> cacheKey a = cacheKey b \<and> ix_repository a \<noteq> ix_repository b"
proof (intro exI)
  let ?r = "\<lambda>owner name. \<lparr> ix_repository = \<lparr> ri_owner = owner, ri_name = name \<rparr>, ix_head = ''h'', ix_graphifyVersion = ''1'',
    ix_indexSchemaVersion = ''1'', ix_sensitivePathPolicyVersion = ''1'', ix_manifestDigest = ''sha256:'', ix_indexRevision = ''r'', ix_createdAt = ''c'' \<rparr>"
  show "?r ''a:b'' ''c'' \<noteq> ?r ''a'' ''b:c'' \<and> cacheKey (?r ''a:b'' ''c'') = cacheKey (?r ''a'' ''b:c'')
     \<and> ix_repository (?r ''a:b'' ''c'') \<noteq> ix_repository (?r ''a'' ''b:c'')"
    by (simp add: cacheKey_def)
qed

end
