(* ===== verification/Graph_Properties.thy ===== *)
theory Graph_Properties
  imports Graph_Index Path_Properties
begin

text \<open>
  What leaves the code graph: retrieved units name manifest files that are not sensitive,
  within the budget; a predicted touch set is grounded in the retrieved units; and how
  many records an eviction removes.
\<close>

section \<open>Validated graphs\<close>

definition safe_source :: "source_manifest \<Rightarrow> js \<Rightarrow> bool" where
  "safe_source manifest v \<longleftrightarrow> (\<exists>p. normalizeRelativePath v = Inr p \<and> p \<in> me_relativePath ` set (sm_entries manifest)
     \<and> \<not> isSensitivePath p DEFAULT_SENSITIVE_PATH_POLICY)"

lemma check_graph_nodes_None:
  "check_graph_nodes manifest seen ns = None \<Longrightarrow>
     distinct (map node_id ns) \<and> set seen \<inter> node_id ` set ns = {}
     \<and> (\<forall>n \<in> set ns. node_id n \<noteq> [] \<and> safe_source manifest (fld n ''source_file'') \<and> fld n ''source_file'' \<noteq> Str [])"
proof (induction manifest seen ns rule: check_graph_nodes.induct)
  case (2 manifest seen n ns)
  then obtain rel where ok: "id_text (fld n ''id'')" "node_id n \<notin> set seen"
      "validateSourcePath (node_id n) (fld n ''source_file'') manifest = Inr rel"
      "check_graph_nodes manifest (node_id n # seen) ns = None"
    by (auto simp: node_id_def split: if_splits sum.splits)
  have "safe_source manifest (fld n ''source_file'')" "fld n ''source_file'' \<noteq> Str []"
    using ok(3) by (auto simp: validateSourcePath_def safe_source_def split: if_splits sum.splits)
  moreover have "node_id n \<noteq> []" using ok(1) by (auto simp: id_text_def node_id_def split: js.splits)
  moreover have "distinct (map node_id ns) \<and> set (node_id n # seen) \<inter> node_id ` set ns = {}
     \<and> (\<forall>n \<in> set ns. node_id n \<noteq> [] \<and> safe_source manifest (fld n ''source_file'') \<and> fld n ''source_file'' \<noteq> Str [])"
    using "2.IH" "2.prems" ok by (auto simp: node_id_def [abs_def] split: if_splits sum.splits)
  ultimately show ?case using ok(2) by auto
qed simp

lemma check_graph_link_None:
  "check_graph_link ids l = None \<Longrightarrow> js_str (fld l ''source'') \<in> set ids \<and> js_str (fld l ''target'') \<in> set ids"
  by (simp add: check_graph_link_def)

lemma safe_source_text: "safe_source manifest v \<Longrightarrow> \<exists>s. v = Str s \<and> s \<noteq> []"
  by (auto simp: safe_source_def normalizeRelativePath_def split: js.splits if_splits)

lemma toUnit_simps [simp]: "gu_id (toUnit n) = node_id n"
  by (simp add: toUnit_def)

lemma toUnit_source: "safe_source manifest (fld n ''source_file'') \<Longrightarrow> gu_sourcePath (toUnit n) = fld n ''source_file''"
  by (drule safe_source_text) (auto simp: toUnit_def js_or_def)

lemma slice0_prefix: "\<exists>k. slice0 n xs = take k xs"
  unfolding slice0_def by blast

lemma set_slice0: "set (slice0 n xs) \<subseteq> set xs"
  using slice0_prefix [of n xs] by (metis set_take_subset)

text \<open>A retrieval: units of manifest files, distinct, and edges between nodes of the graph.\<close>

lemma breadth_grounded:
  assumes "breadthRetrieval read_cache read_graph revision query = Inr r"
  shows "\<exists>rcd. read_cache (cacheKey revision) = Some rcd \<and> br_revision r = cr_revision rcd
     \<and> distinct (map gu_id (br_units r)) \<and> (\<forall>u \<in> set (br_units r). safe_source (cr_manifest rcd) (gu_sourcePath u))
     \<and> (br_truncated r \<or> (\<forall>e \<in> set (br_edges r). ge_source e \<in> gu_id ` set (br_units r) \<and> ge_target e \<in> gu_id ` set (br_units r)))"
proof -
  obtain rcd g where g: "read_cache (cacheKey revision) = Some rcd" "validateGraphAgainstManifest g (cr_manifest rcd) = None"
      "r = breadth_of rcd g query"
    using assms by (auto simp: breadthRetrieval_def split: option.splits sum.splits)
  then have nodes: "check_graph_nodes (cr_manifest rcd) [] (gg_nodes g) = None"
    and links: "\<forall>l \<in> set (gg_links g). check_graph_link (map node_id (gg_nodes g)) l = None"
    by (auto simp: validateGraphAgainstManifest_def split: option.splits)
  note ok = check_graph_nodes_None [OF nodes]
  let ?ns = "slice0 (query_value 200 (bq_maxUnits query)) (gg_nodes g)"
  let ?ls = "slice0 (query_value 500 (bq_maxEdges query)) (gg_links g)"
  have units: "br_units r = map toUnit ?ns" "br_edges r = map toEdge ?ls" "br_revision r = cr_revision rcd"
    "br_truncated r \<longleftrightarrow> length ?ns < length (gg_nodes g) \<or> length ?ls < length (gg_links g)"
    using g(3) by (simp_all add: breadth_of_def Let_def)
  have sub: "set ?ns \<subseteq> set (gg_nodes g)" "set ?ls \<subseteq> set (gg_links g)" by (rule set_slice0)+
  have "distinct (map gu_id (br_units r))"
    using ok slice0_prefix [of "query_value 200 (bq_maxUnits query)" "gg_nodes g"]
    by (auto simp: units(1) comp_def take_map [symmetric])
  moreover have "\<forall>u \<in> set (br_units r). safe_source (cr_manifest rcd) (gu_sourcePath u)"
  proof
    fix u assume "u \<in> set (br_units r)"
    then obtain n where n: "n \<in> set ?ns" "u = toUnit n" by (auto simp: units(1))
    then have "safe_source (cr_manifest rcd) (fld n ''source_file'')" using sub(1) ok by blast
    then show "safe_source (cr_manifest rcd) (gu_sourcePath u)" using n(2) toUnit_source by simp
  qed
  moreover have "br_truncated r \<or> (\<forall>e \<in> set (br_edges r). ge_source e \<in> gu_id ` set (br_units r) \<and> ge_target e \<in> gu_id ` set (br_units r))"
  proof (cases "br_truncated r")
    case False
    then have "\<not> length ?ns < length (gg_nodes g)" using units(4) by blast
    then have "?ns = gg_nodes g" using slice0_prefix [of "query_value 200 (bq_maxUnits query)" "gg_nodes g"] by auto
    then have "gu_id ` set (br_units r) = set (map node_id (gg_nodes g))" by (simp add: units(1) image_image)
    moreover have "ge_source e \<in> set (map node_id (gg_nodes g)) \<and> ge_target e \<in> set (map node_id (gg_nodes g))"
      if "e \<in> set (br_edges r)" for e
    proof -
      from that obtain l where l: "l \<in> set ?ls" "e = toEdge l" by (auto simp: units(2))
      then have "check_graph_link (map node_id (gg_nodes g)) l = None" using links sub(2) by blast
      from check_graph_link_None [OF this] l(2) show ?thesis by (simp add: toEdge_def)
    qed
    ultimately show ?thesis by simp
  qed simp
  ultimately show ?thesis using g(1) units(3) by blast
qed

section \<open>Predicted touch\<close>

lemma likely_set_spec:
  assumes "likely_set proposed us acc = Inr likely" "distinct (map fst acc)"
  shows "distinct (map fst likely) \<and> set (map fst likely) \<subseteq> set (map fst acc) \<union> gu_id ` set us"
  using assms
proof (induction proposed us acc rule: likely_set.induct)
  case (2 proposed u us acc)
  show ?case
  proof (cases "unitMatches u proposed")
    case (Inr m)
    show ?thesis
    proof (cases m)
      case True
      have d: "distinct (map fst (AList.update (gu_id u) u acc))" using "2.prems"(2) by (rule distinct_update)
      have keys: "set (map fst (AList.update (gu_id u) u acc)) = insert (gu_id u) (set (map fst acc))"
        by (simp add: dom_update [simplified] )
      show ?thesis using "2.IH"(1) [OF _ _ _ d] "2.prems"(1) Inr True keys by auto
    next
      case False
      then show ?thesis using 2 Inr by auto
    qed
  qed (use 2 in simp)
qed auto

text \<open>
  C28. A predicted touch set is grounded in the index: it exists only for a cached graph
  that passed validation, names at most fifty distinct units, and for every one of them
  gives the source path of a file of the manifest that is not sensitive; each shared
  surface touches a likely unit.
\<close>
theorem predicted_touch_grounded:
  assumes "derivePredictedTouch sha read_cache read_graph revision proposed = Inr t"
  shows "\<exists>rcd. read_cache (cacheKey revision) = Some rcd \<and> te_indexRevision t = cr_revision rcd \<and> proposed \<noteq> []
     \<and> length (te_likelyUnits t) \<le> 50 \<and> distinct (te_likelyUnits t)
     \<and> set (map fst (te_sourceProvenance t)) = set (te_likelyUnits t) \<and> distinct (map fst (te_sourceProvenance t))
     \<and> list_all (\<lambda>(u, path). safe_source (cr_manifest rcd) path) (te_sourceProvenance t)
     \<and> list_all (\<lambda>(a, b, surface). a \<in> set (te_likelyUnits t) \<or> b \<in> set (te_likelyUnits t)) (te_sharedSurfaces t)
     \<and> length (te_sharedSurfaces t) \<le> 200"
proof -
  obtain r likely where r: "proposed \<noteq> []"
      "breadthRetrieval read_cache read_graph revision \<lparr> bq_maxUnits = None, bq_maxEdges = None \<rparr> = Inr r"
      "likely_set proposed (br_units r) [] = Inr likely" "t = touch_of sha r proposed likely"
    using assms by (auto simp: derivePredictedTouch_def split: if_splits sum.splits)
  from breadth_grounded [OF r(2)] obtain rcd where g: "read_cache (cacheKey revision) = Some rcd"
      "br_revision r = cr_revision rcd" "distinct (map gu_id (br_units r))"
      "\<forall>u \<in> set (br_units r). safe_source (cr_manifest rcd) (gu_sourcePath u)" by blast
  have likely: "distinct (map fst likely)" "set (map fst likely) \<subseteq> gu_id ` set (br_units r)"
    using likely_set_spec [OF r(3)] by simp_all
  let ?l = "take 50 (map fst likely)"
  have l: "distinct ?l" "set ?l \<subseteq> gu_id ` set (br_units r)"
    using likely set_take_subset [of 50 "map fst likely"] by (auto intro: distinct_take)
  have t: "te_likelyUnits t = ?l" "te_indexRevision t = cr_revision rcd"
    "te_sourceProvenance t = map (\<lambda>u. (gu_id u, gu_sourcePath u)) (filter (\<lambda>u. gu_id u \<in> set ?l) (br_units r))"
    "te_sharedSurfaces t = map (\<lambda>e. (ge_source e, ge_target e, ge_relation e))
          (filter (\<lambda>e. ge_source e \<in> set ?l \<or> ge_target e \<in> set ?l) (take 200 (br_edges r)))"
    using r(4) g(2) by (simp_all add: touch_of_def Let_def)
  have "set (map fst (te_sourceProvenance t)) = set ?l" using l(2) by (force simp: t(3))
  moreover have "distinct (map fst (te_sourceProvenance t))"
    using g(3) by (simp add: t(3) comp_def distinct_map_filter)
  moreover have "list_all (\<lambda>(u, path). safe_source (cr_manifest rcd) path) (te_sourceProvenance t)"
    using g(4) by (simp add: t(3) list_all_iff)
  moreover have "list_all (\<lambda>(a, b, surface). a \<in> set ?l \<or> b \<in> set ?l) (te_sharedSurfaces t)"
    by (simp add: t(4) list_all_iff)
  moreover have "length (te_sharedSurfaces t) \<le> 200"
    unfolding t(4) length_map by (rule order_trans [OF length_filter_le]) simp
  ultimately show ?thesis using g(1) l(1) t(1,2) r(1) by auto
qed

section \<open>Eviction\<close>

lemma evict_count:
  assumes "\<forall>e \<in> set entries. now - ei_mtime e \<le> cp_maxAgeMs cache \<and> 0 \<le> ei_size e"
    and "totalBytes \<le> cp_maxBytes cache" "i \<le> length entries" "0 \<le> cp_maxEntries cache"
  shows "length (fst (evict_entries (\<lambda>d. True) cache now i entries totalBytes)) =
    length entries - min (length entries - nat (cp_maxEntries cache)) ((length entries - i + 1) div 2)"
  using assms
proof (induction "\<lambda>d :: string. True" cache now i entries totalBytes rule: evict_entries.induct)
  case (1 cache now i entries totalBytes)
  have fresh: "now - ei_mtime (entries ! i) \<le> cp_maxAgeMs cache" "0 \<le> ei_size (entries ! i)" if "i < length entries"
    using 1 that by simp_all
  show ?case
  proof (cases "length entries \<le> i \<or> int (length entries) \<le> cp_maxEntries cache")
    case True
    then have "evict_entries (\<lambda>d. True) cache now i entries totalBytes = (entries, totalBytes)"
      using fresh(1) "1.prems"(2) by (subst evict_entries.simps) (auto simp: must_evict_def)
    moreover have "length entries - nat (cp_maxEntries cache) = 0 \<or> (length entries - i + 1) div 2 = 0"
      using True by auto
    ultimately show ?thesis by auto
  next
    case False
    then have i: "i < length entries" and over: "cp_maxEntries cache < int (length entries)" by auto
    then have nm: "nat (cp_maxEntries cache) < length entries" using "1.prems"(4) by (simp add: nat_less_iff)
    let ?es = "take i entries @ drop (Suc i) entries"
    have len: "length ?es = length entries - 1" using i by simp
    have sub: "set ?es \<subseteq> set entries" by (auto dest: in_set_takeD in_set_dropD)
    have must: "must_evict cache now (ei_mtime (entries ! i)) totalBytes (int (length entries))"
      using over by (simp add: must_evict_def)
    have step: "evict_entries (\<lambda>d. True) cache now i entries totalBytes =
        evict_entries (\<lambda>d. True) cache now (Suc i) ?es (totalBytes - ei_size (entries ! i))"
      using i must by (subst evict_entries.simps) simp
    have *: "length (fst (evict_entries (\<lambda>d. True) cache now (Suc i) ?es (totalBytes - ei_size (entries ! i)))) =
        length ?es - min (length ?es - nat (cp_maxEntries cache)) ((length ?es - Suc i + 1) div 2)"
      if "Suc i \<le> length ?es"
    proof (rule "1.hyps"(1))
      show "\<forall>e \<in> set ?es. now - ei_mtime e \<le> cp_maxAgeMs cache \<and> 0 \<le> ei_size e" using sub "1.prems"(1) by blast
      show "totalBytes - ei_size (entries ! i) \<le> cp_maxBytes cache" using fresh(2) [OF i] "1.prems"(2) by linarith
    qed (use i must "1.prems" that in auto)
    show ?thesis
    proof (cases "Suc i \<le> length ?es")
      case True
      with * have "length (fst (evict_entries (\<lambda>d. True) cache now i entries totalBytes)) =
          length ?es - min (length ?es - nat (cp_maxEntries cache)) ((length ?es - Suc i + 1) div 2)"
        unfolding step by blast
      moreover have "(length entries - i + 1) div 2 = Suc ((length ?es - Suc i + 1) div 2)" using True len by simp
      moreover have "length entries - nat (cp_maxEntries cache) = Suc (length ?es - nat (cp_maxEntries cache))"
        using nm len by (simp add: Suc_diff_Suc)
      ultimately show ?thesis using len i by simp
    next
      case False
      then have "i = length ?es" using i len by simp
      then have "fst (evict_entries (\<lambda>d. True) cache now i entries totalBytes) = ?es"
        unfolding step by (subst evict_entries.simps) simp
      moreover have "(length entries - i + 1) div 2 = 1" using \<open>i = length ?es\<close> len i by simp
      moreover have "length entries - nat (cp_maxEntries cache) \<noteq> 0" using nm by simp
      ultimately show ?thesis using len by simp
    qed
  qed
qed

text \<open>
  An eviction that is due to the number of records alone removes the excess, but at
  most every second record, because the loop removes from the array it iterates over: of
  n fresh records within the byte budget, the minimum of n - limit and half of n, rounded
  up, go.
\<close>
theorem eviction_removes_at_most_half:
  assumes "list_all (\<lambda>e. now - ei_mtime e \<le> cp_maxAgeMs cache \<and> 0 \<le> ei_size e) entries"
    and "sum_list (map ei_size entries) \<le> cp_maxBytes cache" "0 \<le> cp_maxEntries cache"
  shows "length (fst (evictCache (\<lambda>d. True) cache now entries [])) =
    length entries - min (length entries - nat (cp_maxEntries cache)) ((length entries + 1) div 2)"
proof -
  let ?es = "sort_by (\<lambda>a b. ei_mtime a - ei_mtime b) entries"
  have "length (fst (evict_entries (\<lambda>d. True) cache now 0 ?es (sum_list (map ei_size entries)))) =
    length ?es - min (length ?es - nat (cp_maxEntries cache)) ((length ?es - 0 + 1) div 2)"
    by (rule evict_count) (use assms in \<open>auto simp: list_all_iff\<close>)
  then show ?thesis by (cases "evict_entries (\<lambda>d. True) cache now 0 ?es (sum_list (map ei_size entries))") (simp add: evictCache_def Let_def)
qed

definition demo_entry :: "nat \<Rightarrow> entry_info" where
  "demo_entry n = \<lparr> ei_recordDir = nat_str n, ei_mtime = int n, ei_size = 1, ei_blobPath = nat_str n \<rparr>"

theorem eviction_removes_at_most_half_witness:
  "length (fst (evictCache (\<lambda>d. True) \<lparr> cp_root = ''/c'', cp_maxBytes = 9, cp_maxAgeMs = 9, cp_maxEntries = 1 \<rparr> 5 (map demo_entry [1, 2, 3, 4]) [])) = 2"
  by (subst eviction_removes_at_most_half) (simp_all add: demo_entry_def)

definition demo_revision :: index_revision where
  "demo_revision = \<lparr> ix_repository = \<lparr> ri_owner = ''o'', ri_name = ''r'' \<rparr>, ix_head = ''h'', ix_graphifyVersion = ''1'',
     ix_indexSchemaVersion = ''1'', ix_sensitivePathPolicyVersion = ''1'', ix_manifestDigest = ''sha256:'', ix_indexRevision = ''x'', ix_createdAt = ''c'' \<rparr>"

definition demo_manifest :: source_manifest where
  "demo_manifest = \<lparr> sm_repository = ix_repository demo_revision, sm_head = ''h'',
     sm_entries = [\<lparr> me_relativePath = ''src/a.ts'', me_mode = 0, me_size = 1, me_digest = ''d'' \<rparr>], sm_digest = ''sha256:'' \<rparr>"

definition demo_record :: cache_record where
  "demo_record = \<lparr> cr_key = cacheKey demo_revision, cr_revision = demo_revision, cr_manifest = demo_manifest,
     cr_graphPath = ''/g'', cr_createdAt = Fin 0, cr_digest = ''d'' \<rparr>"

definition demo_graph :: js where
  "demo_graph = plain [(''nodes'', Arr [plain [(''id'', Str ''n1''), (''source_file'', Str ''./src/a.ts'')]]), (''links'', Arr [])]"

definition demo_touch :: "graph_error + touch_evidence" where
  "demo_touch = derivePredictedTouch (\<lambda>t. t) (\<lambda>k. Some demo_record) (\<lambda>p. demo_graph) demo_revision [''src'']"

theorem predicted_touch_grounded_witness:
  "\<exists>t. demo_touch = Inr t \<and> te_likelyUnits t = [''n1''] \<and> map fst (te_sourceProvenance t) = [''n1'']
     \<and> list_all (\<lambda>(u, path). safe_source demo_manifest path) (te_sourceProvenance t)"
proof -
  have d: "case_sum (\<lambda>e. False) (\<lambda>t. te_likelyUnits t = [''n1''] \<and> map fst (te_sourceProvenance t) = [''n1'']) demo_touch"
    by code_simp
  then obtain t where t: "demo_touch = Inr t" "te_likelyUnits t = [''n1'']" "map fst (te_sourceProvenance t) = [''n1'']"
    by (auto split: sum.splits)
  from predicted_touch_grounded [OF t(1) [unfolded demo_touch_def]] t show ?thesis
    by (auto simp: demo_record_def)
qed

end
