(* ===== verification/Js_Regex.thy ===== *)
theory Js_Regex
  imports Js_Values
begin

text \<open>
  Regular expressions as JavaScript runs them: by backtracking, so the matches from a
  position come in an order and the first one counts. A position is the text before it,
  reversed, the text after it and the captures so far. The patterns of the source repeat
  character classes only, which keeps the matcher structurally recursive.
\<close>

record pos =
  before :: string
  after :: string
  caps :: "(nat \<times> string) list"

datatype re =
    Cls "char \<Rightarrow> bool"
  | Rep nat "char \<Rightarrow> bool"
  | RepLazy nat "char \<Rightarrow> bool"
  | Seq re re
  | Alt re re
  | Opt re
  | Capture nat re
  | WordBoundary
  | LineStart
  | LineEnd

definition Lit :: "char \<Rightarrow> re" where
  "Lit c = Cls (\<lambda>d. d = c)"

fun Word :: "string \<Rightarrow> re" where
  "Word [] = Rep 0 (\<lambda>c. False)"
| "Word (c # cs) = Seq (Lit c) (Word cs)"

definition start_of :: "string \<Rightarrow> pos" where
  "start_of s = \<lparr> before = [], after = s, caps = [] \<rparr>"

definition advance :: "nat \<Rightarrow> pos \<Rightarrow> pos" where
  "advance n p = p \<lparr> before := rev (take n (after p)) @ before p, after := drop n (after p) \<rparr>"

definition word_char :: "char \<Rightarrow> bool" where
  "word_char c = (let n = of_char c :: nat in (48 \<le> n \<and> n \<le> 57) \<or> (65 \<le> n \<and> n \<le> 90) \<or> (97 \<le> n \<and> n \<le> 122) \<or> n = 95)"

definition newline :: "char \<Rightarrow> bool" where
  "newline c = (c = CHR 0x0A \<or> c = CHR 0x0D)"

definition head_is :: "(char \<Rightarrow> bool) \<Rightarrow> string \<Rightarrow> bool" where
  "head_is P s = (case s of [] \<Rightarrow> False | c # _ \<Rightarrow> P c)"

definition run_length :: "(char \<Rightarrow> bool) \<Rightarrow> string \<Rightarrow> nat" where
  "run_length P s = length (takeWhile P s)"

fun matches :: "re \<Rightarrow> pos \<Rightarrow> pos list" where
  "matches (Cls P) p = (if head_is P (after p) then [advance 1 p] else [])"
| "matches (Rep n P) p = map (\<lambda>k. advance k p) (rev [n..<Suc (run_length P (after p))])"
| "matches (RepLazy n P) p = map (\<lambda>k. advance k p) [n..<Suc (run_length P (after p))]"
| "matches (Seq r s) p = concat (map (matches s) (matches r p))"
| "matches (Alt r s) p = matches r p @ matches s p"
| "matches (Opt r) p = matches r p @ [p]"
| "matches (Capture k r) p =
     map (\<lambda>q. q \<lparr> caps := (k, take (length (after p) - length (after q)) (after p)) # caps q \<rparr>) (matches r p)"
| "matches WordBoundary p = (if head_is word_char (before p) \<noteq> head_is word_char (after p) then [p] else [])"
| "matches LineStart p = (if before p = [] \<or> head_is newline (before p) then [p] else [])"
| "matches LineEnd p = (if after p = [] \<or> head_is newline (after p) then [p] else [])"

definition capture :: "nat \<Rightarrow> pos \<Rightarrow> string" where
  "capture k p = (case map_of (caps p) k of Some s \<Rightarrow> s | None \<Rightarrow> [])"

text \<open>\<^verbatim>\<open>re.exec(s)\<close>: the first position with a match, and its first match.\<close>

fun search_from :: "re \<Rightarrow> string \<Rightarrow> string \<Rightarrow> pos option" where
  "search_from r b s =
     (case matches r \<lparr> before = b, after = s, caps = [] \<rparr> of
        q # _ \<Rightarrow> Some q
      | [] \<Rightarrow> (case s of [] \<Rightarrow> None | c # cs \<Rightarrow> search_from r (c # b) cs))"

declare search_from.simps [simp del]

definition re_exec :: "re \<Rightarrow> string \<Rightarrow> pos option" where
  "re_exec r s = search_from r [] s"

definition re_test :: "re \<Rightarrow> string \<Rightarrow> bool" where
  "re_test r s = (re_exec r s \<noteq> None)"

text \<open>
  The matches of a global expression, from left to right; \<open>skip\<close> counts the characters
  that the last match covers.
\<close>

fun all_matches :: "re \<Rightarrow> nat \<Rightarrow> string \<Rightarrow> string \<Rightarrow> pos list" where
  "all_matches r (Suc k) b (c # cs) = all_matches r k (c # b) cs"
| "all_matches r skip b [] = (if skip = 0 then matches r \<lparr> before = b, after = [], caps = [] \<rparr> else [])"
| "all_matches r 0 b (c # cs) =
     (case matches r \<lparr> before = b, after = c # cs, caps = [] \<rparr> of
        [] \<Rightarrow> all_matches r 0 (c # b) cs
      | q # _ \<Rightarrow> q # all_matches r (length cs - length (after q)) (c # b) cs)"

definition re_all :: "re \<Rightarrow> string \<Rightarrow> pos list" where
  "re_all r s = all_matches r 0 [] s"

text \<open>\<^verbatim>\<open>s.replace(re, w)\<close> with a global expression and a text without dollar signs.\<close>

fun replace_from :: "re \<Rightarrow> string \<Rightarrow> nat \<Rightarrow> string \<Rightarrow> string \<Rightarrow> string" where
  "replace_from r w (Suc k) b (c # cs) = replace_from r w k (c # b) cs"
| "replace_from r w skip b [] = (if skip = 0 \<and> matches r \<lparr> before = b, after = [], caps = [] \<rparr> \<noteq> [] then w else [])"
| "replace_from r w 0 b (c # cs) =
     (case matches r \<lparr> before = b, after = c # cs, caps = [] \<rparr> of
        [] \<Rightarrow> c # replace_from r w 0 (c # b) cs
      | q # _ \<Rightarrow> if length (after q) = Suc (length cs) then w @ c # replace_from r w 0 (c # b) cs
                 else w @ replace_from r w (length cs - length (after q)) (c # b) cs)"

definition re_replace :: "re \<Rightarrow> string \<Rightarrow> string \<Rightarrow> string" where
  "re_replace r w s = replace_from r w 0 [] s"

text \<open>Without the global flag only the first match is replaced.\<close>

fun replace_once :: "re \<Rightarrow> string \<Rightarrow> string \<Rightarrow> string \<Rightarrow> string" where
  "replace_once r w b [] = (if matches r \<lparr> before = b, after = [], caps = [] \<rparr> \<noteq> [] then w else [])"
| "replace_once r w b (c # cs) =
     (case matches r \<lparr> before = b, after = c # cs, caps = [] \<rparr> of
        [] \<Rightarrow> c # replace_once r w (c # b) cs
      | q # _ \<Rightarrow> w @ after q)"

definition any_char :: "char \<Rightarrow> bool" where "any_char c = True"

definition ignore_case :: "(char \<Rightarrow> bool) \<Rightarrow> char \<Rightarrow> bool" where
  "ignore_case P c = (let n = of_char c :: nat in
     P c \<or> (65 \<le> n \<and> n \<le> 90 \<and> P (char_of (n + 32))) \<or> (97 \<le> n \<and> n \<le> 122 \<and> P (char_of (n - 32))))"

text \<open>The flag \<^verbatim>\<open>i\<close>.\<close>

fun caseless :: "re \<Rightarrow> re" where
  "caseless (Cls P) = Cls (ignore_case P)"
| "caseless (Rep n P) = Rep n (ignore_case P)"
| "caseless (RepLazy n P) = RepLazy n (ignore_case P)"
| "caseless (Seq r s) = Seq (caseless r) (caseless s)"
| "caseless (Alt r s) = Alt (caseless r) (caseless s)"
| "caseless (Opt r) = Opt (caseless r)"
| "caseless (Capture k r) = Capture k (caseless r)"
| "caseless r = r"

end
