(* ===== verification/Doc_Discovery.thy ===== *)
theory Doc_Discovery
  imports Graph_Index Js_Regex
begin

text \<open>
  Discovery of the documentation of a target repository
  (\<^verbatim>\<open>codebase-knowledge/documentation-discovery.ts\<close>): breadth-first from the root
  instruction files along Markdown and wiki links, over files of the manifest, with a depth
  and a page budget. \<open>read\<close> is the text of a regular file, if it can be read, and \<open>sha\<close>
  its SHA-256.
\<close>

section \<open>Links\<close>

definition ROOT_INDEX_NAMES :: "string list" where
  "ROOT_INDEX_NAMES = [''AGENTS.md'', ''README.md'', ''readme.md'']"

definition basename :: "string \<Rightarrow> string" where
  "basename p = (case filter (\<lambda>s. s \<noteq> []) (split_char (CHR ''/'') p) of [] \<Rightarrow> [] | ss \<Rightarrow> last ss)"

definition dirname :: "string \<Rightarrow> string" where
  "dirname p = (case last_index_of (CHR ''/'') p of None \<Rightarrow> ''.'' | Some i \<Rightarrow> if i = 0 then ''/'' else take i p)"

definition extname :: "string \<Rightarrow> string" where
  "extname b = (case last_index_of (CHR ''.'') b of None \<Rightarrow> [] | Some i \<Rightarrow> if i = 0 then [] else drop i b)"

definition ascii_lower :: "string \<Rightarrow> string" where
  "ascii_lower = map (\<lambda>c. let n = of_char c :: nat in if 65 \<le> n \<and> n \<le> 90 then char_of (n + 32) else c)"

definition isRootIndex :: "string \<Rightarrow> bool" where
  "isRootIndex relativePath = (basename relativePath \<in> set ROOT_INDEX_NAMES)"

definition isDocumentationPath :: "string \<Rightarrow> bool" where
  "isDocumentationPath relativePath =
     (isRootIndex relativePath \<or> ascii_lower (extname (basename relativePath)) \<in> set [''.md''])"

definition resolveLink :: "string \<Rightarrow> string \<Rightarrow> string option" where
  "resolveLink raw sourcePath =
     (let cleaned = hd (split_char (CHR ''?'') (hd (split_char (CHR ''#'') raw))) in
      if cleaned = [] then None
      else if list_ex (\<lambda>scheme. prefix scheme cleaned) [''http://'', ''https://'', ''mailto:'', ''file://''] then None
      else if sublist ''..'' cleaned then None
      else let base = dirname sourcePath; joined = (if base = ''.'' then cleaned else base @ ''/'' @ cleaned) in
        (case normalizeRelativePath (Str joined) of Inl _ \<Rightarrow> None | Inr p \<Rightarrow> Some p))"

definition MARKDOWN_LINK_RE :: re where
  "MARKDOWN_LINK_RE = Seq (Lit (CHR ''['')) (Seq (Capture 1 (Rep 1 (\<lambda>c. c \<noteq> CHR '']''))) (Seq (Word '']('')
     (Seq (Capture 2 (Rep 1 (\<lambda>c. c \<noteq> CHR '')''))) (Lit (CHR '')'')))))"

definition OBSIDIAN_LINK_RE :: re where
  "OBSIDIAN_LINK_RE = Seq (Word ''[['') (Seq (Capture 1 (Rep 1 (\<lambda>c. c \<noteq> CHR '']'' \<and> c \<noteq> CHR ''|'')))
     (Seq (Opt (Seq (Lit (CHR ''|'')) (Rep 1 (\<lambda>c. c \<noteq> CHR '']'')))) (Word '']]'')))"

text \<open>The links that resolve to a non-empty path, each once, in order.\<close>

definition resolved_once :: "string option list \<Rightarrow> string list" where
  "resolved_once rs = fold (\<lambda>r links. case r of Some p \<Rightarrow> if p = [] \<or> p \<in> set links then links else links @ [p] | None \<Rightarrow> links) rs []"

definition parseMarkdownLinks :: "string \<Rightarrow> string \<Rightarrow> string list" where
  "parseMarkdownLinks text sourcePath =
     resolved_once (map (\<lambda>m. resolveLink (capture 2 m) sourcePath) (re_all MARKDOWN_LINK_RE text))"

definition obsidian_target :: "pos \<Rightarrow> string" where
  "obsidian_target m = trim (hd (split_char (CHR ''|'') (hd (split_char (CHR ''#'') (capture 1 m)))))"

definition parseObsidianLinks :: "string \<Rightarrow> string \<Rightarrow> string list" where
  "parseObsidianLinks text sourcePath =
     resolved_once (map (\<lambda>m. let target = obsidian_target m in
         if target = [] then None else resolveLink (if suffix ''.md'' target then target else target @ ''.md'') sourcePath)
       (re_all OBSIDIAN_LINK_RE text))"

definition discoverLinks :: "string \<Rightarrow> string \<Rightarrow> string list" where
  "discoverLinks text sourcePath = parseMarkdownLinks text sourcePath @ parseObsidianLinks text sourcePath"

section \<open>Front matter and titles\<close>

definition drop_cr :: "string \<Rightarrow> string" where
  "drop_cr l = (if l \<noteq> [] \<and> last l = CHR 0x0D then butlast l else l)"

definition split_lines :: "string \<Rightarrow> string list" where
  "split_lines s = (let ls = split_char (CHR 0x0A) s in map drop_cr (butlast ls) @ [last ls])"

definition unquote :: "string \<Rightarrow> string" where
  "unquote v = (if (prefix [CHR 0x22] v \<and> suffix [CHR 0x22] v) \<or> (prefix [CHR 0x27] v \<and> suffix [CHR 0x27] v)
     then butlast (drop 1 v) else v)"

definition front_field :: "string \<Rightarrow> (string \<times> string) option" where
  "front_field line = map_option (\<lambda>i. (trim (take i line), unquote (trim (drop (Suc i) line)))) (index_of_from line '':'' 0)"

text \<open>Later fields overwrite earlier ones: the list is looked up from its end.\<close>

definition parseFrontmatter :: "string \<Rightarrow> (string \<times> string) list" where
  "parseFrontmatter text =
     (if \<not> prefix (''---'' @ [CHR 0x0A]) text \<and> \<not> prefix (''---'' @ [CHR 0x0D, CHR 0x0A]) text then []
      else case index_of_from text (CHR 0x0A # ''---'') 4 of
        None \<Rightarrow> []
      | Some end_at \<Rightarrow> List.map_filter front_field (split_lines (drop 4 (take end_at text))))"

definition front_value :: "(string \<times> string) list \<Rightarrow> string \<Rightarrow> string" where
  "front_value fm key = (case map_of (rev fm) key of Some v \<Rightarrow> v | None \<Rightarrow> [])"

definition TITLE_RE :: re where
  "TITLE_RE = Seq LineStart (Seq (Lit (CHR ''#'')) (Seq (Rep 1 is_ws) (Seq (Capture 1 (Rep 1 (\<lambda>c. \<not> newline c))) LineEnd)))"

definition parseTitle :: "string \<Rightarrow> string" where
  "parseTitle text =
     (let t = front_value (parseFrontmatter text) ''title'' in
      if t \<noteq> [] then t else case re_exec TITLE_RE text of None \<Rightarrow> [] | Some m \<Rightarrow> trim (capture 1 m))"

section \<open>Discovery\<close>

record documentation_page =
  dp_title :: string
  dp_sourcePath :: string
  dp_rawSourcePath :: string
  dp_indexPath :: "string option"

datatype doc_status = Available | Unavailable | Truncated

record documentation_result =
  dr_available :: bool
  dr_status :: doc_status
  dr_pages :: "documentation_page list"
  dr_reason :: "string option"

text \<open>The manifest entry of a path, as the map from paths to entries answers.\<close>

definition entry_of :: "source_manifest \<Rightarrow> string \<Rightarrow> manifest_entry option" where
  "entry_of manifest path = map_of (rev (map (\<lambda>e. (me_relativePath e, e)) (sm_entries manifest))) path"

text \<open>The text of a page: a documentation file of the manifest that still has its digest.\<close>

definition page_text :: "(string \<Rightarrow> string option) \<Rightarrow> (string \<Rightarrow> string) \<Rightarrow> source_manifest \<Rightarrow> string \<Rightarrow> string option" where
  "page_text read sha manifest path =
     (case entry_of manifest path of
        None \<Rightarrow> None
      | Some e \<Rightarrow>
          if \<not> isDocumentationPath path then None
          else case read path of
            None \<Rightarrow> None
          | Some text \<Rightarrow> if ''sha256:'' @ sha text \<noteq> me_digest e then None else Some text)"

definition page_of :: "string \<Rightarrow> string \<Rightarrow> string option \<Rightarrow> string + documentation_page" where
  "page_of text path indexPath =
     (let fm = parseFrontmatter text; canonical = front_value fm ''canonical_source''; source = front_value fm ''source'';
          rawSource = (if canonical \<noteq> [] then canonical else if source \<noteq> [] then source else path) in
      map_sum id (\<lambda>raw. \<lparr> dp_title = (if parseTitle text \<noteq> [] then parseTitle text else path), dp_sourcePath = path,
          dp_rawSourcePath = raw, dp_indexPath = indexPath \<rparr>) (normalizeRelativePath (Str rawSource)))"

record walk =
  wk_pages :: "documentation_page list"
  wk_visited :: "string list"
  wk_queue :: "(string \<times> string option) list"
  wk_truncated :: bool

definition mark :: "string \<Rightarrow> walk \<Rightarrow> walk" where
  "mark path w = w \<lparr> wk_visited := path # wk_visited w \<rparr>"

definition add_page :: "source_manifest \<Rightarrow> int \<Rightarrow> nat \<Rightarrow> string \<Rightarrow> string \<Rightarrow> documentation_page \<Rightarrow> walk \<Rightarrow> walk" where
  "add_page manifest maxDepth depth path text page w =
     w \<lparr> wk_pages := wk_pages w @ [page],
         wk_queue := wk_queue w @ (if int depth < maxDepth
           then map (\<lambda>l. (l, Some path)) (filter (\<lambda>l. l \<notin> set (wk_visited w) \<and> entry_of manifest l \<noteq> None) (discoverLinks text path))
           else []) \<rparr>"

text \<open>One level of the queue; all its items have the same depth.\<close>

fun visit_level ::
  "(string \<Rightarrow> string option) \<Rightarrow> (string \<Rightarrow> string) \<Rightarrow> source_manifest \<Rightarrow> int \<Rightarrow> int \<Rightarrow> nat
    \<Rightarrow> (string \<times> string option) list \<Rightarrow> walk \<Rightarrow> string + walk" where
  "visit_level read sha manifest maxPages maxDepth depth [] w = Inr w"
| "visit_level read sha manifest maxPages maxDepth depth ((path, indexPath) # level) w =
     (if maxPages \<le> int (length (wk_pages w)) then Inr (w \<lparr> wk_truncated := True \<rparr>)
      else if path \<in> set (wk_visited w) then visit_level read sha manifest maxPages maxDepth depth level w
      else case page_text read sha manifest path of
        None \<Rightarrow> visit_level read sha manifest maxPages maxDepth depth level (mark path w)
      | Some text \<Rightarrow>
          (case page_of text path indexPath of
             Inl e \<Rightarrow> Inl e
           | Inr page \<Rightarrow> visit_level read sha manifest maxPages maxDepth depth level
               (add_page manifest maxDepth depth path text page (mark path w))))"

lemma visit_level_deepest:
  "visit_level read sha manifest maxPages maxDepth depth level w = Inr w' \<Longrightarrow> maxDepth \<le> int depth \<Longrightarrow> wk_queue w' = wk_queue w"
  by (induction read sha manifest maxPages maxDepth depth level w rule: visit_level.induct)
     (auto simp: mark_def add_page_def split: if_splits option.splits sum.splits)

function visit_levels ::
  "(string \<Rightarrow> string option) \<Rightarrow> (string \<Rightarrow> string) \<Rightarrow> source_manifest \<Rightarrow> int \<Rightarrow> int \<Rightarrow> nat \<Rightarrow> walk \<Rightarrow> string + walk" where
  "visit_levels read sha manifest maxPages maxDepth depth w =
     (if wk_queue w = [] then Inr w
      else case visit_level read sha manifest maxPages maxDepth depth (wk_queue w) (w \<lparr> wk_queue := [] \<rparr>) of
        Inl e \<Rightarrow> Inl e
      | Inr w' \<Rightarrow> if wk_truncated w' then Inr w' else visit_levels read sha manifest maxPages maxDepth (Suc depth) w')"
  by pat_completeness auto
termination
proof (relation "measure (\<lambda>(read, sha, manifest, maxPages, maxDepth, depth, w). if wk_queue w = [] then 0 else Suc (nat (maxDepth - int depth)))", goal_cases)
  case (2 read sha manifest maxPages maxDepth depth w w')
  then have "wk_queue w' = []" if "maxDepth \<le> int depth"
    using visit_level_deepest [OF _ that, of read sha manifest maxPages "wk_queue w" "w \<lparr> wk_queue := [] \<rparr>" w'] by simp
  with 2 show ?case by (cases "maxDepth \<le> int depth") auto
qed simp

declare visit_levels.simps [simp del]

definition doc_roots :: "source_manifest \<Rightarrow> string list" where
  "doc_roots manifest = map me_relativePath
     (sort_by (\<lambda>a b. (if basename (me_relativePath a) = ''AGENTS.md'' then 0 else 1) - (if basename (me_relativePath b) = ''AGENTS.md'' then 0 else 1))
       (filter (\<lambda>e. isRootIndex (me_relativePath e)) (sm_entries manifest)))"

definition discoverDocumentation ::
  "(string \<Rightarrow> string option) \<Rightarrow> (string \<Rightarrow> string) \<Rightarrow> source_manifest \<Rightarrow> int \<Rightarrow> int \<Rightarrow> string + documentation_result" where
  "discoverDocumentation read sha manifest maxPages maxDepth =
     map_sum id (\<lambda>w.
       if wk_pages w = []
       then \<lparr> dr_available = False, dr_status = Unavailable, dr_pages = [], dr_reason = Some ''no documentation indexes found in manifest'' \<rparr>
       else \<lparr> dr_available = True, dr_status = (if wk_truncated w then Truncated else Available), dr_pages = wk_pages w,
              dr_reason = (if wk_truncated w then Some (''page budget '' @ int_str maxPages @ '' reached'') else None) \<rparr>)
     (visit_levels read sha manifest maxPages maxDepth 0
       \<lparr> wk_pages = [], wk_visited = [], wk_queue = map (\<lambda>p. (p, None)) (doc_roots manifest), wk_truncated = False \<rparr>)"

end
