(* ===== verification/Doc_Properties.thy ===== *)
theory Doc_Properties
  imports Doc_Discovery Graph_Properties
begin

text \<open>
  Documentation discovery is breadth-first search: without truncation its pages are exactly
  the readable documentation files within the depth limit of a root, each once, and it
  always ends. The levels of the queue are compared with the sets of paths that are
  reachable in so many links.
\<close>

section \<open>Reference\<close>

definition is_page :: "(string \<Rightarrow> string option) \<Rightarrow> (string \<Rightarrow> string) \<Rightarrow> source_manifest \<Rightarrow> string \<Rightarrow> bool" where
  "is_page read sha manifest p \<longleftrightarrow> page_text read sha manifest p \<noteq> None"

definition doc_links :: "(string \<Rightarrow> string option) \<Rightarrow> (string \<Rightarrow> string) \<Rightarrow> source_manifest \<Rightarrow> string \<Rightarrow> string set" where
  "doc_links read sha manifest p = (case page_text read sha manifest p of None \<Rightarrow> {}
     | Some text \<Rightarrow> {l \<in> set (discoverLinks text p). entry_of manifest l \<noteq> None})"

fun doc_reach :: "(string \<Rightarrow> string option) \<Rightarrow> (string \<Rightarrow> string) \<Rightarrow> source_manifest \<Rightarrow> nat \<Rightarrow> string set" where
  "doc_reach read sha manifest 0 = set (doc_roots manifest)"
| "doc_reach read sha manifest (Suc n) =
     doc_reach read sha manifest n \<union> (\<Union>p \<in> doc_reach read sha manifest n. doc_links read sha manifest p)"

lemma doc_reach_stable:
  assumes "doc_reach read sha manifest (Suc n) = doc_reach read sha manifest n"
  shows "n \<le> m \<Longrightarrow> doc_reach read sha manifest m = doc_reach read sha manifest n"
proof (induction m)
  case (Suc m)
  show ?case
  proof (cases "n = Suc m")
    case False
    with Suc show ?thesis using assms by simp
  qed simp
qed simp

section \<open>One level\<close>

definition walk_inv :: "(string \<Rightarrow> string option) \<Rightarrow> (string \<Rightarrow> string) \<Rightarrow> source_manifest \<Rightarrow> int \<Rightarrow> walk \<Rightarrow> bool" where
  "walk_inv read sha manifest maxPages w \<longleftrightarrow> distinct (map dp_sourcePath (wk_pages w))
     \<and> set (map dp_sourcePath (wk_pages w)) = {p \<in> set (wk_visited w). is_page read sha manifest p}
     \<and> (wk_pages w = [] \<or> int (length (wk_pages w)) \<le> maxPages)
     \<and> (wk_truncated w \<longrightarrow> maxPages \<le> int (length (wk_pages w)))"

lemma walk_fields [simp]:
  "wk_visited (mark path w) = path # wk_visited w" "wk_pages (mark path w) = wk_pages w"
  "wk_queue (mark path w) = wk_queue w" "wk_truncated (mark path w) = wk_truncated w"
  "wk_visited (add_page manifest maxDepth depth path tx page w) = wk_visited w"
  "wk_pages (add_page manifest maxDepth depth path tx page w) = wk_pages w @ [page]"
  "wk_truncated (add_page manifest maxDepth depth path tx page w) = wk_truncated w"
  by (simp_all add: mark_def add_page_def)

lemma queue_add_page:
  "set (wk_queue (add_page manifest maxDepth depth path tx page w)) =
     set (wk_queue w) \<union> (\<lambda>l. (l, Some path)) ` (if int depth < maxDepth
       then {l \<in> set (discoverLinks tx path). l \<notin> set (wk_visited w) \<and> entry_of manifest l \<noteq> None} else {})"
  by (auto simp: add_page_def)

lemma page_of_source: "page_of tx path ip = Inr page \<Longrightarrow> dp_sourcePath page = path"
  by (auto simp: page_of_def Let_def map_sum_def split: sum.splits)

text \<open>What happens to the first item of a level.\<close>

lemma visit_first:
  assumes "visit_level read sha manifest maxPages maxDepth depth ((path, ip) # level) w = Inr w'"
  obtains (full) "maxPages \<le> int (length (wk_pages w))" "w' = w \<lparr> wk_truncated := True \<rparr>"
    | (seen) "\<not> maxPages \<le> int (length (wk_pages w))" "path \<in> set (wk_visited w)"
        "visit_level read sha manifest maxPages maxDepth depth level w = Inr w'"
    | (skip) "\<not> maxPages \<le> int (length (wk_pages w))" "path \<notin> set (wk_visited w)" "page_text read sha manifest path = None"
        "visit_level read sha manifest maxPages maxDepth depth level (mark path w) = Inr w'"
    | (page) tx page where "\<not> maxPages \<le> int (length (wk_pages w))" "path \<notin> set (wk_visited w)"
        "page_text read sha manifest path = Some tx" "page_of tx path ip = Inr page"
        "visit_level read sha manifest maxPages maxDepth depth level (add_page manifest maxDepth depth path tx page (mark path w)) = Inr w'"
  using assms by (fastforce split: if_splits option.splits sum.splits)

lemma visit_level_inv:
  "visit_level read sha manifest maxPages maxDepth depth level w = Inr w' \<Longrightarrow>
     walk_inv read sha manifest maxPages w \<Longrightarrow> \<not> wk_truncated w \<Longrightarrow> walk_inv read sha manifest maxPages w'"
proof (induction read sha manifest maxPages maxDepth depth level w rule: visit_level.induct)
  case (2 read sha manifest maxPages maxDepth depth path ip level w)
  from "2.prems"(1) show ?case
  proof (cases rule: visit_first)
    case full
    then show ?thesis using "2.prems" by (auto simp: walk_inv_def)
  next
    case seen
    then show ?thesis using "2.IH"(1) "2.prems" by blast
  next
    case skip
    have "walk_inv read sha manifest maxPages (mark path w)"
      using "2.prems"(2) skip(3) by (auto simp: walk_inv_def is_page_def)
    then show ?thesis using "2.IH"(2) [OF skip] "2.prems"(3) by simp
  next
    case (page tx page)
    have "path \<notin> dp_sourcePath ` set (wk_pages w)" using "2.prems"(2) page(2) by (auto simp: walk_inv_def)
    then have "walk_inv read sha manifest maxPages (add_page manifest maxDepth depth path tx page (mark path w))"
      using "2.prems"(2,3) page(1-3) page_of_source [OF page(4)] by (auto simp: walk_inv_def is_page_def)
    then show ?thesis using "2.IH"(3) [OF page] "2.prems"(3) by simp
  qed
qed simp

lemma visit_level_reach:
  "visit_level read sha manifest maxPages maxDepth depth level w = Inr w' \<Longrightarrow> \<not> wk_truncated w' \<Longrightarrow>
     set (wk_visited w') = set (wk_visited w) \<union> fst ` set level \<and> set (wk_queue w) \<subseteq> set (wk_queue w')
     \<and> (int depth < maxDepth \<longrightarrow>
          fst ` set (wk_queue w') \<subseteq> fst ` set (wk_queue w) \<union> (\<Union>p \<in> fst ` set level. doc_links read sha manifest p)
          \<and> (\<forall>p \<in> fst ` set level - set (wk_visited w). doc_links read sha manifest p \<subseteq> set (wk_visited w') \<union> fst ` set (wk_queue w')))"
proof (induction read sha manifest maxPages maxDepth depth level w rule: visit_level.induct)
  case (2 read sha manifest maxPages maxDepth depth path ip level w)
  from "2.prems"(1) show ?case
  proof (cases rule: visit_first)
    case full
    then show ?thesis using "2.prems"(2) by simp
  next
    case seen
    have same: "fst ` set ((path, ip) # level) - set (wk_visited w) = fst ` set level - set (wk_visited w)" using seen(2) by auto
    note IH = "2.IH"(1) [OF seen(1,2,3) "2.prems"(2)]
    show ?thesis
    proof (intro conjI impI)
      show "set (wk_visited w') = set (wk_visited w) \<union> fst ` set ((path, ip) # level)" using IH seen(2) by auto
      show "set (wk_queue w) \<subseteq> set (wk_queue w')" using IH by blast
      assume d: "int depth < maxDepth"
      have IH3: "fst ` set (wk_queue w') \<subseteq> fst ` set (wk_queue w) \<union> (\<Union>p \<in> fst ` set level. doc_links read sha manifest p)"
        "\<forall>p \<in> fst ` set level - set (wk_visited w). doc_links read sha manifest p \<subseteq> set (wk_visited w') \<union> fst ` set (wk_queue w')"
        using IH d by blast+
      show "fst ` set (wk_queue w') \<subseteq> fst ` set (wk_queue w) \<union> (\<Union>p \<in> fst ` set ((path, ip) # level). doc_links read sha manifest p)"
        using IH3(1) by auto
      show "\<forall>p \<in> fst ` set ((path, ip) # level) - set (wk_visited w). doc_links read sha manifest p \<subseteq> set (wk_visited w') \<union> fst ` set (wk_queue w')"
        unfolding same by (rule IH3(2))
    qed
  next
    case skip
    have "doc_links read sha manifest path = {}" using skip(3) by (simp add: doc_links_def)
    note none = this
    note IH = "2.IH"(2) [OF skip(1-4) "2.prems"(2)]
    show ?thesis
    proof (intro conjI impI)
      show "set (wk_visited w') = set (wk_visited w) \<union> fst ` set ((path, ip) # level)" using IH by auto
      show "set (wk_queue w) \<subseteq> set (wk_queue w')" using IH by auto
      assume d: "int depth < maxDepth"
      have IH3: "fst ` set (wk_queue w') \<subseteq> fst ` set (wk_queue (mark path w)) \<union> (\<Union>p \<in> fst ` set level. doc_links read sha manifest p)"
        "\<forall>p \<in> fst ` set level - set (wk_visited (mark path w)). doc_links read sha manifest p \<subseteq> set (wk_visited w') \<union> fst ` set (wk_queue w')"
        using IH d by blast+
      show "fst ` set (wk_queue w') \<subseteq> fst ` set (wk_queue w) \<union> (\<Union>p \<in> fst ` set ((path, ip) # level). doc_links read sha manifest p)"
        using IH3(1) by auto
      show "\<forall>p \<in> fst ` set ((path, ip) # level) - set (wk_visited w). doc_links read sha manifest p \<subseteq> set (wk_visited w') \<union> fst ` set (wk_queue w')"
        using IH3(2) none by auto
    qed
  next
    case (page tx page)
    let ?w = "add_page manifest maxDepth depth path tx page (mark path w)"
    note IH = "2.IH"(3) [OF page "2.prems"(2)]
    have own: "doc_links read sha manifest path = {l \<in> set (discoverLinks tx path). entry_of manifest l \<noteq> None}"
      using page(3) by (simp add: doc_links_def)
    show ?thesis
    proof (intro conjI impI)
      show "set (wk_visited w') = set (wk_visited w) \<union> fst ` set ((path, ip) # level)" using IH by auto
      show "set (wk_queue w) \<subseteq> set (wk_queue w')" using IH queue_add_page [of manifest maxDepth depth path tx page "mark path w"] by auto
      assume d: "int depth < maxDepth"
      have fq: "fst ` set (wk_queue ?w) = fst ` set (wk_queue w) \<union> (doc_links read sha manifest path - insert path (set (wk_visited w)))"
        unfolding queue_add_page own using d by (auto simp: image_Un image_image)
      have IH3: "fst ` set (wk_queue w') \<subseteq> fst ` set (wk_queue ?w) \<union> (\<Union>p \<in> fst ` set level. doc_links read sha manifest p)"
        "\<forall>p \<in> fst ` set level - set (wk_visited ?w). doc_links read sha manifest p \<subseteq> set (wk_visited w') \<union> fst ` set (wk_queue w')"
        using IH d by blast+
      show "fst ` set (wk_queue w') \<subseteq> fst ` set (wk_queue w) \<union> (\<Union>p \<in> fst ` set ((path, ip) # level). doc_links read sha manifest p)"
        using IH3(1) unfolding fq by auto
      have "fst ` set (wk_queue ?w) \<subseteq> fst ` set (wk_queue w')" "insert path (set (wk_visited w)) \<subseteq> set (wk_visited w')"
        using IH by (blast, auto)
      then have "doc_links read sha manifest path \<subseteq> set (wk_visited w') \<union> fst ` set (wk_queue w')" unfolding fq by blast
      then show "\<forall>p \<in> fst ` set ((path, ip) # level) - set (wk_visited w). doc_links read sha manifest p \<subseteq> set (wk_visited w') \<union> fst ` set (wk_queue w')"
        using IH3(2) by auto
    qed
  qed
qed simp

section \<open>All levels\<close>

definition reach_before :: "(string \<Rightarrow> string option) \<Rightarrow> (string \<Rightarrow> string) \<Rightarrow> source_manifest \<Rightarrow> nat \<Rightarrow> string set" where
  "reach_before read sha manifest d = (if d = 0 then {} else doc_reach read sha manifest (d - 1))"

lemma links_before:
  "(\<Union>p \<in> reach_before read sha manifest d. doc_links read sha manifest p) \<subseteq> doc_reach read sha manifest d"
  by (cases d) (auto simp: reach_before_def)

lemma visit_levels_inv:
  "visit_levels read sha manifest maxPages maxDepth depth w = Inr w' \<Longrightarrow>
     walk_inv read sha manifest maxPages w \<Longrightarrow> \<not> wk_truncated w \<Longrightarrow> walk_inv read sha manifest maxPages w'"
proof (induction read sha manifest maxPages maxDepth depth w rule: visit_levels.induct)
  case (1 read sha manifest maxPages maxDepth depth w)
  show ?case
  proof (cases "wk_queue w = []")
    case True
    then show ?thesis using "1.prems" by (simp add: visit_levels.simps [of _ _ _ _ _ _ w])
  next
    case False
    then obtain v where v: "visit_level read sha manifest maxPages maxDepth depth (wk_queue w) (w \<lparr> wk_queue := [] \<rparr>) = Inr v"
        "(if wk_truncated v then Inr v else visit_levels read sha manifest maxPages maxDepth (Suc depth) v) = Inr w'"
      using "1.prems"(1) by (auto simp: visit_levels.simps [of _ _ _ _ _ _ w] split: sum.splits)
    have "walk_inv read sha manifest maxPages v"
      by (rule visit_level_inv [OF v(1)]) (use "1.prems"(2,3) in \<open>simp_all add: walk_inv_def\<close>)
    then show ?thesis using "1.IH" [OF False v(1)] v(2) by (cases "wk_truncated v") auto
  qed
qed

lemma visit_levels_reach:
  "visit_levels read sha manifest maxPages maxDepth depth w = Inr w' \<Longrightarrow> \<not> wk_truncated w' \<Longrightarrow> \<not> wk_truncated w \<Longrightarrow>
     set (wk_visited w) = reach_before read sha manifest depth \<Longrightarrow>
     set (wk_visited w) \<union> fst ` set (wk_queue w) = doc_reach read sha manifest (min depth (nat maxDepth)) \<Longrightarrow>
     depth \<le> nat maxDepth \<or> (depth = Suc (nat maxDepth) \<and> wk_queue w = []) \<Longrightarrow>
     set (wk_visited w') = doc_reach read sha manifest (nat maxDepth)"
proof (induction read sha manifest maxPages maxDepth depth w rule: visit_levels.induct)
  case (1 read sha manifest maxPages maxDepth depth w)
  show ?case
  proof (cases "wk_queue w = []")
    case True
    then have w': "w' = w" using "1.prems"(1) by (simp add: visit_levels.simps [of _ _ _ _ _ _ w])
    show ?thesis
    proof (cases "depth \<le> nat maxDepth")
      case le: True
      then have eq: "reach_before read sha manifest depth = doc_reach read sha manifest depth" using "1.prems"(4,5) True by simp
      have "doc_reach read sha manifest (Suc depth) = doc_reach read sha manifest depth"
        using links_before [of read sha manifest depth] unfolding eq by auto
      from doc_reach_stable [OF this le] show ?thesis using "1.prems"(4) eq w' by simp
    next
      case False
      then show ?thesis using "1.prems"(5,6) True w' by simp
    qed
  next
    case False
    then have d: "depth \<le> nat maxDepth" using "1.prems"(6) by blast
    obtain v where v: "visit_level read sha manifest maxPages maxDepth depth (wk_queue w) (w \<lparr> wk_queue := [] \<rparr>) = Inr v"
        "(if wk_truncated v then Inr v else visit_levels read sha manifest maxPages maxDepth (Suc depth) v) = Inr w'"
      using "1.prems"(1) False by (auto simp: visit_levels.simps [of _ _ _ _ _ _ w] split: sum.splits)
    have nt: "\<not> wk_truncated v" using v(2) "1.prems"(2) by (auto split: if_splits)
    note lv = visit_level_reach [OF v(1) nt]
    have vis: "set (wk_visited v) = doc_reach read sha manifest depth" using lv "1.prems"(5) d by simp
    then have before: "set (wk_visited v) = reach_before read sha manifest (Suc depth)" by (simp add: reach_before_def)
    have rest: "set (wk_visited v) \<union> fst ` set (wk_queue v) = doc_reach read sha manifest (min (Suc depth) (nat maxDepth))
        \<and> (Suc depth \<le> nat maxDepth \<or> (Suc depth = Suc (nat maxDepth) \<and> wk_queue v = []))"
    proof (cases "int depth < maxDepth")
      case True
      let ?L = "\<lambda>S. \<Union>p \<in> S. doc_links read sha manifest p"
      have queued: "fst ` set (wk_queue w) \<subseteq> doc_reach read sha manifest depth" using "1.prems"(5) d by auto
      have fields: "wk_visited (w \<lparr> wk_queue := [] \<rparr>) = wk_visited w" "set (wk_queue (w \<lparr> wk_queue := [] \<rparr>)) = {}" by simp_all
      have lv2: "fst ` set (wk_queue v) \<subseteq> ?L (fst ` set (wk_queue w))"
        "\<forall>p \<in> fst ` set (wk_queue w) - set (wk_visited w). doc_links read sha manifest p \<subseteq> set (wk_visited v) \<union> fst ` set (wk_queue v)"
        using lv True unfolding fields by blast+
      have new: "fst ` set (wk_queue w) - set (wk_visited w) = doc_reach read sha manifest depth - reach_before read sha manifest depth"
        using "1.prems"(4,5) d by auto
      have "?L (doc_reach read sha manifest depth) \<subseteq> ?L (reach_before read sha manifest depth) \<union> ?L (fst ` set (wk_queue w) - set (wk_visited w))"
        unfolding new by blast
      then have "?L (doc_reach read sha manifest depth) \<subseteq> set (wk_visited v) \<union> fst ` set (wk_queue v)"
        using lv2(2) links_before [of read sha manifest depth] vis by blast
      moreover have "fst ` set (wk_queue v) \<subseteq> ?L (doc_reach read sha manifest depth)" using lv2(1) queued by blast
      moreover have "min (Suc depth) (nat maxDepth) = Suc depth" "Suc depth \<le> nat maxDepth" using True by linarith+
      ultimately show ?thesis using vis by auto
    next
      case no: False
      then have "wk_queue v = []" using visit_level_deepest [OF v(1)] by simp
      moreover have "depth = nat maxDepth" using d no by linarith
      ultimately show ?thesis using vis by simp
    qed
    then show ?thesis using "1.IH" [OF False v(1) nt] v(2) nt "1.prems"(2) before by simp
  qed
qed

text \<open>
  C26. Documentation discovery is breadth-first search: whenever it returns, its pages are
  distinct, within the page budget, and documentation files of the manifest that still
  have their recorded digest; unless it was cut off by the budget they are all such files
  within the depth limit of a root instruction file, and no others.
\<close>
theorem discovery_is_breadth_first:
  assumes "discoverDocumentation read sha manifest maxPages maxDepth = Inr r"
  shows "distinct (map dp_sourcePath (dr_pages r)) \<and> (dr_pages r = [] \<or> int (length (dr_pages r)) \<le> maxPages)
     \<and> list_all (\<lambda>p. is_page read sha manifest (dp_sourcePath p)) (dr_pages r)
     \<and> (dr_status r = Truncated \<or> maxPages \<le> 0
        \<or> set (map dp_sourcePath (dr_pages r)) = {p \<in> doc_reach read sha manifest (nat maxDepth). is_page read sha manifest p})"
proof -
  let ?w = "\<lparr> wk_pages = [], wk_visited = [], wk_queue = map (\<lambda>p. (p, None)) (doc_roots manifest), wk_truncated = False \<rparr>"
  obtain w where w: "visit_levels read sha manifest maxPages maxDepth 0 ?w = Inr w" "dr_pages r = wk_pages w"
      "dr_status r = Truncated \<longleftrightarrow> wk_pages w \<noteq> [] \<and> wk_truncated w"
    using assms by (cases "visit_levels read sha manifest maxPages maxDepth 0 ?w") (auto simp: discoverDocumentation_def split: if_splits)
  have inv: "walk_inv read sha manifest maxPages w"
    by (rule visit_levels_inv [OF w(1)]) (simp_all add: walk_inv_def)
  have all: "set (wk_visited w) = doc_reach read sha manifest (nat maxDepth)" if "\<not> wk_truncated w"
    by (rule visit_levels_reach [OF w(1) that]) (simp_all add: reach_before_def image_image)
  have cut: "wk_truncated w \<Longrightarrow> wk_pages w = [] \<Longrightarrow> maxPages \<le> 0"
    using inv by (simp add: walk_inv_def)
  show ?thesis using inv all cut w(2,3) by (auto simp: walk_inv_def list_all_iff)
qed

section \<open>The loop ends\<close>

text \<open>The queue loop with a bound on the levels it visits; None when the bound is reached first.\<close>

fun bounded_levels ::
  "nat \<Rightarrow> (string \<Rightarrow> string option) \<Rightarrow> (string \<Rightarrow> string) \<Rightarrow> source_manifest \<Rightarrow> int \<Rightarrow> int \<Rightarrow> nat \<Rightarrow> walk \<Rightarrow> (string + walk) option" where
  "bounded_levels 0 read sha manifest maxPages maxDepth depth w = None"
| "bounded_levels (Suc n) read sha manifest maxPages maxDepth depth w =
     (if wk_queue w = [] then Some (Inr w)
      else case visit_level read sha manifest maxPages maxDepth depth (wk_queue w) (w \<lparr> wk_queue := [] \<rparr>) of
        Inl e \<Rightarrow> Some (Inl e)
      | Inr w' \<Rightarrow> if wk_truncated w' then Some (Inr w') else bounded_levels n read sha manifest maxPages maxDepth (Suc depth) w')"

lemma bounded_levels_enough:
  "(if wk_queue w = [] then 1 else nat (maxDepth - int depth) + 2) \<le> n \<Longrightarrow>
     bounded_levels n read sha manifest maxPages maxDepth depth w = Some (visit_levels read sha manifest maxPages maxDepth depth w)"
proof (induction n arbitrary: depth w)
  case (Suc n)
  show ?case
  proof (cases "wk_queue w = []")
    case True
    then show ?thesis by (simp add: visit_levels.simps [of _ _ _ _ _ _ w])
  next
    case False
    have next_level: "bounded_levels n read sha manifest maxPages maxDepth (Suc depth) v = Some (visit_levels read sha manifest maxPages maxDepth (Suc depth) v)"
      if v: "visit_level read sha manifest maxPages maxDepth depth (wk_queue w) (w \<lparr> wk_queue := [] \<rparr>) = Inr v" for v
    proof (rule Suc.IH)
      have "wk_queue v = []" if "maxDepth \<le> int depth" using visit_level_deepest [OF v that] by simp
      then show "(if wk_queue v = [] then 1 else nat (maxDepth - int (Suc depth)) + 2) \<le> n" using Suc.prems False by (cases "maxDepth \<le> int depth") auto
    qed
    show ?thesis using False next_level by (auto simp: visit_levels.simps [of _ _ _ _ _ _ w] split: sum.splits)
  qed
qed (auto split: if_splits)

text \<open>
  C27. Discovery ends: the loop over the queue empties it, is cut off or fails after at most
  one level more than the depth limit, whatever the links of the pages, cycles included,
  and its result is the one of the discovery.
\<close>
theorem discovery_terminates:
  "bounded_levels (nat maxDepth + 2) read sha manifest maxPages maxDepth 0
       \<lparr> wk_pages = [], wk_visited = [], wk_queue = map (\<lambda>p. (p, None)) (doc_roots manifest), wk_truncated = False \<rparr>
     = Some (visit_levels read sha manifest maxPages maxDepth 0
         \<lparr> wk_pages = [], wk_visited = [], wk_queue = map (\<lambda>p. (p, None)) (doc_roots manifest), wk_truncated = False \<rparr>)"
  by (rule bounded_levels_enough) simp

section \<open>Examples\<close>

definition demo_manifest :: "string list \<Rightarrow> source_manifest" where
  "demo_manifest ps = \<lparr> sm_repository = \<lparr> ri_owner = ''o'', ri_name = ''n'' \<rparr>, sm_head = [], sm_entries =
     map (\<lambda>p. \<lparr> me_relativePath = p, me_mode = 420, me_size = 1, me_digest = ''sha256:d'' \<rparr>) ps, sm_digest = [] \<rparr>"

definition demo_text :: "string \<Rightarrow> string option" where
  "demo_text p = (if p = ''README.md'' then Some ''[a](b.md) [[c]]'' else if p = ''b.md'' then Some ''# B'' else None)"

lemma demo_discovery:
  "discoverDocumentation demo_text (\<lambda>t. ''d'') (demo_manifest [''README.md'', ''b.md'', ''c.md'']) 10 3 = Inr
     \<lparr> dr_available = True, dr_status = Available, dr_pages =
         [\<lparr> dp_title = ''README.md'', dp_sourcePath = ''README.md'', dp_rawSourcePath = ''README.md'', dp_indexPath = None \<rparr>,
          \<lparr> dp_title = ''B'', dp_sourcePath = ''b.md'', dp_rawSourcePath = ''b.md'', dp_indexPath = Some ''README.md'' \<rparr>],
       dr_reason = None \<rparr>"
  by code_simp

theorem discovery_is_breadth_first_witness:
  "\<exists>r. discoverDocumentation demo_text (\<lambda>t. ''d'') (demo_manifest [''README.md'', ''b.md'', ''c.md'']) 10 3 = Inr r
     \<and> set (map dp_sourcePath (dr_pages r)) = {p \<in> doc_reach demo_text (\<lambda>t. ''d'') (demo_manifest [''README.md'', ''b.md'', ''c.md'']) (nat 3).
           is_page demo_text (\<lambda>t. ''d'') (demo_manifest [''README.md'', ''b.md'', ''c.md'']) p}"
  using discovery_is_breadth_first [OF demo_discovery] demo_discovery by simp

text \<open>One page whose front matter names a source outside the repository stops the whole discovery.\<close>

lemma discovery_stops_on_bad_front_matter:
  "discoverDocumentation (\<lambda>p. Some (''---'' @ [CHR 0x0A] @ ''source: ../x'' @ [CHR 0x0A] @ ''---'')) (\<lambda>t. ''d'') (demo_manifest [''README.md'']) 10 3
     = Inl ''relative path outside target root''"
  by code_simp

end
