(* ===== verification/Sanitizer.thy ===== *)
theory Sanitizer
  imports Index_Contracts Direct_Intake Js_Regex
begin

text \<open>
  Redaction of secrets in everything that reaches a model prompt
  (\<^verbatim>\<open>work-intake/decomposition-sanitization.ts\<close>). A pattern holds its expression
  parsed; its flags say whether it is global and whether it ignores case.
\<close>

section \<open>Patterns\<close>

record sanitizer_pattern =
  sn_id :: string
  sn_regex :: re
  sn_flags :: string
  sn_replacement :: string

record sanitization_policy =
  sz_version :: int
  sz_patterns :: "sanitizer_pattern list"

definition REPLACEMENT :: string where "REPLACEMENT = ''[REDACTED-SECRET]''"
definition REJECT_REPLACEMENT :: string where "REJECT_REPLACEMENT = ''[REJECTED-UNSANITIZABLE]''"

definition token_char :: "char \<Rightarrow> bool" where
  "token_char c = (word_char c \<or> c = CHR ''-'')"

definition quote_char :: "char \<Rightarrow> bool" where
  "quote_char c = (c = CHR 0x22 \<or> c = CHR 0x27)"

fun Choice :: "re list \<Rightarrow> re" where
  "Choice [r] = r"
| "Choice (r # s # rs) = Alt r (Choice (s # rs))"
| "Choice [] = Cls (\<lambda>c. False)"

fun Seqs :: "re list \<Rightarrow> re" where
  "Seqs [] = Word []"
| "Seqs (r # rs) = Seq r (Seqs rs)"

text \<open>\<^verbatim>\<open>(?:names)\s*[:=]\s*["']?(value)["']?\<close>\<close>

definition assignment :: "re list \<Rightarrow> (char \<Rightarrow> bool) \<Rightarrow> nat \<Rightarrow> re list" where
  "assignment names value least =
     [Choice names, Rep 0 is_ws, Cls (\<lambda>c. c \<in> {CHR '':'', CHR ''=''}), Rep 0 is_ws, Opt (Cls quote_char),
      Capture 1 (Rep least value), Opt (Cls quote_char)]"

definition api_key_names :: "re list" where
  "api_key_names = [Seqs [Word ''api'', Opt (Cls (\<lambda>c. c \<in> {CHR ''_'', CHR ''-''})), Word ''key''], Word ''apikey'']"

definition private_key_header :: "string \<Rightarrow> re" where
  "private_key_header what = Seqs [Word (''-----'' @ what @ '' ''), Opt (Choice [Word ''RSA '', Word ''EC '', Word ''OPENSSH '']), Word ''PRIVATE KEY-----'']"

definition DEFAULT_PATTERNS :: "sanitizer_pattern list" where
  "DEFAULT_PATTERNS = map (\<lambda>(i, r, f). \<lparr> sn_id = i, sn_regex = r, sn_flags = f, sn_replacement = REPLACEMENT \<rparr>) [
     (''openai-api-key'', Seqs [WordBoundary, Capture 1 (Seq (Word ''sk-'') (Rep 20 token_char)), WordBoundary], ''g''),
     (''generic-api-key'', Seqs (WordBoundary # assignment api_key_names token_char 16), ''gi''),
     (''password-assignment'', Seqs (WordBoundary # assignment [Word ''password'', Word ''passwd'', Word ''pwd'']
        (\<lambda>c. \<not> is_ws c \<and> \<not> quote_char c) 4), ''gi''),
     (''jwt-token'', Seqs [WordBoundary, Capture 1 (Seqs [Word ''eyJ'', Rep 0 token_char, Lit (CHR ''.''), Rep 0 token_char,
        Opt (Lit (CHR ''.'')), Rep 0 token_char]), WordBoundary], ''g''),
     (''bearer-token'', Seqs [WordBoundary, Capture 1 (Seqs [Word ''Bearer'', Rep 1 is_ws, Rep 20 (\<lambda>c. token_char c \<or> c = CHR ''.'')]),
        WordBoundary], ''gi''),
     (''private-key-block'', Seqs [private_key_header ''BEGIN'', RepLazy 0 any_char, private_key_header ''END''], ''g''),
     (''high-entropy-secret'', Seqs (WordBoundary # assignment [Word ''secret'', Word ''token'', Word ''credential''] token_char 24), ''gi'')]"

definition DEFAULT_POLICY :: sanitization_policy where
  "DEFAULT_POLICY = \<lparr> sz_version = 1, sz_patterns = DEFAULT_PATTERNS \<rparr>"

section \<open>Sanitizing a value\<close>

definition compilePattern :: "sanitizer_pattern \<Rightarrow> re" where
  "compilePattern p = (if CHR ''i'' \<in> set (sn_flags p) then caseless (sn_regex p) else sn_regex p)"

definition apply_pattern :: "string \<Rightarrow> sanitizer_pattern \<Rightarrow> string" where
  "apply_pattern s p = (if CHR ''g'' \<in> set (sn_flags p) then re_replace (compilePattern p) (sn_replacement p) s
     else replace_once (compilePattern p) (sn_replacement p) [] s)"

definition UNSANITIZED :: re where
  "UNSANITIZED = Seqs [WordBoundary,
     Alt (Seq (Word ''sk-'') (Rep 20 token_char))
         (Seqs [Word ''eyJ'', Rep 0 token_char, Lit (CHR ''.''), Rep 0 token_char, Lit (CHR ''.''), Rep 0 token_char]),
     WordBoundary]"

definition sanitize :: "sanitization_policy \<Rightarrow> string \<Rightarrow> string" where
  "sanitize policy value =
     (let sanitized = foldl apply_pattern value (sz_patterns policy) in
      if re_test UNSANITIZED sanitized then REJECT_REPLACEMENT else sanitized)"

definition sanitizePromptBoundValue :: "sanitization_policy \<Rightarrow> js \<Rightarrow> string + string" where
  "sanitizePromptBoundValue policy value =
     (case value of Str s \<Rightarrow> Inr (sanitize policy s) | _ \<Rightarrow> Inl ''sanitization input must be a string'')"

definition sanitizeStringArray :: "sanitization_policy \<Rightarrow> string list \<Rightarrow> string list" where
  "sanitizeStringArray policy values = map (sanitize policy) values"

definition sanitizeOptionalString :: "sanitization_policy \<Rightarrow> string option \<Rightarrow> string option" where
  "sanitizeOptionalString policy value = map_option (sanitize policy) value"

definition projectProviderError :: "string \<times> string" where
  "projectProviderError = (''MODEL_INVOCATION_FAILED'', ''Model invocation failed'')"

definition projectRetrievalError :: "string \<times> string" where
  "projectRetrievalError = (''BREADTH_RETRIEVAL_FAILED'', ''Breadth retrieval failed'')"

text \<open>\<open>regexp\<close> parses the text of an expression, as \<^verbatim>\<open>new RegExp\<close> does.\<close>

definition loaded_pattern :: "(string \<Rightarrow> re) \<Rightarrow> js \<Rightarrow> string + sanitizer_pattern" where
  "loaded_pattern regexp p =
     (case first_error
        [(\<not> objectlike p, ''pattern must be an object''),
         (js_str (fld p ''id'') = [], ''pattern id required''),
         (js_opt_str (fld p ''regex'') = None, ''pattern regex required''),
         (js_opt_str (fld p ''flags'') = None, ''pattern flags required''),
         (js_opt_str (fld p ''replacement'') = None, ''pattern replacement required'')] of
        Some e \<Rightarrow> Inl e
      | None \<Rightarrow> Inr \<lparr> sn_id = js_str (fld p ''id''), sn_regex = regexp (js_str (fld p ''regex'')),
          sn_flags = js_str (fld p ''flags''), sn_replacement = js_str (fld p ''replacement'') \<rparr>)"

definition loadSanitizationPolicyFromSource :: "(string \<Rightarrow> re) \<Rightarrow> js \<Rightarrow> string + sanitization_policy" where
  "loadSanitizationPolicyFromSource regexp raw =
     (case first_error
        [(\<not> is_object raw, ''sanitization policy must be an object''),
         (\<not> isPositiveInteger (fld raw ''version''), ''sanitization policy version must be a positive integer''),
         (\<not> is_array (fld raw ''patterns''), ''sanitization policy patterns must be an array'')] of
        Some e \<Rightarrow> Inl e
      | None \<Rightarrow> map_sum id (\<lambda>ps. \<lparr> sz_version = js_int (fld raw ''version''), sz_patterns = ps \<rparr>)
          (all_or_first (map (loaded_pattern regexp) (items (fld raw ''patterns'')))))"

end
