(* ===== verification/Decomposition.thy ===== *)
theory Decomposition
  imports Sanitizer Graph_Index Model_Router
begin

text \<open>
  The decomposition harness (\<^verbatim>\<open>work-intake/decomposition-harness.ts\<close>, with the limits of
  \<^verbatim>\<open>decomposition-limits.ts\<close>): one job is validated, sanitized, given codebase context,
  routed to a model, and its answer validated, with at most one repair call.

  Parameters: \<open>date_parse\<close> is \<^verbatim>\<open>Date.parse\<close>, \<open>parse\<close> is \<^verbatim>\<open>JSON.parse\<close> (None when it
  throws), and the ports of a run answer with a value, an exception, or not before the
  timer. The policies and package files the harness reads do not change during a run, and
  \<open>Object.prototype\<close> has no fields of its own.
\<close>

section \<open>Limits\<close>

record decomposition_limits =
  dl_version :: int
  dl_maxSerializedJobBytes :: int
  dl_maxRawSpecBytes :: int
  dl_maxBreadthUnits :: int
  dl_maxBreadthEdges :: int
  dl_maxPromptBytes :: int
  dl_maxOutputTokens :: int
  dl_maxResponseBytes :: int
  dl_maxNodes :: int
  dl_maxNodeIdLength :: int
  dl_maxNodeStringLength :: int
  dl_maxNodeCollectionLength :: int
  dl_maxDiagnostics :: int
  dl_maxRepairContextBytes :: int
  dl_maxCalls :: int
  dl_deadlineMs :: int

definition DEFAULT_LIMITS :: decomposition_limits where
  "DEFAULT_LIMITS = \<lparr> dl_version = 1, dl_maxSerializedJobBytes = 262144, dl_maxRawSpecBytes = 65536, dl_maxBreadthUnits = 200,
     dl_maxBreadthEdges = 500, dl_maxPromptBytes = 524288, dl_maxOutputTokens = 32768, dl_maxResponseBytes = 1048576,
     dl_maxNodes = 256, dl_maxNodeIdLength = 256, dl_maxNodeStringLength = 8192, dl_maxNodeCollectionLength = 256,
     dl_maxDiagnostics = 100, dl_maxRepairContextBytes = 16384, dl_maxCalls = 2, dl_deadlineMs = 120000 \<rparr>"

definition LIMIT_FIELDS :: "string list" where
  "LIMIT_FIELDS = [''version'', ''maxSerializedJobBytes'', ''maxRawSpecBytes'', ''maxBreadthUnits'', ''maxBreadthEdges'',
     ''maxPromptBytes'', ''maxOutputTokens'', ''maxResponseBytes'', ''maxNodes'', ''maxNodeIdLength'', ''maxNodeStringLength'',
     ''maxNodeCollectionLength'', ''maxDiagnostics'', ''maxRepairContextBytes'', ''maxCalls'', ''deadlineMs'']"

definition validateLimitPolicy :: "js \<Rightarrow> string + decomposition_limits" where
  "validateLimitPolicy json =
     (let unknown = filter (\<lambda>k. k \<notin> set LIMIT_FIELDS) (Object_keys json); n = (\<lambda>k. js_int (fld json k)) in
      if \<not> is_object json then Inl ''limit policy must be an object''
      else if unknown \<noteq> [] then Inl (''unknown limit policy fields: '' @ join_with '', '' unknown)
      else case find (\<lambda>k. \<not> isPositiveInteger (fld json k)) LIMIT_FIELDS of
        Some label \<Rightarrow> Inl (label @ '' must be a positive integer'')
      | None \<Rightarrow> Inr \<lparr> dl_version = n ''version'', dl_maxSerializedJobBytes = n ''maxSerializedJobBytes'',
          dl_maxRawSpecBytes = n ''maxRawSpecBytes'', dl_maxBreadthUnits = n ''maxBreadthUnits'',
          dl_maxBreadthEdges = n ''maxBreadthEdges'', dl_maxPromptBytes = n ''maxPromptBytes'',
          dl_maxOutputTokens = n ''maxOutputTokens'', dl_maxResponseBytes = n ''maxResponseBytes'', dl_maxNodes = n ''maxNodes'',
          dl_maxNodeIdLength = n ''maxNodeIdLength'', dl_maxNodeStringLength = n ''maxNodeStringLength'',
          dl_maxNodeCollectionLength = n ''maxNodeCollectionLength'', dl_maxDiagnostics = n ''maxDiagnostics'',
          dl_maxRepairContextBytes = n ''maxRepairContextBytes'', dl_maxCalls = n ''maxCalls'', dl_deadlineMs = n ''deadlineMs'' \<rparr>)"

text \<open>UTF-8: the code units from 128 on take two bytes.\<close>

definition byteLength :: "string \<Rightarrow> int" where
  "byteLength s = int (sum_list (map (\<lambda>c. if (of_char c :: nat) < 128 then 1 else 2) s))"

section \<open>Jobs\<close>

record decomposition_failure =
  df_code :: string
  df_reason :: string
  df_jobId :: string

definition hasOnlyOwnFields :: "js \<Rightarrow> string list \<Rightarrow> bool" where
  "hasOnlyOwnFields v allowed = (isPlainObject v \<and> list_all (\<lambda>k. k \<in> set allowed) (Object_keys v))"

definition boundedJobId :: "js \<Rightarrow> string" where
  "boundedJobId jobId = (case jobId of Str s \<Rightarrow> if byteLength s \<le> 256 then s else ''unknown'' | _ \<Rightarrow> ''unknown'')"

definition reject :: "string \<Rightarrow> string \<Rightarrow> js \<Rightarrow> decomposition_failure" where
  "reject code reason jobId = \<lparr> df_code = code, df_reason = take 256 reason, df_jobId = boundedJobId jobId \<rparr>"

definition ALLOWED_JOB_FIELDS :: "string list" where
  "ALLOWED_JOB_FIELDS = [''jobId'', ''spec'', ''rawSpec'', ''targetRepository'', ''head'', ''indexRevision'']"

definition filled :: "js \<Rightarrow> bool" where
  "filled v = (js_str v \<noteq> [])"

definition owner_and_name :: "js \<Rightarrow> bool" where
  "owner_and_name v = (hasOwnField v ''owner'' \<and> hasOwnField v ''name'')"

definition INDEX_REVISION_FIELDS :: "string list" where
  "INDEX_REVISION_FIELDS = [''repository'', ''head'', ''graphifyVersion'', ''indexSchemaVersion'', ''sensitivePathPolicyVersion'',
     ''manifestDigest'', ''indexRevision'', ''createdAt'']"

text \<open>The shape tests of a job, in order, before its index revision is validated.\<close>

definition job_shape_error :: "js \<Rightarrow> (string \<times> js) option" where
  "job_shape_error job =
     (let id = fld job ''jobId''; spec = fld job ''spec''; target = fld job ''targetRepository''; revision = fld job ''indexRevision'' in
      first_error
       [(\<not> hasOnlyOwnFields job ALLOWED_JOB_FIELDS, (''Job must be a plain object with only known fields'', Str ''unknown'')),
        (\<not> filled id, (''jobId is required'', Str ''unknown'')),
        (fld job ''rawSpec'' \<noteq> Undefined \<and> js_opt_str (fld job ''rawSpec'') = None, (''rawSpec must be an own string field when present'', id)),
        (\<not> hasOnlyOwnFields spec [''intent'', ''acceptanceCriteria'', ''constraints''], (''spec must be a plain object with only known fields'', id)),
        (\<not> filled (fld spec ''intent''), (''spec.intent is required'', id)),
        (\<not> is_array (fld spec ''acceptanceCriteria'') \<or> items (fld spec ''acceptanceCriteria'') = [],
          (''spec.acceptanceCriteria must be a non-empty array'', id)),
        (\<not> list_all filled (items (fld spec ''acceptanceCriteria'')), (''spec.acceptanceCriteria entries must be non-empty strings'', id)),
        (fld spec ''constraints'' \<noteq> Undefined \<and> \<not> is_array (fld spec ''constraints''), (''spec.constraints must be an array'', id)),
        (\<not> list_all filled (items (fld spec ''constraints'')), (''spec.constraints entries must be non-empty strings'', id)),
        (\<not> hasOnlyOwnFields target [''owner'', ''name''] \<or> \<not> filled (fld target ''owner'') \<or> \<not> filled (fld target ''name''),
          (''targetRepository owner/name are required'', id)),
        (\<not> full_sha (fld job ''head''), (''head must be a 40-character hex SHA'', id)),
        (\<not> hasOnlyOwnFields revision INDEX_REVISION_FIELDS \<or> \<not> hasOnlyOwnFields (fld revision ''repository'') [''owner'', ''name'']
          \<or> \<not> owner_and_name (fld revision ''repository''), (''indexRevision must be a plain object with only known fields'', id))])"

definition revision_json :: "index_revision \<Rightarrow> json" where
  "revision_json r = JObj [(''repository'', JObj [(''owner'', JStr (ri_owner (ix_repository r))), (''name'', JStr (ri_name (ix_repository r)))]),
     (''head'', JStr (ix_head r)), (''graphifyVersion'', JStr (ix_graphifyVersion r)), (''indexSchemaVersion'', JStr (ix_indexSchemaVersion r)),
     (''sensitivePathPolicyVersion'', JStr (ix_sensitivePathPolicyVersion r)), (''manifestDigest'', JStr (ix_manifestDigest r)),
     (''indexRevision'', JStr (ix_indexRevision r)), (''createdAt'', JStr (ix_createdAt r))]"

definition string_list :: "js \<Rightarrow> string list" where
  "string_list v = map js_str (items v)"

text \<open>The serialized job, projected to its validated strings.\<close>

definition serialized_job :: "js \<Rightarrow> index_revision \<Rightarrow> string" where
  "serialized_job job revision =
     (let spec = fld job ''spec'' in
      JSON_stringify (JObj ([(''jobId'', JStr (js_str (fld job ''jobId''))),
        (''spec'', JObj ([(''intent'', JStr (js_str (fld spec ''intent''))),
             (''acceptanceCriteria'', JArr (map JStr (string_list (fld spec ''acceptanceCriteria''))))]
           @ (if fld spec ''constraints'' = Undefined then [] else [(''constraints'', JArr (map JStr (string_list (fld spec ''constraints''))))])))]
        @ (if fld job ''rawSpec'' = Undefined then [] else [(''rawSpec'', JStr (js_str (fld job ''rawSpec'')))])
        @ [(''targetRepository'', JObj (map (\<lambda>k. (k, JStr (js_str (fld (fld job ''targetRepository'') k)))) (Object_keys (fld job ''targetRepository'')))),
           (''head'', JStr (js_str (fld job ''head''))), (''indexRevision'', revision_json revision)])))"

definition validateJob :: "(string \<Rightarrow> js_date) \<Rightarrow> js \<Rightarrow> decomposition_limits \<Rightarrow> decomposition_failure + index_revision" where
  "validateJob date_parse job limits =
     (case job_shape_error job of
        Some (reason, jobId) \<Rightarrow> Inl (reject ''INVALID_JOB'' reason jobId)
      | None \<Rightarrow>
          (let id = fld job ''jobId''; target = fld job ''targetRepository'' in
           case assertIndexRevision date_parse (fld job ''indexRevision'') of
             Inl e \<Rightarrow> Inl (reject ''INVALID_JOB'' e id)
           | Inr revision \<Rightarrow>
               (case first_error
                  [(js_str (fld job ''head'') \<noteq> ix_head revision,
                     (''INDEX_REVISION_MISMATCH'', ''job head does not match index revision head'')),
                   (js_str (fld target ''owner'') \<noteq> ri_owner (ix_repository revision) \<or> js_str (fld target ''name'') \<noteq> ri_name (ix_repository revision),
                     (''INDEX_REVISION_MISMATCH'', ''job repository does not match index revision repository'')),
                   (dl_maxSerializedJobBytes limits < byteLength (serialized_job job revision),
                     (''JOB_SIZE_EXCEEDED'', ''Serialized job exceeds limit'')),
                   (fld job ''rawSpec'' \<noteq> Undefined \<and> dl_maxRawSpecBytes limits < byteLength (js_str (fld job ''rawSpec'')),
                     (''RAW_SPEC_LIMIT_EXCEEDED'', ''rawSpec exceeds limit''))] of
                  Some (code, reason) \<Rightarrow> Inl (reject code reason id)
                | None \<Rightarrow> Inr revision)))"

record decomposition_job =
  dj_jobId :: string
  dj_intent :: string
  dj_acceptanceCriteria :: "string list"
  dj_constraints :: "string list option"
  dj_rawSpec :: "string option"
  dj_owner :: string
  dj_name :: string
  dj_head :: string
  dj_indexRevision :: index_revision

definition sanitizeJob :: "sanitization_policy \<Rightarrow> js \<Rightarrow> index_revision \<Rightarrow> decomposition_job" where
  "sanitizeJob policy job revision =
     (let spec = fld job ''spec''; target = fld job ''targetRepository'' in
      \<lparr> dj_jobId = js_str (fld job ''jobId''), dj_intent = sanitize policy (js_str (fld spec ''intent'')),
        dj_acceptanceCriteria = sanitizeStringArray policy (string_list (fld spec ''acceptanceCriteria'')),
        dj_constraints = (if js_truthy (fld spec ''constraints'') then Some (sanitizeStringArray policy (string_list (fld spec ''constraints''))) else None),
        dj_rawSpec = sanitizeOptionalString policy (js_opt_str (fld job ''rawSpec'')),
        dj_owner = js_str (fld target ''owner''), dj_name = js_str (fld target ''name''),
        dj_head = js_str (fld job ''head''), dj_indexRevision = revision \<rparr>)"

section \<open>Candidates\<close>

definition NODE_FIELDS :: "string list" where
  "NODE_FIELDS = [''id'', ''intent'', ''change_spec'', ''acceptance_criteria'', ''depends_on'']"

definition bounded_text :: "js \<Rightarrow> decomposition_limits \<Rightarrow> bool" where
  "bounded_text v limits = (filled v \<and> byteLength (js_str v) \<le> dl_maxNodeStringLength limits)"

definition bounded_list :: "js \<Rightarrow> decomposition_limits \<Rightarrow> bool" where
  "bounded_list v limits = (is_array v \<and> int (length (items v)) \<le> dl_maxNodeCollectionLength limits)"

definition node_error :: "decomposition_limits \<Rightarrow> js \<Rightarrow> string option" where
  "node_error limits node =
     (let unknown = filter (\<lambda>k. k \<notin> set NODE_FIELDS) (Object_keys node); bytes = int_str (dl_maxNodeStringLength limits) @ '' bytes'' in
      first_error
       [(\<not> isPlainObject node, ''each node must be an object''),
        (unknown \<noteq> [], ''unknown node fields: '' @ join_with '', '' unknown),
        (\<not> filled (fld node ''id'') \<or> dl_maxNodeIdLength limits < int (length (js_str (fld node ''id''))),
          ''node id must be a non-empty string <= '' @ int_str (dl_maxNodeIdLength limits) @ '' chars''),
        (\<not> bounded_text (fld node ''intent'') limits, ''node intent must be a non-empty string <= '' @ bytes),
        (\<not> bounded_text (fld node ''change_spec'') limits, ''node change_spec must be a non-empty string <= '' @ bytes),
        (\<not> bounded_list (fld node ''acceptance_criteria'') limits \<or> items (fld node ''acceptance_criteria'') = [],
          ''node acceptance_criteria must be a non-empty array <= '' @ int_str (dl_maxNodeCollectionLength limits)),
        (\<not> list_all (\<lambda>c. bounded_text c limits) (items (fld node ''acceptance_criteria'')),
          ''acceptance criterion must be a non-empty string <= '' @ bytes),
        (\<not> bounded_list (fld node ''depends_on'') limits,
          ''node depends_on must be an array <= '' @ int_str (dl_maxNodeCollectionLength limits)),
        (\<not> list_all filled (items (fld node ''depends_on'')), ''depends_on entries must be non-empty strings'')])"

text \<open>The code and the reason of the first violation.\<close>

definition validateCandidate :: "js \<Rightarrow> decomposition_limits \<Rightarrow> (string \<times> string) option" where
  "validateCandidate candidate limits =
     (let unknown = filter (\<lambda>k. k \<noteq> ''nodes'') (Object_keys candidate); nodes = items (fld candidate ''nodes'') in
      if \<not> isPlainObject candidate then Some (''INVALID_OUTPUT'', ''candidate must be an object'')
      else if unknown \<noteq> [] then Some (''INVALID_OUTPUT'', ''unknown top-level fields: '' @ join_with '', '' unknown)
      else if \<not> is_array (fld candidate ''nodes'') then Some (''INVALID_OUTPUT'', ''nodes must be an array'')
      else if dl_maxNodes limits < int (length nodes)
      then Some (''NODE_COUNT_EXCEEDED'', ''node count '' @ nat_str (length nodes) @ '' exceeds limit '' @ int_str (dl_maxNodes limits))
      else map_option (Pair ''INVALID_OUTPUT'') (first_some (node_error limits) nodes))"

section \<open>Prompts\<close>

text \<open>A line of the prompt from its sanitized parts; \<open>clean_unit\<close> and \<open>clean_edge\<close> give it as many as it has.\<close>

fun unit_line :: "string list \<Rightarrow> string" where
  "unit_line [i, kind, label, path] = ''- '' @ i @ '' ('' @ kind @ '') '' @ label @ '' @ '' @ path"
| "unit_line _ = []"

fun edge_line :: "string list \<Rightarrow> string" where
  "edge_line [s, r, t] = ''- edge: '' @ s @ '' '' @ r @ '' '' @ t"
| "edge_line _ = []"

definition clean_unit :: "sanitization_policy \<Rightarrow> graph_unit \<Rightarrow> string + string" where
  "clean_unit policy u = map_sum id unit_line (all_or_first (map (sanitizePromptBoundValue policy) [Str (gu_id u), gu_kind u, gu_label u, gu_sourcePath u]))"

definition clean_edge :: "sanitization_policy \<Rightarrow> graph_edge \<Rightarrow> string + string" where
  "clean_edge policy e = map_sum id edge_line (all_or_first (map (sanitizePromptBoundValue policy) [Str (ge_source e), ge_relation e, Str (ge_target e)]))"

definition newline_text :: string where "newline_text = [CHR 0x0A]"

definition bullets :: "string list \<Rightarrow> string list" where
  "bullets xs = map (\<lambda>x. ''- '' @ x) xs"

definition spec_sections :: "decomposition_job \<Rightarrow> string list" where
  "spec_sections job =
     [''Decompose the following spec into a flat list of nodes.'', [], ''INTENT:'', dj_intent job, [], ''ACCEPTANCE CRITERIA:'']
     @ bullets (dj_acceptanceCriteria job)
     @ (case dj_constraints job of Some cs \<Rightarrow> if cs = [] then [] else [[], ''CONSTRAINTS:''] @ bullets cs | None \<Rightarrow> [])
     @ (case dj_rawSpec job of Some raw \<Rightarrow> if raw = [] then [] else [[], ''RAW SPEC:'', raw] | None \<Rightarrow> [])"

definition context_sections :: "sanitization_policy \<Rightarrow> decomposition_job \<Rightarrow> breadth_result \<Rightarrow> string list" where
  "context_sections policy job breadth =
     [[], ''CODEBASE CONTEXT:'', ''repository: '' @ sanitize policy (dj_owner job) @ ''/'' @ sanitize policy (dj_name job), ''head: '' @ dj_head job,
      ''graph units: '' @ nat_str (length (br_units breadth)) @ (if br_truncated breadth then '' (truncated)'' else [])]"

definition truncation_sections :: "sanitization_policy \<Rightarrow> breadth_result \<Rightarrow> string list" where
  "truncation_sections policy breadth =
     (case br_truncationReason breadth of Some r \<Rightarrow> if r = [] then [] else [''truncation reason: '' @ sanitize policy r] | None \<Rightarrow> [])"

definition repair_sections :: "string list \<Rightarrow> string list" where
  "repair_sections diagnostics =
     (if diagnostics = [] then []
      else [[], ''REPAIR INSTRUCTIONS: fix the following structural issues and return only the corrected JSON:''] @ bullets diagnostics)"

definition closing_sections :: "string list" where
  "closing_sections =
     [[], ''Return a JSON object with a single '' @ [CHR 0x27] @ ''nodes'' @ [CHR 0x27]
       @ '' array. Each node must have exactly id, intent, change_spec, acceptance_criteria, and depends_on.'']"

definition buildPrompt :: "sanitization_policy \<Rightarrow> decomposition_job \<Rightarrow> breadth_result \<Rightarrow> string list \<Rightarrow> string + string" where
  "buildPrompt policy job breadth diagnostics =
     map_sum id (\<lambda>graph. join_with newline_text (spec_sections job @ context_sections policy job breadth @ graph
          @ truncation_sections policy breadth @ repair_sections diagnostics @ closing_sections))
       (all_or_first (map (clean_unit policy) (br_units breadth) @ map (clean_edge policy) (br_edges breadth)))"

end
