(* ===== verification/Decomposition_Run.thy ===== *)
theory Decomposition_Run
  imports Decomposition
begin

text \<open>
  One run of the decomposition harness (\<^verbatim>\<open>runDecomposition\<close> of
  \<^verbatim>\<open>work-intake/decomposition-harness.ts\<close>): what it returns and, in order, the calls it
  makes of the model and the records it hands to the caller. Reading \<open>k\<close> of the clock is
  \<open>de_now k\<close>; the first one sets the deadline.
\<close>

section \<open>Ports\<close>

datatype 'a port = Returns 'a | Throws "string option" | Expires

text \<open>
  \<^verbatim>\<open>withDeadline\<close>: without time left the operation is not started, and a timer that
  fires first gives the same error.
\<close>

definition withDeadline :: "'a port \<Rightarrow> int \<Rightarrow> 'a port" where
  "withDeadline port remainingMs =
     (if remainingMs \<le> 0 then Throws (Some ''TIMEOUT'') else case port of Expires \<Rightarrow> Throws (Some ''TIMEOUT'') | r \<Rightarrow> r)"

definition retrieveWithDeadline :: "breadth_result port \<Rightarrow> int \<Rightarrow> (string \<times> string) + breadth_result" where
  "retrieveWithDeadline port remainingMs =
     (case withDeadline port remainingMs of
        Returns b \<Rightarrow> Inr b
      | Throws m \<Rightarrow> Inl (if m = Some ''TIMEOUT'' then (''BREADTH_RETRIEVAL_TIMEOUT'', ''Breadth retrieval deadline exceeded'') else projectRetrievalError)
      | Expires \<Rightarrow> Inl projectRetrievalError)"

definition invokeWithDeadline :: "string port \<Rightarrow> int \<Rightarrow> (string \<times> string) + string" where
  "invokeWithDeadline port remainingMs =
     (case withDeadline port remainingMs of
        Returns t \<Rightarrow> Inr t
      | Throws m \<Rightarrow> Inl (if m = Some ''TIMEOUT'' then (''TIMEOUT'', ''Invocation deadline exceeded'') else projectProviderError)
      | Expires \<Rightarrow> Inl projectProviderError)"

record executable_identity =
  xi_path :: string
  xi_version :: string
  xi_digest :: string

record package_identity =
  pk_name :: string
  pk_version :: string
  pk_path :: string

record model_invocation =
  mi_prompt :: string
  mi_model :: string
  mi_deadlineMs :: int
  mi_maxOutputTokens :: int

record decomposition_env =
  de_retrieve :: "index_revision \<Rightarrow> int \<Rightarrow> int \<Rightarrow> breadth_result port"
  de_invoke :: "nat \<Rightarrow> model_invocation \<Rightarrow> string port"
  de_now :: "nat \<Rightarrow> int"
  de_package :: package_identity
  de_launcher :: executable_identity

record decomposition_options =
  do_job :: js
  do_availability :: js
  do_piExecutable :: "executable_identity option"
  do_explicitModelId :: "string option"
  do_deadlineMs :: "int option"
  do_policy :: routing_policy
  do_limits :: decomposition_limits
  do_sanitizer :: sanitization_policy

section \<open>Records and results\<close>

record invocation_record =
  ir_jobId :: string
  ir_initialPrompt :: string
  ir_repairPrompt :: "string option"
  ir_selectedModel :: string
  ir_routing :: routing_decision
  ir_toolVersion :: string
  ir_maxUnits :: int
  ir_maxEdges :: int
  ir_package :: package_identity
  ir_launcher :: executable_identity
  ir_piExecutable :: executable_identity
  ir_limits :: decomposition_limits
  ir_sanitizerVersion :: int
  ir_indexRevision :: index_revision

datatype decomposition = Candidate "js list" | Failed decomposition_failure | Crashed string

datatype run_event = Invoked model_invocation | Recorded invocation_record

definition launcherIdentity :: "executable_identity \<Rightarrow> executable_identity option \<Rightarrow> executable_identity" where
  "launcherIdentity launcher piExecutable = (case piExecutable of Some x \<Rightarrow> x | None \<Rightarrow> launcher)"

text \<open>The call of the model happens only while there is time left.\<close>

definition call_events :: "model_invocation \<Rightarrow> run_event list" where
  "call_events i = (if mi_deadlineMs i \<le> 0 then [] else [Invoked i])"

definition invocation :: "decomposition_options \<Rightarrow> decomposition_env \<Rightarrow> string \<Rightarrow> int \<Rightarrow> string \<Rightarrow> nat \<Rightarrow> model_invocation" where
  "invocation opts env model deadlineAt prompt k =
     \<lparr> mi_prompt = prompt, mi_model = model, mi_deadlineMs = deadlineAt - de_now env k, mi_maxOutputTokens = dl_maxOutputTokens (do_limits opts) \<rparr>"

section \<open>The calls of the model\<close>

text \<open>The repair call and what follows it.\<close>

definition repair_step ::
  "(string \<Rightarrow> js option) \<Rightarrow> decomposition_options \<Rightarrow> decomposition_env \<Rightarrow> int \<Rightarrow> decomposition_job \<Rightarrow> breadth_result
    \<Rightarrow> invocation_record \<Rightarrow> string \<Rightarrow> decomposition \<times> run_event list" where
  "repair_step parse opts env deadlineAt job breadth baseRecord diagnostic =
     (let limits = do_limits opts; fail = (\<lambda>code reason. Failed (reject code reason (Str (dj_jobId job))));
          capped = map (sanitize (do_sanitizer opts)) (slice0 (dl_maxDiagnostics limits) [diagnostic]) in
      case buildPrompt (do_sanitizer opts) job breadth capped of
        Inl e \<Rightarrow> (Crashed e, [])
      | Inr repairPrompt \<Rightarrow>
          if dl_maxPromptBytes limits < byteLength repairPrompt
          then (fail ''PROMPT_LIMIT_EXCEEDED'' ''Repair prompt exceeds byte limit'', [Recorded baseRecord])
          else if dl_maxRepairContextBytes limits < byteLength (JSON_stringify (JArr (map JStr capped)))
          then (fail ''REPAIR_CONTEXT_EXCEEDED'' ''Repair diagnostics exceed byte limit'', [Recorded baseRecord])
          else (let repairRecord = baseRecord \<lparr> ir_repairPrompt := Some repairPrompt \<rparr>;
                    i = invocation opts env (ir_selectedModel baseRecord) deadlineAt repairPrompt 3;
                    finish = (\<lambda>r. (r, call_events i @ [Recorded repairRecord])) in
            case invokeWithDeadline (de_invoke env 1 i) (mi_deadlineMs i) of
              Inl (code, reason) \<Rightarrow> finish (fail code reason)
            | Inr answer \<Rightarrow>
                if dl_maxResponseBytes limits < byteLength answer then finish (fail ''RESPONSE_LIMIT_EXCEEDED'' ''Repair response exceeds byte limit'')
                else case parse answer of
                  None \<Rightarrow> finish (fail ''INVALID_OUTPUT'' ''Repair response is not valid JSON'')
                | Some v \<Rightarrow>
                    (case validateCandidate v limits of
                       Some (code, reason) \<Rightarrow> finish (fail code reason)
                     | None \<Rightarrow> finish (Candidate (items (fld v ''nodes''))))))"

text \<open>The first call: a response that is not JSON, or not a candidate, is repaired.\<close>

definition initial_step ::
  "(string \<Rightarrow> js option) \<Rightarrow> decomposition_options \<Rightarrow> decomposition_env \<Rightarrow> int \<Rightarrow> decomposition_job \<Rightarrow> breadth_result
    \<Rightarrow> invocation_record \<Rightarrow> decomposition \<times> run_event list" where
  "initial_step parse opts env deadlineAt job breadth baseRecord =
     (let limits = do_limits opts; fail = (\<lambda>code reason. Failed (reject code reason (Str (dj_jobId job))));
          i = invocation opts env (ir_selectedModel baseRecord) deadlineAt (ir_initialPrompt baseRecord) 2;
          events = call_events i @ [Recorded baseRecord] in
      case invokeWithDeadline (de_invoke env 0 i) (mi_deadlineMs i) of
        Inl (code, reason) \<Rightarrow> (fail code reason, events)
      | Inr answer \<Rightarrow>
          if dl_maxResponseBytes limits < byteLength answer then (fail ''RESPONSE_LIMIT_EXCEEDED'' ''Response exceeds byte limit'', events)
          else (let parsed = (case parse answer of None \<Rightarrow> Null | Some v \<Rightarrow> v);
                    repair = (\<lambda>d. map_prod id (\<lambda>es. events @ es) (repair_step parse opts env deadlineAt job breadth baseRecord d)) in
            if parsed = Null then repair ''response is not valid JSON''
            else case validateCandidate parsed limits of
              None \<Rightarrow> (Candidate (items (fld parsed ''nodes'')), events)
            | Some (code, reason) \<Rightarrow> if code \<noteq> ''INVALID_OUTPUT'' then (fail code reason, events) else repair reason))"

section \<open>The run\<close>

definition base_record ::
  "decomposition_options \<Rightarrow> decomposition_env \<Rightarrow> decomposition_job \<Rightarrow> routing_decision \<Rightarrow> index_revision \<Rightarrow> string \<Rightarrow> invocation_record" where
  "base_record opts env job decision revision prompt =
     (let launcher = launcherIdentity (de_launcher env) (do_piExecutable opts) in
      \<lparr> ir_jobId = dj_jobId job, ir_initialPrompt = prompt, ir_repairPrompt = None, ir_selectedModel = rd_selectedModel decision,
        ir_routing = decision, ir_toolVersion = ix_graphifyVersion revision, ir_maxUnits = dl_maxBreadthUnits (do_limits opts),
        ir_maxEdges = dl_maxBreadthEdges (do_limits opts), ir_package = de_package env, ir_launcher = launcher,
        ir_piExecutable = (case do_piExecutable opts of Some x \<Rightarrow> x | None \<Rightarrow> launcher), ir_limits = do_limits opts,
        ir_sanitizerVersion = sz_version (do_sanitizer opts), ir_indexRevision = revision \<rparr>)"

text \<open>
  What the harness checks of the context it retrieved. The revision a retriever returns is
  validated like any other value; the model's retriever returns one as a record.
\<close>

definition revision_js :: "index_revision \<Rightarrow> js" where
  "revision_js r = plain [(''repository'', plain [(''owner'', Str (ri_owner (ix_repository r))), (''name'', Str (ri_name (ix_repository r)))]),
     (''head'', Str (ix_head r)), (''graphifyVersion'', Str (ix_graphifyVersion r)), (''indexSchemaVersion'', Str (ix_indexSchemaVersion r)),
     (''sensitivePathPolicyVersion'', Str (ix_sensitivePathPolicyVersion r)), (''manifestDigest'', Str (ix_manifestDigest r)),
     (''indexRevision'', Str (ix_indexRevision r)), (''createdAt'', Str (ix_createdAt r))]"

definition breadth_error :: "(string \<Rightarrow> js_date) \<Rightarrow> decomposition_limits \<Rightarrow> decomposition_job \<Rightarrow> breadth_result \<Rightarrow> (string \<times> string) option" where
  "breadth_error date_parse limits job breadth =
     (if dl_maxBreadthUnits limits < int (length (br_units breadth)) \<or> dl_maxBreadthEdges limits < int (length (br_edges breadth))
      then Some (''BREADTH_LIMIT_EXCEEDED'', ''Breadth result exceeds configured limits'')
      else case assertIndexRevision date_parse (revision_js (br_revision breadth)) of
        Inl e \<Rightarrow> Some (''BREADTH_REVISION_INVALID'', e)
      | Inr revision \<Rightarrow>
          if cacheKey revision \<noteq> cacheKey (dj_indexRevision job)
          then Some (''BREADTH_REVISION_MISMATCH'', ''breadth revision does not match the requested index revision'') else None)"

definition runDecomposition ::
  "(string \<Rightarrow> js_date) \<Rightarrow> (string \<Rightarrow> js option) \<Rightarrow> decomposition_options \<Rightarrow> decomposition_env \<Rightarrow> decomposition \<times> run_event list" where
  "runDecomposition date_parse parse opts env =
     (let limits = do_limits opts; jobId = fld (do_job opts) ''jobId'' in
      case validateJob date_parse (do_job opts) limits of
        Inl f \<Rightarrow> (Failed f, [])
      | Inr indexRevision \<Rightarrow>
          (case validateAvailability (do_availability opts) of
             Inl f \<Rightarrow> (Failed (reject (rf_code f) (rf_reason f) jobId), [])
           | Inr availability \<Rightarrow>
               (case selectForRole (do_policy opts) ''decomposition'' availability (do_explicitModelId opts) of
                  Inl f \<Rightarrow> (Failed (reject (rf_code f) (rf_reason f) jobId), [])
                | Inr decision \<Rightarrow>
                    (let job = sanitizeJob (do_sanitizer opts) (do_job opts) indexRevision;
                         deadlineAt = de_now env 0 + (case do_deadlineMs opts of Some d \<Rightarrow> d | None \<Rightarrow> dl_deadlineMs limits);
                         fail = (\<lambda>code reason. (Failed (reject code reason (Str (dj_jobId job))), [])) in
                     case retrieveWithDeadline (de_retrieve env (dj_indexRevision job) (dl_maxBreadthUnits limits) (dl_maxBreadthEdges limits))
                            (deadlineAt - de_now env 1) of
                       Inl (code, reason) \<Rightarrow> fail code reason
                     | Inr breadth \<Rightarrow>
                         (case breadth_error date_parse limits job breadth of
                            Some (code, reason) \<Rightarrow> fail code reason
                          | None \<Rightarrow>
                              (case buildPrompt (do_sanitizer opts) job breadth [] of
                                 Inl e \<Rightarrow> (Crashed e, [])
                               | Inr prompt \<Rightarrow>
                                   if dl_maxPromptBytes limits < byteLength prompt then fail ''PROMPT_LIMIT_EXCEEDED'' ''Prompt exceeds byte limit''
                                   else initial_step parse opts env deadlineAt job breadth
                                     (base_record opts env job decision (br_revision breadth) prompt)))))))"

end
