(* ===== verification/Sanitizer_Properties.thy ===== *)
theory Sanitizer_Properties
  imports Sanitizer
begin

text \<open>
  An expression whose classes all lie inside a set of characters cannot match across a
  character outside it, so a text assembled from clean pieces with such separators is
  clean. The final secret test of the sanitizer is one of these expressions.
\<close>

section \<open>Locality of matching\<close>

definition outside :: "(char \<Rightarrow> bool) \<Rightarrow> string \<Rightarrow> bool" where
  "outside T s = (case s of [] \<Rightarrow> True | c # _ \<Rightarrow> \<not> T c)"

fun stays_in :: "(char \<Rightarrow> bool) \<Rightarrow> re \<Rightarrow> bool" where
  "stays_in T (Cls P) = (\<forall>c. P c \<longrightarrow> T c)"
| "stays_in T (Rep n P) = (\<forall>c. P c \<longrightarrow> T c)"
| "stays_in T (RepLazy n P) = (\<forall>c. P c \<longrightarrow> T c)"
| "stays_in T (Seq r s) = (stays_in T r \<and> stays_in T s)"
| "stays_in T (Alt r s) = (stays_in T r \<and> stays_in T s)"
| "stays_in T (Opt r) = stays_in T r"
| "stays_in T (Capture k r) = stays_in T r"
| "stays_in T WordBoundary = (\<forall>c. word_char c \<longrightarrow> T c)"
| "stays_in T LineStart = False"
| "stays_in T LineEnd = False"

definition widen :: "string \<Rightarrow> string \<Rightarrow> pos \<Rightarrow> pos" where
  "widen b a p = p \<lparr> before := before p @ b, after := after p @ a \<rparr>"

lemma widen_simps [simp]:
  "before (widen b a p) = before p @ b" "after (widen b a p) = after p @ a" "caps (widen b a p) = caps p"
  by (simp_all add: widen_def)

lemma pos_eq: "(p :: pos) = q \<longleftrightarrow> before p = before q \<and> after p = after q \<and> caps p = caps q"
  by (cases p, cases q) simp

lemma advance_simps [simp]:
  "before (advance n p) = rev (take n (after p)) @ before p" "after (advance n p) = drop n (after p)" "caps (advance n p) = caps p"
  by (simp_all add: advance_def)

lemma head_is_append: "outside T b \<Longrightarrow> \<forall>c. P c \<longrightarrow> T c \<Longrightarrow> head_is P (s @ b) = head_is P s"
  by (cases s; cases b) (auto simp: head_is_def outside_def)

lemma run_length_append: "outside T b \<Longrightarrow> \<forall>c. P c \<longrightarrow> T c \<Longrightarrow> run_length P (s @ b) = run_length P s"
  by (induction s) (cases b; auto simp: run_length_def outside_def)+

lemma run_length_le: "run_length P s \<le> length s"
  by (simp add: run_length_def length_takeWhile_le)

lemma advance_widen: "k \<le> length (after p) \<Longrightarrow> advance k (widen b a p) = widen b a (advance k p)"
  by (simp add: pos_eq)

lemma matches_shrink: "q \<in> set (matches r p) \<Longrightarrow> length (after q) \<le> length (after p)"
proof (induction r arbitrary: p q)
  case (Seq r s)
  then obtain m where "m \<in> set (matches r p)" "q \<in> set (matches s m)" by auto
  with Seq.IH show ?case by (meson order_trans)
qed (auto split: if_splits)

lemma matches_widen:
  assumes "outside T b" "outside T a"
  shows "stays_in T r \<Longrightarrow> matches r (widen b a p) = map (widen b a) (matches r p)"
proof (induction r arbitrary: p)
  case (Cls P)
  then have "head_is P (after p @ a) = head_is P (after p)" using head_is_append [OF assms(2)] by simp
  moreover have "head_is P (after p) \<Longrightarrow> 1 \<le> length (after p)" by (cases "after p") (simp_all add: head_is_def)
  ultimately show ?case by (simp add: advance_widen)
next
  case (Rep n P)
  then have "run_length P (after p @ a) = run_length P (after p)" using run_length_append [OF assms(2)] by simp
  then show ?case using run_length_le [of P "after p"] by (auto simp: advance_widen)
next
  case (RepLazy n P)
  then have "run_length P (after p @ a) = run_length P (after p)" using run_length_append [OF assms(2)] by simp
  then show ?case using run_length_le [of P "after p"] by (auto simp: advance_widen)
next
  case (Seq r s)
  then show ?case by (simp add: map_concat comp_def)
next
  case (Capture k r)
  then show ?case using matches_shrink [of _ r p] by (auto simp: pos_eq)
next
  case WordBoundary
  then show ?case using head_is_append [OF assms(1), of word_char] head_is_append [OF assms(2), of word_char] by simp
qed simp_all

section \<open>Tests\<close>

lemma prefix_split: "(\<exists>u v. c # cs = u @ v \<and> M u v) \<longleftrightarrow> M [] (c # cs) \<or> (\<exists>u v. cs = u @ v \<and> M (c # u) v)" (is "?l \<longleftrightarrow> ?r")
proof
  assume ?l
  then obtain u v where uv: "c # cs = u @ v" "M u v" by blast
  then show ?r by (cases u) auto
next
  assume ?r
  then show ?l by (metis append_Cons append_Nil)
qed

lemma search_from_Some: "search_from r b s \<noteq> None \<longleftrightarrow> (\<exists>u v. s = u @ v \<and> matches r \<lparr> before = rev u @ b, after = v, caps = [] \<rparr> \<noteq> [])"
proof (induction s arbitrary: b)
  case Nil
  show ?case by (subst search_from.simps) (auto split: list.splits)
next
  case (Cons c cs)
  from prefix_split [of c cs "\<lambda>u v. matches r \<lparr> before = rev u @ b, after = v, caps = [] \<rparr> \<noteq> []"]
  have "(\<exists>u v. c # cs = u @ v \<and> matches r \<lparr> before = rev u @ b, after = v, caps = [] \<rparr> \<noteq> [])
      \<longleftrightarrow> matches r \<lparr> before = b, after = c # cs, caps = [] \<rparr> \<noteq> []
        \<or> (\<exists>u v. cs = u @ v \<and> matches r \<lparr> before = rev u @ c # b, after = v, caps = [] \<rparr> \<noteq> [])"
    by simp
  moreover have "search_from r b (c # cs) \<noteq> None \<longleftrightarrow> matches r \<lparr> before = b, after = c # cs, caps = [] \<rparr> \<noteq> [] \<or> search_from r (c # b) cs \<noteq> None"
    by (subst search_from.simps) (simp split: list.splits)
  ultimately show ?case using Cons.IH [of "c # b"] by blast
qed

lemma re_test_iff: "re_test r s \<longleftrightarrow> (\<exists>u v. s = u @ v \<and> matches r \<lparr> before = rev u, after = v, caps = [] \<rparr> \<noteq> [])"
  using search_from_Some [of r "[]" s] by (simp add: re_test_def re_exec_def)

lemma re_test_split:
  assumes "stays_in T r" "\<not> T d"
  shows "re_test r (x @ d # y) \<longleftrightarrow> re_test r x \<or> re_test r y"
proof -
  have left: "matches r \<lparr> before = rev u, after = v @ d # y, caps = [] \<rparr> \<noteq> [] \<longleftrightarrow> matches r \<lparr> before = rev u, after = v, caps = [] \<rparr> \<noteq> []" for u v
    using matches_widen [of T "[]" "d # y" r "\<lparr> before = rev u, after = v, caps = [] \<rparr>"] assms by (simp add: outside_def widen_def)
  have right: "matches r \<lparr> before = rev u @ d # rev x, after = v, caps = [] \<rparr> \<noteq> [] \<longleftrightarrow> matches r \<lparr> before = rev u, after = v, caps = [] \<rparr> \<noteq> []" for u v
    using matches_widen [of T "d # rev x" "[]" r "\<lparr> before = rev u, after = v, caps = [] \<rparr>"] assms by (simp add: outside_def widen_def)
  show ?thesis
  proof
    assume "re_test r (x @ d # y)"
    then obtain u v where uv: "x @ d # y = u @ v" and m: "matches r \<lparr> before = rev u, after = v, caps = [] \<rparr> \<noteq> []"
      unfolding re_test_iff by blast
    from uv consider z where "x = u @ z" "v = z @ d # y" | z where "u = x @ d # z" "y = z @ v"
      by (auto simp: append_eq_append_conv2 Cons_eq_append_conv)
    then show "re_test r x \<or> re_test r y"
    proof cases
      case (1 z)
      then show ?thesis using m left [of u z] unfolding re_test_iff by blast
    next
      case (2 z)
      then show ?thesis using m right [of z v] unfolding re_test_iff by auto
    qed
  next
    assume "re_test r x \<or> re_test r y"
    then show "re_test r (x @ d # y)"
    proof
      assume "re_test r x"
      then obtain u v where "x = u @ v" "matches r \<lparr> before = rev u, after = v, caps = [] \<rparr> \<noteq> []" unfolding re_test_iff by blast
      then have "x @ d # y = u @ (v @ d # y)" "matches r \<lparr> before = rev u, after = v @ d # y, caps = [] \<rparr> \<noteq> []" using left [of u v] by auto
      then show ?thesis unfolding re_test_iff by blast
    next
      assume "re_test r y"
      then obtain u v where "y = u @ v" "matches r \<lparr> before = rev u, after = v, caps = [] \<rparr> \<noteq> []" unfolding re_test_iff by blast
      then have "x @ d # y = (x @ d # u) @ v" "matches r \<lparr> before = rev (x @ d # u), after = v, caps = [] \<rparr> \<noteq> []" using right [of u v] by auto
      then show ?thesis unfolding re_test_iff by blast
    qed
  qed
qed

section \<open>The secret test\<close>

definition secret_char :: "char \<Rightarrow> bool" where
  "secret_char c = (token_char c \<or> c = CHR ''.'')"

lemma stays_in_Word: "list_all T w \<Longrightarrow> stays_in T (Word w)"
  by (induction w) (simp_all add: Lit_def)

lemma secret_stays_in: "stays_in secret_char UNSANITIZED"
  unfolding UNSANITIZED_def by (auto simp: Lit_def secret_char_def token_char_def word_char_def Let_def)

abbreviation secret :: "string \<Rightarrow> bool" where "secret \<equiv> re_test UNSANITIZED"

lemmas secret_split = re_test_split [OF secret_stays_in]

lemma secret_join: "secret (join_with [d] ws) \<longleftrightarrow> list_ex secret ws" if "\<not> secret_char d" "\<not> secret []"
  using that by (induction ws rule: induct_list012) (simp_all add: secret_split)

lemma secret_Nil [simp]: "\<not> secret []" by code_simp

lemma secret_rejected: "\<not> secret REJECT_REPLACEMENT" by code_simp

lemma sanitize_clean [simp]: "\<not> secret (sanitize policy s)"
  using secret_rejected by (simp add: sanitize_def Let_def)

end
