(* ===== verification/Redaction.thy ===== *)
theory Redaction
  imports Sanitizer_Properties
begin

text \<open>
  What the redaction of a text is, written as a relation between the raw text and what is
  left of it, and which secrets the shipped policy
  (\<^verbatim>\<open>packages/orchestrator-harness/config/sanitization-policy.json\<close>) leaves in no text.
\<close>

section \<open>Redaction as a relation\<close>

text \<open>
  \<open>redacts r w b s t\<close>: reading \<open>s\<close> from left to right after the text \<open>b\<close> (reversed), every
  place that starts a match is cut, as far as the first match there goes, and \<open>w\<close> is written
  in its place; every other character is kept. An empty match writes \<open>w\<close> and keeps the
  character after it.
\<close>

inductive redacts :: "re \<Rightarrow> string \<Rightarrow> string \<Rightarrow> string \<Rightarrow> string \<Rightarrow> bool" for r w where
  at_end: "matches r \<lparr> before = b, after = [], caps = [] \<rparr> = [] \<Longrightarrow> redacts r w b [] []"
| cut_end: "matches r \<lparr> before = b, after = [], caps = [] \<rparr> \<noteq> [] \<Longrightarrow> redacts r w b [] w"
| kept: "matches r \<lparr> before = b, after = c # s, caps = [] \<rparr> = [] \<Longrightarrow> redacts r w (c # b) s t \<Longrightarrow> redacts r w b (c # s) (c # t)"
| cut: "matches r \<lparr> before = b, after = m @ s, caps = [] \<rparr> = q # qs \<Longrightarrow> after q = s \<Longrightarrow> m \<noteq> [] \<Longrightarrow>
    redacts r w (rev m @ b) s t \<Longrightarrow> redacts r w b (m @ s) (w @ t)"
| cut_empty: "matches r \<lparr> before = b, after = c # s, caps = [] \<rparr> = q # qs \<Longrightarrow> after q = c # s \<Longrightarrow>
    redacts r w (c # b) s t \<Longrightarrow> redacts r w b (c # s) (w @ c # t)"

text \<open>Without the global flag the first match alone is cut.\<close>

inductive redacts_first :: "re \<Rightarrow> string \<Rightarrow> string \<Rightarrow> string \<Rightarrow> string \<Rightarrow> bool" for r w where
  none: "matches r \<lparr> before = b, after = [], caps = [] \<rparr> = [] \<Longrightarrow> redacts_first r w b [] []"
| first: "matches r \<lparr> before = b, after = s, caps = [] \<rparr> = q # qs \<Longrightarrow> redacts_first r w b s (w @ after q)"
| kept_first: "matches r \<lparr> before = b, after = c # s, caps = [] \<rparr> = [] \<Longrightarrow> redacts_first r w (c # b) s t
    \<Longrightarrow> redacts_first r w b (c # s) (c # t)"

definition redacted_by :: "sanitizer_pattern \<Rightarrow> string \<Rightarrow> string \<Rightarrow> bool" where
  "redacted_by p s t \<longleftrightarrow> (if CHR ''g'' \<in> set (sn_flags p) then redacts (compilePattern p) (sn_replacement p) [] s t
     else redacts_first (compilePattern p) (sn_replacement p) [] s t)"

fun redacted_in_turn :: "sanitizer_pattern list \<Rightarrow> string \<Rightarrow> string \<Rightarrow> bool" where
  "redacted_in_turn [] s t = (s = t)"
| "redacted_in_turn (p # ps) s t = (\<exists>u. redacted_by p s u \<and> redacted_in_turn ps u t)"

text \<open>
  \<open>t\<close> is what a policy leaves of \<open>raw\<close>: every pattern in turn, and a text that still has a
  key or a token is given up as a whole.
\<close>

definition sanitized_as :: "sanitization_policy \<Rightarrow> string \<Rightarrow> string \<Rightarrow> bool" where
  "sanitized_as policy raw t \<longleftrightarrow> (\<exists>u. redacted_in_turn (sz_patterns policy) raw u \<and> t = (if secret u then REJECT_REPLACEMENT else u))"

lemma matches_suffix: "q \<in> set (matches r p) \<Longrightarrow> suffix (after q) (after p)"
proof (induction r arbitrary: p q)
  case (Seq r s)
  then obtain m where "m \<in> set (matches r p)" "q \<in> set (matches s m)" by auto
  with Seq.IH show ?case by (meson suffix_order.order_trans)
qed (auto simp: suffix_drop split: if_splits)

lemma skip_cut: "m \<noteq> [] \<Longrightarrow> replace_from r w (length m) b (m @ s) = replace_from r w 0 (rev m @ b) s"
proof (induction m arbitrary: b)
  case (Cons c m)
  then show ?case by (cases "m = []") simp_all
qed simp

lemma replace_from_redacts: "redacts r w b s (replace_from r w 0 b s)"
proof (induction s arbitrary: b rule: length_induct)
  case (1 s)
  show ?case
  proof (cases s)
    case Nil
    then show ?thesis by (auto intro: redacts.intros)
  next
    case s: (Cons c cs)
    have IH: "redacts r w b' x (replace_from r w 0 b' x)" if "length x < length s" for b' x
      using "1" that by blast
    show ?thesis
    proof (cases "matches r \<lparr> before = b, after = c # cs, caps = [] \<rparr>")
      case Nil
      then show ?thesis using s IH [of cs] by (simp add: redacts.kept)
    next
      case m: (Cons q qs)
      have suf: "suffix (after q) (c # cs)" using matches_suffix [of q r "\<lparr> before = b, after = c # cs, caps = [] \<rparr>"] m by simp
      show ?thesis
      proof (cases "length (after q) = Suc (length cs)")
        case True
        then have "after q = c # cs" using suf by (metis length_Cons suffix_length_suffix suffix_order.order_antisym suffix_order.refl le_refl)
        then show ?thesis using s m IH [of cs] by (simp add: redacts.cut_empty)
      next
        case False
        then obtain z where z: "cs = z @ after q" using suf by (auto simp: suffix_def Cons_eq_append_conv dest: arg_cong [of _ _ length])
        have "replace_from r w 0 b s = w @ replace_from r w (length z) (c # b) (z @ after q)"
          using s m False z by simp
        also have "\<dots> = w @ replace_from r w 0 (rev (c # z) @ b) (after q)"
          using skip_cut [of z r w "c # b" "after q"] by (cases "z = []") simp_all
        finally have "replace_from r w 0 b s = w @ replace_from r w 0 (rev (c # z) @ b) (after q)" .
        moreover have "redacts r w b ((c # z) @ after q) (w @ replace_from r w 0 (rev (c # z) @ b) (after q))"
          by (rule redacts.cut [of r b "c # z" "after q" q qs]) (use m z s IH [of "after q"] in simp_all)
        ultimately show ?thesis using s z by simp
      qed
    qed
  qed
qed

lemma replace_once_redacts: "redacts_first r w b s (replace_once r w b s)"
proof (induction s arbitrary: b)
  case Nil
  show ?case
  proof (cases "matches r \<lparr> before = b, after = [], caps = [] \<rparr>")
    case (Cons q qs)
    then have "after q = []" using matches_suffix [of q r "\<lparr> before = b, after = [], caps = [] \<rparr>"] by simp
    then show ?thesis using redacts_first.first [OF Cons, of w] Cons by simp
  qed (simp add: redacts_first.none)
qed (auto intro: redacts_first.intros split: list.splits)

lemma apply_pattern_redacts: "redacted_by p s (apply_pattern s p)"
  by (simp add: redacted_by_def apply_pattern_def re_replace_def replace_from_redacts replace_once_redacts)

lemma foldl_redacts: "redacted_in_turn ps s (foldl apply_pattern s ps)"
  by (induction ps arbitrary: s) (auto intro: apply_pattern_redacts)

lemma sanitize_redacts: "sanitized_as policy raw (sanitize policy raw)"
  using foldl_redacts by (auto simp: sanitized_as_def sanitize_def Let_def)

section \<open>What no redaction brings back\<close>

text \<open>
  An expression without assertions matches a text as soon as it matches a part of it, and
  what stands before the text does not matter to it. \<open>eats\<close> says that no match is empty,
  \<open>narrower r s\<close> that \<open>s\<close> matches wherever \<open>r\<close> does.
\<close>

fun free_of_assertions :: "re \<Rightarrow> bool" where
  "free_of_assertions (Seq r s) = (free_of_assertions r \<and> free_of_assertions s)"
| "free_of_assertions (Alt r s) = (free_of_assertions r \<and> free_of_assertions s)"
| "free_of_assertions (Opt r) = free_of_assertions r"
| "free_of_assertions (Capture k r) = free_of_assertions r"
| "free_of_assertions WordBoundary = False"
| "free_of_assertions LineStart = False"
| "free_of_assertions LineEnd = False"
| "free_of_assertions _ = True"

fun eats :: "re \<Rightarrow> bool" where
  "eats (Cls P) = True"
| "eats (Rep n P) = (0 < n)"
| "eats (RepLazy n P) = (0 < n)"
| "eats (Seq r s) = (eats r \<or> eats s)"
| "eats (Alt r s) = (eats r \<and> eats s)"
| "eats (Capture k r) = eats r"
| "eats _ = False"

fun narrower :: "re \<Rightarrow> re \<Rightarrow> bool" where
  "narrower (Cls P) (Cls Q) = (\<forall>c. P c \<longrightarrow> Q c)"
| "narrower (Rep m P) (Rep n Q) = (m = n \<and> (\<forall>c. P c \<longrightarrow> Q c))"
| "narrower (Seq r s) (Seq r' s') = (narrower r r' \<and> narrower s s')"
| "narrower (Alt r s) (Alt r' s') = (narrower r r' \<and> narrower s s')"
| "narrower (Opt r) (Opt r') = narrower r r'"
| "narrower (Capture k r) (Capture l r') = (k = l \<and> narrower r r')"
| "narrower r s = (r = s)"

lemma narrower_refl [simp]: "narrower r r"
  by (induction r) simp_all

lemma run_length_mono: "(\<And>c. P c \<Longrightarrow> Q c) \<Longrightarrow> run_length P s \<le> run_length Q s"
  by (induction s) (auto simp: run_length_def)

lemma head_is_mono: "(\<And>c. P c \<Longrightarrow> Q c) \<Longrightarrow> head_is P s \<Longrightarrow> head_is Q s"
  by (cases s) (simp_all add: head_is_def)

lemma in_Rep:
  "q \<in> set (matches (Rep n P) p) \<longleftrightarrow> (\<exists>k. n \<le> k \<and> k \<le> run_length P (after p) \<and> q = advance k p)"
  "q \<in> set (matches (RepLazy n P) p) \<longleftrightarrow> (\<exists>k. n \<le> k \<and> k \<le> run_length P (after p) \<and> q = advance k p)"
  by (auto simp del: upt_Suc simp: image_iff less_Suc_eq_le Bex_def)

lemma in_Seq: "q \<in> set (matches (Seq r s) p) \<longleftrightarrow> (\<exists>m \<in> set (matches r p). q \<in> set (matches s m))"
  by auto

lemma matches_Seq: "matches (Seq r s) p \<noteq> [] \<longleftrightarrow> (\<exists>m \<in> set (matches r p). matches s m \<noteq> [])"
  by auto

lemma matches_narrower: "narrower r s \<Longrightarrow> q \<in> set (matches r p) \<Longrightarrow> q \<in> set (matches s p)"
proof (induction r s arbitrary: p q rule: narrower.induct)
  case (1 P Q)
  then show ?case using head_is_mono [of P Q "after p"] by (auto split: if_splits)
next
  case (2 m P n Q)
  then show ?case using run_length_mono [of P Q "after p"] unfolding in_Rep by fastforce
next
  case (3 r s r' s')
  then show ?case unfolding in_Seq narrower.simps by blast
qed (auto split: if_splits)

lemma matches_eats: "eats r \<Longrightarrow> q \<in> set (matches r p) \<Longrightarrow> length (after q) < length (after p)"
proof (induction r arbitrary: p q)
  case (Cls P)
  then show ?case by (cases "after p") (auto simp: head_is_def split: if_splits)
next
  case (Rep n P)
  then show ?case using run_length_le [of P "after p"] by auto
next
  case (RepLazy n P)
  then show ?case using run_length_le [of P "after p"] by auto
next
  case (Seq r s)
  then obtain m where "m \<in> set (matches r p)" "q \<in> set (matches s m)" by auto
  with Seq matches_shrink show ?case by (metis eats.simps(4) le_less_trans less_le_trans)
qed auto

lemma run_length_widen: "run_length P s \<le> run_length P (s @ t)"
  by (induction s) (auto simp: run_length_def)

lemma matches_wider: "free_of_assertions r \<Longrightarrow> q \<in> set (matches r p) \<Longrightarrow> widen b a q \<in> set (matches r (widen b a p))"
proof (induction r arbitrary: p q)
  case (Cls P)
  then show ?case by (cases "after p") (auto simp: head_is_def advance_widen split: if_splits)
next
  case (Rep n P)
  then show ?case unfolding in_Rep
    by (metis advance_widen order_trans run_length_le run_length_widen widen_simps(2))
next
  case (RepLazy n P)
  then show ?case unfolding in_Rep
    by (metis advance_widen order_trans run_length_le run_length_widen widen_simps(2))
next
  case (Seq r s)
  then show ?case unfolding in_Seq by (metis free_of_assertions.simps(1))
next
  case (Capture k r)
  then obtain m where m: "m \<in> set (matches r p)" "q = m \<lparr> caps := (k, take (length (after p) - length (after m)) (after p)) # caps m \<rparr>" by auto
  then show ?case using Capture matches_shrink [OF m(1)]
    by (auto simp: pos_eq intro!: image_eqI [where x = "widen b a m"])
qed auto

lemma matches_anywhere:
  "free_of_assertions r \<Longrightarrow> after p = after p' \<Longrightarrow> q \<in> set (matches r p) \<Longrightarrow> \<exists>q' \<in> set (matches r p'). after q' = after q"
proof (induction r arbitrary: p p' q)
  case (Rep n P)
  then show ?case unfolding Bex_def in_Rep by (metis advance_simps(2))
next
  case (RepLazy n P)
  then show ?case unfolding Bex_def in_Rep by (metis advance_simps(2))
next
  case (Seq r s)
  from Seq.prems(3) obtain m where m: "m \<in> set (matches r p)" "q \<in> set (matches s m)" unfolding in_Seq by blast
  have free: "free_of_assertions r" "free_of_assertions s" using Seq.prems(1) by simp_all
  obtain m' where m': "m' \<in> set (matches r p')" "after m' = after m" using Seq.IH(1) [OF free(1) Seq.prems(2) m(1)] by (rule bexE)
  obtain q' where q': "q' \<in> set (matches s m')" "after q' = after q" using Seq.IH(2) [OF free(2) m'(2) [symmetric] m(2)] by (rule bexE)
  have "q' \<in> set (matches (Seq r s) p')" using m'(1) q'(1) unfolding in_Seq by blast
  then show ?case by (intro bexI [of _ q'] q'(2))
next
  case (Alt r s)
  have free: "free_of_assertions r" "free_of_assertions s" using Alt.prems(1) by simp_all
  from Alt.prems(3) have "q \<in> set (matches r p) \<or> q \<in> set (matches s p)" by simp
  then show ?case using Alt.IH(1) [OF free(1) Alt.prems(2)] Alt.IH(2) [OF free(2) Alt.prems(2)]
    unfolding matches.simps set_append by blast
next
  case (Opt r)
  have "free_of_assertions r" using Opt.prems(1) by simp
  note IH = Opt.IH [OF this Opt.prems(2)]
  from Opt.prems(3) have "q \<in> set (matches r p) \<or> q = p" by auto
  then show ?case using IH Opt.prems(2) by fastforce
next
  case (Capture k r)
  then obtain m where m: "m \<in> set (matches r p)" "after q = after m" by auto
  then obtain m' where "m' \<in> set (matches r p')" "after m' = after m"
    using Capture.IH [OF _ Capture.prems(2) m(1)] Capture.prems(1) by auto
  with m(2) show ?case by auto
qed (simp_all split: if_splits)

text \<open>\<open>starts r s\<close>: a match of \<open>r\<close> starts where \<open>s\<close> does.\<close>

definition starts :: "re \<Rightarrow> string \<Rightarrow> bool" where
  "starts r s \<longleftrightarrow> matches r \<lparr> before = [], after = s, caps = [] \<rparr> \<noteq> []"

lemma matches_starts:
  assumes "free_of_assertions r"
  shows "matches r \<lparr> before = b, after = s, caps = [] \<rparr> \<noteq> [] \<longleftrightarrow> starts r s"
proof -
  have "matches r p \<noteq> [] \<Longrightarrow> after p = after p' \<Longrightarrow> matches r p' \<noteq> []" for p p'
    using matches_anywhere [OF assms, of p p' "hd (matches r p)"] by fastforce
  from this [of "\<lparr> before = b, after = s, caps = [] \<rparr>" "\<lparr> before = [], after = s, caps = [] \<rparr>"]
    this [of "\<lparr> before = [], after = s, caps = [] \<rparr>" "\<lparr> before = b, after = s, caps = [] \<rparr>"]
  show ?thesis unfolding starts_def by auto
qed

lemma re_test_starts: "free_of_assertions r \<Longrightarrow> re_test r s \<longleftrightarrow> (\<exists>u v. s = u @ v \<and> starts r v)"
  by (simp add: re_test_iff matches_starts)

lemma re_test_Cons: "free_of_assertions r \<Longrightarrow> re_test r (c # s) \<longleftrightarrow> starts r (c # s) \<or> re_test r s"
  unfolding re_test_starts prefix_split [of c s "\<lambda>u v. starts r v"] by auto

lemma re_test_append: "free_of_assertions r \<Longrightarrow> re_test r s \<Longrightarrow> re_test r (u @ s)"
  by (metis append.assoc re_test_starts)

lemma starts_wider:
  assumes "free_of_assertions r" "starts r m"
  shows "starts r (m @ x)"
proof -
  from assms(2) obtain q where "q \<in> set (matches r \<lparr> before = [], after = m, caps = [] \<rparr>)"
    unfolding starts_def by (metis list.set_sel(1))
  from matches_wider [OF assms(1) this, of "[]" x] show ?thesis
    unfolding starts_def widen_def by (auto simp: in_set_conv_nth)
qed

lemma starts_local:
  assumes "stays_in T r" "y = [] \<or> \<not> T (hd y)"
  shows "starts r (m @ y) \<longleftrightarrow> starts r m"
  using matches_widen [of T "[]" y r "\<lparr> before = [], after = m, caps = [] \<rparr>"] assms
  by (cases y) (simp_all add: outside_def widen_def starts_def)
text \<open>
  The text that is left starts with what the raw text starts with, up to the first cut; there
  the replacement stands. What stands for a cut is in brackets, which the expressions below
  do not contain.
\<close>

definition no_bracket :: "char \<Rightarrow> bool" where
  "no_bracket c \<longleftrightarrow> c \<noteq> CHR ''['' \<and> c \<noteq> CHR '']''"

definition bracketed :: "string \<Rightarrow> string" where
  "bracketed inner = CHR ''['' # inner @ [CHR '']'']"

lemma shared_nothing:
  assumes "redacts r w b s t" "t = [] \<or> \<not> no_bracket (hd t)"
  shows "\<exists>m x y. s = m @ x \<and> t = m @ y \<and> (y = [] \<or> \<not> no_bracket (hd y))
    \<and> (\<forall>m1 m2. m = m1 @ m2 \<longrightarrow> redacts r w (rev m1 @ b) (m2 @ x) (m2 @ y))"
  by (rule exI [of _ "[]"], rule exI [of _ s], rule exI [of _ t]) (use assms in simp)

lemma bracketed_head: "\<not> no_bracket (hd (bracketed w @ t))"
  by (simp add: bracketed_def no_bracket_def)

lemma redacts_shared:
  "redacts r (bracketed w) b s t \<Longrightarrow>
     \<exists>m x y. s = m @ x \<and> t = m @ y \<and> (y = [] \<or> \<not> no_bracket (hd y))
       \<and> (\<forall>m1 m2. m = m1 @ m2 \<longrightarrow> redacts r (bracketed w) (rev m1 @ b) (m2 @ x) (m2 @ y))"
proof (induction rule: redacts.induct)
  case (at_end b)
  then show ?case using redacts.at_end by (intro shared_nothing) simp_all
next
  case (cut_end b)
  show ?case using bracketed_head [of w "[]"] by (intro shared_nothing redacts.cut_end cut_end) simp
next
  case (kept b c s t)
  then obtain m x y where *: "s = m @ x" "t = m @ y" "y = [] \<or> \<not> no_bracket (hd y)"
    "\<forall>m1 m2. m = m1 @ m2 \<longrightarrow> redacts r (bracketed w) (rev m1 @ c # b) (m2 @ x) (m2 @ y)" by blast
  have "redacts r (bracketed w) (rev m1 @ b) (m2 @ x) (m2 @ y)" if "c # m = m1 @ m2" for m1 m2
    using that *(1,2,4) redacts.kept [OF kept.hyps] by (cases m1) auto
  then show ?case using *(1-3) by (intro exI [of _ "c # m"] exI [of _ x] exI [of _ y]) simp
next
  case (cut b m s q qs t)
  show ?case by (rule shared_nothing [OF redacts.cut [OF cut.hyps(1-4)]]) (simp add: bracketed_head)
next
  case (cut_empty b c s q qs t)
  show ?case by (rule shared_nothing [OF redacts.cut_empty [OF cut_empty.hyps(1-3)]]) (simp add: bracketed_head)
qed

lemma redacts_starts:
  assumes "redacts R (bracketed w) b s t" "free_of_assertions r" "stays_in no_bracket r" "starts r (c # t)"
  shows "starts r (c # s)"
proof -
  obtain m x y where m: "s = m @ x" "t = m @ y" "y = [] \<or> \<not> no_bracket (hd y)"
    using redacts_shared [OF assms(1)] by blast
  have "starts r (c # m)" using starts_local [OF assms(3) m(3), of "c # m"] assms(4) m(2) by simp
  then show ?thesis using starts_wider [OF assms(2), of "c # m" x] m(1) by simp
qed

lemma test_bracketed: "stays_in no_bracket r \<Longrightarrow> \<not> re_test r [] \<Longrightarrow> re_test r (bracketed w @ t) \<longleftrightarrow> re_test r w \<or> re_test r t"
  using re_test_split [of no_bracket r "CHR ''[''" "[]" "w @ CHR '']'' # t"] re_test_split [of no_bracket r "CHR '']''" w t]
  by (simp add: bracketed_def no_bracket_def)

lemma starts_eats: "eats r \<Longrightarrow> \<not> starts r []"
  unfolding starts_def
proof
  let ?p = "\<lparr> before = [], after = [], caps = [] \<rparr> :: pos"
  assume "eats r" "matches r ?p \<noteq> []"
  then have "length (after (hd (matches r ?p))) < length (after ?p)" by (rule matches_eats [OF _ hd_in_set])
  then show False by simp
qed

lemma test_empty: "free_of_assertions r \<Longrightarrow> eats r \<Longrightarrow> \<not> re_test r []"
  by (simp add: re_test_starts starts_eats)

lemma starts_bracketed:
  assumes "stays_in no_bracket r" "free_of_assertions r" "\<not> re_test r w" "\<not> starts r []" "bracketed w = u @ v" "v \<noteq> []"
  shows "\<not> starts r (v @ t)"
proof (cases u)
  case Nil
  then have "v @ t = [] @ (v @ t)" "v @ t = [] \<or> \<not> no_bracket (hd (v @ t))" using assms(5) bracketed_head [of w t] by auto
  then show ?thesis using starts_local [OF assms(1), of "v @ t" "[]"] assms(4) by simp
next
  case (Cons d u')
  then obtain z where z: "w = u' @ z" "v = z @ [CHR '']'']"
    using assms(5,6) by (cases v rule: rev_cases) (auto simp: bracketed_def)
  have "\<not> starts r z" using assms(3) z(1) by (auto simp: re_test_starts [OF assms(2)])
  then show ?thesis using starts_local [OF assms(1), of "CHR '']'' # t" z] z(2) by (simp add: no_bracket_def)
qed

text \<open>
  What it takes for an expression to stay out of a text once it is out: a match that starts
  at a kept character starts there in the raw text too, and none starts in a replacement.
\<close>

locale kept_out =
  fixes r :: re and w :: string
  assumes free: "free_of_assertions r"
    and no_empty: "\<not> starts r []"
    and starts_back: "redacts R (bracketed w) b s t \<Longrightarrow> starts r (c # t) \<Longrightarrow> starts r (c # s)"
    and not_inside: "re_test r (bracketed w @ t) \<Longrightarrow> re_test r t"
begin

lemma not_in_empty: "\<not> re_test r []"
  using no_empty by (simp add: re_test_starts [OF free])

lemma preserved: "redacts R (bracketed w) b s t \<Longrightarrow> re_test r t \<Longrightarrow> re_test r s"
proof (induction rule: redacts.induct)
  case (cut_end b)
  then show ?case using not_inside [of "[]"] by simp
next
  case (kept b c s t)
  then show ?case using starts_back [OF kept.hyps(2), of c] by (auto simp: re_test_Cons [OF free])
next
  case (cut b m s q qs t)
  then show ?case using not_inside re_test_append [OF free] by blast
next
  case (cut_empty b c s q qs t)
  then show ?case using not_inside [of "c # t"] starts_back [OF cut_empty.hyps(3), of c] by (auto simp: re_test_Cons [OF free])
qed simp

lemma removed:
  assumes "narrower r R" "eats R"
  shows "redacts R (bracketed w) b s t \<Longrightarrow> \<not> re_test r t"
proof (induction rule: redacts.induct)
  case (at_end b)
  show ?case by (rule not_in_empty)
next
  case (cut_end b)
  then show ?case using not_inside [of "[]"] not_in_empty by auto
next
  case (kept b c s t)
  then have "matches r \<lparr> before = b, after = c # s, caps = [] \<rparr> = []"
    using matches_narrower [OF assms(1)] by (metis list.set_intros(1) list.exhaust empty_iff list.set(1))
  then have "\<not> starts r (c # s)" using matches_starts [OF free] by blast
  then show ?case using kept starts_back [OF kept.hyps(2), of c] by (auto simp: re_test_Cons [OF free])
next
  case (cut b m s q qs t)
  then show ?case using not_inside by blast
next
  case (cut_empty b c s q qs t)
  then have "length (after q) < length (c # s)" using matches_eats [OF assms(2), of q "\<lparr> before = b, after = c # s, caps = [] \<rparr>"] by simp
  then show ?case using cut_empty.hyps(2) by simp
qed

text \<open>A list of global patterns that write the same replacement, with one that covers \<open>r\<close>.\<close>

lemma preserved_in_turn:
  "list_all (\<lambda>p. CHR ''g'' \<in> set (sn_flags p) \<and> sn_replacement p = bracketed w) ps \<Longrightarrow> re_test r (foldl apply_pattern s ps) \<Longrightarrow> re_test r s"
proof (induction ps arbitrary: s)
  case (Cons p ps)
  then show ?case using apply_pattern_redacts [of p s] preserved by (simp add: redacted_by_def)
qed simp

lemma removed_in_turn:
  assumes "list_all (\<lambda>p. CHR ''g'' \<in> set (sn_flags p) \<and> sn_replacement p = bracketed w) ps"
    and "list_ex (\<lambda>p. narrower r (compilePattern p) \<and> eats (compilePattern p)) ps"
  shows "\<not> re_test r (foldl apply_pattern s ps)"
proof -
  from assms(2) obtain as p bs where ps: "ps = as @ p # bs" "narrower r (compilePattern p)" "eats (compilePattern p)"
    by (auto simp: list_ex_iff dest: split_list)
  have "redacts (compilePattern p) (bracketed w) [] s' (apply_pattern s' p)" for s'
    using apply_pattern_redacts [of p s'] assms(1) ps(1) by (simp add: redacted_by_def)
  from removed [OF ps(2,3) this] show ?thesis using preserved_in_turn [of bs] assms(1) ps(1) by auto
qed

end

lemma local_kept_out:
  assumes "free_of_assertions r" "stays_in no_bracket r" "eats r" "\<not> re_test r w"
  shows "kept_out r w"
proof
  show "re_test r (bracketed w @ t) \<Longrightarrow> re_test r t" for t
    using test_bracketed [OF assms(2) test_empty [OF assms(1,3)]] assms(4) by simp
  show "redacts R (bracketed w) b s t \<Longrightarrow> starts r (c # t) \<Longrightarrow> starts r (c # s)" for R b s t c
    by (rule redacts_starts [OF _ assms(1,2)])
qed (use assms starts_eats in simp_all)

lemma last_part:
  assumes "free_of_assertions e"
  shows "matches (Seq e (Word [])) p \<noteq> [] \<longleftrightarrow> starts e (after p)"
proof -
  have "matches (Seq e (Word [])) p \<noteq> [] \<longleftrightarrow> matches e p \<noteq> []" by (auto simp: run_length_def)
  also have "\<dots> \<longleftrightarrow> starts e (after p)"
  proof
    let ?q = "\<lparr> before = [], after = after p, caps = [] \<rparr>"
    assume "matches e p \<noteq> []"
    then obtain x where "x \<in> set (matches e p)" by (meson hd_in_set)
    with matches_anywhere [OF assms, of p ?q] obtain y where "y \<in> set (matches e ?q)" by auto
    then show "starts e (after p)" by (auto simp: starts_def)
  next
    let ?q = "\<lparr> before = [], after = after p, caps = [] \<rparr>"
    assume "starts e (after p)"
    then obtain x where "x \<in> set (matches e ?q)" unfolding starts_def by (meson hd_in_set)
    with matches_anywhere [OF assms, of ?q p] obtain y where "y \<in> set (matches e p)" by auto
    then show "matches e p \<noteq> []" by auto
  qed
  finally show ?thesis .
qed

lemma block_starts:
  assumes "free_of_assertions e"
  shows "starts (Seqs [h, RepLazy 0 any_char, e]) s \<longleftrightarrow> (\<exists>q \<in> set (matches h \<lparr> before = [], after = s, caps = [] \<rparr>). re_test e (after q))"
proof -
  have all: "run_length any_char y = length y" for y by (induction y) (simp_all add: run_length_def any_char_def)
  have split: "(\<exists>u v. y = u @ v \<and> starts e v) \<longleftrightarrow> (\<exists>k. k \<le> length y \<and> starts e (drop k y))" for y
    by (metis append_eq_conv_conj append_take_drop_id le_add1 length_append)
  have rest: "matches (Seq (RepLazy 0 any_char) (Seq e (Word []))) p \<noteq> [] \<longleftrightarrow> re_test e (after p)" for p
  proof -
    have "matches (Seq (RepLazy 0 any_char) (Seq e (Word []))) p \<noteq> [] \<longleftrightarrow> (\<exists>q \<in> set (matches (RepLazy 0 any_char) p). starts e (after q))"
      unfolding matches_Seq [of "RepLazy 0 any_char"] last_part [OF assms] ..
    then show ?thesis unfolding re_test_starts [OF assms] split Bex_def in_Rep all by (metis advance_simps(2) le0)
  qed
  show ?thesis unfolding starts_def Seqs.simps matches_Seq [of h] using rest by auto
qed

lemma block_kept_out:
  assumes h: "free_of_assertions h" "stays_in no_bracket h" "eats h" "\<not> re_test h w"
    and e: "free_of_assertions e" "stays_in no_bracket e" "eats e" "\<not> re_test e w"
  shows "kept_out (Seqs [h, RepLazy 0 any_char, e]) w"
proof
  let ?r = "Seqs [h, RepLazy 0 any_char, e]"
  note block = block_starts [OF e(1), of h]
  show "free_of_assertions ?r" using h(1) e(1) by simp
  show "\<not> starts ?r []" using starts_eats [OF h(3)] unfolding block by (auto simp: starts_def)
  show "starts ?r (c # s)" if cut: "redacts R (bracketed w) b s t" and st: "starts ?r (c # t)" for R b s t c
  proof -
    obtain m x y where m: "s = m @ x" "t = m @ y" "y = [] \<or> \<not> no_bracket (hd y)"
      "\<forall>m1 m2. m = m1 @ m2 \<longrightarrow> redacts R (bracketed w) (rev m1 @ b) (m2 @ x) (m2 @ y)" using redacts_shared [OF cut] by blast
    let ?p = "\<lparr> before = [], after = c # m, caps = [] \<rparr>"
    obtain q where q: "q \<in> set (matches h \<lparr> before = [], after = c # t, caps = [] \<rparr>)" "re_test e (after q)"
      using st unfolding block by blast
    have "matches h \<lparr> before = [], after = c # t, caps = [] \<rparr> = map (widen [] y) (matches h ?p)"
      using matches_widen [OF _ _ h(2), of "[]" y ?p] m(2,3) by (cases y) (simp_all add: outside_def widen_def)
    with q obtain q' where q': "q' \<in> set (matches h ?p)" "re_test e (after q' @ y)" by auto
    have "suffix (after q') (c # m)" "length (after q') < length (c # m)"
      using matches_suffix [OF q'(1)] matches_eats [OF h(3) q'(1)] by simp_all
    then obtain m1 where "m = m1 @ after q'" by (auto simp: suffix_def Cons_eq_append_conv dest: arg_cong [of _ _ length])
    with m(4) have "redacts R (bracketed w) (rev m1 @ b) (after q' @ x) (after q' @ y)" by blast
    from kept_out.preserved [OF local_kept_out [OF e] this q'(2)] have "re_test e (after q' @ x)" .
    moreover have "widen [] x q' \<in> set (matches h \<lparr> before = [], after = c # s, caps = [] \<rparr>)"
      using matches_wider [OF h(1) q'(1), of "[]" x] m(1) by (simp add: widen_def)
    ultimately show ?thesis unfolding block by force
  qed
  show "re_test ?r t" if inside: "re_test ?r (bracketed w @ t)" for t
  proof -
    have free: "free_of_assertions ?r" using h(1) e(1) by simp
    obtain u v where uv: "bracketed w @ t = u @ v" "starts ?r v" using inside unfolding re_test_starts [OF free] by blast
    have "starts h v" using uv(2) unfolding block by (auto simp: starts_def)
    then have "\<not> (bracketed w = u @ z \<and> v = z @ t \<and> z \<noteq> [])" for z
      using starts_bracketed [OF h(2,1,4) starts_eats [OF h(3)]] by blast
    then obtain z where "t = z @ v" using uv(1) by (auto simp: append_eq_append_conv2)
    then show ?thesis using uv(2) unfolding re_test_starts [OF free] by blast
  qed
qed

section \<open>The shipped policy\<close>

definition SHIPPED_PATTERNS :: "sanitizer_pattern list" where
  "SHIPPED_PATTERNS = map (\<lambda>(i, r, f). \<lparr> sn_id = i, sn_regex = r, sn_flags = f, sn_replacement = ''[REDACTED-SECRET]'' \<rparr>) [
     (''openai-api-key'', Seqs [WordBoundary, Capture 1 (Seq (Word ''sk-'') (Rep 20 token_char)), WordBoundary], ''g''),
     (''generic-api-key'', Seqs (assignment api_key_names token_char 16), ''gi''),
     (''password-assignment'', Seqs (assignment [Word ''password'', Word ''passwd'', Word ''pwd''] (\<lambda>c. \<not> is_ws c \<and> \<not> quote_char c) 4), ''gi''),
     (''jwt-token'', Seqs [WordBoundary, Capture 1 (Seqs [Word ''eyJ'', Rep 0 token_char, Lit (CHR ''.''), Rep 0 token_char,
        Opt (Lit (CHR ''.'')), Rep 0 token_char]), WordBoundary], ''g''),
     (''bearer-token'', Seqs [WordBoundary, Capture 1 (Seqs [Word ''Bearer'', Rep 1 is_ws, Rep 20 (\<lambda>c. token_char c \<or> c = CHR ''.'')]),
        WordBoundary], ''gi''),
     (''private-key-block'', Seqs [private_key_header ''BEGIN'', RepLazy 0 any_char, private_key_header ''END''], ''g''),
     (''high-entropy-secret'', Seqs (assignment [Word ''secret'', Word ''token'', Word ''credential''] token_char 24), ''gi'')]"

definition SHIPPED_POLICY :: sanitization_policy where
  "SHIPPED_POLICY = \<lparr> sz_version = 1, sz_patterns = SHIPPED_PATTERNS \<rparr>"

text \<open>
  The secrets it leaves nowhere, each searched at every place and in any case of letters: the
  assignment of an API key, of a secret, token or credential, of a password (of four
  characters up to the next bracket, which is where a replacement may stand), and a block
  from the header of a private key to an end of one.
\<close>

definition API_KEY_ASSIGNMENT :: re where
  "API_KEY_ASSIGNMENT = caseless (Seqs (assignment api_key_names token_char 16))"

definition SECRET_ASSIGNMENT :: re where
  "SECRET_ASSIGNMENT = caseless (Seqs (assignment [Word ''secret'', Word ''token'', Word ''credential''] token_char 24))"

definition PASSWORD_ASSIGNMENT :: re where
  "PASSWORD_ASSIGNMENT = caseless (Seqs (assignment [Word ''password'', Word ''passwd'', Word ''pwd'']
     (\<lambda>c. \<not> is_ws c \<and> \<not> quote_char c \<and> no_bracket c) 4))"

definition PRIVATE_KEY_BLOCK :: re where
  "PRIVATE_KEY_BLOCK = Seqs [private_key_header ''BEGIN'', RepLazy 0 any_char, private_key_header ''END'']"

definition exposed :: "string \<Rightarrow> bool" where
  "exposed s \<longleftrightarrow> re_test API_KEY_ASSIGNMENT s \<or> re_test SECRET_ASSIGNMENT s \<or> re_test PASSWORD_ASSIGNMENT s \<or> re_test PRIVATE_KEY_BLOCK s"

lemma free_Word [simp]: "free_of_assertions (Word w)" "w \<noteq> [] \<Longrightarrow> eats (Word w)"
  by (induction w) (simp_all add: Lit_def)

lemma free_Seqs [simp]: "free_of_assertions (Seqs rs) \<longleftrightarrow> list_all free_of_assertions rs"
  by (induction rs) simp_all

lemma bracket_cases: "(\<forall>c. P c \<longrightarrow> no_bracket c) \<longleftrightarrow> \<not> P (CHR ''['') \<and> \<not> P (CHR '']'')"
  by (auto simp: no_bracket_def)

lemma ignore_case_bracket [simp]: "ignore_case P (CHR ''['') = P (CHR ''['')" "ignore_case P (CHR '']'') = P (CHR '']'')"
  by (simp_all add: ignore_case_def)

lemma caseless_stays: "stays_in no_bracket r \<Longrightarrow> stays_in no_bracket (caseless r)"
proof (induction r)
  case WordBoundary
  then show ?case by simp
qed (simp_all only: caseless.simps stays_in.simps bracket_cases ignore_case_bracket simp_thms)

lemma caseless_free [simp]: "free_of_assertions (caseless r) = free_of_assertions r" "eats (caseless r) = eats r"
  by (induction r) simp_all

lemma caseless_narrower: "narrower r s \<Longrightarrow> narrower (caseless r) (caseless s)"
proof (induction r s rule: narrower.induct)
  case (1 P Q)
  then show ?case by (simp add: ignore_case_def Let_def)
next
  case (2 m P n Q)
  then show ?case by (simp add: ignore_case_def Let_def)
qed simp_all

lemma names_free: "list_all free_of_assertions rs \<Longrightarrow> free_of_assertions (Choice rs)"
  by (induction rs rule: Choice.induct) simp_all

lemma names_stay: "list_all (stays_in T) rs \<Longrightarrow> stays_in T (Choice rs)"
  by (induction rs rule: Choice.induct) simp_all

lemma assignment_free:
  assumes "list_all free_of_assertions names"
  shows "free_of_assertions (Seqs (assignment names P n))" "eats (Seqs (assignment names P n))"
  using names_free [OF assms] by (simp_all add: assignment_def)

lemma assignment_stays:
  assumes "list_all (stays_in no_bracket) names" "\<not> P (CHR ''['')" "\<not> P (CHR '']'')"
  shows "stays_in no_bracket (Seqs (assignment names P n))"
  using names_stay [OF assms(1)] assms(2,3) by (simp add: assignment_def bracket_cases is_ws_def quote_char_def) (simp add: no_bracket_def)

lemma assignment_kept_out:
  assumes "list_all free_of_assertions names" "list_all (stays_in no_bracket) names" "\<not> P (CHR ''['')" "\<not> P (CHR '']'')"
    and "\<not> re_test (caseless (Seqs (assignment names P n))) w"
  shows "kept_out (caseless (Seqs (assignment names P n))) w"
  using assms(5) assignment_free [OF assms(1)] caseless_stays [OF assignment_stays [OF assms(2-4)]]
  by (intro local_kept_out) simp_all

lemma words_stay: "stays_in no_bracket (Word w) \<longleftrightarrow> CHR ''['' \<notin> set w \<and> CHR '']'' \<notin> set w"
  by (induction w) (auto simp: Lit_def no_bracket_def)

lemma not_token: "\<not> token_char (CHR ''['')" "\<not> token_char (CHR '']'')"
  by code_simp+

interpretation api_key: kept_out API_KEY_ASSIGNMENT "''REDACTED-SECRET''"
  unfolding API_KEY_ASSIGNMENT_def
proof (rule assignment_kept_out [OF _ _ not_token])
  show "list_all (stays_in no_bracket) api_key_names" by (simp add: api_key_names_def words_stay no_bracket_def del: Word.simps)
  show "\<not> re_test (caseless (Seqs (assignment api_key_names token_char 16))) ''REDACTED-SECRET''" by code_simp
qed (simp add: api_key_names_def del: Word.simps)

interpretation secret_value: kept_out SECRET_ASSIGNMENT "''REDACTED-SECRET''"
  unfolding SECRET_ASSIGNMENT_def
proof (rule assignment_kept_out [OF _ _ not_token])
  show "\<not> re_test (caseless (Seqs (assignment [Word ''secret'', Word ''token'', Word ''credential''] token_char 24))) ''REDACTED-SECRET''" by code_simp
qed (simp_all add: words_stay del: Word.simps)

interpretation password: kept_out PASSWORD_ASSIGNMENT "''REDACTED-SECRET''"
  unfolding PASSWORD_ASSIGNMENT_def
proof (rule assignment_kept_out)
  show "\<not> re_test (caseless (Seqs (assignment [Word ''password'', Word ''passwd'', Word ''pwd'']
     (\<lambda>c. \<not> is_ws c \<and> \<not> quote_char c \<and> no_bracket c) 4))) ''REDACTED-SECRET''" by code_simp
qed (simp_all add: words_stay no_bracket_def del: Word.simps)

lemma header_parts:
  "free_of_assertions (private_key_header what)" "eats (private_key_header what)"
  "CHR ''['' \<notin> set what \<Longrightarrow> CHR '']'' \<notin> set what \<Longrightarrow> stays_in no_bracket (private_key_header what)"
  by (simp_all add: private_key_header_def words_stay del: Word.simps)

interpretation private_key: kept_out PRIVATE_KEY_BLOCK "''REDACTED-SECRET''"
  unfolding PRIVATE_KEY_BLOCK_def
proof (rule block_kept_out)
  show "\<not> re_test (private_key_header ''BEGIN'') ''REDACTED-SECRET''" by code_simp
  show "\<not> re_test (private_key_header ''END'') ''REDACTED-SECRET''" by code_simp
qed (simp_all add: header_parts)

lemma shipped_writes:
  "list_all (\<lambda>p. CHR ''g'' \<in> set (sn_flags p) \<and> sn_replacement p = bracketed ''REDACTED-SECRET'') SHIPPED_PATTERNS"
  by (simp add: SHIPPED_PATTERNS_def bracketed_def)

lemma shipped_covers:
  "list_ex (\<lambda>p. narrower API_KEY_ASSIGNMENT (compilePattern p) \<and> eats (compilePattern p)) SHIPPED_PATTERNS"
  "list_ex (\<lambda>p. narrower SECRET_ASSIGNMENT (compilePattern p) \<and> eats (compilePattern p)) SHIPPED_PATTERNS"
  "list_ex (\<lambda>p. narrower PASSWORD_ASSIGNMENT (compilePattern p) \<and> eats (compilePattern p)) SHIPPED_PATTERNS"
  "list_ex (\<lambda>p. narrower PRIVATE_KEY_BLOCK (compilePattern p) \<and> eats (compilePattern p)) SHIPPED_PATTERNS"
proof -
  have pick: "p \<in> set ps \<Longrightarrow> Q p \<Longrightarrow> list_ex Q ps" for p :: sanitizer_pattern and Q ps by (auto simp: list_ex_iff)
  have classes: "narrower (Seqs (assignment names (\<lambda>c. \<not> is_ws c \<and> \<not> quote_char c \<and> no_bracket c) n))
      (Seqs (assignment names (\<lambda>c. \<not> is_ws c \<and> \<not> quote_char c) n))" for names n
    by (simp add: assignment_def)
  have eat: "eats (Seqs (assignment names P n))" for names P n by (simp add: assignment_def)
  show "list_ex (\<lambda>p. narrower API_KEY_ASSIGNMENT (compilePattern p) \<and> eats (compilePattern p)) SHIPPED_PATTERNS"
    by (rule pick [of "SHIPPED_PATTERNS ! 1"])
      (simp_all add: SHIPPED_PATTERNS_def compilePattern_def API_KEY_ASSIGNMENT_def eat del: Seqs.simps narrower.simps eats.simps)
  show "list_ex (\<lambda>p. narrower PASSWORD_ASSIGNMENT (compilePattern p) \<and> eats (compilePattern p)) SHIPPED_PATTERNS"
    by (rule pick [of "SHIPPED_PATTERNS ! 2"])
      (simp_all add: SHIPPED_PATTERNS_def compilePattern_def PASSWORD_ASSIGNMENT_def caseless_narrower classes eat del: Seqs.simps narrower.simps eats.simps)
  show "list_ex (\<lambda>p. narrower PRIVATE_KEY_BLOCK (compilePattern p) \<and> eats (compilePattern p)) SHIPPED_PATTERNS"
    by (rule pick [of "SHIPPED_PATTERNS ! 5"])
      (simp_all add: SHIPPED_PATTERNS_def compilePattern_def PRIVATE_KEY_BLOCK_def header_parts del: narrower.simps)
  show "list_ex (\<lambda>p. narrower SECRET_ASSIGNMENT (compilePattern p) \<and> eats (compilePattern p)) SHIPPED_PATTERNS"
    by (rule pick [of "SHIPPED_PATTERNS ! 6"])
      (simp_all add: SHIPPED_PATTERNS_def compilePattern_def SECRET_ASSIGNMENT_def eat del: Seqs.simps narrower.simps eats.simps)
qed

lemma rejected_not_exposed: "\<not> exposed REJECT_REPLACEMENT"
  unfolding exposed_def by code_simp

lemma shipped_not_exposed: "\<not> exposed (sanitize SHIPPED_POLICY raw)"
  using rejected_not_exposed api_key.removed_in_turn [OF shipped_writes shipped_covers(1)] secret_value.removed_in_turn [OF shipped_writes shipped_covers(2)]
    password.removed_in_turn [OF shipped_writes shipped_covers(3)] private_key.removed_in_turn [OF shipped_writes shipped_covers(4)]
  by (simp add: sanitize_def Let_def SHIPPED_POLICY_def exposed_def)

text \<open>
  A text as a prompt may hold it: what the policy leaves of a raw text, which under the
  shipped policy is not exposed.
\<close>

definition clean_of :: "sanitization_policy \<Rightarrow> string \<Rightarrow> string \<Rightarrow> bool" where
  "clean_of policy raw t \<longleftrightarrow> sanitized_as policy raw t \<and> \<not> secret t \<and> (policy = SHIPPED_POLICY \<longrightarrow> \<not> exposed t)"

lemma sanitize_clean_of: "clean_of policy raw (sanitize policy raw)"
  by (auto simp: clean_of_def sanitize_redacts shipped_not_exposed)

lemma redacted_examples:
  "sanitize SHIPPED_POLICY ''apikey = abcdefghijklmnop, ok'' = ''[REDACTED-SECRET], ok''"
  "exposed ''apikey = abcdefghijklmnop, ok''"
  "sanitize SHIPPED_POLICY ''Bearer abcdefghijklmnopqrst.x'' = ''[REDACTED-SECRET]''"
  by code_simp+

end
