(* ===== verification/Prompt_Properties.thy ===== *)
theory Prompt_Properties
  imports Decomposition Redaction
begin

text \<open>
  A prompt of the decomposition harness consists of fixed texts, a count, the head commit and
  texts the policy has cleaned, each of which comes from the job, the retrieved context or a
  diagnostic. No prompt contains a text that the final secret test of the sanitizer
  recognizes: every piece is sanitized on its own, and the fixed text between two pieces has
  characters that no secret contains.
\<close>

section \<open>Fixed text around clean pieces\<close>

definition separator :: "string \<Rightarrow> bool" where
  "separator m = (m \<noteq> [] \<and> \<not> secret_char (hd m) \<and> \<not> secret_char (last m) \<and> \<not> secret m)"

definition lead :: "string \<Rightarrow> bool" where
  "lead m = (m \<noteq> [] \<and> \<not> secret_char (last m) \<and> \<not> secret m)"

lemma secret_lead:
  assumes "lead m"
  shows "secret (m @ x) \<longleftrightarrow> secret x"
proof -
  from assms obtain p d where m: "m = p @ [d]" "\<not> secret_char d" by (auto simp: lead_def) (metis append_butlast_last_id)
  moreover from this assms have "\<not> secret p" using secret_split [of d p "[]"] by (simp add: lead_def)
  ultimately show ?thesis using secret_split [of d p x] by simp
qed

lemma secret_separator:
  assumes "separator m"
  shows "secret (x @ m @ y) \<longleftrightarrow> secret x \<or> secret y"
proof -
  from assms obtain d q where m: "m = d # q" "\<not> secret_char d" by (cases m) (auto simp: separator_def)
  have "secret (x @ m @ y) \<longleftrightarrow> secret x \<or> secret (m @ y)"
    using secret_split [OF m(2), of x "q @ y"] secret_split [OF m(2), of "[]" "q @ y"] m(1) by simp
  moreover have "lead m" using assms by (simp add: lead_def separator_def)
  ultimately show ?thesis by (simp add: secret_lead)
qed

lemma secret_trail: "separator m \<Longrightarrow> secret (x @ m) \<longleftrightarrow> secret x"
  using secret_separator [of m x "[]"] by simp

lemma matches_Word: "matches (Word w) p \<noteq> [] \<Longrightarrow> prefix w (after p)"
proof (induction w arbitrary: p)
  case (Cons c w)
  then obtain q where q: "q \<in> set (matches (Lit c) p)" "matches (Word w) q \<noteq> []" unfolding Word.simps matches_Seq by blast
  then have "after p = c # after q" by (cases "after p") (auto simp: Lit_def head_is_def split: if_splits)
  with Cons.IH [OF q(2)] show ?case by simp
qed simp

lemma matches_alternatives: "matches (Seq (Alt (Seq a b) (Seq c d)) r) p \<noteq> [] \<Longrightarrow> matches a p \<noteq> [] \<or> matches c p \<noteq> []"
  by auto

lemma secret_head_char:
  assumes "secret s"
  shows "CHR ''-'' \<in> set s \<or> CHR ''J'' \<in> set s"
proof -
  obtain u v where uv: "s = u @ v" "matches UNSANITIZED \<lparr> before = rev u, after = v, caps = [] \<rparr> \<noteq> []"
    using assms unfolding re_test_iff by blast
  let ?p = "\<lparr> before = rev u, after = v, caps = [] \<rparr>"
  obtain q rest where q: "q \<in> set (matches WordBoundary ?p)" "matches (Seq (Alt (Seq (Word ''sk-'') (Rep 20 token_char))
      (Seqs [Word ''eyJ'', Rep 0 token_char, Lit (CHR ''.''), Rep 0 token_char, Lit (CHR ''.''), Rep 0 token_char])) rest) q \<noteq> []"
    using uv(2) unfolding UNSANITIZED_def Seqs.simps(2) [of WordBoundary] matches_Seq [of WordBoundary] Seqs.simps(2) [of "Alt _ _"] by blast
  have "q = ?p" using q(1) by (simp split: if_splits)
  then have "matches (Word ''sk-'') ?p \<noteq> [] \<or> matches (Word ''eyJ'') ?p \<noteq> []"
    using q(2) matches_alternatives unfolding Seqs.simps(2) [of "Word _"] by blast
  then have "prefix ''sk-'' v \<or> prefix ''eyJ'' v" using matches_Word [of "''sk-''" ?p] matches_Word [of "''eyJ''" ?p] by (auto simp del: Word.simps)
  then show ?thesis using uv(1) by (auto simp: prefix_def)
qed

lemma digit_only: "\<not> (48 \<le> (of_char (CHR ''-'') :: nat))" "\<not> ((of_char (CHR ''J'') :: nat) < 58)" by code_simp+

lemma secret_digits: "\<not> secret (nat_str n)"
proof
  assume "secret (nat_str n)"
  then have "CHR ''-'' \<in> digit_chars \<or> CHR ''J'' \<in> digit_chars" using secret_head_char nat_str_digits by blast
  then show False using digit_only by (simp add: digit_chars_def)
qed

lemma not_hex: "CHR ''-'' \<notin> set ''0123456789abcdef''" "CHR ''J'' \<notin> set ''0123456789abcdef''" by simp_all

lemma secret_sha: "full_sha v \<Longrightarrow> \<not> secret (js_str v)"
proof
  assume v: "full_sha v" "secret (js_str v)"
  then obtain s where "v = Str s" "list_all (\<lambda>c. c \<in> set ''0123456789abcdef'') s" by (cases v) (simp_all only: full_sha_def js.case simp_thms)
  then show False using secret_head_char [OF v(2)] not_hex by (auto simp only: list_all_iff js_str.simps)
qed

lemma map_sum_Inr: "map_sum id f r = Inr s \<longleftrightarrow> (\<exists>x. r = Inr x \<and> s = f x)" "map_sum id f r = Inl e \<longleftrightarrow> r = Inl e"
  by (cases r; auto)+

lemma fixed_text:
  "lead ''- ''" "lead ''- edge: ''" "lead ''repository: ''" "lead ''head: ''" "lead ''graph units: ''" "lead ''truncation reason: ''"
  "separator '' (''" "separator '') ''" "separator '' @ ''" "separator '' ''" "separator ''/''" "separator '' (truncated)''"
  by code_simp+

lemma all_or_first_mem: "all_or_first rs = Inr xs \<Longrightarrow> x \<in> set xs \<Longrightarrow> Inr x \<in> set rs"
  by (induction rs arbitrary: xs rule: all_or_first.induct) (auto split: sum.splits)

section \<open>Sections\<close>

lemma secret_bullets: "list_ex secret (bullets xs) \<longleftrightarrow> list_ex secret xs"
  by (simp only: bullets_def list_ex_iff set_map bex_simps secret_lead [OF fixed_text(1)])

lemma sanitized_parts:
  assumes "all_or_first (map (sanitizePromptBoundValue policy) vs) = Inr parts"
  shows "\<not> list_ex secret parts \<and> length parts = length vs"
  using assms
proof (induction vs arbitrary: parts)
  case (Cons v vs)
  then show ?case by (cases v) (auto simp: sanitizePromptBoundValue_def split: sum.splits)
qed simp

lemma clean_unit_secret: "clean_unit policy u = Inr s \<Longrightarrow> \<not> secret s"
proof -
  assume "clean_unit policy u = Inr s"
  then obtain parts where p: "all_or_first (map (sanitizePromptBoundValue policy) [Str (gu_id u), gu_kind u, gu_label u, gu_sourcePath u]) = Inr parts"
      "s = unit_line parts"
    unfolding clean_unit_def map_sum_Inr by blast
  have "length parts = 4" "\<not> list_ex secret parts" using sanitized_parts [OF p(1)] by simp_all
  then obtain i kind label path where ps: "parts = [i, kind, label, path]" "\<not> secret i" "\<not> secret kind" "\<not> secret label" "\<not> secret path"
    by (auto simp: length_Suc_conv numeral_eq_Suc)
  show ?thesis unfolding p(2) ps(1) unit_line.simps edge_line.simps
    by (simp only: secret_lead [OF fixed_text(1)] secret_separator [OF fixed_text(7)] secret_separator [OF fixed_text(8)]
        secret_separator [OF fixed_text(9)] ps simp_thms)
qed

lemma clean_edge_secret: "clean_edge policy e = Inr s \<Longrightarrow> \<not> secret s"
proof -
  assume "clean_edge policy e = Inr s"
  then obtain parts where p: "all_or_first (map (sanitizePromptBoundValue policy) [Str (ge_source e), ge_relation e, Str (ge_target e)]) = Inr parts"
      "s = edge_line parts"
    unfolding clean_edge_def map_sum_Inr by blast
  have "length parts = 3" "\<not> list_ex secret parts" using sanitized_parts [OF p(1)] by simp_all
  then obtain a r t where ps: "parts = [a, r, t]" "\<not> secret a" "\<not> secret r" "\<not> secret t"
    by (auto simp: length_Suc_conv numeral_eq_Suc)
  show ?thesis unfolding p(2) ps(1) unit_line.simps edge_line.simps
    by (simp only: secret_lead [OF fixed_text(2)] secret_separator [OF fixed_text(10)] ps simp_thms)
qed

definition clean_job :: "decomposition_job \<Rightarrow> bool" where
  "clean_job job = (\<not> secret (dj_intent job) \<and> \<not> list_ex secret (dj_acceptanceCriteria job)
     \<and> \<not> list_ex secret (case dj_constraints job of Some cs \<Rightarrow> cs | None \<Rightarrow> [])
     \<and> \<not> secret (case dj_rawSpec job of Some raw \<Rightarrow> raw | None \<Rightarrow> []) \<and> \<not> secret (dj_head job))"

lemma headings:
  "\<not> secret ''Decompose the following spec into a flat list of nodes.''" "\<not> secret ''INTENT:''" "\<not> secret ''ACCEPTANCE CRITERIA:''"
  "\<not> secret ''CONSTRAINTS:''" "\<not> secret ''RAW SPEC:''" "\<not> secret ''CODEBASE CONTEXT:''"
  "\<not> secret ''REPAIR INSTRUCTIONS: fix the following structural issues and return only the corrected JSON:''"
  "\<not> list_ex secret closing_sections"
  by code_simp+

lemma spec_sections_clean: "clean_job job \<Longrightarrow> \<not> list_ex secret (spec_sections job)"
  by (auto simp: spec_sections_def clean_job_def secret_bullets headings split: option.splits)

lemma context_sections_clean: "\<not> secret (dj_head job) \<Longrightarrow> \<not> list_ex secret (context_sections policy job breadth)"
  unfolding context_sections_def list_ex_Cons_iff list_ex_Nil_iff
  by (cases "br_truncated breadth") (simp_all only: secret_lead [OF fixed_text(3)] secret_lead [OF fixed_text(4)] secret_lead [OF fixed_text(5)]
      secret_separator [OF fixed_text(11)] secret_trail [OF fixed_text(12)] append_Nil2 if_True if_False secret_digits sanitize_clean
      headings secret_Nil simp_thms not_False_eq_True)

lemma truncation_sections_clean: "\<not> list_ex secret (truncation_sections policy breadth)"
  unfolding truncation_sections_def
  by (auto simp only: secret_lead [OF fixed_text(6)] sanitize_clean list_ex_Cons_iff list_ex_Nil_iff split: option.splits if_splits)

lemma repair_sections_clean: "\<not> list_ex secret ds \<Longrightarrow> \<not> list_ex secret (repair_sections ds)"
  by (simp add: repair_sections_def secret_bullets headings)

lemma buildPrompt_clean:
  assumes "buildPrompt policy job breadth ds = Inr prompt" "clean_job job" "\<not> list_ex secret ds"
  shows "\<not> secret prompt"
proof -
  obtain graph where g: "all_or_first (map (clean_unit policy) (br_units breadth) @ map (clean_edge policy) (br_edges breadth)) = Inr graph"
    and p: "prompt = join_with newline_text (spec_sections job @ context_sections policy job breadth @ graph
          @ truncation_sections policy breadth @ repair_sections ds @ closing_sections)"
    using assms(1) unfolding buildPrompt_def map_sum_Inr by blast
  have "\<not> secret x" if x: "x \<in> set graph" for x
  proof -
    consider u where "clean_unit policy u = Inr x" | e where "clean_edge policy e = Inr x"
      using all_or_first_mem [OF g x] by (auto dest: sym)
    then show ?thesis by cases (auto dest: clean_unit_secret clean_edge_secret)
  qed
  then have "\<not> list_ex secret graph" by (simp add: list_ex_iff)
  moreover have "\<not> secret (dj_head job)" using assms(2) by (simp add: clean_job_def)
  moreover have "\<not> secret_char (CHR 0x0A)" by code_simp
  ultimately show ?thesis unfolding p newline_text_def
    using assms(2,3) by (simp add: secret_join spec_sections_clean context_sections_clean truncation_sections_clean repair_sections_clean headings)
qed

lemma buildPrompt_crash: "buildPrompt policy job breadth ds = Inl e \<Longrightarrow> e = ''sanitization input must be a string''"
proof -
  assume *: "buildPrompt policy job breadth ds = Inl e"
  have inl: "all_or_first rs = Inl e \<Longrightarrow> Inl e \<in> set rs" for rs :: "(string + 'a) list" and e
    by (induction rs rule: all_or_first.induct) (auto split: sum.splits)
  have part: "all_or_first (map (sanitizePromptBoundValue policy) vs) = Inl e \<Longrightarrow> e = ''sanitization input must be a string''" for vs e
    by (drule inl) (auto simp: sanitizePromptBoundValue_def split: js.splits)
  from * have "all_or_first (map (clean_unit policy) (br_units breadth) @ map (clean_edge policy) (br_edges breadth)) = Inl e"
    unfolding buildPrompt_def map_sum_Inr .
  from inl [OF this] consider u where "clean_unit policy u = Inl e" | d where "clean_edge policy d = Inl e" by auto
  then show ?thesis
    by cases (auto simp only: clean_unit_def clean_edge_def map_sum_Inr intro: part)
qed

lemma sanitizeJob_clean: "full_sha (fld job ''head'') \<Longrightarrow> clean_job (sanitizeJob policy job revision)"
  by (auto simp: clean_job_def sanitizeJob_def Let_def sanitizeStringArray_def sanitizeOptionalString_def list_ex_iff secret_sha split: option.splits)

section \<open>Where the text of a prompt comes from\<close>

definition HEADINGS :: "string list" where
  "HEADINGS = [''Decompose the following spec into a flat list of nodes.'', ''INTENT:'', ''ACCEPTANCE CRITERIA:'', ''CONSTRAINTS:'',
     ''RAW SPEC:'', ''CODEBASE CONTEXT:'',
     ''REPAIR INSTRUCTIONS: fix the following structural issues and return only the corrected JSON:'']"

definition FIXED_TEXTS :: "string list" where
  "FIXED_TEXTS = HEADINGS @ closing_sections @ [newline_text, ''- '', '' ('', '') '', '' @ '', ''- edge: '', '' '', ''repository: '', ''/'',
     ''head: '', ''graph units: '', '' (truncated)'', ''truncation reason: '']"

text \<open>\<open>U\<close> holds the raw texts that nobody vouches for, \<open>h\<close> is the head commit.\<close>

inductive assembled :: "sanitization_policy \<Rightarrow> string set \<Rightarrow> string \<Rightarrow> string \<Rightarrow> bool" for policy U h where
  nothing_in: "assembled policy U h []"
| fixed_in: "x \<in> set FIXED_TEXTS \<Longrightarrow> assembled policy U h x"
| count_in: "assembled policy U h (nat_str n)"
| head_in: "full_sha (Str h) \<Longrightarrow> assembled policy U h h"
| text_in: "raw \<in> U \<Longrightarrow> clean_of policy raw t \<Longrightarrow> assembled policy U h t"
| together: "assembled policy U h s \<Longrightarrow> assembled policy U h t \<Longrightarrow> assembled policy U h (s @ t)"

definition job_texts :: "js \<Rightarrow> string set" where
  "job_texts job = {js_str (fld (fld job ''spec'') ''intent''), js_str (fld (fld job ''targetRepository'') ''owner''),
     js_str (fld (fld job ''targetRepository'') ''name''), js_str (fld job ''rawSpec'')}
     \<union> set (string_list (fld (fld job ''spec'') ''acceptanceCriteria'')) \<union> set (string_list (fld (fld job ''spec'') ''constraints''))"

definition context_texts :: "breadth_result \<Rightarrow> string set" where
  "context_texts b = {s. \<exists>u \<in> set (br_units b). Str s \<in> {Str (gu_id u), gu_kind u, gu_label u, gu_sourcePath u}}
     \<union> {s. \<exists>e \<in> set (br_edges b). Str s \<in> {Str (ge_source e), ge_relation e, Str (ge_target e)}}
     \<union> set_option (br_truncationReason b)"

lemma cleaned_in: "raw \<in> U \<Longrightarrow> assembled policy U h (sanitize policy raw)"
  by (rule text_in [OF _ sanitize_clean_of])

lemma fixed_texts_in:
  "assembled policy U h ''- ''" "assembled policy U h '' (''" "assembled policy U h '') ''" "assembled policy U h '' @ ''"
  "assembled policy U h ''- edge: ''" "assembled policy U h '' ''" "assembled policy U h ''repository: ''" "assembled policy U h ''/''"
  "assembled policy U h ''head: ''" "assembled policy U h ''graph units: ''" "assembled policy U h '' (truncated)''"
  "assembled policy U h ''truncation reason: ''" "assembled policy U h newline_text" "list_all (assembled policy U h) closing_sections"
  "list_all (assembled policy U h) HEADINGS"
  by (auto intro!: fixed_in simp: FIXED_TEXTS_def list_all_iff)

lemma bullets_in: "list_all (assembled policy U h) xs \<Longrightarrow> list_all (assembled policy U h) (bullets xs)"
  unfolding bullets_def by (induction xs) (simp_all del: append.simps add: together fixed_texts_in)

lemma joined_in: "list_all (assembled policy U h) xs \<Longrightarrow> assembled policy U h (join_with newline_text xs)"
  by (induction newline_text xs rule: join_with.induct) (auto intro: nothing_in together fixed_texts_in)

text \<open>A job as the harness keeps it, of which the texts are cleaned and the names are not.\<close>

definition sourced_job :: "sanitization_policy \<Rightarrow> string set \<Rightarrow> string \<Rightarrow> decomposition_job \<Rightarrow> bool" where
  "sourced_job policy U h job \<longleftrightarrow> list_all (assembled policy U h) (dj_intent job # dj_acceptanceCriteria job
       @ (case dj_constraints job of Some cs \<Rightarrow> cs | None \<Rightarrow> []) @ (case dj_rawSpec job of Some raw \<Rightarrow> [raw] | None \<Rightarrow> []))
     \<and> dj_owner job \<in> U \<and> dj_name job \<in> U \<and> dj_head job = h \<and> full_sha (Str h)"

lemma spec_sections_in: "sourced_job policy U h job \<Longrightarrow> list_all (assembled policy U h) (spec_sections job)"
  using fixed_texts_in(15) [of policy U h]
  by (auto simp: spec_sections_def sourced_job_def HEADINGS_def intro!: bullets_in nothing_in split: option.splits)

lemma context_sections_in:
  assumes "sourced_job policy U h job"
  shows "list_all (assembled policy U h) (context_sections policy job b)"
proof -
  from assms have job: "dj_owner job \<in> U" "dj_name job \<in> U" "dj_head job = h" "full_sha (Str h)" by (simp_all add: sourced_job_def)
  have truncated: "assembled policy U h (if br_truncated b then '' (truncated)'' else [])"
    by (simp only: nothing_in fixed_texts_in split: if_split) simp
  have "list_all (assembled policy U h) HEADINGS" by (rule fixed_texts_in)
  then have "assembled policy U h ''CODEBASE CONTEXT:''" by (simp add: HEADINGS_def)
  then show ?thesis unfolding context_sections_def list.pred_inject(2) job(3)
    by (intro conjI list.pred_inject(1) nothing_in together fixed_texts_in cleaned_in job count_in truncated head_in)
qed

lemma truncation_sections_in: "context_texts b \<subseteq> U \<Longrightarrow> list_all (assembled policy U h) (truncation_sections policy b)"
  unfolding truncation_sections_def context_texts_def
  by (auto simp del: append.simps intro!: together fixed_texts_in cleaned_in split: option.splits)

lemma repair_sections_in: "list_all (assembled policy U h) ds \<Longrightarrow> list_all (assembled policy U h) (repair_sections ds)"
  using fixed_texts_in(15) [of policy U h] by (auto simp: repair_sections_def HEADINGS_def intro!: bullets_in nothing_in)

lemma cleaned_parts:
  assumes "all_or_first (map (sanitizePromptBoundValue policy) vs) = Inr parts" "\<And>s. Str s \<in> set vs \<Longrightarrow> s \<in> U"
  shows "list_all (assembled policy U h) parts \<and> length parts = length vs"
  using assms
proof (induction vs arbitrary: parts)
  case (Cons v vs)
  have "Str x \<in> set (v # vs) \<Longrightarrow> assembled policy U h (sanitize policy x)" for x using Cons.prems(2) by (blast intro: cleaned_in)
  with Cons show ?case by (cases v) (auto simp: sanitizePromptBoundValue_def split: sum.splits)
qed simp

lemma clean_unit_in:
  assumes "clean_unit policy u = Inr s" "u \<in> set (br_units b)" "context_texts b \<subseteq> U"
  shows "assembled policy U h s"
proof -
  obtain parts where p: "all_or_first (map (sanitizePromptBoundValue policy) [Str (gu_id u), gu_kind u, gu_label u, gu_sourcePath u]) = Inr parts"
      "s = unit_line parts"
    using assms(1) unfolding clean_unit_def map_sum_Inr by blast
  have "list_all (assembled policy U h) parts \<and> length parts = length [Str (gu_id u), gu_kind u, gu_label u, gu_sourcePath u]"
    by (rule cleaned_parts [OF p(1)]) (use assms(2,3) in \<open>auto simp: context_texts_def\<close>)
  then obtain i kind label path where ps: "parts = [i, kind, label, path]" "assembled policy U h i" "assembled policy U h kind"
      "assembled policy U h label" "assembled policy U h path"
    by (auto simp: length_Suc_conv numeral_eq_Suc)
  show ?thesis unfolding p(2) ps(1) unit_line.simps by (intro together fixed_texts_in ps)
qed

lemma clean_edge_in:
  assumes "clean_edge policy e = Inr s" "e \<in> set (br_edges b)" "context_texts b \<subseteq> U"
  shows "assembled policy U h s"
proof -
  obtain parts where p: "all_or_first (map (sanitizePromptBoundValue policy) [Str (ge_source e), ge_relation e, Str (ge_target e)]) = Inr parts"
      "s = edge_line parts"
    using assms(1) unfolding clean_edge_def map_sum_Inr by blast
  have "list_all (assembled policy U h) parts \<and> length parts = length [Str (ge_source e), ge_relation e, Str (ge_target e)]"
    by (rule cleaned_parts [OF p(1)]) (use assms(2,3) in \<open>auto simp: context_texts_def\<close>)
  then obtain x r t where ps: "parts = [x, r, t]" "assembled policy U h x" "assembled policy U h r" "assembled policy U h t"
    by (auto simp: length_Suc_conv numeral_eq_Suc)
  show ?thesis unfolding p(2) ps(1) edge_line.simps by (intro together fixed_texts_in ps)
qed

lemma buildPrompt_assembled:
  assumes "buildPrompt policy job b ds = Inr prompt" "sourced_job policy U h job" "context_texts b \<subseteq> U"
    and "list_all (assembled policy U h) ds"
  shows "assembled policy U h prompt"
proof -
  obtain graph where g: "all_or_first (map (clean_unit policy) (br_units b) @ map (clean_edge policy) (br_edges b)) = Inr graph"
    and p: "prompt = join_with newline_text (spec_sections job @ context_sections policy job b @ graph
          @ truncation_sections policy b @ repair_sections ds @ closing_sections)"
    using assms(1) unfolding buildPrompt_def map_sum_Inr by blast
  have "assembled policy U h x" if x: "x \<in> set graph" for x
  proof -
    consider u where "clean_unit policy u = Inr x" "u \<in> set (br_units b)" | e where "clean_edge policy e = Inr x" "e \<in> set (br_edges b)"
      using all_or_first_mem [OF g x] by (auto dest: sym)
    then show ?thesis by cases (use clean_unit_in clean_edge_in assms(3) in blast)+
  qed
  then have "list_all (assembled policy U h) graph" by (simp add: list_all_iff)
  then show ?thesis unfolding p
    by (intro joined_in) (simp add: spec_sections_in context_sections_in truncation_sections_in repair_sections_in fixed_texts_in assms)
qed

lemma sanitizeJob_sourced:
  assumes "full_sha (fld job ''head'')" "job_texts job \<subseteq> U"
  shows "sourced_job policy U (js_str (fld job ''head'')) (sanitizeJob policy job revision)"
proof -
  have "Str (js_str (fld job ''head'')) = fld job ''head''" using assms(1) by (cases "fld job ''head''") (simp_all add: full_sha_def)
  moreover have "Some s = js_opt_str v \<Longrightarrow> s = js_str v" for v s by (cases v) simp_all
  ultimately show ?thesis using assms
    by (auto simp: sourced_job_def sanitizeJob_def Let_def sanitizeStringArray_def sanitizeOptionalString_def list_all_iff job_texts_def
        intro!: cleaned_in split: option.splits)
qed

end
