(* ===== verification/Decomposition_Properties.thy ===== *)
theory Decomposition_Properties
  imports Decomposition_Run Prompt_Properties Routing_Properties
begin

text \<open>
  What a run of the decomposition harness guarantees, whatever the job, the context it
  retrieves and the model answer: the number and the content of its model calls, their
  provenance, and the validity of what it returns.
\<close>

section \<open>Candidates\<close>

text \<open>A valid node, written from the emission contract.\<close>

definition text_within :: "decomposition_limits \<Rightarrow> js \<Rightarrow> bool" where
  "text_within limits v \<longleftrightarrow> (\<exists>s. v = Str s \<and> s \<noteq> [] \<and> byteLength s \<le> dl_maxNodeStringLength limits)"

definition valid_node :: "decomposition_limits \<Rightarrow> js \<Rightarrow> bool" where
  "valid_node limits n \<longleftrightarrow> (isPlainObject n \<and> set (Object_keys n) \<subseteq> set NODE_FIELDS
     \<and> (\<exists>i. fld n ''id'' = Str i \<and> i \<noteq> [] \<and> int (length i) \<le> dl_maxNodeIdLength limits)
     \<and> text_within limits (fld n ''intent'') \<and> text_within limits (fld n ''change_spec'')
     \<and> (\<exists>cs. fld n ''acceptance_criteria'' = Arr cs \<and> cs \<noteq> [] \<and> int (length cs) \<le> dl_maxNodeCollectionLength limits
          \<and> list_all (text_within limits) cs)
     \<and> (\<exists>ds. fld n ''depends_on'' = Arr (map Str ds) \<and> int (length ds) \<le> dl_maxNodeCollectionLength limits \<and> [] \<notin> set ds))"

lemma filled_iff: "filled v \<longleftrightarrow> (\<exists>s. v = Str s \<and> s \<noteq> [])"
  by (cases v) (auto simp: filled_def)

lemma bounded_text_iff: "bounded_text v limits \<longleftrightarrow> text_within limits v"
  by (auto simp: bounded_text_def filled_iff text_within_def)

lemma is_array_iff: "is_array v \<longleftrightarrow> (\<exists>xs. v = Arr xs)"
  by (cases v) auto

lemma all_filled_iff: "list_all filled xs \<longleftrightarrow> (\<exists>ds. xs = map Str ds \<and> [] \<notin> set ds)"
proof (induction xs)
  case (Cons x xs)
  have "(\<exists>ds. x # xs = map Str ds \<and> [] \<notin> set ds) \<longleftrightarrow> (\<exists>d. x = Str d \<and> d \<noteq> []) \<and> (\<exists>ds. xs = map Str ds \<and> [] \<notin> set ds)"
    by (cases x) (auto simp: Cons_eq_map_conv)
  then show ?case using Cons.IH by (simp add: filled_iff)
qed simp

lemma node_error_None: "node_error limits n = None \<longleftrightarrow> valid_node limits n"
proof -
  have unknown: "filter (\<lambda>k. k \<notin> set NODE_FIELDS) (Object_keys n) = [] \<longleftrightarrow> set (Object_keys n) \<subseteq> set NODE_FIELDS"
    by (auto simp: filter_empty_conv)
  show ?thesis
    unfolding node_error_def Let_def first_error_Cons first_error.simps(1) unknown not_not de_Morgan_disj not_less bounded_list_def
      bounded_text_iff valid_node_def is_array_iff
    by (auto simp: all_filled_iff) (auto simp: filled_iff)
qed

lemma candidate_None:
  "validateCandidate v limits = None \<Longrightarrow>
     \<exists>nodes. fld v ''nodes'' = Arr nodes \<and> int (length nodes) \<le> dl_maxNodes limits \<and> list_all (valid_node limits) nodes"
  unfolding validateCandidate_def Let_def
  by (auto simp: is_array_iff node_error_None list_all_iff not_less split: if_splits)

section \<open>Runs\<close>

definition invocations :: "run_event list \<Rightarrow> model_invocation list" where
  "invocations es = List.map_filter (\<lambda>e. case e of Invoked i \<Rightarrow> Some i | Recorded r \<Rightarrow> None) es"

definition records :: "run_event list \<Rightarrow> invocation_record list" where
  "records es = List.map_filter (\<lambda>e. case e of Recorded r \<Rightarrow> Some r | Invoked i \<Rightarrow> None) es"

lemma event_simps [simp]:
  "invocations [] = []" "records [] = []" "invocations (Invoked i # es) = i # invocations es" "records (Invoked i # es) = records es"
  "invocations (Recorded r # es) = invocations es" "records (Recorded r # es) = r # records es"
  "invocations (as @ bs) = invocations as @ invocations bs" "records (as @ bs) = records as @ records bs"
  by (simp_all add: invocations_def records_def map_filter_def)

text \<open>
  The raw texts a prompt may draw on: those of the job, of what the retriever returns, and
  the diagnostics of an answer.
\<close>

definition untrusted :: "decomposition_options \<Rightarrow> decomposition_env \<Rightarrow> string set" where
  "untrusted opts env = job_texts (do_job opts)
     \<union> {s. \<exists>revision units edges b. de_retrieve env revision units edges = Returns b \<and> s \<in> context_texts b}
     \<union> {s. s = ''response is not valid JSON'' \<or> (\<exists>v code. validateCandidate v (do_limits opts) = Some (code, s))}"

definition prompt_ok :: "decomposition_options \<Rightarrow> decomposition_env \<Rightarrow> string \<Rightarrow> bool" where
  "prompt_ok opts env p \<longleftrightarrow> byteLength p \<le> dl_maxPromptBytes (do_limits opts) \<and> \<not> secret p
     \<and> assembled (do_sanitizer opts) (untrusted opts env) (js_str (fld (do_job opts) ''head'')) p"

definition call_ok :: "decomposition_options \<Rightarrow> decomposition_env \<Rightarrow> string \<Rightarrow> model_invocation \<Rightarrow> bool" where
  "call_ok opts env model i \<longleftrightarrow> prompt_ok opts env (mi_prompt i) \<and> mi_model i = model \<and> 0 < mi_deadlineMs i
     \<and> mi_maxOutputTokens i = dl_maxOutputTokens (do_limits opts)"

text \<open>A record that describes a call.\<close>

definition described :: "invocation_record list \<Rightarrow> model_invocation \<Rightarrow> bool" where
  "described rs i \<longleftrightarrow> list_ex (\<lambda>r. ir_selectedModel r = mi_model i \<and> mi_prompt i \<in> set (ir_initialPrompt r # (case ir_repairPrompt r of Some p \<Rightarrow> [p] | None \<Rightarrow> []))) rs"

definition result_ok :: "decomposition_limits \<Rightarrow> decomposition \<Rightarrow> bool" where
  "result_ok limits d \<longleftrightarrow> (case d of
      Candidate nodes \<Rightarrow> int (length nodes) \<le> dl_maxNodes limits \<and> list_all (valid_node limits) nodes
    | Failed f \<Rightarrow> length (df_reason f) \<le> 256 \<and> byteLength (df_jobId f) \<le> 256
    | Crashed m \<Rightarrow> m = ''sanitization input must be a string'')"

lemma reject_ok [simp]: "result_ok limits (Failed (reject code reason jobId))"
  by (auto simp: result_ok_def reject_def boundedJobId_def byteLength_def split: js.splits)

lemma candidate_ok [simp]: "validateCandidate v limits = None \<Longrightarrow> result_ok limits (Candidate (items (fld v ''nodes'')))"
  using candidate_None [of v limits] by (auto simp: result_ok_def)

definition stage_ok :: "decomposition_options \<Rightarrow> decomposition_env \<Rightarrow> string \<Rightarrow> nat \<Rightarrow> decomposition \<times> run_event list \<Rightarrow> bool" where
  "stage_ok opts env model k r \<longleftrightarrow> result_ok (do_limits opts) (fst r) \<and> length (invocations (snd r)) \<le> k
     \<and> list_all (\<lambda>i. call_ok opts env model i \<and> described (records (snd r)) i) (invocations (snd r))"

lemma stage_finish:
  assumes "result_ok (do_limits opts) d" "prompt_ok opts env (mi_prompt i)" "mi_model i = model" "mi_maxOutputTokens i = dl_maxOutputTokens (do_limits opts)"
    "described [r] i"
  shows "stage_ok opts env model (Suc 0) (d, call_events i @ [Recorded r])"
  using assms by (auto simp: stage_ok_def call_events_def call_ok_def)

lemma stage_silent: "result_ok (do_limits opts) d \<Longrightarrow> invocations es = [] \<Longrightarrow> stage_ok opts env model k (d, es)"
  by (simp add: stage_ok_def)

lemma repair_ok:
  assumes "clean_job job" "ir_selectedModel base = model" "sourced_job (do_sanitizer opts) (untrusted opts env) (js_str (fld (do_job opts) ''head'')) job"
    and "context_texts breadth \<subseteq> untrusted opts env" "d \<in> untrusted opts env"
  shows "stage_ok opts env model (Suc 0) (repair_step parse opts env deadlineAt job breadth base d)"
proof -
  let ?capped = "map (sanitize (do_sanitizer opts)) (slice0 (dl_maxDiagnostics (do_limits opts)) [d])"
  show ?thesis
  proof (cases "buildPrompt (do_sanitizer opts) job breadth ?capped")
    case (Inl e)
    then show ?thesis using buildPrompt_crash [OF Inl] by (simp add: repair_step_def Let_def stage_silent result_ok_def)
  next
    case (Inr p)
    have clean: "\<not> secret p" using buildPrompt_clean [OF Inr assms(1)] by (simp add: list_ex_iff)
    have sourced: "assembled (do_sanitizer opts) (untrusted opts env) (js_str (fld (do_job opts) ''head'')) p"
      by (rule buildPrompt_assembled [OF Inr assms(3,4)]) (auto simp: slice0_def list_all_iff intro!: cleaned_in assms(5) dest!: in_set_takeD)
    let ?i = "invocation opts env model deadlineAt p 3"
    let ?r = "base \<lparr> ir_repairPrompt := Some p \<rparr>"
    have finish: "stage_ok opts env model (Suc 0) (x, call_events ?i @ [Recorded ?r])"
      if "result_ok (do_limits opts) x" "\<not> dl_maxPromptBytes (do_limits opts) < byteLength p" for x
      by (rule stage_finish [OF that(1)]) (use that(2) clean sourced assms(2) in \<open>simp_all add: invocation_def prompt_ok_def described_def\<close>)
    show ?thesis
      unfolding repair_step_def Let_def Inr sum.case assms(2)
      by (auto simp: finish stage_silent split: sum.splits option.splits)
  qed
qed

lemma stage_then:
  assumes "stage_ok opts env model (Suc 0) (x, es)" "stage_ok opts env model (Suc 0) (y, fs)"
  shows "stage_ok opts env model 2 (map_prod id (\<lambda>gs. es @ gs) (y, fs))"
  using assms by (auto simp: stage_ok_def list_all_iff described_def)

lemma stage_mono: "stage_ok opts env model (Suc 0) r \<Longrightarrow> stage_ok opts env model 2 r"
  by (simp add: stage_ok_def)

lemma initial_ok:
  assumes "clean_job job" "prompt_ok opts env (ir_initialPrompt base)"
    and "sourced_job (do_sanitizer opts) (untrusted opts env) (js_str (fld (do_job opts) ''head'')) job" "context_texts breadth \<subseteq> untrusted opts env"
  shows "stage_ok opts env (ir_selectedModel base) 2 (initial_step parse opts env deadlineAt job breadth base)"
proof -
  let ?model = "ir_selectedModel base"
  let ?i = "invocation opts env ?model deadlineAt (ir_initialPrompt base) 2"
  have one: "stage_ok opts env ?model (Suc 0) (x, call_events ?i @ [Recorded base])" if "result_ok (do_limits opts) x" for x
    by (rule stage_finish [OF that]) (use assms(2) in \<open>simp_all add: invocation_def described_def\<close>)
  have more: "stage_ok opts env ?model 2 (map_prod id ((@) (call_events ?i @ [Recorded base])) (repair_step parse opts env deadlineAt job breadth base d))"
    if "d \<in> untrusted opts env" for d
    using stage_then [OF one [of "Failed (reject [] [] Null)"]] repair_ok [OF assms(1) refl assms(3,4) that, where base = base and parse = parse and deadlineAt = deadlineAt]
    by (cases "repair_step parse opts env deadlineAt job breadth base d") simp
  have diagnostics: "''response is not valid JSON'' \<in> untrusted opts env" "\<And>v code s. validateCandidate v (do_limits opts) = Some (code, s) \<Longrightarrow> s \<in> untrusted opts env"
    by (auto simp: untrusted_def)
  show ?thesis
    unfolding initial_step_def Let_def
    using more [OF diagnostics(1)] more [OF diagnostics(2)] stage_mono [OF one] by (auto split: sum.splits option.splits)
qed

lemma selected_available:
  assumes "selectForRole p role av m = Inr d"
  shows "rd_selectedModel d \<in> set av"
proof -
  obtain sel rationale fb where "pickCandidate p role av m = Inr (sel, rationale, fb)" "rd_selectedModel d = sel"
    using assms unfolding selectForRole_def by (auto simp: createRoutingDecision_def split: sum.splits)
  moreover have "pick_loop av role i skipped cs = Inr (sel, rationale, fb) \<Longrightarrow> sel \<in> set av" for i skipped cs
    by (induction av role i skipped cs rule: pick_loop.induct) (auto split: if_splits)
  ultimately show ?thesis unfolding pickCandidate_def by (auto split: option.splits if_splits)
qed

lemma availability_ok:
  assumes "validateAvailability v = Inr av"
  shows "set av \<subseteq> set APPROVED_MODELS \<and> av = map (\<lambda>e. js_str (fld e ''fullId'')) (items v)"
proof -
  have "check_availability [] (items v) = Inr av" using assms by (simp add: validateAvailability_def split: if_splits)
  then have "distinct av \<and> set av \<subseteq> set APPROVED_MODELS \<and> av = [] @ map (\<lambda>e. js_str (fld e ''fullId'')) (items v)"
    by (rule check_availability_ok) simp_all
  then show ?thesis unfolding append_Nil by blast
qed

lemma validated_head: "validateJob date_parse job limits = Inr revision \<Longrightarrow> full_sha (fld job ''head'')"
  unfolding validateJob_def job_shape_error_def Let_def
  by (auto split: option.splits)

lemma retrieved: "retrieveWithDeadline port ms = Inr b \<Longrightarrow> port = Returns b"
  by (cases port) (auto simp: retrieveWithDeadline_def withDeadline_def split: if_splits)

text \<open>
  C25. A run of the decomposition harness is bounded and leaves a trace: it calls the model at
  most twice, each time with time left, with the one model it routed to, which is approved
  and reported available, and with a prompt within the byte limit; every call is described by
  a record that was handed to the caller; a candidate it returns has at most the allowed
  number of nodes, all of them valid, and a failure carries a bounded reason and job id. It
  throws only when the retrieved context has a field that is not a string. A prompt is made
  of the harness's own fixed texts, a count, the job's head commit and texts that were
  redacted: each of these is what the sanitizer's policy leaves of a text of the job, of the
  retrieved context or of a diagnostic, every pattern of the policy applied in turn, a global
  one at every match. Neither a prompt nor one of these texts contains an sk- key or a
  three-part token, and under the shipped policy none of these texts contains the assignment of
  an API key, of a secret, token or credential, or of a password (four of its characters before
  the next bracket, since a replacement is in brackets), nor a block with a private key.
\<close>
theorem decomposition_run_bounded:
  "(case runDecomposition date_parse parse opts env of (d, events) \<Rightarrow>
      result_ok (do_limits opts) d \<and> length (invocations events) \<le> 2
      \<and> list_all (\<lambda>i. byteLength (mi_prompt i) \<le> dl_maxPromptBytes (do_limits opts) \<and> \<not> secret (mi_prompt i)
          \<and> assembled (do_sanitizer opts) (untrusted opts env) (js_str (fld (do_job opts) ''head'')) (mi_prompt i)
          \<and> 0 < mi_deadlineMs i
          \<and> mi_maxOutputTokens i = dl_maxOutputTokens (do_limits opts)
          \<and> mi_model i \<in> set APPROVED_MODELS
          \<and> list_ex (\<lambda>e. js_str (fld e ''fullId'') = mi_model i) (items (do_availability opts))
          \<and> described (records events) i) (invocations events))"
proof -
  let ?r = "runDecomposition date_parse parse opts env"
  have "stage_ok opts env [] 2 ?r \<and> invocations (snd ?r) = []
     \<or> (\<exists>av m. validateAvailability (do_availability opts) = Inr av \<and> m \<in> set av \<and> stage_ok opts env m 2 ?r)"
  proof (cases "validateJob date_parse (do_job opts) (do_limits opts)")
    case (Inl f)
    then have "result_ok (do_limits opts) (Failed f)"
      unfolding validateJob_def Let_def by (auto split: option.splits sum.splits)
    then show ?thesis using Inl by (simp add: runDecomposition_def Let_def stage_silent)
  next
    case (Inr revision)
    note job = this
    show ?thesis
    proof (cases "validateAvailability (do_availability opts)")
      case (Inl f)
      then show ?thesis using job by (simp add: runDecomposition_def Let_def stage_silent)
    next
      case (Inr av)
      note av = this
      show ?thesis
      proof (cases "selectForRole (do_policy opts) ''decomposition'' av (do_explicitModelId opts)")
        case (Inl f)
        then show ?thesis using job av by (simp add: runDecomposition_def Let_def stage_silent)
      next
        case (Inr decision)
        note decision = this
        have clean: "clean_job (sanitizeJob (do_sanitizer opts) (do_job opts) revision)"
          by (rule sanitizeJob_clean [OF validated_head [OF job]])
        let ?sourced = "sourced_job (do_sanitizer opts) (untrusted opts env) (js_str (fld (do_job opts) ''head''))"
        have sourced: "?sourced (sanitizeJob (do_sanitizer opts) (do_job opts) revision)"
          by (rule sanitizeJob_sourced [OF validated_head [OF job]]) (auto simp: untrusted_def)
        have gathered: "context_texts b \<subseteq> untrusted opts env" if "retrieveWithDeadline (de_retrieve env r u e) ms = Inr b" for r u e ms b
          using retrieved [OF that] by (auto simp: untrusted_def)
        have first: "stage_ok opts env (rd_selectedModel decision) 2
            (initial_step parse opts env deadline job' b (base_record opts env job' decision revision' p))"
          if "clean_job job'" "?sourced job'" "context_texts b \<subseteq> untrusted opts env" "prompt_ok opts env p" for deadline job' b revision' p
          using initial_ok [OF that(1) _ that(2,3), of "base_record opts env job' decision revision' p"] that(4) by (simp add: base_record_def Let_def)
        have silent: "stage_ok opts env (rd_selectedModel decision) 2 (Failed (reject code reason v), [])" for code reason v
          by (simp add: stage_silent)
        have crash: "stage_ok opts env (rd_selectedModel decision) 2 (Crashed e, [])" if "buildPrompt policy job' b ds = Inl e" for e policy job' b ds
          using buildPrompt_crash [OF that] by (simp add: stage_silent result_ok_def)
        have ok: "prompt_ok opts env p" if "buildPrompt (do_sanitizer opts) job' b [] = Inr p" "clean_job job'" "?sourced job'"
            "context_texts b \<subseteq> untrusted opts env" "\<not> dl_maxPromptBytes (do_limits opts) < byteLength p" for p job' b
          using buildPrompt_clean [OF that(1,2)] buildPrompt_assembled [OF that(1,3,4)] that(5) by (simp add: prompt_ok_def)
        have "stage_ok opts env (rd_selectedModel decision) 2 ?r"
          unfolding runDecomposition_def Let_def job av decision sum.case
          using first [OF clean sourced gathered] ok [OF _ clean sourced gathered] crash silent by (auto split: sum.splits option.splits)
        then show ?thesis using av selected_available [OF decision] by blast
      qed
    qed
  qed
  then show ?thesis
  proof
    assume "stage_ok opts env [] 2 ?r \<and> invocations (snd ?r) = []"
    then show ?thesis by (simp add: stage_ok_def case_prod_beta)
  next
    assume "\<exists>av m. validateAvailability (do_availability opts) = Inr av \<and> m \<in> set av \<and> stage_ok opts env m 2 ?r"
    then obtain av m where v: "validateAvailability (do_availability opts) = Inr av" and m: "m \<in> set av" and s: "stage_ok opts env m 2 ?r" by blast
    have "m \<in> set APPROVED_MODELS \<and> list_ex (\<lambda>e. js_str (fld e ''fullId'') = m) (items (do_availability opts))"
      using availability_ok [OF v] m by (auto simp: list_ex_iff)
    then show ?thesis using s by (auto simp: stage_ok_def call_ok_def prompt_ok_def list_all_iff case_prod_beta)
  qed
qed

section \<open>Examples\<close>

definition demo_revision :: index_revision where
  "demo_revision = \<lparr> ix_repository = \<lparr> ri_owner = ''o'', ri_name = ''n'' \<rparr>, ix_head = replicate 40 (CHR ''a''), ix_graphifyVersion = ''1'',
     ix_indexSchemaVersion = ''1'', ix_sensitivePathPolicyVersion = ''1'', ix_manifestDigest = ''sha256:d'', ix_indexRevision = ''r'', ix_createdAt = ''t'' \<rparr>"

definition demo_job :: js where
  "demo_job = plain [(''jobId'', Str ''j''), (''spec'', plain [(''intent'', Str ''use password: hunter22''), (''acceptanceCriteria'', Arr [Str ''done''])]),
     (''targetRepository'', plain [(''owner'', Str ''o''), (''name'', Str ''n'')]), (''head'', Str (replicate 40 (CHR ''a''))),
     (''indexRevision'', revision_js demo_revision)]"

definition demo_breadth :: "js \<Rightarrow> breadth_result" where
  "demo_breadth label = \<lparr> br_revision = demo_revision, br_units = [\<lparr> gu_id = ''u'', gu_label = label, gu_kind = Str ''code'', gu_sourcePath = Str ''a.ts'', gu_community = Undefined \<rparr>],
     br_edges = [], br_truncated = False, br_truncationReason = None \<rparr>"

definition demo_nodes :: "js list" where
  "demo_nodes = [plain [(''id'', Str ''a''), (''intent'', Str ''i''), (''change_spec'', Str ''c''), (''acceptance_criteria'', Arr [Str ''x'']), (''depends_on'', Arr [])]]"

definition demo_options :: decomposition_options where
  "demo_options = \<lparr> do_job = demo_job, do_availability = Arr [plain [(''fullId'', Str ''moonshot/kimi-k2.7-code'')]], do_piExecutable = None,
     do_explicitModelId = None, do_deadlineMs = None,
     do_policy = \<lparr> pol_version = 1, pol_status = ''bootstrap'', pol_actor = ''orchestrator'', pol_roles = [(''decomposition'', \<lparr> rk_primary = ''moonshot/kimi-k2.7-code'', rk_fallback = [] \<rparr>)],
       pol_rules = plain [], pol_rank = None \<rparr>,
     do_limits = DEFAULT_LIMITS, do_sanitizer = \<lparr> sz_version = 1, sz_patterns = [DEFAULT_PATTERNS ! 2] \<rparr> \<rparr>"

text \<open>The first answer is not JSON, the second one is a candidate.\<close>

definition demo_env :: "js \<Rightarrow> decomposition_env" where
  "demo_env label = \<lparr> de_retrieve = (\<lambda>r u e. Returns (demo_breadth label)), de_invoke = (\<lambda>k i. Returns (if k = 0 then ''no'' else ''yes'')),
     de_now = (\<lambda>k. int k), de_package = \<lparr> pk_name = ''p'', pk_version = ''1'', pk_path = ''/p'' \<rparr>,
     de_launcher = \<lparr> xi_path = ''/l'', xi_version = ''1'', xi_digest = ''d'' \<rparr> \<rparr>"

definition demo_parse :: "string \<Rightarrow> js option" where
  "demo_parse s = (if s = ''yes'' then Some (plain [(''nodes'', Arr demo_nodes)]) else None)"

lemma demo_decomposition:
  "case runDecomposition (\<lambda>s. Some 0) demo_parse demo_options (demo_env (Str ''L'')) of (d, events) \<Rightarrow>
     d = Candidate demo_nodes \<and> length (invocations events) = 2
     \<and> list_all (\<lambda>i. sublist ''use [REDACTED-SECRET]'' (mi_prompt i)) (invocations events)"
  by code_simp

text \<open>A unit label that is a number passes retrieval and stops the run with an exception, without a record.\<close>

lemma decomposition_throws_on_numeric_label:
  "runDecomposition (\<lambda>s. Some 0) demo_parse demo_options (demo_env (JInt 5)) = (Crashed ''sanitization input must be a string'', [])"
  by code_simp

text \<open>
  A repair prompt over the byte limit hands the record of the first call to the caller a
  second time; the base record is then in the trace twice.
\<close>

lemma repair_overflow_records_again:
  "buildPrompt (do_sanitizer opts) job breadth (map (sanitize (do_sanitizer opts)) (slice0 (dl_maxDiagnostics (do_limits opts)) [d])) = Inr p
     \<Longrightarrow> dl_maxPromptBytes (do_limits opts) < byteLength p
     \<Longrightarrow> snd (repair_step parse opts env deadlineAt job breadth base d) = [Recorded base]"
  by (simp add: repair_step_def Let_def)

end
