(* ===== verification/Pool_Proof.thy ===== *)
theory Pool_Proof
  imports Pool_Runtime Store_Evidence
begin

text \<open>
  The two ends of a pool run: the verifier that judges the workspace a worker leaves
  (\<^verbatim>\<open>verification/pool-proof-verifier.ts\<close>) and the adapter that stores attempts and
  verdicts (\<^verbatim>\<open>orchestration/pool-proof-persistence.ts\<close>).

  Parameters of the verifier are the machine it runs on: \<open>vp_git\<close> is what a git process
  prints on stdout (None when it cannot be spawned; its exit status is not looked at),
  \<open>vp_realpath\<close>, \<open>vp_directory\<close> and \<open>vp_exists\<close> are the file system, \<open>vp_runner\<close> is the
  sandbox, \<open>vp_conflict\<close> the conflict query (None when they throw), and \<open>vp_number\<close> is
  \<^verbatim>\<open>Number\<close> of a text.
\<close>

section \<open>The verifier\<close>

record verifier_ports =
  vp_git :: "string \<Rightarrow> string list \<Rightarrow> string option"
  vp_realpath :: "string \<Rightarrow> string option"
  vp_directory :: "string \<Rightarrow> bool"
  vp_exists :: "string \<Rightarrow> bool"
  vp_runner :: "string \<Rightarrow> string list \<Rightarrow> js option"
  vp_conflict :: "string \<Rightarrow> string \<Rightarrow> js option"
  vp_number :: "string \<Rightarrow> js_num"

record verifier_job =
  vj_nodeId :: string
  vj_attemptId :: string
  vj_allowedChangedPaths :: "string list"
  vj_fixtureTestCommand :: "string list"
  vj_expectedParentCommit :: "string option"
  vj_isolationProbes :: "string list option"

record pi_process =
  pp_exitCode :: "int option"
  pp_nodeId :: string
  pp_attemptId :: string
  pp_attemptNonce :: string
  pp_resultId :: string
  pp_failureCode :: "string option"

record verifier_verdict = verdict +
  vv_greenEvidence :: "js option"

definition HARDENED_ARGS :: "string list" where
  "HARDENED_ARGS = [''-c'', ''core.fsmonitor=false'', ''-c'', ''core.hooksPath=/dev/null'', ''-c'', ''diff.external='', ''-c'', ''core.pager='',
     ''-c'', ''core.editor='', ''--no-optional-locks'']"

definition git :: "verifier_ports \<Rightarrow> string \<Rightarrow> string list \<Rightarrow> string option" where
  "git vp workspacePath args = map_option trim (vp_git vp workspacePath (HARDENED_ARGS @ args))"

definition absolute_path :: "string \<Rightarrow> bool" where
  "absolute_path p = prefix ''/'' p"

definition checkWorkspaceContainment :: "verifier_ports \<Rightarrow> string \<Rightarrow> bool" where
  "checkWorkspaceContainment vp workspacePath =
     (case vp_realpath vp workspacePath of
        None \<Rightarrow> False
      | Some real_path \<Rightarrow>
          if \<not> absolute_path real_path \<or> \<not> vp_directory vp real_path then False
          else case git vp workspacePath [''rev-parse'', ''--show-toplevel''] of
            None \<Rightarrow> False
          | Some toplevel \<Rightarrow> vp_realpath vp toplevel = Some real_path)"

definition read_sha :: "verifier_ports \<Rightarrow> string \<Rightarrow> string \<Rightarrow> string option" where
  "read_sha vp workspacePath what =
     (case git vp workspacePath [''rev-parse'', what] of None \<Rightarrow> None | Some sha \<Rightarrow> if is_sha1_hex sha then Some sha else None)"

definition readGitSha :: "verifier_ports \<Rightarrow> string \<Rightarrow> string option" where
  "readGitSha vp workspacePath = read_sha vp workspacePath ''HEAD''"

definition readGitParent :: "verifier_ports \<Rightarrow> string \<Rightarrow> string option" where
  "readGitParent vp workspacePath = read_sha vp workspacePath ''HEAD^''"

definition text_lines :: "string \<Rightarrow> string list" where
  "text_lines s = split_on (\<lambda>c. c = CHR 0x0A) s"

definition readGitStatus :: "verifier_ports \<Rightarrow> string \<Rightarrow> string list" where
  "readGitStatus vp workspacePath =
     (case git vp workspacePath [''status'', ''--porcelain''] of
        None \<Rightarrow> [''error'']
      | Some out \<Rightarrow> if out = [] then [] else filter (\<lambda>l. l \<noteq> []) (text_lines out))"

definition readCommitsSinceParent :: "verifier_ports \<Rightarrow> string \<Rightarrow> string \<Rightarrow> js_num option" where
  "readCommitsSinceParent vp workspacePath parentCommit =
     (case git vp workspacePath [''rev-list'', ''--count'', parentCommit @ ''..HEAD''] of
        None \<Rightarrow> None
      | Some out \<Rightarrow> if is_integer (vp_number vp out) then Some (vp_number vp out) else None)"

definition readChangedPaths :: "verifier_ports \<Rightarrow> string \<Rightarrow> string list" where
  "readChangedPaths vp workspacePath =
     (case git vp workspacePath [''diff-tree'', ''--no-commit-id'', ''--name-only'', ''-r'', ''HEAD''] of
        None \<Rightarrow> []
      | Some out \<Rightarrow> filter (\<lambda>l. l \<noteq> []) (map trim (text_lines out)))"

definition checkAllowedPaths :: "string list \<Rightarrow> string list \<Rightarrow> bool" where
  "checkAllowedPaths changed allowed =
     (changed \<noteq> [] \<and> list_all (\<lambda>path. list_ex (\<lambda>a. path = a \<or> prefix (a @ ''/'') path) allowed) changed)"

section \<open>Collaborators\<close>

record collaborator_run =
  cr_passed :: bool
  cr_evidence :: "js option"
  cr_failureCode :: "string option"

definition failedCollaboratorEvidence :: "string \<Rightarrow> js" where
  "failedCollaboratorEvidence message =
     plain [(''command'', Arr []), (''exitCode'', JInt 1), (''stdout'', Str []), (''stderr'', Str message), (''timedOut'', Bool False)]"

definition is_text :: "js \<Rightarrow> bool" where
  "is_text v = (case v of Str _ \<Rightarrow> True | _ \<Rightarrow> False)"

definition is_flag :: "js \<Rightarrow> bool" where
  "is_flag v = (case v of Bool _ \<Rightarrow> True | _ \<Rightarrow> False)"

definition isGreenEvidence :: "js \<Rightarrow> bool" where
  "isGreenEvidence v =
     (is_object v \<and> is_array (fld v ''command'') \<and> list_all is_text (items (fld v ''command''))
      \<and> (case fld v ''exitCode'' of Num (Fin _) \<Rightarrow> True | _ \<Rightarrow> False)
      \<and> is_text (fld v ''stdout'') \<and> is_text (fld v ''stderr'') \<and> is_flag (fld v ''timedOut'')
      \<and> (fld v ''stdoutTruncated'' = Undefined \<or> is_flag (fld v ''stdoutTruncated''))
      \<and> (fld v ''stderrTruncated'' = Undefined \<or> is_flag (fld v ''stderrTruncated'')))"

definition isConflictResult :: "js \<Rightarrow> bool" where
  "isConflictResult v =
     (is_object v \<and> is_flag (fld v ''hasConflict'') \<and> (is_text (fld v ''existingResultId'') \<or> fld v ''existingResultId'' = Null))"

definition runFixtureTest :: "verifier_ports \<Rightarrow> string \<Rightarrow> string list \<Rightarrow> collaborator_run" where
  "runFixtureTest vp workspacePath command =
     (let failed = \<lparr> cr_passed = False, cr_evidence = Some (failedCollaboratorEvidence ''fixture test runner failed''),
                     cr_failureCode = Some ''FIXTURE_TEST_RUNNER_FAILED'' \<rparr> in
      if command = []
      then \<lparr> cr_passed = False, cr_evidence = Some (failedCollaboratorEvidence ''empty fixture test command''), cr_failureCode = None \<rparr>
      else case vp_runner vp workspacePath command of
        None \<Rightarrow> failed
      | Some evidence \<Rightarrow>
          if \<not> isGreenEvidence evidence then failed
          else \<lparr> cr_passed = (fld evidence ''exitCode'' = JInt 0 \<and> fld evidence ''timedOut'' = Bool False), cr_evidence = Some evidence,
                 cr_failureCode = None \<rparr>)"

text \<open>A probe must fail: one that exits with zero has found what it looks for.\<close>

fun runIsolationProbes :: "verifier_ports \<Rightarrow> string \<Rightarrow> string list \<Rightarrow> collaborator_run" where
  "runIsolationProbes vp workspacePath [] = \<lparr> cr_passed = True, cr_evidence = None, cr_failureCode = None \<rparr>"
| "runIsolationProbes vp workspacePath (probe # probes) =
     (let failed = \<lparr> cr_passed = False, cr_evidence = Some (failedCollaboratorEvidence ''isolation runner failed''),
                     cr_failureCode = Some ''ISOLATION_RUNNER_FAILED'' \<rparr> in
      case vp_runner vp workspacePath [''sh'', ''-c'', probe] of
        None \<Rightarrow> failed
      | Some evidence \<Rightarrow>
          if \<not> isGreenEvidence evidence then failed
          else if fld evidence ''exitCode'' = JInt 0
          then \<lparr> cr_passed = False, cr_evidence = Some evidence, cr_failureCode = None \<rparr>
          else runIsolationProbes vp workspacePath probes)"

text \<open>Whether there is a conflict, and the failure of the query.\<close>

definition query_conflict :: "verifier_ports \<Rightarrow> string \<Rightarrow> string \<Rightarrow> bool \<times> string option" where
  "query_conflict vp attemptId resultId =
     (case vp_conflict vp attemptId resultId of
        Some v \<Rightarrow> if isConflictResult v then (fld v ''hasConflict'' = Bool True, None) else (True, Some ''CONFLICT_QUERY_FAILED'')
      | None \<Rightarrow> (True, Some ''CONFLICT_QUERY_FAILED''))"

section \<open>The verdict\<close>

definition q :: string where "q = [CHR 0x22]"

definition DEFAULT_ISOLATION_PROBES :: "string list" where
  "DEFAULT_ISOLATION_PROBES =
     [''[ -n '' @ q @ ''$OPENAI_API_KEY'' @ q @ '' ] || [ -n '' @ q @ ''$MOONSHOT_API_KEY'' @ q @ '' ]'',
      ''[ -e /var/run/docker.sock ]'',
      ''[ -r /root/.pi/agent/auth.json ] || [ -r /root/.ssh/id_rsa ] || [ -r /etc/shadow ] || [ '' @ q @ ''$(id -u)'' @ q @ '' = '' @ q @ ''0'' @ q @ '' ]'']"

definition nonempty :: "string option \<Rightarrow> string option" where
  "nonempty s = (case s of None \<Rightarrow> None | Some t \<Rightarrow> if t = [] then None else Some t)"

definition binding_checks :: "attempt_resources \<Rightarrow> verifier_job \<Rightarrow> pi_process \<Rightarrow> (string \<times> bool) list" where
  "binding_checks resources job process =
     [(''process_exit_success'', pp_exitCode process = Some 0),
      (''process_node_binding'', pp_nodeId process = vj_nodeId job),
      (''process_attempt_binding'', pp_attemptId process = vj_attemptId job),
      (''process_nonce_binding'', pp_attemptNonce process = rs_nonce resources),
      (''process_result_binding'', pp_resultId process = rs_resultId resources)]"

definition git_directory :: "verifier_ports \<Rightarrow> attempt_resources \<Rightarrow> bool" where
  "git_directory vp resources = (let d = rs_workspacePath resources @ ''/.git'' in vp_exists vp d \<and> vp_directory vp d)"

definition git_checks :: "verifier_ports \<Rightarrow> attempt_resources \<Rightarrow> verifier_job \<Rightarrow> (string \<times> bool) list" where
  "git_checks vp resources job =
     (let ws = rs_workspacePath resources; parent = readGitParent vp ws in
      [(''commit_resolved'', readGitSha vp ws \<noteq> None),
       (''expected_parent'', case nonempty (vj_expectedParentCommit job) of Some p \<Rightarrow> parent = Some p | None \<Rightarrow> parent \<noteq> None),
       (''exactly_one_commit'', case nonempty (vj_expectedParentCommit job) of
          Some p \<Rightarrow> readCommitsSinceParent vp ws p = Some (Fin 1) | None \<Rightarrow> parent \<noteq> None),
       (''allowed_paths_only'', checkAllowedPaths (readChangedPaths vp ws) (vj_allowedChangedPaths job)),
       (''clean_tree'', readGitStatus vp ws = [])])"

definition coalesce :: "'a option \<Rightarrow> 'a option \<Rightarrow> 'a option" where
  "coalesce a b = (case a of None \<Rightarrow> b | Some x \<Rightarrow> Some x)"

definition verify :: "verifier_ports \<Rightarrow> attempt_resources \<Rightarrow> verifier_job \<Rightarrow> pi_process \<Rightarrow> verifier_verdict" where
  "verify vp resources job process =
     (let ws = rs_workspacePath resources; gitExists = git_directory vp resources;
          fixture = runFixtureTest vp ws (vj_fixtureTestCommand job);
          probes = (case vj_isolationProbes job of Some ps \<Rightarrow> ps | None \<Rightarrow> DEFAULT_ISOLATION_PROBES);
          isolation = runIsolationProbes vp ws probes;
          conflict = query_conflict vp (vj_attemptId job) (rs_resultId resources);
          checks = binding_checks resources job process
            @ [(''workspace_contained'', checkWorkspaceContainment vp ws), (''git_directory_present'', gitExists)]
            @ (if gitExists then git_checks vp resources job else [])
            @ [(''fixture_test_passes'', cr_passed fixture), (''isolation_probes_pass'', cr_passed isolation),
               (''no_conflicting_result'', \<not> fst conflict)];
          allPassed = list_all snd checks;
          collaboratorFailure = coalesce (cr_failureCode fixture) (coalesce (cr_failureCode isolation) (snd conflict)) in
      \<lparr> vd_status = (if allPassed then ''passed'' else ''failed''),
        vd_commitSha = (if allPassed then (if gitExists then readGitSha vp ws else None) else None),
        vd_failureCode = (if allPassed then None
          else coalesce (pp_failureCode process) (coalesce collaboratorFailure (Some ''VERIFIER_CHECK_FAILED''))),
        vd_checks = checks,
        vv_greenEvidence = (if allPassed then cr_evidence fixture else None) \<rparr>)"

section \<open>Persistence\<close>

record proof_result_input =
  rr_attemptId :: string
  rr_resultId :: string
  rr_nodeId :: string
  rr_selectedModel :: string
  rr_checks :: "(string \<times> bool) list"
  rr_startedAt :: js_date
  rr_finishedAt :: js_date
  rr_status :: string
  rr_commitSha :: "string option"
  rr_failureCode :: "string option"

definition normalizeProofResultInput :: "proof_result_input \<Rightarrow> string + proof_result_input" where
  "normalizeProofResultInput inp =
     (if rr_status inp = ''passed'' \<and> rr_commitSha inp \<noteq> None \<and> rr_failureCode inp = None then Inr inp
      else if rr_status inp = ''failed'' \<and> rr_commitSha inp = None \<and> nonempty (rr_failureCode inp) \<noteq> None then Inr inp
      else Inl ''invalid Pool Proof terminal result algebra'')"

text \<open>The exceptions of the adapter: what a store command refused, or what it threw.\<close>

datatype persistence_error = Refused string orch_code string | Node_missing string | Store_threw string | Bad_algebra string

text \<open>The composed command: the steps before a failure are not undone.\<close>

definition importWorkAndCreateAttempt ::
  "(nat \<Rightarrow> env) \<Rightarrow> js \<Rightarrow> string \<Rightarrow> string \<Rightarrow> int \<Rightarrow> string \<Rightarrow> js \<Rightarrow> db \<Rightarrow> persistence_error option \<times> db" where
  "importWorkAndCreateAttempt envs work nodeId attemptId attemptNumber jobId builderRouting d =
     (let workId = js_str (fld work ''work_id'') in
      case importApprovedWork (envs 0) work d of
        (Err c m, d1) \<Rightarrow> (Some (Refused ''work import failed'' c m), d1)
      | (Threw m, d1) \<Rightarrow> (Some (Store_threw m), d1)
      | (Ok _, d1) \<Rightarrow>
          (case getApprovedNode workId nodeId d1 of
             None \<Rightarrow> (Some (Node_missing nodeId), d1)
           | Some _ \<Rightarrow>
               (case transitionNode (envs 1) workId nodeId 1 Ready d1 of
                  (Err c m, d2) \<Rightarrow> (Some (Refused ''node transition failed'' c m), d2)
                | (Threw m, d2) \<Rightarrow> (Some (Store_threw m), d2)
                | (Ok _, d2) \<Rightarrow>
                    (case createAttempt (envs 2) workId nodeId attemptId attemptNumber jobId builderRouting d2 of
                       (Err c m, d3) \<Rightarrow> (Some (Refused ''attempt creation failed'' c m), d3)
                     | (Threw m, d3) \<Rightarrow> (Some (Store_threw m), d3)
                     | (Ok _, d3) \<Rightarrow> (None, d3)))))"

definition proof_input_of :: "proof_result_input \<Rightarrow> proof_input" where
  "proof_input_of inp = \<lparr> pi_attempt_id = rr_attemptId inp, pi_result_id = rr_resultId inp, pi_node_id = rr_nodeId inp,
     pi_builder_model = rr_selectedModel inp, pi_status = rr_status inp, pi_commit_sha = rr_commitSha inp,
     pi_failure_code = rr_failureCode inp, pi_checks = rr_checks inp, pi_started_at = rr_startedAt inp, pi_finished_at = rr_finishedAt inp \<rparr>"

definition recordResult :: "(string \<Rightarrow> string \<Rightarrow> int) \<Rightarrow> env \<Rightarrow> proof_result_input \<Rightarrow> db \<Rightarrow> persistence_error option \<times> db" where
  "recordResult lc e untrusted d =
     (case normalizeProofResultInput untrusted of
        Inl m \<Rightarrow> (Some (Bad_algebra m), d)
      | Inr inp \<Rightarrow>
          (case recordProofResult lc e (proof_input_of inp) d of
             (Ok _, d') \<Rightarrow> (None, d')
           | (Err c m, d') \<Rightarrow> (Some (Refused ''record proof result failed'' c m), d')
           | (Threw m, d') \<Rightarrow> (Some (Store_threw m), d')))"

end
