(* ===== verification/Pool_Proof_Properties.thy ===== *)
theory Pool_Proof_Properties
  imports Pool_Proof Dispatch_Properties Store_Scenario
begin

text \<open>
  The verdict of the verifier is exact, and every verdict can be stored: what the store then
  answers for the attempt is what the verifier found.
\<close>

section \<open>The evidence a verdict rests on\<close>

text \<open>Reference: what must hold of the worker's process and of its workspace.\<close>

definition bound_process :: "attempt_resources \<Rightarrow> verifier_job \<Rightarrow> pi_process \<Rightarrow> bool" where
  "bound_process resources job process \<longleftrightarrow> pp_exitCode process = Some 0
     \<and> pp_nodeId process = vj_nodeId job \<and> pp_attemptId process = vj_attemptId job
     \<and> pp_attemptNonce process = rs_nonce resources \<and> pp_resultId process = rs_resultId resources"

definition own_checkout :: "verifier_ports \<Rightarrow> string \<Rightarrow> bool" where
  "own_checkout vp ws \<longleftrightarrow> (\<exists>r top_level. vp_realpath vp ws = Some r \<and> absolute_path r \<and> vp_directory vp r
     \<and> git vp ws [''rev-parse'', ''--show-toplevel''] = Some top_level \<and> vp_realpath vp top_level = Some r)
     \<and> vp_exists vp (ws @ ''/.git'') \<and> vp_directory vp (ws @ ''/.git'')"

definition one_commit_on :: "verifier_ports \<Rightarrow> string \<Rightarrow> string option \<Rightarrow> bool" where
  "one_commit_on vp ws expected \<longleftrightarrow> (\<exists>sha parent. git vp ws [''rev-parse'', ''HEAD''] = Some sha \<and> is_sha1_hex sha
     \<and> git vp ws [''rev-parse'', ''HEAD^''] = Some parent \<and> is_sha1_hex parent
     \<and> (expected = None \<or> expected = Some [] \<or> expected = Some parent
          \<and> (\<exists>count. git vp ws [''rev-list'', ''--count'', parent @ ''..HEAD''] = Some count \<and> vp_number vp count = Fin 1)))"

definition only_allowed_changes :: "verifier_ports \<Rightarrow> string \<Rightarrow> string list \<Rightarrow> bool" where
  "only_allowed_changes vp ws allowed \<longleftrightarrow> readChangedPaths vp ws \<noteq> []
     \<and> (\<forall>p \<in> set (readChangedPaths vp ws). \<exists>a \<in> set allowed. p = a \<or> (\<exists>rest. p = a @ ''/'' @ rest))
     \<and> (\<exists>out. git vp ws [''status'', ''--porcelain''] = Some out \<and> list_all (\<lambda>l. l = []) (text_lines out))"

definition exits_with :: "verifier_ports \<Rightarrow> string \<Rightarrow> string list \<Rightarrow> (js \<Rightarrow> bool) \<Rightarrow> bool" where
  "exits_with vp ws command good \<longleftrightarrow> (\<exists>e. vp_runner vp ws command = Some e \<and> isGreenEvidence e \<and> good e)"

definition probes_of :: "verifier_job \<Rightarrow> string list" where
  "probes_of job = (case vj_isolationProbes job of Some ps \<Rightarrow> ps | None \<Rightarrow> DEFAULT_ISOLATION_PROBES)"

definition evidence_holds :: "verifier_ports \<Rightarrow> attempt_resources \<Rightarrow> verifier_job \<Rightarrow> pi_process \<Rightarrow> bool" where
  "evidence_holds vp resources job process \<longleftrightarrow> (let ws = rs_workspacePath resources in
     bound_process resources job process \<and> own_checkout vp ws \<and> one_commit_on vp ws (vj_expectedParentCommit job)
     \<and> only_allowed_changes vp ws (vj_allowedChangedPaths job)
     \<and> vj_fixtureTestCommand job \<noteq> []
     \<and> exits_with vp ws (vj_fixtureTestCommand job) (\<lambda>e. fld e ''exitCode'' = JInt 0 \<and> fld e ''timedOut'' = Bool False)
     \<and> (\<forall>p \<in> set (probes_of job). exits_with vp ws [''sh'', ''-c'', p] (\<lambda>e. fld e ''exitCode'' \<noteq> JInt 0))
     \<and> (\<exists>c. vp_conflict vp (vj_attemptId job) (rs_resultId resources) = Some c \<and> isConflictResult c \<and> fld c ''hasConflict'' = Bool False))"

lemma containment_iff:
  "checkWorkspaceContainment vp ws \<and> git_directory vp resources \<longleftrightarrow> own_checkout vp ws" if "ws = rs_workspacePath resources"
  using that by (auto simp: checkWorkspaceContainment_def own_checkout_def git_directory_def Let_def split: option.splits if_splits)

lemma commit_iff:
  "readGitSha vp ws \<noteq> None
     \<and> (case nonempty expected of Some p \<Rightarrow> readGitParent vp ws = Some p | None \<Rightarrow> readGitParent vp ws \<noteq> None)
     \<and> (case nonempty expected of Some p \<Rightarrow> readCommitsSinceParent vp ws p = Some (Fin 1) | None \<Rightarrow> readGitParent vp ws \<noteq> None)
   \<longleftrightarrow> one_commit_on vp ws expected"
  by (auto simp: readGitSha_def readGitParent_def read_sha_def readCommitsSinceParent_def one_commit_on_def nonempty_def
      split: option.splits if_splits)

lemma paths_iff:
  "checkAllowedPaths (readChangedPaths vp ws) allowed \<and> readGitStatus vp ws = [] \<longleftrightarrow> only_allowed_changes vp ws allowed"
proof -
  have "readGitStatus vp ws = [] \<longleftrightarrow> (\<exists>out. git vp ws [''status'', ''--porcelain''] = Some out \<and> list_all (\<lambda>l. l = []) (text_lines out))"
    by (auto simp: readGitStatus_def text_lines_def filter_empty_conv list_all_iff split: option.splits)
  then show ?thesis by (auto simp: only_allowed_changes_def checkAllowedPaths_def list_all_iff list_ex_iff prefix_def)
qed

lemma fixture_iff:
  "cr_passed (runFixtureTest vp ws command) \<longleftrightarrow>
     command \<noteq> [] \<and> exits_with vp ws command (\<lambda>e. fld e ''exitCode'' = JInt 0 \<and> fld e ''timedOut'' = Bool False)"
  by (auto simp: runFixtureTest_def exits_with_def Let_def split: option.splits)

lemma isolation_iff:
  "cr_passed (runIsolationProbes vp ws probes) \<longleftrightarrow> (\<forall>p \<in> set probes. exits_with vp ws [''sh'', ''-c'', p] (\<lambda>e. fld e ''exitCode'' \<noteq> JInt 0))"
  by (induction probes) (auto simp: exits_with_def Let_def split: option.splits)

lemma conflict_iff:
  "\<not> fst (query_conflict vp a r) \<longleftrightarrow> (\<exists>c. vp_conflict vp a r = Some c \<and> isConflictResult c \<and> fld c ''hasConflict'' = Bool False)"
  by (auto simp: query_conflict_def isConflictResult_def is_flag_def split: option.splits js.splits)

lemma bindings_iff: "list_all snd (binding_checks resources job process) \<longleftrightarrow> bound_process resources job process"
  by (auto simp: binding_checks_def bound_process_def)

lemma all_checks_iff:
  "list_all snd (vd_checks (verify vp resources job process)) \<longleftrightarrow> evidence_holds vp resources job process"
proof -
  let ?ws = "rs_workspacePath resources"
  have "list_all snd (vd_checks (verify vp resources job process)) \<longleftrightarrow>
      bound_process resources job process \<and> (checkWorkspaceContainment vp ?ws \<and> git_directory vp resources)
      \<and> list_all snd (git_checks vp resources job)
      \<and> cr_passed (runFixtureTest vp ?ws (vj_fixtureTestCommand job))
      \<and> cr_passed (runIsolationProbes vp ?ws (probes_of job)) \<and> \<not> fst (query_conflict vp (vj_attemptId job) (rs_resultId resources))"
    by (simp add: verify_def Let_def probes_of_def bindings_iff)
  also have "list_all snd (git_checks vp resources job) \<longleftrightarrow>
      one_commit_on vp ?ws (vj_expectedParentCommit job) \<and> only_allowed_changes vp ?ws (vj_allowedChangedPaths job)"
    unfolding git_checks_def Let_def commit_iff [symmetric] paths_iff [symmetric] by auto
  finally show ?thesis
    unfolding containment_iff [OF refl] fixture_iff isolation_iff conflict_iff evidence_holds_def Let_def by blast
qed

lemma verdict_fields:
  "vd_status (verify vp resources job process) = (if evidence_holds vp resources job process then ''passed'' else ''failed'')"
  "vd_commitSha (verify vp resources job process) =
     (if evidence_holds vp resources job process then readGitSha vp (rs_workspacePath resources) else None)"
  "vd_failureCode (verify vp resources job process) = None \<longleftrightarrow> evidence_holds vp resources job process"
  "vv_greenEvidence (verify vp resources job process) = None \<longleftrightarrow> \<not> evidence_holds vp resources job process"
  "\<not> evidence_holds vp resources job process \<Longrightarrow> pp_failureCode process = Some c \<Longrightarrow> vd_failureCode (verify vp resources job process) = Some c"
proof -
  note a = all_checks_iff [of vp resources job process]
  show "vd_status (verify vp resources job process) = (if evidence_holds vp resources job process then ''passed'' else ''failed'')"
    unfolding a [symmetric] by (simp add: verify_def Let_def)
  have g: "evidence_holds vp resources job process \<Longrightarrow> git_directory vp resources"
    by (simp add: evidence_holds_def Let_def own_checkout_def git_directory_def)
  show "vd_commitSha (verify vp resources job process) =
     (if evidence_holds vp resources job process then readGitSha vp (rs_workspacePath resources) else None)"
    using g unfolding a [symmetric] by (simp add: verify_def Let_def)
  show "vd_failureCode (verify vp resources job process) = None \<longleftrightarrow> evidence_holds vp resources job process"
    unfolding a [symmetric] by (simp add: verify_def Let_def coalesce_def split: option.splits)
  have "cr_evidence (runFixtureTest vp ws command) \<noteq> None" for ws command
    by (simp add: runFixtureTest_def Let_def split: option.splits)
  then show "vv_greenEvidence (verify vp resources job process) = None \<longleftrightarrow> \<not> evidence_holds vp resources job process"
    unfolding a [symmetric] by (simp add: verify_def Let_def)
  show "\<not> evidence_holds vp resources job process \<Longrightarrow> pp_failureCode process = Some c \<Longrightarrow> vd_failureCode (verify vp resources job process) = Some c"
    unfolding a [symmetric] by (simp add: verify_def Let_def coalesce_def)
qed

text \<open>
  C31. The verdict is exact: a run passes if and only if the worker's process ended well and
  is the one launched for this attempt, its workspace is its own checkout with one commit on
  the expected parent, changing allowed paths only and leaving a clean tree, the fixture test
  passes, every isolation probe fails, and no other result is stored. A passed verdict
  carries that commit and the green evidence; a failed one neither, but a failure code.
\<close>
theorem verdict_exact:
  "(case verify vp resources job process of v \<Rightarrow>
      if evidence_holds vp resources job process
      then vd_status v = ''passed'' \<and> vd_failureCode v = None \<and> vv_greenEvidence v \<noteq> None
        \<and> (\<exists>sha. vd_commitSha v = Some sha \<and> is_sha1_hex sha \<and> git vp (rs_workspacePath resources) [''rev-parse'', ''HEAD''] = Some sha)
      else vd_status v = ''failed'' \<and> vd_failureCode v \<noteq> None \<and> vv_greenEvidence v = None \<and> vd_commitSha v = None
        \<and> list_ex (\<lambda>c. \<not> snd c) (vd_checks v))"
proof (cases "evidence_holds vp resources job process")
  case True
  then have "one_commit_on vp (rs_workspacePath resources) (vj_expectedParentCommit job)" by (simp add: evidence_holds_def Let_def)
  then obtain sha where sha: "git vp (rs_workspacePath resources) [''rev-parse'', ''HEAD''] = Some sha" "is_sha1_hex sha"
    unfolding one_commit_on_def by blast
  then have "readGitSha vp (rs_workspacePath resources) = Some sha" by (simp add: readGitSha_def read_sha_def)
  then show ?thesis using True sha verdict_fields [of vp resources job process] by simp
next
  case False
  then have "list_ex (\<lambda>c. \<not> snd c) (vd_checks (verify vp resources job process))"
    using all_checks_iff [of vp resources job process] by (auto simp: list_all_iff list_ex_iff)
  then show ?thesis using False verdict_fields [of vp resources job process] by simp
qed

section \<open>Storing a verdict\<close>

definition result_input ::
  "attempt_resources \<Rightarrow> verifier_job \<Rightarrow> string \<Rightarrow> int \<Rightarrow> int \<Rightarrow> verifier_verdict \<Rightarrow> proof_result_input" where
  "result_input resources job model started finished v =
     \<lparr> rr_attemptId = vj_attemptId job, rr_resultId = rs_resultId resources, rr_nodeId = vj_nodeId job, rr_selectedModel = model,
       rr_checks = vd_checks v, rr_startedAt = Some started, rr_finishedAt = Some finished, rr_status = vd_status v,
       rr_commitSha = vd_commitSha v, rr_failureCode = vd_failureCode v \<rparr>"

lemma check_names_None: "check_names seen cs = None \<longleftrightarrow>
    distinct (map fst cs) \<and> set (map fst cs) \<inter> set seen = {} \<and> list_all (\<lambda>n. n \<noteq> [] \<and> length n \<le> 200) (map fst cs)"
  by (induction seen cs rule: check_names.induct) auto

lemma verdict_check_names:
  "check_names [] (vd_checks (verify vp resources job process)) = None" "vd_checks (verify vp resources job process) \<noteq> []"
proof -
  have "map fst (vd_checks (verify vp resources job process)) =
      [''process_exit_success'', ''process_node_binding'', ''process_attempt_binding'', ''process_nonce_binding'', ''process_result_binding'',
       ''workspace_contained'', ''git_directory_present'']
      @ (if git_directory vp resources then [''commit_resolved'', ''expected_parent'', ''exactly_one_commit'', ''allowed_paths_only'', ''clean_tree''] else [])
      @ [''fixture_test_passes'', ''isolation_probes_pass'', ''no_conflicting_result'']"
    by (simp add: verify_def Let_def binding_checks_def git_checks_def)
  then show "check_names [] (vd_checks (verify vp resources job process)) = None" unfolding check_names_None
    by (cases "git_directory vp resources") simp_all
  show "vd_checks (verify vp resources job process) \<noteq> []" by (simp add: verify_def Let_def)
qed

lemma insert_all_fresh:
  "distinct (map key rs) \<Longrightarrow> (\<And>r. r \<in> set rs \<Longrightarrow> key r \<notin> key ` set rows) \<Longrightarrow> insert_all key rs rows = Some (rows @ rs)"
proof (induction rs arbitrary: rows)
  case (Cons r rs)
  then have "t_get key (key r) rows = None" by (simp add: t_get_None)
  moreover have "insert_all key rs (rows @ [r]) = Some ((rows @ [r]) @ rs)"
    by (rule Cons.IH) (use Cons.prems in \<open>auto simp: rev_image_eqI\<close>)
  ultimately show ?case by (simp add: insert_unique_def del: t_get_None)
qed simp

definition storable_failure :: "pi_process \<Rightarrow> bool" where
  "storable_failure process \<longleftrightarrow> (case pp_failureCode process of None \<Rightarrow> True | Some c \<Rightarrow> c \<noteq> [] \<and> length c \<le> maxVersionLength OL)"

lemma failure_code_stored:
  assumes "storable_failure process" "vd_failureCode (verify vp resources job process) = Some c"
  shows "c \<noteq> [] \<and> length c \<le> maxVersionLength OL"
proof (cases "pp_failureCode process")
  case None
  have codes: "x \<in> {''FIXTURE_TEST_RUNNER_FAILED'', ''ISOLATION_RUNNER_FAILED'', ''CONFLICT_QUERY_FAILED'', ''VERIFIER_CHECK_FAILED''} \<Longrightarrow>
      x \<noteq> [] \<and> length x \<le> maxVersionLength OL" for x
    by (auto simp: ORCHESTRATION_LIMITS_def)
  have fixture: "cr_failureCode (runFixtureTest vp ws command) \<in> {None, Some ''FIXTURE_TEST_RUNNER_FAILED''}" for ws command
    by (simp add: runFixtureTest_def Let_def split: option.splits)
  have isolation: "cr_failureCode (runIsolationProbes vp ws probes) \<in> {None, Some ''ISOLATION_RUNNER_FAILED''}" for ws probes
    by (induction probes) (auto simp: Let_def split: option.splits)
  have conflict: "snd (query_conflict vp a r) \<in> {None, Some ''CONFLICT_QUERY_FAILED''}" for a r
    by (simp add: query_conflict_def split: option.splits)
  have code: "coalesce (cr_failureCode (runFixtureTest vp w1 c1)) (coalesce (cr_failureCode (runIsolationProbes vp w2 ps)) (snd (query_conflict vp a r)))
      \<in> {None, Some ''FIXTURE_TEST_RUNNER_FAILED'', Some ''ISOLATION_RUNNER_FAILED'', Some ''CONFLICT_QUERY_FAILED''}" for w1 c1 w2 ps a r
    using fixture [of w1 c1] isolation [of w2 ps] conflict [of a r] by (auto simp: coalesce_def split: option.splits)
  have "c \<in> {''FIXTURE_TEST_RUNNER_FAILED'', ''ISOLATION_RUNNER_FAILED'', ''CONFLICT_QUERY_FAILED'', ''VERIFIER_CHECK_FAILED''}"
    using assms(2) None code [of "rs_workspacePath resources" "vj_fixtureTestCommand job" "rs_workspacePath resources" "probes_of job"
        "vj_attemptId job" "rs_resultId resources"]
    by (auto simp: verify_def Let_def probes_of_def coalesce_def [of None] coalesce_def [of "Some _"] split: if_splits)
  then show ?thesis by (rule codes)
next
  case (Some code)
  then have "c = code" using assms(2) verdict_fields(3) [of vp resources job process] verdict_fields(5) [of vp resources job process code] by auto
  then show ?thesis using assms(1) Some by (simp add: storable_failure_def)
qed

text \<open>
  A verdict is never lost: for an attempt of the store with no result yet, the verdict of
  the verifier passes every check of the persistence, whatever it is, and reading the result
  of the attempt afterwards gives that verdict: passed with the commit exactly when the
  evidence holds, failed with the failure code otherwise.
\<close>
theorem verdict_is_recorded:
  assumes "get_attempt_row (vj_attemptId job) d = Some a" "a_node_id a = vj_nodeId job"
    "t_get b_attempt_id (vj_attemptId job) (attempt_routing_decisions d) = Some b" "b_builder_model b = model" "isApprovedModelId (Str model)"
    "isNonEmptyString (Str (vj_attemptId job)) (maxIdLength OL)" "isNonEmptyString (Str (vj_nodeId job)) (maxIdLength OL)"
    "isNonEmptyString (Str (rs_resultId resources)) (maxResultIdLength OL)"
    "getProofResult (vj_attemptId job) d = None" "getProofChecks (vj_attemptId job) d = []"
    "storable_failure process" "started \<le> finished" "env_begin_error e = None"
  shows "\<exists>d' row. recordResult lc e (result_input resources job model started finished (verify vp resources job process)) d = (None, d')
    \<and> getProofResult (vj_attemptId job) d' = Some row
    \<and> f_status row = (if evidence_holds vp resources job process then ''passed'' else ''failed'')
    \<and> f_commit_sha row = vd_commitSha (verify vp resources job process) \<and> f_failure_code row = vd_failureCode (verify vp resources job process)
    \<and> f_result_id row = rs_resultId resources \<and> f_builder_model row = model"
proof -
  let ?v = "verify vp resources job process"
  let ?in = "result_input resources job model started finished ?v"
  let ?p = "proof_input_of ?in"
  note fields = verdict_fields [of vp resources job process]
  have sha: "is_sha1_hex s" if "vd_commitSha ?v = Some s" for s
    using verdict_exact [of vp resources job process] that by (auto split: if_splits)
  have shape: "vd_status ?v = ''passed'' \<and> vd_commitSha ?v \<noteq> None \<and> vd_failureCode ?v = None
      \<or> vd_status ?v = ''failed'' \<and> vd_commitSha ?v = None \<and> vd_failureCode ?v \<noteq> None"
    using verdict_exact [of vp resources job process] by (auto split: if_splits)
  have code: "c \<noteq> [] \<and> length c \<le> maxVersionLength OL" if "vd_failureCode ?v = Some c" for c
    using failure_code_stored [OF assms(11) that] .
  have algebra: "normalizeProofResultInput ?in = Inr ?in"
    using shape code by (auto simp: normalizeProofResultInput_def result_input_def nonempty_def split: option.splits)
  have valid: "validate_proof_input ?p = None"
    unfolding validate_proof_input_def or_else_None proof_input_of_def result_input_def
    using assms(5-8,12) shape sha code verdict_check_names [of vp resources job process] by (auto simp: first_error_None split: option.splits)
  let ?rows = "check_rows_of (vj_attemptId job) (vd_checks ?v)"
  have fresh: "check_key r \<notin> check_key ` set (pool_proof_checks d)" if "r \<in> set ?rows" for r
    using that assms(6,10) by (auto simp: check_rows_of_def check_key_def getProofChecks_def filter_empty_conv)
  have "map check_key ?rows = map (Pair (vj_attemptId job)) (map fst (vd_checks ?v))"
    by (simp add: check_rows_of_def check_key_def case_prod_beta)
  then have "distinct (map check_key ?rows)"
    using verdict_check_names(1) [of vp resources job process] by (simp add: check_names_None distinct_map inj_on_def)
  then have checks: "insert_all check_key ?rows (pool_proof_checks d) = Some (pool_proof_checks d @ ?rows)"
    by (rule insert_all_fresh) (rule fresh)
  have none: "t_get f_attempt_id (vj_attemptId job) (pool_proof_results d) = None"
    using assms(6,9) by (simp add: getProofResult_def del: t_get_None)
  have ids: "pi_attempt_id ?p = vj_attemptId job" "pi_node_id ?p = vj_nodeId job" "pi_builder_model ?p = model" "pi_checks ?p = vd_checks ?v"
    by (simp_all add: proof_input_of_def result_input_def)
  let ?d' = "snd (recordProofResult lc e ?p d)"
  have ok: "fst (recordProofResult lc e ?p d) = Ok ()" "pool_proof_results ?d' = pool_proof_results d @ [proof_row_of ?p]"
    using assms(1-4,13) unfolding recordProofResult_def valid begin_immediate_typed_def ids none checks by simp_all
  have "getProofResult (vj_attemptId job) ?d' = Some (proof_row_of ?p)"
    using assms(6) none unfolding getProofResult_def ok(2) by (simp add: t_get_append t_get_Cons proof_row_of_def ids del: t_get_None)
  moreover have "recordResult lc e ?in d = (None, ?d')"
    using ok(1) unfolding recordResult_def algebra by (cases "recordProofResult lc e ?p d") simp
  ultimately show ?thesis using fields(1) by (auto simp: proof_row_of_def proof_input_of_def result_input_def)
qed

section \<open>Storing an attempt\<close>

text \<open>
  The composed command is a run of the store whatever happens, so a failure keeps the steps
  before it; a success leaves the node ready and an attempt with the given id stored.
\<close>

lemma attempt_import:
  assumes "importWorkAndCreateAttempt envs work nodeId attemptId number jobId routing d = (r, d')"
  shows "store_step\<^sup>*\<^sup>* d d' \<and> (r = None \<longrightarrow> get_attempt_row attemptId d' \<noteq> None)"
proof -
  let ?w = "js_str (fld work ''work_id'')"
  let ?d1 = "snd (importApprovedWork (envs 0) work d)"
  let ?d2 = "snd (transitionNode (envs 1) ?w nodeId 1 Ready ?d1)"
  let ?d3 = "snd (createAttempt (envs 2) ?w nodeId attemptId number jobId routing ?d2)"
  have s1: "store_step\<^sup>*\<^sup>* d ?d1" by (blast intro: store_step.st_import)
  have s2: "store_step\<^sup>*\<^sup>* d ?d2" by (rule rtranclp.rtrancl_into_rtrancl [OF s1]) (rule store_step.st_transition)
  have s3: "store_step\<^sup>*\<^sup>* d ?d3" by (rule rtranclp.rtrancl_into_rtrancl [OF s2]) (rule store_step.st_attempt)
  have "d' \<in> {?d1, ?d2, ?d3} \<and> (r = None \<longrightarrow> d' = ?d3 \<and> (\<exists>a. fst (createAttempt (envs 2) ?w nodeId attemptId number jobId routing ?d2) = Ok a))"
    using assms unfolding importWorkAndCreateAttempt_def Let_def
    by (auto split: prod.splits outcome.splits option.splits)
  then have d': "d' = ?d1 \<or> d' = ?d2 \<or> d' = ?d3" and ok: "r = None \<Longrightarrow> d' = ?d3 \<and> (\<exists>a. fst (createAttempt (envs 2) ?w nodeId attemptId number jobId routing ?d2) = Ok a)"
    by (auto simp del: t_get_None)
  have "store_step\<^sup>*\<^sup>* d d'" using d' s1 s2 s3 by metis
  moreover have "get_attempt_row attemptId d' \<noteq> None" if none: "r = None"
  proof -
    from ok [OF none] obtain a where a: "d' = ?d3" "fst (createAttempt (envs 2) ?w nodeId attemptId number jobId routing ?d2) = Ok a" by blast
    from createAttempt_Ok [OF a(2)] show ?thesis unfolding a(1) .
  qed
  ultimately show ?thesis by blast
qed

text \<open>
  An attempt id that is already in the store is adopted whatever node it belongs to: the
  command succeeds for the second node of the scenario's work, which is made ready and has no
  attempt afterwards.
\<close>

lemma attempt_of_another_node_adopted:
  "case importWorkAndCreateAttempt (\<lambda>k. sc_env) sc_work ''m'' ''w/n/1'' 1 ''job'' sc_routing sc3 of (r, d') \<Rightarrow>
     r = None \<and> map_option n_state (get_node_row ''w'' ''m'' d') = Some Ready \<and> list_all (\<lambda>a. a_node_id a = ''n'') (attempts d')"
  by code_simp

section \<open>Examples\<close>

definition demo_git :: "string \<Rightarrow> string list \<Rightarrow> string option" where
  "demo_git ws args =
     (if ''--show-toplevel'' \<in> set args then Some ''/w''
      else if ''HEAD^'' \<in> set args then Some (replicate 40 (CHR ''a''))
      else if ''--count'' \<in> set args then Some ''1''
      else if ''diff-tree'' \<in> set args then Some ''src/a.ts''
      else if ''--porcelain'' \<in> set args then Some []
      else Some (replicate 40 (CHR ''b'')))"

definition demo_evidence :: "int \<Rightarrow> js" where
  "demo_evidence code = plain [(''command'', Arr []), (''exitCode'', JInt code), (''stdout'', Str []), (''stderr'', Str []), (''timedOut'', Bool False)]"

definition demo_verifier :: verifier_ports where
  "demo_verifier = \<lparr> vp_git = demo_git, vp_realpath = Some, vp_directory = (\<lambda>p. True), vp_exists = (\<lambda>p. True),
     vp_runner = (\<lambda>ws c. Some (demo_evidence (if c = [''test''] then 0 else 1))),
     vp_conflict = (\<lambda>a r. Some (plain [(''hasConflict'', Bool False), (''existingResultId'', Null)])), vp_number = (\<lambda>s. if s = ''1'' then Fin 1 else NaN) \<rparr>"

definition demo_resources :: attempt_resources where
  "demo_resources = \<lparr> rs_attemptId = ''w/n/1'', rs_basePath = ''/b'', rs_workspacePath = ''/w'', rs_piRuntimeParent = ''/p'', rs_piSessionDir = ''/s'',
     rs_nonce = ''non'', rs_resultId = ''res'', rs_createdAt = 0 \<rparr>"

definition demo_verifier_job :: verifier_job where
  "demo_verifier_job = \<lparr> vj_nodeId = ''n'', vj_attemptId = ''w/n/1'', vj_allowedChangedPaths = [''src''], vj_fixtureTestCommand = [''test''],
     vj_expectedParentCommit = Some (replicate 40 (CHR ''a'')), vj_isolationProbes = None \<rparr>"

definition demo_process :: pi_process where
  "demo_process = \<lparr> pp_exitCode = Some 0, pp_nodeId = ''n'', pp_attemptId = ''w/n/1'', pp_attemptNonce = ''non'', pp_resultId = ''res'', pp_failureCode = None \<rparr>"

text \<open>The verdict of a good run is stored as passed with its commit.\<close>

lemma demo_evidence_holds: "evidence_holds demo_verifier demo_resources demo_verifier_job demo_process"
  unfolding all_checks_iff [symmetric] by code_simp

theorem verdict_is_recorded_witness:
  "\<exists>d' row. recordResult (\<lambda>a b. 0) sc_env (result_input demo_resources demo_verifier_job (hd APPROVED_MODELS) 1 2
        (verify demo_verifier demo_resources demo_verifier_job demo_process)) sc3 = (None, d')
    \<and> getProofResult ''w/n/1'' d' = Some row \<and> f_status row = ''passed''"
proof -
  obtain a where a: "get_attempt_row ''w/n/1'' sc3 = Some a" "a_node_id a = ''n''"
  proof -
    have "map_option a_node_id (get_attempt_row ''w/n/1'' sc3) = Some ''n''" by code_simp
    then show thesis using that by (auto simp del: t_get_None)
  qed
  obtain b where b: "t_get b_attempt_id ''w/n/1'' (attempt_routing_decisions sc3) = Some b" "b_builder_model b = hd APPROVED_MODELS"
  proof -
    have "map_option b_builder_model (t_get b_attempt_id ''w/n/1'' (attempt_routing_decisions sc3)) = Some (hd APPROVED_MODELS)" by code_simp
    then show thesis using that by (auto simp del: t_get_None)
  qed
  have ids: "vj_attemptId demo_verifier_job = ''w/n/1''" "vj_nodeId demo_verifier_job = ''n''" by code_simp+
  have side: "isApprovedModelId (Str (hd APPROVED_MODELS))" "isNonEmptyString (Str ''w/n/1'') (maxIdLength OL)" "isNonEmptyString (Str ''n'') (maxIdLength OL)"
    "isNonEmptyString (Str (rs_resultId demo_resources)) (maxResultIdLength OL)" "getProofResult ''w/n/1'' sc3 = None" "getProofChecks ''w/n/1'' sc3 = []"
    "storable_failure demo_process" "(1::int) \<le> 2" "env_begin_error sc_env = None" by code_simp+
  from verdict_is_recorded [of demo_verifier_job sc3 a b "hd APPROVED_MODELS" demo_resources demo_process 1 2 sc_env "\<lambda>a b. 0" demo_verifier]
  show ?thesis using a b ids side demo_evidence_holds by auto
qed

end
