(* ===== verification/Task_Manifest.thy ===== *)
theory Task_Manifest
  imports Sanitizer Pool_Proof
begin

text \<open>
  The validator of reviewed task manifests (\<^verbatim>\<open>composition/task-manifest.ts\<close>). A rejection
  is the reason it reports, with the code of its group. Parameters are the file system
  (\<open>realpath\<close>; \<open>directory\<close>, None when the path cannot be examined; \<open>read\<close>), \<open>parse\<close>, which
  is \<^verbatim>\<open>JSON.parse\<close>, and \<open>sha\<close>, the hex SHA-256 of a text.
\<close>

section \<open>Manifests and rejections\<close>

record task_criterion =
  tc_id :: string
  tc_text :: string

record task_manifest =
  tm_task_id :: string
  tm_target_repo_path :: string
  tm_base_commit :: string
  tm_intent :: string
  tm_change_spec :: string
  tm_acceptance_criteria :: "task_criterion list"
  tm_allowed_changed_paths :: "string list"
  tm_verification_commands :: "string list list"
  tm_model :: string
  tm_timeout :: int

datatype manifest_rejection =
    Manifest_not_object
  | Unknown_field string
  | Missing_field string
  | Not_a_string string
  | Not_an_array string
  | Bad_schema_version
  | Bad_task_id
  | Bad_text string
  | Bad_base_commit
  | Criteria_count | Criterion_shape | Criterion_fields | Criterion_bounds | Criterion_duplicate string
  | Path_count | Path_empty | Path_not_relative string | Path_parent string | Path_git string
  | Command_count | Argv_empty | Argv_too_long | Arg_empty | Arg_too_long | Arg_chars | Arg0_not_bare string
  | Model_not_approved
  | Bounds_not_object | Unknown_bounds_field string | Timeout_range
  | Repo_path_empty | Repo_path_not_absolute string | Repo_path_unresolvable string | Repo_path_not_directory string | Repo_path_not_statable string
  | Credential_like
  | Unreadable string | Invalid_json string

fun rejection_code :: "manifest_rejection \<Rightarrow> string" where
  "rejection_code Manifest_not_object = ''MANIFEST_NOT_OBJECT''"
| "rejection_code (Unknown_field f) = ''MANIFEST_UNKNOWN_FIELD''"
| "rejection_code (Missing_field f) = ''MANIFEST_MISSING_FIELD''"
| "rejection_code (Not_a_string f) = ''MANIFEST_FIELD_TYPE''"
| "rejection_code (Not_an_array f) = ''MANIFEST_FIELD_TYPE''"
| "rejection_code Bad_schema_version = ''MANIFEST_FIELD_TYPE''"
| "rejection_code Bad_task_id = ''TASK_ID_INVALID''"
| "rejection_code (Bad_text f) = ''TEXT_FIELD_INVALID''"
| "rejection_code Bad_base_commit = ''BASE_COMMIT_NOT_40HEX_SHA1''"
| "rejection_code Criteria_count = ''ACCEPTANCE_CRITERIA_INVALID''"
| "rejection_code Criterion_shape = ''ACCEPTANCE_CRITERIA_INVALID''"
| "rejection_code Criterion_fields = ''ACCEPTANCE_CRITERIA_INVALID''"
| "rejection_code Criterion_bounds = ''ACCEPTANCE_CRITERIA_INVALID''"
| "rejection_code (Criterion_duplicate i) = ''ACCEPTANCE_CRITERIA_INVALID''"
| "rejection_code Path_count = ''ALLOWED_PATH_COUNT_INVALID''"
| "rejection_code Path_empty = ''ALLOWED_PATH_EMPTY''"
| "rejection_code (Path_not_relative p) = ''ALLOWED_PATH_NOT_REPO_RELATIVE''"
| "rejection_code (Path_parent p) = ''ALLOWED_PATH_NOT_REPO_RELATIVE''"
| "rejection_code (Path_git p) = ''ALLOWED_PATH_GIT_PREFIX''"
| "rejection_code Command_count = ''VERIFICATION_COMMAND_COUNT_INVALID''"
| "rejection_code Argv_empty = ''VERIFICATION_ARGV_EMPTY''"
| "rejection_code Argv_too_long = ''VERIFICATION_ARGV_TOO_LONG''"
| "rejection_code Arg_empty = ''VERIFICATION_ARG_INVALID_CHARS''"
| "rejection_code Arg_too_long = ''VERIFICATION_ARG_TOO_LONG''"
| "rejection_code Arg_chars = ''VERIFICATION_ARG_INVALID_CHARS''"
| "rejection_code (Arg0_not_bare a) = ''VERIFICATION_ARG0_NOT_BARE''"
| "rejection_code Model_not_approved = ''MODEL_NOT_APPROVED''"
| "rejection_code Bounds_not_object = ''MANIFEST_FIELD_TYPE''"
| "rejection_code (Unknown_bounds_field f) = ''MANIFEST_UNKNOWN_FIELD''"
| "rejection_code Timeout_range = ''VERIFICATION_TIMEOUT_OUT_OF_RANGE''"
| "rejection_code (Repo_path_not_absolute p) = ''TARGET_REPO_PATH_NOT_ABSOLUTE''"
| "rejection_code Repo_path_empty = ''TARGET_REPO_PATH_UNRESOLVABLE''"
| "rejection_code (Repo_path_unresolvable p) = ''TARGET_REPO_PATH_UNRESOLVABLE''"
| "rejection_code (Repo_path_not_directory p) = ''TARGET_REPO_PATH_UNRESOLVABLE''"
| "rejection_code (Repo_path_not_statable p) = ''TARGET_REPO_PATH_UNRESOLVABLE''"
| "rejection_code Credential_like = ''CREDENTIAL_LIKE_VALUE''"
| "rejection_code (Unreadable p) = ''MANIFEST_UNREADABLE''"
| "rejection_code (Invalid_json p) = ''MANIFEST_INVALID_JSON''"

section \<open>Credential-like values\<close>

definition alnum :: "char \<Rightarrow> bool" where
  "alnum c = (word_char c \<and> c \<noteq> CHR ''_'')"

definition CREDENTIAL_PATTERNS :: "re list" where
  "CREDENTIAL_PATTERNS =
     [Seq (Word ''sk-'') (Rep 16 alnum),
      Seqs [Choice [Word ''ghp'', Word ''gho'', Word ''ghu'', Word ''ghs'', Word ''github_pat''], Lit (CHR ''_''), Rep 16 word_char],
      caseless (Seqs [Choice [Word ''MOONSHOT_API_KEY'', Word ''ZAI_API_KEY'', Word ''OPENAI_API_KEY'', Word ''GITHUB_TOKEN'', Word ''ANTHROPIC_API_KEY''],
         Rep 0 is_ws, Lit (CHR ''='')]),
      caseless (Seqs [Choice [hd api_key_names, Word ''token'', Word ''secret'', Word ''password'', Word ''credential'',
           Seqs [Word ''auth'', Opt (Cls (\<lambda>c. c \<in> {CHR ''_'', CHR ''-''})), Word ''token'']],
         Rep 1 (\<lambda>c. quote_char c \<or> is_ws c \<or> c = CHR '':'' \<or> c = CHR ''=''),
         Rep 8 (\<lambda>c. token_char c \<or> c \<in> {CHR ''.'', CHR ''/'', CHR ''+'', CHR ''=''})])]"

definition credential_text :: "string \<Rightarrow> bool" where
  "credential_text s = list_ex (\<lambda>r. re_test r s) CREDENTIAL_PATTERNS"

text \<open>A match is never empty, so the hit the source returns is its presence.\<close>

fun containsCredentialLikeValue :: "js \<Rightarrow> bool" where
  "containsCredentialLikeValue (Str s) = credential_text s"
| "containsCredentialLikeValue (Arr xs) = list_ex containsCredentialLikeValue xs"
| "containsCredentialLikeValue (Obj p fs) = list_ex (\<lambda>f. containsCredentialLikeValue (snd f)) fs"
| "containsCredentialLikeValue v = False"

section \<open>Parsing\<close>

definition MANIFEST_FIELDS :: "string list" where
  "MANIFEST_FIELDS = [''schema_version'', ''task_id'', ''target_repo_path'', ''base_commit'', ''intent'', ''change_spec'',
     ''acceptance_criteria'', ''allowed_changed_paths'', ''verification_commands'', ''model'', ''bounds'']"

definition MANIFEST_STRINGS :: "string list" where
  "MANIFEST_STRINGS = [''task_id'', ''target_repo_path'', ''base_commit'', ''intent'', ''change_spec'', ''model'']"

definition MANIFEST_ARRAYS :: "string list" where
  "MANIFEST_ARRAYS = [''acceptance_criteria'', ''allowed_changed_paths'', ''verification_commands'']"

definition between :: "nat \<Rightarrow> nat \<Rightarrow> nat \<Rightarrow> bool" where
  "between lo n hi = (lo \<le> n \<and> n \<le> hi)"

text \<open>\<^verbatim>\<open>/^[A-Za-z0-9][A-Za-z0-9._-]*$/\<close>, at most 128 characters.\<close>

definition task_id_ok :: "string \<Rightarrow> bool" where
  "task_id_ok s = (case s of [] \<Rightarrow> False | c # cs \<Rightarrow> alnum c \<and> list_all (\<lambda>d. token_char d \<or> d = CHR ''.'') cs \<and> length s \<le> 128)"

definition manifest_shape :: "js \<Rightarrow> manifest_rejection option" where
  "manifest_shape raw =
     (if \<not> is_object raw then Some Manifest_not_object
      else or_else (map_option Unknown_field (find (\<lambda>k. k \<notin> set MANIFEST_FIELDS) (Object_keys raw)))
       (or_else (map_option Missing_field (find (\<lambda>f. \<not> hasOwnField raw f) MANIFEST_FIELDS))
       (or_else (map_option Not_a_string (find (\<lambda>f. \<not> is_text (fld raw f)) MANIFEST_STRINGS))
       (or_else (map_option Not_an_array (find (\<lambda>f. \<not> is_array (fld raw f)) MANIFEST_ARRAYS))
        (first_error
          [(fld raw ''schema_version'' \<noteq> JInt 1, Bad_schema_version),
           (\<not> task_id_ok (js_str (fld raw ''task_id'')), Bad_task_id),
           (\<not> between 1 (length (js_str (fld raw ''intent''))) 2048, Bad_text ''intent''),
           (\<not> between 1 (length (js_str (fld raw ''change_spec''))) 8192, Bad_text ''change_spec''),
           (\<not> is_sha1_hex (js_str (fld raw ''base_commit'')), Bad_base_commit)])))))"

fun parse_criteria :: "string list \<Rightarrow> js list \<Rightarrow> manifest_rejection + task_criterion list" where
  "parse_criteria seen [] = Inr []"
| "parse_criteria seen (e # es) =
     (let i = fld e ''id''; t = fld e ''text'' in
      case first_error
        [(\<not> is_object e \<or> list_ex (\<lambda>k. k \<noteq> ''id'' \<and> k \<noteq> ''text'') (Object_keys e), Criterion_shape),
         (\<not> hasOwnField e ''id'' \<or> \<not> hasOwnField e ''text'', Criterion_fields),
         (\<not> isNonEmptyString i 128 \<or> \<not> isNonEmptyString t 1024, Criterion_bounds),
         (js_str i \<in> set seen, Criterion_duplicate (js_str i))] of
        Some r \<Rightarrow> Inl r
      | None \<Rightarrow> map_sum id (\<lambda>cs. \<lparr> tc_id = js_str i, tc_text = js_str t \<rparr> # cs) (parse_criteria (seen @ [js_str i]) es))"

definition path_error :: "js \<Rightarrow> manifest_rejection option" where
  "path_error v =
     (let p = js_str v; segments = split_on (\<lambda>c. c = CHR ''/'') p in
      first_error
        [(p = [], Path_empty),
         (512 < length p \<or> prefix ''/'' p, Path_not_relative p),
         (''..'' \<in> set segments, Path_parent p),
         (''.git'' \<in> set segments, Path_git p)])"

definition arg_error :: "js \<Rightarrow> manifest_rejection option" where
  "arg_error v =
     (let a = js_str v in
      first_error
        [(a = [], Arg_empty),
         (256 < length a, Arg_too_long),
         (CHR 0x00 \<in> set a \<or> CHR 0x0A \<in> set a \<or> CHR 0x0D \<in> set a, Arg_chars)])"

definition command_error :: "js \<Rightarrow> manifest_rejection option" where
  "command_error argv =
     or_else (first_error [(items argv = [], Argv_empty), (8 < length (items argv), Argv_too_long)])
       (or_else (first_some arg_error (items argv))
         (if CHR ''/'' \<in> set (js_str (hd (items argv))) then Some (Arg0_not_bare (js_str (hd (items argv)))) else None))"

definition lists_error :: "js \<Rightarrow> manifest_rejection option" where
  "lists_error raw =
     (let paths = items (fld raw ''allowed_changed_paths''); commands = items (fld raw ''verification_commands'') in
      or_else (first_error [(\<not> between 1 (length paths) 64, Path_count)])
       (or_else (first_some path_error paths)
       (or_else (first_error [(\<not> between 1 (length commands) 4, Command_count)])
                (first_some command_error commands))))"

definition bounds_error :: "js \<Rightarrow> manifest_rejection option" where
  "bounds_error raw =
     (let b = fld raw ''bounds''; t = fld b ''verification_timeout_seconds'' in
      or_else (first_error [(\<not> isApprovedModelId (fld raw ''model''), Model_not_approved), (\<not> is_object b, Bounds_not_object)])
       (or_else (map_option Unknown_bounds_field (find (\<lambda>k. k \<noteq> ''verification_timeout_seconds'') (Object_keys b)))
         (first_error [(\<not> isPositiveInteger t \<or> js_int t < 60 \<or> 900 < js_int t, Timeout_range)])))"

definition resolveTargetRepoPath :: "(string \<Rightarrow> string option) \<Rightarrow> (string \<Rightarrow> bool option) \<Rightarrow> js \<Rightarrow> manifest_rejection + string" where
  "resolveTargetRepoPath realpath directory v =
     (let p = js_str v in
      if p = [] then Inl Repo_path_empty
      else if \<not> absolute_path p then Inl (Repo_path_not_absolute p)
      else case realpath p of
        None \<Rightarrow> Inl (Repo_path_unresolvable p)
      | Some r \<Rightarrow> (case directory r of
            None \<Rightarrow> Inl (Repo_path_not_statable p) | Some False \<Rightarrow> Inl (Repo_path_not_directory p) | Some True \<Rightarrow> Inr r))"

definition parseTaskManifest :: "(string \<Rightarrow> string option) \<Rightarrow> (string \<Rightarrow> bool option) \<Rightarrow> js \<Rightarrow> manifest_rejection + task_manifest" where
  "parseTaskManifest realpath directory raw =
     (case manifest_shape raw of
        Some r \<Rightarrow> Inl r
      | None \<Rightarrow>
          if \<not> between 1 (length (items (fld raw ''acceptance_criteria''))) 8 then Inl Criteria_count
          else case parse_criteria [] (items (fld raw ''acceptance_criteria'')) of
            Inl r \<Rightarrow> Inl r
          | Inr criteria \<Rightarrow>
              (case or_else (lists_error raw) (bounds_error raw) of
                 Some r \<Rightarrow> Inl r
               | None \<Rightarrow>
                   (case resolveTargetRepoPath realpath directory (fld raw ''target_repo_path'') of
                      Inl r \<Rightarrow> Inl r
                    | Inr target \<Rightarrow>
                        if containsCredentialLikeValue raw then Inl Credential_like
                        else Inr \<lparr> tm_task_id = js_str (fld raw ''task_id''), tm_target_repo_path = target,
                          tm_base_commit = js_str (fld raw ''base_commit''), tm_intent = js_str (fld raw ''intent''),
                          tm_change_spec = js_str (fld raw ''change_spec''), tm_acceptance_criteria = criteria,
                          tm_allowed_changed_paths = map js_str (items (fld raw ''allowed_changed_paths'')),
                          tm_verification_commands = map (\<lambda>argv. map js_str (items argv)) (items (fld raw ''verification_commands'')),
                          tm_model = js_str (fld raw ''model''),
                          tm_timeout = js_int (fld (fld raw ''bounds'') ''verification_timeout_seconds'') \<rparr>)))"

definition loadTaskManifest ::
  "(string \<Rightarrow> string option) \<Rightarrow> (string \<Rightarrow> bool option) \<Rightarrow> (string \<Rightarrow> string option) \<Rightarrow> (string \<Rightarrow> js option) \<Rightarrow> (string \<Rightarrow> string)
    \<Rightarrow> string \<Rightarrow> manifest_rejection + task_manifest \<times> string" where
  "loadTaskManifest realpath directory read parse sha path =
     (case read path of
        None \<Rightarrow> Inl (Unreadable path)
      | Some bytes \<Rightarrow>
          (case parse bytes of
             None \<Rightarrow> Inl (Invalid_json path)
           | Some raw \<Rightarrow> map_sum id (\<lambda>m. (m, sha bytes)) (parseTaskManifest realpath directory raw)))"

end
