(* ===== verification/Task_Manifest_Properties.thy ===== *)
theory Task_Manifest_Properties
  imports Task_Manifest
begin

text \<open>
  The validator of task manifests is exact: it accepts a value if and only if the value is
  the rendering of a manifest within the bounds, for a repository path that resolves, and
  nothing in it looks like a credential.
\<close>

section \<open>What a manifest is\<close>

text \<open>An object with the given fields and no others.\<close>

definition has_fields :: "js \<Rightarrow> string list \<Rightarrow> bool" where
  "has_fields v ks \<longleftrightarrow> is_object v \<and> set (Object_keys v) = set ks"

definition renders_criterion :: "js \<Rightarrow> task_criterion \<Rightarrow> bool" where
  "renders_criterion e c \<longleftrightarrow> has_fields e [''id'', ''text''] \<and> fld e ''id'' = Str (tc_id c) \<and> fld e ''text'' = Str (tc_text c)"

definition renders_manifest :: "js \<Rightarrow> string \<Rightarrow> task_manifest \<Rightarrow> bool" where
  "renders_manifest raw path m \<longleftrightarrow> has_fields raw MANIFEST_FIELDS
     \<and> fld raw ''schema_version'' = JInt 1 \<and> fld raw ''task_id'' = Str (tm_task_id m) \<and> fld raw ''target_repo_path'' = Str path
     \<and> fld raw ''base_commit'' = Str (tm_base_commit m) \<and> fld raw ''intent'' = Str (tm_intent m)
     \<and> fld raw ''change_spec'' = Str (tm_change_spec m)
     \<and> (\<exists>es. fld raw ''acceptance_criteria'' = Arr es \<and> list_all2 renders_criterion es (tm_acceptance_criteria m))
     \<and> fld raw ''allowed_changed_paths'' = Arr (map Str (tm_allowed_changed_paths m))
     \<and> fld raw ''verification_commands'' = Arr (map (\<lambda>argv. Arr (map Str argv)) (tm_verification_commands m))
     \<and> fld raw ''model'' = Str (tm_model m)
     \<and> has_fields (fld raw ''bounds'') [''verification_timeout_seconds'']
     \<and> fld (fld raw ''bounds'') ''verification_timeout_seconds'' = JInt (tm_timeout m)"

definition bounded_criterion :: "task_criterion \<Rightarrow> bool" where
  "bounded_criterion c \<longleftrightarrow> between 1 (length (tc_id c)) 128 \<and> between 1 (length (tc_text c)) 1024"

definition repo_relative :: "string \<Rightarrow> bool" where
  "repo_relative p \<longleftrightarrow> p \<noteq> [] \<and> length p \<le> 512 \<and> \<not> absolute_path p
     \<and> (\<forall>s \<in> set (split_on (\<lambda>c. c = CHR ''/'') p). s \<noteq> ''..'' \<and> s \<noteq> ''.git'')"

definition safe_argument :: "string \<Rightarrow> bool" where
  "safe_argument a \<longleftrightarrow> between 1 (length a) 256 \<and> set a \<inter> {CHR 0x00, CHR 0x0A, CHR 0x0D} = {}"

definition safe_command :: "string list \<Rightarrow> bool" where
  "safe_command argv \<longleftrightarrow> between 1 (length argv) 8 \<and> (\<forall>a \<in> set argv. safe_argument a) \<and> CHR ''/'' \<notin> set (hd argv)"

definition bounded_manifest :: "task_manifest \<Rightarrow> bool" where
  "bounded_manifest m \<longleftrightarrow> task_id_ok (tm_task_id m) \<and> between 1 (length (tm_intent m)) 2048 \<and> between 1 (length (tm_change_spec m)) 8192
     \<and> is_sha1_hex (tm_base_commit m)
     \<and> between 1 (length (tm_acceptance_criteria m)) 8 \<and> (\<forall>c \<in> set (tm_acceptance_criteria m). bounded_criterion c)
     \<and> distinct (map tc_id (tm_acceptance_criteria m))
     \<and> between 1 (length (tm_allowed_changed_paths m)) 64 \<and> (\<forall>p \<in> set (tm_allowed_changed_paths m). repo_relative p)
     \<and> between 1 (length (tm_verification_commands m)) 4 \<and> (\<forall>a \<in> set (tm_verification_commands m). safe_command a)
     \<and> isApprovedModelId (Str (tm_model m)) \<and> 60 \<le> tm_timeout m \<and> tm_timeout m \<le> 900"

section \<open>The pieces\<close>

lemma find_None_subset: "find (\<lambda>k. k \<notin> set ks) xs = None \<longleftrightarrow> set xs \<subseteq> set ks"
  by (auto simp: find_None_iff)

lemma text_value: "is_text v \<longleftrightarrow> v = Str (js_str v)"
  by (cases v) (auto simp: is_text_def)

lemma array_value: "is_array v \<longleftrightarrow> v = Arr (items v)"
  by (cases v) auto

lemma js_str_nonempty: "js_str v \<noteq> [] \<Longrightarrow> v = Str (js_str v)"
  by (cases v) auto

lemma items_nonempty: "items v \<noteq> [] \<Longrightarrow> v = Arr (items v)"
  by (cases v) auto

lemma keys_exact: "find (\<lambda>k. k \<notin> set ks) (Object_keys v) = None \<and> find (\<lambda>f. \<not> hasOwnField v f) ks = None
    \<longleftrightarrow> set (Object_keys v) = set ks"
  by (auto simp: find_None_iff hasOwnField_def)

lemma manifest_shape_None:
  "manifest_shape raw = None \<longleftrightarrow> has_fields raw MANIFEST_FIELDS
     \<and> (\<forall>f \<in> set MANIFEST_STRINGS. fld raw f = Str (js_str (fld raw f)))
     \<and> (\<forall>f \<in> set MANIFEST_ARRAYS. fld raw f = Arr (items (fld raw f)))
     \<and> fld raw ''schema_version'' = JInt 1 \<and> task_id_ok (js_str (fld raw ''task_id''))
     \<and> between 1 (length (js_str (fld raw ''intent''))) 2048 \<and> between 1 (length (js_str (fld raw ''change_spec''))) 8192
     \<and> is_sha1_hex (js_str (fld raw ''base_commit''))"
proof -
  have strings: "find (\<lambda>f. \<not> is_text (fld raw f)) ks = None \<longleftrightarrow> (\<forall>f \<in> set ks. fld raw f = Str (js_str (fld raw f)))" for ks
    by (simp only: find_None_iff text_value) blast
  have arrays: "find (\<lambda>f. \<not> is_array (fld raw f)) ks = None \<longleftrightarrow> (\<forall>f \<in> set ks. fld raw f = Arr (items (fld raw f)))" for ks
    by (simp only: find_None_iff array_value) blast
  have "manifest_shape raw = None \<longleftrightarrow> is_object raw
     \<and> (find (\<lambda>k. k \<notin> set MANIFEST_FIELDS) (Object_keys raw) = None \<and> find (\<lambda>f. \<not> hasOwnField raw f) MANIFEST_FIELDS = None)
     \<and> find (\<lambda>f. \<not> is_text (fld raw f)) MANIFEST_STRINGS = None \<and> find (\<lambda>f. \<not> is_array (fld raw f)) MANIFEST_ARRAYS = None
     \<and> fld raw ''schema_version'' = JInt 1 \<and> task_id_ok (js_str (fld raw ''task_id''))
     \<and> between 1 (length (js_str (fld raw ''intent''))) 2048 \<and> between 1 (length (js_str (fld raw ''change_spec''))) 8192
     \<and> is_sha1_hex (js_str (fld raw ''base_commit''))"
    by (simp add: manifest_shape_def first_error_None)
  then show ?thesis unfolding keys_exact strings arrays has_fields_def by blast
qed

lemma parse_criteria_iff:
  "parse_criteria seen es = Inr cs \<longleftrightarrow> list_all2 renders_criterion es cs \<and> (\<forall>c \<in> set cs. bounded_criterion c)
     \<and> distinct (map tc_id cs) \<and> set (map tc_id cs) \<inter> set seen = {}"
proof (induction es arbitrary: seen cs)
  case Nil
  then show ?case by auto
next
  case (Cons e es)
  let ?c = "\<lparr> tc_id = js_str (fld e ''id''), tc_text = js_str (fld e ''text'') \<rparr>"
  define ok where "ok \<longleftrightarrow> has_fields e [''id'', ''text''] \<and> isNonEmptyString (fld e ''id'') 128 \<and> isNonEmptyString (fld e ''text'') 1024
    \<and> js_str (fld e ''id'') \<notin> set seen"
  have guards: "first_error [(\<not> is_object e \<or> list_ex (\<lambda>k. k \<noteq> ''id'' \<and> k \<noteq> ''text'') (Object_keys e), Criterion_shape),
         (\<not> hasOwnField e ''id'' \<or> \<not> hasOwnField e ''text'', Criterion_fields),
         (\<not> isNonEmptyString (fld e ''id'') 128 \<or> \<not> isNonEmptyString (fld e ''text'') 1024, Criterion_bounds),
         (js_str (fld e ''id'') \<in> set seen, Criterion_duplicate (js_str (fld e ''id'')))] = None \<longleftrightarrow> ok"
    unfolding first_error_None ok_def by (auto simp: has_fields_def hasOwnField_def list_ex_iff)
  have step: "parse_criteria seen (e # es) = Inr cs \<longleftrightarrow>
      ok \<and> (\<exists>cs'. cs = ?c # cs' \<and> parse_criteria (seen @ [js_str (fld e ''id'')]) es = Inr cs')"
    unfolding parse_criteria.simps Let_def using guards
    by (auto split: option.split sum.split simp: map_sum_def)
  have bounded: "isNonEmptyString v n \<longleftrightarrow> v = Str (js_str v) \<and> between 1 (length (js_str v)) n" for v n
    by (cases v) (auto simp: between_def Suc_le_eq)
  have head: "ok \<longleftrightarrow> renders_criterion e ?c \<and> bounded_criterion ?c \<and> tc_id ?c \<notin> set seen"
    by (auto simp: ok_def renders_criterion_def bounded_criterion_def bounded)
  have unique: "renders_criterion e c \<Longrightarrow> c = ?c" for c
    by (cases c) (simp add: renders_criterion_def)
  show ?case
  proof
    assume "parse_criteria seen (e # es) = Inr cs"
    then show "list_all2 renders_criterion (e # es) cs \<and> (\<forall>c \<in> set cs. bounded_criterion c) \<and> distinct (map tc_id cs)
        \<and> set (map tc_id cs) \<inter> set seen = {}"
      unfolding step head Cons.IH by (auto simp: disjoint_iff)
  next
    assume r: "list_all2 renders_criterion (e # es) cs \<and> (\<forall>c \<in> set cs. bounded_criterion c) \<and> distinct (map tc_id cs)
        \<and> set (map tc_id cs) \<inter> set seen = {}"
    then obtain c cs' where cs: "cs = c # cs'" "renders_criterion e c" by (auto simp: list_all2_Cons1)
    with unique have "c = ?c" by blast
    with r cs show "parse_criteria seen (e # es) = Inr cs" unfolding step head Cons.IH by (force simp: disjoint_iff)
  qed
qed

lemma path_error_None: "path_error v = None \<longleftrightarrow> (\<exists>p. v = Str p \<and> repo_relative p)"
proof -
  have "path_error v = None \<longleftrightarrow> repo_relative (js_str v)"
    by (simp add: path_error_def Let_def first_error_None repo_relative_def absolute_path_def not_less) blast
  also have "\<dots> \<longleftrightarrow> (\<exists>p. v = Str p \<and> repo_relative p)"
    by (cases v) (auto simp: repo_relative_def)
  finally show ?thesis .
qed

lemma arg_error_None: "arg_error v = None \<longleftrightarrow> (\<exists>a. v = Str a \<and> safe_argument a)"
proof -
  have "arg_error v = None \<longleftrightarrow> safe_argument (js_str v)"
    by (auto simp: arg_error_def Let_def first_error_None safe_argument_def between_def Suc_le_eq)
  also have "\<dots> \<longleftrightarrow> (\<exists>a. v = Str a \<and> safe_argument a)"
    by (cases v) (auto simp: safe_argument_def between_def)
  finally show ?thesis .
qed

text \<open>A list of values that are all the rendering of something is the rendering of a list.\<close>

lemma list_rendered: "(\<forall>v \<in> set vs. \<exists>x. v = f x \<and> P x) \<longleftrightarrow> (\<exists>xs. vs = map f xs \<and> (\<forall>x \<in> set xs. P x))"
proof
  assume "\<forall>v \<in> set vs. \<exists>x. v = f x \<and> P x"
  then obtain g where g: "\<forall>v \<in> set vs. v = f (g v) \<and> P (g v)" by metis
  then have "vs = map f (map g vs)" by (simp add: map_idI)
  then show "\<exists>xs. vs = map f xs \<and> (\<forall>x \<in> set xs. P x)" using g by (metis (no_types, lifting) imageE set_map)
qed (auto; blast)

lemma map_Str_eq [simp]: "map Str xs = map Str ys \<longleftrightarrow> xs = ys"
  by (rule inj_map_eq_map) (simp add: inj_def)

lemma map_js_str_o [simp]: "map (js_str \<circ> Str) ss = ss"
  by (induction ss) auto

lemma hd_map_Str: "between 1 (length argv) n \<Longrightarrow> js_str (hd (map Str argv)) = hd argv"
  by (cases argv) (auto simp: between_def)

lemma map_js_str_Str [simp]: "map js_str (map Str ss) = ss"
  by (induction ss) auto

lemma command_error_None: "command_error v = None \<longleftrightarrow> (\<exists>argv. v = Arr (map Str argv) \<and> safe_command argv)"
proof -
  have "command_error v = None \<longleftrightarrow> between 1 (length (items v)) 8 \<and> (\<forall>a \<in> set (items v). \<exists>s. a = Str s \<and> safe_argument s)
      \<and> CHR ''/'' \<notin> set (js_str (hd (items v)))"
    by (auto simp: command_error_def first_error_None between_def Suc_le_eq arg_error_None split: if_splits)
  also have "\<dots> \<longleftrightarrow> (\<exists>argv. items v = map Str argv \<and> safe_command argv)"
    unfolding list_rendered safe_command_def using hd_map_Str by fastforce
  also have "\<dots> \<longleftrightarrow> (\<exists>argv. v = Arr (map Str argv) \<and> safe_command argv)"
    by (cases v) (auto simp: safe_command_def between_def)
  finally show ?thesis .
qed

lemma lists_error_None:
  "lists_error raw = None \<longleftrightarrow>
     (\<exists>ps. items (fld raw ''allowed_changed_paths'') = map Str ps \<and> between 1 (length ps) 64 \<and> (\<forall>p \<in> set ps. repo_relative p))
   \<and> (\<exists>cs. items (fld raw ''verification_commands'') = map (\<lambda>argv. Arr (map Str argv)) cs \<and> between 1 (length cs) 4
        \<and> (\<forall>a \<in> set cs. safe_command a))"
proof -
  have "lists_error raw = None \<longleftrightarrow>
      between 1 (length (items (fld raw ''allowed_changed_paths''))) 64
      \<and> (\<forall>v \<in> set (items (fld raw ''allowed_changed_paths'')). \<exists>p. v = Str p \<and> repo_relative p)
      \<and> between 1 (length (items (fld raw ''verification_commands''))) 4
      \<and> (\<forall>v \<in> set (items (fld raw ''verification_commands'')). \<exists>argv. v = Arr (map Str argv) \<and> safe_command argv)"
    by (simp add: lists_error_def Let_def path_error_None command_error_None)
  then show ?thesis unfolding list_rendered by auto
qed

lemma bounds_error_None:
  "bounds_error raw = None \<longleftrightarrow> isApprovedModelId (fld raw ''model'') \<and> has_fields (fld raw ''bounds'') [''verification_timeout_seconds'']
     \<and> (\<exists>t. fld (fld raw ''bounds'') ''verification_timeout_seconds'' = JInt t \<and> 60 \<le> t \<and> t \<le> 900)"
proof -
  let ?b = "fld raw ''bounds''"
  let ?t = "fld ?b ''verification_timeout_seconds''"
  have time: "isPositiveInteger ?t \<and> \<not> js_int ?t < 60 \<and> \<not> 900 < js_int ?t \<longleftrightarrow> (\<exists>t. ?t = JInt t \<and> 60 \<le> t \<and> t \<le> 900)"
    using isPositiveIntegerD [of ?t] by auto
  have present: "?t \<noteq> Undefined \<Longrightarrow> ''verification_timeout_seconds'' \<in> set (Object_keys ?b)"
    by (cases ?b) (force split: option.splits dest: map_of_SomeD)+
  have "bounds_error raw = None \<longleftrightarrow> isApprovedModelId (fld raw ''model'') \<and> is_object ?b
      \<and> set (Object_keys ?b) \<subseteq> {''verification_timeout_seconds''} \<and> (\<exists>t. ?t = JInt t \<and> 60 \<le> t \<and> t \<le> 900)"
    unfolding time [symmetric] by (auto simp: bounds_error_def Let_def find_None_iff)
  then show ?thesis using present unfolding has_fields_def by auto
qed

lemma resolve_iff:
  "resolveTargetRepoPath realpath directory v = Inr r \<longleftrightarrow> absolute_path (js_str v) \<and> realpath (js_str v) = Some r \<and> directory r = Some True"
  by (auto simp: resolveTargetRepoPath_def Let_def absolute_path_def split: option.splits bool.splits if_splits)

section \<open>Exactness\<close>

text \<open>The manifest that the fields of a value spell.\<close>

definition spelled :: "js \<Rightarrow> string \<Rightarrow> task_criterion list \<Rightarrow> task_manifest" where
  "spelled raw target cs = \<lparr> tm_task_id = js_str (fld raw ''task_id''), tm_target_repo_path = target,
     tm_base_commit = js_str (fld raw ''base_commit''), tm_intent = js_str (fld raw ''intent''),
     tm_change_spec = js_str (fld raw ''change_spec''), tm_acceptance_criteria = cs,
     tm_allowed_changed_paths = map js_str (items (fld raw ''allowed_changed_paths'')),
     tm_verification_commands = map (\<lambda>argv. map js_str (items argv)) (items (fld raw ''verification_commands'')),
     tm_model = js_str (fld raw ''model''),
     tm_timeout = js_int (fld (fld raw ''bounds'') ''verification_timeout_seconds'') \<rparr>"

lemma accepted_iff:
  "parseTaskManifest realpath directory raw = Inr m \<longleftrightarrow>
     (\<exists>cs target. manifest_shape raw = None \<and> between 1 (length (items (fld raw ''acceptance_criteria''))) 8
        \<and> parse_criteria [] (items (fld raw ''acceptance_criteria'')) = Inr cs \<and> lists_error raw = None \<and> bounds_error raw = None
        \<and> resolveTargetRepoPath realpath directory (fld raw ''target_repo_path'') = Inr target
        \<and> \<not> containsCredentialLikeValue raw \<and> m = spelled raw target cs)"
  unfolding parseTaskManifest_def spelled_def
  by (auto split: option.splits sum.splits if_splits)

lemma spelled_commands:
  "items (fld raw ''verification_commands'') = map (\<lambda>argv. Arr (map Str argv)) cmds \<Longrightarrow>
    map (\<lambda>argv. map js_str (items argv)) (items (fld raw ''verification_commands'')) = cmds"
  by (simp add: o_def map_idI)

lemma spelled_rendered:
  assumes "manifest_shape raw = None" "parse_criteria [] (items (fld raw ''acceptance_criteria'')) = Inr cs"
    "lists_error raw = None" "bounds_error raw = None"
  shows "renders_manifest raw (js_str (fld raw ''target_repo_path'')) (spelled raw target cs)"
proof -
  note shape = assms(1) [unfolded manifest_shape_None]
  have strings: "fld raw f = Str (js_str (fld raw f))" if "f \<in> set MANIFEST_STRINGS" for f
    using shape that by blast
  have arrays: "fld raw f = Arr (items (fld raw f))" if "f \<in> set MANIFEST_ARRAYS" for f
    using shape that by blast
  obtain ps cmds where lists: "items (fld raw ''allowed_changed_paths'') = map Str ps"
      "items (fld raw ''verification_commands'') = map (\<lambda>argv. Arr (map Str argv)) cmds"
    using assms(3) unfolding lists_error_None by blast
  have "\<exists>es. fld raw ''acceptance_criteria'' = Arr es \<and> list_all2 renders_criterion es cs"
    using arrays [of "''acceptance_criteria''"] assms(2) unfolding parse_criteria_iff by (auto simp: MANIFEST_ARRAYS_def)
  moreover have "fld raw ''allowed_changed_paths'' = Arr (map Str (map js_str (items (fld raw ''allowed_changed_paths''))))"
    using arrays [of "''allowed_changed_paths''"] unfolding lists(1) by (simp add: MANIFEST_ARRAYS_def)
  moreover have "fld raw ''verification_commands'' = Arr (map (\<lambda>argv. Arr (map Str argv)) cmds)"
    using arrays [of "''verification_commands''"] unfolding lists(2) by (simp add: MANIFEST_ARRAYS_def)
  moreover have "fld (fld raw ''bounds'') ''verification_timeout_seconds'' = JInt (js_int (fld (fld raw ''bounds'') ''verification_timeout_seconds''))"
    "has_fields (fld raw ''bounds'') [''verification_timeout_seconds'']"
    using assms(4) unfolding bounds_error_None by auto
  moreover have "has_fields raw MANIFEST_FIELDS" "fld raw ''schema_version'' = JInt 1" using shape by blast+
  ultimately show ?thesis
    unfolding renders_manifest_def spelled_def task_manifest.simps spelled_commands [OF lists(2)]
    by (intro conjI) (assumption | (rule strings, simp add: MANIFEST_STRINGS_def))+
qed

lemma spelled_bounded:
  assumes "manifest_shape raw = None" "between 1 (length (items (fld raw ''acceptance_criteria''))) 8"
    "parse_criteria [] (items (fld raw ''acceptance_criteria'')) = Inr cs" "lists_error raw = None" "bounds_error raw = None"
  shows "bounded_manifest (spelled raw target cs)"
proof -
  obtain ps cmds where lists: "items (fld raw ''allowed_changed_paths'') = map Str ps" "between 1 (length ps) 64" "\<forall>p \<in> set ps. repo_relative p"
      "items (fld raw ''verification_commands'') = map (\<lambda>argv. Arr (map Str argv)) cmds" "between 1 (length cmds) 4" "\<forall>c \<in> set cmds. safe_command c"
    using assms(4) unfolding lists_error_None by blast
  note criteria = assms(3) [unfolded parse_criteria_iff]
  have model: "isApprovedModelId (Str (js_str (fld raw ''model'')))"
    using assms(1,5) unfolding manifest_shape_None bounds_error_None MANIFEST_STRINGS_def by simp
  show ?thesis
    unfolding bounded_manifest_def spelled_def task_manifest.simps spelled_commands [OF lists(4)] lists(1) map_js_str_Str
    using assms(1,2,5) criteria lists(2,3,5,6) model list_all2_lengthD [OF conjunct1 [OF criteria]]
    unfolding manifest_shape_None bounds_error_None by auto
qed

lemma rendered_parses:
  assumes r: "renders_manifest raw path m" and b: "bounded_manifest m"
  shows "manifest_shape raw = None" "between 1 (length (items (fld raw ''acceptance_criteria''))) 8"
    "parse_criteria [] (items (fld raw ''acceptance_criteria'')) = Inr (tm_acceptance_criteria m)"
    "lists_error raw = None" "bounds_error raw = None" "m = spelled raw (tm_target_repo_path m) (tm_acceptance_criteria m)"
proof -
  note f = r [unfolded renders_manifest_def] and g = b [unfolded bounded_manifest_def]
  obtain es where es: "fld raw ''acceptance_criteria'' = Arr es" "list_all2 renders_criterion es (tm_acceptance_criteria m)" using f by blast
  show "manifest_shape raw = None"
    unfolding manifest_shape_None MANIFEST_STRINGS_def MANIFEST_ARRAYS_def using f g es by simp
  show "between 1 (length (items (fld raw ''acceptance_criteria''))) 8" using g list_all2_lengthD [OF es(2)] es(1) by simp
  show "parse_criteria [] (items (fld raw ''acceptance_criteria'')) = Inr (tm_acceptance_criteria m)"
    unfolding parse_criteria_iff using g es by simp
  show "lists_error raw = None" unfolding lists_error_None using f g by auto
  show "bounds_error raw = None" unfolding bounds_error_None using f g by auto
  show "m = spelled raw (tm_target_repo_path m) (tm_acceptance_criteria m)" using f by (simp add: spelled_def o_def)
qed

text \<open>
  C32. The manifest validator is exact: it returns a manifest if and only if the value has
  exactly the eleven fields of a manifest, each the rendering of the manifest's, all bounds
  hold (identifier, texts, commit digest, criteria with distinct ids, repository-relative
  paths without dot-dot or .git segments, bare commands without control characters, an
  approved model, a timeout of 60 to 900 seconds), its absolute target path resolves to the
  returned directory, and no text of the value matches a credential pattern.
\<close>
theorem manifest_validation_exact:
  "parseTaskManifest realpath directory raw = Inr m \<longleftrightarrow>
     (\<exists>path. renders_manifest raw path m \<and> bounded_manifest m \<and> absolute_path path \<and> realpath path = Some (tm_target_repo_path m)
        \<and> directory (tm_target_repo_path m) = Some True \<and> \<not> containsCredentialLikeValue raw)"
proof
  assume "parseTaskManifest realpath directory raw = Inr m"
  then obtain cs target where a: "manifest_shape raw = None" "between 1 (length (items (fld raw ''acceptance_criteria''))) 8"
      "parse_criteria [] (items (fld raw ''acceptance_criteria'')) = Inr cs" "lists_error raw = None" "bounds_error raw = None"
      "resolveTargetRepoPath realpath directory (fld raw ''target_repo_path'') = Inr target" "\<not> containsCredentialLikeValue raw"
    and m: "m = spelled raw target cs"
    unfolding accepted_iff by blast
  have "tm_target_repo_path m = target" unfolding m by (simp add: spelled_def)
  then show "\<exists>path. renders_manifest raw path m \<and> bounded_manifest m \<and> absolute_path path \<and> realpath path = Some (tm_target_repo_path m)
        \<and> directory (tm_target_repo_path m) = Some True \<and> \<not> containsCredentialLikeValue raw"
    using spelled_rendered [OF a(1,3,4,5), of target] spelled_bounded [OF a(1-5), of target] a(6,7)
    unfolding m [symmetric] resolve_iff by blast
next
  assume "\<exists>path. renders_manifest raw path m \<and> bounded_manifest m \<and> absolute_path path \<and> realpath path = Some (tm_target_repo_path m)
        \<and> directory (tm_target_repo_path m) = Some True \<and> \<not> containsCredentialLikeValue raw"
  then obtain path where r: "renders_manifest raw path m" "bounded_manifest m" and p: "absolute_path path" "realpath path = Some (tm_target_repo_path m)"
      "directory (tm_target_repo_path m) = Some True" "\<not> containsCredentialLikeValue raw"
    by blast
  have "resolveTargetRepoPath realpath directory (fld raw ''target_repo_path'') = Inr (tm_target_repo_path m)"
    unfolding resolve_iff using r(1) p by (simp add: renders_manifest_def)
  then show "parseTaskManifest realpath directory raw = Inr m"
    unfolding accepted_iff using rendered_parses [OF r] p(4) by blast
qed

section \<open>Examples\<close>

definition demo_manifest :: "string \<Rightarrow> string list \<Rightarrow> js" where
  "demo_manifest intent paths = plain
     [(''schema_version'', JInt 1), (''task_id'', Str ''t-1''), (''target_repo_path'', Str ''/repo''), (''base_commit'', Str (replicate 40 (CHR ''a''))),
      (''intent'', Str intent), (''change_spec'', Str ''add a test''),
      (''acceptance_criteria'', Arr [plain [(''id'', Str ''ac-1''), (''text'', Str ''the test passes'')]]),
      (''allowed_changed_paths'', Arr (map Str paths)),
      (''verification_commands'', Arr [Arr [Str ''npm'', Str ''test'']]), (''model'', Str (hd APPROVED_MODELS)),
      (''bounds'', plain [(''verification_timeout_seconds'', JInt 300)])]"

definition demo_parse :: "js \<Rightarrow> manifest_rejection + task_manifest" where
  "demo_parse = parseTaskManifest Some (\<lambda>p. Some True)"

lemma demo_manifest_accepted:
  "case demo_parse (demo_manifest ''add a test'' [''src'']) of Inr m \<Rightarrow> tm_task_id m = ''t-1'' \<and> tm_timeout m = 300 | Inl r \<Rightarrow> False"
  by code_simp

text \<open>
  The fourth credential pattern takes white space for a separator, so ordinary prose is
  refused as a credential.
\<close>

lemma prose_is_credential_like: "demo_parse (demo_manifest ''fix token validation'' [''src'']) = Inl Credential_like"
  by code_simp

text \<open>
  A directory written with a trailing slash, or with a leading dot, is a valid allowed path,
  but the verifier admits no file below it.
\<close>

lemma accepted_path_admits_nothing:
  "list_all (\<lambda>p. (case demo_parse (demo_manifest ''add a test'' [p]) of
       Inr m \<Rightarrow> \<not> checkAllowedPaths [''src/a.ts''] (tm_allowed_changed_paths m) | Inl r \<Rightarrow> False)) [''src/'', ''./src'']"
  by code_simp

end
