(* ===== verification/Credential_Isolation.thy ===== *)
theory Credential_Isolation
  imports Path_Properties Attempt_Contract
begin

text \<open>
  The environments of untrusted repository commands and of trusted operations
  (\<^verbatim>\<open>agent-execution/credential-isolation.ts\<close>), and what they let through.

  The environment that is copied from is a map from names to values; the one that is built
  is the list of its variables in the order of insertion. Home and root come from the caller
  as arbitrary values.
\<close>

section \<open>Credential names\<close>

definition REPOSITORY_COMMAND_ALLOWLIST :: "string list" where
  "REPOSITORY_COMMAND_ALLOWLIST = [''PATH'', ''LANG'', ''LC_ALL'', ''TZ'', ''SHELL'', ''TERM'', ''CI'', ''NODE_ENV'', ''NO_COLOR'']"

definition HOME_SCOPED_VARIABLES :: "string list" where
  "HOME_SCOPED_VARIABLES = [''HOME'', ''XDG_CONFIG_HOME'', ''XDG_CACHE_HOME'', ''XDG_DATA_HOME'', ''TMPDIR'']"

definition SECRET_NAME_FRAGMENTS :: "string list" where
  "SECRET_NAME_FRAGMENTS = [''TOKEN'', ''SECRET'', ''PASSWORD'', ''PASSWD'', ''CREDENTIAL'', ''PRIVATE_KEY'', ''APIKEY'', ''API_KEY'',
     ''ACCESS_KEY'', ''SESSION'', ''COOKIE'', ''BEARER'', ''SIGNATURE'', ''AUTH'']"

definition SECRET_NAME_PREFIXES :: "string list" where
  "SECRET_NAME_PREFIXES = [''GITHUB_'', ''GH_'', ''GITLAB_'', ''OPENAI_'', ''ANTHROPIC_'', ''MOONSHOT_'', ''AWS_'', ''AZURE_'',
     ''GOOGLE_'', ''GCP_'', ''NPM_'', ''PI_'', ''AGENT_POOL_PROVIDER_'']"

definition SECRET_NAME_EXACT :: "string list" where
  "SECRET_NAME_EXACT = [''SSH_AUTH_SOCK'', ''NETRC'', ''GIT_ASKPASS'', ''GIT_SSH_COMMAND'']"

text \<open>
  \<^verbatim>\<open>toUpperCase\<close> on the modelled code units; sharp s becomes two letters. The two Latin-1
  letters whose capital lies outside the modelled units stay as they are: no name that is
  looked for contains either.
\<close>

definition upper_char :: "char \<Rightarrow> string" where
  "upper_char c = (let n = of_char c :: nat in
     if (97 \<le> n \<and> n \<le> 122) \<or> (224 \<le> n \<and> n \<le> 254 \<and> n \<noteq> 247) then [char_of (n - 32)]
     else if n = 223 then ''SS'' else [c])"

definition toUpperCase :: "string \<Rightarrow> string" where
  "toUpperCase s = concat (map upper_char s)"

definition isCredentialVariableName :: "string \<Rightarrow> bool" where
  "isCredentialVariableName name =
     (let upper = toUpperCase name in
      upper \<in> set SECRET_NAME_EXACT
      \<or> list_ex (\<lambda>p. prefix p upper) SECRET_NAME_PREFIXES
      \<or> list_ex (\<lambda>f. sublist f upper) SECRET_NAME_FRAGMENTS)"

section \<open>Absolute paths\<close>

text \<open>\<^verbatim>\<open>path.resolve\<close> and \<^verbatim>\<open>path.relative\<close> of POSIX, for absolute paths.\<close>

definition abs_segments :: "string \<Rightarrow> string list" where
  "abs_segments p = norm_segments True [] (split_char (CHR ''/'') p)"

definition path_resolve :: "string \<Rightarrow> string" where
  "path_resolve p = ''/'' @ join_with ''/'' (abs_segments p)"

fun relative_segments :: "string list \<Rightarrow> string list \<Rightarrow> string list" where
  "relative_segments [] ts = ts"
| "relative_segments (f # fs) [] = replicate (length (f # fs)) ''..''"
| "relative_segments (f # fs) (t # ts) =
     (if f = t then relative_segments fs ts else replicate (length (f # fs)) ''..'' @ t # ts)"

definition path_relative :: "string \<Rightarrow> string \<Rightarrow> string" where
  "path_relative from_path to_path = join_with ''/'' (relative_segments (abs_segments from_path) (abs_segments to_path))"

definition is_absolute :: "string \<Rightarrow> bool" where
  "is_absolute p = prefix ''/'' p"

section \<open>Environments\<close>

type_synonym environ = "(string \<times> string) list"

text \<open>\<^verbatim>\<open>env[name] = value\<close>: an existing variable keeps its position.\<close>

fun put_var :: "string \<Rightarrow> string \<Rightarrow> environ \<Rightarrow> environ" where
  "put_var k v [] = [(k, v)]"
| "put_var k v (f # fs) = (if fst f = k then (k, v) # fs else f # put_var k v fs)"

definition put_vars :: "(string \<times> string) list \<Rightarrow> environ \<Rightarrow> environ" where
  "put_vars vs env = fold (\<lambda>(k, v). put_var k v) vs env"

definition copy_vars :: "(string \<Rightarrow> string option) \<Rightarrow> string list \<Rightarrow> environ \<Rightarrow> environ" where
  "copy_vars source names env = fold (\<lambda>name env. case source name of Some v \<Rightarrow> put_var name v env | None \<Rightarrow> env) names env"

definition pinned_variables :: "string \<Rightarrow> (string \<times> string) list" where
  "pinned_variables home = [(''HOME'', home), (''XDG_CONFIG_HOME'', home @ ''/.config''), (''XDG_CACHE_HOME'', home @ ''/.cache''),
     (''XDG_DATA_HOME'', home @ ''/.local/share''), (''TMPDIR'', home @ ''/.tmp''), (''GIT_CONFIG_GLOBAL'', home @ ''/.gitconfig''),
     (''GIT_CONFIG_SYSTEM'', ''/dev/null'')]"

definition denied :: "string \<Rightarrow> execution_failure" where
  "denied detail = createExecutionFailure ''CAPABILITY_DENIED'' (Some detail)"

definition name_error :: "string \<Rightarrow> execution_failure option" where
  "name_error name =
     first_error [(isCredentialVariableName name, denied (''credential-bearing variable requested: '' @ name)),
       (toUpperCase name \<in> set HOME_SCOPED_VARIABLES, denied (''home-scoped variable is not caller-supplied: '' @ name))]"

definition home_error :: "js \<Rightarrow> js \<Rightarrow> execution_failure option" where
  "home_error workspaceHome workspaceRoot =
     (let bad = denied ''a workspace-scoped absolute home directory is required'' in
      case (workspaceHome, workspaceRoot) of
        (Str home, Str top_dir) \<Rightarrow>
          if \<not> is_absolute home \<or> \<not> is_absolute top_dir then Some bad
          else let rel = path_relative top_dir home in
            if rel = [] \<or> rel = ''..'' \<or> prefix ''../'' rel \<or> is_absolute rel then Some bad else None
      | _ \<Rightarrow> Some bad)"

definition buildRepositoryCommandEnv ::
  "(string \<Rightarrow> string option) \<Rightarrow> js \<Rightarrow> js \<Rightarrow> string list \<Rightarrow> execution_failure + environ" where
  "buildRepositoryCommandEnv sourceEnv workspaceHome workspaceRoot additionalAllowed =
     (case home_error workspaceHome workspaceRoot of
        Some f \<Rightarrow> Inl f
      | None \<Rightarrow>
          let allowed = REPOSITORY_COMMAND_ALLOWLIST @ additionalAllowed in
          (case first_some name_error allowed of
             Some f \<Rightarrow> Inl f
           | None \<Rightarrow> Inr (put_vars (pinned_variables (path_resolve (js_str workspaceHome))) (copy_vars sourceEnv allowed []))))"

definition TRUSTED_OPERATION_CREDENTIALS :: "(string \<times> string list) list" where
  "TRUSTED_OPERATION_CREDENTIALS = [(''model-call'', [''OPENAI_API_KEY'', ''MOONSHOT_API_KEY'']), (''github-delivery'', [''GITHUB_TOKEN''])]"

definition buildTrustedOperationEnv ::
  "(string \<Rightarrow> string option) \<Rightarrow> string \<Rightarrow> js \<Rightarrow> js \<Rightarrow> string list \<Rightarrow> execution_failure + environ" where
  "buildTrustedOperationEnv sourceEnv operation workspaceHome workspaceRoot additionalAllowed =
     (case map_of TRUSTED_OPERATION_CREDENTIALS operation of
        None \<Rightarrow> Inl (denied ''unknown trusted operation'')
      | Some permitted \<Rightarrow>
          (case buildRepositoryCommandEnv sourceEnv workspaceHome workspaceRoot additionalAllowed of
             Inl f \<Rightarrow> Inl f
           | Inr env \<Rightarrow> Inr (copy_vars sourceEnv permitted env)))"

definition assertNoCredentials :: "environ \<Rightarrow> execution_failure option" where
  "assertNoCredentials env =
     map_option (\<lambda>name. denied (''credential variable present: '' @ name)) (find isCredentialVariableName (map fst env))"

section \<open>Look-ups\<close>

lemma map_of_put_var [simp]: "map_of (put_var k v env) = (map_of env)(k \<mapsto> v)"
  by (induction env) (auto simp: fun_eq_iff)

lemma map_of_put_vars: "distinct (map fst vs) \<Longrightarrow> map_of (put_vars vs env) = map_of env ++ map_of vs"
proof (induction vs arbitrary: env)
  case (Cons f vs)
  obtain k v where f: "f = (k, v)" by (cases f)
  have "map_of (put_vars (f # vs) env) = map_of (put_vars vs (put_var k v env))" by (simp add: put_vars_def f)
  also have "\<dots> = (map_of env)(k \<mapsto> v) ++ map_of vs" using Cons by simp
  also have "\<dots> = map_of env ++ map_of (f # vs)"
  proof -
    have "map_of vs k = None" using Cons.prems f by (simp add: map_of_eq_None_iff)
    then show ?thesis by (auto simp: fun_eq_iff map_add_def f split: option.splits)
  qed
  finally show ?case .
qed (simp add: put_vars_def)

lemma map_of_copy_vars: "map_of (copy_vars source names env) = (\<lambda>k. if k \<in> set names \<and> source k \<noteq> None then source k else map_of env k)"
proof (induction names arbitrary: env)
  case (Cons n names)
  have "copy_vars source (n # names) env =
      copy_vars source names (case source n of Some v \<Rightarrow> put_var n v env | None \<Rightarrow> env)"
    by (simp add: copy_vars_def)
  then show ?case using Cons by (auto simp: fun_eq_iff split: option.splits)
qed (simp add: copy_vars_def fun_eq_iff)

lemma assertNoCredentials_None: "assertNoCredentials env = None \<longleftrightarrow> (\<forall>k. map_of env k \<noteq> None \<longrightarrow> \<not> isCredentialVariableName k)"
  by (auto simp: assertNoCredentials_def find_None_iff map_of_eq_None_iff rev_image_eqI)

section \<open>The home directory\<close>

lemma norm_absolute_plain: "''..'' \<notin> set ds \<Longrightarrow> ''..'' \<notin> set (norm_segments True ds ss)"
  by (induction True ds ss rule: norm_segments.induct) (auto split: list.splits if_splits)

lemma abs_segments_plain: "list_all plain_segment (abs_segments p)"
proof -
  have "set (abs_segments p) \<subseteq> {s \<in> set (split_char (CHR ''/'') p). s \<noteq> [] \<and> s \<noteq> ''.''}"
    using norm_segments_subset [of True "[]" "split_char (CHR ''/'') p"] by (simp add: abs_segments_def)
  then show ?thesis
    using norm_absolute_plain [of "[]" "split_char (CHR ''/'') p"] split_char_free
    by (fastforce simp: list_all_iff plain_segment_def abs_segments_def)
qed

lemma relative_segments_cases:
  "(\<exists>rest. ts = fs @ rest \<and> relative_segments fs ts = rest) \<or> (\<not> prefix fs ts \<and> (\<exists>rest. relative_segments fs ts = ''..'' # rest))"
  by (induction fs ts rule: relative_segments.induct) auto

lemma join_Cons: "join_with sep (x # xs) = x @ (if xs = [] then [] else sep @ join_with sep xs)"
  by (cases xs) auto

lemma plain_relative:
  assumes "plain_segment s"
  shows "join_with ''/'' (s # us) \<noteq> []" "join_with ''/'' (s # us) \<noteq> ''..''"
    "\<not> prefix ''../'' (join_with ''/'' (s # us))" "\<not> is_absolute (join_with ''/'' (s # us))"
proof -
  have s: "s \<noteq> []" "s \<noteq> ''..''" "CHR ''/'' \<notin> set s" using assms by (auto simp: plain_segment_def)
  show "join_with ''/'' (s # us) \<noteq> []" "\<not> is_absolute (join_with ''/'' (s # us))"
    unfolding join_Cons using s by (cases s; auto simp: is_absolute_def)+
  show "join_with ''/'' (s # us) \<noteq> ''..''"
    unfolding join_Cons using s(2) by (cases "us = []") (auto dest!: arg_cong [where f = set])
  show "\<not> prefix ''../'' (join_with ''/'' (s # us))"
  proof
    assume "prefix ''../'' (join_with ''/'' (s # us))"
    then obtain t where t: "s @ (if us = [] then [] else ''/'' @ join_with ''/'' us) = ''..'' @ CHR ''/'' # t"
      unfolding join_Cons by (auto simp: prefix_def)
    have "us \<noteq> []" using t s(3) by (cases "us = []") auto
    then have "s @ CHR ''/'' # join_with ''/'' us = ''..'' @ CHR ''/'' # t" using t by simp
    then show False using s(2,3) append_sep_inject [of "CHR ''/''" s "''..''"] by simp
  qed
qed

lemma inside_iff:
  "(let rel = path_relative top_dir home in rel \<noteq> [] \<and> rel \<noteq> ''..'' \<and> \<not> prefix ''../'' rel \<and> \<not> is_absolute rel)
    \<longleftrightarrow> strict_prefix (abs_segments top_dir) (abs_segments home)"
proof -
  let ?fs = "abs_segments top_dir" and ?ts = "abs_segments home"
  from relative_segments_cases [of ?ts ?fs] show ?thesis
  proof (elim disjE exE conjE)
    fix rest assume r: "?ts = ?fs @ rest" "relative_segments ?fs ?ts = rest"
    show ?thesis
    proof (cases rest)
      case Nil
      then show ?thesis using r by (simp add: path_relative_def)
    next
      case (Cons s us)
      have "plain_segment s" using abs_segments_plain [of home] r(1) Cons by simp
      note rel = plain_relative [OF this, of us]
      have "path_relative top_dir home = join_with ''/'' (s # us)" unfolding path_relative_def r(2) Cons ..
      then show ?thesis using rel r Cons by (simp add: strict_prefix_def Let_def)
    qed
  next
    fix rest assume r: "\<not> prefix ?fs ?ts" "relative_segments ?fs ?ts = ''..'' # rest"
    then have "path_relative top_dir home = ''..'' \<or> prefix ''../'' (path_relative top_dir home)"
      by (auto simp: path_relative_def join_Cons prefix_def)
    then show ?thesis using r(1) by (auto simp: Let_def strict_prefix_def)
  qed
qed

text \<open>The home lies strictly inside the root, after normalisation of both.\<close>

definition scoped_home :: "js \<Rightarrow> js \<Rightarrow> bool" where
  "scoped_home home top_dir \<longleftrightarrow> (\<exists>h r. home = Str h \<and> top_dir = Str r \<and> is_absolute h \<and> is_absolute r
     \<and> strict_prefix (abs_segments r) (abs_segments h))"

lemma home_error_None: "home_error home top_dir = None \<longleftrightarrow> scoped_home home top_dir"
proof (cases home; cases top_dir)
  fix h r assume [simp]: "home = Str h" "top_dir = Str r"
  show ?thesis using inside_iff [of r h] by (auto simp: home_error_def scoped_home_def Let_def)
qed (auto simp: home_error_def scoped_home_def Let_def)

lemma home_error_code: "home_error home top_dir = Some f \<Longrightarrow> ef_code f = ''CAPABILITY_DENIED''"
  by (auto simp: home_error_def Let_def denied_def createExecutionFailure_def split: js.splits if_splits)

section \<open>Exactness\<close>

definition admissible_name :: "string \<Rightarrow> bool" where
  "admissible_name k \<longleftrightarrow> \<not> isCredentialVariableName k \<and> toUpperCase k \<notin> set HOME_SCOPED_VARIABLES"

text \<open>What a repository command sees: the pinned variables, and the allowed ones of the host.\<close>

definition command_view :: "(string \<Rightarrow> string option) \<Rightarrow> string \<Rightarrow> string list \<Rightarrow> string \<Rightarrow> string option" where
  "command_view source home extra k =
     (case map_of (pinned_variables (path_resolve home)) k of
        Some v \<Rightarrow> Some v
      | None \<Rightarrow> if k \<in> set (REPOSITORY_COMMAND_ALLOWLIST @ extra) then source k else None)"

lemma name_error_None: "name_error k = None \<longleftrightarrow> admissible_name k"
  by (auto simp: name_error_def admissible_name_def)

lemma name_error_code: "name_error k = Some f \<Longrightarrow> ef_code f = ''CAPABILITY_DENIED''"
  unfolding name_error_def by (drule first_error_mem) (auto simp: denied_def createExecutionFailure_def)

lemma first_some_mem: "first_some f xs = Some e \<Longrightarrow> \<exists>x \<in> set xs. f x = Some e"
  by (induction xs) (auto split: option.splits)

lemma allowlist_admissible: "list_all admissible_name REPOSITORY_COMMAND_ALLOWLIST" by code_simp

lemma pinned_plain: "list_all (\<lambda>f. \<not> isCredentialVariableName (fst f)) (pinned_variables home)"
proof -
  have "map fst (pinned_variables home) = map fst (pinned_variables [])" by (simp add: pinned_variables_def)
  moreover have "list_all (\<lambda>k. \<not> isCredentialVariableName k) (map fst (pinned_variables []))" by code_simp
  ultimately have "list_all (\<lambda>k. \<not> isCredentialVariableName k) (map fst (pinned_variables home))" by (simp only:)
  then show ?thesis by (simp only: list.pred_map comp_def)
qed

lemma command_env:
  "buildRepositoryCommandEnv source home top_dir extra = Inr env \<Longrightarrow>
     scoped_home home top_dir \<and> list_all admissible_name extra \<and> map_of env = command_view source (js_str home) extra"
proof -
  assume "buildRepositoryCommandEnv source home top_dir extra = Inr env"
  then have s: "scoped_home home top_dir" "list_all admissible_name extra"
    and env: "env = put_vars (pinned_variables (path_resolve (js_str home))) (copy_vars source (REPOSITORY_COMMAND_ALLOWLIST @ extra) [])"
    by (auto simp: buildRepositoryCommandEnv_def Let_def home_error_None [symmetric] name_error_None [symmetric] list_all_iff split: option.splits)
  have "distinct (map fst (pinned_variables (path_resolve (js_str home))))" by (simp add: pinned_variables_def)
  then have "map_of env = command_view source (js_str home) extra"
    unfolding env by (subst map_of_put_vars) (auto simp: map_of_copy_vars command_view_def fun_eq_iff map_add_def split: option.splits)
  with s show ?thesis by blast
qed

lemma command_view_plain:
  "list_all admissible_name extra \<Longrightarrow> command_view source home extra k \<noteq> None \<Longrightarrow> \<not> isCredentialVariableName k"
proof (cases "map_of (pinned_variables (path_resolve home)) k")
  case None
  assume "list_all admissible_name extra" "command_view source home extra k \<noteq> None"
  with None show ?thesis using allowlist_admissible by (auto simp: command_view_def list_all_iff admissible_name_def split: if_splits)
next
  case (Some v)
  then show ?thesis using pinned_plain [of "path_resolve home"] by (force simp: list_all_iff dest: map_of_SomeD)
qed

text \<open>
  C34. A repository command sees exactly the seven pinned variables, six of them
  under the workspace-scoped home, and the allowed names as the host has them; no variable it sees has
  a credential name. The environment is built if and only if the home lies strictly inside
  the workspace root after normalisation and no extra name is credential-bearing or
  home-scoped; otherwise the request is denied.
\<close>
theorem repository_env_exact:
  "case buildRepositoryCommandEnv source home top_dir extra of
     Inr env \<Rightarrow> scoped_home home top_dir \<and> list_all admissible_name extra \<and> map_of env = command_view source (js_str home) extra
       \<and> assertNoCredentials env = None
   | Inl f \<Rightarrow> \<not> (scoped_home home top_dir \<and> list_all admissible_name extra) \<and> ef_code f = ''CAPABILITY_DENIED''"
proof (cases "buildRepositoryCommandEnv source home top_dir extra")
  case (Inr env)
  note c = command_env [OF this]
  then have "assertNoCredentials env = None" unfolding assertNoCredentials_None using command_view_plain by metis
  with c Inr show ?thesis by simp
next
  case (Inl f)
  have iff: "first_some name_error (REPOSITORY_COMMAND_ALLOWLIST @ extra) = None \<longleftrightarrow> list_all admissible_name extra"
    using allowlist_admissible by (auto simp: name_error_None list_all_iff)
  from Inl have "home_error home top_dir = Some f
      \<or> home_error home top_dir = None \<and> first_some name_error (REPOSITORY_COMMAND_ALLOWLIST @ extra) = Some f"
    by (auto simp: buildRepositoryCommandEnv_def Let_def split: option.splits)
  then show ?thesis
    using Inl iff home_error_None [of home top_dir] home_error_code first_some_mem [of name_error _ f] name_error_code by fastforce
qed

text \<open>
  A trusted operation sees what a repository command sees and, of the host's credentials,
  exactly those of its own operation: a model call never sees the forge token and a delivery
  never sees a provider key. An unknown operation gets no environment.
\<close>
theorem trusted_env_exact:
  "case buildTrustedOperationEnv source operation home top_dir extra of
     Inl f \<Rightarrow> ef_code f = ''CAPABILITY_DENIED''
   | Inr env \<Rightarrow> (case map_of TRUSTED_OPERATION_CREDENTIALS operation of
       None \<Rightarrow> False
     | Some own \<Rightarrow> map_of env = (\<lambda>k. if k \<in> set own \<and> source k \<noteq> None then source k else command_view source (js_str home) extra k)
         \<and> {k. map_of env k \<noteq> None \<and> isCredentialVariableName k} = {k \<in> set own. source k \<noteq> None}
         \<and> set own \<subseteq> {''OPENAI_API_KEY'', ''MOONSHOT_API_KEY'', ''GITHUB_TOKEN''}
         \<and> \<not> (''GITHUB_TOKEN'' \<in> set own \<and> (''OPENAI_API_KEY'' \<in> set own \<or> ''MOONSHOT_API_KEY'' \<in> set own)))"
proof (cases "buildTrustedOperationEnv source operation home top_dir extra")
  case (Inl f)
  then show ?thesis using repository_env_exact [where source = source and home = home and top_dir = top_dir and extra = extra]
    by (auto simp: buildTrustedOperationEnv_def denied_def createExecutionFailure_def split: option.splits sum.splits)
next
  case (Inr env)
  then obtain own base where own: "map_of TRUSTED_OPERATION_CREDENTIALS operation = Some own"
      and base: "buildRepositoryCommandEnv source home top_dir extra = Inr base" and env: "env = copy_vars source own base"
    by (auto simp: buildTrustedOperationEnv_def split: option.splits sum.splits)
  note b = command_env [OF base]
  have view: "map_of env = (\<lambda>k. if k \<in> set own \<and> source k \<noteq> None then source k else command_view source (js_str home) extra k)"
    unfolding env map_of_copy_vars b [THEN conjunct2, THEN conjunct2] ..
  have own_cases: "own = [''OPENAI_API_KEY'', ''MOONSHOT_API_KEY''] \<or> own = [''GITHUB_TOKEN'']"
    using own by (auto simp: TRUSTED_OPERATION_CREDENTIALS_def split: if_splits)
  have "list_all isCredentialVariableName [''OPENAI_API_KEY'', ''MOONSHOT_API_KEY'', ''GITHUB_TOKEN'']" by code_simp
  with own_cases have own_names: "k \<in> set own \<Longrightarrow> isCredentialVariableName k" for k by auto
  have none: "command_view source (js_str home) extra k = None" if "isCredentialVariableName k" for k
    using command_view_plain [of extra source "js_str home" k] b that by blast
  from own_names have "{k. map_of env k \<noteq> None \<and> isCredentialVariableName k} = {k \<in> set own. source k \<noteq> None}"
    unfolding view using none by auto
  then show ?thesis using Inr own view own_cases by auto
qed

section \<open>Examples\<close>

text \<open>A home that climbs out of the root is denied even where its text starts with the root.\<close>

lemma climbing_home_denied:
  "home_error (Str ''/w/../etc'') (Str ''/w'') \<noteq> None" "home_error (Str ''/w/./home/'') (Str ''//w'') = None"
  by code_simp+

end
