(* ===== verification/Transcript_Retention.thy ===== *)
theory Transcript_Retention
  imports Attempt_Contract Iso_Time
begin

text \<open>
  The end of an attempt: the transcript becomes a verified durable object
  (\<^verbatim>\<open>agent-execution/transcript-retention.ts\<close>) before the workspace may go
  (\<^verbatim>\<open>agent-execution/workspace-lifecycle.ts\<close>).

  The collaborators are parameters, None where they throw. The pipeline calls each of them at
  most once; the calls it makes, with what it hands over, are part of its result. \<open>sha\<close> is
  the hex SHA-256 of bytes.
\<close>

section \<open>The pipeline\<close>

datatype retention_step = Finalize | Redact | Hash | Persist | Verify | Index

definition TRANSCRIPT_RETENTION_ORDER :: "retention_step list" where
  "TRANSCRIPT_RETENTION_ORDER = [Finalize, Redact, Hash, Persist, Verify, Index]"

text \<open>
  \<^verbatim>\<open>WORKSPACE_RELATIVE_LOCATOR\<close>: one line, not empty, no slash or backslash and no drive at
  its start, no dot-dot between separators.
\<close>

definition isWorkspaceRelativeLocator :: "string \<Rightarrow> bool" where
  "isWorkspaceRelativeLocator s =
     (let sep = (\<lambda>c. c = CHR ''/'' \<or> c = CHR 0x5C);
          letter = (\<lambda>c. (65 \<le> (of_char c :: nat) \<and> (of_char c :: nat) \<le> 90) \<or> (97 \<le> (of_char c :: nat) \<and> (of_char c :: nat) \<le> 122)) in
      s \<noteq> [] \<and> list_all (\<lambda>c. c \<noteq> CHR 0x0A \<and> c \<noteq> CHR 0x0D) s
      \<and> \<not> sep (hd s)
      \<and> \<not> (case s of c # d # e # _ \<Rightarrow> letter c \<and> d = CHR '':'' \<and> sep e | _ \<Rightarrow> False)
      \<and> ''..'' \<notin> set (split_on sep s))"

text \<open>\<^verbatim>\<open>Buffer.from(text, 'utf8')\<close>.\<close>

definition utf8_char :: "char \<Rightarrow> string" where
  "utf8_char c = (let n = of_char c :: nat in if n < 128 then [c] else [char_of (192 + n div 64), char_of (128 + n mod 64)])"

definition utf8 :: "string \<Rightarrow> string" where
  "utf8 s = concat (map utf8_char s)"

record audit_record =
  ar_node_id :: string
  ar_attempt_id :: string
  ar_phase :: string
  ar_transcript_object_id :: string
  ar_sha256 :: string
  ar_byte_size :: nat
  ar_media_type :: string
  ar_redaction_policy_version :: string
  ar_redaction_count :: js
  ar_created_at :: string

record retention_input =
  ti_nodeId :: string
  ti_attemptId :: string
  ti_phase :: string
  ti_transcriptPath :: string
  ti_finalize :: "string option"
  ti_redact :: "string \<Rightarrow> js option"
  ti_put :: "string \<Rightarrow> string \<Rightarrow> js option"
  ti_get :: "string \<Rightarrow> string option option"
  ti_commit :: "audit_record \<Rightarrow> bool"
  ti_mediaType :: "string option"
  ti_now :: js_date

datatype retention_call = Finalized | Redacted string | Put string string | Got string | Committed audit_record

datatype retention_outcome =
    Audit_complete audit_record "retention_step list"
  | Audit_incomplete retention_step execution_failure "retention_step list" string string string
  | Retention_threw string

definition incomplete ::
  "retention_input \<Rightarrow> retention_step \<Rightarrow> execution_failure \<Rightarrow> retention_step list \<Rightarrow> retention_outcome" where
  "incomplete i failedStep failure completed =
     Audit_incomplete failedStep failure completed (ti_nodeId i) (ti_attemptId i) (ti_phase i)"

definition key_char :: "char \<Rightarrow> char" where
  "key_char c = (let n = of_char c :: nat in
     if (48 \<le> n \<and> n \<le> 57) \<or> (65 \<le> n \<and> n \<le> 90) \<or> (97 \<le> n \<and> n \<le> 122) \<or> c = CHR ''.'' \<or> c = CHR ''_'' \<or> c = CHR ''-''
     then c else CHR ''_'')"

definition objectKey :: "retention_input \<Rightarrow> string" where
  "objectKey i = join_with ''/'' (map (map key_char) [ti_nodeId i, ti_attemptId i, ti_phase i @ ''.transcript''])"

definition redaction_ok :: "js \<Rightarrow> bool" where
  "redaction_ok r = ((case fld r ''text'' of Str _ \<Rightarrow> True | _ \<Rightarrow> False) \<and> (case fld r ''policyVersion'' of Str _ \<Rightarrow> True | _ \<Rightarrow> False))"

definition audit_record_of :: "(string \<Rightarrow> string) \<Rightarrow> retention_input \<Rightarrow> js \<Rightarrow> string \<Rightarrow> int \<Rightarrow> audit_record" where
  "audit_record_of sha i redaction objectId now =
     (let bytes = utf8 (js_str (fld redaction ''text'')) in
      \<lparr> ar_node_id = ti_nodeId i, ar_attempt_id = ti_attemptId i, ar_phase = ti_phase i, ar_transcript_object_id = objectId,
        ar_sha256 = sha bytes, ar_byte_size = length bytes,
        ar_media_type = (case ti_mediaType i of Some m \<Rightarrow> m | None \<Rightarrow> ''text/plain''),
        ar_redaction_policy_version = js_str (fld redaction ''policyVersion''), ar_redaction_count = fld redaction ''redactionCount'',
        ar_created_at = toISOString now \<rparr>)"

text \<open>Persisting, verifying and indexing the redacted bytes.\<close>

definition retain_redacted :: "(string \<Rightarrow> string) \<Rightarrow> retention_input \<Rightarrow> js \<Rightarrow> retention_outcome \<times> retention_call list" where
  "retain_redacted sha i redaction =
     (let bytes = utf8 (js_str (fld redaction ''text'')); put = Put (objectKey i) bytes;
          persist_failed = incomplete i Persist (createExecutionFailure ''TRANSCRIPT_PERSIST_FAILED'' None) [Finalize, Redact, Hash];
          verify_failed = incomplete i Verify (createExecutionFailure ''TRANSCRIPT_VERIFY_FAILED'' None) [Finalize, Redact, Hash, Persist] in
      case ti_put i (objectKey i) bytes of
        Some (Str objectId) \<Rightarrow>
          if trim objectId = [] then (persist_failed, [put])
          else (case ti_get i objectId of
             Some (Some stored) \<Rightarrow>
               if sha stored \<noteq> sha bytes \<or> length stored \<noteq> length bytes then (verify_failed, [put, Got objectId])
               else (case ti_now i of
                  None \<Rightarrow> (Retention_threw ''Invalid time value'', [put, Got objectId])
                | Some now \<Rightarrow>
                    let r = audit_record_of sha i redaction objectId now; calls = [put, Got objectId, Committed r] in
                    if ti_commit i r then (Audit_complete r TRANSCRIPT_RETENTION_ORDER, calls)
                    else (incomplete i Index (createExecutionFailure ''TRANSCRIPT_INDEX_FAILED'' None) [Finalize, Redact, Hash, Persist, Verify], calls))
           | _ \<Rightarrow> (verify_failed, [put, Got objectId]))
      | _ \<Rightarrow> (persist_failed, [put]))"

definition retainTranscript :: "(string \<Rightarrow> string) \<Rightarrow> retention_input \<Rightarrow> retention_outcome \<times> retention_call list" where
  "retainTranscript sha i =
     (if \<not> isWorkspaceRelativeLocator (ti_transcriptPath i)
      then (incomplete i Finalize (createExecutionFailure ''TRANSCRIPT_PATH_NOT_WORKSPACE_RELATIVE'' (Some (ti_transcriptPath i))) [], [])
      else case ti_finalize i of
        None \<Rightarrow> (incomplete i Finalize (createExecutionFailure ''TRANSCRIPT_STEP_OUT_OF_ORDER'' (Some ''finalize failed'')) [], [Finalized])
      | Some raw \<Rightarrow>
          (let redact_failed = incomplete i Redact (createExecutionFailure ''TRANSCRIPT_NOT_REDACTED'' None) [Finalize] in
           case ti_redact i raw of
             None \<Rightarrow> (redact_failed, [Finalized, Redacted raw])
           | Some redaction \<Rightarrow>
               if \<not> redaction_ok redaction then (redact_failed, [Finalized, Redacted raw])
               else let (r, calls) = retain_redacted sha i redaction in (r, [Finalized, Redacted raw] @ calls)))"

section \<open>The workspace\<close>

datatype cleanup_state = Ready_to_extract | Extracting | Complete | Incomplete

record lifecycle =
  lc_attemptId :: string
  lc_deadline :: rat
  lc_state :: cleanup_state
  lc_reason :: "string option"

definition DEFAULT_QUARANTINE_MS :: rat where "DEFAULT_QUARANTINE_MS = 15 * 60 * 1000"
definition MAX_QUARANTINE_MS :: rat where "MAX_QUARANTINE_MS = 60 * 60 * 1000"

definition quarantine :: "js_num option \<Rightarrow> js_num" where
  "quarantine quarantineMs = (case quarantineMs of Some x \<Rightarrow> x | None \<Rightarrow> Fin DEFAULT_QUARANTINE_MS)"

definition createAttemptWorkspaceLifecycle :: "string \<Rightarrow> js_num \<Rightarrow> js_num option \<Rightarrow> execution_failure + lifecycle" where
  "createAttemptWorkspaceLifecycle attemptId startedAt quarantineMs =
     (let bad_bound = Inl (createExecutionFailure ''CLEANUP_BLOCKED_PENDING_EXTRACTION'' (Some ''quarantine bound is out of range'')) in
      case quarantine quarantineMs of
        Fin bound \<Rightarrow>
          if bound < 0 \<or> MAX_QUARANTINE_MS < bound then bad_bound
          else (case startedAt of
             Fin start \<Rightarrow> Inr \<lparr> lc_attemptId = attemptId, lc_deadline = start + bound, lc_state = Ready_to_extract, lc_reason = None \<rparr>
           | _ \<Rightarrow> Inl (createExecutionFailure ''CLEANUP_BLOCKED_PENDING_EXTRACTION'' (Some ''attempt start time is not finite'')))
      | _ \<Rightarrow> bad_bound)"

definition out_of_order :: "string \<Rightarrow> execution_failure" where
  "out_of_order detail = createExecutionFailure ''TRANSCRIPT_STEP_OUT_OF_ORDER'' (Some detail)"

fun state_name :: "cleanup_state \<Rightarrow> string" where
  "state_name Ready_to_extract = ''ready''"
| "state_name Extracting = ''extracting''"
| "state_name Complete = ''audit_complete''"
| "state_name Incomplete = ''audit_incomplete''"

definition beginExtraction :: "lifecycle \<Rightarrow> execution_failure option \<times> lifecycle" where
  "beginExtraction l =
     (if lc_state l \<noteq> Ready_to_extract then (Some (out_of_order (''cannot begin extraction from '' @ state_name (lc_state l))), l)
      else (None, l\<lparr> lc_state := Extracting \<rparr>))"

definition proof_accepted :: "string \<Rightarrow> js \<Rightarrow> bool" where
  "proof_accepted attemptId p =
     (js_truthy p \<and> fld p ''extraction_status'' = Str ''audit_complete'' \<and> fld p ''attempt_id'' = Str attemptId
      \<and> (case fld p ''transcript_object_id'' of Str s \<Rightarrow> trim s \<noteq> [] | _ \<Rightarrow> False) \<and> fld p ''redaction_status'' = Str ''redacted'')"

definition markAuditComplete :: "js \<Rightarrow> lifecycle \<Rightarrow> execution_failure option \<times> lifecycle" where
  "markAuditComplete p l =
     (if lc_state l \<noteq> Extracting then (Some (out_of_order (''cannot complete audit from '' @ state_name (lc_state l))), l)
      else if \<not> proof_accepted (lc_attemptId l) p
      then (Some (createExecutionFailure ''CLEANUP_BLOCKED_PENDING_EXTRACTION''
              (Some ''audit completion requires a verified transcript retention record for this attempt'')), l)
      else (None, l\<lparr> lc_state := Complete \<rparr>))"

definition markAuditIncomplete :: "string \<Rightarrow> lifecycle \<Rightarrow> execution_failure option \<times> lifecycle" where
  "markAuditIncomplete failureReason l =
     (if lc_state l \<noteq> Extracting then (Some (out_of_order (''cannot fail audit from '' @ state_name (lc_state l))), l)
      else (None, l\<lparr> lc_state := Incomplete, lc_reason := Some failureReason \<rparr>))"

record cleanup_decision =
  cd_destroy :: bool
  cd_state :: cleanup_state
  cd_reason :: string
  cd_auditIncomplete :: bool

definition evaluateCleanup :: "js_num \<Rightarrow> lifecycle \<Rightarrow> cleanup_decision" where
  "evaluateCleanup now l =
     (let s = lc_state l in
      case now of
        Fin t \<Rightarrow>
          if s = Complete then \<lparr> cd_destroy = True, cd_state = s, cd_reason = ''transcript extraction verified and indexed'', cd_auditIncomplete = False \<rparr>
          else if lc_deadline l \<le> t
          then \<lparr> cd_destroy = True, cd_state = s, cd_reason = ''bounded quarantine expired; unsafe workspace must not persist'', cd_auditIncomplete = True \<rparr>
          else \<lparr> cd_destroy = False, cd_state = s,
                 cd_reason = (if s = Incomplete then ''audit incomplete; within bounded quarantine for retry or diagnosis''
                              else ''transcript extraction has not resolved yet''),
                 cd_auditIncomplete = (s = Incomplete) \<rparr>
      | _ \<Rightarrow> \<lparr> cd_destroy = True, cd_state = s, cd_reason = ''cleanup clock is invalid; workspace must not persist'',
               cd_auditIncomplete = (s \<noteq> Complete) \<rparr>)"

text \<open>The record as the lifecycle reads it.\<close>

definition record_js :: "audit_record \<Rightarrow> js" where
  "record_js r = plain [(''node_id'', Str (ar_node_id r)), (''attempt_id'', Str (ar_attempt_id r)), (''phase'', Str (ar_phase r)),
     (''transcript_object_id'', Str (ar_transcript_object_id r)), (''sha256'', Str (ar_sha256 r)), (''byte_size'', JInt (int (ar_byte_size r))),
     (''media_type'', Str (ar_media_type r)), (''schema_version'', JInt 1), (''redaction_policy_version'', Str (ar_redaction_policy_version r)),
     (''redaction_status'', Str ''redacted''), (''redaction_count'', ar_redaction_count r), (''created_at'', Str (ar_created_at r)),
     (''retention_status'', Str ''retained''), (''access_classification'', Str ''authorized-human-only''),
     (''extraction_status'', Str ''audit_complete'')]"

section \<open>What a retained transcript is\<close>

text \<open>The first steps up to a failed one.\<close>

definition steps_before :: "retention_step \<Rightarrow> retention_step list" where
  "steps_before s = takeWhile (\<lambda>x. x \<noteq> s) TRANSCRIPT_RETENTION_ORDER"

text \<open>
  What it means that a step succeeded, each on top of the one before: the raw text was handed
  over from a workspace-relative path, the redactor answered with a text under a policy, the
  store took those bytes under the key of the attempt and named the object, and what it gives
  back for that name has their digest and size.
\<close>

definition finalized :: "retention_input \<Rightarrow> string \<Rightarrow> bool" where
  "finalized i raw \<longleftrightarrow> isWorkspaceRelativeLocator (ti_transcriptPath i) \<and> ti_finalize i = Some raw"

definition redacted :: "retention_input \<Rightarrow> string \<Rightarrow> js \<Rightarrow> bool" where
  "redacted i raw redaction \<longleftrightarrow> finalized i raw \<and> ti_redact i raw = Some redaction
     \<and> (\<exists>text version. fld redaction ''text'' = Str text \<and> fld redaction ''policyVersion'' = Str version)"

definition redacted_bytes :: "js \<Rightarrow> string" where
  "redacted_bytes redaction = utf8 (js_str (fld redaction ''text''))"

definition persisted :: "retention_input \<Rightarrow> string \<Rightarrow> js \<Rightarrow> string \<Rightarrow> bool" where
  "persisted i raw redaction objectId \<longleftrightarrow> redacted i raw redaction
     \<and> ti_put i (objectKey i) (redacted_bytes redaction) = Some (Str objectId) \<and> trim objectId \<noteq> []"

definition verified :: "(string \<Rightarrow> string) \<Rightarrow> retention_input \<Rightarrow> string \<Rightarrow> js \<Rightarrow> string \<Rightarrow> bool" where
  "verified sha i raw redaction objectId \<longleftrightarrow> persisted i raw redaction objectId
     \<and> (\<exists>stored. ti_get i objectId = Some (Some stored) \<and> sha stored = sha (redacted_bytes redaction)
          \<and> length stored = length (redacted_bytes redaction))"

text \<open>The record binds the verified object to its attempt; its date is the one of the clock.\<close>

definition recorded_as :: "(string \<Rightarrow> string) \<Rightarrow> retention_input \<Rightarrow> js \<Rightarrow> string \<Rightarrow> audit_record \<Rightarrow> bool" where
  "recorded_as sha i redaction objectId r \<longleftrightarrow>
     (ar_node_id r, ar_attempt_id r, ar_phase r) = (ti_nodeId i, ti_attemptId i, ti_phase i) \<and> ar_transcript_object_id r = objectId
     \<and> ar_sha256 r = sha (redacted_bytes redaction) \<and> ar_byte_size r = length (redacted_bytes redaction)
     \<and> Str (ar_redaction_policy_version r) = fld redaction ''policyVersion'' \<and> ar_redaction_count r = fld redaction ''redactionCount''
     \<and> (\<exists>now. ti_now i = Some now \<and> ar_created_at r = toISOString now)"

text \<open>
  The reference: the step at which a retention fails, the failure it reports, and the calls it
  made until then. No step fails where the ones before it and itself succeeded; hashing cannot
  fail.
\<close>

inductive fails_at :: "(string \<Rightarrow> string) \<Rightarrow> retention_input \<Rightarrow> retention_step \<Rightarrow> execution_failure \<Rightarrow> retention_call list \<Rightarrow> bool" for sha i where
  path: "\<not> isWorkspaceRelativeLocator (ti_transcriptPath i) \<Longrightarrow>
     fails_at sha i Finalize (createExecutionFailure ''TRANSCRIPT_PATH_NOT_WORKSPACE_RELATIVE'' (Some (ti_transcriptPath i))) []"
| finalize: "isWorkspaceRelativeLocator (ti_transcriptPath i) \<Longrightarrow> \<nexists>raw. finalized i raw \<Longrightarrow>
     fails_at sha i Finalize (createExecutionFailure ''TRANSCRIPT_STEP_OUT_OF_ORDER'' (Some ''finalize failed'')) [Finalized]"
| redact: "finalized i raw \<Longrightarrow> \<nexists>redaction. redacted i raw redaction \<Longrightarrow>
     fails_at sha i Redact (createExecutionFailure ''TRANSCRIPT_NOT_REDACTED'' None) [Finalized, Redacted raw]"
| persist: "redacted i raw redaction \<Longrightarrow> \<nexists>objectId. persisted i raw redaction objectId \<Longrightarrow>
     fails_at sha i Persist (createExecutionFailure ''TRANSCRIPT_PERSIST_FAILED'' None)
       [Finalized, Redacted raw, Put (objectKey i) (redacted_bytes redaction)]"
| verify: "persisted i raw redaction objectId \<Longrightarrow> \<not> verified sha i raw redaction objectId \<Longrightarrow>
     fails_at sha i Verify (createExecutionFailure ''TRANSCRIPT_VERIFY_FAILED'' None)
       [Finalized, Redacted raw, Put (objectKey i) (redacted_bytes redaction), Got objectId]"
| index: "verified sha i raw redaction objectId \<Longrightarrow> recorded_as sha i redaction objectId r \<Longrightarrow> \<not> ti_commit i r \<Longrightarrow>
     fails_at sha i Index (createExecutionFailure ''TRANSCRIPT_INDEX_FAILED'' None)
       [Finalized, Redacted raw, Put (objectKey i) (redacted_bytes redaction), Got objectId, Committed r]"

lemma redaction_ok_iff: "redaction_ok r \<longleftrightarrow> (\<exists>text version. fld r ''text'' = Str text \<and> fld r ''policyVersion'' = Str version)"
  by (auto simp: redaction_ok_def split: js.splits)

lemma recorded_audit: "redacted i raw redaction \<Longrightarrow> ti_now i = Some now \<Longrightarrow>
   recorded_as sha i redaction objectId (audit_record_of sha i redaction objectId now)"
  by (auto simp: recorded_as_def redacted_def redacted_bytes_def audit_record_of_def Let_def)

lemma trim_record: "proof_accepted (ar_attempt_id r) (record_js r) \<longleftrightarrow> trim (ar_transcript_object_id r) \<noteq> []"
  by (simp add: proof_accepted_def record_js_def)

definition retention_settled :: "(string \<Rightarrow> string) \<Rightarrow> retention_input \<Rightarrow> retention_outcome \<times> retention_call list \<Rightarrow> bool" where
  "retention_settled sha i out \<longleftrightarrow> (case out of (outcome, calls) \<Rightarrow> (case outcome of
      Audit_complete r steps \<Rightarrow> steps = TRANSCRIPT_RETENTION_ORDER \<and> proof_accepted (ti_attemptId i) (record_js r)
        \<and> (\<exists>raw redaction objectId. verified sha i raw redaction objectId \<and> recorded_as sha i redaction objectId r \<and> ti_commit i r
             \<and> calls = [Finalized, Redacted raw, Put (objectKey i) (redacted_bytes redaction), Got objectId, Committed r])
    | Audit_incomplete s f steps n a p \<Rightarrow> fails_at sha i s f calls \<and> steps = steps_before s \<and> (n, a, p) = (ti_nodeId i, ti_attemptId i, ti_phase i)
    | Retention_threw m \<Rightarrow> ti_now i = None
        \<and> (\<exists>raw redaction objectId. verified sha i raw redaction objectId
             \<and> calls = [Finalized, Redacted raw, Put (objectKey i) (redacted_bytes redaction), Got objectId])))"

text \<open>From the redaction on.\<close>

lemma redacted_settled:
  assumes "redacted i raw redaction"
  shows "retention_settled sha i (map_prod id (\<lambda>calls. [Finalized, Redacted raw] @ calls) (retain_redacted sha i redaction))"
proof (cases "\<exists>objectId. persisted i raw redaction objectId")
  case False
  then have "retain_redacted sha i redaction =
      (incomplete i Persist (createExecutionFailure ''TRANSCRIPT_PERSIST_FAILED'' None) [Finalize, Redact, Hash], [Put (objectKey i) (redacted_bytes redaction)])"
    using assms by (auto simp: retain_redacted_def persisted_def redacted_bytes_def Let_def split: option.split js.split)
  with fails_at.persist [OF assms False, of sha] show ?thesis
    by (simp add: retention_settled_def incomplete_def steps_before_def TRANSCRIPT_RETENTION_ORDER_def)
next
  case True
  then obtain objectId where p: "persisted i raw redaction objectId" by blast
  then have put: "ti_put i (objectKey i) (utf8 (js_str (fld redaction ''text''))) = Some (Str objectId)" "trim objectId \<noteq> []"
    by (simp_all add: persisted_def redacted_bytes_def)
  show ?thesis
  proof (cases "verified sha i raw redaction objectId")
    case False
    then have "retain_redacted sha i redaction =
        (incomplete i Verify (createExecutionFailure ''TRANSCRIPT_VERIFY_FAILED'' None) [Finalize, Redact, Hash, Persist],
         [Put (objectKey i) (redacted_bytes redaction), Got objectId])"
      using p by (auto simp: retain_redacted_def put verified_def redacted_bytes_def Let_def split: option.split)
    with fails_at.verify [OF p False] show ?thesis
      by (simp add: retention_settled_def incomplete_def steps_before_def TRANSCRIPT_RETENTION_ORDER_def)
  next
    case v: True
    show ?thesis
    proof (cases "ti_now i")
      case None
      then have "retain_redacted sha i redaction =
          (Retention_threw ''Invalid time value'', [Put (objectKey i) (redacted_bytes redaction), Got objectId])"
        using v by (auto simp: retain_redacted_def put verified_def redacted_bytes_def Let_def)
      then show ?thesis using v None by (auto simp: retention_settled_def)
    next
      case (Some now)
      let ?r = "audit_record_of sha i redaction objectId now"
      have rec: "recorded_as sha i redaction objectId ?r" by (rule recorded_audit [OF assms Some])
      have "retain_redacted sha i redaction =
          (if ti_commit i ?r then Audit_complete ?r TRANSCRIPT_RETENTION_ORDER
           else incomplete i Index (createExecutionFailure ''TRANSCRIPT_INDEX_FAILED'' None) [Finalize, Redact, Hash, Persist, Verify],
           [Put (objectKey i) (redacted_bytes redaction), Got objectId, Committed ?r])"
        using v by (auto simp: retain_redacted_def put verified_def redacted_bytes_def Let_def Some)
      moreover have "proof_accepted (ti_attemptId i) (record_js ?r)"
        using trim_record [of ?r] rec put(2) by (simp add: recorded_as_def)
      ultimately show ?thesis using v rec fails_at.index [OF v rec]
        by (auto simp: retention_settled_def incomplete_def steps_before_def TRANSCRIPT_RETENTION_ORDER_def)
    qed
  qed
qed

lemma retention_is_settled: "retention_settled sha i (retainTranscript sha i)"
proof (cases "isWorkspaceRelativeLocator (ti_transcriptPath i)")
  case False
  with fails_at.path [OF this, of sha] show ?thesis
    by (simp add: retainTranscript_def retention_settled_def incomplete_def steps_before_def TRANSCRIPT_RETENTION_ORDER_def)
next
  case path: True
  show ?thesis
  proof (cases "ti_finalize i")
    case None
    then have "\<nexists>raw. finalized i raw" by (simp add: finalized_def)
    from fails_at.finalize [OF path this, of sha] show ?thesis
      using path None by (simp add: retainTranscript_def retention_settled_def incomplete_def steps_before_def TRANSCRIPT_RETENTION_ORDER_def)
  next
    case (Some raw)
    have f: "finalized i raw" using path Some by (simp add: finalized_def)
    show ?thesis
    proof (cases "\<exists>redaction. redacted i raw redaction")
      case False
      then have "retainTranscript sha i =
          (incomplete i Redact (createExecutionFailure ''TRANSCRIPT_NOT_REDACTED'' None) [Finalize], [Finalized, Redacted raw])"
        using path Some f by (auto simp: retainTranscript_def redacted_def redaction_ok_iff Let_def split: option.split)
      with fails_at.redact [OF f False, of sha] show ?thesis
        by (simp add: retention_settled_def incomplete_def steps_before_def TRANSCRIPT_RETENTION_ORDER_def)
    next
      case True
      then obtain redaction where r: "redacted i raw redaction" by blast
      then have "retainTranscript sha i = map_prod id (\<lambda>calls. [Finalized, Redacted raw] @ calls) (retain_redacted sha i redaction)"
        using path Some by (auto simp: retainTranscript_def redacted_def redaction_ok_iff Let_def map_prod_def split: prod.split)
      with redacted_settled [OF r] show ?thesis by simp
    qed
  qed
qed

text \<open>
  C35. Retention is complete only with a verified object, and otherwise names what failed. It is
  complete exactly when the path is workspace-relative, every collaborator answered, the bytes
  read back from the store under the recorded id have the size and digest of the redacted text
  that was handed over, and the commit of the record, which binds them to this node, attempt and
  phase, went through: then all six steps ran in order with every collaborator called once, the
  record last, and that record authorises the workspace of its attempt. An incomplete retention
  names the first step that did not succeed, with the failure of that step, the steps before it
  and the calls up to it, so nothing was committed unless the commit itself is what failed,
  after verification. One case names no step: with an invalid clock the pipeline throws, after
  verification and before any commit.
\<close>
theorem retained_transcript_verified:
  "case retainTranscript sha i of (outcome, calls) \<Rightarrow> (case outcome of
      Audit_complete r steps \<Rightarrow> steps = TRANSCRIPT_RETENTION_ORDER \<and> proof_accepted (ti_attemptId i) (record_js r)
        \<and> (\<exists>raw redaction objectId. verified sha i raw redaction objectId \<and> recorded_as sha i redaction objectId r \<and> ti_commit i r
             \<and> calls = [Finalized, Redacted raw, Put (objectKey i) (redacted_bytes redaction), Got objectId, Committed r])
    | Audit_incomplete s f steps n a p \<Rightarrow> fails_at sha i s f calls \<and> steps = steps_before s \<and> (n, a, p) = (ti_nodeId i, ti_attemptId i, ti_phase i)
    | Retention_threw m \<Rightarrow> ti_now i = None
        \<and> (\<exists>raw redaction objectId. verified sha i raw redaction objectId
             \<and> calls = [Finalized, Redacted raw, Put (objectKey i) (redacted_bytes redaction), Got objectId]))"
  using retention_is_settled [of sha i] unfolding retention_settled_def .

section \<open>What authorises cleanup\<close>

datatype lifecycle_op = Begin | Audit_ok js | Audit_failed string

fun apply_op :: "lifecycle_op \<Rightarrow> lifecycle \<Rightarrow> lifecycle" where
  "apply_op Begin l = snd (beginExtraction l)"
| "apply_op (Audit_ok p) l = snd (markAuditComplete p l)"
| "apply_op (Audit_failed m) l = snd (markAuditIncomplete m l)"

text \<open>Reference: what a sequence of calls establishes.\<close>

definition settled :: "lifecycle_op list \<Rightarrow> bool" where
  "settled ops \<longleftrightarrow> list_ex (\<lambda>x. case x of Audit_failed _ \<Rightarrow> True | _ \<Rightarrow> False) ops"

definition audited :: "string \<Rightarrow> lifecycle_op list \<Rightarrow> bool" where
  "audited attempt ops \<longleftrightarrow> (\<exists>us vs p ws. ops = us @ Begin # vs @ Audit_ok p # ws \<and> Begin \<notin> set us \<and> \<not> settled vs \<and> proof_accepted attempt p)"

lemma op_frame [simp]: "lc_attemptId (apply_op x l) = lc_attemptId l" "lc_deadline (apply_op x l) = lc_deadline l"
  by (cases x; simp add: beginExtraction_def markAuditComplete_def markAuditIncomplete_def)+

lemma ops_frame: "lc_attemptId (fold apply_op ops l) = lc_attemptId l" "lc_deadline (fold apply_op ops l) = lc_deadline l"
  by (induction ops arbitrary: l) auto

lemma ops_final: "lc_state l \<in> {Complete, Incomplete} \<Longrightarrow> lc_state (fold apply_op ops l) = lc_state l"
proof (induction ops arbitrary: l)
  case (Cons x ops)
  have "apply_op x l = l" using Cons.prems by (cases x) (auto simp: beginExtraction_def markAuditComplete_def markAuditIncomplete_def)
  then show ?case using Cons by simp
qed simp

text \<open>While extracting, the first settling call decides.\<close>

definition audited_next :: "string \<Rightarrow> lifecycle_op list \<Rightarrow> bool" where
  "audited_next attempt ops \<longleftrightarrow> (\<exists>vs p ws. ops = vs @ Audit_ok p # ws \<and> \<not> settled vs \<and> proof_accepted attempt p)"

lemma audited_next_Cons:
  "audited_next a (x # ops) \<longleftrightarrow> (case x of Begin \<Rightarrow> audited_next a ops | Audit_ok p \<Rightarrow> proof_accepted a p \<or> audited_next a ops | Audit_failed m \<Rightarrow> False)"
proof -
  have "audited_next a (x # ops) \<longleftrightarrow> (\<exists>p. x = Audit_ok p \<and> proof_accepted a p) \<or> (\<not> settled [x] \<and> audited_next a ops)"
  proof
    assume "audited_next a (x # ops)"
    then obtain vs p ws where r: "x # ops = vs @ Audit_ok p # ws" "\<not> settled vs" "proof_accepted a p" unfolding audited_next_def by blast
    then show "(\<exists>p. x = Audit_ok p \<and> proof_accepted a p) \<or> (\<not> settled [x] \<and> audited_next a ops)"
      by (cases vs) (auto simp: audited_next_def settled_def)
  next
    assume "(\<exists>p. x = Audit_ok p \<and> proof_accepted a p) \<or> (\<not> settled [x] \<and> audited_next a ops)"
    then show "audited_next a (x # ops)"
    proof (elim disjE exE conjE)
      fix p assume "x = Audit_ok p" "proof_accepted a p"
      then show ?thesis unfolding audited_next_def by (intro exI [of _ "[]"]) (auto simp: settled_def)
    next
      assume x: "\<not> settled [x]" "audited_next a ops"
      then obtain vs p ws where "ops = vs @ Audit_ok p # ws" "\<not> settled vs" "proof_accepted a p" unfolding audited_next_def by blast
      with x(1) show ?thesis unfolding audited_next_def by (intro exI [of _ "x # vs"]) (auto simp: settled_def)
    qed
  qed
  then show ?thesis by (cases x) (auto simp: settled_def)
qed

lemma extracting_complete:
  "lc_state l = Extracting \<Longrightarrow> lc_state (fold apply_op ops l) = Complete \<longleftrightarrow> audited_next (lc_attemptId l) ops"
proof (induction ops arbitrary: l)
  case Nil
  then show ?case by (simp add: audited_next_def)
next
  case (Cons x ops)
  show ?case
  proof (cases x)
    case Begin
    then show ?thesis using Cons by (simp add: audited_next_Cons beginExtraction_def)
  next
    case (Audit_ok p)
    then show ?thesis using Cons ops_final [of "l\<lparr> lc_state := Complete \<rparr>" ops]
      by (auto simp: audited_next_Cons markAuditComplete_def)
  next
    case (Audit_failed m)
    then show ?thesis using Cons ops_final [of "l\<lparr> lc_state := Incomplete, lc_reason := Some m \<rparr>" ops]
      by (auto simp: audited_next_Cons markAuditIncomplete_def)
  qed
qed

lemma audited_Cons: "audited a (x # ops) \<longleftrightarrow> (if x = Begin then audited_next a ops else audited a ops)"
proof
  assume "audited a (x # ops)"
  then obtain us vs p ws where r: "x # ops = us @ Begin # vs @ Audit_ok p # ws" "Begin \<notin> set us" "\<not> settled vs" "proof_accepted a p"
    unfolding audited_def by blast
  then show "if x = Begin then audited_next a ops else audited a ops"
    by (cases us) (auto simp: audited_def audited_next_def)
next
  assume x: "if x = Begin then audited_next a ops else audited a ops"
  show "audited a (x # ops)"
  proof (cases "x = Begin")
    case True
    then obtain vs p ws where "ops = vs @ Audit_ok p # ws" "\<not> settled vs" "proof_accepted a p" using x by (auto simp: audited_next_def)
    with True show ?thesis unfolding audited_def by (intro exI [of _ "[]"] exI [of _ vs] exI [of _ p] exI [of _ ws]) auto
  next
    case False
    then obtain us vs p ws where "ops = us @ Begin # vs @ Audit_ok p # ws" "Begin \<notin> set us" "\<not> settled vs" "proof_accepted a p"
      using x by (auto simp: audited_def)
    with False show ?thesis unfolding audited_def by (intro exI [of _ "x # us"] exI [of _ vs] exI [of _ p] exI [of _ ws]) auto
  qed
qed

lemma ready_complete:
  "lc_state l = Ready_to_extract \<Longrightarrow> lc_state (fold apply_op ops l) = Complete \<longleftrightarrow> audited (lc_attemptId l) ops"
proof (induction ops arbitrary: l)
  case Nil
  then show ?case by (simp add: audited_def)
next
  case (Cons x ops)
  then show ?case
    by (cases x) (auto simp: audited_Cons beginExtraction_def markAuditComplete_def markAuditIncomplete_def extracting_complete)
qed

text \<open>
  C36. Cleanup is bounded and never premature: whatever calls are made on a lifecycle, the
  workspace is to be destroyed if and only if the clock is not finite, or the deadline, at
  most one hour after the start, has passed, or extraction began and an accepted record for
  this very attempt arrived before any failure was reported; and the audit counts as complete
  in exactly the last case. A lifecycle is refused unless the start is finite and the bound
  lies between zero and one hour.
\<close>
theorem cleanup_bounded:
  "case createAttemptWorkspaceLifecycle attempt start bound of
     Inl f \<Rightarrow> \<not> (\<exists>s b. start = Fin s \<and> quarantine bound = Fin b \<and> 0 \<le> b \<and> b \<le> 3600000)
   | Inr l \<Rightarrow> (\<exists>s b. start = Fin s \<and> quarantine bound = Fin b \<and> 0 \<le> b \<and> b \<le> 3600000
       \<and> (case evaluateCleanup now (fold apply_op ops l) of d \<Rightarrow>
            cd_destroy d = ((case now of Fin t \<Rightarrow> s + b \<le> t | _ \<Rightarrow> True) \<or> audited attempt ops)
          \<and> (cd_destroy d \<and> \<not> cd_auditIncomplete d) = audited attempt ops))"
proof (cases "createAttemptWorkspaceLifecycle attempt start bound")
  case (Inl f)
  then show ?thesis
    by (auto simp: createAttemptWorkspaceLifecycle_def quarantine_def MAX_QUARANTINE_MS_def Let_def split: js_num.splits if_splits)
next
  case (Inr l)
  then obtain s b where l: "start = Fin s" "l = \<lparr> lc_attemptId = attempt, lc_deadline = s + b, lc_state = Ready_to_extract, lc_reason = None \<rparr>"
    and b: "quarantine bound = Fin b" "0 \<le> b" "b \<le> 3600000"
    by (auto simp: createAttemptWorkspaceLifecycle_def quarantine_def MAX_QUARANTINE_MS_def Let_def split: js_num.splits if_splits)
  let ?l = "fold apply_op ops l"
  have "lc_state ?l = Complete \<longleftrightarrow> audited attempt ops" using ready_complete [of l ops] l(2) by simp
  moreover have "lc_deadline ?l = s + b" using ops_frame(2) [of ops l] l(2) by simp
  ultimately have "cd_destroy (evaluateCleanup now ?l) = ((case now of Fin t \<Rightarrow> s + b \<le> t | _ \<Rightarrow> True) \<or> audited attempt ops)"
      "(cd_destroy (evaluateCleanup now ?l) \<and> \<not> cd_auditIncomplete (evaluateCleanup now ?l)) = audited attempt ops"
    by (auto simp: evaluateCleanup_def Let_def split: js_num.splits)
  then show ?thesis using Inr l(1) b by simp
qed

section \<open>Examples\<close>

definition demo_retention :: "string \<Rightarrow> string \<Rightarrow> retention_input" where
  "demo_retention node attempt = \<lparr> ti_nodeId = node, ti_attemptId = attempt, ti_phase = ''C'', ti_transcriptPath = ''logs/t.txt'',
     ti_finalize = Some ''raw'', ti_redact = (\<lambda>t. Some (plain [(''text'', Str ''clean''), (''policyVersion'', Str ''1''), (''redactionCount'', JInt 1)])),
     ti_put = (\<lambda>k b. Some (Str k)), ti_get = (\<lambda>k. Some (Some ''clean'')), ti_commit = (\<lambda>r. True), ti_mediaType = None, ti_now = Some 0 \<rparr>"

lemma demo_retained: "case fst (retainTranscript id (demo_retention ''n'' ''n/1'')) of Audit_complete r steps \<Rightarrow> ar_sha256 r = ''clean'' | _ \<Rightarrow> False"
  by code_simp

text \<open>
  The key keeps dots, so a node or attempt id of two dots is a parent segment of the key that
  the store gets; and ids that differ only in replaced characters share their key.
\<close>

lemma object_key_escapes: "objectKey (demo_retention ''..'' ''..'') = ''../../C.transcript''"
  by code_simp

lemma object_keys_collide: "objectKey (demo_retention ''n'' ''n/1'') = objectKey (demo_retention ''n'' ''n_1'')"
  by code_simp

text \<open>An invalid clock makes the pipeline throw after the object was stored.\<close>

lemma retention_throws: "retainTranscript id (demo_retention ''n'' ''a'' \<lparr> ti_now := None \<rparr>) =
    (Retention_threw ''Invalid time value'', [Finalized, Redacted ''raw'', Put ''n/a/C.transcript'' ''clean'', Got ''n/a/C.transcript''])"
  by code_simp

end
