(* ===== verification/Js_Objects.thy ===== *)
theory Js_Objects
  imports Js_Values
begin

text \<open>
  Spreading a value into an object, as JavaScript does for \<^verbatim>\<open>{ ...value }\<close>: its own
  enumerable fields replace those before it, in their place, or are appended.
\<close>

fun own_fields :: "js \<Rightarrow> (string \<times> js) list" where
  "own_fields (Obj p fs) = fs"
| "own_fields (Arr xs) = zip (map nat_str [0..<length xs]) xs"
| "own_fields (Str cs) = zip (map nat_str [0..<length cs]) (map (\<lambda>c. Str [c]) cs)"
| "own_fields v = []"

fun put_field :: "(string \<times> js) \<Rightarrow> (string \<times> js) list \<Rightarrow> (string \<times> js) list" where
  "put_field f [] = [f]"
| "put_field f (g # gs) = (if fst g = fst f then f # gs else g # put_field f gs)"

lemma map_of_put_field: "map_of (put_field f fs) = (map_of fs)(fst f \<mapsto> snd f)"
  by (induction fs) (auto simp: fun_eq_iff)

end
