(* ===== verification/Repository_Sandbox.thy ===== *)
theory Repository_Sandbox
  imports Js_Objects "HOL-Library.Sublist"
begin

text \<open>
  The persistent container of an attempt (\<^verbatim>\<open>agent-execution/repository-sandbox.ts\<close>): how it is
  created, and the asynchronous machine that starts it, sends tool requests to the supervisor
  inside it one at a time, and tears it down.

  The source is single-threaded; its atomic steps are the calls of \<open>start\<close>, \<open>runTool\<close> and
  \<open>stop\<close>, the events of the child process and of the timers, and the continuations of its
  awaits. \<open>sandbox_event\<close> names them, and \<open>handle\<close> is the code that runs for each. A
  continuation is a step of its own, so anything may happen before it. Random ids and the
  outcome of external operations come with the event; \<open>parse\<close> is \<^verbatim>\<open>JSON.parse\<close> of a line of
  bytes (None when it throws).
\<close>

section \<open>Creating the container\<close>

definition hex_char :: "char \<Rightarrow> bool" where
  "hex_char c = (let n = of_char c :: nat in (48 \<le> n \<and> n \<le> 57) \<or> (65 \<le> n \<and> n \<le> 70) \<or> (97 \<le> n \<and> n \<le> 102))"

definition is_alnum :: "char \<Rightarrow> bool" where
  "is_alnum c = (let n = of_char c :: nat in (48 \<le> n \<and> n \<le> 57) \<or> (65 \<le> n \<and> n \<le> 90) \<or> (97 \<le> n \<and> n \<le> 122))"

text \<open>\<^verbatim>\<open>CONTAINER_ID_RE\<close>.\<close>

definition container_id :: "string \<Rightarrow> bool" where
  "container_id s = (6 \<le> length s \<and> length s \<le> 64 \<and> list_all hex_char s)"

text \<open>\<^verbatim>\<open>LABEL_KEY_RE\<close> and \<^verbatim>\<open>LABEL_VALUE_RE\<close>: names of letters and digits with single separators.\<close>

definition label_name :: "string \<Rightarrow> bool" where
  "label_name s = list_all (\<lambda>w. w \<noteq> [] \<and> list_all is_alnum w) (split_on (\<lambda>c. c \<in> {CHR ''.'', CHR ''_'', CHR ''-''}) s)"

definition label_key :: "string \<Rightarrow> bool" where
  "label_key s = (let ps = split_on (\<lambda>c. c = CHR ''/'') s in length ps \<le> 2 \<and> list_all label_name ps)"

definition label_value :: "string \<Rightarrow> bool" where
  "label_value s = (s \<noteq> [] \<and> list_all (\<lambda>c. is_alnum c \<or> c \<in> {CHR ''.'', CHR ''_'', CHR ''='', CHR ''-''}) s)"

definition assertValidProofLabel :: "string \<times> string \<Rightarrow> string option" where
  "assertValidProofLabel label =
     (if fst label = [] \<or> 128 < length (fst label) \<or> snd label = [] \<or> 128 < length (snd label)
         \<or> \<not> label_key (fst label) \<or> \<not> label_value (snd label)
      then Some ''rejected invalid proof ownership label (validated metadata only)'' else None)"

record sandbox_options =
  so_image :: string
  so_workspacePath :: string
  so_uid :: nat
  so_gid :: nat
  so_cpuLimit :: string
  so_memoryLimit :: string
  so_pidsLimit :: nat
  so_label :: "(string \<times> string) option"

text \<open>The checks of \<open>createRepositorySandbox\<close>, in order; an absent limit is empty or zero.\<close>

definition sandbox_options_error :: "sandbox_options \<Rightarrow> string option" where
  "sandbox_options_error so =
     (if \<not> prefix ''sha256:'' (so_image so) then Some ''sandbox image must be an explicit sha256:<id> image ID''
      else if \<not> (length (so_image so) = 71 \<and> list_all hex_char (drop 7 (so_image so)))
      then Some ''sandbox image ID must be a 64-character hex sha256 digest''
      else if so_uid so = 0 then Some ''sandbox identity rejected: container execution as uid 0 is not permitted''
      else case so_label so of None \<Rightarrow> None | Some l \<Rightarrow> assertValidProofLabel l)"

definition buildCreateArgs :: "sandbox_options \<Rightarrow> string \<Rightarrow> string list" where
  "buildCreateArgs so cidfile =
     [''run'', ''--init'', ''-i'', ''--cidfile'', cidfile, ''--network=none'', ''--privileged=false'',
      ''--security-opt=no-new-privileges'', ''--cap-drop=ALL'', ''--read-only'',
      ''--user'', nat_str (so_uid so) @ '':'' @ nat_str (so_gid so), ''--label'', ''io.agent-pool.owned=true'']
     @ (case so_label so of Some (k, v) \<Rightarrow> [''--label'', k @ ''='' @ v] | None \<Rightarrow> [])
     @ [''--tmpfs'', ''/tmp:noexec,nosuid,size=100m'', ''-v'', so_workspacePath so @ '':/workspace:rw'', ''-w'', ''/workspace'',
        ''-e'', ''HOME=/workspace/.home'']
     @ (if so_cpuLimit so = [] then [] else [''--cpus'', so_cpuLimit so])
     @ (if so_memoryLimit so = [] then [] else [''--memory'', so_memoryLimit so])
     @ (if so_pidsLimit so = 0 then [] else [''--pids-limit'', nat_str (so_pidsLimit so)])
     @ [so_image so]"

section \<open>The state\<close>

datatype sandbox_state = Created | Starting | Started | Stopping | Stopped | Terminal

text \<open>How a wait for readiness ended, and where the code of \<open>start\<close> and of \<open>stop\<close> stands.\<close>

datatype race_result = Race_ready bool | Race_cancelled

datatype start_phase = Not_started | Awaiting_id | Awaiting_ready | Start_removing | Start_over bool

datatype stop_phase = Not_stopped | Awaiting_start | Awaiting_exit | Stop_removing bool | Stop_over bool

datatype removal = Not_removed | Removing | Removed bool

datatype answer = Local string | Frame js

record sandbox =
  sb_state :: sandbox_state
  sb_child :: bool
  sb_owned :: string
  sb_intakeClosed :: bool
  sb_start :: start_phase
  sb_cancelled :: bool
  sb_resolver :: bool
  sb_ready :: "bool option"
  sb_readySeen :: bool
  sb_race :: "race_result option"
  sb_exited :: bool
  sb_buffer :: string
  sb_next :: nat
  sb_queue :: "(nat \<times> js) list"
  sb_running :: "nat option"
  sb_waiters :: "(string \<times> nat) list"
  sb_timer :: bool
  sb_grace :: "string list"
  sb_aborted :: "nat list"
  sb_removal :: removal
  sb_stop :: stop_phase
  sb_crashed :: bool
  sb_spawns :: nat
  sb_removals :: "string list"
  sb_frames :: "js list"
  sb_answers :: "(nat \<times> answer) list"

definition created_sandbox :: sandbox where
  "created_sandbox = \<lparr> sb_state = Created, sb_child = False, sb_owned = [], sb_intakeClosed = False, sb_start = Not_started,
     sb_cancelled = False, sb_resolver = False, sb_ready = None, sb_readySeen = False, sb_race = None, sb_exited = False,
     sb_buffer = [], sb_next = 0, sb_queue = [], sb_running = None, sb_waiters = [], sb_timer = False, sb_grace = [], sb_aborted = [],
     sb_removal = Not_removed, sb_stop = Not_stopped, sb_crashed = False, sb_spawns = 0, sb_removals = [], sb_frames = [], sb_answers = [] \<rparr>"

definition MAX_RESPONSE_BYTES :: int where "MAX_RESPONSE_BYTES = 10 * 1024 * 1024"

section \<open>Helpers\<close>

definition writeFrame :: "js \<Rightarrow> sandbox \<Rightarrow> sandbox" where
  "writeFrame frame s = (if \<not> sb_child s \<or> sb_intakeClosed s then s else s\<lparr> sb_frames := sb_frames s @ [frame] \<rparr>)"

definition cancel_frame :: "string \<Rightarrow> string \<Rightarrow> js" where
  "cancel_frame i target = plain [(''id'', Str i), (''control'', Str ''cancel''), (''targetId'', Str target)]"

definition request_frame :: "string \<Rightarrow> js \<Rightarrow> js" where
  "request_frame i request = plain (fold put_field (own_fields request) [(''id'', Str i)])"

definition mapResponse :: "js \<Rightarrow> answer" where
  "mapResponse raw =
     (if fld raw ''ok'' = Bool True then Frame raw
      else Local (case fld raw ''error'' of Str e \<Rightarrow> e | _ \<Rightarrow> ''sandbox error''))"

text \<open>The running request gets its answer; its timers and its listener go.\<close>

definition finish :: "answer \<Rightarrow> sandbox \<Rightarrow> sandbox" where
  "finish a s =
     (case sb_waiters s of
        [] \<Rightarrow> s
      | (i, t) # ws \<Rightarrow> s\<lparr> sb_waiters := ws, sb_running := None, sb_timer := False, sb_grace := [], sb_answers := sb_answers s @ [(t, a)] \<rparr>)"

definition resolve_ready :: "bool \<Rightarrow> sandbox \<Rightarrow> sandbox" where
  "resolve_ready ok s =
     (if \<not> sb_resolver s then s
      else s\<lparr> sb_resolver := False, sb_ready := Some ok,
              sb_race := (if sb_start s = Awaiting_ready \<and> sb_race s = None then Some (Race_ready ok) else sb_race s) \<rparr>)"

definition settleWaitersAndTerminal :: "string \<Rightarrow> sandbox \<Rightarrow> sandbox" where
  "settleWaitersAndTerminal m s = resolve_ready False (finish (Local m) (s\<lparr> sb_state := Terminal, sb_intakeClosed := True \<rparr>))"

text \<open>A line of the supervisor. \<^verbatim>\<open>null\<close> is valid JSON, and reading its field throws.\<close>

definition routeLine :: "(string \<Rightarrow> js option) \<Rightarrow> string \<Rightarrow> sandbox \<Rightarrow> sandbox" where
  "routeLine parse line s =
     (case parse line of
        None \<Rightarrow> s
      | Some parsed \<Rightarrow>
          if parsed = Null then s\<lparr> sb_crashed := True \<rparr>
          else if fld parsed ''ready'' = Bool True then resolve_ready True (s\<lparr> sb_readySeen := True \<rparr>)
          else (case fld parsed ''id'' of
             Str i \<Rightarrow> if i \<noteq> [] \<and> i \<in> fst ` set (sb_waiters s) then finish (mapResponse parsed) s else s
           | _ \<Rightarrow> s))"

fun route_lines :: "(string \<Rightarrow> js option) \<Rightarrow> string list \<Rightarrow> sandbox \<Rightarrow> sandbox" where
  "route_lines parse [] s = s"
| "route_lines parse (l # ls) s =
     (if sb_crashed s then s else route_lines parse ls (if l = [] then s else routeLine parse l s))"

text \<open>A chunk: the last bytes within the limit are kept, complete lines are routed, the rest stays.\<close>

definition on_data :: "(string \<Rightarrow> js option) \<Rightarrow> string \<Rightarrow> sandbox \<Rightarrow> sandbox" where
  "on_data parse chunk s =
     (let b = sb_buffer s @ chunk;
          b' = (if MAX_RESPONSE_BYTES < int (length b) then drop (nat (int (length b) - MAX_RESPONSE_BYTES)) b else b);
          ls = split_on (\<lambda>c. c = CHR 0x0A) b' in
      route_lines parse (butlast ls) (s\<lparr> sb_buffer := last ls \<rparr>))"

text \<open>One removal per owned id; nothing is removed while no id is known.\<close>

definition removeOwnedOnce :: "sandbox \<Rightarrow> sandbox" where
  "removeOwnedOnce s =
     (if sb_removal s \<noteq> Not_removed \<or> sb_owned s = [] then s
      else s\<lparr> sb_removal := Removing, sb_removals := sb_removals s @ [sb_owned s] \<rparr>)"

definition removal_outcome :: "sandbox \<Rightarrow> bool option" where
  "removal_outcome s = (case sb_removal s of Removed ok \<Rightarrow> Some ok | Removing \<Rightarrow> None | Not_removed \<Rightarrow> Some True)"

section \<open>Starting and stopping\<close>

definition call_start :: "bool \<Rightarrow> sandbox \<Rightarrow> sandbox" where
  "call_start spawned s =
     (if sb_state s \<noteq> Created then s
      else if \<not> spawned then s\<lparr> sb_state := Terminal, sb_intakeClosed := True, sb_start := Start_over False \<rparr>
      else s\<lparr> sb_state := Starting, sb_child := True, sb_spawns := sb_spawns s + 1, sb_readySeen := False, sb_resolver := True,
              sb_start := Awaiting_id \<rparr>)"

definition start_failed :: "sandbox \<Rightarrow> sandbox" where
  "start_failed s = removeOwnedOnce (s\<lparr> sb_start := Start_removing \<rparr>)"

text \<open>The id file was read within its deadline, or not. The race prefers readiness that came before.\<close>

definition id_read :: "string option \<Rightarrow> sandbox \<Rightarrow> sandbox" where
  "id_read i s =
     (case i of
        Some c \<Rightarrow> s\<lparr> sb_owned := c, sb_start := Awaiting_ready,
          sb_race := (case sb_ready s of Some ok \<Rightarrow> Some (Race_ready ok) | None \<Rightarrow> if sb_cancelled s then Some Race_cancelled else None) \<rparr>
      | None \<Rightarrow> start_failed s)"

definition start_resumed :: "race_result \<Rightarrow> sandbox \<Rightarrow> sandbox" where
  "start_resumed r s =
     (if (case r of Race_ready ok \<Rightarrow> ok \<or> sb_readySeen s | Race_cancelled \<Rightarrow> False)
      then s\<lparr> sb_state := Started, sb_start := Start_over True \<rparr> else start_failed s)"

definition start_removed :: "bool \<Rightarrow> sandbox \<Rightarrow> sandbox" where
  "start_removed ok s =
     (if ok then s\<lparr> sb_state := Terminal, sb_intakeClosed := True, sb_start := Start_over False \<rparr> else s\<lparr> sb_start := Start_over False \<rparr>)"

definition start_in_flight :: "sandbox \<Rightarrow> bool" where
  "start_in_flight s = (sb_start s \<in> {Awaiting_id, Awaiting_ready, Start_removing})"

definition stop_body :: "sandbox \<Rightarrow> sandbox" where
  "stop_body s =
     (if sb_state s = Stopped \<or> sb_state s = Terminal then removeOwnedOnce (s\<lparr> sb_stop := Stop_removing False \<rparr>)
      else if sb_state s = Started \<and> sb_child s then s\<lparr> sb_state := Stopping, sb_intakeClosed := True, sb_stop := Awaiting_exit \<rparr>
      else removeOwnedOnce (s\<lparr> sb_state := Stopping, sb_intakeClosed := True, sb_stop := Stop_removing True \<rparr>))"

definition call_stop :: "sandbox \<Rightarrow> sandbox" where
  "call_stop s =
     (if sb_stop s \<noteq> Not_stopped then s
      else if start_in_flight s
      then s\<lparr> sb_cancelled := True, sb_stop := Awaiting_start,
              sb_race := (if sb_start s = Awaiting_ready \<and> sb_race s = None then Some Race_cancelled else sb_race s) \<rparr>
      else stop_body s)"

definition stop_removed :: "bool \<Rightarrow> bool \<Rightarrow> sandbox \<Rightarrow> sandbox" where
  "stop_removed settle ok s =
     (if settle then (finish (Local ''sandbox stopped'') s)\<lparr> sb_state := Stopped, sb_stop := Stop_over ok \<rparr>
      else s\<lparr> sb_stop := Stop_over ok \<rparr>)"

section \<open>Tool requests\<close>

definition call_tool :: "js \<Rightarrow> sandbox \<Rightarrow> sandbox" where
  "call_tool request s =
     (if sb_state s \<noteq> Started then s
      else s\<lparr> sb_queue := sb_queue s @ [(sb_next s, request)], sb_next := sb_next s + 1 \<rparr>)"

definition cancel_running :: "string \<Rightarrow> string \<Rightarrow> sandbox \<Rightarrow> sandbox" where
  "cancel_running m cancelId s =
     (case sb_waiters s of
        [] \<Rightarrow> s
      | (i, t) # _ \<Rightarrow> (writeFrame (cancel_frame cancelId i) s)\<lparr> sb_grace := sb_grace s @ [m] \<rparr>)"

definition begin_tool :: "string \<Rightarrow> string \<Rightarrow> nat \<Rightarrow> js \<Rightarrow> (nat \<times> js) list \<Rightarrow> sandbox \<Rightarrow> sandbox" where
  "begin_tool i cancelId t request rest s =
     (let s1 = writeFrame (request_frame i request)
                 (s\<lparr> sb_queue := rest, sb_running := Some t, sb_waiters := [(i, t)], sb_timer := True, sb_grace := [] \<rparr>) in
      if t \<in> set (sb_aborted s) then cancel_running ''sandbox tool cancelled'' cancelId s1 else s1)"

definition abort_tool :: "nat \<Rightarrow> string \<Rightarrow> sandbox \<Rightarrow> sandbox" where
  "abort_tool t cancelId s =
     (let s1 = s\<lparr> sb_aborted := t # sb_aborted s \<rparr> in
      if sb_running s = Some t then cancel_running ''sandbox tool cancelled'' cancelId s1 else s1)"

section \<open>The machine\<close>

datatype sandbox_event =
    Call_start bool
  | Id_read "string option"
  | Ready_timeout
  | Start_resumes
  | Start_removed
  | Data string
  | Stream_ends
  | Stream_fails
  | Child_exits
  | Removal_settles bool
  | Call_tool js
  | Tool_begins string string
  | Tool_times_out string
  | Tool_aborts nat string
  | Grace_ends string
  | Call_stop
  | Stop_resumes
  | Stop_waited
  | Stop_removed

text \<open>None where the event cannot happen.\<close>

fun handle :: "(string \<Rightarrow> js option) \<Rightarrow> sandbox_event \<Rightarrow> sandbox \<Rightarrow> sandbox option" where
  "handle parse (Call_start spawned) s = Some (call_start spawned s)"
| "handle parse (Id_read i) s =
     (if sb_start s = Awaiting_id \<and> (case i of Some c \<Rightarrow> container_id c | None \<Rightarrow> True) then Some (id_read i s) else None)"
| "handle parse Ready_timeout s =
     (if (sb_start s = Awaiting_id \<or> sb_start s = Awaiting_ready) \<and> sb_resolver s then Some (resolve_ready (sb_readySeen s) s) else None)"
| "handle parse Start_resumes s =
     (if sb_start s = Awaiting_ready then (case sb_race s of Some r \<Rightarrow> Some (start_resumed r s) | None \<Rightarrow> None) else None)"
| "handle parse Start_removed s =
     (if sb_start s = Start_removing then map_option (\<lambda>ok. start_removed ok s) (removal_outcome s) else None)"
| "handle parse (Data chunk) s = (if sb_child s then Some (on_data parse chunk s) else None)"
| "handle parse Stream_ends s = (if sb_child s then Some (settleWaitersAndTerminal ''sandbox supervisor exited'' s) else None)"
| "handle parse Stream_fails s = (if sb_child s then Some (settleWaitersAndTerminal ''sandbox supervisor stream error'' s) else None)"
| "handle parse Child_exits s =
     (if sb_child s \<and> \<not> sb_exited s then Some (settleWaitersAndTerminal ''sandbox container exited'' (s\<lparr> sb_exited := True \<rparr>)) else None)"
| "handle parse (Removal_settles ok) s = (if sb_removal s = Removing then Some (s\<lparr> sb_removal := Removed ok \<rparr>) else None)"
| "handle parse (Call_tool request) s = Some (call_tool request s)"
| "handle parse (Tool_begins i cancelId) s =
     (case (sb_running s, sb_queue s) of (None, (t, request) # rest) \<Rightarrow> if i = [] then None else Some (begin_tool i cancelId t request rest s) | _ \<Rightarrow> None)"
| "handle parse (Tool_times_out cancelId) s =
     (if sb_timer s then Some ((cancel_running ''sandbox tool timeout'' cancelId s)\<lparr> sb_timer := False \<rparr>) else None)"
| "handle parse (Tool_aborts t cancelId) s =
     (if t < sb_next s \<and> t \<notin> set (sb_aborted s) then Some (abort_tool t cancelId s) else None)"
| "handle parse (Grace_ends m) s = (if m \<in> set (sb_grace s) then Some (finish (Local m) s) else None)"
| "handle parse Call_stop s = Some (call_stop s)"
| "handle parse Stop_resumes s = (if sb_stop s = Awaiting_start \<and> \<not> start_in_flight s then Some (stop_body s) else None)"
| "handle parse Stop_waited s =
     (if sb_stop s = Awaiting_exit then Some (removeOwnedOnce (s\<lparr> sb_stop := Stop_removing True \<rparr>)) else None)"
| "handle parse Stop_removed s =
     (case sb_stop s of Stop_removing settle \<Rightarrow> map_option (\<lambda>ok. stop_removed settle ok s) (removal_outcome s) | _ \<Rightarrow> None)"

text \<open>A crashed host does nothing more.\<close>

definition sandbox_do :: "(string \<Rightarrow> js option) \<Rightarrow> sandbox_event \<Rightarrow> sandbox \<Rightarrow> sandbox option" where
  "sandbox_do parse e s = (if sb_crashed s then None else handle parse e s)"

inductive sandbox_step :: "(string \<Rightarrow> js option) \<Rightarrow> sandbox \<Rightarrow> sandbox \<Rightarrow> bool" for parse where
  step: "sandbox_do parse e s = Some t \<Longrightarrow> sandbox_step parse s t"

inductive_cases sandbox_stepE: "sandbox_step parse s t"

fun sandbox_run :: "(string \<Rightarrow> js option) \<Rightarrow> sandbox_event list \<Rightarrow> sandbox \<Rightarrow> sandbox option" where
  "sandbox_run parse [] s = Some s"
| "sandbox_run parse (e # es) s = (case sandbox_do parse e s of None \<Rightarrow> None | Some t \<Rightarrow> sandbox_run parse es t)"

end
