(* ===== verification/Sandbox_Invariants.thy ===== *)
theory Sandbox_Invariants
  imports Repository_Sandbox
begin

text \<open>
  The invariants of the container machine: they hold after every step, whatever the
  supervisor, the timers, the callers and the container runtime do, in any interleaving. One
  is about the tool requests, one about the container, one about the cancellation of a start.
\<close>

section \<open>What the helpers leave alone\<close>

lemma finish_frame [simp]:
  "sb_state (finish a s) = sb_state s" "sb_child (finish a s) = sb_child s" "sb_owned (finish a s) = sb_owned s"
  "sb_intakeClosed (finish a s) = sb_intakeClosed s" "sb_start (finish a s) = sb_start s" "sb_cancelled (finish a s) = sb_cancelled s"
  "sb_resolver (finish a s) = sb_resolver s" "sb_ready (finish a s) = sb_ready s" "sb_readySeen (finish a s) = sb_readySeen s"
  "sb_race (finish a s) = sb_race s" "sb_next (finish a s) = sb_next s" "sb_queue (finish a s) = sb_queue s"
  "sb_removal (finish a s) = sb_removal s" "sb_stop (finish a s) = sb_stop s" "sb_crashed (finish a s) = sb_crashed s"
  "sb_spawns (finish a s) = sb_spawns s" "sb_removals (finish a s) = sb_removals s" "sb_frames (finish a s) = sb_frames s"
  by (simp_all add: finish_def split: list.split prod.split)

lemma resolve_ready_frame [simp]:
  "sb_state (resolve_ready b s) = sb_state s" "sb_child (resolve_ready b s) = sb_child s" "sb_owned (resolve_ready b s) = sb_owned s"
  "sb_intakeClosed (resolve_ready b s) = sb_intakeClosed s" "sb_start (resolve_ready b s) = sb_start s"
  "sb_readySeen (resolve_ready b s) = sb_readySeen s" "sb_next (resolve_ready b s) = sb_next s" "sb_queue (resolve_ready b s) = sb_queue s"
  "sb_running (resolve_ready b s) = sb_running s" "sb_waiters (resolve_ready b s) = sb_waiters s" "sb_timer (resolve_ready b s) = sb_timer s"
  "sb_grace (resolve_ready b s) = sb_grace s" "sb_answers (resolve_ready b s) = sb_answers s"
  "sb_removal (resolve_ready b s) = sb_removal s" "sb_stop (resolve_ready b s) = sb_stop s" "sb_crashed (resolve_ready b s) = sb_crashed s"
  "sb_spawns (resolve_ready b s) = sb_spawns s" "sb_removals (resolve_ready b s) = sb_removals s" "sb_frames (resolve_ready b s) = sb_frames s"
  by (simp_all add: resolve_ready_def)

lemma removeOwnedOnce_frame [simp]:
  "sb_state (removeOwnedOnce s) = sb_state s" "sb_child (removeOwnedOnce s) = sb_child s" "sb_owned (removeOwnedOnce s) = sb_owned s"
  "sb_intakeClosed (removeOwnedOnce s) = sb_intakeClosed s" "sb_start (removeOwnedOnce s) = sb_start s" "sb_ready (removeOwnedOnce s) = sb_ready s"
  "sb_readySeen (removeOwnedOnce s) = sb_readySeen s" "sb_race (removeOwnedOnce s) = sb_race s" "sb_next (removeOwnedOnce s) = sb_next s"
  "sb_queue (removeOwnedOnce s) = sb_queue s" "sb_running (removeOwnedOnce s) = sb_running s" "sb_waiters (removeOwnedOnce s) = sb_waiters s"
  "sb_timer (removeOwnedOnce s) = sb_timer s" "sb_grace (removeOwnedOnce s) = sb_grace s" "sb_answers (removeOwnedOnce s) = sb_answers s"
  "sb_stop (removeOwnedOnce s) = sb_stop s" "sb_crashed (removeOwnedOnce s) = sb_crashed s" "sb_spawns (removeOwnedOnce s) = sb_spawns s"
  "sb_frames (removeOwnedOnce s) = sb_frames s" "sb_resolver (removeOwnedOnce s) = sb_resolver s" "sb_cancelled (removeOwnedOnce s) = sb_cancelled s"
  by (simp_all add: removeOwnedOnce_def)

lemma writeFrame_frame [simp]:
  "sb_state (writeFrame f s) = sb_state s" "sb_child (writeFrame f s) = sb_child s" "sb_owned (writeFrame f s) = sb_owned s"
  "sb_intakeClosed (writeFrame f s) = sb_intakeClosed s" "sb_start (writeFrame f s) = sb_start s" "sb_ready (writeFrame f s) = sb_ready s"
  "sb_readySeen (writeFrame f s) = sb_readySeen s" "sb_race (writeFrame f s) = sb_race s" "sb_next (writeFrame f s) = sb_next s"
  "sb_queue (writeFrame f s) = sb_queue s" "sb_running (writeFrame f s) = sb_running s" "sb_waiters (writeFrame f s) = sb_waiters s"
  "sb_timer (writeFrame f s) = sb_timer s" "sb_grace (writeFrame f s) = sb_grace s" "sb_answers (writeFrame f s) = sb_answers s"
  "sb_removal (writeFrame f s) = sb_removal s" "sb_stop (writeFrame f s) = sb_stop s" "sb_crashed (writeFrame f s) = sb_crashed s"
  "sb_spawns (writeFrame f s) = sb_spawns s" "sb_removals (writeFrame f s) = sb_removals s" "sb_resolver (writeFrame f s) = sb_resolver s"
  "sb_cancelled (writeFrame f s) = sb_cancelled s" "sb_aborted (writeFrame f s) = sb_aborted s"
  by (simp_all add: writeFrame_def)

lemma cancel_running_frame [simp]:
  "sb_state (cancel_running m c s) = sb_state s" "sb_child (cancel_running m c s) = sb_child s" "sb_owned (cancel_running m c s) = sb_owned s"
  "sb_intakeClosed (cancel_running m c s) = sb_intakeClosed s" "sb_start (cancel_running m c s) = sb_start s"
  "sb_ready (cancel_running m c s) = sb_ready s" "sb_readySeen (cancel_running m c s) = sb_readySeen s" "sb_race (cancel_running m c s) = sb_race s"
  "sb_next (cancel_running m c s) = sb_next s" "sb_queue (cancel_running m c s) = sb_queue s" "sb_running (cancel_running m c s) = sb_running s"
  "sb_waiters (cancel_running m c s) = sb_waiters s" "sb_timer (cancel_running m c s) = sb_timer s"
  "sb_answers (cancel_running m c s) = sb_answers s" "sb_removal (cancel_running m c s) = sb_removal s" "sb_stop (cancel_running m c s) = sb_stop s"
  "sb_crashed (cancel_running m c s) = sb_crashed s" "sb_spawns (cancel_running m c s) = sb_spawns s"
  "sb_removals (cancel_running m c s) = sb_removals s" "sb_resolver (cancel_running m c s) = sb_resolver s"
  "sb_cancelled (cancel_running m c s) = sb_cancelled s"
  by (simp_all add: cancel_running_def split: list.split prod.split)

lemma removeOwnedOnce_removal:
  "sb_removal (removeOwnedOnce s) = (if sb_removal s \<noteq> Not_removed \<or> sb_owned s = [] then sb_removal s else Removing)"
  "sb_removals (removeOwnedOnce s) = (if sb_removal s \<noteq> Not_removed \<or> sb_owned s = [] then sb_removals s else sb_removals s @ [sb_owned s])"
  by (simp_all add: removeOwnedOnce_def)

lemmas sandbox_ops = call_start_def start_failed_def id_read_def start_resumed_def start_removed_def stop_body_def call_stop_def stop_removed_def
  call_tool_def begin_tool_def abort_tool_def settleWaitersAndTerminal_def Let_def

text \<open>Whatever lines arrive do what single lines do.\<close>

lemma lines_induct:
  assumes "\<And>l s. P s \<Longrightarrow> P (routeLine parse l s)" "P s"
  shows "P (route_lines parse ls s)"
  using assms(2) by (induction ls arbitrary: s) (auto intro: assms(1))

lemma on_data_induct:
  assumes "\<And>l s. P s \<Longrightarrow> P (routeLine parse l s)" "\<And>b. P (s\<lparr> sb_buffer := b \<rparr>)"
  shows "P (on_data parse chunk s)"
  unfolding on_data_def Let_def by (rule lines_induct) (use assms in auto)

section \<open>Requests\<close>

definition running_list :: "sandbox \<Rightarrow> nat list" where
  "running_list s = (case sb_running s of None \<Rightarrow> [] | Some t \<Rightarrow> [t])"

text \<open>
  Every accepted request is answered, running or queued, in the order of acceptance; at most
  one is running, and it is the one that waits for an answer, with a timer or a grace period under way.
\<close>

definition requests_ok :: "sandbox \<Rightarrow> bool" where
  "requests_ok s \<longleftrightarrow> map snd (sb_waiters s) = running_list s
     \<and> map fst (sb_answers s) @ running_list s @ map fst (sb_queue s) = [0..<sb_next s]
     \<and> (sb_running s = None \<longleftrightarrow> \<not> sb_timer s \<and> sb_grace s = [])"

lemma requests_frame [simp]:
  "requests_ok (s\<lparr> sb_state := x1 \<rparr>) = requests_ok s" "requests_ok (s\<lparr> sb_stop := x2 \<rparr>) = requests_ok s"
  "requests_ok (s\<lparr> sb_intakeClosed := x3 \<rparr>) = requests_ok s" "requests_ok (s\<lparr> sb_crashed := x4 \<rparr>) = requests_ok s"
  "requests_ok (s\<lparr> sb_readySeen := x5 \<rparr>) = requests_ok s" "requests_ok (s\<lparr> sb_exited := x6 \<rparr>) = requests_ok s"
  "requests_ok (s\<lparr> sb_buffer := x7 \<rparr>) = requests_ok s" "requests_ok (s\<lparr> sb_start := x8 \<rparr>) = requests_ok s"
  "requests_ok (s\<lparr> sb_race := x9 \<rparr>) = requests_ok s" "requests_ok (s\<lparr> sb_cancelled := x10 \<rparr>) = requests_ok s"
  "requests_ok (s\<lparr> sb_removal := x11 \<rparr>) = requests_ok s" "requests_ok (s\<lparr> sb_owned := x12 \<rparr>) = requests_ok s"
  "requests_ok (s\<lparr> sb_child := x13 \<rparr>) = requests_ok s" "requests_ok (s\<lparr> sb_spawns := x14 \<rparr>) = requests_ok s"
  "requests_ok (s\<lparr> sb_resolver := x15 \<rparr>) = requests_ok s" "requests_ok (s\<lparr> sb_aborted := x16 \<rparr>) = requests_ok s"
  "requests_ok (removeOwnedOnce s) = requests_ok s" "requests_ok (resolve_ready x17 s) = requests_ok s" "requests_ok (writeFrame x18 s) = requests_ok s"
  by (simp_all add: requests_ok_def running_list_def)

lemma finish_requests [simp]: "requests_ok s \<Longrightarrow> requests_ok (finish a s)"
  unfolding requests_ok_def running_list_def finish_def by (auto split: list.splits option.splits)

lemma line_requests: "requests_ok s \<Longrightarrow> requests_ok (routeLine parse l s)"
  by (auto simp: routeLine_def split: option.split js.split)

lemma waiters_running: "requests_ok s \<Longrightarrow> sb_waiters s = [] \<longleftrightarrow> sb_running s = None"
  by (auto simp: requests_ok_def running_list_def split: option.splits)

lemma cancel_requests [simp]: "requests_ok s \<Longrightarrow> requests_ok (cancel_running m c s)"
  using waiters_running [of s] by (auto simp: requests_ok_def running_list_def cancel_running_def split: list.splits option.splits)

lemma begin_requests:
  assumes "requests_ok s" "sb_running s = None" "sb_queue s = (k, r) # rest"
  shows "requests_ok (begin_tool i c k r rest s)"
proof -
  have "requests_ok (s\<lparr> sb_queue := rest, sb_running := Some k, sb_waiters := [(i, k)], sb_timer := True, sb_grace := [] \<rparr>)"
    using assms by (auto simp: requests_ok_def running_list_def)
  then show ?thesis by (simp add: begin_tool_def Let_def)
qed

lemma step_requests:
  assumes "requests_ok s" "handle parse e s = Some t"
  shows "requests_ok t"
proof (cases e)
  case (Data chunk)
  have "requests_ok (on_data parse chunk s)"
    by (rule on_data_induct) (use assms(1) line_requests in auto)
  then show ?thesis using assms(2) Data by (simp split: if_splits)
next
  case (Call_tool request)
  then show ?thesis using assms by (cases "sb_state s = Started") (auto simp: requests_ok_def running_list_def call_tool_def)
next
  case (Tool_begins i c)
  then show ?thesis using assms by (auto simp: begin_requests split: option.splits list.splits if_splits)
next
  case (Tool_times_out c)
  have "requests_ok ((cancel_running m c s)\<lparr> sb_timer := False \<rparr>)" if "sb_timer s" for m
    using assms(1) that by (auto simp: requests_ok_def running_list_def cancel_running_def split: list.splits option.splits)
  then show ?thesis using assms Tool_times_out by (auto split: if_splits)
qed (use assms in \<open>auto simp: sandbox_ops begin_requests split: if_splits option.splits race_result.splits list.splits stop_phase.splits\<close>)

section \<open>The container\<close>

text \<open>
  One container at most, removed by its own captured id and once at most; readiness before
  work; and nothing but teardown once a stop has passed the start. Each clause is a
  predicate of the fields it is about.
\<close>

definition owned_ok :: "string \<Rightarrow> removal \<Rightarrow> string list \<Rightarrow> bool" where
  "owned_ok i r calls \<longleftrightarrow> i = [] \<and> r = Not_removed \<and> calls = [] \<or> container_id i \<and> calls = (if r = Not_removed then [] else [i])"

fun launch_ok :: "start_phase \<Rightarrow> bool \<Rightarrow> nat \<Rightarrow> bool \<Rightarrow> removal \<Rightarrow> bool" where
  "launch_ok Not_started child spawns none r = (\<not> child \<and> spawns = 0 \<and> none)"
| "launch_ok Awaiting_id child spawns none r = (child \<and> spawns = 1 \<and> none)"
| "launch_ok Awaiting_ready child spawns none r = (child \<and> spawns = 1 \<and> \<not> none)"
| "launch_ok Start_removing child spawns none r = (child \<and> spawns = 1 \<and> (none \<or> r \<noteq> Not_removed))"
| "launch_ok (Start_over ok) child spawns none r = (spawns = (if child then 1 else 0) \<and> (child \<or> none) \<and> (ok \<longrightarrow> child \<and> \<not> none))"

definition ready_ok :: "bool option \<Rightarrow> race_result option \<Rightarrow> bool \<Rightarrow> start_phase \<Rightarrow> bool \<Rightarrow> bool" where
  "ready_ok ready race seen start resolver \<longleftrightarrow> (ready = Some True \<or> race = Some (Race_ready True) \<or> start = Start_over True \<longrightarrow> seen)
     \<and> (start = Not_started \<longrightarrow> ready = None \<and> race = None \<and> \<not> resolver)"

fun state_ok :: "sandbox_state \<Rightarrow> start_phase \<Rightarrow> stop_phase \<Rightarrow> bool \<Rightarrow> bool" where
  "state_ok Created start stop intake = (start = Not_started \<and> stop = Not_stopped)"
| "state_ok Starting start stop intake = ((stop = Not_stopped \<or> stop = Awaiting_start) \<and> start \<noteq> Not_started)"
| "state_ok Started start stop intake = ((stop = Not_stopped \<or> stop = Awaiting_start) \<and> start = Start_over True)"
| "state_ok Stopping start stop intake = (intake \<and> (stop = Awaiting_exit \<or> stop = Stop_removing True))"
| "state_ok Stopped start stop intake = (intake \<and> (\<exists>ok. stop = Stop_over ok))"
| "state_ok Terminal start stop intake = intake"

definition in_flight :: "start_phase \<Rightarrow> bool" where
  "in_flight p \<longleftrightarrow> p \<in> {Awaiting_id, Awaiting_ready, Start_removing}"

fun stop_ok :: "stop_phase \<Rightarrow> start_phase \<Rightarrow> bool \<Rightarrow> removal \<Rightarrow> bool" where
  "stop_ok Not_stopped start none r = True"
| "stop_ok Awaiting_start start none r = (start \<noteq> Not_started)"
| "stop_ok Awaiting_exit start none r = (\<not> in_flight start)"
| "stop_ok (Stop_removing b) start none r = (\<not> in_flight start \<and> (none \<or> r \<noteq> Not_removed))"
| "stop_ok (Stop_over ok) start none r = (\<not> in_flight start \<and> (ok \<longrightarrow> none \<or> r = Removed True))"

definition machine_ok :: "sandbox \<Rightarrow> bool" where
  "machine_ok s \<longleftrightarrow> owned_ok (sb_owned s) (sb_removal s) (sb_removals s)
     \<and> launch_ok (sb_start s) (sb_child s) (sb_spawns s) (sb_owned s = []) (sb_removal s)
     \<and> ready_ok (sb_ready s) (sb_race s) (sb_readySeen s) (sb_start s) (sb_resolver s)
     \<and> state_ok (sb_state s) (sb_start s) (sb_stop s) (sb_intakeClosed s)
     \<and> stop_ok (sb_stop s) (sb_start s) (sb_owned s = []) (sb_removal s)"

lemma machine_upd [simp]:
  "machine_ok (s\<lparr> sb_crashed := x1 \<rparr>) = machine_ok s" "machine_ok (s\<lparr> sb_exited := x2 \<rparr>) = machine_ok s"
  "machine_ok (s\<lparr> sb_buffer := x3 \<rparr>) = machine_ok s" "machine_ok (s\<lparr> sb_cancelled := x4 \<rparr>) = machine_ok s"
  "machine_ok (s\<lparr> sb_queue := x5 \<rparr>) = machine_ok s" "machine_ok (s\<lparr> sb_next := x6 \<rparr>) = machine_ok s"
  "machine_ok (s\<lparr> sb_running := x7 \<rparr>) = machine_ok s" "machine_ok (s\<lparr> sb_waiters := x8 \<rparr>) = machine_ok s"
  "machine_ok (s\<lparr> sb_timer := x9 \<rparr>) = machine_ok s" "machine_ok (s\<lparr> sb_grace := x10 \<rparr>) = machine_ok s"
  "machine_ok (s\<lparr> sb_aborted := x11 \<rparr>) = machine_ok s" "machine_ok (finish x12 s) = machine_ok s"
  "machine_ok (writeFrame x13 s) = machine_ok s" "machine_ok (cancel_running x14 x15 s) = machine_ok s"
  by (simp_all add: machine_ok_def)

lemma begin_machine: "machine_ok (begin_tool i c k r rest s) = machine_ok s"
  by (simp add: begin_tool_def Let_def)

lemma child_started: "machine_ok s \<Longrightarrow> sb_child s \<Longrightarrow> sb_start s \<noteq> Not_started"
  by (auto simp: machine_ok_def)

lemma resolve_machine:
  assumes "machine_ok s" "b \<longrightarrow> sb_readySeen s"
  shows "machine_ok (resolve_ready b s)"
proof (cases "sb_resolver s")
  case True
  then have "sb_start s \<noteq> Not_started" using assms(1) by (auto simp: machine_ok_def ready_ok_def)
  moreover from this have "ready_ok (sb_ready (resolve_ready b s)) (sb_race (resolve_ready b s)) (sb_readySeen s) (sb_start s) (sb_resolver (resolve_ready b s))"
    using assms by (auto simp: machine_ok_def ready_ok_def resolve_ready_def)
  ultimately show ?thesis using assms(1) by (simp add: machine_ok_def)
next
  case False
  then show ?thesis using assms(1) by (simp add: resolve_ready_def)
qed

lemma terminal_machine:
  assumes "machine_ok s" "sb_child s"
  shows "machine_ok (settleWaitersAndTerminal m s)"
  unfolding settleWaitersAndTerminal_def
  by (rule resolve_machine) (use assms in \<open>simp_all add: machine_ok_def\<close>)

lemma line_machine: "machine_ok s \<Longrightarrow> machine_ok (routeLine parse l s)"
proof -
  assume a: "machine_ok s"
  then have "machine_ok (s\<lparr> sb_readySeen := True \<rparr>)" by (simp add: machine_ok_def ready_ok_def)
  then have "machine_ok (resolve_ready True (s\<lparr> sb_readySeen := True \<rparr>))" by (rule resolve_machine) simp
  then show ?thesis using a by (simp add: routeLine_def split: option.split js.split)
qed

lemma data_machine: "machine_ok s \<Longrightarrow> machine_ok (on_data parse chunk s)"
  by (rule on_data_induct) (simp_all add: line_machine)

text \<open>Asking for the removal establishes that it is asked for, where there is anything to remove.\<close>

lemma remove_machine:
  assumes "owned_ok (sb_owned s) (sb_removal s) (sb_removals s)"
    "\<And>r. sb_owned s = [] \<or> r \<noteq> Not_removed \<Longrightarrow> launch_ok (sb_start s) (sb_child s) (sb_spawns s) (sb_owned s = []) r
       \<and> ready_ok (sb_ready s) (sb_race s) (sb_readySeen s) (sb_start s) (sb_resolver s)
       \<and> state_ok (sb_state s) (sb_start s) (sb_stop s) (sb_intakeClosed s) \<and> stop_ok (sb_stop s) (sb_start s) (sb_owned s = []) r"
  shows "machine_ok (removeOwnedOnce s)"
proof -
  have "owned_ok (sb_owned s) (sb_removal (removeOwnedOnce s)) (sb_removals (removeOwnedOnce s))"
    using assms(1) by (auto simp: owned_ok_def removeOwnedOnce_def)
  moreover have "sb_owned s = [] \<or> sb_removal (removeOwnedOnce s) \<noteq> Not_removed" by (auto simp: removeOwnedOnce_removal)
  ultimately show ?thesis using assms(2) by (simp add: machine_ok_def)
qed

lemma failed_machine:
  assumes "machine_ok s" "in_flight (sb_start s)"
  shows "machine_ok (start_failed s)"
  unfolding start_failed_def
  by (rule remove_machine) (use assms in \<open>cases "sb_start s"; cases "sb_state s"; cases "sb_stop s"; auto simp: machine_ok_def in_flight_def ready_ok_def\<close>)+

lemma started_machine:
  assumes "machine_ok s"
  shows "machine_ok (call_start b s)"
proof (cases "sb_state s = Created")
  case True
  then have "sb_start s = Not_started" "sb_stop s = Not_stopped" using assms by (simp_all add: machine_ok_def)
  then show ?thesis using assms True
    by (cases b) (auto simp: call_start_def machine_ok_def ready_ok_def)
qed (use assms in \<open>simp add: call_start_def\<close>)

lemma id_machine:
  assumes "machine_ok s" "sb_start s = Awaiting_id" "case i of Some c \<Rightarrow> container_id c | None \<Rightarrow> True"
  shows "machine_ok (id_read i s)"
proof (cases i)
  case None
  then show ?thesis using failed_machine [OF assms(1)] assms(2) by (simp add: id_read_def in_flight_def)
next
  case (Some c)
  have "c \<noteq> []" using assms(3) Some by (auto simp: container_id_def)
  moreover have "sb_owned s = []" "sb_removal s = Not_removed" "sb_removals s = []"
    using assms(1,2) by (auto simp: machine_ok_def owned_ok_def container_id_def)
  ultimately show ?thesis using assms Some
    by (cases "sb_state s"; cases "sb_stop s") (auto simp: id_read_def machine_ok_def owned_ok_def ready_ok_def in_flight_def split: option.splits)
qed

lemma resumed_machine:
  assumes "machine_ok s" "sb_start s = Awaiting_ready" "sb_race s = Some r"
  shows "machine_ok (start_resumed r s)"
proof (cases "case r of Race_ready ok \<Rightarrow> ok \<or> sb_readySeen s | Race_cancelled \<Rightarrow> False")
  case True
  then have "sb_readySeen s" using assms by (auto simp: machine_ok_def ready_ok_def split: race_result.splits)
  then show ?thesis using assms True
    by (cases "sb_state s"; cases "sb_stop s") (auto simp: start_resumed_def machine_ok_def ready_ok_def in_flight_def)
next
  case False
  then have "start_resumed r s = start_failed s" by (simp add: start_resumed_def)
  then show ?thesis using failed_machine [OF assms(1)] assms(2) by (simp add: in_flight_def)
qed

lemma removed_machine:
  assumes "machine_ok s" "sb_start s = Start_removing"
  shows "machine_ok (start_removed ok s)"
  using assms by (cases "sb_state s"; cases "sb_stop s") (auto simp: start_removed_def machine_ok_def ready_ok_def in_flight_def)

lemma stop_body_machine:
  assumes "machine_ok s" "sb_stop s = Not_stopped \<or> sb_stop s = Awaiting_start" "\<not> in_flight (sb_start s)"
  shows "machine_ok (stop_body s)"
proof -
  have over: "sb_start s = Not_started \<or> (\<exists>ok. sb_start s = Start_over ok)" using assms(3) by (cases "sb_start s") (auto simp: in_flight_def)
  have no: "sb_state s \<noteq> Stopping" "sb_state s \<noteq> Stopped" using assms by (auto simp: machine_ok_def)
  have launched: "launch_ok (sb_start s) (sb_child s) (sb_spawns s) (sb_owned s = []) r" for r
    using assms(1) over by (auto simp: machine_ok_def)
  show ?thesis
  proof (cases "sb_state s = Terminal")
    case True
    then show ?thesis unfolding stop_body_def using assms launched
      by (simp, intro remove_machine) (auto simp: machine_ok_def)
  next
    case False
    show ?thesis
    proof (cases "sb_state s = Started \<and> sb_child s")
      case True
      then have "sb_start s = Start_over True" using assms(1) by (simp add: machine_ok_def)
      then show ?thesis using assms launched True by (simp add: stop_body_def machine_ok_def)
    next
      case f: False
      from f have "stop_body s = removeOwnedOnce (s\<lparr> sb_state := Stopping, sb_intakeClosed := True, sb_stop := Stop_removing True \<rparr>)"
        using no False by (auto simp: stop_body_def)
      moreover have "machine_ok \<dots>" using assms launched by (intro remove_machine) (auto simp: machine_ok_def)
      ultimately show ?thesis by simp
    qed
  qed
qed

lemma call_stop_machine:
  assumes "machine_ok s"
  shows "machine_ok (call_stop s)"
proof (cases "sb_stop s = Not_stopped")
  case new: True
  show ?thesis
  proof (cases "start_in_flight s")
    case True
    then have "sb_state s = Starting \<or> sb_state s = Terminal" using assms new
      by (cases "sb_state s") (auto simp: machine_ok_def start_in_flight_def)
    then show ?thesis using assms new True
      by (cases "sb_start s"; auto simp: call_stop_def machine_ok_def ready_ok_def start_in_flight_def)
  next
    case False
    then show ?thesis using stop_body_machine [OF assms] new by (simp add: call_stop_def start_in_flight_def in_flight_def)
  qed
qed (use assms in \<open>simp add: call_stop_def\<close>)

lemma waited_machine:
  assumes "machine_ok s" "sb_stop s = Awaiting_exit"
  shows "machine_ok (removeOwnedOnce (s\<lparr> sb_stop := Stop_removing True \<rparr>))"
proof (rule remove_machine)
  let ?u = "s\<lparr> sb_stop := Stop_removing True \<rparr>"
  have over: "sb_start s = Not_started \<or> (\<exists>ok. sb_start s = Start_over ok)"
    using assms by (cases "sb_start s") (auto simp: machine_ok_def in_flight_def)
  show "launch_ok (sb_start ?u) (sb_child ?u) (sb_spawns ?u) (sb_owned ?u = []) r
      \<and> ready_ok (sb_ready ?u) (sb_race ?u) (sb_readySeen ?u) (sb_start ?u) (sb_resolver ?u)
      \<and> state_ok (sb_state ?u) (sb_start ?u) (sb_stop ?u) (sb_intakeClosed ?u) \<and> stop_ok (sb_stop ?u) (sb_start ?u) (sb_owned ?u = []) r"
    if "sb_owned ?u = [] \<or> r \<noteq> Not_removed" for r
    using assms over that by (cases "sb_state s") (auto simp: machine_ok_def)
qed (use assms in \<open>simp add: machine_ok_def\<close>)

lemma stopped_machine:
  assumes "machine_ok s" "sb_stop s = Stop_removing settle" "removal_outcome s = Some ok"
  shows "machine_ok (stop_removed settle ok s)"
proof -
  have "stop_ok (Stop_over ok) (sb_start s) (sb_owned s = []) (sb_removal s)"
    using assms by (auto simp: machine_ok_def removal_outcome_def split: removal.splits)
  moreover have "state_ok (if settle then Stopped else sb_state s) (sb_start s) (Stop_over ok) (sb_intakeClosed s)"
    using assms by (cases "sb_state s") (auto simp: machine_ok_def)
  ultimately show ?thesis using assms by (cases settle) (simp_all add: stop_removed_def machine_ok_def)
qed

lemma step_machine:
  assumes "machine_ok s" "handle parse e s = Some t"
  shows "machine_ok t"
proof (cases e)
  case (Call_start b)
  then show ?thesis using assms started_machine by auto
next
  case (Id_read i)
  then show ?thesis using assms id_machine [of s i] by (auto split: if_splits)
next
  case Ready_timeout
  then show ?thesis using assms resolve_machine [of s "sb_readySeen s"] by (auto split: if_splits)
next
  case Start_resumes
  then show ?thesis using assms resumed_machine [of s] by (auto split: if_splits option.splits)
next
  case Start_removed
  then show ?thesis using assms removed_machine [of s] by (auto split: if_splits)
next
  case (Data chunk)
  then show ?thesis using assms data_machine [of s] by (auto split: if_splits)
next
  case Stream_ends
  then show ?thesis using assms terminal_machine [of s] by (auto split: if_splits)
next
  case Stream_fails
  then show ?thesis using assms terminal_machine [of s] by (auto split: if_splits)
next
  case Child_exits
  then show ?thesis using assms terminal_machine [of "s\<lparr> sb_exited := True \<rparr>"] by (auto split: if_splits)
next
  case (Removal_settles ok)
  then have "sb_removal s = Removing" "t = s\<lparr> sb_removal := Removed ok \<rparr>" using assms(2) by (auto split: if_splits)
  then show ?thesis using assms(1) by (cases "sb_start s"; cases "sb_stop s") (auto simp: machine_ok_def owned_ok_def)
next
  case Call_stop
  then show ?thesis using assms call_stop_machine by auto
next
  case Stop_resumes
  then show ?thesis using assms stop_body_machine [of s] by (auto simp: start_in_flight_def in_flight_def split: if_splits)
next
  case Stop_waited
  then show ?thesis using assms waited_machine [of s] by (auto split: if_splits)
next
  case Stop_removed
  then show ?thesis using assms stopped_machine [of s] by (auto split: stop_phase.splits)
qed (use assms in \<open>auto simp: call_tool_def begin_machine abort_tool_def Let_def split: if_splits option.splits list.splits\<close>)

section \<open>Cancelling a start\<close>

text \<open>A stop that waits for the start has cancelled it, so the start is not left waiting for readiness.\<close>

definition cancel_ok :: "sandbox \<Rightarrow> bool" where
  "cancel_ok s \<longleftrightarrow> (sb_stop s = Awaiting_start \<longrightarrow> sb_cancelled s) \<and> (sb_cancelled s \<and> sb_start s = Awaiting_ready \<longrightarrow> sb_race s \<noteq> None)"

lemma cancel_frame [simp]:
  "cancel_ok (finish a s) = cancel_ok s" "cancel_ok (writeFrame f s) = cancel_ok s" "cancel_ok (cancel_running m c s) = cancel_ok s"
  "cancel_ok (s\<lparr> sb_crashed := x1 \<rparr>) = cancel_ok s" "cancel_ok (s\<lparr> sb_readySeen := x2 \<rparr>) = cancel_ok s" "cancel_ok (s\<lparr> sb_buffer := x3 \<rparr>) = cancel_ok s"
  "cancel_ok (removeOwnedOnce s) = cancel_ok s"
  by (simp_all add: cancel_ok_def)

lemma resolve_cancel: "cancel_ok s \<Longrightarrow> cancel_ok (resolve_ready b s)"
  by (auto simp: cancel_ok_def resolve_ready_def)

lemma line_cancel: "cancel_ok s \<Longrightarrow> cancel_ok (routeLine parse l s)"
  by (auto simp: routeLine_def resolve_cancel split: option.split js.split)

lemma data_cancel: "cancel_ok s \<Longrightarrow> cancel_ok (on_data parse chunk s)"
  by (rule on_data_induct) (simp_all add: line_cancel)

lemma terminal_cancel: "cancel_ok s \<Longrightarrow> cancel_ok (settleWaitersAndTerminal m s)"
  unfolding settleWaitersAndTerminal_def by (rule resolve_cancel) (simp add: cancel_ok_def)

lemma stop_body_cancel: "cancel_ok s \<Longrightarrow> cancel_ok (stop_body s)"
  unfolding stop_body_def by (simp split del: if_split split: if_split, simp add: cancel_ok_def)

lemma call_stop_cancel:
  assumes "cancel_ok s"
  shows "cancel_ok (call_stop s)"
proof (cases "sb_stop s = Not_stopped \<and> start_in_flight s")
  case True
  then show ?thesis using assms by (simp add: call_stop_def cancel_ok_def)
next
  case False
  then have "call_stop s = s \<or> call_stop s = stop_body s" by (auto simp: call_stop_def)
  then show ?thesis using assms stop_body_cancel by auto
qed

lemma step_cancel:
  assumes "cancel_ok s" "handle parse e s = Some t"
  shows "cancel_ok t"
proof (cases e)
  case (Data chunk)
  then show ?thesis using assms data_cancel by (auto split: if_splits)
next
  case Child_exits
  then show ?thesis using assms terminal_cancel [of "s\<lparr> sb_exited := True \<rparr>"] by (auto simp: cancel_ok_def split: if_splits)
next
  case Ready_timeout
  then show ?thesis using assms resolve_cancel by (auto split: if_splits)
next
  case Stream_ends
  then show ?thesis using assms terminal_cancel by (auto split: if_splits)
next
  case Stream_fails
  then show ?thesis using assms terminal_cancel by (auto split: if_splits)
next
  case Call_stop
  then show ?thesis using assms call_stop_cancel by auto
next
  case (Id_read i)
  then show ?thesis using assms by (auto simp: id_read_def start_failed_def cancel_ok_def split: if_splits option.splits)
qed (use assms in \<open>auto simp: cancel_ok_def call_start_def start_resumed_def start_failed_def start_removed_def stop_body_def
      stop_removed_def call_tool_def begin_tool_def abort_tool_def Let_def split: if_splits option.splits list.splits stop_phase.splits\<close>)

section \<open>Runs\<close>

definition sandbox_ok :: "sandbox \<Rightarrow> bool" where
  "sandbox_ok s \<longleftrightarrow> requests_ok s \<and> machine_ok s \<and> cancel_ok s"

interpretation container: invariant_system "sandbox_step parse" created_sandbox sandbox_ok for parse
proof
  show "sandbox_ok created_sandbox"
    by (simp add: sandbox_ok_def created_sandbox_def requests_ok_def running_list_def machine_ok_def owned_ok_def ready_ok_def cancel_ok_def)
  fix s t assume ok: "sandbox_ok s" and "sandbox_step parse s t"
  then obtain e where e: "sandbox_do parse e s = Some t" by (auto elim: sandbox_stepE)
  then have "handle parse e s = Some t" by (auto simp: sandbox_do_def split: if_splits)
  then show "sandbox_ok t" using ok step_requests step_machine step_cancel by (auto simp: sandbox_ok_def)
qed

lemma run_steps: "sandbox_run parse es s = Some t \<Longrightarrow> (sandbox_step parse)\<^sup>*\<^sup>* s t"
  by (induction es arbitrary: s) (auto split: option.splits intro: converse_rtranclp_into_rtranclp sandbox_step.step)

lemma run_ok: "sandbox_run parse es created_sandbox = Some s \<Longrightarrow> sandbox_ok s"
  by (rule container.inv_reachable [OF run_steps])

lemma run_append: "sandbox_run parse (es @ fs) s = (case sandbox_run parse es s of None \<Rightarrow> None | Some t \<Rightarrow> sandbox_run parse fs t)"
  by (induction es arbitrary: s) (auto split: option.splits)

end
