(* ===== verification/Sandbox_Properties.thy ===== *)
theory Sandbox_Properties
  imports Sandbox_Invariants
begin

text \<open>
  What the container machine guarantees from its creation on, that a stop and every accepted
  tool request come to an end without any help of the supervisor, and the places where the
  machine does not do what it means to.
\<close>

section \<open>What is never undone\<close>

text \<open>A closed intake stays closed and writes nothing; answers are final; a settled stop is the end.\<close>

definition kept :: "sandbox \<Rightarrow> sandbox \<Rightarrow> bool" where
  "kept s t \<longleftrightarrow> prefix (sb_answers s) (sb_answers t) \<and> (sb_intakeClosed s \<longrightarrow> sb_intakeClosed t \<and> sb_frames t = sb_frames s)"

definition ended :: "sandbox \<Rightarrow> bool" where
  "ended s \<longleftrightarrow> (case sb_stop s of Stop_over ok \<Rightarrow> True | _ \<Rightarrow> False)"

definition end_kept :: "sandbox \<Rightarrow> sandbox \<Rightarrow> bool" where
  "end_kept s t \<longleftrightarrow> (ended s \<longrightarrow> sb_stop t = sb_stop s \<and> sb_next t = sb_next s \<and> sb_spawns t = sb_spawns s \<and> sb_removals t = sb_removals s)"

lemma kept_refl [simp]: "kept s s" "end_kept s s"
  by (simp_all add: kept_def end_kept_def)

lemma kept_trans: "kept s t \<Longrightarrow> kept t u \<Longrightarrow> kept s u"
  by (auto simp: kept_def)

lemma kept_same: "sb_answers t = sb_answers s \<Longrightarrow> sb_intakeClosed t = sb_intakeClosed s \<Longrightarrow> sb_frames t = sb_frames s \<Longrightarrow> kept s t"
  by (simp add: kept_def)

lemma finish_kept: "kept s (finish a s)"
  by (simp add: kept_def finish_def split: list.split)

lemma write_kept: "kept s (writeFrame f s)"
  by (simp add: kept_def writeFrame_def)

lemma cancel_kept: "kept s (cancel_running m c s)"
  by (simp add: kept_def cancel_running_def writeFrame_def split: list.split)

lemma terminal_kept: "kept s (settleWaitersAndTerminal m s)"
  by (auto simp: kept_def settleWaitersAndTerminal_def finish_def split: list.split)

lemma line_kept: "kept s (routeLine parse l s)"
  by (auto simp: routeLine_def finish_kept intro: kept_same split: option.split js.split)

lemma data_kept: "kept s (on_data parse chunk s)"
  by (rule on_data_induct [where P = "kept s"]) (auto intro: kept_trans line_kept kept_same)

lemma begin_kept: "kept s (begin_tool i c t r rest s)"
proof -
  let ?u = "s\<lparr> sb_queue := rest, sb_running := Some t, sb_waiters := [(i, t)], sb_timer := True, sb_grace := [] \<rparr>"
  have "kept s (writeFrame (request_frame i r) ?u)" using kept_same [of ?u s] by (auto intro: kept_trans write_kept)
  then show ?thesis unfolding begin_tool_def Let_def using cancel_kept kept_trans by auto
qed

lemma step_kept:
  assumes "handle parse e s = Some t"
  shows "kept s t"
proof (cases e)
  case (Data chunk)
  then show ?thesis using assms data_kept by (auto split: if_splits)
next
  case Stream_ends
  then show ?thesis using assms terminal_kept by (auto split: if_splits)
next
  case Stream_fails
  then show ?thesis using assms terminal_kept by (auto split: if_splits)
next
  case Child_exits
  then have "t = settleWaitersAndTerminal ''sandbox container exited'' (s\<lparr> sb_exited := True \<rparr>)" using assms by (simp split: if_splits)
  then show ?thesis using terminal_kept [of "s\<lparr> sb_exited := True \<rparr>"] by (auto simp: kept_def)
next
  case (Tool_begins i c)
  then show ?thesis using assms begin_kept by (auto split: if_splits option.splits list.splits)
next
  case (Tool_times_out c)
  then show ?thesis using assms cancel_kept [of s _ c] by (auto simp: kept_def split: if_splits)
next
  case (Tool_aborts k c)
  then show ?thesis using assms cancel_kept [of "s\<lparr> sb_aborted := k # sb_aborted s \<rparr>" _ c]
    by (auto simp: kept_def abort_tool_def Let_def split: if_splits)
next
  case (Grace_ends m)
  then show ?thesis using assms finish_kept by (auto split: if_splits)
next
  case Stop_removed
  then show ?thesis using assms finish_kept [of s "Local ''sandbox stopped''"]
    by (auto simp: kept_def stop_removed_def split: stop_phase.splits)
next
  case Ready_timeout
  then show ?thesis using assms by (auto simp: kept_def resolve_ready_def split: if_splits)
next
  case Call_stop
  then have "t = call_stop s" using assms by simp
  then show ?thesis by (simp add: kept_def call_stop_def stop_body_def removeOwnedOnce_def)
next
  case Stop_waited
  then show ?thesis using assms by (auto simp: kept_def removeOwnedOnce_def split: if_splits)
next
  case Stop_resumes
  then have "t = stop_body s" using assms by (auto split: if_splits)
  then show ?thesis by (simp add: kept_def stop_body_def removeOwnedOnce_def)
qed (use assms in \<open>auto simp: kept_def start_failed_def removeOwnedOnce_def call_start_def id_read_def start_resumed_def
    start_removed_def call_tool_def split: if_splits option.splits race_result.splits\<close>)

lemma line_end [simp]:
  "sb_stop (routeLine parse l s) = sb_stop s" "sb_next (routeLine parse l s) = sb_next s"
  "sb_spawns (routeLine parse l s) = sb_spawns s" "sb_removals (routeLine parse l s) = sb_removals s"
  by (simp_all add: routeLine_def split: option.split js.split)

lemma data_end [simp]:
  "sb_stop (on_data parse chunk s) = sb_stop s" "sb_next (on_data parse chunk s) = sb_next s"
  "sb_spawns (on_data parse chunk s) = sb_spawns s" "sb_removals (on_data parse chunk s) = sb_removals s"
  by (rule on_data_induct; simp)+

lemma terminal_end [simp]:
  "sb_stop (settleWaitersAndTerminal m s) = sb_stop s" "sb_next (settleWaitersAndTerminal m s) = sb_next s"
  "sb_spawns (settleWaitersAndTerminal m s) = sb_spawns s" "sb_removals (settleWaitersAndTerminal m s) = sb_removals s"
  by (simp_all add: settleWaitersAndTerminal_def)

lemma begin_end [simp]:
  "sb_stop (begin_tool i c k r rest s) = sb_stop s" "sb_next (begin_tool i c k r rest s) = sb_next s"
  "sb_spawns (begin_tool i c k r rest s) = sb_spawns s" "sb_removals (begin_tool i c k r rest s) = sb_removals s"
  by (simp_all add: begin_tool_def Let_def)

lemma abort_end [simp]:
  "sb_stop (abort_tool k c s) = sb_stop s" "sb_next (abort_tool k c s) = sb_next s"
  "sb_spawns (abort_tool k c s) = sb_spawns s" "sb_removals (abort_tool k c s) = sb_removals s"
  by (simp_all add: abort_tool_def Let_def)

lemma ended_machine:
  assumes "machine_ok s" "ended s"
  shows "\<not> in_flight (sb_start s)" "sb_state s = Stopped \<or> sb_state s = Terminal" "\<exists>ok. sb_stop s = Stop_over ok"
  using assms by (cases "sb_state s"; cases "sb_stop s"; auto simp: machine_ok_def ended_def)+

lemma step_end:
  assumes "machine_ok s" "handle parse e s = Some t"
  shows "end_kept s t"
proof (cases "ended s")
  case True
  then show ?thesis using assms(2) ended_machine [OF assms(1) True]
    by (cases e) (auto simp: end_kept_def in_flight_def call_start_def call_tool_def call_stop_def split: if_splits option.splits list.splits)
qed (simp add: end_kept_def)

lemma end_trans: "end_kept s t \<Longrightarrow> end_kept t u \<Longrightarrow> end_kept s u"
  by (auto simp: end_kept_def ended_def split: stop_phase.splits)

interpretation teardown: guarantee_system "sandbox_step parse" sandbox_ok "\<lambda>s t. kept s t \<and> end_kept s t" for parse
proof
  fix s t u
  show "kept s s \<and> end_kept s s" by simp
  show "kept s u \<and> end_kept s u" if "kept s t \<and> end_kept s t" "kept t u \<and> end_kept t u"
    using that kept_trans end_trans by blast
  show "sandbox_ok t" if "sandbox_ok s" "sandbox_step parse s t"
    by (rule container.inv_step [OF that])
  show "kept s t \<and> end_kept s t" if "sandbox_ok s" "sandbox_step parse s t"
    using that by (auto simp: sandbox_do_def sandbox_ok_def elim!: sandbox_stepE split: if_splits intro: step_kept step_end)
qed

lemma started_owned:
  assumes "machine_ok s" "sb_state s = Started"
  shows "sb_readySeen s \<and> container_id (sb_owned s)"
proof -
  have "sb_start s = Start_over True" using assms by (simp add: machine_ok_def)
  then have "sb_owned s \<noteq> []" "sb_readySeen s" using assms(1) by (auto simp: machine_ok_def ready_ok_def)
  moreover have "owned_ok (sb_owned s) (sb_removal s) (sb_removals s)" using assms(1) by (simp add: machine_ok_def)
  ultimately show ?thesis unfolding owned_ok_def by blast
qed

lemma owned_removals:
  assumes "machine_ok s"
  shows "sb_removals s \<in> {[], [sb_owned s]}" "list_all container_id (sb_removals s)"
    "sb_stop s = Stop_over True \<Longrightarrow> sb_owned s \<noteq> [] \<Longrightarrow> sb_removal s = Removed True \<and> sb_removals s = [sb_owned s]"
proof -
  have "calls \<in> {[], [i]} \<and> list_all container_id calls \<and> (r \<noteq> Not_removed \<longrightarrow> i = [] \<or> calls = [i])" if "owned_ok i r calls" for i r calls
    using that by (auto simp: owned_ok_def split: if_splits)
  then have o: "sb_removals s \<in> {[], [sb_owned s]}" "list_all container_id (sb_removals s)"
      "sb_removal s \<noteq> Not_removed \<Longrightarrow> sb_owned s = [] \<or> sb_removals s = [sb_owned s]"
    using assms unfolding machine_ok_def by blast+
  show "sb_removals s \<in> {[], [sb_owned s]}" "list_all container_id (sb_removals s)" by (rule o)+
  assume "sb_stop s = Stop_over True" "sb_owned s \<noteq> []"
  then have "sb_removal s = Removed True" using assms by (simp add: machine_ok_def)
  then show "sb_removal s = Removed True \<and> sb_removals s = [sb_owned s]" using o(3) \<open>sb_owned s \<noteq> []\<close> by simp
qed

text \<open>
  C37. One container: whatever happens and in whatever order, at most one container is created
  and at most one removal is attempted, of the container whose well-formed id was captured;
  the machine counts as started only after readiness was reported and an id captured; and when
  a stop has settled, the intake is closed, the machine is stopped or terminal, and a stop
  that reports success either had nothing to remove or removed the container.
\<close>
theorem container_owned_once:
  "case sandbox_run parse es created_sandbox of None \<Rightarrow> True | Some s \<Rightarrow>
     sb_spawns s \<le> 1 \<and> sb_removals s \<in> {[], [sb_owned s]} \<and> list_all container_id (sb_removals s)
     \<and> (if sb_state s = Started then sb_readySeen s \<and> container_id (sb_owned s) else True)
     \<and> (case sb_stop s of
          Stop_over ok \<Rightarrow> sb_intakeClosed s \<and> sb_state s \<in> {Stopped, Terminal}
            \<and> (if ok \<and> sb_owned s \<noteq> [] then sb_removal s = Removed True \<and> sb_removals s = [sb_owned s] else True)
        | _ \<Rightarrow> True)"
proof (cases "sandbox_run parse es created_sandbox")
  case (Some s)
  then have m: "machine_ok s" using run_ok by (simp add: sandbox_ok_def)
  then have "sb_spawns s \<le> 1" by (cases "sb_start s") (auto simp: machine_ok_def)
  moreover note owned_removals [OF m]
  moreover have "sb_readySeen s \<and> container_id (sb_owned s)" if "sb_state s = Started"
    using started_owned [OF m that] .
  moreover have "sb_intakeClosed s \<and> sb_state s \<in> {Stopped, Terminal}" if "sb_stop s = Stop_over ok" for ok
    using m that by (cases "sb_state s") (auto simp: machine_ok_def)
  ultimately show ?thesis using Some by (auto split: stop_phase.split)
qed simp

text \<open>
  Teardown is final: once the intake is closed it stays closed and nothing more is written
  to the supervisor, and once a stop has settled its outcome stands, no request is accepted,
  no container is created and no further removal is attempted, whatever is called or arrives.
  An answer, once given, is never withdrawn.
\<close>
theorem teardown_is_final:
  "case sandbox_run parse es created_sandbox of None \<Rightarrow> True | Some s \<Rightarrow> (case sandbox_run parse fs s of None \<Rightarrow> True | Some t \<Rightarrow>
     prefix (sb_answers s) (sb_answers t)
     \<and> (if sb_intakeClosed s then sb_intakeClosed t \<and> sb_frames t = sb_frames s else True)
     \<and> (case sb_stop s of
          Stop_over ok \<Rightarrow> sb_stop t = Stop_over ok \<and> sb_next t = sb_next s \<and> sb_spawns t = sb_spawns s \<and> sb_removals t = sb_removals s
        | _ \<Rightarrow> True))"
proof (cases "sandbox_run parse es created_sandbox")
  case s: (Some s)
  show ?thesis
  proof (cases "sandbox_run parse fs s")
    case t: (Some t)
    have "kept s t" "end_kept s t" using teardown.guar_run [OF run_steps [OF t] run_ok [OF s]] by simp_all
    then show ?thesis using s t by (cases "sb_stop s") (simp_all add: kept_def end_kept_def ended_def)
  qed (simp add: s)
qed simp

text \<open>
  C38. Requests are answered in the order of acceptance and exactly once: the answered, the
  running and the waiting ones are, in this order, the accepted ones; and a running request
  always has its timeout or its grace period under way.
\<close>
theorem requests_in_order:
  "case sandbox_run parse es created_sandbox of None \<Rightarrow> True | Some s \<Rightarrow>
     map fst (sb_answers s) @ (case sb_running s of None \<Rightarrow> [] | Some k \<Rightarrow> [k]) @ map fst (sb_queue s) = [0..<sb_next s]
     \<and> map snd (sb_waiters s) = (case sb_running s of None \<Rightarrow> [] | Some k \<Rightarrow> [k])
     \<and> (sb_running s = None \<longleftrightarrow> \<not> sb_timer s \<and> sb_grace s = [])"
proof (cases "sandbox_run parse es created_sandbox")
  case (Some s)
  then have "requests_ok s" using run_ok by (simp add: sandbox_ok_def)
  then show ?thesis unfolding requests_ok_def running_list_def Some option.case by blast
qed simp

section \<open>A stop settles, and requests are answered\<close>

text \<open>What the machine itself waits for: deadlines, its own continuations and the removal command.\<close>

fun awaited :: "bool \<Rightarrow> sandbox_event \<Rightarrow> bool" where
  "awaited ok (Id_read i) = (i = None)"
| "awaited ok Start_resumes = True"
| "awaited ok Start_removed = True"
| "awaited ok (Removal_settles b) = (b = ok)"
| "awaited ok Stop_resumes = True"
| "awaited ok Stop_waited = True"
| "awaited ok Stop_removed = True"
| "awaited ok e = False"

fun start_rank :: "start_phase \<Rightarrow> bool \<Rightarrow> nat" where
  "start_rank Awaiting_id r = 8"
| "start_rank Awaiting_ready r = 7"
| "start_rank Start_removing r = (if r then 6 else 5)"
| "start_rank p r = 4"

fun stop_rank :: "stop_phase \<Rightarrow> start_phase \<Rightarrow> bool \<Rightarrow> nat" where
  "stop_rank (Stop_over ok) p r = 0"
| "stop_rank (Stop_removing b) p r = (if r then 2 else 1)"
| "stop_rank Awaiting_exit p r = 3"
| "stop_rank q p r = start_rank p r"

definition rank :: "sandbox \<Rightarrow> nat" where
  "rank s = stop_rank (sb_stop s) (sb_start s) (sb_removal s = Removing)"

lemma rank_bound: "rank s \<le> 8" "rank s = 0 \<longleftrightarrow> ended s"
proof -
  have "start_rank p r \<le> 8 \<and> 0 < start_rank p r" for p r by (cases p) auto
  then show "rank s \<le> 8" "rank s = 0 \<longleftrightarrow> ended s" by (cases "sb_stop s"; simp add: rank_def ended_def)+
qed

lemma stop_body_rank: "rank (stop_body s) \<le> 3" "sb_stop (stop_body s) \<noteq> Not_stopped" "sb_crashed (stop_body s) = sb_crashed s"
  by (simp_all add: rank_def stop_body_def removeOwnedOnce_def)

lemma stop_moves:
  assumes "sandbox_ok s" "\<not> sb_crashed s" "sb_stop s \<noteq> Not_stopped" "0 < rank s"
  shows "\<exists>e t. awaited ok e \<and> sandbox_do parse e s = Some t \<and> rank t < rank s \<and> \<not> sb_crashed t \<and> sb_stop t \<noteq> Not_stopped"
proof -
  have m: "machine_ok s" "cancel_ok s" using assms(1) by (simp_all add: sandbox_ok_def)
  consider (over) b where "sb_stop s = Stop_over b" | (removing) b where "sb_stop s = Stop_removing b" | (exit) "sb_stop s = Awaiting_exit"
    | (start) "sb_stop s = Awaiting_start" using assms(3) by (cases "sb_stop s") auto
  then show ?thesis
  proof cases
    case over
    then show ?thesis using assms(4) by (simp add: rank_def)
  next
    case removing
    show ?thesis
    proof (cases "sb_removal s = Removing")
      case True
      then show ?thesis using removing assms
        by (intro exI [of _ "Removal_settles ok"] exI [of _ "s\<lparr> sb_removal := Removed ok \<rparr>"]) (simp add: sandbox_do_def rank_def)
    next
      case False
      then obtain r where "removal_outcome s = Some r" by (cases "sb_removal s") (auto simp: removal_outcome_def)
      then show ?thesis using removing assms
        by (intro exI [of _ Stop_removed] exI [of _ "stop_removed b r s"]) (simp add: sandbox_do_def rank_def stop_removed_def)
    qed
  next
    case exit
    then show ?thesis using assms
      by (intro exI [of _ Stop_waited] exI [of _ "removeOwnedOnce (s\<lparr> sb_stop := Stop_removing True \<rparr>)"]) (simp add: sandbox_do_def rank_def Let_def)
  next
    case start
    show ?thesis
    proof (cases "sb_start s")
      case Awaiting_id
      then have "handle parse (Id_read None) s = Some (start_failed s)" by (simp add: id_read_def)
      then show ?thesis using Awaiting_id start assms
        by (intro exI [of _ "Id_read None"] exI [of _ "start_failed s"]) (simp add: sandbox_do_def rank_def start_failed_def Let_def)
    next
      case Awaiting_ready
      then obtain r where "sb_race s = Some r" using m(2) start by (auto simp: cancel_ok_def)
      then show ?thesis using Awaiting_ready start assms
        by (intro exI [of _ Start_resumes] exI [of _ "start_resumed r s"])
          (simp add: sandbox_do_def rank_def start_resumed_def start_failed_def Let_def)
    next
      case Start_removing
      show ?thesis
      proof (cases "sb_removal s = Removing")
        case True
        then show ?thesis using start Start_removing assms
          by (intro exI [of _ "Removal_settles ok"] exI [of _ "s\<lparr> sb_removal := Removed ok \<rparr>"]) (simp add: sandbox_do_def rank_def)
      next
        case False
        then obtain r where "removal_outcome s = Some r" by (cases "sb_removal s") (auto simp: removal_outcome_def)
        then show ?thesis using start Start_removing assms False
          by (intro exI [of _ Start_removed] exI [of _ "start_removed r s"]) (simp add: sandbox_do_def rank_def start_removed_def)
      qed
    next
      case Not_started
      then show ?thesis using m(1) start by (simp add: machine_ok_def)
    next
      case (Start_over b)
      then have "rank s = 4" using start by (simp add: rank_def)
      then show ?thesis using start Start_over assms stop_body_rank [of s]
        by (intro exI [of _ Stop_resumes] exI [of _ "stop_body s"]) (simp add: sandbox_do_def start_in_flight_def)
    qed
  qed
qed

lemma stop_runs:
  assumes "sandbox_ok s" "\<not> sb_crashed s" "sb_stop s \<noteq> Not_stopped"
  shows "\<exists>fs t. length fs \<le> rank s \<and> list_all (awaited ok) fs \<and> sandbox_run parse fs s = Some t \<and> ended t"
  using assms
proof (induction "rank s" arbitrary: s rule: less_induct)
  case less
  show ?case
  proof (cases "rank s = 0")
    case True
    then have "ended s" by (simp add: rank_bound)
    then show ?thesis by (intro exI [of _ "[]"]) simp
  next
    case False
    then obtain e t where e: "awaited ok e" "sandbox_do parse e s = Some t" "rank t < rank s" "\<not> sb_crashed t" "sb_stop t \<noteq> Not_stopped"
      using stop_moves [OF less.prems] by blast
    have "sandbox_ok t" by (rule container.inv_step [OF less.prems(1) sandbox_step.step [OF e(2)]])
    then obtain fs u where "length fs \<le> rank t" "list_all (awaited ok) fs" "sandbox_run parse fs t = Some u" "ended u"
      using less.hyps [OF e(3)] e(4,5) by blast
    then show ?thesis using e(1-3) by (intro exI [of _ "e # fs"] exI [of _ u]) simp
  qed
qed

text \<open>
  C39. A stop always comes to its end: in whatever state it was called, and whatever happened
  since, at most eight further steps of the machine itself settle it - its deadlines, its
  continuations and the end of the removal command, whether that succeeds or not; nothing is
  needed from the supervisor, the container or the callers. The one exception is a host that
  crashed.
\<close>
theorem stop_settles:
  "case sandbox_run parse es created_sandbox of None \<Rightarrow> True | Some s \<Rightarrow>
     if sb_stop s = Not_stopped \<or> sb_crashed s then True
     else \<exists>fs t b. length fs \<le> 8 \<and> list_all (awaited ok) fs \<and> sandbox_run parse fs s = Some t \<and> sb_stop t = Stop_over b"
proof (cases "sandbox_run parse es created_sandbox")
  case (Some s)
  have "\<exists>fs t b. length fs \<le> 8 \<and> list_all (awaited ok) fs \<and> sandbox_run parse fs s = Some t \<and> sb_stop t = Stop_over b"
    if a: "sb_stop s \<noteq> Not_stopped" and c: "\<not> sb_crashed s"
  proof -
    obtain fs t where r: "length fs \<le> rank s" "list_all (awaited ok) fs" "sandbox_run parse fs s = Some t" "ended t"
      using stop_runs [OF run_ok [OF Some] c a] by blast
    moreover obtain b where "sb_stop t = Stop_over b" using r(4) by (auto simp: ended_def split: stop_phase.splits)
    ultimately show ?thesis using rank_bound(1) [of s] by (intro exI [of _ fs] exI [of _ t] exI [of _ b]) simp
  qed
  then show ?thesis using Some by simp
qed simp

text \<open>The same for requests: their timeouts and grace periods, and the turn of the next one.\<close>

fun request_end :: "sandbox_event \<Rightarrow> bool" where
  "request_end (Tool_begins i c) = True"
| "request_end (Tool_times_out c) = True"
| "request_end (Grace_ends m) = True"
| "request_end e = False"

definition open_work :: "sandbox \<Rightarrow> nat" where
  "open_work s = 3 * length (sb_queue s) + (if sb_running s = None then 0 else if sb_grace s = [] then 2 else 1)"

lemma requests_move:
  assumes "requests_ok s" "\<not> sb_crashed s" "0 < open_work s"
  shows "\<exists>e t. request_end e \<and> sandbox_do parse e s = Some t \<and> open_work t < open_work s \<and> \<not> sb_crashed t \<and> sb_next t = sb_next s"
proof (cases "sb_running s")
  case None
  then obtain k r rest where q: "sb_queue s = (k, r) # rest" using assms(3) by (cases "sb_queue s") (auto simp: open_work_def)
  have "open_work (begin_tool [CHR 0x31] [CHR 0x32] k r rest s) < open_work s"
    using q None by (simp add: open_work_def begin_tool_def Let_def)
  then show ?thesis using q None assms(2)
    by (intro exI [of _ "Tool_begins [CHR 0x31] [CHR 0x32]"] exI [of _ "begin_tool [CHR 0x31] [CHR 0x32] k r rest s"])
      (simp add: sandbox_do_def begin_tool_def Let_def)
next
  case (Some k)
  then obtain i where w: "sb_waiters s = [(i, k)]" using assms(1) by (cases "sb_waiters s") (auto simp: requests_ok_def running_list_def)
  show ?thesis
  proof (cases "sb_grace s")
    case Nil
    then have "sb_timer s" using assms(1) Some by (auto simp: requests_ok_def)
    then show ?thesis using w Some Nil assms(2)
      by (intro exI [of _ "Tool_times_out []"] exI [of _ "(cancel_running ''sandbox tool timeout'' [] s)\<lparr> sb_timer := False \<rparr>"])
        (simp add: sandbox_do_def open_work_def cancel_running_def)
  next
    case (Cons m ms)
    then show ?thesis using w Some assms(2)
      by (intro exI [of _ "Grace_ends m"] exI [of _ "finish (Local m) s"]) (simp add: sandbox_do_def open_work_def finish_def)
  qed
qed

lemma requests_run:
  assumes "sandbox_ok s" "\<not> sb_crashed s"
  shows "\<exists>fs t. length fs \<le> open_work s \<and> list_all request_end fs \<and> sandbox_run parse fs s = Some t \<and> map fst (sb_answers t) = [0..<sb_next s]"
  using assms
proof (induction "open_work s" arbitrary: s rule: less_induct)
  case less
  show ?case
  proof (cases "open_work s = 0")
    case True
    then have "map fst (sb_answers s) = [0..<sb_next s]"
      using less.prems(1) by (simp add: open_work_def sandbox_ok_def requests_ok_def running_list_def split: if_splits)
    then show ?thesis by (intro exI [of _ "[]"]) simp
  next
    case False
    then obtain e t where e: "request_end e" "sandbox_do parse e s = Some t" "open_work t < open_work s" "\<not> sb_crashed t" "sb_next t = sb_next s"
      using requests_move [of s parse] less.prems unfolding sandbox_ok_def by blast
    have "sandbox_ok t" by (rule container.inv_step [OF less.prems(1) sandbox_step.step [OF e(2)]])
    then obtain fs u where "length fs \<le> open_work t" "list_all request_end fs" "sandbox_run parse fs t = Some u" "map fst (sb_answers u) = [0..<sb_next t]"
      using less.hyps [OF e(3)] e(4) by blast
    then show ?thesis using e by (intro exI [of _ "e # fs"] exI [of _ u]) simp
  qed
qed

text \<open>
  Every accepted request can be answered without the supervisor: from every reachable
  state of a host that has not crashed, at most three steps per waiting request and two for
  the running one - their turn, their timeout and their grace period - lead to a state where
  exactly the accepted requests are answered, in order.
\<close>
theorem requests_all_answered:
  "case sandbox_run parse es created_sandbox of None \<Rightarrow> True | Some s \<Rightarrow>
     if sb_crashed s then True
     else \<exists>fs t. length fs \<le> 3 * length (sb_queue s) + (if sb_running s = None then 0 else 2) \<and> list_all request_end fs
       \<and> sandbox_run parse fs s = Some t \<and> map fst (sb_answers t) = [0..<sb_next s]"
proof (cases "sandbox_run parse es created_sandbox")
  case (Some s)
  have "\<exists>fs t. length fs \<le> 3 * length (sb_queue s) + (if sb_running s = None then 0 else 2) \<and> list_all request_end fs
       \<and> sandbox_run parse fs s = Some t \<and> map fst (sb_answers t) = [0..<sb_next s]" if c: "\<not> sb_crashed s"
  proof -
    obtain fs t where "length fs \<le> open_work s" "list_all request_end fs" "sandbox_run parse fs s = Some t" "map fst (sb_answers t) = [0..<sb_next s]"
      using requests_run [OF run_ok [OF Some] c] by blast
    moreover have "open_work s \<le> 3 * length (sb_queue s) + (if sb_running s = None then 0 else 2)" by (simp add: open_work_def)
    ultimately show ?thesis by (intro exI [of _ fs] exI [of _ t]) linarith
  qed
  then show ?thesis using Some by simp
qed simp

section \<open>Where the machine goes wrong\<close>

text \<open>Three lines of a supervisor: readiness, JSON's \<^verbatim>\<open>null\<close>, and noise.\<close>

definition demo_parse :: "string \<Rightarrow> js option" where
  "demo_parse l = (if l = ''{ready:true}'' then Some (plain [(''ready'', Bool True)]) else if l = ''null'' then Some Null else None)"

text \<open>
  A supervisor that reports readiness and exits before the id file is read: the start still
  succeeds, and the machine counts as started with its intake closed and its child gone.
\<close>

lemma started_after_exit:
  "map_option (\<lambda>s. (sb_state s, sb_exited s, sb_intakeClosed s, sb_start s))
     (sandbox_run demo_parse [Call_start True, Data (''{ready:true}'' @ [CHR 0x0A]), Child_exits, Id_read (Some ''abcdef''), Start_resumes] created_sandbox)
   = Some (Started, True, True, Start_over True)"
  by code_simp

text \<open>The line \<^verbatim>\<open>null\<close> throws in the data listener, where nothing catches it.\<close>

lemma null_line_crashes:
  "map_option sb_crashed (sandbox_run demo_parse [Call_start True, Data (''null'' @ [CHR 0x0A])] created_sandbox) = Some True"
  by code_simp

text \<open>
  The fields of a request are spread after the id of the frame: a request with fields of the
  same names replaces the id and adds a control message, so its caller can cancel another
  request, and no answer can ever be matched to its own.
\<close>

lemma request_overrides_frame:
  "request_frame i (plain [(''id'', v), (''control'', Str ''cancel''), (''targetId'', t)])
   = plain [(''id'', v), (''control'', Str ''cancel''), (''targetId'', t)]"
  by (simp add: request_frame_def)

text \<open>A request accepted before the stop and still waiting begins after the stop has settled: its frame is dropped and only its timeout answers it.\<close>

lemma queued_request_outlives_stop:
  "map_option (\<lambda>s. (sb_stop s, sb_running s, sb_frames s, sb_answers s))
     (sandbox_run demo_parse [Call_start True, Data (''{ready:true}'' @ [CHR 0x0A]), Id_read (Some ''abcdef''), Start_resumes,
        Call_tool Null, Call_stop, Stop_waited, Removal_settles True, Stop_removed, Tool_begins ''i'' ''c''] created_sandbox)
   = Some (Stop_over True, Some 0, [], [])"
  by code_simp

end
