(* ===== verification/Task_Run.thy ===== *)
theory Task_Run
  imports Task_Manifest Dispatch
begin

text \<open>
  The runner of a claimed task (\<^verbatim>\<open>composition/task-runner.ts\<close>): the checkout of the pinned
  base commit, one sandboxed verification command, and the run of the task in a pool of one
  slot, with the verifier and the store behind the ports of the runtime.

  Parameters are the external programs and the file system: git, the launcher of the worker,
  the container command, the allocation and release of directories. \<open>tp_setup\<close> is what the
  preparation of identity, ownership and socket directory answered (None when nothing was
  thrown). Texts of a container's output are its bytes.
\<close>

section \<open>One command in the sandbox\<close>

definition SANDBOX_OUTPUT_CAP_BYTES :: nat where "SANDBOX_OUTPUT_CAP_BYTES = 4096"

definition appendSandboxOutput :: "string \<Rightarrow> string \<Rightarrow> string \<times> bool" where
  "appendSandboxOutput current chunk =
     (if SANDBOX_OUTPUT_CAP_BYTES \<le> length current then (current, chunk \<noteq> [])
      else let remaining = SANDBOX_OUTPUT_CAP_BYTES - length current in
        if length chunk \<le> remaining then (current @ chunk, True)
        else (current @ take remaining chunk, False))"

datatype command_event = Stdout string | Stderr string | Kill_timer | Process_error string | Process_close "int option"

record command_state =
  cs_stdout :: string
  cs_stderr :: string
  cs_stdoutTruncated :: bool
  cs_stderrTruncated :: bool
  cs_timedOut :: bool

definition initial_command :: command_state where
  "initial_command = \<lparr> cs_stdout = [], cs_stderr = [], cs_stdoutTruncated = False, cs_stderrTruncated = False, cs_timedOut = False \<rparr>"

definition command_evidence :: "string list \<Rightarrow> int option \<Rightarrow> command_state \<Rightarrow> js" where
  "command_evidence command exitCode s =
     plain [(''command'', Arr (map Str command)),
       (''exitCode'', JInt (if cs_timedOut s then 124 else case exitCode of None \<Rightarrow> 1 | Some c \<Rightarrow> c)),
       (''stdout'', Str (cs_stdout s)), (''stderr'', Str (cs_stderr s)), (''timedOut'', Bool (cs_timedOut s)),
       (''stdoutTruncated'', Bool (cs_stdoutTruncated s)), (''stderrTruncated'', Bool (cs_stderrTruncated s))]"

text \<open>The events of the child in order; None while it has neither failed nor closed.\<close>

fun runRealSandboxCommand :: "string list \<Rightarrow> command_event list \<Rightarrow> command_state \<Rightarrow> (string + js) option" where
  "runRealSandboxCommand command [] s = None"
| "runRealSandboxCommand command (Stdout chunk # es) s =
     (case appendSandboxOutput (cs_stdout s) chunk of
        (v, t) \<Rightarrow> runRealSandboxCommand command es (s\<lparr> cs_stdout := v, cs_stdoutTruncated := cs_stdoutTruncated s \<or> t \<rparr>))"
| "runRealSandboxCommand command (Stderr chunk # es) s =
     (case appendSandboxOutput (cs_stderr s) chunk of
        (v, t) \<Rightarrow> runRealSandboxCommand command es (s\<lparr> cs_stderr := v, cs_stderrTruncated := cs_stderrTruncated s \<or> t \<rparr>))"
| "runRealSandboxCommand command (Kill_timer # es) s = runRealSandboxCommand command es (s\<lparr> cs_timedOut := True \<rparr>)"
| "runRealSandboxCommand command (Process_error m # es) s = Some (Inl m)"
| "runRealSandboxCommand command (Process_close c # es) s = Some (Inr (command_evidence command c s))"

section \<open>The checkout\<close>

text \<open>\<open>run_git\<close> is the process: its output when it exits with zero.\<close>

definition hardenedGit :: "(string \<Rightarrow> string list \<Rightarrow> string option) \<Rightarrow> string \<Rightarrow> string list \<Rightarrow> string option" where
  "hardenedGit run_git path args = map_option trim (run_git path (HARDENED_ARGS @ args))"

definition prepareTaskWorkspace :: "(string \<Rightarrow> string list \<Rightarrow> string option) \<Rightarrow> string \<Rightarrow> string \<Rightarrow> string \<Rightarrow> string \<Rightarrow> string option" where
  "prepareTaskWorkspace run_git sourceRepoPath parent workspacePath baseCommit =
     (if hardenedGit run_git parent [''clone'', ''--no-checkout'', sourceRepoPath, workspacePath] = None then Some ''TASK_CLONE_FAILED''
      else if hardenedGit run_git workspacePath [''checkout'', ''-q'', ''--detach'', baseCommit] = None then Some ''TASK_CHECKOUT_FAILED''
      else if hardenedGit run_git workspacePath [''rev-parse'', ''HEAD''] \<noteq> Some baseCommit
      then Some ''BASE_COMMIT_MISMATCH: rev-parse HEAD did not equal the pinned base commit after checkout''
      else if hardenedGit run_git workspacePath [''status'', ''--porcelain''] \<noteq> Some []
      then Some ''BASE_TREE_DIRTY: the pinned base commit tree is not clean''
      else None)"

section \<open>The run\<close>

record task_identities =
  tk_workId :: string
  tk_nodeId :: string
  tk_attemptId :: string
  tk_attemptNumber :: int
  tk_criteriaOriginSourceId :: string

record task_preflight =
  pf_piPath :: string
  pf_piVersion :: string
  pf_piDigest :: string
  pf_packagePath :: string
  pf_packageProfile :: string
  pf_packageDigest :: string
  pf_profileName :: string
  pf_profilePath :: string
  pf_profileDigest :: string

record task_ports =
  tp_workspaceTemp :: string
  tp_runtimeRoot :: string
  tp_run_git :: "string \<Rightarrow> string list \<Rightarrow> string option"
  tp_setup :: "string option"
  tp_allocate :: "string \<Rightarrow> string option \<Rightarrow> string + attempt_resources"
  tp_release :: "attempt_resources \<Rightarrow> string + cleanup_disposition"
  tp_launch :: "pool_proof_expectations \<Rightarrow> proof_job \<Rightarrow> js \<Rightarrow> pi_process launch_outcome"
  tp_command :: "string \<Rightarrow> string list \<Rightarrow> string + js"
  tp_verifier :: verifier_ports
  tp_issuedAt :: int
  tp_startedAt :: js_date
  tp_finishedAt :: js_date
  tp_envs :: "nat \<Rightarrow> env"
  tp_localeCompare :: "string \<Rightarrow> string \<Rightarrow> int"

record claimed_run =
  cx_ok :: bool
  cx_status :: string
  cx_resultId :: string
  cx_commitSha :: "string option"
  cx_failureCode :: "string option"
  cx_checks :: "(string \<times> bool) list"

definition task_job :: "task_manifest \<Rightarrow> task_identities \<Rightarrow> string \<Rightarrow> proof_job" where
  "task_job m ids workspacePath =
     \<lparr> pj_nodeId = tk_nodeId ids, pj_attemptId = tk_attemptId ids, pj_attemptNumber = tk_attemptNumber ids,
       pj_intent = tm_intent m, pj_changeSpec = tm_change_spec m,
       pj_acceptanceCriteria = map (\<lambda>(index, c).
          (if tc_id c = [] then deriveCriterionId (tk_workId ids) (tk_nodeId ids) index (tc_text c) else tc_id c, tc_text c))
          (enumerate 0 (tm_acceptance_criteria m)),
       pj_criteriaOriginSource = ''direct_task'', pj_criteriaOriginSourceId = tk_criteriaOriginSourceId ids,
       pj_targetRepo = tm_task_id m, pj_targetBranch = ''detached'', pj_allowedChangedPaths = tm_allowed_changed_paths m,
       pj_fixtureTestCommand = hd (tm_verification_commands m), pj_workspacePath = Some workspacePath \<rparr>"

definition launch_identity :: "task_preflight \<Rightarrow> task_manifest \<Rightarrow> task_identities \<Rightarrow> string \<Rightarrow> string \<Rightarrow> pool_proof_expectations" where
  "launch_identity pf m ids workspacePath runtimeRoot =
     \<lparr> le_nodeId = tk_nodeId ids, le_attemptId = tk_attemptId ids, le_targetRepo = tm_task_id m, le_targetBranch = ''detached'',
       le_workspacePath = workspacePath, pe_piRuntimeParent = runtimeRoot @ ''/pi-runtime'', pe_piSessionDir = runtimeRoot @ ''/pi-session'',
       pe_piExecutablePath = pf_piPath pf, pe_piExecutableVersion = pf_piVersion pf, pe_piExecutableDigest = pf_piDigest pf,
       pe_packagePath = pf_packagePath pf, pe_packageProfile = pf_packageProfile pf, pe_packageDigest = pf_packageDigest pf,
       pe_profileName = pf_profileName pf, pe_profilePath = pf_profilePath pf, pe_profileDigest = pf_profileDigest pf,
       pe_selectedModel = tm_model m, pe_toolGrants = [''read'', ''edit'', ''write'', ''bash'', ''actor_identity''],
       pe_resultDestinationId = tk_attemptId ids \<rparr>"

definition command_passed :: "js \<Rightarrow> bool" where
  "command_passed evidence = (fld evidence ''exitCode'' = JInt 0 \<and> \<not> js_truthy (fld evidence ''timedOut''))"

text \<open>The commands after the first, with their checks; the first exception ends them.\<close>

fun remaining_commands :: "(string list \<Rightarrow> string + js) \<Rightarrow> nat \<Rightarrow> string list list \<Rightarrow> string + (string \<times> bool) list" where
  "remaining_commands run index [] = Inr []"
| "remaining_commands run index (command # commands) =
     (case run command of
        Inl e \<Rightarrow> Inl e
      | Inr evidence \<Rightarrow> map_sum id (\<lambda>cs. (''verification_command_'' @ nat_str (index + 1), command_passed evidence) # cs)
          (remaining_commands run (index + 1) commands))"

definition conflict_js :: "bool \<times> string option \<Rightarrow> js" where
  "conflict_js r = plain [(''hasConflict'', Bool (fst r)), (''existingResultId'', case snd r of None \<Rightarrow> Null | Some i \<Rightarrow> Str i)]"

text \<open>The verifier of the runner: the container runs its commands and the store answers its query.\<close>

definition runner_verifier :: "task_ports \<Rightarrow> db \<Rightarrow> verifier_ports" where
  "runner_verifier tp d = (tp_verifier tp)\<lparr>
     vp_runner := (\<lambda>cwd command. case tp_command tp cwd command of Inl e \<Rightarrow> None | Inr evidence \<Rightarrow> Some evidence),
     vp_conflict := (\<lambda>attemptId resultId. Some (conflict_js (hasConflictingProofResult attemptId resultId d))) \<rparr>"

definition verifier_job_of :: "task_manifest \<Rightarrow> proof_job \<Rightarrow> verifier_job" where
  "verifier_job_of m job = \<lparr> vj_nodeId = pj_nodeId job, vj_attemptId = pj_attemptId job, vj_allowedChangedPaths = pj_allowedChangedPaths job,
     vj_fixtureTestCommand = hd (tm_verification_commands m), vj_expectedParentCommit = Some (tm_base_commit m), vj_isolationProbes = None \<rparr>"

definition merged_verdict :: "verifier_verdict \<Rightarrow> (string \<times> bool) list \<Rightarrow> verdict" where
  "merged_verdict v remaining =
     (let checks = vd_checks v @ remaining; allPassed = list_all snd checks in
      \<lparr> vd_status = (if allPassed then ''passed'' else ''failed''), vd_commitSha = (if allPassed then vd_commitSha v else None),
        vd_failureCode = (if allPassed then None
          else case vd_failureCode v of
            Some c \<Rightarrow> Some c
          | None \<Rightarrow> Some (if list_all snd remaining then ''VERIFIER_CHECK_FAILED'' else ''VERIFICATION_COMMAND_FAILED'')),
        vd_checks = checks \<rparr>)"

definition task_verify :: "task_ports \<Rightarrow> task_manifest \<Rightarrow> db \<Rightarrow> attempt_resources \<Rightarrow> proof_job \<Rightarrow> pi_process \<Rightarrow> string + verdict" where
  "task_verify tp m d resources job process =
     map_sum id (merged_verdict (verify (runner_verifier tp d) resources (verifier_job_of m job) process))
       (remaining_commands (tp_command tp (rs_workspacePath resources)) 1 (tl (tm_verification_commands m)))"

definition persisted_input :: "task_ports \<Rightarrow> task_manifest \<Rightarrow> task_identities \<Rightarrow> result_record \<Rightarrow> proof_result_input" where
  "persisted_input tp m ids r =
     \<lparr> rr_attemptId = re_attemptId r, rr_resultId = re_resultId r, rr_nodeId = tk_nodeId ids, rr_selectedModel = tm_model m,
       rr_checks = vd_checks (re_verdict r), rr_startedAt = tp_startedAt tp, rr_finishedAt = tp_finishedAt tp,
       rr_status = vd_status (re_verdict r), rr_commitSha = vd_commitSha (re_verdict r), rr_failureCode = vd_failureCode (re_verdict r) \<rparr>"

definition store_result :: "task_ports \<Rightarrow> task_manifest \<Rightarrow> task_identities \<Rightarrow> nat \<Rightarrow> result_record \<Rightarrow> db \<Rightarrow> persistence_error option \<times> db" where
  "store_result tp m ids k r d = recordResult (tp_localeCompare tp) (tp_envs tp k) (persisted_input tp m ids r) d"

text \<open>
  The ports of the runtime. A result that is refused leaves the store as it was, so the second
  attempt to record one meets the store of the first.
\<close>

definition runner_ports :: "task_ports \<Rightarrow> task_preflight \<Rightarrow> task_manifest \<Rightarrow> task_identities \<Rightarrow> db \<Rightarrow> pi_process run_ports" where
  "runner_ports tp pf m ids d =
     \<lparr> ru_allocate = tp_allocate tp, ru_persistAttempt = (\<lambda>a n s r. None), ru_launch = tp_launch tp, ru_verify = task_verify tp m d,
       ru_persistResult = (\<lambda>k r. map_option (\<lambda>e. ''record proof result failed'') (fst (store_result tp m ids k r d))),
       ru_release = tp_release tp, ru_issuedAt = tp_issuedAt tp, ru_selectedModel = tm_model m,
       ru_launchIdentity = launch_identity pf m ids (tp_workspaceTemp tp @ ''/task-workspace'') (tp_runtimeRoot tp) \<rparr>"

text \<open>What the recorded results of a run leave in the store.\<close>

fun store_calls :: "task_ports \<Rightarrow> task_manifest \<Rightarrow> task_identities \<Rightarrow> nat \<Rightarrow> run_call list \<Rightarrow> db \<Rightarrow> db" where
  "store_calls tp m ids k [] d = d"
| "store_calls tp m ids k (PersistResult r ok # cs) d = store_calls tp m ids (Suc k) cs (snd (store_result tp m ids k r d))"
| "store_calls tp m ids k (c # cs) d = store_calls tp m ids k cs d"

text \<open>The result id the runtime told the runner, where it got as far.\<close>

fun released_id :: "string \<Rightarrow> run_call list \<Rightarrow> string" where
  "released_id i [] = i"
| "released_id i (Release r # cs) = rs_resultId r"
| "released_id i (c # cs) = released_id i cs"

definition claimed_result :: "string \<Rightarrow> submit_result \<Rightarrow> string \<Rightarrow> db \<Rightarrow> claimed_run" where
  "claimed_result attemptId result resultId d =
     (let persisted = getProofResult attemptId d;
          checks = map (\<lambda>c. (k_check_name c, k_passed c = 1)) (getProofChecks attemptId d);
          passed = (case result of Finished a r s i c \<Rightarrow> s = ''passed'' | Failure a e m i c \<Rightarrow> False) in
      \<lparr> cx_ok = passed, cx_status = (if passed then ''passed'' else ''failed''),
        cx_resultId = (case result of Finished a r s i c \<Rightarrow> r | Failure a e m i c \<Rightarrow> resultId),
        cx_commitSha = Option.bind persisted f_commit_sha,
        cx_failureCode = (if passed then None
          else case Option.bind persisted f_failure_code of
            Some c \<Rightarrow> Some c
          | None \<Rightarrow> Some (case result of Failure a e m i c \<Rightarrow> e | Finished a r s i c \<Rightarrow> ''TASK_VERIFIER_CHECK_FAILED'')),
        cx_checks = (if checks = [] then [(''runtime_submit'', False)] else checks) \<rparr>)"

definition runClaimedTask ::
  "task_ports \<Rightarrow> adapter_provenance \<Rightarrow> bool \<Rightarrow> task_preflight \<Rightarrow> task_manifest \<Rightarrow> task_identities \<Rightarrow> db \<Rightarrow> (string + claimed_run) \<times> db" where
  "runClaimedTask tp provenance hasOverrides pf m ids d =
     (let hasFake = hasFakeAdapter provenance; workspacePath = tp_workspaceTemp tp @ ''/task-workspace'' in
      if hasOverrides \<and> \<not> hasFake then (Inl ''POOL_PROOF_REAL_ADAPTER_OVERRIDE_REJECTED'', d)
      else if hasFake \<and> \<not> hasOverrides then (Inl ''POOL_PROOF_FAKE_ADAPTER_REJECTED'', d)
      else case prepareTaskWorkspace (tp_run_git tp) (tm_target_repo_path m) (tp_workspaceTemp tp) workspacePath (tm_base_commit m) of
        Some e \<Rightarrow> (Inl e, d)
      | None \<Rightarrow> (case tp_setup tp of
        Some e \<Rightarrow> (Inl e, d)
      | None \<Rightarrow>
          (let cfg = \<lparr> pc_provenance = provenance, pc_allowFakeAdapters = hasFake \<rparr>; job = task_job m ids workspacePath in
           case createMinimalPoolRuntimeWithPolicy cfg (JInt 1) of
             Inl e \<Rightarrow> (Inl e, d)
           | Inr pool \<Rightarrow>
               (case (case submit cfg job pool of
                        (Some r, _) \<Rightarrow> (r, [])
                      | (None, _) \<Rightarrow> runOne (runner_ports tp pf m ids d) job 0) of
                  (result, calls) \<Rightarrow>
                    (let d' = store_calls tp m ids 0 calls d in
                     (Inr (claimed_result (tk_attemptId ids) result (released_id (tk_attemptId ids) calls) d'), d'))))))"

end
