(* ===== verification/Direct_Service.thy ===== *)
theory Direct_Service
  imports Task_Run Direct_Intake Js_Objects
begin

text \<open>
  The direct-task service (\<^verbatim>\<open>composition/direct-task-service.ts\<close>): POST composes the intake
  with the manifest and imports the accepted unit into the store, GET reports the state of a
  caller's own submission, and \<open>claimOnce\<close> takes the next open task through its attempt, its
  lease, its run and the acceptance of its result.

  Parameters are the injected collaborators (\<open>authenticate\<close>, the submission ids, the clock and
  lock of each store call), the file system, SHA-256, the printing of numbers, and
  \<open>stringify\<close> and \<open>parse\<close>, the JSON functions of the language on values and texts.
  \<open>Body_bad_manifest\<close> is the answer with the one violation \<^verbatim>\<open>INVALID_FIELD_FORMAT\<close> at
  \<^verbatim>\<open>/unit\<close> whose message is the reason of the rejection.
\<close>

section \<open>Values\<close>

record task_settings =
  ts_task_id :: string
  ts_target_repo_path :: string
  ts_base_commit :: string
  ts_allowed_changed_paths :: "string list"
  ts_verification_commands :: "string list list"
  ts_model :: string
  ts_timeout :: int

record service_ports =
  sv_settings :: task_settings
  sv_number_text :: "rat \<Rightarrow> string"
  sv_sha :: "string \<Rightarrow> string"
  sv_stringify :: "js \<Rightarrow> string"
  sv_parse :: "string \<Rightarrow> js option"
  sv_realpath :: "string \<Rightarrow> string option"
  sv_directory :: "string \<Rightarrow> bool option"
  sv_authenticate :: "(string \<times> string option) list \<Rightarrow> string option"

record status_view =
  sw_submission_id :: string
  sw_work_id :: string
  sw_node_id :: string
  sw_status :: string
  sw_attempt :: "string option"
  sw_result :: "(string \<times> string \<times> bool \<times> (string \<times> bool) list) option"

datatype service_body =
    Body_rejected "violation list"
  | Body_bad_manifest manifest_rejection
  | Body_accepted acceptance string
  | Body_replayed js
  | Body_status status_view

text \<open>What the acceptance and the manifest are as values of the language.\<close>

definition provenance_js :: "criteria_provenance \<Rightarrow> js" where
  "provenance_js p = plain [(''origin'', Str (cp_origin p)), (''caller_id'', Str (cp_caller_id p)), (''submission_id'', Str (cp_submission_id p)),
     (''idempotency_key'', case cp_idempotency_key p of None \<Rightarrow> Null | Some k \<Rightarrow> Str k), (''unit_id'', Str (cp_unit_id p))]"

definition accepted_unit_js :: "accepted_unit \<Rightarrow> js" where
  "accepted_unit_js u = plain [(''id'', Str (au_id u)), (''intent'', Str (au_intent u)), (''change_spec'', Str (au_change_spec u)),
     (''acceptance_criteria'', Arr (map Str (au_acceptance_criteria u))), (''depends_on'', Arr (map Str (au_depends_on u))),
     (''acceptance_criteria_provenance'', provenance_js (au_acceptance_criteria_provenance u))]"

definition acceptance_js :: "acceptance \<Rightarrow> js" where
  "acceptance_js a = plain [(''submission_id'', Str (da_submission_id a)), (''repo'', Str (da_repo a)), (''branch'', Str (da_branch a)),
     (''units'', Arr (map accepted_unit_js (da_units a))), (''submission_shape'', Str (shape_str (da_submission_shape a))),
     (''gate1_required'', Bool (da_gate1_required a)), (''gate2_required'', Bool (da_gate2_required a)),
     (''decomposition_invoked'', Bool (da_decomposition_invoked a)), (''payload_hash'', Str (da_payload_hash a)),
     (''replayed'', Bool (da_replayed a))]"

definition criterion_js :: "task_criterion \<Rightarrow> js" where
  "criterion_js c = plain [(''id'', Str (tc_id c)), (''text'', Str (tc_text c))]"

definition manifest_js :: "task_manifest \<Rightarrow> js" where
  "manifest_js m = plain [(''schema_version'', JInt 1), (''task_id'', Str (tm_task_id m)), (''target_repo_path'', Str (tm_target_repo_path m)),
     (''base_commit'', Str (tm_base_commit m)), (''intent'', Str (tm_intent m)), (''change_spec'', Str (tm_change_spec m)),
     (''acceptance_criteria'', Arr (map criterion_js (tm_acceptance_criteria m))),
     (''allowed_changed_paths'', Arr (map Str (tm_allowed_changed_paths m))),
     (''verification_commands'', Arr (map (\<lambda>argv. Arr (map Str argv)) (tm_verification_commands m))), (''model'', Str (tm_model m)),
     (''bounds'', plain [(''verification_timeout_seconds'', JInt (tm_timeout m))])]"

definition acceptance_with_work :: "js \<Rightarrow> string \<Rightarrow> js" where
  "acceptance_with_work a workId = plain (put_field (''work_id'', Str workId) (fold put_field (own_fields a) []))"

section \<open>POST\<close>

definition combined_value :: "task_settings \<Rightarrow> accepted_unit \<Rightarrow> js" where
  "combined_value ts u = plain [(''schema_version'', JInt 1), (''task_id'', Str (ts_task_id ts)),
     (''target_repo_path'', Str (ts_target_repo_path ts)), (''base_commit'', Str (ts_base_commit ts)),
     (''intent'', Str (au_intent u)), (''change_spec'', Str (au_change_spec u)),
     (''acceptance_criteria'', Arr (map (\<lambda>(index, text). plain [(''id'', Str (''c'' @ nat_str (index + 1))), (''text'', Str text)])
        (enumerate 0 (au_acceptance_criteria u)))),
     (''allowed_changed_paths'', Arr (map Str (ts_allowed_changed_paths ts))),
     (''verification_commands'', Arr (map (\<lambda>argv. Arr (map Str argv)) (ts_verification_commands ts))), (''model'', Str (ts_model ts)),
     (''bounds'', plain [(''verification_timeout_seconds'', JInt (ts_timeout ts))])]"

definition combineManifest :: "service_ports \<Rightarrow> accepted_unit \<Rightarrow> manifest_rejection + task_manifest" where
  "combineManifest sv u = parseTaskManifest (sv_realpath sv) (sv_directory sv) (combined_value (sv_settings sv) u)"

definition direct_work :: "service_ports \<Rightarrow> acceptance \<Rightarrow> accepted_unit \<Rightarrow> task_manifest \<Rightarrow> js" where
  "direct_work sv a u m = plain [(''work_id'', Str (''work://'' @ da_submission_id a)), (''origin'', Str ''direct_task''),
     (''repo'', Str (ts_task_id (sv_settings sv))), (''branch'', Str ''detached''),
     (''payload_hash'', Str (''sha256:'' @ sv_sha sv (sv_stringify sv (manifest_js m)))),
     (''nodes'', Arr [plain [(''id'', Str (au_id u)), (''intent'', Str (au_intent u)), (''change_spec'', Str (au_change_spec u)),
        (''acceptance_criteria'', Arr (map Str (au_acceptance_criteria u))), (''depends_on'', Arr []),
        (''criteria_origin_source'', Str ''direct_task''), (''criteria_origin_source_id'', Str (da_submission_id a))]])]"

definition direct_input :: "service_ports \<Rightarrow> string \<Rightarrow> string option \<Rightarrow> acceptance \<Rightarrow> accepted_unit \<Rightarrow> task_manifest \<Rightarrow> direct_task_input" where
  "direct_input sv callerId scopeKey a u m =
     \<lparr> di_caller_id = callerId, di_scope_key = scopeKey, di_payload_hash = da_payload_hash a, di_submission_id = da_submission_id a,
       di_acceptance_json = sv_stringify sv (acceptance_js a), di_manifest_json = sv_stringify sv (manifest_js m),
       di_work = direct_work sv a u m \<rparr>"

definition one_violation :: "string \<Rightarrow> string \<Rightarrow> string \<Rightarrow> service_body" where
  "one_violation code path message = Body_rejected [viol code path message None]"

definition one_unit_only :: "nat \<times> service_body" where
  "one_unit_only = (400, one_violation ''AMBIGUOUS_SUBMISSION_SHAPE'' ''/units'' ''composed POST /tasks accepts one unit only'')"

text \<open>The answer to the import of an accepted unit.\<close>

definition import_answer :: "service_ports \<Rightarrow> acceptance \<Rightarrow> direct_import orch_result \<Rightarrow> string + nat \<times> service_body" where
  "import_answer sv a imported =
     (case imported of
        Threw e \<Rightarrow> Inl e
      | Err c message \<Rightarrow>
          if c = IDEMPOTENCY_KEY_PAYLOAD_MISMATCH
          then Inr (409, one_violation ''IDEMPOTENCY_KEY_PAYLOAD_MISMATCH'' ''Idempotency-Key'' message)
          else Inr (400, one_violation ''MALFORMED_BODY'' ''$'' message)
      | Ok (Imported workId _) \<Rightarrow> Inr (202, Body_accepted a workId)
      | Ok (Replayed workId _ json) \<Rightarrow>
          (case sv_parse sv json of
             None \<Rightarrow> Inl ''Unexpected token in JSON''
           | Some original \<Rightarrow>
               Inr (200, Body_replayed (acceptance_with_work (plain (put_field (''replayed'', Bool True) (fold put_field (own_fields original) []))) workId))))"

definition handlePost :: "service_ports \<Rightarrow> js \<Rightarrow> env \<Rightarrow> http_request \<Rightarrow> string \<Rightarrow> db \<Rightarrow> (string + nat \<times> service_body) \<times> db" where
  "handlePost sv gen e request callerId d =
     (let body = hr_body request; key = headerValue (hr_headers request) ''idempotency-key'' in
      if is_object body \<and> hasOwnField body ''units'' then (Inr one_unit_only, d)
      else if \<not> (case key of None \<Rightarrow> True | Some k \<Rightarrow> isValidIdempotencyKey k)
      then (Inr (400, one_violation ''INVALID_IDEMPOTENCY_KEY'' ''Idempotency-Key''
              ''idempotency key must be non-empty printable ASCII without whitespace''), d)
      else case fst (acceptDirectTasks (sv_number_text sv) (sv_sha sv) (\<lambda>s k. None) (\<lambda>s k r. Inr s) gen (Str callerId) body key ()) of
        Inl m \<Rightarrow> (Inl m, d)
      | Inr (Rejected vs) \<Rightarrow> (Inr (statusForViolations vs, Body_rejected vs), d)
      | Inr (Accepted a) \<Rightarrow>
          (if da_submission_shape a \<noteq> Single_unit \<or> length (da_units a) \<noteq> 1 then (Inr one_unit_only, d)
           else let u = hd (da_units a) in
             case combineManifest sv u of
               Inl r \<Rightarrow> (Inr (400, Body_bad_manifest r), d)
             | Inr m \<Rightarrow>
                 (case importDirectTask e (direct_input sv callerId (map_option (idempotencyScopeKey callerId DIRECT_TASK_ROUTE) key) a u m) d of
                    (imported, d') \<Rightarrow> (import_answer sv a imported, d'))))"

section \<open>GET\<close>

definition submissionPath :: "string \<Rightarrow> string option" where
  "submissionPath path =
     (if \<not> prefix (DIRECT_TASK_PATH @ ''/'') path then None
      else let i = drop (length DIRECT_TASK_PATH + 1) path in if i = [] \<or> CHR ''/'' \<in> set i then None else Some i)"

definition boundedStatus :: "string \<Rightarrow> node_row \<Rightarrow> string option \<Rightarrow> proof_row option \<Rightarrow> (string \<times> bool) list \<Rightarrow> string \<Rightarrow> status_view" where
  "boundedStatus submissionId node attemptId proof checks workId =
     \<lparr> sw_submission_id = submissionId, sw_work_id = workId, sw_node_id = n_node_id node,
       sw_status = (case proof of
           Some r \<Rightarrow> f_status r
         | None \<Rightarrow> if n_state node = Passed \<or> n_state node = Failed then state_str (n_state node)
             else if nonempty attemptId \<noteq> None then ''in_progress'' else ''accepted''),
       sw_attempt = nonempty attemptId,
       sw_result = (case proof of
           None \<Rightarrow> None
         | Some r \<Rightarrow> if f_result_id r \<noteq> [] \<and> f_status r \<noteq> []
             then Some (f_result_id r, f_status r, f_commit_sha r \<noteq> None, take 16 checks) else None) \<rparr>"

definition not_found :: "nat \<times> service_body" where
  "not_found = (404, Body_rejected [])"

definition handleGet :: "string \<Rightarrow> string \<Rightarrow> db \<Rightarrow> nat \<times> service_body" where
  "handleGet callerId submissionId d =
     (case getDirectTaskSubmission callerId submissionId d of
        None \<Rightarrow> not_found
      | Some sub \<Rightarrow>
          (case listNodes (t_work_id sub) d of
             [] \<Rightarrow> not_found
           | node # _ \<Rightarrow>
               (let attemptId = (case getActiveAttemptForNode (t_work_id sub) (n_node_id node) d of
                      Some a \<Rightarrow> Some (a_attempt_id a)
                    | None \<Rightarrow> (case getProofResultsByWork (t_work_id sub) d of [] \<Rightarrow> None | r # _ \<Rightarrow> Some (f_attempt_id r)));
                    known = nonempty attemptId;
                    proof = Option.bind known (\<lambda>a. getProofResult a d);
                    checks = (case known of None \<Rightarrow> []
                      | Some a \<Rightarrow> map (\<lambda>c. (k_check_name c, k_passed c = 1)) (getProofChecks a d)) in
                (200, Body_status (boundedStatus (t_submission_id sub) node attemptId proof checks (t_work_id sub))))))"

definition handleRequest :: "service_ports \<Rightarrow> js \<Rightarrow> env \<Rightarrow> http_request \<Rightarrow> db \<Rightarrow> (string + nat \<times> service_body) \<times> db" where
  "handleRequest sv gen e request d =
     (case sv_authenticate sv (hr_headers request) of
        None \<Rightarrow> (Inr (401, one_violation ''UNAUTHENTICATED'' ''$'' ''an authenticated caller id is required''), d)
      | Some callerId \<Rightarrow>
          let verb = map upper_char (hr_method request) in
          if verb = ''POST'' \<and> hr_path request = DIRECT_TASK_PATH then handlePost sv gen e request callerId d
          else if verb = ''GET'' \<and> submissionPath (hr_path request) \<noteq> None
          then (Inr (handleGet callerId (the (submissionPath (hr_path request))) d), d)
          else if hr_path request = DIRECT_TASK_PATH then (Inr (405, one_violation ''MALFORMED_BODY'' ''$'' ''only POST is supported''), d)
          else (Inr not_found, d))"

section \<open>Claiming\<close>

text \<open>
  A step of \<open>claimOnce\<close> throws (Inl), returns early (Inr None) or hands a value on. \<open>store_call\<close>
  is a store call whose typed error makes \<open>claimOnce\<close> return.
\<close>

type_synonym 'a claim_step = "(string + 'a option) \<times> db"

definition store_call :: "'a orch_result \<times> db \<Rightarrow> 'a claim_step" where
  "store_call r = (case r of (Ok x, d) \<Rightarrow> (Inr (Some x), d) | (Err c m, d) \<Rightarrow> (Inr None, d) | (Threw m, d) \<Rightarrow> (Inl m, d))"

definition and_then :: "'a claim_step \<Rightarrow> ('a \<Rightarrow> db \<Rightarrow> 'b claim_step) \<Rightarrow> 'b claim_step" where
  "and_then r f = (case r of (Inl m, d) \<Rightarrow> (Inl m, d) | (Inr None, d) \<Rightarrow> (Inr None, d) | (Inr (Some x), d) \<Rightarrow> f x d)"

definition claimOwner :: string where "claimOwner = ''direct-task-service''"

record claim_envs =
  ce_reclaim :: "string \<Rightarrow> env"
  ce_ready :: env
  ce_attempt :: env
  ce_progress :: env
  ce_lease :: env
  ce_accept :: env
  ce_complete :: env
  ce_now :: int
  ce_leaseTtlMs :: int
  ce_accepted_at :: int
  ce_tmp_error :: "string option"

fun reclaim_leased :: "claim_envs \<Rightarrow> attempt_row list \<Rightarrow> db \<Rightarrow> unit claim_step" where
  "reclaim_leased ce [] d = (Inr (Some ()), d)"
| "reclaim_leased ce (a # as) d =
     (if a_state a \<noteq> Leased then reclaim_leased ce as d
      else case reclaimLease (ce_reclaim ce (a_attempt_id a)) (a_attempt_id a) claimOwner (Some (ce_now ce)) d of
        (Threw m, d') \<Rightarrow> (Inl m, d')
      | (_, d') \<Rightarrow> reclaim_leased ce as d')"

definition claimable :: "direct_task_claimable \<Rightarrow> bool" where
  "claimable c = (dc_node_state c = Pending \<or> dc_node_state c = Ready
     \<or> (dc_node_state c = In_progress \<and> (case dc_attempt c of None \<Rightarrow> True | Some (_, st) \<Rightarrow> st \<noteq> Completed)))"

text \<open>The next task, unless a proof result is stored for its attempt.\<close>

definition next_claim :: "db \<Rightarrow> direct_task_claimable option" where
  "next_claim d =
     (case find claimable (listDirectTaskClaimables d) of
        None \<Rightarrow> None
      | Some c \<Rightarrow> (case dc_attempt c of
            None \<Rightarrow> Some c
          | Some (a, _) \<Rightarrow> if a \<noteq> [] \<and> getProofResult a d \<noteq> None then None else Some c))"

record claim =
  cm_row :: direct_task_claimable
  cm_attempt :: string
  cm_version :: int
  cm_generation :: int
  cm_token :: string

definition attempt_of :: "direct_task_claimable \<Rightarrow> string" where
  "attempt_of c = (case dc_attempt c of None \<Rightarrow> deriveAttemptId (dc_work_id c) (dc_node_id c) 1 | Some (a, _) \<Rightarrow> a)"

definition ready_node :: "claim_envs \<Rightarrow> direct_task_claimable \<Rightarrow> db \<Rightarrow> (node_state \<times> int) claim_step" where
  "ready_node ce c d =
     (if dc_node_state c = Pending
      then and_then (store_call (transitionNode (ce_ready ce) (dc_work_id c) (dc_node_id c) (dc_node_version c) Ready d))
             (\<lambda>r d. (Inr (Some (n_state r, n_version r)), d))
      else (Inr (Some (dc_node_state c, dc_node_version c)), d))"

definition ensure_attempt :: "claim_envs \<Rightarrow> string \<Rightarrow> direct_task_claimable \<Rightarrow> db \<Rightarrow> unit claim_step" where
  "ensure_attempt ce model c d =
     (if (case dc_attempt c of None \<Rightarrow> True | Some (a, _) \<Rightarrow> a = [])
      then and_then (store_call (createAttempt (ce_attempt ce) (dc_work_id c) (dc_node_id c) (attempt_of c) 1 (deriveJobId (attempt_of c))
             (plain [(''builder'', Str model), (''policyVersion'', JInt 1)]) d)) (\<lambda>r d. (Inr (Some ()), d))
      else (Inr (Some ()), d))"

definition start_node :: "claim_envs \<Rightarrow> direct_task_claimable \<Rightarrow> node_state \<times> int \<Rightarrow> db \<Rightarrow> int claim_step" where
  "start_node ce c s d =
     (if fst s = Ready
      then and_then (store_call (transitionNode (ce_progress ce) (dc_work_id c) (dc_node_id c) (snd s) In_progress d))
             (\<lambda>r d. (Inr (Some (n_version r)), d))
      else (Inr (Some (snd s)), d))"

definition lease_command :: "string \<Rightarrow> js" where
  "lease_command attemptId = plain [(''kind'', Str ''claim''), (''attempt_id'', Str attemptId), (''owner'', Str claimOwner)]"

text \<open>Everything up to the lease: the claimed task, its attempt, node version and lease.\<close>

definition take_claim :: "claim_envs \<Rightarrow> string \<Rightarrow> direct_task_claimable \<Rightarrow> db \<Rightarrow> claim claim_step" where
  "take_claim ce model c d =
     and_then (ready_node ce c d) (\<lambda>s d.
     and_then (ensure_attempt ce model c d) (\<lambda>_ d.
     and_then (start_node ce c s d) (\<lambda>version d.
     and_then (store_call (claimLease (ce_lease ce) (lease_command (attempt_of c)) (Some (ce_now ce + ce_leaseTtlMs ce)) (Some (ce_now ce)) d))
       (\<lambda>l d. (Inr (Some \<lparr> cm_row = c, cm_attempt = attempt_of c, cm_version = version, cm_generation = fst l, cm_token = snd l \<rparr>), d)))))"

definition claim_identities :: "claim \<Rightarrow> task_identities" where
  "claim_identities m = \<lparr> tk_workId = dc_work_id (cm_row m), tk_nodeId = dc_node_id (cm_row m), tk_attemptId = cm_attempt m,
     tk_attemptNumber = 1, tk_criteriaOriginSourceId = dc_submission_id (cm_row m) \<rparr>"

definition report_js :: "claim \<Rightarrow> claimed_run \<Rightarrow> js" where
  "report_js m r = plain [(''result_id'', Str (cx_resultId r)), (''attempt_id'', Str (cm_attempt m)), (''node_id'', Str (dc_node_id (cm_row m))),
     (''work_id'', Str (dc_work_id (cm_row m))), (''outcome'', Str (cx_status r)), (''phase'', Str ''R''), (''token'', Str (cm_token m)),
     (''generation'', JInt (cm_generation m)), (''expected_node_version'', JInt (cm_version m))]"

text \<open>The acceptance of the result of a run, and its completion when it was accepted.\<close>

definition settle_claim :: "claim_envs \<Rightarrow> claim \<Rightarrow> claimed_run \<Rightarrow> db \<Rightarrow> unit claim_step" where
  "settle_claim ce m r d =
     (case acceptResult (ce_accept ce) (report_js m r) (Some (ce_accepted_at ce)) d of
        (Threw e, d') \<Rightarrow> (Inl e, d')
      | (Err c e, d') \<Rightarrow> (Inr None, d')
      | (Ok _, d') \<Rightarrow>
          (case completeAuthorizedResult (ce_complete ce) (dc_work_id (cm_row m)) (dc_node_id (cm_row m)) (cm_attempt m) d' of
             (Threw e, d'') \<Rightarrow> (Inl e, d'') | (_, d'') \<Rightarrow> (Inr (Some ()), d'')))"

text \<open>\<open>run\<close> is \<open>runClaimedTask\<close>; a run that throws ends the claim after its directory was removed.\<close>

definition run_claim ::
  "service_ports \<Rightarrow> claim_envs \<Rightarrow> (task_manifest \<Rightarrow> task_identities \<Rightarrow> db \<Rightarrow> (string + claimed_run) \<times> db) \<Rightarrow> claim \<Rightarrow> db \<Rightarrow> unit claim_step" where
  "run_claim sv ce run m d =
     (case sv_parse sv (dc_manifest_json (cm_row m)) of
        None \<Rightarrow> (Inl ''Unexpected token in JSON'', d)
      | Some v \<Rightarrow>
          (case parseTaskManifest (sv_realpath sv) (sv_directory sv) v of
             Inl r \<Rightarrow> (Inr None, d)
           | Inr manifest \<Rightarrow>
               (case ce_tmp_error ce of
                  Some e \<Rightarrow> (Inl e, d)
                | None \<Rightarrow>
                    (case run manifest (claim_identities m) d of
                       (Inl e, d') \<Rightarrow> (Inl e, d')
                     | (Inr r, d') \<Rightarrow> settle_claim ce m r d'))))"

definition claimOnce ::
  "service_ports \<Rightarrow> claim_envs \<Rightarrow> (task_manifest \<Rightarrow> task_identities \<Rightarrow> db \<Rightarrow> (string + claimed_run) \<times> db) \<Rightarrow> db \<Rightarrow> unit claim_step" where
  "claimOnce sv ce run d =
     and_then (reclaim_leased ce (listAttemptsNeedingReconciliation (ce_now ce) d) d) (\<lambda>_ d.
       case next_claim d of
         None \<Rightarrow> (Inr None, d)
       | Some c \<Rightarrow> and_then (take_claim ce (ts_model (sv_settings sv)) c d) (run_claim sv ce run))"

end
