(* ===== verification/Task_Run_Properties.thy ===== *)
theory Task_Run_Properties
  imports Task_Run Pool_Proof_Properties
begin

text \<open>
  What a claimed run reports is what it stored, a reported success rests on the evidence, and
  whatever happens the store only performs steps of its own.
\<close>

section \<open>The sandbox output\<close>

lemma append_bounded:
  assumes "length current \<le> SANDBOX_OUTPUT_CAP_BYTES"
  shows "length (fst (appendSandboxOutput current chunk)) \<le> SANDBOX_OUTPUT_CAP_BYTES"
  using assms by (auto simp: appendSandboxOutput_def Let_def)

text \<open>The flag is inverted: output that fits is reported as cut, and the chunk that is cut is not.\<close>

lemma truncation_flag_inverted:
  assumes "length current < SANDBOX_OUTPUT_CAP_BYTES"
  shows "snd (appendSandboxOutput current chunk) \<longleftrightarrow> fst (appendSandboxOutput current chunk) = current @ chunk"
  using assms by (auto simp: appendSandboxOutput_def Let_def)

section \<open>Storing\<close>

lemma mapped_Inr: "map_sum id f x = Inr y \<longleftrightarrow> (\<exists>z. x = Inr z \<and> y = f z)"
  by (cases x) auto

lemma store_result_run: "store_step\<^sup>*\<^sup>* d (snd (store_result tp m ids k r d))"
proof -
  have "snd (store_result tp m ids k r d) = d \<or>
      snd (store_result tp m ids k r d) = snd (recordProofResult (tp_localeCompare tp) (tp_envs tp k) (proof_input_of (persisted_input tp m ids r)) d)"
    by (auto simp: store_result_def recordResult_def normalizeProofResultInput_def split: sum.splits outcome.splits prod.splits)
  then show ?thesis using store_step.st_proof r_into_rtranclp by force
qed

lemma store_calls_run: "store_step\<^sup>*\<^sup>* d (store_calls tp m ids k cs d)"
  by (induction tp m ids k cs d rule: store_calls.induct) (auto intro: rtranclp_trans store_result_run)

lemma recorded_row:
  assumes "fst (recordProofResult lc e inp d) = Ok ()"
  shows "getProofResult (pi_attempt_id inp) (snd (recordProofResult lc e inp d)) = Some (proof_row_of inp)"
proof -
  have v: "validate_proof_input inp = None" using assms by (cases "validate_proof_input inp") (auto simp: recordProofResult_def fail_def)
  then have a: "isNonEmptyString (Str (pi_attempt_id inp)) (maxIdLength OL)"
    unfolding validate_proof_input_def or_else_None first_error_None by auto
  note r = recordProofResult_def begin_immediate_typed_def v
  have e: "env_begin_error e = None" using assms by (cases "env_begin_error e") (simp_all add: r)
  obtain at0 where at0: "get_attempt_row (pi_attempt_id inp) d = Some at0"
    using assms by (cases "get_attempt_row (pi_attempt_id inp) d") (simp_all add: r e)
  have n: "a_node_id at0 = pi_node_id inp" using assms by (cases "a_node_id at0 = pi_node_id inp") (simp_all add: r e at0)
  obtain b where b: "t_get b_attempt_id (pi_attempt_id inp) (attempt_routing_decisions d) = Some b" "b_builder_model b = pi_builder_model inp"
    using assms by (cases "t_get b_attempt_id (pi_attempt_id inp) (attempt_routing_decisions d)") (auto simp: r e at0 n split: if_splits simp del: t_get_None)
  show ?thesis
  proof (cases "t_get f_attempt_id (pi_attempt_id inp) (pool_proof_results d)")
    case (Some row)
    then show ?thesis using assms a by (simp add: r e at0 n b getProofResult_def audit_def split: if_splits)
  next
    case None
    have k: "f_attempt_id (proof_row_of inp) = pi_attempt_id inp" by (simp add: proof_row_of_def)
    obtain cs where cs: "insert_all check_key (check_rows_of (pi_attempt_id inp) (pi_checks inp)) (pool_proof_checks d) = Some cs"
      using assms None by (cases "insert_all check_key (check_rows_of (pi_attempt_id inp) (pi_checks inp)) (pool_proof_checks d)")
        (simp_all add: r e at0 n b del: t_get_None)
    then show ?thesis using None a k by (simp add: r e at0 n b getProofResult_def audit_def t_get_append t_get_Cons del: t_get_None)
  qed
qed

lemma stored_result:
  assumes "fst (store_result tp m ids k r d) = None"
  shows "\<exists>row. getProofResult (re_attemptId r) (snd (store_result tp m ids k r d)) = Some row \<and> f_status row = vd_status (re_verdict r)
    \<and> f_commit_sha row = vd_commitSha (re_verdict r) \<and> f_result_id row = re_resultId r"
proof -
  let ?in = "persisted_input tp m ids r"
  have n: "normalizeProofResultInput ?in = Inr ?in"
    using assms by (auto simp: store_result_def recordResult_def normalizeProofResultInput_def split: if_splits)
  obtain rd' where rd: "recordProofResult (tp_localeCompare tp) (tp_envs tp k) (proof_input_of ?in) d = (Ok (), rd')"
    using assms n by (auto simp: store_result_def recordResult_def split: outcome.splits prod.splits)
  then have "snd (store_result tp m ids k r d) = rd'" by (simp add: store_result_def recordResult_def n)
  moreover have "getProofResult (re_attemptId r) rd' = Some (proof_row_of (proof_input_of ?in))"
    using recorded_row [of "tp_localeCompare tp" "tp_envs tp k" "proof_input_of ?in" d] rd by (simp add: proof_input_of_def persisted_input_def)
  ultimately show ?thesis by (simp add: proof_row_of_def proof_input_of_def persisted_input_def)
qed

section \<open>The verdict of the runner\<close>

lemma remaining_green:
  assumes "remaining_commands run k commands = Inr cs" "list_all snd cs"
  shows "list_all (\<lambda>c. case run c of Inl e \<Rightarrow> False | Inr evidence \<Rightarrow> command_passed evidence) commands"
  using assms
proof (induction run k commands arbitrary: cs rule: remaining_commands.induct)
  case (2 run index command commands)
  then show ?case by (cases "run command") (auto simp: mapped_Inr)
qed simp

lemma task_verdict:
  assumes "task_verify tp m d resources job process = Inr v" "vd_status v = ''passed''"
  shows "evidence_holds (runner_verifier tp d) resources (verifier_job_of m job) process"
    "list_all (\<lambda>c. case tp_command tp (rs_workspacePath resources) c of Inl e \<Rightarrow> False | Inr evidence \<Rightarrow> command_passed evidence)
       (tl (tm_verification_commands m))"
    "vd_commitSha v = readGitSha (runner_verifier tp d) (rs_workspacePath resources)" "vd_commitSha v \<noteq> None"
proof -
  let ?v = "verify (runner_verifier tp d) resources (verifier_job_of m job) process"
  obtain cs where cs: "remaining_commands (tp_command tp (rs_workspacePath resources)) 1 (tl (tm_verification_commands m)) = Inr cs"
    "v = merged_verdict ?v cs" using assms(1) by (auto simp: task_verify_def mapped_Inr)
  then have p: "list_all snd (vd_checks ?v)" "list_all snd cs" using assms(2) by (auto simp: merged_verdict_def Let_def split: if_splits)
  show h: "evidence_holds (runner_verifier tp d) resources (verifier_job_of m job) process" using p(1) all_checks_iff by blast
  show "list_all (\<lambda>c. case tp_command tp (rs_workspacePath resources) c of Inl e \<Rightarrow> False | Inr evidence \<Rightarrow> command_passed evidence)
       (tl (tm_verification_commands m))" by (rule remaining_green [OF cs(1) p(2)])
  show c: "vd_commitSha v = readGitSha (runner_verifier tp d) (rs_workspacePath resources)"
    using cs(2) p h verdict_fields(2) [of "runner_verifier tp d" resources "verifier_job_of m job" process] by (simp add: merged_verdict_def Let_def)
  have "one_commit_on (runner_verifier tp d) (rs_workspacePath resources) (vj_expectedParentCommit (verifier_job_of m job))"
    using h by (simp add: evidence_holds_def Let_def)
  then show "vd_commitSha v \<noteq> None" unfolding c one_commit_on_def by (auto simp: readGitSha_def read_sha_def)
qed

section \<open>The run\<close>

text \<open>A run that ends with a passed result went through all its stages.\<close>

lemma finished_run:
  assumes "runOne ru job i = (Finished a r ''passed'' j c, calls)"
  shows "\<exists>resources process marker v. ru_allocate ru (pj_attemptId job) (pj_workspacePath job) = Inr resources
     \<and> ru_launch ru (buildExpectations resources job (ru_selectedModel ru) (ru_launchIdentity ru)) job marker = Launched process
     \<and> ru_verify ru resources job process = Inr v \<and> vd_status v = ''passed'' \<and> r = rs_resultId resources
     \<and> (let rec = \<lparr> re_attemptId = pj_attemptId job, re_resultId = rs_resultId resources, re_verdict = v \<rparr> in
        ru_persistResult ru 0 rec = None \<and> calls = [PersistAttempt (pj_attemptId job), PersistResult rec True, Release resources])"
proof -
  obtain resources where al: "ru_allocate ru (pj_attemptId job) (pj_workspacePath job) = Inr resources"
    using assms by (auto simp: runOne_def split: sum.splits)
  obtain res cs where b: "run_body ru job i resources = (res, cs)" by fastforce
  then obtain c0 where res: "res = Finished a r ''passed'' j c0" "calls = cs @ [Release resources]"
    using assms al by (cases res) (auto simp: runOne_def)
  show ?thesis using al b [unfolded res(1)] res(2)
    by (auto simp: run_body_def Let_def runtime_exception_def split: option.splits launch_outcome.splits sum.splits)
qed

definition run_pool :: "task_ports \<Rightarrow> adapter_provenance \<Rightarrow> task_preflight \<Rightarrow> task_manifest \<Rightarrow> task_identities \<Rightarrow> db \<Rightarrow> (string + submit_result \<times> run_call list)" where
  "run_pool tp provenance pf m ids d =
     (let cfg = \<lparr> pc_provenance = provenance, pc_allowFakeAdapters = hasFakeAdapter provenance \<rparr>;
          job = task_job m ids (tp_workspaceTemp tp @ ''/task-workspace'') in
      map_sum id (\<lambda>pool. case submit cfg job pool of (Some r, _) \<Rightarrow> (r, []) | (None, _) \<Rightarrow> runOne (runner_ports tp pf m ids d) job 0)
        (createMinimalPoolRuntimeWithPolicy cfg (JInt 1)))"

lemma claimed_cases:
  "(\<exists>e. runClaimedTask tp provenance ov pf m ids d = (Inl e, d))
   \<or> (\<exists>result calls. run_pool tp provenance pf m ids d = Inr (result, calls)
        \<and> runClaimedTask tp provenance ov pf m ids d =
          (Inr (claimed_result (tk_attemptId ids) result (released_id (tk_attemptId ids) calls) (store_calls tp m ids 0 calls d)), store_calls tp m ids 0 calls d))"
  by (auto simp: runClaimedTask_def run_pool_def Let_def split: option.splits sum.splits prod.splits)

lemma submit_Some: "submit cfg job pool = (Some r, p) \<Longrightarrow> \<exists>a e m i c. r = Failure a e m i c"
  by (auto simp: submit_def split: if_splits)

lemma pool_run:
  assumes "run_pool tp provenance pf m ids d = Inr (Finished a r s j c, calls)"
  shows "runOne (runner_ports tp pf m ids d) (task_job m ids (tp_workspaceTemp tp @ ''/task-workspace'')) 0 = (Finished a r s j c, calls)"
proof -
  let ?cfg = "\<lparr> pc_provenance = provenance, pc_allowFakeAdapters = hasFakeAdapter provenance \<rparr>"
    and ?job = "task_job m ids (tp_workspaceTemp tp @ ''/task-workspace'')"
  obtain pool where p: "(case submit ?cfg ?job pool of (Some r, _) \<Rightarrow> (r, []) | (None, _) \<Rightarrow> runOne (runner_ports tp pf m ids d) ?job 0)
      = (Finished a r s j c, calls)"
    using assms unfolding run_pool_def Let_def mapped_Inr by metis
  obtain o1 p1 where o: "submit ?cfg ?job pool = (o1, p1)" by fastforce
  show ?thesis
  proof (cases o1)
    case None
    then show ?thesis using p o by simp
  next
    case (Some r1)
    then show ?thesis using p o submit_Some [of ?cfg ?job pool r1 p1] by auto
  qed
qed

text \<open>A reported success has its evidence, and its row in the store.\<close>

lemma claimed_run_evidence:
  assumes "runClaimedTask tp provenance ov pf m ids d = (Inr r, d')" "cx_ok r"
  shows "\<exists>resources process sha row.
     tp_allocate tp (tk_attemptId ids) (Some (tp_workspaceTemp tp @ ''/task-workspace'')) = Inr resources
     \<and> evidence_holds (runner_verifier tp d) resources
         (verifier_job_of m (task_job m ids (tp_workspaceTemp tp @ ''/task-workspace''))) process
     \<and> list_all (\<lambda>c. case tp_command tp (rs_workspacePath resources) c of Inl e \<Rightarrow> False | Inr evidence \<Rightarrow> command_passed evidence)
         (tl (tm_verification_commands m))
     \<and> readGitSha (runner_verifier tp d) (rs_workspacePath resources) = Some sha \<and> cx_commitSha r = Some sha
     \<and> cx_resultId r = rs_resultId resources
     \<and> getProofResult (tk_attemptId ids) d' = Some row \<and> f_status row = ''passed''
     \<and> f_commit_sha row = Some sha \<and> f_result_id row = rs_resultId resources"
proof -
  let ?job = "task_job m ids (tp_workspaceTemp tp @ ''/task-workspace'')" and ?ports = "runner_ports tp pf m ids d"
  obtain result calls where ran: "run_pool tp provenance pf m ids d = Inr (result, calls)" "d' = store_calls tp m ids 0 calls d"
      "r = claimed_result (tk_attemptId ids) result (released_id (tk_attemptId ids) calls) d'"
    using claimed_cases [of tp provenance ov pf m ids d] assms(1) by auto
  obtain a i j c where result: "result = Finished a i ''passed'' j c"
    using assms(2) unfolding ran(3) by (cases result) (auto simp: claimed_result_def Let_def)
  have "runOne ?ports ?job 0 = (Finished a i ''passed'' j c, calls)" by (rule pool_run [OF ran(1) [unfolded result]])
  from finished_run [OF this] obtain resources process v where
    al: "tp_allocate tp (tk_attemptId ids) (Some (tp_workspaceTemp tp @ ''/task-workspace'')) = Inr resources"
    and v: "task_verify tp m d resources ?job process = Inr v" "vd_status v = ''passed''" and i: "i = rs_resultId resources"
    and p: "ru_persistResult ?ports 0 \<lparr> re_attemptId = tk_attemptId ids, re_resultId = rs_resultId resources, re_verdict = v \<rparr> = None"
      "calls = [PersistAttempt (tk_attemptId ids),
         PersistResult \<lparr> re_attemptId = tk_attemptId ids, re_resultId = rs_resultId resources, re_verdict = v \<rparr> True, Release resources]"
    by (auto simp: runner_ports_def task_job_def Let_def)
  let ?rec = "\<lparr> re_attemptId = tk_attemptId ids, re_resultId = rs_resultId resources, re_verdict = v \<rparr>"
  have "fst (store_result tp m ids 0 ?rec d) = None" using p(1) by (simp add: runner_ports_def)
  then obtain row where row: "getProofResult (tk_attemptId ids) d' = Some row" "f_status row = ''passed''"
      "f_commit_sha row = vd_commitSha v" "f_result_id row = rs_resultId resources"
    using stored_result [of tp m ids 0 ?rec d] v(2) unfolding ran(2) p(2) by auto
  obtain sha where sha: "vd_commitSha v = Some sha" using task_verdict(4) [OF v] by blast
  have "readGitSha (runner_verifier tp d) (rs_workspacePath resources) = Some sha" using task_verdict(3) [OF v] sha by simp
  then show ?thesis using result i al task_verdict(1,2) [OF v] row sha
    by (simp add: ran(3) claimed_result_def Let_def) blast
qed

text \<open>
  C8. A claimed run tells the truth: a run that throws left the store alone; otherwise it
  performed store operations only, and it reports success if and only if the runtime finished
  with a passed verdict. A reported success rests on the full evidence of the verifier and on
  every further command exiting with zero in time, and the store holds for the attempt the
  passed result with the reported commit, the head of the workspace, and the reported result
  id. Anything else is reported as failed, with a failure code.
\<close>
theorem claimed_run_truthful:
  "case runClaimedTask tp provenance ov pf m ids d of
     (Inl e, d') \<Rightarrow> d' = d
   | (Inr r, d') \<Rightarrow> store_step\<^sup>*\<^sup>* d d' \<and>
       (if cx_ok r
        then cx_status r = ''passed'' \<and> cx_failureCode r = None \<and>
          (\<exists>resources process sha row.
             tp_allocate tp (tk_attemptId ids) (Some (tp_workspaceTemp tp @ ''/task-workspace'')) = Inr resources
             \<and> evidence_holds (runner_verifier tp d) resources
                 (verifier_job_of m (task_job m ids (tp_workspaceTemp tp @ ''/task-workspace''))) process
             \<and> list_all (\<lambda>c. case tp_command tp (rs_workspacePath resources) c of Inl e \<Rightarrow> False | Inr evidence \<Rightarrow> command_passed evidence)
                 (tl (tm_verification_commands m))
             \<and> readGitSha (runner_verifier tp d) (rs_workspacePath resources) = Some sha \<and> cx_commitSha r = Some sha
             \<and> cx_resultId r = rs_resultId resources
             \<and> getProofResult (tk_attemptId ids) d' = Some row \<and> f_status row = ''passed''
             \<and> f_commit_sha row = Some sha \<and> f_result_id row = rs_resultId resources)
        else cx_status r = ''failed'' \<and> cx_failureCode r \<noteq> None)"
proof -
  consider (threw) e where "runClaimedTask tp provenance ov pf m ids d = (Inl e, d)"
    | (ran) result calls d' where "d' = store_calls tp m ids 0 calls d"
      "runClaimedTask tp provenance ov pf m ids d = (Inr (claimed_result (tk_attemptId ids) result (released_id (tk_attemptId ids) calls) d'), d')"
    using claimed_cases [of tp provenance ov pf m ids d] by blast
  then show ?thesis
  proof cases
    case threw
    then show ?thesis by simp
  next
    case ran
    let ?r = "claimed_result (tk_attemptId ids) result (released_id (tk_attemptId ids) calls) d'"
    have "store_step\<^sup>*\<^sup>* d d'" unfolding ran(1) by (rule store_calls_run)
    moreover have "if cx_ok ?r then cx_status ?r = ''passed'' \<and> cx_failureCode ?r = None else cx_status ?r = ''failed'' \<and> cx_failureCode ?r \<noteq> None"
      by (simp add: claimed_result_def Let_def split: option.split)
    ultimately show ?thesis using claimed_run_evidence [OF ran(2)] unfolding ran(2) prod.case sum.case by (simp split: if_splits)
  qed
qed

end
