(* ===== verification/Direct_Service_Properties.thy ===== *)
theory Direct_Service_Properties
  imports Direct_Service Task_Run_Properties Intake_Properties Store_Scenario
begin

text \<open>
  The service is a client of the store: every call of it is a run of the store, so all that
  holds of the store's reachable states holds under the service. A key is accepted once, a
  caller sees only its own submissions, and a claimed task is run under a lease.
\<close>

section \<open>Every call is a run of the store\<close>

lemma import_answer_step: "store_step\<^sup>*\<^sup>* d (snd (importDirectTask e inp d))"
  by (rule r_into_rtranclp) (rule store_step.st_direct)

lemma refusal_status: "statusForViolations vs \<noteq> 200" "statusForViolations vs \<noteq> 202"
  by (induction vs) (auto simp: STATUS_BY_CODE_def split: option.splits if_splits)

text \<open>A POST is refused without a trace, or it is the import of one accepted unit.\<close>

definition post_key :: "string \<Rightarrow> http_request \<Rightarrow> string option" where
  "post_key callerId request = map_option (idempotencyScopeKey callerId DIRECT_TASK_ROUTE) (headerValue (hr_headers request) ''idempotency-key'')"

lemma post_cases:
  obtains (refused) r where "handlePost sv gen e request callerId d = (r, d)" "\<And>body. r \<noteq> Inr (202, body)" "\<And>body. r \<noteq> Inr (200, body)"
  | (imported) a u m where "da_units a = [u]" "combineManifest sv u = Inr m"
      "handlePost sv gen e request callerId d =
         (import_answer sv a (fst (importDirectTask e (direct_input sv callerId (post_key callerId request) a u m) d)),
          snd (importDirectTask e (direct_input sv callerId (post_key callerId request) a u m) d))"
proof -
  let ?key = "headerValue (hr_headers request) ''idempotency-key''"
  let ?acc = "fst (acceptDirectTasks (sv_number_text sv) (sv_sha sv) (\<lambda>s k. None) (\<lambda>s k r. Inr s) gen (Str callerId) (hr_body request) ?key ())"
  note h = handlePost_def Let_def one_unit_only_def
  show thesis
  proof (cases "(is_object (hr_body request) \<and> hasOwnField (hr_body request) ''units'') \<or> \<not> (case ?key of None \<Rightarrow> True | Some k \<Rightarrow> isValidIdempotencyKey k)")
    case True
    then show thesis by (intro refused [of "fst (handlePost sv gen e request callerId d)"]) (auto simp: h)
  next
    case ok: False
    show thesis
    proof (cases "\<exists>a u m. ?acc = Inr (Accepted a) \<and> da_submission_shape a = Single_unit \<and> da_units a = [u] \<and> combineManifest sv u = Inr m")
      case True
      then obtain a u m where "?acc = Inr (Accepted a)" "da_submission_shape a = Single_unit" "da_units a = [u]" "combineManifest sv u = Inr m" by blast
      then show thesis using ok by (intro imported [of a u m]) (auto simp: h post_key_def split: prod.split)
    next
      case False
      then show thesis using ok
        by (intro refused [of "fst (handlePost sv gen e request callerId d)"])
          (auto simp: h refusal_status length_Suc_conv split: sum.split intake_result.split)
    qed
  qed
qed

lemma request_run: "store_step\<^sup>*\<^sup>* d (snd (handleRequest sv gen e request d))"
proof -
  have p: "store_step\<^sup>*\<^sup>* d (snd (handlePost sv gen e request callerId d))" for callerId
    by (rule post_cases [of sv gen e request callerId d]) (auto intro: import_answer_step)
  then show ?thesis by (auto simp: handleRequest_def Let_def split: option.split)
qed

text \<open>What every step keeps, a chain of steps keeps.\<close>

lemma store_call_keeps: "P (snd r) \<Longrightarrow> P (snd (store_call r))"
  by (cases r; cases "fst r") (simp_all add: store_call_def)

lemma and_then_keeps:
  assumes "P (snd r)" "\<And>x d'. P d' \<Longrightarrow> P (snd (f x d'))"
  shows "P (snd (and_then r f))"
  using assms by (cases r) (auto simp: and_then_def split: sum.split option.split)

lemma reclaim_keeps:
  assumes "\<And>e a d. P d \<Longrightarrow> P (snd (reclaimLease e a claimOwner (Some (ce_now ce)) d))" "P d"
  shows "P (snd (reclaim_leased ce as d))"
  using assms(2)
proof (induction as arbitrary: d)
  case (Cons a as)
  obtain r d' where r: "reclaimLease (ce_reclaim ce (a_attempt_id a)) (a_attempt_id a) claimOwner (Some (ce_now ce)) d = (r, d')" by fastforce
  then have "P d'" using assms(1) [OF Cons.prems, of "ce_reclaim ce (a_attempt_id a)" "a_attempt_id a"] by simp
  then show ?case using Cons r by (cases r) simp_all
qed simp

lemma take_claim_keeps:
  assumes "\<And>e w n v s d. s \<noteq> Passed \<Longrightarrow> P d \<Longrightarrow> P (snd (transitionNode e w n v s d))"
    "\<And>e w n k i j b d. P d \<Longrightarrow> P (snd (createAttempt e w n k i j b d))" "\<And>e c ex is d. P d \<Longrightarrow> P (snd (claimLease e c ex is d))" "P d"
  shows "P (snd (take_claim ce model c d))"
proof -
  have t: "P (snd (ready_node ce c d))" using assms(1,4)
    by (auto simp: ready_node_def intro!: and_then_keeps [where P = P] store_call_keeps [where P = P])
  have a: "P (snd (ensure_attempt ce model c d))" if "P d" for d using assms(2) that
    by (auto simp: ensure_attempt_def intro!: and_then_keeps [where P = P] store_call_keeps [where P = P])
  have s: "P (snd (start_node ce c v d))" if "P d" for v d using assms(1) that
    by (auto simp: start_node_def intro!: and_then_keeps [where P = P] store_call_keeps [where P = P])
  show ?thesis unfolding take_claim_def
    by (intro and_then_keeps [where P = P] t a s) (auto intro!: store_call_keeps [where P = P] assms(3))
qed

lemma steps_then: "store_step\<^sup>*\<^sup>* d d' \<Longrightarrow> store_step d' d'' \<Longrightarrow> store_step\<^sup>*\<^sup>* d d''"
  by (rule rtranclp.rtrancl_into_rtrancl)

lemma reclaim_run: "store_step\<^sup>*\<^sup>* d0 d \<Longrightarrow> store_step\<^sup>*\<^sup>* d0 (snd (reclaim_leased ce as d))"
  by (rule reclaim_keeps) (auto intro: steps_then store_step.st_reclaim)

lemma take_claim_run: "store_step\<^sup>*\<^sup>* d0 d \<Longrightarrow> store_step\<^sup>*\<^sup>* d0 (snd (take_claim ce model c d))"
  by (rule take_claim_keeps) (auto intro: steps_then store_step.intros)

lemma settle_run: "store_step\<^sup>*\<^sup>* d0 d \<Longrightarrow> store_step\<^sup>*\<^sup>* d0 (snd (settle_claim ce m r d))"
proof -
  assume a: "store_step\<^sup>*\<^sup>* d0 d"
  let ?a = "acceptResult (ce_accept ce) (report_js m r) (Some (ce_accepted_at ce)) d"
  have b: "store_step\<^sup>*\<^sup>* d0 (snd ?a)" by (rule steps_then [OF a]) (rule store_step.st_accept)
  have c: "store_step\<^sup>*\<^sup>* d0 (snd (completeAuthorizedResult (ce_complete ce) (dc_work_id (cm_row m)) (dc_node_id (cm_row m)) (cm_attempt m) (snd ?a)))"
    by (rule steps_then [OF b]) (rule store_step.st_complete)
  show ?thesis using b c by (auto simp: settle_claim_def split: prod.split outcome.split)
qed

locale claimed_runner =
  fixes run :: "task_manifest \<Rightarrow> task_identities \<Rightarrow> db \<Rightarrow> (string + claimed_run) \<times> db"
  assumes run_steps: "store_step\<^sup>*\<^sup>* d (snd (run m ids d))"
begin

lemma run_claim_run: "store_step\<^sup>*\<^sup>* d0 d \<Longrightarrow> store_step\<^sup>*\<^sup>* d0 (snd (run_claim sv ce run m d))"
proof -
  assume a: "store_step\<^sup>*\<^sup>* d0 d"
  have "store_step\<^sup>*\<^sup>* d0 (snd (run manifest (claim_identities m) d))" for manifest by (rule rtranclp_trans [OF a run_steps])
  moreover have "store_step\<^sup>*\<^sup>* d0 (snd (settle_claim ce m r d'))" if "run manifest (claim_identities m) d = (Inr r, d')" for manifest r d'
    using calculation [of manifest] that by (auto intro: settle_run)
  ultimately show ?thesis using a
    by (simp add: run_claim_def split: option.split sum.split prod.split) (metis snd_conv)
qed

lemma claim_run: "store_step\<^sup>*\<^sup>* d (snd (claimOnce sv ce run d))"
  unfolding claimOnce_def
  by (rule and_then_keeps [where P = "store_step\<^sup>*\<^sup>* d"], rule reclaim_run [OF rtranclp.rtrancl_refl])
    (auto intro!: and_then_keeps [where P = "store_step\<^sup>*\<^sup>* d"] take_claim_run run_claim_run split: option.split)

end

interpretation task_runner: claimed_runner "runClaimedTask tp provenance ov pf" for tp provenance ov pf
proof
  fix m ids d
  have "snd (runClaimedTask tp provenance ov pf m ids d) = d \<or> (\<exists>cs. snd (runClaimedTask tp provenance ov pf m ids d) = store_calls tp m ids 0 cs d)"
    using claimed_cases [of tp provenance ov pf m ids d] by auto
  then show "store_step\<^sup>*\<^sup>* d (snd (runClaimedTask tp provenance ov pf m ids d))" using store_calls_run by auto
qed

text \<open>The calls of a service in any order, each with its own environment.\<close>

datatype service_call =
    Request js env http_request
  | Claim claim_envs task_ports adapter_provenance bool task_preflight

fun serve :: "service_ports \<Rightarrow> service_call list \<Rightarrow> db \<Rightarrow> db" where
  "serve sv [] d = d"
| "serve sv (Request gen e request # cs) d = serve sv cs (snd (handleRequest sv gen e request d))"
| "serve sv (Claim ce tp provenance ov pf # cs) d = serve sv cs (snd (claimOnce sv ce (runClaimedTask tp provenance ov pf) d))"

lemma serve_run: "store_step\<^sup>*\<^sup>* d (serve sv cs d)"
proof (induction sv cs d rule: serve.induct)
  case (2 sv gen e request cs d)
  then show ?case using rtranclp_trans [OF request_run] by auto
next
  case (3 sv ce tp provenance ov pf cs d)
  then show ?case using rtranclp_trans [OF task_runner.claim_run] by auto
qed simp

text \<open>
  C3. The service refines the store: whatever requests it answers and whatever tasks it claims
  and runs, in any order and with any collaborators, the store goes through operations of its
  own only, so every state of a service that began with an empty store is a reachable one and
  keeps the invariant of the store.
\<close>
theorem service_refines_store:
  "store_step\<^sup>*\<^sup>* d (serve sv calls d) \<and> reachable (serve sv calls empty_db) \<and> store_inv (serve sv calls empty_db)"
  using serve_run reachable_inv by blast

section \<open>Exactly once\<close>

lemma known_key_import:
  assumes "find_idempotency k d = Some r" "di_scope_key inp = Some k"
  shows "snd (importDirectTask e inp d) = d"
    "fst (importDirectTask e inp d) = Ok x \<Longrightarrow> x = Replayed (ir_work_id r) (ir_submission_id r) (ir_acceptance_json r)"
  using assms by (auto simp: importDirectTask_def begin_immediate_typed_def fail_def split: option.splits if_splits)

text \<open>The answer to a request whose submission is already stored.\<close>

definition replay_of :: "service_ports \<Rightarrow> acceptance \<Rightarrow> string \<Rightarrow> js option" where
  "replay_of sv a workId = map_option
     (\<lambda>original. acceptance_with_work (plain (put_field (''replayed'', Bool True) (fold put_field (own_fields original) []))) workId)
     (sv_parse sv (sv_stringify sv (acceptance_js a)))"

text \<open>
  C12. A key is accepted once: after a POST under an idempotency key was answered 202, no later
  POST of the same caller under that key is answered 202 or changes the store, in whatever
  state the store has got since; and every answer 200 is the stored acceptance, marked as
  replayed, with the work of the first request.
\<close>
theorem post_accepted_once:
  assumes "reachable d" "handlePost sv gen e request callerId d = (Inr (202, b), d1)" "store_step\<^sup>*\<^sup>* d1 d2"
    "post_key callerId request = Some k" "post_key callerId request2 = Some k"
  shows "\<exists>a w. b = Body_accepted a w \<and> (case handlePost sv gen2 e2 request2 callerId d2 of (r, d3) \<Rightarrow> d3 = d2 \<and>
    (case r of Inl m \<Rightarrow> True | Inr (st, body) \<Rightarrow> st \<noteq> 202 \<and> (if st = 200 then map_option Body_replayed (replay_of sv a w) = Some body else True)))"
proof (cases rule: post_cases [of sv gen e request callerId d])
  case (imported a u m)
  let ?inp = "direct_input sv callerId (Some k) a u m"
  have r: "import_answer sv a (fst (importDirectTask e ?inp d)) = Inr (202, b)" "d1 = snd (importDirectTask e ?inp d)"
    using imported(3) assms(2,4) by simp_all
  then obtain w sub where f: "fst (importDirectTask e ?inp d) = Ok (Imported w sub)" "b = Body_accepted a w"
    by (auto simp: import_answer_def split: outcome.splits direct_import.splits option.splits if_splits)
  have "di_scope_key ?inp = Some k" by (simp add: direct_input_def)
  from direct_stays_found [OF assms(1) f(1) this] assms(3) r(2)
  have found: "find_idempotency k d2 = Some \<lparr> ir_scope_key = k, ir_caller_id = callerId, ir_payload_hash = da_payload_hash a,
      ir_submission_id = sub, ir_work_id = w, ir_acceptance_json = sv_stringify sv (acceptance_js a) \<rparr>" by (simp add: direct_input_def)
  show ?thesis
  proof (cases rule: post_cases [of sv gen2 e2 request2 callerId d2])
    case (refused r)
    then show ?thesis using f(2) by (auto split: sum.split prod.split)
  next
    case (imported a2 u2 m2)
    let ?imp = "importDirectTask e2 (direct_input sv callerId (Some k) a2 u2 m2) d2"
    have "di_scope_key (direct_input sv callerId (Some k) a2 u2 m2) = Some k" by (simp add: direct_input_def)
    note known = known_key_import [OF found this, of e2]
    have "case import_answer sv a2 (fst ?imp) of Inl m \<Rightarrow> True
        | Inr (st, body) \<Rightarrow> st \<noteq> 202 \<and> (if st = 200 then map_option Body_replayed (replay_of sv a w) = Some body else True)"
    proof (cases "fst ?imp")
      case (Ok x)
      then have "x = Replayed w sub (sv_stringify sv (acceptance_js a))" using known(2) by simp
      then show ?thesis using Ok by (simp add: import_answer_def replay_of_def split: option.split)
    qed (simp_all add: import_answer_def one_violation_def)
    then show ?thesis using imported(3) assms(5) known(1) f(2) by simp
  qed
qed (use assms(2) in auto)

definition demo_service :: service_ports where
  "demo_service = \<lparr> sv_settings = \<lparr> ts_task_id = ''t'', ts_target_repo_path = ''/r'', ts_base_commit = replicate 40 (CHR ''a''),
       ts_allowed_changed_paths = [''src''], ts_verification_commands = [[''npm'', ''test'']], ts_model = ''openai-codex/gpt-5.6-luna'', ts_timeout = 60 \<rparr>,
     sv_number_text = (\<lambda>r. ''0''), sv_sha = (\<lambda>x. ''h''), sv_stringify = (\<lambda>v. ''j''), sv_parse = (\<lambda>t. Some (plain [])),
     sv_realpath = Some, sv_directory = (\<lambda>p. Some True), sv_authenticate = (\<lambda>h. Some ''me'') \<rparr>"

lemma demo_posted:
  "\<exists>a w d. handlePost demo_service (Str ''s1'') sc_env demo_request ''me'' empty_db = (Inr (202, Body_accepted a w), d)"
proof -
  let ?r = "handlePost demo_service (Str ''s1'') sc_env demo_request ''me'' empty_db"
  have "(case fst ?r of Inr (st, Body_accepted a w) \<Rightarrow> st = 202 | _ \<Rightarrow> False)" by code_simp
  then show ?thesis by (cases ?r; cases "fst ?r"; cases "snd (projr (fst ?r))") (auto split: sum.splits)
qed

theorem post_accepted_once_witness:
  "\<exists>a w d. handlePost demo_service (Str ''s1'') sc_env demo_request ''me'' empty_db = (Inr (202, Body_accepted a w), d)
     \<and> (case handlePost demo_service (Str ''s2'') sc_env demo_request ''me'' d of (r, d') \<Rightarrow> d' = d
          \<and> (case r of Inl m \<Rightarrow> True | Inr (st, body) \<Rightarrow> st \<noteq> 202))"
proof -
  from demo_posted obtain a w d where r: "handlePost demo_service (Str ''s1'') sc_env demo_request ''me'' empty_db = (Inr (202, Body_accepted a w), d)" by blast
  have "post_key ''me'' demo_request = Some (idempotencyScopeKey ''me'' DIRECT_TASK_ROUTE ''k'')" by code_simp
  from r post_accepted_once [OF rtranclp.rtrancl_refl r rtranclp.rtrancl_refl this this, where ?gen2.0 = "Str ''s2''" and ?e2.0 = sc_env] show ?thesis
    by (auto split: sum.splits prod.splits)
qed

section \<open>A caller sees its own\<close>

text \<open>
  C13. A status is the caller's own: GET answers 200 only for a submission that this caller
  made, with the work and a node of that submission; an attempt it names belongs to that work,
  and a result it shows is the stored one of that attempt. Everything else is answered like a
  submission that does not exist.
\<close>
theorem status_is_own:
  "case handleGet callerId submissionId d of (st, body) \<Rightarrow>
     if st = 200
     then \<exists>v sub. body = Body_status v \<and> getDirectTaskSubmission callerId submissionId d = Some sub
       \<and> t_caller_id sub = callerId \<and> sw_submission_id v = submissionId \<and> sw_work_id v = t_work_id sub
       \<and> list_ex (\<lambda>n. n_work_id n = t_work_id sub \<and> n_node_id n = sw_node_id v) (nodes d)
       \<and> (case sw_attempt v of
            None \<Rightarrow> sw_result v = None
          | Some a \<Rightarrow> attempt_in_work (t_work_id sub) d a
             \<and> (case sw_result v of
                  None \<Rightarrow> True
                | Some (result, status, present, checks) \<Rightarrow> (\<exists>row. getProofResult a d = Some row \<and> f_result_id row = result
                    \<and> f_status row = status \<and> present = (f_commit_sha row \<noteq> None)) \<and> length checks \<le> 16))
     else (st, body) = not_found"
proof (cases "getDirectTaskSubmission callerId submissionId d")
  case (Some sub)
  have own: "t_caller_id sub = callerId" "t_submission_id sub = submissionId"
    using Some by (auto simp: getDirectTaskSubmission_def find_Some_iff split: if_splits)
  show ?thesis
  proof (cases "listNodes (t_work_id sub) d")
    case Nil
    then show ?thesis using Some by (simp add: handleGet_def not_found_def)
  next
    case (Cons node rest)
    then have "node \<in> set (listNodes (t_work_id sub) d)" by simp
    then have node: "list_ex (\<lambda>n. n_work_id n = t_work_id sub \<and> n_node_id n = n_node_id node) (nodes d)"
      by (auto simp: listNodes_def list_ex_iff)
    have active: "attempt_in_work (t_work_id sub) d (a_attempt_id a)" if "getActiveAttemptForNode w' n' d = Some a" "w' = t_work_id sub" for a w' n'
    proof -
      let ?as = "filter (\<lambda>r. a_work_id r = w' \<and> a_node_id r = n' \<and> (a_state r = Created \<or> a_state r = Leased)) (attempts d)"
      have "a \<in> set (rev (sort_key a_attempt_number ?as))"
        using that(1) by (cases "rev (sort_key a_attempt_number ?as)") (auto simp: getActiveAttemptForNode_def)
      then show ?thesis using that(2) by (auto simp: attempt_in_work_def list_ex_iff)
    qed
    have proofs: "attempt_in_work (t_work_id sub) d (f_attempt_id r)" if "getProofResultsByWork (t_work_id sub) d = r # rs" for r rs
    proof -
      have "r \<in> set (getProofResultsByWork (t_work_id sub) d)" using that by simp
      then show ?thesis by (auto simp: getProofResultsByWork_def split: if_splits)
    qed
    show ?thesis using Some Cons own node active proofs
      by (auto simp: handleGet_def Let_def boundedStatus_def nonempty_def split: option.splits list.splits if_splits)
  qed
qed (simp add: handleGet_def not_found_def)

section \<open>Nothing passes without proof\<close>

definition passed_keys :: "db \<Rightarrow> (string \<times> string) set" where
  "passed_keys d = {node_key r | r. r \<in> set (nodes d) \<and> n_state r = Passed}"

text \<open>An attempt of the node has a stored result that passed.\<close>

definition proven :: "db \<Rightarrow> string \<times> string \<Rightarrow> bool" where
  "proven d k \<longleftrightarrow> (\<exists>a \<in> set (attempts d). (a_work_id a, a_node_id a) = k
     \<and> (\<exists>row. t_get f_attempt_id (a_attempt_id a) (pool_proof_results d) = Some row \<and> f_status row = ''passed''))"

lemma proven_evolves: "evolves d d' \<Longrightarrow> proven d k \<Longrightarrow> proven d' k"
  unfolding proven_def evolves_def ledgers_grow_def attempt_next_def by (metis t_get_prefix)

lemma passed_same: "nodes d' = nodes d \<Longrightarrow> passed_keys d' = passed_keys d"
  by (simp add: passed_keys_def)

lemma passed_update:
  assumes "s \<noteq> Passed"
  shows "passed_keys (set_node_state w n v s d) \<subseteq> passed_keys d"
  using assms by (auto simp: passed_keys_def set_node_state_def t_update_def node_key_def split: if_splits)

lemma audit_nodes [simp]: "nodes (audit e ev ds w n a d) = nodes d" "attempts (audit e ev ds w n a d) = attempts d"
  "accepted_results (audit e ev ds w n a d) = accepted_results d" "pool_proof_results (audit e ev ds w n a d) = pool_proof_results d"
  by (simp_all add: audit_def)

lemma op_nodes:
  "nodes (snd (createAttempt e w n k i j b d)) = nodes d" "nodes (snd (claimLease e c ex is d)) = nodes d"
  "nodes (snd (reclaimLease e k ow now d)) = nodes d" "nodes (snd (acceptResult e v now d)) = nodes d"
  "nodes (snd (recordProofResult lc e inp d)) = nodes d"
  by (simp_all add: createAttempt_def claimLease_def reclaimLease_def acceptResult_def recordProofResult_def begin_immediate_def
      begin_immediate_typed_def drop_lease_def fail_def Let_def split: option.split prod.split sum.split)

lemma transition_passed: "s \<noteq> Passed \<Longrightarrow> passed_keys (snd (transitionNode e w n v s d)) \<subseteq> passed_keys d"
  using passed_update [of s w n v d] passed_same [of "audit e' ev ds w' n' a' (set_node_state w n v s d)" "set_node_state w n v s d" for e' ev ds w' n' a']
  by (auto simp: transitionNode_def begin_immediate_def split: option.split)

lemma import_passed: "passed_keys (snd (importDirectTask e inp d)) \<subseteq> passed_keys d"
  by (auto simp: importDirectTask_def begin_immediate_typed_def fail_def Let_def insert_direct_task_def passed_keys_def
      split: option.splits sum.splits if_splits dest!: insert_all_Some)

lemma store_result_nodes: "nodes (snd (store_result tp m ids k r d)) = nodes d"
  by (simp add: store_result_def recordResult_def op_nodes split: sum.split prod.split outcome.split)
    (metis op_nodes(5) snd_conv)

lemma store_calls_nodes: "nodes (store_calls tp m ids k cs d) = nodes d"
  by (induction tp m ids k cs d rule: store_calls.induct) (simp_all add: store_result_nodes)

text \<open>The settlement of a claim passes at most the node of the claim, and only on a passed run of an attempt of that node.\<close>

lemma accepted_outcome:
  assumes "acceptResult e (report_js m r) now d = (Ok (), d')"
  shows "\<exists>a row. a \<in> set (attempts d) \<and> a_attempt_id a = cm_attempt m \<and> a_work_id a = dc_work_id (cm_row m) \<and> a_node_id a = dc_node_id (cm_row m)
    \<and> t_get r_attempt_id (cm_attempt m) (accepted_results d') = Some row \<and> r_outcome row = (if cx_status r = ''passed'' then Passed else Failed)"
proof -
  have w: "wr_attempt_id (as_result (report_js m r)) = cm_attempt m" "wr_node_id (as_result (report_js m r)) = dc_node_id (cm_row m)"
      "wr_work_id (as_result (report_js m r)) = dc_work_id (cm_row m)"
      "wr_outcome (as_result (report_js m r)) = (if cx_status r = ''passed'' then Passed else Failed)"
    by (simp_all add: as_result_def report_js_def)
  have v: "validateResult (report_js m r) = None" using assms by (cases "validateResult (report_js m r)") (auto simp: acceptResult_def fail_def)
  obtain a where a: "get_attempt_row (cm_attempt m) d = Some a"
    using assms v w(1) by (auto simp: acceptResult_def begin_immediate_def Let_def split: option.splits)
  have id: "a_node_id a = dc_node_id (cm_row m)" "a_work_id a = dc_work_id (cm_row m)"
    using assms v w a by (auto simp: acceptResult_def begin_immediate_def Let_def split: option.splits if_splits)
  have "\<exists>row. t_get r_attempt_id (cm_attempt m) (accepted_results d') = Some row
      \<and> r_outcome row = (if cx_status r = ''passed'' then Passed else Failed)"
  proof (cases "t_get r_attempt_id (cm_attempt m) (accepted_results d)")
    case (Some old)
    then show ?thesis using assms v w a id
      by (auto simp: acceptResult_def begin_immediate_def Let_def resultsEqual_def split: option.splits if_splits)
  next
    case None
    then show ?thesis using assms v w a id
      by (auto simp: acceptResult_def begin_immediate_def Let_def t_get_append t_get_Cons split: option.splits if_splits simp del: t_get_None)
  qed
  then show ?thesis using t_getD [OF a] id by blast
qed

lemma complete_passed:
  assumes "completeAuthorizedResult e w n k d = (Ok x, d')" "t_get r_attempt_id k (accepted_results d) = Some row"
  shows "passed_keys d' \<subseteq> passed_keys d \<union> (if r_outcome row = Passed then {(w, n)} else {})"
proof -
  have "\<exists>v. nodes d' = nodes (set_node_state w n v (r_outcome row) d)"
    using assms by (auto simp: completeAuthorizedResult_def begin_immediate_def split: option.splits if_splits)
  then show ?thesis
    by (auto simp: passed_keys_def set_node_state_def t_update_def node_key_def split: if_splits)
qed

lemma complete_unchanged: "\<not> is_ok (fst (completeAuthorizedResult e w n j d)) \<Longrightarrow> snd (completeAuthorizedResult e w n j d) = d"
  by (auto simp: completeAuthorizedResult_def begin_immediate_def split: option.splits if_splits simp del: t_get_None)

lemma settle_passed:
  assumes "k \<in> passed_keys (snd (settle_claim ce m r d))"
  shows "k \<in> passed_keys d \<or> cx_status r = ''passed'' \<and> (\<exists>a \<in> set (attempts d). a_attempt_id a = cm_attempt m \<and> (a_work_id a, a_node_id a) = k)"
proof -
  let ?w = "dc_work_id (cm_row m)" and ?n = "dc_node_id (cm_row m)"
  obtain o1 d1 where acc: "acceptResult (ce_accept ce) (report_js m r) (Some (ce_accepted_at ce)) d = (o1, d1)" by fastforce
  have n1: "nodes d1 = nodes d" using op_nodes(4) [of "ce_accept ce" "report_js m r" "Some (ce_accepted_at ce)" d] acc by simp
  show ?thesis
  proof (cases "\<exists>x d2. o1 = Ok () \<and> completeAuthorizedResult (ce_complete ce) ?w ?n (cm_attempt m) d1 = (Ok x, d2)")
    case True
    then obtain x d2 where o1: "o1 = Ok ()" and c: "completeAuthorizedResult (ce_complete ce) ?w ?n (cm_attempt m) d1 = (Ok x, d2)" by blast
    from accepted_outcome [OF acc [unfolded o1]] obtain a row where
      a: "a \<in> set (attempts d)" "a_attempt_id a = cm_attempt m" "a_work_id a = ?w" "a_node_id a = ?n"
      and row: "t_get r_attempt_id (cm_attempt m) (accepted_results d1) = Some row" "r_outcome row = (if cx_status r = ''passed'' then Passed else Failed)"
      by blast
    have "snd (settle_claim ce m r d) = d2" by (simp add: settle_claim_def acc o1 c)
    then have "k \<in> passed_keys d \<or> cx_status r = ''passed'' \<and> k = (?w, ?n)"
      using assms complete_passed [OF c row(1)] row(2) passed_same [OF n1] by (auto split: if_splits)
    then show ?thesis using a by auto
  next
    case False
    obtain o2 d2 where c: "completeAuthorizedResult (ce_complete ce) ?w ?n (cm_attempt m) d1 = (o2, d2)" by fastforce
    have "\<not> is_ok o2 \<Longrightarrow> d2 = d1" using complete_unchanged [of "ce_complete ce" ?w ?n "cm_attempt m" d1] c by simp
    then have "snd (settle_claim ce m r d) = d1" using False acc c
      by (cases o1; cases o2) (auto simp: settle_claim_def)
    then show ?thesis using assms passed_same [OF n1] by simp
  qed
qed

definition backed :: "db \<Rightarrow> bool" where
  "backed d \<longleftrightarrow> reachable d \<and> (\<forall>k \<in> passed_keys d. proven d k)"

lemma backed_run:
  assumes "backed d" "store_step\<^sup>*\<^sup>* d d'" "\<And>k. k \<in> passed_keys d' \<Longrightarrow> k \<in> passed_keys d \<or> proven d' k"
  shows "backed d'"
proof -
  have "reachable d'" using assms(1,2) by (auto simp: backed_def)
  moreover have "evolves d d'" using run_evolves assms(1,2) by (simp add: backed_def)
  ultimately show ?thesis using assms(1,3) proven_evolves [of d d'] unfolding backed_def by blast
qed

lemma backed_step: "backed d \<Longrightarrow> store_step d d' \<Longrightarrow> passed_keys d' \<subseteq> passed_keys d \<Longrightarrow> backed d'"
  by (rule backed_run) auto

lemma run_claim_backed:
  assumes "backed d"
  shows "backed (snd (run_claim sv ce (runClaimedTask tp provenance ov pf) m d))"
proof (cases "\<exists>manifest r d1. runClaimedTask tp provenance ov pf manifest (claim_identities m) d = (Inr r, d1)
    \<and> run_claim sv ce (runClaimedTask tp provenance ov pf) m d = settle_claim ce m r d1")
  case True
  then obtain manifest r d1 where run: "runClaimedTask tp provenance ov pf manifest (claim_identities m) d = (Inr r, d1)"
    and s: "run_claim sv ce (runClaimedTask tp provenance ov pf) m d = settle_claim ce m r d1" by blast
  have d1: "store_step\<^sup>*\<^sup>* d d1" using task_runner.run_steps [of d tp provenance ov pf manifest "claim_identities m"] run by simp
  have n1: "nodes d1 = nodes d"
    using claimed_cases [of tp provenance ov pf manifest "claim_identities m" d] run store_calls_nodes by auto
  have b1: "backed d1" by (rule backed_run [OF assms d1]) (simp add: passed_same [OF n1])
  show ?thesis unfolding s
  proof (rule backed_run [OF b1 settle_run [OF rtranclp.rtrancl_refl]])
    fix k assume "k \<in> passed_keys (snd (settle_claim ce m r d1))"
    then consider "k \<in> passed_keys d1" | a where "cx_status r = ''passed''" "a \<in> set (attempts d1)" "a_attempt_id a = cm_attempt m" "(a_work_id a, a_node_id a) = k"
      using settle_passed by blast
    then show "k \<in> passed_keys d1 \<or> proven (snd (settle_claim ce m r d1)) k"
    proof cases
      case (2 a)
      have "cx_ok r" using claimed_cases [of tp provenance ov pf manifest "claim_identities m" d] run 2(1)
        by (auto simp: claimed_result_def Let_def split: if_splits)
      then obtain row where "getProofResult (cm_attempt m) d1 = Some row" "f_status row = ''passed''"
        using claimed_run_evidence [OF run] by (auto simp: claim_identities_def)
      then have "proven d1 k" using 2(2-4) by (auto simp: proven_def getProofResult_def split: if_splits)
      moreover have "evolves d1 (snd (settle_claim ce m r d1))"
        using run_evolves settle_run [OF rtranclp.rtrancl_refl] b1 by (simp add: backed_def)
      ultimately show ?thesis using proven_evolves by blast
    qed simp
  qed
next
  case False
  then have "snd (run_claim sv ce (runClaimedTask tp provenance ov pf) m d) = d"
    using claimed_cases [of tp provenance ov pf _ "claim_identities m" d]
    by (auto simp: run_claim_def split: option.split sum.split prod.split) (metis Pair_inject sum.distinct(1))+
  then show ?thesis using assms by simp
qed

lemma claim_backed: "backed d \<Longrightarrow> backed (snd (claimOnce sv ce (runClaimedTask tp provenance ov pf) d))"
proof -
  assume b: "backed d"
  have r: "backed (snd (reclaim_leased ce as d'))" if "backed d'" for as d'
    by (rule reclaim_keeps [where P = backed, OF _ that]) (auto intro: backed_step store_step.intros simp: passed_same [OF op_nodes(3)])
  have t: "backed (snd (take_claim ce model c d'))" if "backed d'" for model c d'
    by (rule take_claim_keeps [where P = backed, OF _ _ _ that])
      (auto intro: backed_step store_step.intros simp: passed_same [OF op_nodes(1)] passed_same [OF op_nodes(2)] dest: subsetD [OF transition_passed])
  show ?thesis unfolding claimOnce_def
    by (rule and_then_keeps [where P = backed, OF r [OF b]])
      (auto intro!: and_then_keeps [where P = backed] t run_claim_backed split: option.split)
qed

lemma request_backed: "backed d \<Longrightarrow> backed (snd (handleRequest sv gen e request d))"
proof -
  assume b: "backed d"
  have "backed (snd (handlePost sv gen e request callerId d))" for callerId
    by (rule post_cases [of sv gen e request callerId d]) (auto simp: b intro!: backed_step [OF b store_step.st_direct] import_passed)
  then show ?thesis using b by (auto simp: handleRequest_def Let_def split: option.split)
qed

lemma serve_backed: "backed d \<Longrightarrow> backed (serve sv cs d)"
  by (induction sv cs d rule: serve.induct) (simp_all add: request_backed claim_backed)

text \<open>
  C2. Nothing passes without proof: in every state of a service that began with an empty
  store, whatever was submitted, claimed and run, every node that counts as passed has an
  attempt for which the store holds a passed result of the verifier.
\<close>
theorem nothing_passes_unproven:
  "list_all (\<lambda>n. if n_state n = Passed
     then list_ex (\<lambda>a. a_work_id a = n_work_id n \<and> a_node_id a = n_node_id n
            \<and> (case t_get f_attempt_id (a_attempt_id a) (pool_proof_results (serve sv calls empty_db)) of
                 None \<Rightarrow> False | Some row \<Rightarrow> f_status row = ''passed''))
       (attempts (serve sv calls empty_db))
     else True) (nodes (serve sv calls empty_db))"
proof -
  have "backed empty_db" by (simp add: backed_def passed_keys_def empty_db_def)
  then have "backed (serve sv calls empty_db)" by (rule serve_backed)
  then have "proven (serve sv calls empty_db) (n_work_id n, n_node_id n)" if "n \<in> set (nodes (serve sv calls empty_db))" "n_state n = Passed" for n
    using that by (auto simp: backed_def passed_keys_def node_key_def)
  then show ?thesis by (fastforce simp: list_all_iff list_ex_iff proven_def)
qed

end
