(* ===== verification/Claim_Properties.thy ===== *)
theory Claim_Properties
  imports Direct_Service_Properties
begin

text \<open>
  Claiming: what a taken claim holds, and when the queue of submissions stops moving.
\<close>

text \<open>
  A task whose attempt has a stored proof result but whose node was not completed (its lease ran
  out while the run was still going, so that the result was refused as stale) is listed first
  for ever, and no later submission is claimed.
\<close>

lemma claim_starves:
  assumes "find claimable (listDirectTaskClaimables d) = Some c" "dc_attempt c = Some (a, st)" "a \<noteq> []" "getProofResult a d \<noteq> None"
    "list_all (\<lambda>x. a_state x \<noteq> Leased) (listAttemptsNeedingReconciliation (ce_now ce) d)"
  shows "claimOnce sv ce run d = (Inr None, d)"
proof -
  have r: "list_all (\<lambda>x. a_state x \<noteq> Leased) as \<Longrightarrow> reclaim_leased ce as d = (Inr (Some ()), d)" for as
    by (induction as) simp_all
  have n: "next_claim d = None" using assms(1-4) by (auto simp: next_claim_def)
  show ?thesis by (simp add: claimOnce_def and_then_def r [OF assms(5)] n)
qed

lemma and_then_value: "and_then r f = (Inr (Some y), d2) \<longleftrightarrow> (\<exists>x d1. r = (Inr (Some x), d1) \<and> f x d1 = (Inr (Some y), d2))"
  by (cases r; cases "fst r"; cases "projr (fst r)") (auto simp: and_then_def)

lemma store_call_value: "store_call r = (Inr (Some x), d) \<longleftrightarrow> r = (Ok x, d)"
  by (cases r; cases "fst r") (auto simp: store_call_def)

lemma lease_command_fields:
  "js_str (fld (lease_command k) ''attempt_id'') = k" "js_str (fld (lease_command k) ''owner'') = claimOwner"
  by (simp_all add: lease_command_def)

lemma claim_lease_granted:
  assumes "claimLease e command (Some expires) (Some issued) d = (Ok (g, token), d')" 
  shows "get_lease_row (js_str (fld command ''attempt_id'')) d = None"
    "get_lease_row (js_str (fld command ''attempt_id'')) d' = Some \<lparr> l_attempt_id = js_str (fld command ''attempt_id''), l_generation = g,
       l_owner = js_str (fld command ''owner''), l_token_digest = env_digest e token, l_issued_at = issued, l_expires_at = expires \<rparr>"
    "nodes d' = nodes d"
  using assms by (auto simp: claimLease_def begin_immediate_def Let_def fail_def t_get_append t_get_Cons split: option.splits if_splits simp del: t_get_None)

lemma transition_done:
  assumes "transitionNode e w n v s d = (Ok r, d')"
  shows "get_node_row w n d' = Some r" "n_state r = s" "leases d' = leases d"
  using assms by (auto simp: transitionNode_def begin_immediate_def set_node_state_def fail_def t_get_update split: option.splits if_splits)

lemma create_keeps: "leases (snd (createAttempt e w n k i j b d)) = leases d"
  by (auto simp: createAttempt_def begin_immediate_def Let_def split: option.splits if_splits)

lemma create_done: "createAttempt e w n k i j b d = (Ok r, d') \<Longrightarrow> leases d' = leases d \<and> nodes d' = nodes d"
  using create_keeps [of e w n k i j b d] op_nodes(1) [of e w n k i j b d] by simp

lemma ready_node_done:
  assumes "ready_node ce c d = (Inr (Some s), d')"
  shows "leases d' = leases d" "if dc_node_state c = Pending then fst s = Ready else d' = d \<and> s = (dc_node_state c, dc_node_version c)"
  using assms by (auto simp: ready_node_def and_then_value store_call_value transition_done split: if_splits)

lemma ensure_attempt_done:
  "ensure_attempt ce model c d = (Inr (Some ()), d') \<Longrightarrow> leases d' = leases d \<and> nodes d' = nodes d"
  by (auto simp: ensure_attempt_def and_then_value store_call_value split: if_splits dest: create_done)

lemma start_node_done:
  assumes "start_node ce c s d = (Inr (Some version), d')"
  shows "leases d' = leases d" "if fst s = Ready
      then \<exists>n. get_node_row (dc_work_id c) (dc_node_id c) d' = Some n \<and> n_state n = In_progress \<and> n_version n = version
      else d' = d \<and> version = snd s"
  using assms by (auto simp: start_node_def and_then_value store_call_value transition_done split: if_splits)

text \<open>
  C7. A task is run under a lease of its own: when the service takes a task, its attempt had no
  lease before, it now has one owned by the service, issued now, running for the configured time,
  with the generation and the digest of the token of the claim; a pending or ready node is then
  in progress at the version of the claim; otherwise the nodes are as they were.
\<close>
theorem claimed_under_lease:
  "case take_claim ce model c d of
     (Inr (Some m), d') \<Rightarrow> cm_row m = c \<and> cm_attempt m = attempt_of c \<and> get_lease_row (attempt_of c) d = None
       \<and> get_lease_row (attempt_of c) d' = Some \<lparr> l_attempt_id = attempt_of c, l_generation = cm_generation m, l_owner = claimOwner,
           l_token_digest = env_digest (ce_lease ce) (cm_token m), l_issued_at = ce_now ce, l_expires_at = ce_now ce + ce_leaseTtlMs ce \<rparr>
       \<and> (if dc_node_state c = Pending \<or> dc_node_state c = Ready
          then \<exists>n. get_node_row (dc_work_id c) (dc_node_id c) d' = Some n \<and> n_state n = In_progress \<and> n_version n = cm_version m
          else nodes d' = nodes d \<and> cm_version m = dc_node_version c)
   | _ \<Rightarrow> True"
proof (cases "\<exists>m d'. take_claim ce model c d = (Inr (Some m), d')")
  case True
  then obtain m d' where r: "take_claim ce model c d = (Inr (Some m), d')" by blast
  from r obtain s d1 d2 version d3 g tok where
    1: "ready_node ce c d = (Inr (Some s), d1)" and 2: "ensure_attempt ce model c d1 = (Inr (Some ()), d2)"
    and 3: "start_node ce c s d2 = (Inr (Some version), d3)"
    and 4: "claimLease (ce_lease ce) (lease_command (attempt_of c)) (Some (ce_now ce + ce_leaseTtlMs ce)) (Some (ce_now ce)) d3 = (Ok (g, tok), d')"
    and m: "m = \<lparr> cm_row = c, cm_attempt = attempt_of c, cm_version = version, cm_generation = g, cm_token = tok \<rparr>"
    by (auto simp: take_claim_def and_then_value store_call_value)
  note lease = claim_lease_granted [OF 4, unfolded lease_command_fields]
  note kept = ready_node_done [OF 1] ensure_attempt_done [OF 2] start_node_done [OF 3]
  have none: "get_lease_row (attempt_of c) d = None" using lease(1) kept(1,3,4) by simp
  have "if dc_node_state c = Pending \<or> dc_node_state c = Ready
      then \<exists>n. get_node_row (dc_work_id c) (dc_node_id c) d' = Some n \<and> n_state n = In_progress \<and> n_version n = version
      else nodes d' = nodes d \<and> version = dc_node_version c"
    using lease(3) kept(2,3,5) by (cases "dc_node_state c") simp_all
  then show ?thesis using none lease(2) unfolding r m by simp
next
  case False
  then show ?thesis by (simp split: prod.split sum.split option.split)
qed

end
