(* ===== verification/Pi_Launcher.thy ===== *)
theory Pi_Launcher
  imports Launch_Context Approved_Models Pool_Proof
begin

text \<open>
  The launcher of a worker session (\<^verbatim>\<open>pool-proof-pi-launcher.ts\<close>): the checks and effects up
  to the start of the process, and the process under its timers, its broker and the cleanup.

  A stage of the launch has an outcome and the effects it left, also when it fails or throws.
  Parameters are the outcomes of the file system, of the hooks, of the broker and of the start
  of the process; \<open>stringify\<close> and \<open>parse\<close> are the JSON functions. The debug output is left out.
\<close>

section \<open>Effects\<close>

record spawn_request =
  sq_args :: "string list"
  sq_env :: "(string \<times> string) list"
  sq_cwd :: string

datatype effect =
    Wrote string string
  | Removed string
  | Prepared_workspace
  | Started_broker
  | Stopped_broker
  | Spawned spawn_request

type_synonym 'a stage = "'a launch_outcome \<times> effect list"

definition then_stage :: "'a stage \<Rightarrow> ('a \<Rightarrow> 'b stage) \<Rightarrow> 'b stage" where
  "then_stage r f =
     (case r of
        (Launched x, es) \<Rightarrow> (case f x of (o', es') \<Rightarrow> (o', es @ es'))
      | (LaunchFailed e, es) \<Rightarrow> (LaunchFailed e, es)
      | (LaunchThrew m, es) \<Rightarrow> (LaunchThrew m, es))"

text \<open>Writing a file, at a path where the file system may refuse (Some is the error).\<close>

definition write_file :: "(string \<Rightarrow> string option) \<Rightarrow> string \<Rightarrow> string \<Rightarrow> unit stage" where
  "write_file refuses path content =
     (case refuses path of Some e \<Rightarrow> (LaunchThrew e, []) | None \<Rightarrow> (Launched (), [Wrote path content]))"

section \<open>Ports\<close>

record broker_options =
  bo_socketPath :: string
  bo_workspacePath :: string
  bo_sandboxIdentity :: "sandbox_identity option"

record launcher_options =
  lo_expectations :: pool_proof_expectations
  lo_job :: proof_job
  lo_broker :: "broker_options option"
  lo_injectFaultForAttemptId :: "string option"
  lo_fake :: "pi_process option"

text \<open>
  \<open>lp_verifyPackage\<close> is None when the hook is not set; a thrown exception is Inl. \<open>lp_made\<close> and
  \<open>lp_tree\<close> are what the preparation of the workspace meets; \<open>lp_cwd\<close> is the working directory of the launcher; \<open>lp_broker_created\<close>,
  \<open>lp_broker_started\<close> and \<open>lp_spawn\<close> are the errors these calls throw.
\<close>

record launcher_ports =
  lp_now :: int
  lp_pi_digest :: "string \<Rightarrow> string option"
  lp_verifyPackage :: "(string \<Rightarrow> string \<Rightarrow> string \<Rightarrow> string \<Rightarrow> string + bool) option"
  lp_read :: "string \<Rightarrow> string option"
  lp_parse :: "string \<Rightarrow> js option"
  lp_stringify :: "js \<Rightarrow> string"
  lp_refuses :: "string \<Rightarrow> string option"
  lp_environment :: "string \<Rightarrow> string option"
  lp_host :: "(int \<times> int) option"
  lp_made :: "string \<Rightarrow> string + file_tree"
  lp_tree :: file_tree
  lp_broker_created :: "string option"
  lp_broker_started :: "string option"
  lp_spawn :: "string option"
  lp_cwd :: string

text \<open>\<^verbatim>\<open>resolve\<close> starts from the working directory unless its first argument is absolute.\<close>

definition from_cwd :: "launcher_ports \<Rightarrow> string \<Rightarrow> string" where
  "from_cwd lp p = (if is_absolute p then p else lp_cwd lp @ ''/'' @ p)"

section \<open>Provider files\<close>

definition providerEnvKey :: "string \<Rightarrow> string option" where
  "providerEnvKey provider = (if provider = ''moonshot'' then Some ''MOONSHOT_API_KEY'' else None)"

definition envCredentialToAuthEntry :: "string \<Rightarrow> string \<Rightarrow> js option" where
  "envCredentialToAuthEntry provider value =
     (if provider = ''moonshot'' then Some (plain [(''type'', Str ''api_key''), (''key'', Str value)]) else None)"

definition agent_file :: "launcher_ports \<Rightarrow> string \<Rightarrow> string" where
  "agent_file lp name = path_resolve (from_cwd lp (case lp_environment lp ''HOME'' of None \<Rightarrow> ''/dev/null'' | Some h \<Rightarrow> h) @ ''/.pi/agent/'' @ name)"

definition runtime_file :: "string \<Rightarrow> string \<Rightarrow> string" where
  "runtime_file piRuntimeParent name = path_resolve (piRuntimeParent @ ''/'' @ name)"

text \<open>The entry of the provider in the agent's own file; Inl where the read of the file throws.\<close>

definition stored_entry :: "launcher_ports \<Rightarrow> string \<Rightarrow> string + js option" where
  "stored_entry lp provider =
     (case lp_read lp (agent_file lp ''auth.json'') of
        None \<Rightarrow> Inr None
      | Some raw \<Rightarrow>
          (case lp_parse lp raw of
             None \<Rightarrow> Inl ''Unexpected token in JSON''
           | Some parsed \<Rightarrow>
               if parsed = Null then Inl ''Cannot read properties of null''
               else Inr (if is_object (fld parsed provider) then Some (fld parsed provider) else None)))"

definition env_entry :: "launcher_ports \<Rightarrow> string \<Rightarrow> js option" where
  "env_entry lp provider =
     (case Option.bind (providerEnvKey provider) (lp_environment lp) of
        None \<Rightarrow> None
      | Some v \<Rightarrow> if v = [] then None else envCredentialToAuthEntry provider v)"

definition copyProviderAuth :: "launcher_ports \<Rightarrow> string \<Rightarrow> string \<Rightarrow> unit stage" where
  "copyProviderAuth lp piRuntimeParent provider =
     (case stored_entry lp provider of
        Inl e \<Rightarrow> (LaunchThrew e, [])
      | Inr stored \<Rightarrow>
          (case (case stored of Some entry \<Rightarrow> Some entry | None \<Rightarrow> env_entry lp provider) of
             None \<Rightarrow> (Launched (), [])
           | Some entry \<Rightarrow> write_file (lp_refuses lp) (runtime_file piRuntimeParent ''auth.json'') (lp_stringify lp (plain [(provider, entry)]))))"

definition copyProviderModels :: "launcher_ports \<Rightarrow> string \<Rightarrow> string \<Rightarrow> unit stage" where
  "copyProviderModels lp piRuntimeParent provider =
     (case Option.bind (lp_read lp (agent_file lp ''models.json'')) (lp_parse lp) of
        None \<Rightarrow> (Launched (), [])
      | Some parsed \<Rightarrow>
          let providers = fld parsed ''providers'' in
          if \<not> is_object providers \<or> \<not> hasOwnField providers provider then (Launched (), [])
          else write_file (lp_refuses lp) (runtime_file piRuntimeParent ''models.json'')
                 (lp_stringify lp (plain [(''providers'', plain [(provider, fld providers provider)])])))"

definition removeProviderAuth :: "string \<Rightarrow> effect list" where
  "removeProviderAuth piRuntimeParent = map (\<lambda>name. Removed (runtime_file piRuntimeParent name)) [''auth.json'', ''models.json'']"

section \<open>The launch\<close>

record issued_artifacts =
  ia_executionContext :: js
  ia_actorIdentity :: js
  ia_attemptContract :: js

definition contract_expectations_of :: "pool_proof_expectations \<Rightarrow> contract_expectations" where
  "contract_expectations_of x = \<lparr> xe_node_id = le_nodeId x, xe_attempt_id = le_attemptId x,
     xe_target_repo = le_targetRepo x, xe_target_branch = le_targetBranch x \<rparr>"

definition context_file :: "string \<Rightarrow> string \<Rightarrow> string" where
  "context_file piRuntimeParent name = path_resolve (piRuntimeParent @ ''/launcher-context/'' @ name)"

definition writeLauncherContext :: "launcher_ports \<Rightarrow> string \<Rightarrow> issued_artifacts \<Rightarrow> unit stage" where
  "writeLauncherContext lp piRuntimeParent ia =
     then_stage (write_file (lp_refuses lp) (context_file piRuntimeParent ''execution-context.json'') (lp_stringify lp (ia_executionContext ia))) (\<lambda>_.
     then_stage (write_file (lp_refuses lp) (context_file piRuntimeParent ''actor-identity.json'') (lp_stringify lp (ia_actorIdentity ia))) (\<lambda>_.
       write_file (lp_refuses lp) (context_file piRuntimeParent ''attempt-contract.json'') (lp_stringify lp (ia_attemptContract ia))))"

definition text_field :: "js \<Rightarrow> string \<Rightarrow> string" where
  "text_field v name = js_str (fld v name)"

definition worker_env :: "js \<Rightarrow> broker_options option \<Rightarrow> (string \<times> string) list" where
  "worker_env context broker = (let dir = text_field context ''pi_runtime_parent'' in
     [(''PATH'', ''/usr/bin:/bin''), (''HOME'', dir), (''XDG_CONFIG_HOME'', dir @ ''/.config''), (''XDG_CACHE_HOME'', dir @ ''/.cache''),
      (''XDG_DATA_HOME'', dir @ ''/.local/share''), (''PI_CODING_AGENT_DIR'', dir),
      (''PI_CODING_AGENT_SESSION_DIR'', text_field context ''pi_session_dir''), (''PI_OFFLINE'', ''1''),
      (''AGENT_POOL_EXECUTION_CONTEXT'', context_file dir ''execution-context.json''),
      (''AGENT_POOL_ACTOR_IDENTITY'', context_file dir ''actor-identity.json'')]
     @ (case broker of None \<Rightarrow> [] | Some b \<Rightarrow> [(''AGENT_POOL_BROKER_SOCKET'', bo_socketPath b)]))"

definition worker_args :: "js \<Rightarrow> verified_profile \<Rightarrow> string list" where
  "worker_args context profile =
     [''--mode'', ''json'', ''--print'', ''--no-builtin-tools'', ''--tools'', ''read,write,edit,bash,actor_identity'', ''--no-skills'',
      ''--no-prompt-templates'', ''--no-context-files'', ''--no-extensions'', ''-e'', vp_trustedBootstrapPath profile,
      ''--model'', text_field context ''selected_model'', ''--session-dir'', text_field context ''pi_session_dir'',
      (if vp_systemPromptMode profile = ''replace'' then ''--system-prompt'' else ''--append-system-prompt''), vp_systemPrompt profile,
      vp_userPrompt profile]"

text \<open>The checks of the launch proper, before anything is written.\<close>

definition verify_launch :: "launcher_ports \<Rightarrow> js \<Rightarrow> unit stage" where
  "verify_launch lp context =
     (let pi_identity = fld context ''pi_executable_identity''; pkg = fld context ''package_identity''; prof = fld context ''profile_identity'' in
      if lp_pi_digest lp (text_field pi_identity ''path'') \<noteq> Some (text_field pi_identity ''digest'')
      then (LaunchFailed (mismatch ''Pi executable digest re-verification failed before launch''), [])
      else case lp_verifyPackage lp of
        None \<Rightarrow> (Launched (), [])
      | Some hook \<Rightarrow>
          (case hook (text_field pkg ''path'') (text_field pkg ''digest'') (text_field prof ''path'') (text_field prof ''digest'') of
             Inl e \<Rightarrow> (LaunchThrew e, [])
           | Inr verified \<Rightarrow>
               if verified then (Launched (), [])
               else (LaunchFailed (mismatch ''Package or profile digest re-verification failed before launch''), [])))"

text \<open>The workspace and the broker; a failure of either removes the provider files.\<close>

definition start_broker :: "launcher_ports \<Rightarrow> string \<Rightarrow> sandbox_identity \<Rightarrow> broker_options option \<Rightarrow> unit stage" where
  "start_broker lp dir i broker =
     (case broker of
        None \<Rightarrow> (Launched (), [])
      | Some b \<Rightarrow>
          (case prepareWorkspaceForSandbox (lp_made lp) (lp_tree lp) (bo_workspacePath b) i of
             (Inl e, _) \<Rightarrow> (LaunchFailed (mismatch (''workspace sandbox preparation failed: '' @ e)), removeProviderAuth dir)
           | (Inr _, _) \<Rightarrow>
               (case lp_broker_created lp of
                  Some e \<Rightarrow> (LaunchThrew e, [Prepared_workspace])
                | None \<Rightarrow>
                    (case lp_broker_started lp of
                       Some e \<Rightarrow> (LaunchThrew e, Prepared_workspace # removeProviderAuth dir @ [Stopped_broker])
                     | None \<Rightarrow> (Launched (), [Prepared_workspace, Started_broker])))))"

definition sandbox_user :: "launcher_ports \<Rightarrow> broker_options option \<Rightarrow> string + sandbox_identity" where
  "sandbox_user lp broker = (case Option.bind broker bo_sandboxIdentity of Some i \<Rightarrow> Inr i | None \<Rightarrow> resolveSandboxIdentity (lp_host lp))"

definition spawn_worker :: "launcher_ports \<Rightarrow> js \<Rightarrow> broker_options option \<Rightarrow> verified_profile \<Rightarrow> spawn_request stage" where
  "spawn_worker lp context broker profile =
     (let request = \<lparr> sq_args = text_field (fld context ''pi_executable_identity'') ''path'' # worker_args context profile,
                      sq_env = worker_env context broker, sq_cwd = text_field context ''workspace_path'' \<rparr> in
      case lp_spawn lp of Some e \<Rightarrow> (LaunchThrew e, []) | None \<Rightarrow> (Launched request, [Spawned request]))"

text \<open>From the validated context to the running process.\<close>

definition start_worker :: "launcher_ports \<Rightarrow> launcher_options \<Rightarrow> js \<Rightarrow> issued_artifacts \<Rightarrow> spawn_request stage" where
  "start_worker lp options context ia =
     (let dir = text_field context ''pi_runtime_parent''; provider = getProvider (text_field context ''selected_model''); prof = fld context ''profile_identity'' in
      then_stage (verify_launch lp context) (\<lambda>_.
      then_stage (loadVerifiedProfileForJob (lp_read lp) (lp_parse lp) (from_cwd lp (text_field prof ''path'')) (text_field prof ''name'') context
                    (lp_stringify lp (ia_attemptContract ia)), []) (\<lambda>profile.
      then_stage (writeLauncherContext lp dir ia) (\<lambda>_.
      then_stage (copyProviderAuth lp dir provider) (\<lambda>_.
      then_stage (copyProviderModels lp dir provider) (\<lambda>_.
      then_stage (case sandbox_user lp (lo_broker options) of Inl e \<Rightarrow> (LaunchThrew e, []) | Inr i \<Rightarrow> (Launched i, [])) (\<lambda>i.
      then_stage (start_broker lp dir i (lo_broker options)) (\<lambda>_.
        spawn_worker lp context (lo_broker options) profile))))))))"

datatype launch_result = Fake_process pi_process issued_artifacts | Running spawn_request issued_artifacts

definition launch :: "launcher_ports \<Rightarrow> launcher_options \<Rightarrow> js \<Rightarrow> string list \<Rightarrow> launch_result stage \<times> string list" where
  "launch lp options marker nonces =
     (case validateExecutionContext marker (lo_expectations options) (Some (lo_expectations options)) (lp_now lp) (Some nonces) of
        (Inl f, store) \<Rightarrow> ((LaunchFailed f, []), the store)
      | (Inr v, store) \<Rightarrow>
          (let contract = buildAttemptContract (lo_job options); context = vx_context v;
               ia = \<lparr> ia_executionContext = context, ia_actorIdentity = buildActorIdentity context, ia_attemptContract = contract \<rparr> in
           (case validateAttemptContracts (Arr [contract]) (contract_expectations_of (lo_expectations options)) of
              Inl f \<Rightarrow> (LaunchFailed f, [])
            | Inr _ \<Rightarrow>
                (case lo_fake options of
                   Some p \<Rightarrow> (Launched (Fake_process p ia), [])
                 | None \<Rightarrow> then_stage (start_worker lp options context ia) (\<lambda>r. (Launched (Running r ia), []))),
            the store)))"

end
