(* ===== verification/Launch_Process.thy ===== *)
theory Launch_Process
  imports Pi_Launcher
begin

text \<open>
  The running worker process under its launcher (\<^verbatim>\<open>pool-proof-pi-launcher.ts\<close>, the promise of
  \<open>launch\<close>): output, timers, the fault directive, the end of the process, a failing broker, and
  the one cleanup they share. An event is a callback of the source; \<open>Cleanup_done\<close> is the end of
  the cleanup's own wait, the stop of the broker.
\<close>

section \<open>State\<close>

datatype cleanup = Not_started | Under_way | Finished_cleanup

record launched_process = pi_process +
  pl_pid :: int
  pl_signalCode :: "string option"
  pl_timedOut :: bool
  pl_output :: string
  pl_issuedArtifacts :: issued_artifacts

datatype settlement = Resolved launched_process | Rejected string

text \<open>What waits for the cleanup: to resolve with an exit code, or to reject.\<close>

datatype waiter = Resolve_with "int option" | Reject_with string

record child_run =
  ch_output :: string
  ch_timedOut :: bool
  ch_fault :: fault_state
  ch_child :: child_view
  ch_signals :: "string list"
  ch_timeoutArmed :: bool
  ch_sigkillArmed :: bool
  ch_completionArmed :: bool
  ch_cleanup :: cleanup
  ch_removed :: bool
  ch_waiters :: "waiter list"
  ch_settled :: "settlement option"

datatype child_event =
    Spawn_event bool string
  | Data_event string
  | Timeout_fires
  | Sigkill_fires
  | Completion_fires
  | Child_error string
  | Child_exit "int option" "string option"
  | Broker_failed
  | Cleanup_done

record run_identity =
  ri_expectations :: pool_proof_expectations
  ri_fault :: "string option"
  ri_nonce :: string
  ri_artifacts :: issued_artifacts

definition outputCap :: nat where "outputCap = 10 * 1024 * 1024"

definition started_child :: "int option \<Rightarrow> child_run" where
  "started_child pid = \<lparr> ch_output = [], ch_timedOut = False, ch_fault = createFaultDirectiveState,
     ch_child = \<lparr> cv_exitCode = None, cv_signalCode = None, cv_pid = pid \<rparr>, ch_signals = [],
     ch_timeoutArmed = True, ch_sigkillArmed = False, ch_completionArmed = False,
     ch_cleanup = Not_started, ch_removed = False, ch_waiters = [], ch_settled = None \<rparr>"

section \<open>Callbacks\<close>

definition directive_of :: "run_identity \<Rightarrow> fault_directive option" where
  "directive_of ri = (let attemptId = le_attemptId (ri_expectations ri) in
     if ri_fault ri = Some attemptId then Some (createFaultDirective ''stage2-injected-failure'' attemptId) else None)"

definition append_output :: "string \<Rightarrow> string \<Rightarrow> string" where
  "append_output output chunk = (if length output < outputCap then take outputCap (output @ chunk) else output)"

definition process_result :: "run_identity \<Rightarrow> int option \<Rightarrow> child_run \<Rightarrow> launched_process" where
  "process_result ri exitCode s =
     \<lparr> pp_exitCode = (if ch_timedOut s then Some 124 else exitCode), pp_nodeId = le_nodeId (ri_expectations ri),
       pp_attemptId = le_attemptId (ri_expectations ri), pp_attemptNonce = ri_nonce ri,
       pp_resultId = pe_resultDestinationId (ri_expectations ri),
       pp_failureCode = deriveInjectedFailureCode (directive_of ri) (ft_evidence (ch_fault s)) (cv_signalCode (ch_child s)),
       pl_pid = (case cv_pid (ch_child s) of None \<Rightarrow> 0 | Some p \<Rightarrow> p), pl_signalCode = cv_signalCode (ch_child s),
       pl_timedOut = ch_timedOut s, pl_output = ch_output s, pl_issuedArtifacts = ri_artifacts ri \<rparr>"

text \<open>\<open>resolveOnce\<close> and the rejection of the error handler: the first one counts.\<close>

fun settle_one :: "run_identity \<Rightarrow> waiter \<Rightarrow> child_run \<Rightarrow> child_run" where
  "settle_one ri (Resolve_with code) s =
     (if ch_settled s \<noteq> None then s
      else s\<lparr> ch_sigkillArmed := False, ch_completionArmed := False, ch_settled := Some (Resolved (process_result ri code s)) \<rparr>)"
| "settle_one ri (Reject_with m) s =
     (if ch_settled s \<noteq> None then s else s\<lparr> ch_settled := Some (Rejected m) \<rparr>)"

definition begin_cleanup :: "child_run \<Rightarrow> child_run" where
  "begin_cleanup s = (if ch_cleanup s = Not_started then s\<lparr> ch_cleanup := Under_way, ch_removed := True \<rparr> else s)"

text \<open>Wait for the shared cleanup, then settle.\<close>

definition after_cleanup :: "run_identity \<Rightarrow> waiter \<Rightarrow> child_run \<Rightarrow> child_run" where
  "after_cleanup ri w s =
     (let s' = begin_cleanup s in
      if ch_cleanup s' = Finished_cleanup then settle_one ri w s' else s'\<lparr> ch_waiters := ch_waiters s' @ [w] \<rparr>)"

definition signal_child :: "string \<Rightarrow> child_run \<Rightarrow> child_run" where
  "signal_child sig s = s\<lparr> ch_signals := ch_signals s @ [sig] \<rparr>"

fun child_handle :: "run_identity \<Rightarrow> child_event \<Rightarrow> child_run \<Rightarrow> child_run" where
  "child_handle ri (Spawn_event killResult now) s =
     (case attemptFaultInjection (ch_child s) killResult now (directive_of ri) (le_attemptId (ri_expectations ri)) (ch_fault s) of
        (Inl _, f) \<Rightarrow> s\<lparr> ch_fault := f \<rparr>
      | (Inr e, f) \<Rightarrow> signal_child (fe_signal e) (s\<lparr> ch_fault := f \<rparr>))"
| "child_handle ri (Data_event chunk) s = s\<lparr> ch_output := append_output (ch_output s) chunk \<rparr>"
| "child_handle ri Timeout_fires s =
     (if \<not> ch_timeoutArmed s then s
      else signal_child ''SIGTERM'' (s\<lparr> ch_timeoutArmed := False, ch_timedOut := True, ch_sigkillArmed := True, ch_completionArmed := True \<rparr>))"
| "child_handle ri Sigkill_fires s =
     (if \<not> ch_sigkillArmed s then s else signal_child ''SIGKILL'' (s\<lparr> ch_sigkillArmed := False \<rparr>))"
| "child_handle ri Completion_fires s =
     (if \<not> ch_completionArmed s then s
      else after_cleanup ri (Resolve_with (Some 124)) (signal_child ''SIGKILL'' (s\<lparr> ch_completionArmed := False \<rparr>)))"
| "child_handle ri (Child_error m) s =
     after_cleanup ri (Reject_with m) (s\<lparr> ch_timeoutArmed := False, ch_sigkillArmed := False, ch_completionArmed := False \<rparr>)"
| "child_handle ri (Child_exit code sig) s =
     after_cleanup ri (Resolve_with code)
       (s\<lparr> ch_timeoutArmed := False, ch_child := (ch_child s)\<lparr> cv_exitCode := code, cv_signalCode := sig \<rparr> \<rparr>)"
| "child_handle ri Broker_failed s = begin_cleanup s"
| "child_handle ri Cleanup_done s =
     (if ch_cleanup s = Under_way
      then fold (settle_one ri) (ch_waiters s) (s\<lparr> ch_cleanup := Finished_cleanup, ch_waiters := [] \<rparr>)
      else s)"

definition run_child :: "run_identity \<Rightarrow> child_event list \<Rightarrow> child_run \<Rightarrow> child_run" where
  "run_child ri events s = fold (child_handle ri) events s"

section \<open>Invariant\<close>

text \<open>What holds of every settlement; the rest of the invariant is about the cleanup.\<close>

definition settlement_ok :: "run_identity \<Rightarrow> settlement \<Rightarrow> bool" where
  "settlement_ok ri r = (case r of
     Rejected m \<Rightarrow> True
   | Resolved p \<Rightarrow> pp_nodeId p = le_nodeId (ri_expectations ri) \<and> pp_attemptId p = le_attemptId (ri_expectations ri)
       \<and> pp_attemptNonce p = ri_nonce ri \<and> pp_resultId p = pe_resultDestinationId (ri_expectations ri)
       \<and> pl_issuedArtifacts p = ri_artifacts ri \<and> length (pl_output p) \<le> outputCap
       \<and> (pl_timedOut p \<longrightarrow> pp_exitCode p = Some 124)
       \<and> (\<forall>c. pp_failureCode p = Some c \<longrightarrow> c = INJECTED_FAILURE_CODE \<and> ri_fault ri = Some (le_attemptId (ri_expectations ri))
            \<and> pl_signalCode p = Some INJECTED_FAULT_SIGNAL))"

definition settled_ok :: "run_identity \<Rightarrow> cleanup \<Rightarrow> settlement option \<Rightarrow> bool" where
  "settled_ok ri c r = (case r of None \<Rightarrow> True | Some x \<Rightarrow> c = Finished_cleanup \<and> settlement_ok ri x)"

definition evidence_ok :: "fault_state \<Rightarrow> bool" where
  "evidence_ok f = (case ft_evidence f of None \<Rightarrow> True | Some e \<Rightarrow> fe_signal e = INJECTED_FAULT_SIGNAL \<and> ft_consumed f)"

lemma settled_ok_simps [simp]:
  "settled_ok ri c None" "settled_ok ri c (Some x) \<longleftrightarrow> c = Finished_cleanup \<and> settlement_ok ri x"
  by (simp_all add: settled_ok_def)

definition child_inv :: "run_identity \<Rightarrow> child_run \<Rightarrow> bool" where
  "child_inv ri s \<longleftrightarrow> length (ch_output s) \<le> outputCap
     \<and> (ch_removed s \<longleftrightarrow> ch_cleanup s \<noteq> Not_started)
     \<and> (ch_waiters s \<noteq> [] \<longrightarrow> ch_cleanup s = Under_way)
     \<and> settled_ok ri (ch_cleanup s) (ch_settled s) \<and> evidence_ok (ch_fault s)"

lemma child_inv_start: "child_inv ri (started_child pid)"
  by (simp add: child_inv_def started_child_def createFaultDirectiveState_def evidence_ok_def)

lemma result_ok:
  assumes "length (ch_output s) \<le> outputCap"
    "evidence_ok (ch_fault s)"
  shows "settlement_ok ri (Resolved (process_result ri code s))"
  using assms by (auto simp: settlement_ok_def evidence_ok_def process_result_def deriveInjectedFailureCode_def directive_of_def createFaultDirective_def Let_def
      split: option.splits if_splits)

lemma rejection_ok: "settlement_ok ri (Rejected m)"
  by (simp add: settlement_ok_def)

lemma settle_keeps: "child_inv ri s \<Longrightarrow> ch_cleanup s = Finished_cleanup \<Longrightarrow> child_inv ri (settle_one ri w s) \<and> ch_cleanup (settle_one ri w s) = Finished_cleanup"
  by (cases w) (auto simp: child_inv_def result_ok rejection_ok)

lemma settle_all_keeps:
  "child_inv ri s \<Longrightarrow> ch_cleanup s = Finished_cleanup \<Longrightarrow> child_inv ri (fold (settle_one ri) ws s)"
  by (induction ws arbitrary: s) (auto dest: settle_keeps)

lemma begin_cleanup_keeps: "child_inv ri s \<Longrightarrow> child_inv ri (begin_cleanup s)"
  by (cases "ch_settled s") (auto simp: begin_cleanup_def child_inv_def)

lemma after_cleanup_keeps: "child_inv ri s \<Longrightarrow> child_inv ri (after_cleanup ri w s)"
proof -
  assume "child_inv ri s"
  then have i: "child_inv ri (begin_cleanup s)" by (rule begin_cleanup_keeps)
  then show ?thesis
  proof (cases "ch_cleanup (begin_cleanup s) = Finished_cleanup")
    case False
    moreover have "ch_cleanup (begin_cleanup s) \<noteq> Not_started" by (simp add: begin_cleanup_def)
    ultimately have "ch_cleanup (begin_cleanup s) = Under_way" using cleanup.exhaust by metis
    with i show ?thesis by (auto simp: after_cleanup_def Let_def child_inv_def)
  qed (use settle_keeps [OF i] in \<open>simp add: after_cleanup_def Let_def\<close>)
qed

lemma injection_evidence:
  assumes "attemptFaultInjection c k now (directive_of ri) a f = (r, f')"
    "evidence_ok f"
  shows "evidence_ok f'"
  using assms by (auto simp: evidence_ok_def attemptFaultInjection_def directive_of_def createFaultDirective_def Let_def split: option.splits if_splits)

lemma append_output_bound: "length output \<le> outputCap \<Longrightarrow> length (append_output output chunk) \<le> outputCap"
  by (auto simp: append_output_def min_def)

lemma handle_keeps: "child_inv ri s \<Longrightarrow> child_inv ri (child_handle ri e s)"
proof (cases e)
  case (Spawn_event k now)
  assume i: "child_inv ri s"
  obtain r f where a: "attemptFaultInjection (ch_child s) k now (directive_of ri) (le_attemptId (ri_expectations ri)) (ch_fault s) = (r, f)" by fastforce
  have "evidence_ok f"
    using injection_evidence [OF a] i by (simp add: child_inv_def)
  then show ?thesis using i Spawn_event a by (cases r) (simp_all add: child_inv_def signal_child_def)
next
  case Cleanup_done
  assume i: "child_inv ri s"
  show ?thesis
  proof (cases "ch_cleanup s = Under_way")
    case True
    with i have "child_inv ri (s\<lparr> ch_cleanup := Finished_cleanup, ch_waiters := [] \<rparr>)" by (cases "ch_settled s") (auto simp: child_inv_def)
    then show ?thesis using Cleanup_done True by (simp add: settle_all_keeps)
  qed (use i Cleanup_done in simp)
next
  case Completion_fires
  assume "child_inv ri s"
  then have "child_inv ri (signal_child ''SIGKILL'' (s\<lparr> ch_completionArmed := False \<rparr>))" by (simp add: child_inv_def signal_child_def)
  then show ?thesis using Completion_fires after_cleanup_keeps \<open>child_inv ri s\<close> by simp
next
  case (Child_error m)
  assume "child_inv ri s"
  then have "child_inv ri (s\<lparr> ch_timeoutArmed := False, ch_sigkillArmed := False, ch_completionArmed := False \<rparr>)" by (simp add: child_inv_def)
  then show ?thesis using Child_error after_cleanup_keeps by simp
next
  case (Child_exit code sig)
  assume "child_inv ri s"
  then have "child_inv ri (s\<lparr> ch_timeoutArmed := False, ch_child := (ch_child s)\<lparr> cv_exitCode := code, cv_signalCode := sig \<rparr> \<rparr>)"
    by (simp add: child_inv_def)
  then show ?thesis using Child_exit after_cleanup_keeps by simp
next
  case (Data_event chunk)
  assume "child_inv ri s"
  then show ?thesis using Data_event append_output_bound [of "ch_output s" chunk] by (simp add: child_inv_def)
qed (simp_all add: begin_cleanup_keeps, simp_all add: child_inv_def signal_child_def)

lemma run_keeps: "child_inv ri s \<Longrightarrow> child_inv ri (run_child ri es s)"
  by (induction es arbitrary: s) (simp_all add: run_child_def handle_keeps)

lemma run_inv: "child_inv ri (run_child ri es (started_child pid))"
  by (rule run_keeps) (rule child_inv_start)

section \<open>Settling\<close>

lemma settle_one_kept: "ch_settled s = Some r \<Longrightarrow> ch_settled (settle_one ri w s) = Some r"
  by (cases w) auto

lemma settle_all_kept: "ch_settled s = Some r \<Longrightarrow> ch_settled (fold (settle_one ri) ws s) = Some r"
  by (induction ws arbitrary: s) (auto dest: settle_one_kept)

lemma settle_all_settles: "ws \<noteq> [] \<Longrightarrow> ch_settled (fold (settle_one ri) ws s) \<noteq> None"
proof (cases ws)
  case (Cons w ws')
  have "ch_settled (settle_one ri w s) \<noteq> None" by (cases w) auto
  then show ?thesis using Cons settle_all_kept [of "settle_one ri w s"] by auto
qed simp

lemma after_cleanup_kept: "ch_settled s = Some r \<Longrightarrow> ch_settled (after_cleanup ri w s) = Some r"
  by (cases w) (auto simp: after_cleanup_def Let_def begin_cleanup_def)

lemma handle_kept: "ch_settled s = Some r \<Longrightarrow> ch_settled (child_handle ri e s) = Some r"
  by (cases e) (auto simp: signal_child_def begin_cleanup_def after_cleanup_kept settle_all_kept split: prod.split sum.split)

lemma run_kept: "ch_settled s = Some r \<Longrightarrow> ch_settled (run_child ri es s) = Some r"
  by (induction es arbitrary: s) (auto simp: run_child_def dest: handle_kept)

lemma run_child_append: "run_child ri (es @ es') s = run_child ri es' (run_child ri es s)"
  by (simp add: run_child_def)

text \<open>The launch is settled, or a waiter holds on to the cleanup under way.\<close>

definition ending :: "child_run \<Rightarrow> bool" where
  "ending s = (ch_settled s \<noteq> None \<or> (ch_cleanup s = Under_way \<and> ch_waiters s \<noteq> []))"

lemma after_cleanup_ending: "ending (after_cleanup ri w s)"
proof (cases "ch_cleanup (begin_cleanup s) = Finished_cleanup")
  case True
  then show ?thesis by (cases w) (auto simp: after_cleanup_def ending_def Let_def)
next
  case False
  moreover have "ch_cleanup (begin_cleanup s) \<noteq> Not_started" by (simp add: begin_cleanup_def)
  ultimately have "ch_cleanup (begin_cleanup s) = Under_way" using cleanup.exhaust by metis
  then show ?thesis by (simp add: after_cleanup_def ending_def Let_def)
qed

lemma handle_ending: "ending s \<Longrightarrow> ending (child_handle ri e s)"
proof (cases "ch_settled s")
  case (Some r)
  then show ?thesis using handle_kept [OF Some] by (auto simp: ending_def)
next
  case None
  assume "ending s"
  with None have w: "ch_cleanup s = Under_way" "ch_waiters s \<noteq> []" by (auto simp: ending_def)
  show ?thesis
    using \<open>ending s\<close> w
    by (cases e; simp add: after_cleanup_ending)
      (auto simp: signal_child_def ending_def begin_cleanup_def settle_all_settles split: prod.split sum.split)
qed

lemma run_ending: "ending s \<Longrightarrow> ending (run_child ri es s)"
  by (induction es arbitrary: s) (auto simp: run_child_def handle_ending)

fun ends_child :: "child_event \<Rightarrow> bool" where
  "ends_child (Child_exit code sig) = True"
| "ends_child (Child_error m) = True"
| "ends_child e = False"

lemma ended_ending: "list_ex ends_child es \<Longrightarrow> ending (run_child ri es s)"
proof (induction es arbitrary: s)
  case (Cons e es)
  show ?case
  proof (cases "ends_child e")
    case True
    then have "ending (child_handle ri e s)" by (cases e) (auto simp: after_cleanup_ending)
    then show ?thesis using run_ending by (simp add: run_child_def)
  qed (use Cons in \<open>simp add: run_child_def\<close>)
qed simp

lemma ending_settles: "ending s \<Longrightarrow> ch_settled (child_handle ri Cleanup_done s) \<noteq> None"
proof (cases "ch_settled s")
  case (Some r)
  then show ?thesis using handle_kept [OF Some, of ri Cleanup_done] by simp
qed (auto simp: ending_def settle_all_settles)

text \<open>
  C10. A worker session settles once, after its cleanup, and with what belongs to it: whatever
  the order of its callbacks, a launch is settled only when the provider files are removed and
  the cleanup is over, it stays settled as it was, and its result carries the identity of the
  launch, at most ten mebibytes of output, the code 124 after a timeout, and the injected
  failure code only for the directed attempt ended by the injected signal. Once the process has
  ended or failed, the end of the cleanup settles the launch.
\<close>
theorem worker_settles_clean:
  "let s = run_child ri es (started_child pid) in
     (case ch_settled s of
        None \<Rightarrow> True
      | Some r \<Rightarrow> ch_removed s \<and> ch_cleanup s = Finished_cleanup \<and> ch_settled (run_child ri later s) = Some r \<and>
          (case r of
             Rejected m \<Rightarrow> True
           | Resolved p \<Rightarrow> pp_nodeId p = le_nodeId (ri_expectations ri) \<and> pp_attemptId p = le_attemptId (ri_expectations ri)
               \<and> pp_attemptNonce p = ri_nonce ri \<and> pp_resultId p = pe_resultDestinationId (ri_expectations ri)
               \<and> pl_issuedArtifacts p = ri_artifacts ri \<and> length (pl_output p) \<le> 10485760
               \<and> (if pl_timedOut p then pp_exitCode p = Some 124 else True)
               \<and> (case pp_failureCode p of
                    None \<Rightarrow> True
                  | Some c \<Rightarrow> c = ''INJECTED_WORKER_FAILURE'' \<and> ri_fault ri = Some (le_attemptId (ri_expectations ri))
                      \<and> pl_signalCode p = Some ''SIGTERM'')))
     \<and> (if list_ex ends_child es then ch_settled (run_child ri [Cleanup_done] s) \<noteq> None else True)"
proof -
  let ?s = "run_child ri es (started_child pid)"
  have i: "child_inv ri ?s" by (rule run_inv)
  have "case ch_settled ?s of None \<Rightarrow> True
      | Some r \<Rightarrow> ch_removed ?s \<and> ch_cleanup ?s = Finished_cleanup \<and> ch_settled (run_child ri later ?s) = Some r \<and> settlement_ok ri r"
    using i run_kept by (auto simp: child_inv_def split: option.split)
  moreover have "list_ex ends_child es \<Longrightarrow> ch_settled (run_child ri [Cleanup_done] ?s) \<noteq> None"
    using ending_settles [OF ended_ending] by (simp add: run_child_def)
  ultimately show ?thesis
    by (auto simp: Let_def settlement_ok_def outputCap_def INJECTED_FAILURE_CODE_def INJECTED_FAULT_SIGNAL_def
        split: option.splits settlement.splits)
qed

text \<open>
  A cleanup that never ends keeps the launch open, also past the completion timer, which is
  meant to force a result.
\<close>

lemma completion_waits_for_cleanup:
  "Cleanup_done \<notin> set es \<Longrightarrow> ch_settled (run_child ri es (started_child pid)) = None"
proof -
  have "Cleanup_done \<notin> set es \<Longrightarrow> ch_cleanup s \<noteq> Finished_cleanup \<and> ch_settled s = None \<Longrightarrow>
      ch_cleanup (run_child ri es s) \<noteq> Finished_cleanup \<and> ch_settled (run_child ri es s) = None" for s
  proof (induction es arbitrary: s)
    case (Cons e es)
    have "ch_cleanup (child_handle ri e s) \<noteq> Finished_cleanup \<and> ch_settled (child_handle ri e s) = None"
      by (cases e) (use Cons.prems in \<open>auto simp: signal_child_def after_cleanup_def begin_cleanup_def Let_def split: prod.split sum.split\<close>)
    then show ?case using Cons by (simp add: run_child_def)
  qed (simp add: run_child_def)
  then show "Cleanup_done \<notin> set es \<Longrightarrow> ch_settled (run_child ri es (started_child pid)) = None" by (simp add: started_child_def)
qed

end
