(* ===== verification/Launch_Properties.thy ===== *)
theory Launch_Properties
  imports Launch_Process
begin

text \<open>
  What a launched worker has passed, what a failed launch leaves behind, who owns the files of a
  sandboxed workspace, and that a settled session satisfies the verifier's identity checks.
\<close>

section \<open>Stages\<close>

lemma then_stage_Launched:
  "then_stage r f = (Launched y, es) \<longleftrightarrow> (\<exists>x es1 es2. r = (Launched x, es1) \<and> f x = (Launched y, es2) \<and> es = es1 @ es2)"
  by (cases r; cases "fst r") (auto simp: then_stage_def split: prod.split)

lemma then_stage_Failed:
  "then_stage r f = (LaunchFailed e, es) \<longleftrightarrow>
     r = (LaunchFailed e, es) \<or> (\<exists>x es1 es2. r = (Launched x, es1) \<and> f x = (LaunchFailed e, es2) \<and> es = es1 @ es2)"
  by (cases r; cases "fst r") (auto simp: then_stage_def split: prod.split)

lemma write_never_fails:
  "write_file w p c \<noteq> (LaunchFailed e, es)" "writeLauncherContext lp dir ia \<noteq> (LaunchFailed e, es)"
  "copyProviderAuth lp dir provider \<noteq> (LaunchFailed e, es)" "copyProviderModels lp dir provider \<noteq> (LaunchFailed e, es)"
  by (auto simp: write_file_def writeLauncherContext_def then_stage_Failed copyProviderAuth_def copyProviderModels_def Let_def split: option.splits sum.splits)

text \<open>
  What a profile directory must hold for the worker named in the marker: a description of the pool
  worker under that name that declares the one agent and the one extension, and the agent's file
  below the directory, with a body and a mode that the launcher supports.
\<close>

definition verified_agent :: "launcher_ports \<Rightarrow> string \<Rightarrow> string \<Rightarrow> string \<Rightarrow> string \<Rightarrow> bool" where
  "verified_agent lp dir name body mode \<longleftrightarrow>
     (\<exists>text parsed source. lp_read lp (path_resolve (dir @ ''/profile.json'')) = Some text \<and> lp_parse lp text = Some parsed
        \<and> fld parsed ''actor'' = Str ''pool-worker'' \<and> fld parsed ''name'' = Str name
        \<and> fld parsed ''agents'' = Arr [Str ''./agents/pool-proof-builder.md'']
        \<and> fld parsed ''extensions'' = Arr [Str ''./extensions/trusted-bootstrap.ts'']
        \<and> prefix (path_resolve dir @ ''/'') (path_resolve (dir @ ''/./agents/pool-proof-builder.md''))
        \<and> lp_read lp (path_resolve (dir @ ''/./agents/pool-proof-builder.md'')) = Some source
        \<and> parseAgentFrontmatter source = (body, mode) \<and> mode \<in> {''replace'', ''append''} \<and> trim body \<noteq> [])"

lemma loaded_profile:
  assumes "loadVerifiedProfile (lp_read lp) (lp_parse lp) dir name = Launched p"
  shows "verified_agent lp dir name (vp_systemPrompt p) (vp_systemPromptMode p)"
    "vp_trustedBootstrapPath p = path_resolve (dir @ ''/extensions/trusted-bootstrap.ts'')"
proof -
  obtain json parsed where t: "lp_read lp (child_path dir ''profile.json'') = Some json" "lp_parse lp json = Some parsed"
    using assms by (auto simp: loadVerifiedProfile_def split: option.splits)
  let ?source = "lp_read lp (child_path dir ''./agents/pool-proof-builder.md'')"
  have n: "profile_failure ?source parsed name dir = None"
    and p: "p = \<lparr> vp_trustedBootstrapPath = child_path dir ''extensions/trusted-bootstrap.ts'', vp_systemPrompt = fst (parseAgentFrontmatter (the ?source)),
              vp_systemPromptMode = snd (parseAgentFrontmatter (the ?source)), vp_userPrompt = [] \<rparr>"
    using assms t by (auto simp: loadVerifiedProfile_def Let_def split: option.splits if_splits prod.splits)
  from n obtain source where "?source = Some source" by (auto simp: profile_failure_def first_error_None)
  with n t show "verified_agent lp dir name (vp_systemPrompt p) (vp_systemPromptMode p)"
    unfolding verified_agent_def p by (auto simp: profile_failure_def first_error_None child_path_def SUPPORTED_SYSTEM_PROMPT_MODES_def)
  show "vp_trustedBootstrapPath p = path_resolve (dir @ ''/extensions/trusted-bootstrap.ts'')" by (simp add: p child_path_def)
qed

lemma job_profile:
  assumes "loadVerifiedProfileForJob (lp_read lp) (lp_parse lp) dir name context contract = Launched p"
  obtains body mode where "verified_agent lp dir name body mode"
    "p = \<lparr> vp_trustedBootstrapPath = path_resolve (dir @ ''/extensions/trusted-bootstrap.ts''),
           vp_systemPrompt = body @ [CHR 0x0A, CHR 0x0A] @ renderIdentityCapsule context @ [CHR 0x0A, CHR 0x0A] @ anti_override,
           vp_systemPromptMode = mode, vp_userPrompt = ''Attempt contract:'' @ [CHR 0x0A] @ contract \<rparr>"
proof -
  obtain base where b: "loadVerifiedProfile (lp_read lp) (lp_parse lp) dir name = Launched base"
      "p = base\<lparr> vp_systemPrompt := vp_systemPrompt base @ [CHR 0x0A, CHR 0x0A] @ renderIdentityCapsule context @ [CHR 0x0A, CHR 0x0A] @ anti_override,
                 vp_userPrompt := ''Attempt contract:'' @ [CHR 0x0A] @ contract \<rparr>"
    using assms by (auto simp: loadVerifiedProfileForJob_def split: launch_outcome.splits)
  show thesis by (rule that [OF loaded_profile(1) [OF b(1)]]) (simp add: b(2) loaded_profile(2) [OF b(1), symmetric])
qed

section \<open>What a launched worker has passed\<close>

definition is_spawn :: "effect \<Rightarrow> bool" where
  "is_spawn e = (case e of Spawned r \<Rightarrow> True | _ \<Rightarrow> False)"

lemma no_spawn_before:
  "write_file w p c = (o1, es) \<Longrightarrow> \<not> list_ex is_spawn es" "writeLauncherContext lp dir ia = (o1, es) \<Longrightarrow> \<not> list_ex is_spawn es"
  "copyProviderAuth lp dir provider = (o1, es) \<Longrightarrow> \<not> list_ex is_spawn es" "copyProviderModels lp dir provider = (o1, es) \<Longrightarrow> \<not> list_ex is_spawn es"
  "verify_launch lp context = (o1, es) \<Longrightarrow> es = []" "start_broker lp dir i broker = (o2, es) \<Longrightarrow> \<not> list_ex is_spawn es"
  by (auto simp: write_file_def writeLauncherContext_def then_stage_def copyProviderAuth_def copyProviderModels_def verify_launch_def start_broker_def
      removeProviderAuth_def is_spawn_def Let_def split: option.splits sum.splits prod.splits if_splits launch_outcome.splits)

lemma env_list: "map fst (worker_env context broker) =
    [''PATH'', ''HOME'', ''XDG_CONFIG_HOME'', ''XDG_CACHE_HOME'', ''XDG_DATA_HOME'', ''PI_CODING_AGENT_DIR'', ''PI_CODING_AGENT_SESSION_DIR'',
     ''PI_OFFLINE'', ''AGENT_POOL_EXECUTION_CONTEXT'', ''AGENT_POOL_ACTOR_IDENTITY''] @ (if broker = None then [] else [''AGENT_POOL_BROKER_SOCKET''])"
  by (simp add: worker_env_def Let_def split: option.split)

lemma env_names:
  "filter isCredentialVariableName (map fst (worker_env context broker)) = [''PI_CODING_AGENT_DIR'', ''PI_CODING_AGENT_SESSION_DIR'', ''PI_OFFLINE'']"
proof -
  have fixed: "filter isCredentialVariableName [''PATH'', ''HOME'', ''XDG_CONFIG_HOME'', ''XDG_CACHE_HOME'', ''XDG_DATA_HOME'', ''PI_CODING_AGENT_DIR'',
      ''PI_CODING_AGENT_SESSION_DIR'', ''PI_OFFLINE'', ''AGENT_POOL_EXECUTION_CONTEXT'', ''AGENT_POOL_ACTOR_IDENTITY'']
      = [''PI_CODING_AGENT_DIR'', ''PI_CODING_AGENT_SESSION_DIR'', ''PI_OFFLINE'']"
    by code_simp
  have "\<not> isCredentialVariableName ''AGENT_POOL_BROKER_SOCKET''" by code_simp
  then show ?thesis unfolding env_list filter_append fixed by simp
qed

lemma verified: "verify_launch lp context = (Launched (), es) \<Longrightarrow>
   lp_pi_digest lp (text_field (fld context ''pi_executable_identity'') ''path'') = Some (text_field (fld context ''pi_executable_identity'') ''digest'')
   \<and> (case lp_verifyPackage lp of None \<Rightarrow> True | Some hook \<Rightarrow>
        hook (text_field (fld context ''package_identity'') ''path'') (text_field (fld context ''package_identity'') ''digest'')
          (text_field (fld context ''profile_identity'') ''path'') (text_field (fld context ''profile_identity'') ''digest'') = Inr True)"
  by (auto simp: verify_launch_def Let_def split: if_splits option.splits sum.splits)

lemma start_stages:
  assumes "start_worker lp options context ia = (Launched r, es)"
  obtains profile i es0 es1 es2 es3 es4 es5 where
    "verify_launch lp context = (Launched (), es0)"
    "loadVerifiedProfileForJob (lp_read lp) (lp_parse lp) (from_cwd lp (text_field (fld context ''profile_identity'') ''path''))
       (text_field (fld context ''profile_identity'') ''name'') context (lp_stringify lp (ia_attemptContract ia)) = Launched profile"
    "writeLauncherContext lp (text_field context ''pi_runtime_parent'') ia = (Launched (), es1)"
    "copyProviderAuth lp (text_field context ''pi_runtime_parent'') (getProvider (text_field context ''selected_model'')) = (Launched (), es2)"
    "copyProviderModels lp (text_field context ''pi_runtime_parent'') (getProvider (text_field context ''selected_model'')) = (Launched (), es3)"
    "sandbox_user lp (lo_broker options) = Inr i"
    "start_broker lp (text_field context ''pi_runtime_parent'') i (lo_broker options) = (Launched (), es4)"
    "spawn_worker lp context (lo_broker options) profile = (Launched r, es5)"
    "es = es0 @ es1 @ es2 @ es3 @ es4 @ es5"
  using assms unfolding start_worker_def Let_def then_stage_Launched by (auto split: sum.splits)

lemma spawned:
  "spawn_worker lp context broker profile = (Launched r, es) \<Longrightarrow> es = [Spawned r]
     \<and> r = \<lparr> sq_args = text_field (fld context ''pi_executable_identity'') ''path'' # worker_args context profile,
             sq_env = worker_env context broker, sq_cwd = text_field context ''workspace_path'' \<rparr>"
  by (auto simp: spawn_worker_def Let_def split: option.splits)

lemma started_worker:
  assumes "start_worker lp options context ia = (Launched r, es)"
  shows "\<exists>before profile es0. verify_launch lp context = (Launched (), es0) \<and> es = before @ [Spawned r] \<and> \<not> list_ex is_spawn before
     \<and> loadVerifiedProfileForJob (lp_read lp) (lp_parse lp) (from_cwd lp (text_field (fld context ''profile_identity'') ''path''))
         (text_field (fld context ''profile_identity'') ''name'') context (lp_stringify lp (ia_attemptContract ia)) = Launched profile
     \<and> r = \<lparr> sq_args = text_field (fld context ''pi_executable_identity'') ''path'' # worker_args context profile,
             sq_env = worker_env context (lo_broker options), sq_cwd = text_field context ''workspace_path'' \<rparr>"
proof (rule start_stages [OF assms])
  fix profile i es0 es1 es2 es3 es4 es5
  assume s: "verify_launch lp context = (Launched (), es0)"
      "loadVerifiedProfileForJob (lp_read lp) (lp_parse lp) (from_cwd lp (text_field (fld context ''profile_identity'') ''path''))
         (text_field (fld context ''profile_identity'') ''name'') context (lp_stringify lp (ia_attemptContract ia)) = Launched profile"
      "writeLauncherContext lp (text_field context ''pi_runtime_parent'') ia = (Launched (), es1)"
      "copyProviderAuth lp (text_field context ''pi_runtime_parent'') (getProvider (text_field context ''selected_model'')) = (Launched (), es2)"
      "copyProviderModels lp (text_field context ''pi_runtime_parent'') (getProvider (text_field context ''selected_model'')) = (Launched (), es3)"
      "start_broker lp (text_field context ''pi_runtime_parent'') i (lo_broker options) = (Launched (), es4)"
      "spawn_worker lp context (lo_broker options) profile = (Launched r, es5)" "es = es0 @ es1 @ es2 @ es3 @ es4 @ es5"
  have "es0 = []" by (rule no_spawn_before(5) [OF s(1)])
  moreover have "\<not> list_ex is_spawn (es1 @ es2 @ es3 @ es4)"
    using no_spawn_before(2) [OF s(3)] no_spawn_before(3) [OF s(4)] no_spawn_before(4) [OF s(5)] no_spawn_before(6) [OF s(6)] by simp
  ultimately show ?thesis using s(1,2,8) spawned [OF s(7)] by (intro exI [of _ "es1 @ es2 @ es3 @ es4"] exI [of _ profile] exI [of _ es0]) simp
qed

text \<open>A stage that does not launch has started nothing.\<close>

definition quiet_fail :: "'a stage \<Rightarrow> bool" where
  "quiet_fail r = (case r of (Launched x, es) \<Rightarrow> True | (_, es) \<Rightarrow> \<not> list_ex is_spawn es)"

lemma then_stage_quiet:
  assumes "\<not> list_ex is_spawn (snd r)" "\<And>x. quiet_fail (f x)"
  shows "quiet_fail (then_stage r f)"
proof -
  obtain o1 es where r: "r = (o1, es)" by fastforce
  show ?thesis
  proof (cases o1)
    case (Launched x)
    then show ?thesis using assms(1) assms(2) [of x] r
      by (auto simp: then_stage_def quiet_fail_def split: prod.splits launch_outcome.splits)
  qed (use assms(1) r in \<open>simp_all add: then_stage_def quiet_fail_def\<close>)
qed

lemma start_quiet: "quiet_fail (start_worker lp options context ia)"
  unfolding start_worker_def Let_def
proof (intro then_stage_quiet)
  show "quiet_fail (spawn_worker lp context (lo_broker options) profile)" for profile
    by (auto simp: spawn_worker_def quiet_fail_def Let_def split: option.split)
qed (use no_spawn_before(5) prod.collapse in \<open>auto simp: no_spawn_before [OF prod.collapse [symmetric]] split: sum.split\<close>)

lemma launch_cases:
  obtains (invalid) f store where "launch lp options marker nonces = ((LaunchFailed f, []), store)"
  | (validated) v ia c where
      "validateExecutionContext marker (lo_expectations options) (Some (lo_expectations options)) (lp_now lp) (Some nonces)
         = (Inr v, Some (js_str (fld marker ''attempt_nonce'') # nonces))"
      "vx_context v = marker" "js_str (fld marker ''attempt_nonce'') \<notin> set nonces"
      "ia = \<lparr> ia_executionContext = marker, ia_actorIdentity = buildActorIdentity marker, ia_attemptContract = buildAttemptContract (lo_job options) \<rparr>"
      "validateAttemptContracts (Arr [ia_attemptContract ia]) (contract_expectations_of (lo_expectations options)) = Inr c"
      "launch lp options marker nonces =
         ((case lo_fake options of Some p \<Rightarrow> (Launched (Fake_process p ia), [])
           | None \<Rightarrow> then_stage (start_worker lp options marker ia) (\<lambda>r. (Launched (Running r ia), []))),
          js_str (fld marker ''attempt_nonce'') # nonces)"
proof -
  obtain o1 store where v: "validateExecutionContext marker (lo_expectations options) (Some (lo_expectations options)) (lp_now lp) (Some nonces) = (o1, store)"
    by fastforce
  show thesis
  proof (cases o1)
    case (Inl f)
    then show thesis using v by (intro invalid [of f "the store"]) (simp add: launch_def)
  next
    case (Inr x)
    have x: "vx_context x = marker" "store = Some (js_str (fld marker ''attempt_nonce'') # nonces)" "js_str (fld marker ''attempt_nonce'') \<notin> set nonces"
      using v Inr by (auto simp: validateExecutionContext_def Let_def split: option.splits prod.splits if_splits)
    show thesis
    proof (cases "validateAttemptContracts (Arr [buildAttemptContract (lo_job options)]) (contract_expectations_of (lo_expectations options))")
      case (Inl f)
      then show thesis using v Inr x by (intro invalid [of f "the store"]) (simp add: launch_def Let_def)
    next
      case c: (Inr c)
      then show thesis using v Inr x by (intro validated [of x _ c]) (simp_all add: launch_def Let_def)
    qed
  qed
qed

text \<open>
  C9. A worker starts only when everything was checked, and as it was checked: a running launch
  consumed a fresh nonce of a valid marker, its contract passed the validation for the expected
  attempt, the agent's executable has the digest of the marker and the package check, where
  there is one, agreed. Its process is the last effect and the only start: it runs in the
  marker's workspace with exactly the listed arguments. They load, of the profile directory of
  the marker, the trusted bootstrap and no other extension, and the prompt of the one agent that
  the description of the profile declares for the pool worker of the marker's name, followed by
  the identity capsule and by the rule that nothing overrides it; the task is the issued
  contract. Of all variables with a credential-like name it sees the three fixed ones of the
  agent. A launch that does not run has started nothing.
\<close>
theorem launched_worker_checked:
  "case launch lp options marker nonces of
     ((Launched (Running r ia), es), nonces') \<Rightarrow>
       (\<exists>v. validateExecutionContext marker (lo_expectations options) (Some (lo_expectations options)) (lp_now lp) (Some nonces) = (Inr v, Some nonces'))
       \<and> js_str (fld marker ''attempt_nonce'') \<notin> set nonces \<and> nonces' = js_str (fld marker ''attempt_nonce'') # nonces
       \<and> ia = \<lparr> ia_executionContext = marker, ia_actorIdentity = buildActorIdentity marker, ia_attemptContract = buildAttemptContract (lo_job options) \<rparr>
       \<and> (\<exists>c. validateAttemptContracts (Arr [ia_attemptContract ia]) (contract_expectations_of (lo_expectations options)) = Inr c)
       \<and> lp_pi_digest lp (text_field (fld marker ''pi_executable_identity'') ''path'') = Some (text_field (fld marker ''pi_executable_identity'') ''digest'')
       \<and> (case lp_verifyPackage lp of None \<Rightarrow> True | Some hook \<Rightarrow>
            hook (text_field (fld marker ''package_identity'') ''path'') (text_field (fld marker ''package_identity'') ''digest'')
              (text_field (fld marker ''profile_identity'') ''path'') (text_field (fld marker ''profile_identity'') ''digest'') = Inr True)
       \<and> (\<exists>before. es = before @ [Spawned r] \<and> \<not> list_ex is_spawn before)
       \<and> sq_cwd r = text_field marker ''workspace_path''
       \<and> map fst (sq_env r) = [''PATH'', ''HOME'', ''XDG_CONFIG_HOME'', ''XDG_CACHE_HOME'', ''XDG_DATA_HOME'', ''PI_CODING_AGENT_DIR'',
            ''PI_CODING_AGENT_SESSION_DIR'', ''PI_OFFLINE'', ''AGENT_POOL_EXECUTION_CONTEXT'', ''AGENT_POOL_ACTOR_IDENTITY'']
            @ (if lo_broker options = None then [] else [''AGENT_POOL_BROKER_SOCKET''])
       \<and> filter isCredentialVariableName (map fst (sq_env r)) = [''PI_CODING_AGENT_DIR'', ''PI_CODING_AGENT_SESSION_DIR'', ''PI_OFFLINE'']
       \<and> (\<exists>body mode. verified_agent lp (from_cwd lp (text_field (fld marker ''profile_identity'') ''path'')) (text_field (fld marker ''profile_identity'') ''name'') body mode
            \<and> sq_args r =
               [text_field (fld marker ''pi_executable_identity'') ''path'', ''--mode'', ''json'', ''--print'', ''--no-builtin-tools'',
                ''--tools'', ''read,write,edit,bash,actor_identity'', ''--no-skills'', ''--no-prompt-templates'', ''--no-context-files'', ''--no-extensions'',
                ''-e'', path_resolve (from_cwd lp (text_field (fld marker ''profile_identity'') ''path'') @ ''/extensions/trusted-bootstrap.ts''),
                ''--model'', text_field marker ''selected_model'', ''--session-dir'', text_field marker ''pi_session_dir'',
                if mode = ''replace'' then ''--system-prompt'' else ''--append-system-prompt'',
                body @ [CHR 0x0A, CHR 0x0A] @ renderIdentityCapsule marker @ [CHR 0x0A, CHR 0x0A] @ anti_override,
                ''Attempt contract:'' @ [CHR 0x0A] @ lp_stringify lp (ia_attemptContract ia)])
   | ((_, es), _) \<Rightarrow> \<not> list_ex is_spawn es"
proof (cases rule: launch_cases [of lp options marker nonces])
  case (validated v ia c)
  show ?thesis
  proof (cases "\<exists>r es. lo_fake options = None \<and> start_worker lp options marker ia = (Launched r, es)")
    case True
    then obtain r es where r: "lo_fake options = None" "start_worker lp options marker ia = (Launched r, es)" by blast
    from started_worker [OF r(2)] obtain before profile es0 where w:
      "verify_launch lp marker = (Launched (), es0)" "es = before @ [Spawned r]" "\<not> list_ex is_spawn before"
      "loadVerifiedProfileForJob (lp_read lp) (lp_parse lp) (from_cwd lp (text_field (fld marker ''profile_identity'') ''path''))
         (text_field (fld marker ''profile_identity'') ''name'') marker (lp_stringify lp (ia_attemptContract ia)) = Launched profile"
      "r = \<lparr> sq_args = text_field (fld marker ''pi_executable_identity'') ''path'' # worker_args marker profile,
             sq_env = worker_env marker (lo_broker options), sq_cwd = text_field marker ''workspace_path'' \<rparr>"
      by blast
    have l: "launch lp options marker nonces = ((Launched (Running r ia), es), js_str (fld marker ''attempt_nonce'') # nonces)"
      using validated(6) r by (simp add: then_stage_def)
    from w(4) obtain body mode where b: "verified_agent lp (from_cwd lp (text_field (fld marker ''profile_identity'') ''path'')) (text_field (fld marker ''profile_identity'') ''name'') body mode"
      "profile = \<lparr> vp_trustedBootstrapPath = path_resolve (from_cwd lp (text_field (fld marker ''profile_identity'') ''path'') @ ''/extensions/trusted-bootstrap.ts''),
           vp_systemPrompt = body @ [CHR 0x0A, CHR 0x0A] @ renderIdentityCapsule marker @ [CHR 0x0A, CHR 0x0A] @ anti_override,
           vp_systemPromptMode = mode, vp_userPrompt = ''Attempt contract:'' @ [CHR 0x0A] @ lp_stringify lp (ia_attemptContract ia) \<rparr>"
      by (rule job_profile)
    have spawn: "es = before @ [Spawned r] \<and> \<not> list_ex is_spawn before" using w(2,3) by blast
    have request: "sq_cwd r = text_field marker ''workspace_path''" "sq_env r = worker_env marker (lo_broker options)"
      "sq_args r = text_field (fld marker ''pi_executable_identity'') ''path'' # worker_args marker profile"
      by (simp_all add: w(5))
    note env = env_list [of marker "lo_broker options", folded request(2)] env_names [of marker "lo_broker options", folded request(2)]
    have args: "sq_args r =
               [text_field (fld marker ''pi_executable_identity'') ''path'', ''--mode'', ''json'', ''--print'', ''--no-builtin-tools'',
                ''--tools'', ''read,write,edit,bash,actor_identity'', ''--no-skills'', ''--no-prompt-templates'', ''--no-context-files'', ''--no-extensions'',
                ''-e'', path_resolve (from_cwd lp (text_field (fld marker ''profile_identity'') ''path'') @ ''/extensions/trusted-bootstrap.ts''),
                ''--model'', text_field marker ''selected_model'', ''--session-dir'', text_field marker ''pi_session_dir'',
                if mode = ''replace'' then ''--system-prompt'' else ''--append-system-prompt'',
                body @ [CHR 0x0A, CHR 0x0A] @ renderIdentityCapsule marker @ [CHR 0x0A, CHR 0x0A] @ anti_override,
                ''Attempt contract:'' @ [CHR 0x0A] @ lp_stringify lp (ia_attemptContract ia)]"
      unfolding request(3) b(2) by (simp add: worker_args_def)
    show ?thesis unfolding l prod.case launch_outcome.case launch_result.case
      by (intro conjI) (use validated(1,3,4,5) verified [OF w(1)] spawn request(1) env b(1) args in blast)+
  next
    case False
    obtain o1 es where s: "start_worker lp options marker ia = (o1, es)" by fastforce
    then show ?thesis using False start_quiet [of lp options marker ia] validated(6)
      by (cases "lo_fake options"; cases o1) (simp_all add: then_stage_def quiet_fail_def)
  qed
qed simp

section \<open>What a launch leaves behind\<close>

text \<open>The file is written and not removed after that.\<close>

definition left_behind :: "string \<Rightarrow> effect list \<Rightarrow> bool" where
  "left_behind p es = fold (\<lambda>e b. case e of Wrote f c \<Rightarrow> b \<or> f = p | Removed f \<Rightarrow> b \<and> f \<noteq> p | _ \<Rightarrow> b) es False"

lemma removed_last: "\<not> left_behind (runtime_file dir ''auth.json'') (es @ removeProviderAuth dir)"
  "\<not> left_behind (runtime_file dir ''models.json'') (es @ removeProviderAuth dir)"
  by (simp_all add: left_behind_def removeProviderAuth_def)

lemma start_failure_trace:
  assumes "start_worker lp options context ia = (LaunchFailed f, es)"
  shows "es = [] \<or> (\<exists>before. es = before @ removeProviderAuth (text_field context ''pi_runtime_parent''))"
proof -
  have v: "verify_launch lp context = (o1, es') \<Longrightarrow> es' = []" for o1 es' by (rule no_spawn_before(5))
  have b: "start_broker lp dir i broker = (LaunchFailed f, es') \<Longrightarrow> es' = removeProviderAuth dir" for dir i broker es'
    by (auto simp: start_broker_def split: option.splits prod.splits sum.splits)
  have s: "spawn_worker lp context broker profile \<noteq> (LaunchFailed f, es')" for broker profile es'
    by (auto simp: spawn_worker_def Let_def split: option.splits)
  show ?thesis using assms unfolding start_worker_def Let_def then_stage_Failed
    by (auto simp: write_never_fails s dest!: v b split: sum.splits)
qed

text \<open>
  A launch that is answered with a failure leaves no provider file behind: neither the
  credentials nor the model definitions it may have written for the worker are still there.
\<close>
theorem failed_launch_leaves_no_credentials:
  "case launch lp options marker nonces of
     ((LaunchFailed f, es), _) \<Rightarrow>
       \<not> left_behind (runtime_file (text_field marker ''pi_runtime_parent'') ''auth.json'') es
       \<and> \<not> left_behind (runtime_file (text_field marker ''pi_runtime_parent'') ''models.json'') es
   | _ \<Rightarrow> True"
proof (cases rule: launch_cases [of lp options marker nonces])
  case (validated v ia c)
  obtain o1 es where s: "start_worker lp options marker ia = (o1, es)" by fastforce
  show ?thesis
  proof (cases "\<exists>f. o1 = LaunchFailed f \<and> lo_fake options = None")
    case True
    then obtain f where f: "o1 = LaunchFailed f" "lo_fake options = None" by blast
    from start_failure_trace [OF s [unfolded f]] show ?thesis
      using validated(6) s f removed_last by (auto simp: then_stage_def left_behind_def)
  next
    case False
    then show ?thesis using validated(6) s by (cases "lo_fake options"; cases o1) (simp_all add: then_stage_def)
  qed
qed (simp add: left_behind_def)

text \<open>
  A start of the process that throws (an argument list too long for the system) leaves the
  effects of the launch as they are: the provider files stay, and a started broker runs on.
\<close>

lemma spawn_error_keeps_everything:
  assumes "start_worker lp options context ia = (Launched r, es)"
  shows "\<exists>before. es = before @ [Spawned r] \<and> start_worker (lp\<lparr> lp_spawn := Some e \<rparr>) options context ia = (LaunchThrew e, before)"
proof -
  let ?lp = "lp\<lparr> lp_spawn := Some e \<rparr>"
  note same = write_file_def writeLauncherContext_def copyProviderAuth_def copyProviderModels_def verify_launch_def start_broker_def sandbox_user_def
      stored_entry_def env_entry_def agent_file_def from_cwd_def
  have "verify_launch ?lp = verify_launch lp" "writeLauncherContext ?lp = writeLauncherContext lp" "copyProviderAuth ?lp = copyProviderAuth lp"
      "copyProviderModels ?lp = copyProviderModels lp" "sandbox_user ?lp = sandbox_user lp" "start_broker ?lp = start_broker lp"
      "from_cwd ?lp = from_cwd lp"
    by (simp_all add: same fun_eq_iff Let_def cong: option.case_cong sum.case_cong prod.case_cong if_cong)
  note same_stages = this
  from assms show ?thesis
  proof (rule start_stages)
    fix profile i es0 es1 es2 es3 es4 es5
    assume s: "verify_launch lp context = (Launched (), es0)"
      "loadVerifiedProfileForJob (lp_read lp) (lp_parse lp) (from_cwd lp (text_field (fld context ''profile_identity'') ''path''))
         (text_field (fld context ''profile_identity'') ''name'') context (lp_stringify lp (ia_attemptContract ia)) = Launched profile"
      "writeLauncherContext lp (text_field context ''pi_runtime_parent'') ia = (Launched (), es1)"
      "copyProviderAuth lp (text_field context ''pi_runtime_parent'') (getProvider (text_field context ''selected_model'')) = (Launched (), es2)"
      "copyProviderModels lp (text_field context ''pi_runtime_parent'') (getProvider (text_field context ''selected_model'')) = (Launched (), es3)"
      "sandbox_user lp (lo_broker options) = Inr i"
      "start_broker lp (text_field context ''pi_runtime_parent'') i (lo_broker options) = (Launched (), es4)"
      "spawn_worker lp context (lo_broker options) profile = (Launched r, es5)" "es = es0 @ es1 @ es2 @ es3 @ es4 @ es5"
    have "start_worker ?lp options context ia = (LaunchThrew e, es0 @ es1 @ es2 @ es3 @ es4)"
      using s(1-7) by (simp add: start_worker_def Let_def same_stages then_stage_def spawn_worker_def)
    then show ?thesis using spawned [OF s(8)] s(9) by auto
  qed
qed

section \<open>The session and the verifier\<close>

text \<open>
  A session is recognised by the verifier: when the launcher's expectations are the ones the
  pool built for the resources and the job, a settled session passes the verifier's four
  identity checks for that job and those resources, so that of the checks on the process only
  its exit code is left to chance.
\<close>
theorem session_identity_verified:
  "case ch_settled (run_child \<lparr> ri_expectations = buildExpectations resources job model identity, ri_fault = fault,
            ri_nonce = rs_nonce resources, ri_artifacts = ia \<rparr> es (started_child pid)) of
     Some (Resolved p) \<Rightarrow>
       map fst (filter (\<lambda>c. \<not> snd c)
         (binding_checks resources \<lparr> vj_nodeId = pj_nodeId job, vj_attemptId = pj_attemptId job, vj_allowedChangedPaths = allowed,
            vj_fixtureTestCommand = command, vj_expectedParentCommit = parent, vj_isolationProbes = probes \<rparr> (pi_process.truncate p)))
       = (if pp_exitCode p = Some 0 then [] else [''process_exit_success''])
   | _ \<Rightarrow> True"
proof -
  let ?ri = "\<lparr> ri_expectations = buildExpectations resources job model identity, ri_fault = fault, ri_nonce = rs_nonce resources, ri_artifacts = ia \<rparr>"
  have "child_inv ?ri (run_child ?ri es (started_child pid))" by (rule run_inv)
  then show ?thesis
    by (auto simp: child_inv_def settlement_ok_def buildExpectations_def binding_checks_def pi_process.truncate_def split: option.splits settlement.splits)
qed

section \<open>Ownership of the workspace\<close>

text \<open>The paths of a tree with what is there, links not followed.\<close>

inductive reaches :: "string \<Rightarrow> file_tree \<Rightarrow> string \<Rightarrow> file_tree \<Rightarrow> bool" where
  itself: "reaches base t base t"
| below: "(entry, t) \<in> set entries \<Longrightarrow> reaches (base @ ''/'' @ entry) t p u \<Longrightarrow> reaches base (Dir entries) p u"

lemma safe_iff: "isSafeToChown t \<longleftrightarrow> t = File \<or> (\<exists>es. t = Dir es)"
  by (cases t) auto

lemma chown_reaches: "p \<in> set (chownRecursive base t) \<Longrightarrow> \<exists>u. reaches base t p u \<and> isSafeToChown u"
proof (induction base t rule: chownRecursive.induct)
  case (1 base entries)
  consider "p = base" | entry t where "(entry, t) \<in> set entries" "isSafeToChown t"
      "p = base @ ''/'' @ entry \<or> (\<exists>es. t = Dir es) \<and> p \<in> set (chownRecursive (base @ ''/'' @ entry) t)"
    using "1.prems" by (auto simp: Let_def split: if_splits file_tree.splits)
  then show ?case
  proof cases
    case 1
    then show ?thesis by (auto intro: reaches.itself)
  next
    case (2 entry t)
    then have "\<exists>u. reaches (base @ ''/'' @ entry) t p u \<and> isSafeToChown u"
      using "1.IH" by (auto intro: reaches.itself)
    then show ?thesis using reaches.below [OF 2(1)] by blast
  qed
qed (auto intro: reaches.itself)

lemma reaches_chown: "reaches base t p u \<Longrightarrow> isSafeToChown t \<Longrightarrow> isSafeToChown u \<Longrightarrow> p \<in> set (chownRecursive base t)"
proof (induction rule: reaches.induct)
  case (itself base t)
  then show ?case by (auto simp: safe_iff)
next
  case (below entry t entries base p u)
  then have t: "isSafeToChown t" by (auto simp: safe_iff elim: reaches.cases)
  then have "p \<in> set (chownRecursive (base @ ''/'' @ entry) t)" using below by blast
  then show ?case using below(1) t by (auto simp: Let_def safe_iff intro!: bexI [of _ "(entry, t)"])
qed

text \<open>
  The workspace of a pinned sandbox belongs to its user, and nothing outside it: when the
  preparation succeeds for a workspace that is a directory, the paths whose owner changes are
  exactly the home directories that are no links and the files and directories that are reached
  without following a link; the user is never the super user. Otherwise only the home
  directories change.
\<close>
theorem workspace_ownership_exact:
  "case prepareWorkspaceForSandbox made (Dir entries) ws i of
     (Inl e, _) \<Rightarrow> True
   | (Inr j, chowned) \<Rightarrow> j = i \<and> si_uid i \<noteq> 0 \<and>
       (p \<in> set chowned \<longleftrightarrow>
          (\<exists>dir t. dir \<in> set HOME_DIRS \<and> p = ws @ ''/'' @ dir \<and> made p = Inr t \<and> isSafeToChown t)
          \<or> (si_isPinned i \<and> (\<exists>u. reaches ws (Dir entries) p u \<and> isSafeToChown u)))"
proof -
  have h: "prepare_home made ws dirs = (Inr (), chowned) \<Longrightarrow>
      p \<in> set chowned \<longleftrightarrow> (\<exists>dir t. dir \<in> set dirs \<and> p = ws @ ''/'' @ dir \<and> made p = Inr t \<and> isSafeToChown t)" for dirs chowned
  proof (induction dirs arbitrary: chowned)
    case (Cons d ds)
    then show ?case by (auto simp: Let_def split: sum.splits prod.splits if_splits)
  qed simp
  have "p \<in> set (chownRecursive ws (Dir entries)) \<longleftrightarrow> (\<exists>u. reaches ws (Dir entries) p u \<and> isSafeToChown u)"
    using chown_reaches reaches_chown by (metis isSafeToChown.simps(4))
  then show ?thesis
    by (auto simp: prepareWorkspaceForSandbox_def requireNonRootSandboxIdentity_def h split: option.splits prod.splits sum.splits if_splits)
qed

end
