(* ===== verification/Sandbox_Broker.thy ===== *)
theory Sandbox_Broker
  imports Repository_Sandbox Transcript_Retention Launch_Context
begin

text \<open>
  The way of a tool request to the sandbox: the adapters that keep paths inside the workspace
  (\<^verbatim>\<open>repository-tool-adapters.ts\<close>), one connection of the broker and the broker's own life
  (\<^verbatim>\<open>sandbox-broker.ts\<close>), and the allocation of its socket (\<^verbatim>\<open>broker-socket.ts\<close>).

  An event is a callback of the source. Chunks are the texts they decode to; \<open>stringify\<close> and
  \<open>parse\<close> are the JSON functions, where a text that does not parse is the message of the error.
\<close>

section \<open>Adapters\<close>

definition forbidden_char :: "char \<Rightarrow> bool" where
  "forbidden_char c = ((of_char c :: nat) < 32)"

fun drive_prefix :: "string \<Rightarrow> bool" where
  "drive_prefix (c # d # cs) = (let n = of_char c :: nat in (65 \<le> n \<and> n \<le> 90 \<or> 97 \<le> n \<and> n \<le> 122) \<and> d = CHR '':'')"
| "drive_prefix s = False"

definition isSafeRelativePath :: "string \<Rightarrow> bool" where
  "isSafeRelativePath path =
     (if list_ex forbidden_char path then False
      else if prefix ''/'' path then False
      else if prefix [CHR 0x5C] path \<or> drive_prefix path then False
      else ''..'' \<notin> set (split_char (CHR ''/'') (forward_slashes path)))"

datatype tool_call = Read string | Write string string | Edit string string string | Run_command "string list"

text \<open>Inl is the refusal; Inr the request that is forwarded.\<close>

definition adapter_request :: "tool_call \<Rightarrow> string + js" where
  "adapter_request call =
     (case call of
        Read path \<Rightarrow>
          if \<not> isSafeRelativePath path then Inl ''path outside workspace''
          else Inr (plain [(''tool'', Str ''read''), (''path'', Str path)])
      | Write path content \<Rightarrow>
          if \<not> isSafeRelativePath path then Inl ''path outside workspace''
          else Inr (plain [(''tool'', Str ''write''), (''path'', Str path), (''content'', Str content)])
      | Edit path oldText newText \<Rightarrow>
          if \<not> isSafeRelativePath path then Inl ''path outside workspace''
          else Inr (plain [(''tool'', Str ''edit''), (''path'', Str path), (''oldText'', Str oldText), (''newText'', Str newText)])
      | Run_command args \<Rightarrow>
          if args = [] then Inl ''empty command''
          else if list_ex (list_ex forbidden_char) args then Inl ''invalid command argument''
          else Inr (plain [(''tool'', Str ''bash''), (''command'', Str (hd args)), (''args'', Arr (map Str (tl args)))]))"

section \<open>A connection\<close>

definition MAX_REQUEST_BYTES :: nat where "MAX_REQUEST_BYTES = 2 * 1024 * 1024"

record connection =
  cn_buffer :: string
  cn_responded :: bool
  cn_aborted :: bool
  cn_destroyed :: bool
  cn_requests :: "js list"
  cn_written :: "string list"

datatype connection_event =
    Client_data string
  | Client_close
  | Client_end
  | Client_error
  | Request_timeout
  | Tool_answered js
  | Tool_threw string

definition opened :: connection where
  "opened = \<lparr> cn_buffer = [], cn_responded = False, cn_aborted = False, cn_destroyed = False, cn_requests = [], cn_written = [] \<rparr>"

definition failure_reply :: "string \<Rightarrow> js" where
  "failure_reply message = plain [(''ok'', Bool False), (''error'', Str message)]"

definition reply :: "(js \<Rightarrow> string) \<Rightarrow> js \<Rightarrow> connection \<Rightarrow> connection" where
  "reply stringify payload c =
     (if cn_responded c then c
      else let out = (if MAX_RESPONSE_BYTES < int (length (utf8 (stringify payload))) then stringify (failure_reply ''response too large'') else stringify payload)
        in c\<lparr> cn_responded := True, cn_written := cn_written c @ (if cn_destroyed c then [] else [out @ [CHR 0x0A]]) \<rparr>)"

text \<open>The abort listener is removed with the reply; an abort after it has no effect of its own.\<close>

definition abort :: "(js \<Rightarrow> string) \<Rightarrow> connection \<Rightarrow> connection" where
  "abort stringify c =
     (if cn_aborted c then c else reply stringify (failure_reply ''client disconnected'') (c\<lparr> cn_aborted := True \<rparr>))"

definition on_disconnect :: "(js \<Rightarrow> string) \<Rightarrow> connection \<Rightarrow> connection" where
  "on_disconnect stringify c = (if cn_responded c then c else abort stringify c)"

definition on_client_data :: "(js \<Rightarrow> string) \<Rightarrow> (string \<Rightarrow> string + js) \<Rightarrow> string \<Rightarrow> connection \<Rightarrow> connection" where
  "on_client_data stringify parse chunk c =
     (if cn_responded c then c
      else let buffer = cn_buffer c @ chunk; c' = c\<lparr> cn_buffer := buffer \<rparr> in
        if MAX_REQUEST_BYTES < length (utf8 buffer) then reply stringify (failure_reply ''request too large'') c'
        else if CHR 0x0A \<notin> set buffer then c'
        else let line = takeWhile (\<lambda>x. x \<noteq> CHR 0x0A) buffer; c'' = c'\<lparr> cn_buffer := drop (Suc (length line)) buffer \<rparr> in
          (case parse line of
             Inl e \<Rightarrow> reply stringify (failure_reply e) c''
           | Inr request \<Rightarrow>
               if cn_aborted c'' then reply stringify (failure_reply ''client disconnected'') c''
               else c''\<lparr> cn_requests := cn_requests c'' @ [request] \<rparr>))"

fun on_connection :: "(js \<Rightarrow> string) \<Rightarrow> (string \<Rightarrow> string + js) \<Rightarrow> connection_event \<Rightarrow> connection \<Rightarrow> connection" where
  "on_connection stringify parse (Client_data chunk) c = on_client_data stringify parse chunk c"
| "on_connection stringify parse Client_close c = on_disconnect stringify (c\<lparr> cn_destroyed := True \<rparr>)"
| "on_connection stringify parse Client_end c = on_disconnect stringify c"
| "on_connection stringify parse Client_error c = on_disconnect stringify (c\<lparr> cn_destroyed := True \<rparr>)"
| "on_connection stringify parse Request_timeout c = on_disconnect stringify c"
| "on_connection stringify parse (Tool_answered payload) c = reply stringify payload c"
| "on_connection stringify parse (Tool_threw e) c = reply stringify (failure_reply e) c"

definition serve_connection :: "(js \<Rightarrow> string) \<Rightarrow> (string \<Rightarrow> string + js) \<Rightarrow> connection_event list \<Rightarrow> connection" where
  "serve_connection stringify parse es = fold (on_connection stringify parse) es opened"

section \<open>The life of a broker\<close>

datatype stop_progress = Not_stopping | Closing_server | Stopping_sandbox | Stopped_clean | Stopped_failed string

record broker =
  bk_sandbox_started :: bool
  bk_listening :: bool
  bk_stopped :: bool
  bk_server :: bool
  bk_stop :: stop_progress
  bk_failure :: "string option"
  bk_sandbox_stops :: nat
  bk_listenError :: "string option"
  bk_start :: "(string + unit) option"

definition new_broker :: broker where
  "new_broker = \<lparr> bk_sandbox_started = False, bk_listening = False, bk_stopped = False, bk_server = False, bk_stop = Not_stopping,
     bk_failure = None, bk_sandbox_stops = 0, bk_listenError = None, bk_start = None \<rparr>"

datatype broker_event =
    Sandbox_started
  | Sandbox_start_failed string
  | Listen_succeeded
  | Listen_failed string
  | Rolled_back
  | Server_failed string
  | Call_stop
  | Server_closed
  | Sandbox_stopped
  | Sandbox_stop_failed string

definition broker_stop :: "broker \<Rightarrow> broker" where
  "broker_stop b =
     (if bk_stop b \<noteq> Not_stopping then b
      else b\<lparr> bk_stopped := True, bk_listening := False,
             bk_stop := (if bk_server b then Closing_server else Stopping_sandbox),
             bk_sandbox_stops := bk_sandbox_stops b + (if bk_server b then 0 else 1) \<rparr>)"

definition failAfterListen :: "string \<Rightarrow> broker \<Rightarrow> broker" where
  "failAfterListen e b =
     (if \<not> bk_listening b \<or> bk_stopped b then b
      else broker_stop (b\<lparr> bk_failure := (case bk_failure b of None \<Rightarrow> Some e | Some f \<Rightarrow> Some f) \<rparr>))"

text \<open>
  \<open>Rolled_back\<close> is the end of the sandbox stop after a failed listen. \<open>Server_closed\<close> answers the
  close of \<open>stop\<close>, or reports a server that closed by itself.
\<close>

fun broker_step :: "broker_event \<Rightarrow> broker \<Rightarrow> broker" where
  "broker_step Sandbox_started b =
     (if bk_start b \<noteq> None \<or> bk_sandbox_started b then b else b\<lparr> bk_sandbox_started := True, bk_server := True \<rparr>)"
| "broker_step (Sandbox_start_failed e) b =
     (if bk_start b \<noteq> None \<or> bk_sandbox_started b then b else b\<lparr> bk_start := Some (Inl e) \<rparr>)"
| "broker_step Listen_succeeded b =
     (if \<not> bk_server b \<or> bk_start b \<noteq> None \<or> bk_listening b \<or> bk_listenError b \<noteq> None then b
      else b\<lparr> bk_listening := True, bk_start := Some (Inr ()) \<rparr>)"
| "broker_step (Listen_failed e) b =
     (if \<not> bk_server b \<or> bk_start b \<noteq> None \<or> bk_listening b \<or> bk_listenError b \<noteq> None then b
      else b\<lparr> bk_sandbox_stops := bk_sandbox_stops b + 1, bk_listenError := Some e \<rparr>)"
| "broker_step Rolled_back b =
     (case bk_listenError b of Some e \<Rightarrow> (if bk_start b \<noteq> None then b else b\<lparr> bk_start := Some (Inl e) \<rparr>) | None \<Rightarrow> b)"
| "broker_step (Server_failed e) b = failAfterListen e b"
| "broker_step Call_stop b = broker_stop b"
| "broker_step Server_closed b =
     (if bk_stop b = Closing_server
      then b\<lparr> bk_stop := Stopping_sandbox, bk_sandbox_stops := bk_sandbox_stops b + 1 \<rparr>
      else failAfterListen ''sandbox broker server closed'' b)"
| "broker_step Sandbox_stopped b = (if bk_stop b = Stopping_sandbox then b\<lparr> bk_stop := Stopped_clean \<rparr> else b)"
| "broker_step (Sandbox_stop_failed e) b = (if bk_stop b = Stopping_sandbox then b\<lparr> bk_stop := Stopped_failed e \<rparr> else b)"

section \<open>The socket\<close>

definition DEFAULT_SOCKET_BYTE_BUDGET :: int where "DEFAULT_SOCKET_BYTE_BUDGET = 96"

datatype socket_error = Root_traversal string | Root_not_dir string | Dir_traversal string | Path_too_long string | Socket_threw string

text \<open>
  \<open>sf_kind\<close> is None for a path that does not exist, else whether it is a directory; \<open>sf_mkdtemp\<close>
  makes a directory for a prefix (Inl: it threw); \<open>sf_stat\<close> is the kind, owner and mode of the new
  directory; \<open>sf_uid\<close> is None where the process has no user id.
\<close>

record socket_system =
  sf_kind :: "string \<Rightarrow> bool option"
  sf_realpath :: "string \<Rightarrow> string + string"
  sf_mkdtemp :: "string \<Rightarrow> string + string"
  sf_chmod :: "string option"
  sf_stat :: "string \<Rightarrow> string + bool \<times> int \<times> nat"
  sf_uid :: "int option"

definition resolveShortSocketRoot :: "socket_system \<Rightarrow> string option \<Rightarrow> socket_error + string" where
  "resolveShortSocketRoot sf socketRoot =
     (let candidate = (case socketRoot of None \<Rightarrow> ''/tmp'' | Some r \<Rightarrow> r) in
      case first_error
        [(CHR 0x00 \<in> set candidate, Root_traversal ''socket root contains a NUL byte''),
         (\<not> is_absolute candidate, Root_traversal ''socket root must be absolute''),
         (sf_kind sf candidate = None, Root_not_dir (''socket root does not exist: '' @ candidate)),
         (sf_kind sf candidate \<noteq> Some True, Root_not_dir (''socket root is not a directory: '' @ candidate))] of
        Some e \<Rightarrow> Inl e
      | None \<Rightarrow> (case sf_realpath sf candidate of Inl e \<Rightarrow> Inl (Socket_threw e) | Inr r \<Rightarrow> Inr r))"

definition escapes_root :: socket_error where
  "escapes_root = Dir_traversal ''allocation dir realpath escapes root''"

text \<open>The checks of a new directory; the error they end with, or the directory and the socket path.\<close>

definition check_allocation :: "socket_system \<Rightarrow> int \<Rightarrow> string \<Rightarrow> string \<Rightarrow> socket_error + string \<times> string" where
  "check_allocation sf budget rootReal createdDir =
     (case sf_chmod sf of
        Some e \<Rightarrow> Inl (Socket_threw e)
      | None \<Rightarrow>
          (case sf_realpath sf createdDir of
             Inl e \<Rightarrow> Inl (Socket_threw e)
           | Inr dirReal \<Rightarrow>
               (let rel = path_relative rootReal dirReal; socketPath = path_resolve (dirReal @ ''/b.sock'') in
                case sf_stat sf dirReal of
                  Inl e \<Rightarrow> (case first_error [(prefix ''..'' rel \<or> is_absolute rel \<or> rel = [], escapes_root)] of
                      Some e' \<Rightarrow> Inl e' | None \<Rightarrow> Inl (Socket_threw e))
                | Inr (directory, uid, mode) \<Rightarrow>
                    (case first_error
                       [(prefix ''..'' rel \<or> is_absolute rel \<or> rel = [], escapes_root),
                        (\<not> directory, Dir_traversal ''allocation dir is not a directory''),
                        (sf_uid sf \<noteq> None \<and> sf_uid sf \<noteq> Some uid, Dir_traversal ''allocation dir not owned by process''),
                        (mode mod 512 \<noteq> 448, Dir_traversal ''allocation dir not owner-only''),
                        (budget < int (length (utf8 socketPath)), Path_too_long ''socket path exceeds budget'')] of
                       Some e \<Rightarrow> Inl e
                     | None \<Rightarrow> Inr (dirReal, socketPath)))))"

text \<open>The answer, and the directory that is removed again.\<close>

definition allocateBrokerSocket :: "socket_system \<Rightarrow> string option \<Rightarrow> js_num \<Rightarrow> (socket_error + string \<times> string) \<times> string option" where
  "allocateBrokerSocket sf socketRoot budget =
     (if \<not> is_integer budget \<or> \<not> num_lt (Fin 0) budget then (Inl (Path_too_long ''byte budget must be a positive integer''), None)
      else case resolveShortSocketRoot sf socketRoot of
        Inl e \<Rightarrow> (Inl e, None)
      | Inr rootReal \<Rightarrow>
          (case sf_mkdtemp sf (path_resolve (rootReal @ ''/ap'')) of
             Inl e \<Rightarrow> (Inl (Socket_threw e), None)
           | Inr createdDir \<Rightarrow>
               (case check_allocation sf (js_int (Num budget)) rootReal createdDir of
                  Inl e \<Rightarrow> (Inl e, Some createdDir)
                | Inr r \<Rightarrow> (Inr r, None))))"

end
