(* ===== verification/Broker_Properties.thy ===== *)
theory Broker_Properties
  imports Sandbox_Broker
begin

text \<open>
  What passes the adapters stays inside the workspace, a connection is answered once and within
  the limits, a broker that stops stops its sandbox once, and an allocated socket is private.
\<close>

section \<open>Paths\<close>

lemma split_on_append: "P c \<Longrightarrow> split_on P (a @ c # b) = split_on P a @ split_on P b"
proof (induction a)
  case (Cons x a)
  then show ?case by (cases "split_on P a") auto
qed simp

lemma norm_plain_tail:
  "''..'' \<notin> set ys \<Longrightarrow> norm_segments True ds ys = rev ds @ filter (\<lambda>s. s \<noteq> [] \<and> s \<noteq> ''.'') ys"
  by (induction ys arbitrary: ds) auto

lemma norm_append: "\<exists>ds'. norm_segments True ds xs = rev ds' \<and> (\<forall>ys. norm_segments True ds (xs @ ys) = norm_segments True ds' ys)"
proof (induction xs arbitrary: ds)
  case (Cons x xs)
  then show ?case by (auto split: list.splits)
qed auto

lemma segments_below: "''..'' \<notin> set (split_char (CHR ''/'') p) \<Longrightarrow> prefix (abs_segments ws) (abs_segments (ws @ ''/'' @ p))"
proof -
  assume n: "''..'' \<notin> set (split_char (CHR ''/'') p)"
  obtain ds where ds: "norm_segments True [] (split_char (CHR ''/'') ws) = rev ds"
      "\<And>ys. norm_segments True [] (split_char (CHR ''/'') ws @ ys) = norm_segments True ds ys"
    using norm_append [of "[]" "split_char (CHR ''/'') ws"] by blast
  have "split_char (CHR ''/'') (ws @ ''/'' @ p) = split_char (CHR ''/'') ws @ split_char (CHR ''/'') p"
    by (simp add: split_char_def split_on_append)
  then show ?thesis using ds norm_plain_tail [OF n, of ds] by (simp add: abs_segments_def)
qed

lemma segments_survive:
  "split_on (\<lambda>x. x = CHR ''/'') p = v # vs \<Longrightarrow> split_on (\<lambda>x. x = CHR ''/'') (forward_slashes p) = u # us \<Longrightarrow>
     (CHR 0x5C \<notin> set v \<longrightarrow> u = v) \<and> (\<forall>s \<in> set vs. CHR 0x5C \<notin> set s \<longrightarrow> s \<in> set us)"
proof (induction p arbitrary: v vs u us)
  case (Cons c cs)
  obtain v' vs' u' us' where r: "split_on (\<lambda>x. x = CHR ''/'') cs = v' # vs'" "split_on (\<lambda>x. x = CHR ''/'') (forward_slashes cs) = u' # us'"
    using split_on_nonempty by (meson neq_Nil_conv)
  note IH = Cons.IH [OF r]
  show ?case using Cons.prems IH
    by (cases "c = CHR ''/''"; cases "c = CHR 0x5C") (auto simp: forward_slashes_def r(1) r(2) [unfolded forward_slashes_def])
qed (simp add: forward_slashes_def)

lemma dotdot_survives:
  "''..'' \<in> set (split_char (CHR ''/'') p) \<Longrightarrow> ''..'' \<in> set (split_char (CHR ''/'') (forward_slashes p))"
proof -
  assume d: "''..'' \<in> set (split_char (CHR ''/'') p)"
  obtain v vs u us where r: "split_on (\<lambda>x. x = CHR ''/'') p = v # vs" "split_on (\<lambda>x. x = CHR ''/'') (forward_slashes p) = u # us"
    using split_on_nonempty by (meson neq_Nil_conv)
  show ?thesis using segments_survive [OF r] d r by (auto simp: split_char_def)
qed

fun call_path :: "tool_call \<Rightarrow> string option" where
  "call_path (Read p) = Some p"
| "call_path (Write p c) = Some p"
| "call_path (Edit p a b) = Some p"
| "call_path (Run_command args) = None"

text \<open>
  A forwarded path stays in the workspace: a read, a write or an edit is forwarded exactly
  when its path is safe, with the path as it was given, and then the path below any workspace
  directory resolves to a place under that directory; it has no control characters. A command
  is forwarded exactly when it has a program and no control characters.
\<close>
theorem forwarded_paths_stay_inside:
  "case (call_path call, adapter_request call) of
     (Some p, Inr request) \<Rightarrow> isSafeRelativePath p \<and> fld request ''path'' = Str p \<and> \<not> is_absolute p \<and> \<not> list_ex forbidden_char p
       \<and> prefix (abs_segments ws) (abs_segments (ws @ ''/'' @ p))
   | (Some p, Inl e) \<Rightarrow> \<not> isSafeRelativePath p \<and> e = ''path outside workspace''
   | (None, r) \<Rightarrow> (\<exists>args. call = Run_command args \<and>
       (if args = [] \<or> list_ex (list_ex forbidden_char) args then \<exists>e. r = Inl e
        else \<exists>request. r = Inr request \<and> fld request ''command'' = Str (hd args) \<and> fld request ''args'' = Arr (map Str (tl args))))"
proof -
  have safe: "\<not> is_absolute p \<and> \<not> list_ex forbidden_char p \<and> prefix (abs_segments ws) (abs_segments (ws @ ''/'' @ p))"
    if "isSafeRelativePath p" for p
    using that dotdot_survives segments_below by (auto simp: isSafeRelativePath_def is_absolute_def split: if_splits)
  show ?thesis by (cases call) (auto simp: adapter_request_def safe [simplified])
qed

section \<open>Connections\<close>

definition connection_ok :: "(js \<Rightarrow> string) \<Rightarrow> connection \<Rightarrow> bool" where
  "connection_ok stringify c \<longleftrightarrow> length (cn_written c) \<le> 1 \<and> (cn_written c \<noteq> [] \<longrightarrow> cn_responded c)
     \<and> (cn_aborted c \<longrightarrow> cn_responded c)
     \<and> (\<forall>out \<in> set (cn_written c). \<exists>payload. out = stringify payload @ [CHR 0x0A]
          \<and> (int (length (utf8 (stringify payload))) \<le> MAX_RESPONSE_BYTES \<or> payload = failure_reply ''response too large''))"

lemma reply_ok: "connection_ok stringify c \<Longrightarrow> connection_ok stringify (reply stringify payload c) \<and> cn_responded (reply stringify payload c)"
  by (cases "cn_written c") (auto simp: connection_ok_def reply_def Let_def)

lemma reply_ok_pending:
  "connection_ok stringify c \<Longrightarrow> \<not> cn_responded c \<Longrightarrow> connection_ok stringify (reply stringify payload (c\<lparr> cn_aborted := True \<rparr>))
     \<and> cn_responded (reply stringify payload (c\<lparr> cn_aborted := True \<rparr>))"
  by (auto simp: connection_ok_def reply_def Let_def)

lemma disconnect_ok: "connection_ok stringify c \<Longrightarrow> connection_ok stringify (on_disconnect stringify c) \<and> cn_responded (on_disconnect stringify c)"
  using reply_ok_pending [of stringify c] by (auto simp: on_disconnect_def abort_def connection_ok_def)

lemma ok_fields [simp]: "connection_ok stringify (c\<lparr> cn_buffer := b \<rparr>) = connection_ok stringify c"
  "connection_ok stringify (c\<lparr> cn_destroyed := e \<rparr>) = connection_ok stringify c" "connection_ok stringify (c\<lparr> cn_requests := r \<rparr>) = connection_ok stringify c"
  by (simp_all add: connection_ok_def)

lemma event_ok: "connection_ok stringify c \<Longrightarrow> connection_ok stringify (on_connection stringify parse e c)"
  by (cases e) (auto simp: disconnect_ok reply_ok on_client_data_def Let_def split: sum.split)

lemma serve_ok: "connection_ok stringify c \<Longrightarrow> connection_ok stringify (fold (on_connection stringify parse) es c)"
  by (induction es arbitrary: c) (auto simp: event_ok)

fun settles_connection :: "connection_event \<Rightarrow> bool" where
  "settles_connection (Client_data chunk) = False"
| "settles_connection e = True"

lemma settled_event: "connection_ok stringify c \<Longrightarrow> settles_connection e \<Longrightarrow> cn_responded (on_connection stringify parse e c)"
  by (cases e) (auto simp: disconnect_ok reply_ok)

lemma responded_final:
  "cn_responded c \<Longrightarrow> cn_responded (on_connection stringify parse e c) \<and> cn_written (on_connection stringify parse e c) = cn_written c
     \<and> cn_requests (on_connection stringify parse e c) = cn_requests c"
  by (cases e) (auto simp: on_disconnect_def reply_def on_client_data_def)

lemma responded_stays: "cn_responded c \<Longrightarrow> cn_responded (fold (on_connection stringify parse) es c)
     \<and> cn_written (fold (on_connection stringify parse) es c) = cn_written c \<and> cn_requests (fold (on_connection stringify parse) es c) = cn_requests c"
proof (induction es arbitrary: c)
  case (Cons e es)
  then show ?case using responded_final [of c stringify parse e] by simp
qed simp

lemma opened_ok: "connection_ok stringify opened"
  by (simp add: connection_ok_def opened_def)

text \<open>
  C40. A connection is answered once: whatever arrives in whatever order, at most one line is
  written, a complete JSON text within ten mebibytes (or the fixed refusal that replaces a
  longer one); once answered the connection starts no request and writes nothing any more; and
  an answer of the sandbox, an end, an error, a close or the timeout settles it.
\<close>
theorem connection_answered_once:
  "let c = serve_connection stringify parse es; d = fold (on_connection stringify parse) later c in
     length (cn_written c) \<le> 1
     \<and> list_all (\<lambda>out. \<exists>payload. out = stringify payload @ [CHR 0x0A]
          \<and> (length (utf8 (stringify payload)) \<le> 10485760 \<or> payload = failure_reply ''response too large'')) (cn_written c)
     \<and> (if cn_responded c then cn_written d = cn_written c \<and> cn_requests d = cn_requests c else cn_written c = [])
     \<and> (if list_ex settles_connection es then cn_responded c else True)"
proof -
  let ?c = "serve_connection stringify parse es"
  have ok: "connection_ok stringify ?c" unfolding serve_connection_def by (rule serve_ok) (rule opened_ok)
  have "cn_responded (fold (on_connection stringify parse) es c)" if "connection_ok stringify c" "list_ex settles_connection es" for c
    using that
  proof (induction es arbitrary: c)
    case (Cons e es)
    then show ?case using settled_event [OF Cons.prems(1)] responded_stays event_ok by (cases "settles_connection e") auto
  qed simp
  with opened_ok have "list_ex settles_connection es \<Longrightarrow> cn_responded ?c" unfolding serve_connection_def by blast
  then show ?thesis using ok responded_stays [of ?c] by (auto simp: Let_def connection_ok_def list_all_iff MAX_RESPONSE_BYTES_def)
qed

text \<open>
  The protocol promises one request per connection; a second line that arrives before the
  answer starts a second one.
\<close>

lemma second_request_starts:
  "cn_requests (serve_connection (\<lambda>v. []) (\<lambda>l. Inr (Str l)) [Client_data [CHR ''a'', CHR 0x0A], Client_data [CHR ''b'', CHR 0x0A]])
     = [Str ''a'', Str ''b'']"
  by code_simp

section \<open>Stopping\<close>

definition broker_ok :: "broker \<Rightarrow> bool" where
  "broker_ok b \<longleftrightarrow> (bk_stopped b \<longleftrightarrow> bk_stop b \<noteq> Not_stopping) \<and> (bk_failure b \<noteq> None \<longrightarrow> bk_stopped b)
     \<and> (bk_listenError b \<noteq> None \<longrightarrow> bk_start b \<noteq> Some (Inr ()) \<and> \<not> bk_listening b)
     \<and> bk_sandbox_stops b = (if bk_stop b \<in> {Not_stopping, Closing_server} then 0 else 1) + (if bk_listenError b = None then 0 else 1)"

lemma stop_ok: "broker_ok b \<Longrightarrow> broker_ok (broker_stop b)"
  by (auto simp: broker_ok_def broker_stop_def)

lemma fail_ok: "broker_ok b \<Longrightarrow> broker_ok (failAfterListen e b)"
  by (auto simp: broker_ok_def broker_stop_def failAfterListen_def split: option.split)

lemma step_ok: "broker_ok b \<Longrightarrow> broker_ok (broker_step e b)"
proof (cases e)
  case Server_closed
  assume "broker_ok b"
  then show ?thesis using Server_closed fail_ok [of b] by (auto simp: broker_ok_def)
qed (simp_all add: stop_ok fail_ok, auto simp: broker_ok_def split: option.split)

lemma steps_ok: "broker_ok b \<Longrightarrow> broker_ok (fold broker_step es b)"
  by (induction es arbitrary: b) (auto simp: step_ok)

text \<open>
  The broker stops its sandbox once: in every order of its events the sandbox is stopped at
  most once by the stop, and once more where a failed listen is rolled back; a broker that
  reports a failure after it listened is stopping; and a stopping broker has stopped when the
  server has closed and the sandbox has answered.
\<close>
theorem broker_stops_once:
  "let b = fold broker_step es new_broker in
     bk_sandbox_stops b = (if bk_stop b = Not_stopping \<or> bk_stop b = Closing_server then 0 else 1) + (if bk_listenError b = None then 0 else 1)
     \<and> (if bk_failure b \<noteq> None then bk_stop b \<noteq> Not_stopping else True)
     \<and> bk_stop (fold broker_step [Call_stop, Server_closed, Sandbox_stopped] b) \<notin> {Not_stopping, Closing_server, Stopping_sandbox}"
proof -
  let ?b = "fold broker_step es new_broker"
  have "broker_ok ?b" by (rule steps_ok) (simp add: broker_ok_def new_broker_def)
  moreover have "bk_stop (fold broker_step [Call_stop, Server_closed, Sandbox_stopped] ?b) \<notin> {Not_stopping, Closing_server, Stopping_sandbox}"
    by (cases "bk_stop ?b") (auto simp: broker_stop_def failAfterListen_def split: option.split)
  ultimately show ?thesis by (auto simp: Let_def broker_ok_def)
qed

text \<open>A stop that falls between the start of the sandbox and the listen leaves the server listening.\<close>

lemma late_listen_survives_stop:
  "let b = fold broker_step [Call_stop, Sandbox_started, Listen_succeeded, Sandbox_stopped] new_broker in bk_stop b = Stopped_clean \<and> bk_listening b"
  by code_simp

section \<open>Sockets\<close>

text \<open>
  An allocated socket is private and short: its directory lies strictly under the resolved
  root, which is an existing directory, belongs to the process and to no one else, and the path
  of the socket keeps to the budget. A failed allocation removes the directory it made.
\<close>
theorem socket_allocation_private:
  "case allocateBrokerSocket sf socketRoot budget of
     (Inr (dir, path), left) \<Rightarrow> left = None \<and> path = path_resolve (dir @ ''/b.sock'') \<and>
       (\<exists>rootReal created uid mode. resolveShortSocketRoot sf socketRoot = Inr rootReal \<and> sf_mkdtemp sf (path_resolve (rootReal @ ''/ap'')) = Inr created
          \<and> sf_realpath sf created = Inr dir \<and> strict_prefix (abs_segments rootReal) (abs_segments dir)
          \<and> sf_stat sf dir = Inr (True, uid, mode) \<and> mode mod 512 = 448 \<and> (sf_uid sf = None \<or> sf_uid sf = Some uid)
          \<and> (\<exists>n. budget = Fin (of_int n) \<and> 0 < n \<and> int (length (utf8 path)) \<le> n))
   | (Inl e, left) \<Rightarrow>
       (case resolveShortSocketRoot sf socketRoot of
          Inl _ \<Rightarrow> left = None
        | Inr rootReal \<Rightarrow> (case sf_mkdtemp sf (path_resolve (rootReal @ ''/ap'')) of
            Inl _ \<Rightarrow> left = None
          | Inr created \<Rightarrow> left = (if is_integer budget \<and> num_lt (Fin 0) budget then Some created else None)))"
proof (cases "\<exists>r. fst (allocateBrokerSocket sf socketRoot budget) = Inr r")
  case True
  then obtain dir path left where r: "allocateBrokerSocket sf socketRoot budget = (Inr (dir, path), left)"
    by (metis prod.collapse)
  then obtain rootReal created where a: "is_integer budget" "num_lt (Fin 0) budget" "resolveShortSocketRoot sf socketRoot = Inr rootReal"
      "sf_mkdtemp sf (path_resolve (rootReal @ ''/ap'')) = Inr created"
      "check_allocation sf (js_int (Num budget)) rootReal created = Inr (dir, path)" "left = None"
    by (auto simp: allocateBrokerSocket_def split: if_splits sum.splits)
  from a(1,2) obtain q where q: "budget = Fin q" "of_int \<lfloor>q\<rfloor> = q" "0 < q" by (cases budget) auto
  from a(5) obtain uid mode where c: "sf_realpath sf created = Inr dir" "sf_stat sf dir = Inr (True, uid, mode)" "mode mod 512 = 448"
      "sf_uid sf = None \<or> sf_uid sf = Some uid" "path = path_resolve (dir @ ''/b.sock'')" "int (length (utf8 path)) \<le> \<lfloor>q\<rfloor>"
      "\<not> prefix ''..'' (path_relative rootReal dir)" "\<not> is_absolute (path_relative rootReal dir)" "path_relative rootReal dir \<noteq> []"
    unfolding check_allocation_def using q(1)
    by (auto simp: Let_def first_error_None split: option.splits sum.splits if_splits)
  have rel: "path_relative rootReal dir \<noteq> ''..''" "\<not> prefix ''../'' (path_relative rootReal dir)"
    using c(7) by (auto simp: prefix_def)
  have "strict_prefix (abs_segments rootReal) (abs_segments dir)"
    using inside_iff [of rootReal dir] rel c(8,9) by (simp add: Let_def)
  moreover have "budget = Fin (of_int \<lfloor>q\<rfloor>) \<and> 0 < \<lfloor>q\<rfloor>" using q by (metis of_int_0_less_iff)
  ultimately show ?thesis unfolding r using a(3,4,6) c(1-6) by simp
next
  case False
  then show ?thesis
    by (auto simp: allocateBrokerSocket_def split: prod.splits sum.splits if_splits)
qed

end
