(* ===== verification/Repository_Bound.thy ===== *)
theory Repository_Bound
  imports Task_Manifest Credential_Isolation Direct_Intake
begin

text \<open>
  Pools bound to one repository (\<^verbatim>\<open>agent-execution/repository-bound-pool.ts\<close>): the validation
  of the owner's configuration, of the content of a task, and the binding of both to an
  immutable commit. Nothing is read from a file: the arguments are values.

  Parameters are the file system (\<open>fs\<close>: link test, real path, and the kind, owner and mode of a
  path, None where the call throws; \<open>fs_getuid\<close> is None where the process has no user id, \<open>fs_cwd\<close>
  is its directory), the git top level of a directory and the commit of a ref.
\<close>

section \<open>Values\<close>

record file_system =
  fs_symlink :: "string \<Rightarrow> bool option"
  fs_realpath :: "string \<Rightarrow> string option"
  fs_stat :: "string \<Rightarrow> (bool \<times> int \<times> nat) option"
  fs_getuid :: "int option"
  fs_cwd :: string

record bound_pool =
  bp_poolHome :: string
  bp_runtimeRoot :: string
  bp_repositoryRoot :: string
  bp_persistentReviewCheckout :: string
  bp_baseRef :: string
  bp_allowedChangedPaths :: "string list"
  bp_verificationCommands :: "string list list"
  bp_model :: string
  bp_verificationTimeoutSeconds :: int
  bp_launchTimeoutSeconds :: int

record bound_task =
  bt_taskId :: string
  bt_intent :: string
  bt_changeSpec :: string
  bt_acceptanceCriteria :: "(string \<times> string) list"

record bound_execution =
  be_pool :: bound_pool
  be_baseCommit :: string
  be_task :: bound_task

text \<open>Every refusal is an exception with this prefix.\<close>

definition pool_invalid :: "string \<Rightarrow> string" where
  "pool_invalid message = ''REPOSITORY_BOUND_POOL_INVALID: '' @ message"

definition check :: "(bool \<times> string) list \<Rightarrow> (string + 'a) \<Rightarrow> string + 'a" where
  "check conditions r = (case first_error conditions of Some m \<Rightarrow> Inl (pool_invalid m) | None \<Rightarrow> r)"

definition and_then_sum :: "string + 'a \<Rightarrow> ('a \<Rightarrow> string + 'b) \<Rightarrow> string + 'b" where
  "and_then_sum r f = (case r of Inl m \<Rightarrow> Inl m | Inr x \<Rightarrow> f x)"

section \<open>Checks\<close>

definition CREDENTIAL :: re where
  "CREDENTIAL = caseless (Choice [Word ''token'', Word ''secret'', Word ''password'', Word ''credential'',
     Seqs [Word ''api'', Opt (Cls (\<lambda>c. c \<in> {CHR ''_'', CHR ''-''})), Word ''key''], Word ''github'', Word ''openai'', Word ''moonshot'', Word ''zai''])"

text \<open>\<^verbatim>\<open>/^refs\/heads\/[A-Za-z0-9][A-Za-z0-9._/-]{0,127}$/\<close>.\<close>

definition REF :: "string \<Rightarrow> bool" where
  "REF s = (prefix ''refs/heads/'' s \<and> (case drop 11 s of [] \<Rightarrow> False
     | c # cs \<Rightarrow> alnum c \<and> length cs \<le> 127 \<and> list_all (\<lambda>d. token_char d \<or> d = CHR ''.'' \<or> d = CHR ''/'') cs))"

definition SHA :: "string \<Rightarrow> bool" where
  "SHA s = is_sha1_hex s"

definition inside :: "string \<Rightarrow> string \<Rightarrow> bool" where
  "inside top_dir child = (let r = path_relative top_dir child in r = [] \<or> (\<not> prefix ''..'' r \<and> \<not> is_absolute r))"

text \<open>\<^verbatim>\<open>path.resolve\<close> of one path.\<close>

definition resolve_from :: "string \<Rightarrow> string \<Rightarrow> string" where
  "resolve_from cwd p = path_resolve (if is_absolute p then p else cwd @ ''/'' @ p)"

text \<open>The refusal of a link is thrown inside the guarded block and becomes the other message.\<close>

definition privateDirectory :: "file_system \<Rightarrow> js \<Rightarrow> string \<Rightarrow> string + string" where
  "privateDirectory fs value name =
     check [(\<not> is_text value \<or> \<not> is_absolute (js_str value), name @ '' must be an absolute directory'')]
      (case (fs_symlink fs (js_str value), fs_realpath fs (js_str value)) of
         (Some False, Some dir) \<Rightarrow>
           (case fs_stat fs dir of
              None \<Rightarrow> Inl (pool_invalid (name @ '' is not accessible''))
            | Some (directory, uid, mode) \<Rightarrow>
                check [(\<not> directory \<or> Some uid \<noteq> fs_getuid fs \<or> mode mod 64 \<noteq> 0, name @ '' must be a private owner-only directory'')] (Inr dir))
       | _ \<Rightarrow> Inl (pool_invalid (name @ '' is not accessible'')))"

definition boundedText :: "js \<Rightarrow> string \<Rightarrow> nat \<Rightarrow> string + string" where
  "boundedText value name maximum =
     check [(\<not> is_text value \<or> \<not> between 1 (length (js_str value)) maximum \<or> CHR 0x00 \<in> set (js_str value), name @ '' is invalid'')]
       (Inr (js_str value))"

definition strictKeys :: "js \<Rightarrow> string list \<Rightarrow> string \<Rightarrow> (bool \<times> string) list" where
  "strictKeys value keys name =
     [(list_ex (\<lambda>key. key \<notin> set keys \<or> re_test CREDENTIAL key) (Object_keys value), name @ '' contains an unsupported field''),
      (list_ex (\<lambda>key. \<not> hasOwnField value key) keys, name @ '' is incomplete'')]"

definition one_path :: "js \<Rightarrow> string + string" where
  "one_path item = and_then_sum (boundedText item ''allowedChangedPaths entry'' 512) (\<lambda>path.
     check [(prefix ''/'' path \<or> list_ex (\<lambda>part. part = ''..'' \<or> part = ''.git'') (split_on (\<lambda>c. c = CHR ''/'') path),
             ''allowedChangedPaths entry is invalid'')] (Inr path))"

definition paths :: "js \<Rightarrow> string + string list" where
  "paths value =
     check [(\<not> is_array value \<or> \<not> between 1 (length (items value)) 64, ''allowedChangedPaths is invalid'')]
       (all_or_first (map one_path (items value)))"

definition one_command :: "js \<Rightarrow> string + string list" where
  "one_command argv =
     check [(\<not> is_array argv \<or> \<not> between 1 (length (items argv)) 8, ''verificationCommands entry is invalid'')]
       (and_then_sum (all_or_first (map (\<lambda>item. boundedText item ''verificationCommands argument'' 256) (items argv))) (\<lambda>checked.
          check [(CHR ''/'' \<in> set (hd checked) \<or> list_ex (\<lambda>item. CHR 0x0A \<in> set item \<or> CHR 0x0D \<in> set item) checked,
                  ''verificationCommands entry is invalid'')] (Inr checked)))"

definition commands :: "js \<Rightarrow> string + string list list" where
  "commands value =
     check [(\<not> is_array value \<or> \<not> between 1 (length (items value)) 4, ''verificationCommands is invalid'')]
       (all_or_first (map one_command (items value)))"

text \<open>\<^verbatim>\<open>typeof value === 'number'\<close>, an integer from 60 to 900.\<close>

definition timeout_ok :: "js \<Rightarrow> bool" where
  "timeout_ok value = (isPositiveInteger value \<and> 60 \<le> js_int value \<and> js_int value \<le> 900)"

section \<open>The pool\<close>

definition POOL_KEYS :: "string list" where
  "POOL_KEYS = [''poolHome'', ''runtimeRoot'', ''repositoryRoot'', ''persistentReviewCheckout'', ''baseRef'', ''allowedChangedPaths'',
     ''verificationCommands'', ''model'', ''bounds'']"

definition BOUNDS_KEYS :: "string list" where
  "BOUNDS_KEYS = [''verificationTimeoutSeconds'', ''launchTimeoutSeconds'']"

text \<open>The directory is its own git top level.\<close>

definition top_level_ok :: "file_system \<Rightarrow> (string \<Rightarrow> string option) \<Rightarrow> string \<Rightarrow> string \<Rightarrow> (bool \<times> string) list" where
  "top_level_ok fs gitTopLevel dir name =
     [(gitTopLevel dir = None, name @ '' is not a Git worktree''),
      (map_option (resolve_from (fs_cwd fs)) (gitTopLevel dir) \<noteq> Some dir, name @ '' must be the canonical Git top-level'')]"

definition storage_checks :: "string \<Rightarrow> string \<Rightarrow> string \<Rightarrow> string \<Rightarrow> (bool \<times> string) list" where
  "storage_checks poolHome runtimeRoot repositoryRoot review =
     [(inside repositoryRoot poolHome \<or> inside poolHome repositoryRoot \<or> inside repositoryRoot runtimeRoot,
       ''repositoryRoot and pool storage must be disjoint''),
      (inside review poolHome \<or> inside poolHome review \<or> inside review runtimeRoot \<or> inside runtimeRoot review,
       ''persistentReviewCheckout and pool storage must be disjoint'')]"

definition value_checks :: "js \<Rightarrow> (bool \<times> string) list" where
  "value_checks raw = (let b = fld raw ''bounds'' in
     [(\<not> is_text (fld raw ''baseRef'') \<or> \<not> REF (js_str (fld raw ''baseRef'')), ''baseRef must be a restricted local branch ref''),
      (\<not> isApprovedModelId (fld raw ''model''), ''model is not approved''),
      (\<not> is_object b, ''bounds is invalid'')] @ strictKeys b BOUNDS_KEYS ''bounds'' @
     [(\<not> timeout_ok (fld b ''verificationTimeoutSeconds''), ''verificationTimeoutSeconds is invalid''),
      (\<not> timeout_ok (fld b ''launchTimeoutSeconds''), ''launchTimeoutSeconds is invalid'')])"

definition createRepositoryBoundPool :: "file_system \<Rightarrow> (string \<Rightarrow> string option) \<Rightarrow> js \<Rightarrow> string + bound_pool" where
  "createRepositoryBoundPool fs gitTopLevel raw =
     check ((\<not> is_object raw, ''config must be an object'') # strictKeys raw POOL_KEYS ''config'')
     (and_then_sum (privateDirectory fs (fld raw ''poolHome'') ''poolHome'') (\<lambda>poolHome.
      and_then_sum (privateDirectory fs (fld raw ''runtimeRoot'') ''runtimeRoot'') (\<lambda>runtimeRoot.
      check [(runtimeRoot = poolHome \<or> \<not> inside poolHome runtimeRoot, ''runtimeRoot must be a strict poolHome descendant'')]
     (and_then_sum (privateDirectory fs (fld raw ''repositoryRoot'') ''repositoryRoot'') (\<lambda>repositoryRoot.
      and_then_sum (privateDirectory fs (fld raw ''persistentReviewCheckout'') ''persistentReviewCheckout'') (\<lambda>review.
      check (top_level_ok fs gitTopLevel repositoryRoot ''repositoryRoot''
         @ (if review = repositoryRoot then []
            else top_level_ok fs gitTopLevel review ''persistentReviewCheckout''
              @ [(inside repositoryRoot review \<or> inside review repositoryRoot,
                  ''persistentReviewCheckout and repositoryRoot must be disjoint when distinct'')])
         @ storage_checks poolHome runtimeRoot repositoryRoot review @ value_checks raw)
     (and_then_sum (paths (fld raw ''allowedChangedPaths'')) (\<lambda>allowed.
      and_then_sum (commands (fld raw ''verificationCommands'')) (\<lambda>cmds.
        Inr \<lparr> bp_poolHome = poolHome, bp_runtimeRoot = runtimeRoot, bp_repositoryRoot = repositoryRoot,
          bp_persistentReviewCheckout = review, bp_baseRef = js_str (fld raw ''baseRef''), bp_allowedChangedPaths = allowed,
          bp_verificationCommands = cmds, bp_model = js_str (fld raw ''model''),
          bp_verificationTimeoutSeconds = js_int (fld (fld raw ''bounds'') ''verificationTimeoutSeconds''),
          bp_launchTimeoutSeconds = js_int (fld (fld raw ''bounds'') ''launchTimeoutSeconds'') \<rparr>)))))))))"

section \<open>The task\<close>

fun bound_criteria :: "string list \<Rightarrow> js list \<Rightarrow> string + (string \<times> string) list" where
  "bound_criteria seen [] = Inr []"
| "bound_criteria seen (item # rest) =
     check ((\<not> is_object item, ''acceptanceCriteria entry is invalid'') # strictKeys item [''id'', ''text''] ''acceptanceCriteria entry'')
     (and_then_sum (boundedText (fld item ''id'') ''criterion id'' 128) (\<lambda>i.
      and_then_sum (boundedText (fld item ''text'') ''criterion text'' 1024) (\<lambda>t.
      check [(i \<in> set seen, ''criterion ids must be unique'')]
        (map_sum id (\<lambda>cs. (i, t) # cs) (bound_criteria (i # seen) rest)))))"

definition TASK_KEYS :: "string list" where
  "TASK_KEYS = [''taskId'', ''intent'', ''changeSpec'', ''acceptanceCriteria'']"

definition createRepositoryBoundTaskContent :: "js \<Rightarrow> string + bound_task" where
  "createRepositoryBoundTaskContent raw = (let criteria = fld raw ''acceptanceCriteria'' in
     check ((\<not> is_object raw, ''task content must be an object'') # strictKeys raw TASK_KEYS ''task content''
        @ [(\<not> is_array criteria \<or> \<not> between 1 (length (items criteria)) 8, ''acceptanceCriteria is invalid'')])
     (and_then_sum (bound_criteria [] (items criteria)) (\<lambda>cs.
      and_then_sum (boundedText (fld raw ''taskId'') ''taskId'' 128) (\<lambda>i.
      and_then_sum (boundedText (fld raw ''intent'') ''intent'' 2048) (\<lambda>n.
      and_then_sum (boundedText (fld raw ''changeSpec'') ''changeSpec'' 8192) (\<lambda>s.
        Inr \<lparr> bt_taskId = i, bt_intent = n, bt_changeSpec = s, bt_acceptanceCriteria = cs \<rparr>))))))"

text \<open>\<open>resolveBaseCommit\<close> throws (Inl) or answers with a value.\<close>

definition createRepositoryBoundExecution :: "bound_pool \<Rightarrow> bound_task \<Rightarrow> (string \<Rightarrow> string \<Rightarrow> string + js) \<Rightarrow> string + bound_execution" where
  "createRepositoryBoundExecution pool task resolveBaseCommit =
     and_then_sum (resolveBaseCommit (bp_repositoryRoot pool) (bp_baseRef pool)) (\<lambda>commit.
       check [(\<not> is_text commit \<or> \<not> SHA (js_str commit), ''baseRef did not resolve to an immutable commit'')]
         (Inr \<lparr> be_pool = pool, be_baseCommit = js_str commit, be_task = task \<rparr>))"

end
