(* ===== verification/Repository_Bound_Properties.thy ===== *)
theory Repository_Bound_Properties
  imports Repository_Bound
begin

text \<open>
  What the validators of a repository-bound pool accept, exactly: the configuration, whose
  directories are private and kept apart, and the content of a task.
\<close>

section \<open>The checks\<close>

lemma check_Inr [simp]: "check cs r = Inr x \<longleftrightarrow> list_all (\<lambda>c. \<not> fst c) cs \<and> r = Inr x"
  using first_error_None [of cs] by (auto simp: check_def list_all_iff split: option.split)

lemma and_then_sum_Inr [simp]: "and_then_sum r f = Inr y \<longleftrightarrow> (\<exists>x. r = Inr x \<and> f x = Inr y)"
  by (simp add: and_then_sum_def split: sum.split)

lemma is_text_iff: "is_text v \<longleftrightarrow> v = Str (js_str v)"
  by (cases v) (simp_all add: is_text_def)

definition text_within :: "nat \<Rightarrow> string \<Rightarrow> bool" where
  "text_within maximum s \<longleftrightarrow> 1 \<le> length s \<and> length s \<le> maximum \<and> CHR 0x00 \<notin> set s"

lemma boundedText_Inr [simp]: "boundedText v name k = Inr s \<longleftrightarrow> v = Str s \<and> text_within k s"
  by (cases v) (auto simp: boundedText_def is_text_def between_def text_within_def)

lemma all_or_first_rel: "all_or_first (map f xs) = Inr ys \<longleftrightarrow> list_all2 (\<lambda>x y. f x = Inr y) xs ys"
proof (induction xs arbitrary: ys)
  case (Cons x xs)
  show ?case
    by (cases "f x"; cases "all_or_first (map f xs)") (auto simp: list_all2_Cons1 simp flip: Cons)
qed auto

lemma all_or_first_spelled:
  assumes "\<And>x y. f x = Inr y \<longleftrightarrow> x = g y \<and> P y"
  shows "all_or_first (map f xs) = Inr ys \<longleftrightarrow> xs = map g ys \<and> list_all P ys"
proof -
  have "list_all2 (\<lambda>x y. x = g y \<and> P y) xs ys \<longleftrightarrow> xs = map g ys \<and> list_all P ys"
    by (induction ys arbitrary: xs) (auto simp: list_all2_Cons2)
  then show ?thesis by (simp add: all_or_first_rel assms)
qed

definition path_ok :: "string \<Rightarrow> bool" where
  "path_ok p \<longleftrightarrow> text_within 512 p \<and> \<not> prefix ''/'' p \<and> ''..'' \<notin> set (split_on (\<lambda>c. c = CHR ''/'') p) \<and> ''.git'' \<notin> set (split_on (\<lambda>c. c = CHR ''/'') p)"

lemma one_path_Inr: "one_path v = Inr p \<longleftrightarrow> v = Str p \<and> path_ok p"
  by (auto simp: one_path_def path_ok_def list_ex_iff)

lemma array_spelled: "is_array v \<longleftrightarrow> v = Arr (items v)"
  by (cases v) simp_all

lemma paths_Inr: "paths v = Inr ps \<longleftrightarrow> v = Arr (map Str ps) \<and> between 1 (length ps) 64 \<and> list_all path_ok ps"
  unfolding paths_def check_Inr all_or_first_spelled [of one_path Str path_ok, OF one_path_Inr]
  by (cases v) auto

definition command_ok :: "string list \<Rightarrow> bool" where
  "command_ok argv \<longleftrightarrow> between 1 (length argv) 8 \<and> list_all (text_within 256) argv \<and> CHR ''/'' \<notin> set (hd argv)
     \<and> list_all (\<lambda>a. CHR 0x0A \<notin> set a \<and> CHR 0x0D \<notin> set a) argv"

lemma one_command_Inr: "one_command v = Inr argv \<longleftrightarrow> v = Arr (map Str argv) \<and> command_ok argv"
proof -
  have "all_or_first (map (\<lambda>item. boundedText item ''verificationCommands argument'' 256) xs) = Inr ys
      \<longleftrightarrow> xs = map Str ys \<and> list_all (text_within 256) ys" for xs ys
    by (rule all_or_first_spelled) simp
  then show ?thesis by (cases v) (auto simp: one_command_def command_ok_def list_ex_iff list_all_iff)
qed

lemma commands_Inr:
  "commands v = Inr cs \<longleftrightarrow> v = Arr (map (\<lambda>argv. Arr (map Str argv)) cs) \<and> between 1 (length cs) 4 \<and> list_all command_ok cs"
  unfolding commands_def check_Inr all_or_first_spelled [of one_command "\<lambda>argv. Arr (map Str argv)" command_ok, OF one_command_Inr]
  by (cases v) auto

lemma timeout_ok_iff: "timeout_ok v \<longleftrightarrow> (\<exists>n. v = JInt n \<and> 60 \<le> n \<and> n \<le> 900)"
  by (auto simp: timeout_ok_def dest!: isPositiveIntegerD)

lemma keys_are_no_credentials:
  "list_all (\<lambda>k. \<not> re_test CREDENTIAL k) (POOL_KEYS @ BOUNDS_KEYS @ TASK_KEYS @ [''id'', ''text''])"
  by code_simp

lemma strictKeys_pass:
  assumes "list_all (\<lambda>k. \<not> re_test CREDENTIAL k) keys"
  shows "list_all (\<lambda>c. \<not> fst c) (strictKeys v keys name) \<longleftrightarrow> set (Object_keys v) = set keys"
  using assms by (auto simp: strictKeys_def list_all_iff list_ex_iff hasOwnField_def)

lemma strict_keys:
  "list_all (\<lambda>c. \<not> fst c) (strictKeys v POOL_KEYS name) \<longleftrightarrow> set (Object_keys v) = set POOL_KEYS"
  "list_all (\<lambda>c. \<not> fst c) (strictKeys v BOUNDS_KEYS name) \<longleftrightarrow> set (Object_keys v) = set BOUNDS_KEYS"
  "list_all (\<lambda>c. \<not> fst c) (strictKeys v TASK_KEYS name) \<longleftrightarrow> set (Object_keys v) = set TASK_KEYS"
  "list_all (\<lambda>c. \<not> fst c) (strictKeys v [''id'', ''text''] name) \<longleftrightarrow> set (Object_keys v) = {''id'', ''text''}"
  using keys_are_no_credentials unfolding list_all_append by (simp_all only: strictKeys_pass list.set simp_thms)

section \<open>Directories\<close>

text \<open>The place a value names: an absolute path, no link, to a directory of this process that no one else can use.\<close>

definition private_at :: "file_system \<Rightarrow> js \<Rightarrow> string \<Rightarrow> bool" where
  "private_at fs v dir \<longleftrightarrow> (\<exists>p uid mode. v = Str p \<and> is_absolute p \<and> fs_symlink fs p = Some False \<and> fs_realpath fs p = Some dir
     \<and> fs_stat fs dir = Some (True, uid, mode) \<and> fs_getuid fs = Some uid \<and> mode mod 64 = 0)"

lemma privateDirectory_Inr: "privateDirectory fs v name = Inr dir \<longleftrightarrow> private_at fs v dir"
  by (cases v) (auto simp: privateDirectory_def private_at_def is_text_def split: option.splits bool.splits prod.splits)

text \<open>The place lies under the other one, where a first segment that begins with two dots does not count.\<close>

definition under :: "string \<Rightarrow> string \<Rightarrow> bool" where
  "under top_dir child \<longleftrightarrow> (\<exists>rest. abs_segments child = abs_segments top_dir @ rest \<and> (rest = [] \<or> \<not> prefix ''..'' (hd rest)))"

lemma inside_under: "inside top_dir child \<longleftrightarrow> under top_dir child"
proof -
  let ?fs = "abs_segments top_dir" and ?ts = "abs_segments child"
  from relative_segments_cases [of ?ts ?fs] show ?thesis
  proof (elim disjE exE conjE)
    fix rest assume r: "?ts = ?fs @ rest" "relative_segments ?fs ?ts = rest"
    show ?thesis
    proof (cases rest)
      case (Cons s us)
      have s: "plain_segment s" using abs_segments_plain [of child] r(1) Cons by simp
      have rel: "path_relative top_dir child = join_with ''/'' (s # us)" unfolding path_relative_def r(2) Cons ..
      have "prefix ''..'' (join_with ''/'' (s # us)) \<longleftrightarrow> prefix ''..'' s"
        using s unfolding join_Cons plain_segment_def by (cases s; cases "tl s") (auto simp: prefix_def)
      then show ?thesis using plain_relative [OF s, of us] r Cons by (simp add: inside_def under_def rel)
    qed (use r in \<open>simp add: inside_def under_def path_relative_def\<close>)
  next
    fix rest assume r: "\<not> prefix ?fs ?ts" "relative_segments ?fs ?ts = ''..'' # rest"
    then have "prefix ''..'' (path_relative top_dir child)" by (simp add: path_relative_def join_Cons)
    moreover from this have "path_relative top_dir child \<noteq> []" by auto
    ultimately show ?thesis using r(1) by (auto simp: inside_def under_def prefix_def Let_def)
  qed
qed

text \<open>
  A directory whose name begins with two dots counts as outside: a pool can live inside the
  repository it works on.
\<close>

lemma dotted_name_is_outside:
  "abs_segments ''/r/..pool'' = abs_segments ''/r'' @ [''..pool'']" "\<not> inside ''/r'' ''/r/..pool''"
  by code_simp+

section \<open>The pool\<close>

definition apart :: "string \<Rightarrow> string \<Rightarrow> bool" where
  "apart a b \<longleftrightarrow> \<not> under a b \<and> \<not> under b a"

definition own_top_level :: "file_system \<Rightarrow> (string \<Rightarrow> string option) \<Rightarrow> string \<Rightarrow> bool" where
  "own_top_level fs gitTopLevel dir \<longleftrightarrow> map_option (resolve_from (fs_cwd fs)) (gitTopLevel dir) = Some dir"

lemma top_level_pass [simp]: "list_all (\<lambda>c. \<not> fst c) (top_level_ok fs gitTopLevel dir name) \<longleftrightarrow> own_top_level fs gitTopLevel dir"
  by (auto simp: top_level_ok_def own_top_level_def)

definition directories_ok :: "file_system \<Rightarrow> (string \<Rightarrow> string option) \<Rightarrow> bound_pool \<Rightarrow> bool" where
  "directories_ok fs gitTopLevel p \<longleftrightarrow> bp_runtimeRoot p \<noteq> bp_poolHome p \<and> under (bp_poolHome p) (bp_runtimeRoot p)
     \<and> own_top_level fs gitTopLevel (bp_repositoryRoot p) \<and> own_top_level fs gitTopLevel (bp_persistentReviewCheckout p)
     \<and> (bp_persistentReviewCheckout p = bp_repositoryRoot p \<or> apart (bp_repositoryRoot p) (bp_persistentReviewCheckout p))
     \<and> apart (bp_repositoryRoot p) (bp_poolHome p) \<and> \<not> under (bp_repositoryRoot p) (bp_runtimeRoot p)
     \<and> apart (bp_persistentReviewCheckout p) (bp_poolHome p) \<and> apart (bp_persistentReviewCheckout p) (bp_runtimeRoot p)"

lemma storage_pass:
  "list_all (\<lambda>c. \<not> fst c) (storage_checks home runtime repo review) \<longleftrightarrow>
     apart repo home \<and> \<not> under repo runtime \<and> apart review home \<and> apart review runtime"
  by (simp add: storage_checks_def inside_under apart_def)

lemma value_checks_pass:
  "list_all (\<lambda>c. \<not> fst c) (value_checks raw) \<longleftrightarrow> (\<exists>ref model. fld raw ''baseRef'' = Str ref \<and> REF ref
     \<and> fld raw ''model'' = Str model \<and> model \<in> set APPROVED_MODELS \<and> is_object (fld raw ''bounds'')
     \<and> set (Object_keys (fld raw ''bounds'')) = set BOUNDS_KEYS
     \<and> timeout_ok (fld (fld raw ''bounds'') ''verificationTimeoutSeconds'') \<and> timeout_ok (fld (fld raw ''bounds'') ''launchTimeoutSeconds''))"
  unfolding value_checks_def Let_def list_all_append strict_keys
  by (cases "fld raw ''baseRef''"; cases "fld raw ''model''") (auto simp: is_text_def)

text \<open>
  C33. A bound pool is exactly what its configuration spells: an object with the nine keys, four
  private directories of the process (absolute, no links, owner-only), the runtime strictly
  under the pool's home, both checkouts their own git top level and apart from the pool's
  storage and from each other unless they are the same, a restricted local branch, an approved
  model, both timeouts from 60 to 900 seconds, one to 64 relative paths without parent and git
  segments, and one to four commands of one to eight one-line arguments with a bare program.
  Nothing else is accepted, and nothing of this is refused.
\<close>
theorem bound_pool_exact:
  "createRepositoryBoundPool fs gitTopLevel raw = Inr p \<longleftrightarrow>
     is_object raw \<and> set (Object_keys raw) = set POOL_KEYS
     \<and> private_at fs (fld raw ''poolHome'') (bp_poolHome p) \<and> private_at fs (fld raw ''runtimeRoot'') (bp_runtimeRoot p)
     \<and> private_at fs (fld raw ''repositoryRoot'') (bp_repositoryRoot p)
     \<and> private_at fs (fld raw ''persistentReviewCheckout'') (bp_persistentReviewCheckout p) \<and> directories_ok fs gitTopLevel p
     \<and> fld raw ''baseRef'' = Str (bp_baseRef p) \<and> REF (bp_baseRef p)
     \<and> fld raw ''model'' = Str (bp_model p) \<and> bp_model p \<in> set APPROVED_MODELS
     \<and> is_object (fld raw ''bounds'') \<and> set (Object_keys (fld raw ''bounds'')) = set BOUNDS_KEYS
     \<and> fld (fld raw ''bounds'') ''verificationTimeoutSeconds'' = JInt (bp_verificationTimeoutSeconds p) \<and> bp_verificationTimeoutSeconds p \<in> {60..900}
     \<and> fld (fld raw ''bounds'') ''launchTimeoutSeconds'' = JInt (bp_launchTimeoutSeconds p) \<and> bp_launchTimeoutSeconds p \<in> {60..900}
     \<and> fld raw ''allowedChangedPaths'' = Arr (map Str (bp_allowedChangedPaths p))
     \<and> between 1 (length (bp_allowedChangedPaths p)) 64 \<and> list_all path_ok (bp_allowedChangedPaths p)
     \<and> fld raw ''verificationCommands'' = Arr (map (\<lambda>argv. Arr (map Str argv)) (bp_verificationCommands p))
     \<and> between 1 (length (bp_verificationCommands p)) 4 \<and> list_all command_ok (bp_verificationCommands p)"
  (is "?created \<longleftrightarrow> ?ok")
proof
  assume ?created
  then obtain home runtime repo review allowed cmds where *: "is_object raw" "set (Object_keys raw) = set POOL_KEYS"
      "private_at fs (fld raw ''poolHome'') home" "private_at fs (fld raw ''runtimeRoot'') runtime"
      "private_at fs (fld raw ''repositoryRoot'') repo" "private_at fs (fld raw ''persistentReviewCheckout'') review"
      "runtime \<noteq> home" "under home runtime" "own_top_level fs gitTopLevel repo" "own_top_level fs gitTopLevel review"
      "review = repo \<or> apart repo review" "list_all (\<lambda>c. \<not> fst c) (storage_checks home runtime repo review)"
      "list_all (\<lambda>c. \<not> fst c) (value_checks raw)"
      "paths (fld raw ''allowedChangedPaths'') = Inr allowed" "commands (fld raw ''verificationCommands'') = Inr cmds"
      "p = \<lparr> bp_poolHome = home, bp_runtimeRoot = runtime, bp_repositoryRoot = repo,
          bp_persistentReviewCheckout = review, bp_baseRef = js_str (fld raw ''baseRef''), bp_allowedChangedPaths = allowed,
          bp_verificationCommands = cmds, bp_model = js_str (fld raw ''model''),
          bp_verificationTimeoutSeconds = js_int (fld (fld raw ''bounds'') ''verificationTimeoutSeconds''),
          bp_launchTimeoutSeconds = js_int (fld (fld raw ''bounds'') ''launchTimeoutSeconds'') \<rparr>"
    by (auto simp: createRepositoryBoundPool_def strict_keys privateDirectory_Inr inside_under apart_def split: if_splits)
  from *(13) [unfolded value_checks_pass timeout_ok_iff] obtain ref model m n where
      "fld raw ''baseRef'' = Str ref" "REF ref" "fld raw ''model'' = Str model" "model \<in> set APPROVED_MODELS"
      "is_object (fld raw ''bounds'')" "set (Object_keys (fld raw ''bounds'')) = set BOUNDS_KEYS"
      "fld (fld raw ''bounds'') ''verificationTimeoutSeconds'' = JInt m" "60 \<le> m" "m \<le> 900"
      "fld (fld raw ''bounds'') ''launchTimeoutSeconds'' = JInt n" "60 \<le> n" "n \<le> 900"
    by blast
  with * show ?ok by (simp add: paths_Inr commands_Inr storage_pass directories_ok_def)
next
  assume ok: ?ok
  have dirs: "privateDirectory fs (fld raw ''poolHome'') ''poolHome'' = Inr (bp_poolHome p)"
      "privateDirectory fs (fld raw ''runtimeRoot'') ''runtimeRoot'' = Inr (bp_runtimeRoot p)"
      "privateDirectory fs (fld raw ''repositoryRoot'') ''repositoryRoot'' = Inr (bp_repositoryRoot p)"
      "privateDirectory fs (fld raw ''persistentReviewCheckout'') ''persistentReviewCheckout'' = Inr (bp_persistentReviewCheckout p)"
    using ok by (simp_all add: privateDirectory_Inr)
  have lists: "paths (fld raw ''allowedChangedPaths'') = Inr (bp_allowedChangedPaths p)"
      "commands (fld raw ''verificationCommands'') = Inr (bp_verificationCommands p)"
    using ok by (simp_all add: paths_Inr commands_Inr)
  have d: "directories_ok fs gitTopLevel p" using ok by blast
  have checks: "list_all (\<lambda>c. \<not> fst c) (value_checks raw)"
      "list_all (\<lambda>c. \<not> fst c) (storage_checks (bp_poolHome p) (bp_runtimeRoot p) (bp_repositoryRoot p) (bp_persistentReviewCheckout p))"
    using ok d by (auto simp: value_checks_pass timeout_ok_iff storage_pass directories_ok_def)
  show ?created
    using ok d dirs lists checks
    by (cases p) (auto simp: createRepositoryBoundPool_def strict_keys inside_under directories_ok_def apart_def)
qed

section \<open>The task\<close>

definition spelled_criteria :: "js list \<Rightarrow> (string \<times> string) list \<Rightarrow> bool" where
  "spelled_criteria vs cs \<longleftrightarrow> list_all2 (\<lambda>v c. is_object v \<and> set (Object_keys v) = {''id'', ''text''}
     \<and> fld v ''id'' = Str (fst c) \<and> fld v ''text'' = Str (snd c) \<and> text_within 128 (fst c) \<and> text_within 1024 (snd c)) vs cs"

lemma map_sum_Cons_Inr: "map_sum id (\<lambda>cs. c # cs) r = Inr cs \<longleftrightarrow> (\<exists>ds. r = Inr ds \<and> cs = c # ds)"
  by (cases r) auto

lemma bound_criteria_Inr:
  "bound_criteria seen vs = Inr cs \<longleftrightarrow> spelled_criteria vs cs \<and> distinct (map fst cs) \<and> set seen \<inter> fst ` set cs = {}"
proof (induction vs arbitrary: seen cs)
  case (Cons v vs)
  note IH = Cons.IH
  have "bound_criteria seen (v # vs) = Inr cs \<longleftrightarrow> is_object v \<and> set (Object_keys v) = {''id'', ''text''}
      \<and> (\<exists>i t ds. fld v ''id'' = Str i \<and> text_within 128 i \<and> fld v ''text'' = Str t \<and> text_within 1024 t \<and> i \<notin> set seen
        \<and> bound_criteria (i # seen) vs = Inr ds \<and> cs = (i, t) # ds)"
    by (simp add: strict_keys map_sum_Cons_Inr)
  also have "\<dots> \<longleftrightarrow> spelled_criteria (v # vs) cs \<and> distinct (map fst cs) \<and> set seen \<inter> fst ` set cs = {}"
  proof (cases cs)
    case (Cons c ds)
    obtain i t where "c = (i, t)" by fastforce
    then show ?thesis unfolding Cons IH by (simp add: spelled_criteria_def) blast
  qed (simp add: spelled_criteria_def)
  finally show ?case .
qed (auto simp: spelled_criteria_def)

text \<open>
  The content of a task is exactly what its value spells: the four keys, texts within their
  limits, one to eight criteria with the two keys and distinct ids, in their order.
\<close>
theorem bound_task_exact:
  "createRepositoryBoundTaskContent raw = Inr t \<longleftrightarrow>
     is_object raw \<and> set (Object_keys raw) = set TASK_KEYS
     \<and> fld raw ''taskId'' = Str (bt_taskId t) \<and> text_within 128 (bt_taskId t)
     \<and> fld raw ''intent'' = Str (bt_intent t) \<and> text_within 2048 (bt_intent t)
     \<and> fld raw ''changeSpec'' = Str (bt_changeSpec t) \<and> text_within 8192 (bt_changeSpec t)
     \<and> (\<exists>vs. fld raw ''acceptanceCriteria'' = Arr vs \<and> between 1 (length vs) 8 \<and> spelled_criteria vs (bt_acceptanceCriteria t))
     \<and> distinct (map fst (bt_acceptanceCriteria t))"
  by (cases t; cases "fld raw ''acceptanceCriteria''")
    (auto simp: createRepositoryBoundTaskContent_def Let_def strict_keys bound_criteria_Inr)

lemma bound_execution_exact:
  "createRepositoryBoundExecution p t resolve = Inr x \<longleftrightarrow>
     (\<exists>sha. resolve (bp_repositoryRoot p) (bp_baseRef p) = Inr (Str sha) \<and> is_sha1_hex sha
        \<and> x = \<lparr> be_pool = p, be_baseCommit = sha, be_task = t \<rparr>)"
  by (auto simp: createRepositoryBoundExecution_def is_text_iff SHA_def)
end
