(* ===== verification/Spec2Isabelle.thy ===== *)
theory Spec2Isabelle
  imports Queue_Properties Routing_Properties Context_Properties Backend_Fallback Intake_Properties Graph_Properties Doc_Properties Decomposition_Properties Pool_Proof_Properties Task_Manifest_Properties Credential_Isolation Transcript_Retention Sandbox_Properties Claim_Properties Launch_Properties Broker_Properties Repository_Bound_Properties
begin

text \<open>
  Agent Pool: the supervisor that turns an approved graph of work units into attempts of
  coding agents, and the pool that runs them. This development models the deterministic
  core of the program, the TypeScript code under \<^verbatim>\<open>src/src/domains\<close> and \<^verbatim>\<open>src/src/composition\<close>,
  and proves what makes each part correct. Names of definitions follow the source.

  \<^bold>\<open>The program.\<close> Work enters as a hand-authored submission over HTTP
  (\<^verbatim>\<open>work-intake\<close>) or as an approved decomposition; both end in the SQLite store
  (\<^verbatim>\<open>orchestration/sqlite-store.ts\<close>) as works whose nodes carry a lifecycle state, a version and
  dependencies. A dispatch pass (\<^verbatim>\<open>dispatch-service.ts\<close>) computes the ready frontier, asks the
  routing domain for a builder and an evaluator model, creates attempts and puts envelopes on
  the queue. A consumer turns an envelope back into an attempt contract
  (\<^verbatim>\<open>attempt-dispatch.ts\<close>, \<^verbatim>\<open>agent-execution/attempt-contract.ts\<close>); the pool
  (\<^verbatim>\<open>minimal-pool-runtime.ts\<close>) runs one attempt per slot under a launch marker that
  \<^verbatim>\<open>execution-context.ts\<close> checks. Results come back under a lease; acceptance, completion
  and reconciliation are store operations again.

  \<^bold>\<open>Values.\<close> \<open>Prelude\<close> has results, guards, decimal printing, comparator sort,
  tables keyed by a column, and the two run locales \<open>invariant_system\<close> and
  \<open>guarantee_system\<close>. \<open>Js_Values\<close> has the JavaScript values that cross the validated
  boundaries, \<open>Iso_Time\<close> the calendar and the ISO format of \<^verbatim>\<open>Date\<close>. A string is a list of
  code units below 256; integers are \<^typ>\<open>int\<close>, since the source keeps them in the safe
  range; a date is its time value in milliseconds.

  \<^bold>\<open>Store.\<close> \<open>Orch_Contracts\<close> (\<^verbatim>\<open>contracts.ts\<close>, \<^verbatim>\<open>lifecycle.ts\<close>),
  \<open>Kahn\<close> and \<open>Work_Validation\<close> (\<^verbatim>\<open>validateWork\<close>), \<open>Store_Schema\<close> (the tables after
  the migrations, one record per table), \<open>Store_Ops\<close> and \<open>Store_Evidence\<close> (one definition
  per operation of \<^verbatim>\<open>createSqliteStore\<close>, each returning its answer and the next database).
  The clock, the token generator, the digest and \<^verbatim>\<open>localeCompare\<close> are fields of an
  environment argument. \<open>Store_Steps\<close> is the abstract specification: the transactions a
  store may commit, as an inductive relation, with those of a request on a lease, and the
  refinement of every operation to it.
  \<open>Store_Invariants\<close> and \<open>Store_Guarantees\<close> interpret the run locales;
  \<open>Store_Properties\<close> draws the consequences: lifecycle, fencing, provenance, append-only
  ledgers, idempotent imports, compare-and-swap. \<open>Store_Scenario\<close> is a concrete run used by the
  witnesses.

  \<^bold>\<open>Dispatch.\<close> \<open>Attempt_Contract\<close>, \<open>Dispatch\<close>, \<open>Dispatch_Properties\<close> and
  \<open>Queue_Properties\<close>: the frontier, the dispatch pass as a run of the store, the queue
  consumer and startup reconciliation. The queue and the routing resolver are functions given
  as arguments.

  \<^bold>\<open>Routing.\<close> \<open>Approved_Models\<close>, \<open>Routing_Policy\<close>, \<open>Model_Router\<close>,
  \<open>Routing_Properties\<close>: the four policy loaders share the locale \<open>policy_loader\<close>; the pair
  loops are equated with the first valid pair of a product.

  \<^bold>\<open>Agent execution.\<close> \<open>Execution_Context\<close> (the launcher's gate), \<open>Pool_Runtime\<close> (slots,
  queue, shutdown and the run of one job over ports), \<open>Pool_Properties\<close>,
  \<open>Context_Properties\<close>, and \<open>Backend_Fallback\<close> (phase grants and the cost ledger). The
  runtime's collaborators are a record of functions; a promise is its outcome, and one that
  never settles leaves its slot busy.

  \<^bold>\<open>Work intake.\<close> \<open>Unit_Validation\<close> and \<open>Direct_Intake\<close> model
  \<^verbatim>\<open>unit-validation.ts\<close>, \<^verbatim>\<open>payload-hash.ts\<close>, \<^verbatim>\<open>idempotency.ts\<close>,
  \<^verbatim>\<open>direct-intake.ts\<close> and \<^verbatim>\<open>http-adapter.ts\<close>; \<open>Unit_Validation_Properties\<close> shows that
  validation accepts exactly the bodies that spell a well-formed submission, \<open>Intake_Properties\<close> that the hashed
  text and the scope key are injective, that a key is used once, and what each HTTP status
  means. The injected store is the locale \<open>idempotency_store\<close>, interpreted on the source's
  in-memory store.

  \<^bold>\<open>Decomposition.\<close> \<open>Js_Regex\<close> (backtracking regular expressions), \<open>Sanitizer\<close>,
  \<open>Decomposition\<close> and \<open>Decomposition_Run\<close> model \<^verbatim>\<open>work-decomposition\<close>: limits, job and
  candidate validation, prompts, the call with its deadline, the repair step and the records.
  \<open>Redaction\<close> states what a redaction is as a relation between a text and what is left of it,
  proves that the sanitizer computes it, and shows which secrets the shipped policy
  (\<^verbatim>\<open>config/sanitization-policy.json\<close>) leaves in no text: its locale \<open>kept_out\<close> is interpreted on
  the assignments of keys, secrets and passwords and on the private key block.
  \<open>Sanitizer_Properties\<close>, \<open>Prompt_Properties\<close> and \<open>Decomposition_Properties\<close> show that a run
  calls the model at most twice, with bounded prompts made of fixed texts and redacted ones.

  \<^bold>\<open>Codebase knowledge.\<close> \<open>Index_Contracts\<close> (sensitive and lexical paths, keys),
  \<open>Graph_Index\<close> (graph validation, breadth retrieval, predicted touch, cache eviction) and
  \<open>Doc_Discovery\<close> (links, front matter, the breadth-first walk), with \<open>Path_Properties\<close>,
  \<open>Graph_Properties\<close> and \<open>Doc_Properties\<close>.

  \<^bold>\<open>Proof of a task.\<close> \<open>Task_Manifest\<close> (\<^verbatim>\<open>composition/task-manifest.ts\<close>), \<open>Pool_Proof\<close>
  (\<^verbatim>\<open>verification/pool-proof-verifier.ts\<close> and the persistence of its verdicts),
  \<open>Credential_Isolation\<close>, \<open>Transcript_Retention\<close> (with the workspace lifecycle). Each has an
  exact characterisation of what it accepts. The external git, the fixture tests, the object
  store and the audit store are records of functions.

  \<^bold>\<open>Sandbox.\<close> \<open>Repository_Sandbox\<close> is the asynchronous machine of
  \<^verbatim>\<open>createRepositorySandbox\<close>: one event per atomic step between two suspensions of the
  source, and \<open>handle\<close> their effect. \<open>Sandbox_Invariants\<close> holds the invariant of all
  interleavings, \<open>Sandbox_Properties\<close> the ownership of the container, the order of answers and
  the settling of a stop, with the crashes and stalls the code allows.

  \<^bold>\<open>Launcher.\<close> \<open>Launch_Context\<close> has the fault directive, the identity capsule, the ownership of a
  workspace and the verified profile; \<open>Pi_Launcher\<close> the launch of
  \<^verbatim>\<open>pool-proof-pi-launcher.ts\<close> as stages that answer with an outcome and the effects they had, in
  order; \<open>Launch_Process\<close> the child process, one event per callback, with its timers and the
  cleanup all its endings share. \<open>Launch_Properties\<close> shows that a worker starts only after every
  check and without foreign credentials, and that a failed launch leaves none behind;
  \<open>Launch_Process\<close> that a launch settles once, after its cleanup, as its attempt.

  \<^bold>\<open>Broker.\<close> \<open>Sandbox_Broker\<close> models \<^verbatim>\<open>repository-tool-adapters.ts\<close>, \<^verbatim>\<open>sandbox-broker.ts\<close>
  (a connection and the server, one event per callback) and \<^verbatim>\<open>broker-socket.ts\<close>;
  \<open>Broker_Properties\<close> has the paths that are forwarded, the single answer of a connection, the
  stop of the server and the private socket. \<open>Repository_Bound\<close> and \<open>Repository_Bound_Properties\<close>
  model \<^verbatim>\<open>repository-bound-pool.ts\<close> and say exactly which configurations and tasks it accepts.

  \<^bold>\<open>Service.\<close> \<open>Task_Run\<close> is \<^verbatim>\<open>composition/task-runner.ts\<close> over the pool, the verifier and
  the store; \<open>Direct_Service\<close> is \<^verbatim>\<open>composition/direct-task-service.ts\<close> over the intake, the
  manifest, the store and the runner; \<open>Js_Objects\<close> has the spreading of objects.
  \<open>Task_Run_Properties\<close>, \<open>Direct_Service_Properties\<close> and \<open>Claim_Properties\<close> compose the
  guarantees of the parts: every call of the service is a run of the store (the locale
  \<open>claimed_runner\<close>, interpreted on the runner), a key is accepted once, a status is the
  caller's own, a task runs under a lease, and nothing passes without a stored proof. A call of
  the service is one step: requests that arrive while a claim is suspended in its run are
  ordered before or after it.

  \<^bold>\<open>Loops and fuel.\<close> Every loop of the source that is modelled ends: the two work-list loops
  of Kahn's algorithm by the measure work list plus positive degrees, the splicing loop of the
  cache eviction by the entries that are left, the walk of documentation discovery by the
  levels below the depth limit, the others by structural recursion. No definition runs on fuel.
  A stopping sandbox settles within eight of its
  own steps, by a rank that each of them lowers.

  \<^bold>\<open>Not modelled.\<close> Opening the database file and running migrations. Attempt resources
  (directories, random ids) and the building of the external code index (a process over copied
  files). The container driver and the debug output of
  the launcher: what the modelled code learns from processes (their output and exit, the
  outcome of a command, of git, the lines of a supervisor), from sockets and from the file
  system is a parameter or an event. The provider adapters hold no decision. The harness packages are scripts that drive
  whole pools of processes for reports. SHA-256, the printing of floating-point numbers,
  JSON text, \<^verbatim>\<open>localeCompare\<close> and the clock are parameters. Freezing of objects has no
  counterpart where values cannot be mutated.
\<close>

end
